(* ===== verification/Heureka_Base.thy ===== *)
theory Heureka_Base
  imports Main "HOL-Library.Char_ord" "HOL-Library.List_Lexorder"
begin

text \<open>
  The prelude of the development. It fixes how Go values are represented:
  a Go \<open>string\<close> is a \<open>string\<close> (a list of bytes), an \<open>int64\<close> that is only an
  identifier is an \<open>int\<close>, a pointer that may be nil is an \<open>option\<close>, a call that may
  return an error is a sum with the error on the left, and a run-time panic is an
  explicit value of the type \<open>go_panic\<close>. It also holds the decimal conversions
  of \<open>strconv\<close>, the few string functions the code uses, and the list lemmas the
  component theories share.
\<close>

section \<open>Panics and results\<close>

datatype go_panic =
    IndexOutOfRange
  | DivideByZero
  | NilDereference
  | ExplicitPanic string

type_synonym 'a go = "go_panic + 'a"
type_synonym id64 = int

text \<open>Sequencing of calls that may fail: the first failure is the result.\<close>

definition bindR :: "'e + 'a \<Rightarrow> ('a \<Rightarrow> 'e + 'b) \<Rightarrow> 'e + 'b" where
  "bindR m f = (case m of Inl e \<Rightarrow> Inl e | Inr x \<Rightarrow> f x)"

lemma bindR_simps [simp]:
  "bindR (Inl e) f = Inl e"
  "bindR (Inr x) f = f x"
  by (simp_all add: bindR_def)

lemma bindR_eq_Inr [simp]: "bindR m f = Inr y \<longleftrightarrow> (\<exists>x. m = Inr x \<and> f x = Inr y)"
  by (cases m) auto

lemma bindR_cong [fundef_cong]:
  assumes "m = m'" and "\<And>x. m' = Inr x \<Longrightarrow> f x = g x"
  shows "bindR m f = bindR m' g"
  using assms by (cases m') auto

section \<open>Decimal conversion (strconv)\<close>

definition digit_char :: "nat \<Rightarrow> char" where
  "digit_char d = char_of (48 + d)"

definition is_digit :: "char \<Rightarrow> bool" where
  "is_digit c \<longleftrightarrow> 48 \<le> (of_char c :: nat) \<and> (of_char c :: nat) \<le> 57"

definition digit_val :: "char \<Rightarrow> nat" where
  "digit_val c = of_char c - 48"

fun nat_str :: "nat \<Rightarrow> string" where
  "nat_str n = (if n < 10 then [digit_char n] else nat_str (n div 10) @ [digit_char (n mod 10)])"

declare nat_str.simps [simp del]

text \<open>\<open>strconv.FormatInt(i, 10)\<close>, which is also what \<open>fmt.Sprint\<close> prints for an int64.\<close>

definition FormatInt :: "int \<Rightarrow> string" where
  "FormatInt i = (if i < 0 then CHR ''-'' # nat_str (nat (- i)) else nat_str (nat i))"

definition digits_val :: "string \<Rightarrow> nat" where
  "digits_val s = foldl (\<lambda>a c. 10 * a + digit_val c) 0 s"

definition parse_nat :: "string \<Rightarrow> nat option" where
  "parse_nat s = (if s \<noteq> [] \<and> list_all is_digit s then Some (digits_val s) else None)"

definition in_int64 :: "int \<Rightarrow> bool" where
  "in_int64 i \<longleftrightarrow> - (2 ^ 63) \<le> i \<and> i < 2 ^ 63"

text \<open>\<open>strconv.ParseInt(s, 10, 64)\<close>: an optional sign, at least one digit, in range.\<close>

definition ParseInt :: "string \<Rightarrow> int option" where
  "ParseInt s =
     (let (neg, ds) = (case s of c # cs \<Rightarrow> if c = CHR ''-'' then (True, cs)
                                 else if c = CHR ''+'' then (False, cs) else (False, s)
                              | [] \<Rightarrow> (False, s))
      in case parse_nat ds of
           None \<Rightarrow> None
         | Some n \<Rightarrow> (let i = (if neg then - int n else int n)
                      in if in_int64 i then Some i else None))"

lemma of_char_digit: "d < 10 \<Longrightarrow> (of_char (digit_char d) :: nat) = 48 + d"
  by (simp add: digit_char_def)

lemma is_digit_digit_char: "d < 10 \<Longrightarrow> is_digit (digit_char d)"
  by (simp add: is_digit_def of_char_digit)

lemma digit_val_digit_char: "d < 10 \<Longrightarrow> digit_val (digit_char d) = d"
  by (simp add: digit_val_def of_char_digit)

lemma nat_str_digits: "list_all is_digit (nat_str n)"
proof (induction n rule: nat_str.induct)
  case (1 n)
  then show ?case
    by (subst nat_str.simps) (auto simp: is_digit_digit_char)
qed

lemma nat_str_nonempty [simp]: "nat_str n \<noteq> []"
  by (subst nat_str.simps) simp

lemma digits_val_nat_str: "digits_val (nat_str n) = n"
proof (induction n rule: nat_str.induct)
  case (1 n)
  show ?case
  proof (cases "n < 10")
    case True
    then show ?thesis
      by (subst nat_str.simps) (simp add: digits_val_def digit_val_digit_char)
  next
    case False
    with 1 have "digits_val (nat_str (n div 10)) = n div 10" by simp
    with False show ?thesis
      by (subst nat_str.simps) (simp add: digits_val_def digit_val_digit_char)
  qed
qed

lemma parse_nat_nat_str: "parse_nat (nat_str n) = Some n"
  by (simp add: parse_nat_def nat_str_digits digits_val_nat_str)

lemma hd_nat_str_digit: "nat_str n = c # cs \<Longrightarrow> is_digit c"
  using nat_str_digits [of n] by simp

lemma digit_not_sign: "is_digit c \<Longrightarrow> c \<noteq> CHR ''-'' \<and> c \<noteq> CHR ''+''"
  by (auto simp: is_digit_def)

lemma ParseInt_FormatInt: "in_int64 i \<Longrightarrow> ParseInt (FormatInt i) = Some i"
proof (cases "i < 0")
  case True
  assume "in_int64 i"
  with True show ?thesis
    by (simp add: ParseInt_def FormatInt_def parse_nat_nat_str)
next
  case False
  assume "in_int64 i"
  obtain c cs where s: "nat_str (nat i) = c # cs" by (cases "nat_str (nat i)") auto
  then have "is_digit c" by (rule hd_nat_str_digit)
  then have "c \<noteq> CHR ''-''" "c \<noteq> CHR ''+''" by (simp_all add: digit_not_sign)
  with s False \<open>in_int64 i\<close> parse_nat_nat_str [of "nat i"] show ?thesis
    by (simp add: ParseInt_def FormatInt_def)
qed

lemma nat_str_inject [simp]: "nat_str m = nat_str n \<longleftrightarrow> m = n"
  by (metis digits_val_nat_str)

lemma FormatInt_inject [simp]: "FormatInt i = FormatInt j \<longleftrightarrow> i = j"
proof
  assume eq: "FormatInt i = FormatInt j"
  have sign: "nat_str n \<noteq> CHR ''-'' # s" for n s
    using hd_nat_str_digit [of n "CHR ''-''" s] by (auto simp: is_digit_def)
  show "i = j"
  proof (cases "i < 0"; cases "j < 0")
    assume "i < 0" "\<not> j < 0"
    with eq have "nat_str (nat j) = CHR ''-'' # nat_str (nat (- i))"
      by (simp add: FormatInt_def)
    with sign show ?thesis by blast
  next
    assume "\<not> i < 0" "j < 0"
    with eq have "nat_str (nat i) = CHR ''-'' # nat_str (nat (- j))"
      by (simp add: FormatInt_def)
    with sign show ?thesis by blast
  qed (use eq in \<open>auto simp: FormatInt_def\<close>)
qed simp

lemma FormatInt_nonempty [simp]: "FormatInt i \<noteq> []"
  by (simp add: FormatInt_def)

section \<open>Strings\<close>

definition count_char :: "char \<Rightarrow> string \<Rightarrow> nat" where
  "count_char c s = length (filter (\<lambda>d. d = c) s)"

lemma count_char_simps [simp]:
  "count_char c [] = 0"
  "count_char c (d # s) = (if d = c then Suc (count_char c s) else count_char c s)"
  "count_char c (s @ t) = count_char c s + count_char c t"
  by (simp_all add: count_char_def)

text \<open>\<open>strings.Contains\<close> and \<open>strings.Join\<close>.\<close>

fun is_prefix_of :: "string \<Rightarrow> string \<Rightarrow> bool" where
  "is_prefix_of [] s = True"
| "is_prefix_of (p # ps) [] = False"
| "is_prefix_of (p # ps) (c # cs) = (p = c \<and> is_prefix_of ps cs)"

fun strings_Contains :: "string \<Rightarrow> string \<Rightarrow> bool" where
  "strings_Contains [] sub = (sub = [])"
| "strings_Contains (c # cs) sub = (is_prefix_of sub (c # cs) \<or> strings_Contains cs sub)"

fun strings_Join :: "string list \<Rightarrow> string \<Rightarrow> string" where
  "strings_Join [] sep = []"
| "strings_Join [x] sep = x"
| "strings_Join (x # y # xs) sep = x @ sep @ strings_Join (y # xs) sep"

lemma strings_Join_Cons: "xs \<noteq> [] \<Longrightarrow> strings_Join (x # xs) sep = x @ sep @ strings_Join xs sep"
  by (cases xs) auto

lemma strings_Join_snoc:
  "xs \<noteq> [] \<Longrightarrow> strings_Join (xs @ [y]) sep = strings_Join xs sep @ sep @ y"
  by (induction xs sep rule: strings_Join.induct) (auto simp: strings_Join_Cons)

lemma is_prefix_of_append [simp]: "is_prefix_of p (p @ s)"
  by (induction p) auto

lemma strings_Contains_middle: "strings_Contains (a @ sub @ b) sub"
proof (induction a)
  case Nil
  show ?case
  proof (cases "sub @ b")
    case Nil
    then show ?thesis by simp
  next
    case (Cons x xs)
    then have "is_prefix_of sub (x # xs)" by (metis is_prefix_of_append)
    with Cons show ?thesis by simp
  qed
next
  case (Cons c a)
  then show ?case by simp
qed

section \<open>Lists\<close>

lemma butlast_induct [case_names Nil step]:
  assumes "P []" and "\<And>xs. xs \<noteq> [] \<Longrightarrow> P (butlast xs) \<Longrightarrow> P xs"
  shows "P xs"
proof (induction "length xs" arbitrary: xs)
  case 0
  then show ?case using assms(1) by simp
next
  case (Suc n)
  then have "P (butlast xs)" and "xs \<noteq> []" by auto
  then show ?case using assms(2) by blast
qed

text \<open>
  A Go \<open>for k := range m\<close> visits the keys of a map in an order the language leaves open.
  A model of such a loop takes the visited keys as a list; \<open>enumerates ks K\<close> says that the
  list is one possible order of the key set \<open>K\<close>.
\<close>

definition enumerates :: "'a list \<Rightarrow> 'a set \<Rightarrow> bool" where
  "enumerates ks K \<longleftrightarrow> distinct ks \<and> set ks = K"

lemma enumeratesD: "enumerates ks K \<Longrightarrow> distinct ks" "enumerates ks K \<Longrightarrow> set ks = K"
  by (simp_all add: enumerates_def)

end
