(* ===== verification/Pagination.thy ===== *)
theory Pagination
  imports Heureka_Base
begin

text \<open>
  Pagination (\<open>internal/app/common/pagination_helpers.go\<close> and the page types of
  \<open>internal/entity/common.go\<close>): the default page request, the division of the list of all
  cursors into pages, and the page information of a result list. The loop of
  \<open>GetPages\<close> is a fold of its body over the cursors, and it is proved equal to the
  division of the list into chunks.
\<close>

section \<open>Types\<close>

record Page =
  After :: "string option"
  IsCurrent :: bool
  PageCount :: "int option"
  PageNumber :: "int option"

record PageInfo =
  HasNextPage :: bool
  HasPreviousPage :: bool
  IsValidPage :: bool
  PIPageNumber :: "int option"
  NextPageAfter :: "string option"
  Pages :: "Page list"

record Paginated =
  First :: "int option"
  PAfter :: "string option"

definition zero_page :: Page where
  "zero_page = \<lparr>After = None, IsCurrent = False, PageCount = None, PageNumber = None\<rparr>"

section \<open>Operations\<close>

definition EnsurePaginated :: "Paginated \<Rightarrow> Paginated" where
  "EnsurePaginated f =
     (let f1 = (case First f of None \<Rightarrow> f\<lparr>First := Some 10\<rparr> | Some _ \<Rightarrow> f)
      in case PAfter f1 of None \<Rightarrow> f1\<lparr>PAfter := Some []\<rparr> | Some _ \<Rightarrow> f1)"

text \<open>The local variables of the loop of \<open>GetPages\<close>.\<close>

record pages_state =
  ps_i :: int
  ps_pN :: int
  ps_isCurrent :: bool
  ps_c :: string
  ps_pages :: "Page list"
  ps_current :: Page

definition new_page :: "pages_state \<Rightarrow> Page" where
  "new_page s = \<lparr>After = Some (ps_c s), IsCurrent = ps_isCurrent s,
     PageCount = Some (ps_i s), PageNumber = Some (ps_pN s)\<rparr>"

definition append_page :: "pages_state \<Rightarrow> pages_state" where
  "append_page s = s\<lparr>ps_pages := ps_pages s @ [new_page s],
     ps_current := (if ps_isCurrent s then new_page s else ps_current s)\<rparr>"

definition pages_step :: "string \<Rightarrow> int \<Rightarrow> string \<Rightarrow> pages_state \<Rightarrow> pages_state" where
  "pages_step fc pageSize c s =
     (let i = ps_i s + 1;
          pN = (if i = 1 then ps_pN s + 1 else ps_pN s);
          isCurrent = (if i = 1 then False else ps_isCurrent s);
          isCurrent = (if c = fc then True else isCurrent);
          s' = s\<lparr>ps_i := i, ps_pN := pN, ps_isCurrent := isCurrent, ps_c := c\<rparr>
      in if i \<ge> pageSize then (append_page s')\<lparr>ps_i := 0\<rparr> else s')"

definition pages_init :: pages_state where
  "pages_init = \<lparr>ps_i = 0, ps_pN = 0, ps_isCurrent = False, ps_c = [], ps_pages = [],
     ps_current = zero_page\<rparr>"

definition GetPages :: "string option \<Rightarrow> string list \<Rightarrow> int \<Rightarrow> (Page list \<times> Page) go" where
  "GetPages firstCursor cursors pageSize =
     (case (firstCursor, cursors) of
        (None, _ # _) \<Rightarrow> Inl NilDereference
      | _ \<Rightarrow>
        (let s = fold (pages_step (the firstCursor) pageSize) cursors pages_init
         in if pageSize = 0 then Inl DivideByZero
            else (let s = (if int (length cursors) mod pageSize \<noteq> 0 then append_page s else s)
                  in Inr (ps_pages s, ps_current s))))"

text \<open>
  \<open>GetPageInfo\<close> gets the results by their cursors: \<open>Cursor()\<close> of every result type is
  the address of the field of the embedded \<open>WithCursor\<close>, so it is never nil.
\<close>

definition GetPageInfo ::
  "string list \<Rightarrow> string list \<Rightarrow> int \<Rightarrow> string option \<Rightarrow> PageInfo go" where
  "GetPageInfo res cursors pageSize currentCursor =
     (case res of
        [] \<Rightarrow> Inl IndexOutOfRange
      | firstCursor # _ \<Rightarrow>
          (let nextPageAfter = (if length res > 1 then last res else firstCursor)
           in bindR (GetPages (Some firstCursor) cursors pageSize) (\<lambda>(pages, current).
                Inr \<lparr>HasNextPage = (case PageNumber current of None \<Rightarrow> False
                        | Some n \<Rightarrow> n < int (length pages)),
                     HasPreviousPage = (case PageNumber current of None \<Rightarrow> False
                        | Some n \<Rightarrow> n > 1),
                     IsValidPage = (case (After current, currentCursor) of
                          (Some a, Some b) \<Rightarrow> a = b | _ \<Rightarrow> False),
                     PIPageNumber = PageNumber current,
                     NextPageAfter = Some nextPageAfter,
                     Pages = pages\<rparr>)))"

section \<open>Reference: the chunks of the cursor list\<close>

function chunks :: "nat \<Rightarrow> 'a list \<Rightarrow> 'a list list" where
  "chunks n xs = (if xs = [] then [] else if n = 0 then [xs]
                  else take n xs # chunks n (drop n xs))"
  by pat_completeness auto
termination by (relation "measure (\<lambda>(n, xs). length xs)") auto

declare chunks.simps [simp del]

definition page_of :: "string \<Rightarrow> int \<Rightarrow> string list \<Rightarrow> Page" where
  "page_of fc k ch = \<lparr>After = Some (last ch), IsCurrent = (fc \<in> set ch),
     PageCount = Some (int (length ch)), PageNumber = Some k\<rparr>"

fun number_pages :: "string \<Rightarrow> int \<Rightarrow> string list list \<Rightarrow> Page list" where
  "number_pages fc k [] = []"
| "number_pages fc k (ch # chs) = page_of fc k ch # number_pages fc (k + 1) chs"

fun last_current :: "Page \<Rightarrow> Page list \<Rightarrow> Page" where
  "last_current d [] = d"
| "last_current d (p # ps) = last_current (if IsCurrent p then p else d) ps"

lemma concat_chunks: "concat (chunks n xs) = xs"
proof (induction n xs rule: chunks.induct)
  case (1 n xs)
  then show ?case by (subst chunks.simps) auto
qed

lemma chunks_Nil [simp]: "chunks n [] = []"
  by (subst chunks.simps) simp

lemma chunks_step: "xs \<noteq> [] \<Longrightarrow> 0 < n \<Longrightarrow> chunks n xs = take n xs # chunks n (drop n xs)"
  by (subst chunks.simps) simp

lemma chunks_small: "xs \<noteq> [] \<Longrightarrow> length xs \<le> n \<Longrightarrow> chunks n xs = [xs]"
  by (subst chunks.simps) auto

lemma number_pages_append:
  "number_pages fc k (as @ bs) = number_pages fc k as @ number_pages fc (k + int (length as)) bs"
  by (induction as arbitrary: k) (auto simp: algebra_simps)

lemma length_number_pages [simp]: "length (number_pages fc k chs) = length chs"
  by (induction chs arbitrary: k) auto

lemma last_current_append: "last_current d (as @ bs) = last_current (last_current d as) bs"
  by (induction as arbitrary: d) auto

section \<open>The loop computes the chunks\<close>

lemma pages_step_inner:
  assumes "ps_i s + 1 < n"
  shows "pages_step fc n c s =
     s\<lparr>ps_i := ps_i s + 1, ps_pN := (if ps_i s = 0 then ps_pN s + 1 else ps_pN s),
       ps_isCurrent := (fc = c \<or> ps_i s \<noteq> 0 \<and> ps_isCurrent s), ps_c := c\<rparr>"
  using assms by (auto simp: pages_step_def Let_def)

lemma pages_step_last:
  assumes "n \<le> ps_i s + 1"
  shows "pages_step fc n c s =
     (append_page (s\<lparr>ps_i := ps_i s + 1, ps_pN := (if ps_i s = 0 then ps_pN s + 1 else ps_pN s),
       ps_isCurrent := (fc = c \<or> ps_i s \<noteq> 0 \<and> ps_isCurrent s), ps_c := c\<rparr>))\<lparr>ps_i := 0\<rparr>"
proof -
  have "ps_i s + 1 = 1 \<longleftrightarrow> ps_i s = 0" by simp
  moreover have "(if c = fc then True else if ps_i s = 0 then False else ps_isCurrent s) =
    (fc = c \<or> ps_i s \<noteq> 0 \<and> ps_isCurrent s)" by auto
  ultimately show ?thesis
    unfolding pages_step_def Let_def using assms by (simp only: if_True)
qed

text \<open>Inside a page: after the cursors \<open>ys\<close>, fewer than a page, nothing is appended yet.\<close>

lemma fold_partial_page:
  assumes "ys \<noteq> []" and "length ys < n" and "ps_i s = 0"
  shows "fold (pages_step fc (int n)) ys s =
    s\<lparr>ps_i := int (length ys), ps_pN := ps_pN s + 1, ps_isCurrent := fc \<in> set ys, ps_c := last ys\<rparr>"
  using assms
proof (induction ys rule: rev_induct)
  case Nil
  then show ?case by simp
next
  case (snoc y ys)
  show ?case
  proof (cases "ys = []")
    case True
    with snoc.prems show ?thesis by (simp add: pages_step_inner)
  next
    case False
    with snoc have "fold (pages_step fc (int n)) ys s =
      s\<lparr>ps_i := int (length ys), ps_pN := ps_pN s + 1, ps_isCurrent := fc \<in> set ys, ps_c := last ys\<rparr>"
      by simp
    with False snoc.prems show ?thesis by (simp add: pages_step_inner)
  qed
qed

lemma fold_full_page:
  assumes "length ys = n" and "0 < n" and "ps_i s = 0"
  shows "fold (pages_step fc (int n)) ys s =
    s\<lparr>ps_pN := ps_pN s + 1, ps_isCurrent := fc \<in> set ys, ps_c := last ys,
      ps_pages := ps_pages s @ [page_of fc (ps_pN s + 1) ys],
      ps_current := (if fc \<in> set ys then page_of fc (ps_pN s + 1) ys else ps_current s)\<rparr>"
proof -
  obtain y ys' where ys: "ys = ys' @ [y]" using assms by (cases ys rule: rev_cases) auto
  show ?thesis
  proof (cases "ys' = []")
    case True
    with ys assms show ?thesis
      by (simp add: pages_step_last append_page_def new_page_def page_of_def)
  next
    case False
    with ys assms have "fold (pages_step fc (int n)) ys' s =
      s\<lparr>ps_i := int (length ys'), ps_pN := ps_pN s + 1, ps_isCurrent := fc \<in> set ys', ps_c := last ys'\<rparr>"
      by (intro fold_partial_page) auto
    moreover have "int n = int (length ys') + 1" using ys assms by simp
    ultimately show ?thesis using False ys assms(3)
      by (simp add: pages_step_last append_page_def new_page_def page_of_def)
  qed
qed

definition finish_pages :: "nat \<Rightarrow> nat \<Rightarrow> pages_state \<Rightarrow> pages_state" where
  "finish_pages len n s = (if len mod n \<noteq> 0 then append_page s else s)"

lemma pages_loop:
  assumes "0 < n" and "ps_i s = 0"
  shows "ps_pages (finish_pages (length xs) n (fold (pages_step fc (int n)) xs s))
           = ps_pages s @ number_pages fc (ps_pN s + 1) (chunks n xs)
       \<and> ps_current (finish_pages (length xs) n (fold (pages_step fc (int n)) xs s))
           = last_current (ps_current s) (number_pages fc (ps_pN s + 1) (chunks n xs))"
  using assms
proof (induction "length xs" arbitrary: xs s rule: less_induct)
  case less
  consider "xs = []" | "xs \<noteq> []" "length xs < n" | "n \<le> length xs" by linarith
  then show ?case
  proof cases
    case 1
    then show ?thesis by (simp add: finish_pages_def)
  next
    case 2
    then show ?thesis
      using fold_partial_page [of xs n s fc] less.prems
      by (simp add: finish_pages_def chunks_small append_page_def new_page_def page_of_def)
  next
    case 3
    let ?s = "fold (pages_step fc (int n)) (take n xs) s"
    have s: "?s = s\<lparr>ps_pN := ps_pN s + 1, ps_isCurrent := fc \<in> set (take n xs),
      ps_c := last (take n xs),
      ps_pages := ps_pages s @ [page_of fc (ps_pN s + 1) (take n xs)],
      ps_current := (if fc \<in> set (take n xs) then page_of fc (ps_pN s + 1) (take n xs)
                     else ps_current s)\<rparr>"
      using 3 less.prems by (intro fold_full_page) auto
    have fold: "fold (pages_step fc (int n)) xs s = fold (pages_step fc (int n)) (drop n xs) ?s"
      by (metis append_take_drop_id fold_append comp_apply)
    have fin: "finish_pages (length xs) n = finish_pages (length (drop n xs)) n"
      using 3 by (auto simp: finish_pages_def fun_eq_iff le_mod_geq)
    have ne: "xs \<noteq> []" using 3 less.prems by auto
    have "length (drop n xs) < length xs" using 3 less.prems by simp
    from less.hyps [OF this less.prems(1), of ?s] show ?thesis
      using ne less.prems chunks_step [OF ne less.prems(1)] unfolding fold fin s
      by (simp add: page_of_def)
  qed
qed

lemma GetPages_chunks:
  assumes "0 < n"
  shows "GetPages (Some fc) cursors (int n) =
    Inr (number_pages fc 1 (chunks n cursors),
         last_current zero_page (number_pages fc 1 (chunks n cursors)))"
proof -
  have "int (length cursors) mod int n \<noteq> 0 \<longleftrightarrow> length cursors mod n \<noteq> 0"
    by (metis of_nat_0_eq_iff zmod_int)
  then have "GetPages (Some fc) cursors (int n) =
    (let s = finish_pages (length cursors) n (fold (pages_step fc (int n)) cursors pages_init)
     in Inr (ps_pages s, ps_current s))"
    using assms by (simp add: GetPages_def Let_def finish_pages_def)
  then show ?thesis
    using pages_loop [OF assms, of pages_init cursors fc] by (simp add: Let_def pages_init_def)
qed
section \<open>Pages by index\<close>

lemma length_chunks: "0 < n \<Longrightarrow> length (chunks n xs) = (length xs + n - 1) div n"
proof (induction "length xs" arbitrary: xs rule: less_induct)
  case less
  consider "xs = []" | "xs \<noteq> []" "length xs \<le> n" | "n < length xs" by linarith
  then show ?case
  proof cases
    case 1
    with less.prems show ?thesis by simp
  next
    case 2
    then have "0 < length xs" by simp
    then have "\<exists>m. length xs + n - 1 = m + n \<and> m < n"
      using 2(2) by presburger
    then obtain m where "length xs + n - 1 = m + n" and "m < n" by blast
    moreover have "(m + n) div n = 1" using \<open>m < n\<close> less.prems by (simp add: div_add_self2)
    ultimately show ?thesis using 2 by (simp add: chunks_small)
  next
    case 3
    then have ne: "xs \<noteq> []" by auto
    have "length (drop n xs) < length xs" using 3 less.prems by simp
    from less.hyps [OF this less.prems] have
      "length (chunks n (drop n xs)) = (length xs - n + n - 1) div n" by simp
    moreover have "length xs + n - 1 = (length xs - n + n - 1) + n" using 3 by simp
    then have "(length xs + n - 1) div n = (length xs - n + n - 1) div n + 1"
      using less.prems by (simp only: div_add_self2)
    ultimately show ?thesis using chunks_step [OF ne less.prems] by simp
  qed
qed

lemma nth_chunks:
  "0 < n \<Longrightarrow> k < length (chunks n xs) \<Longrightarrow> chunks n xs ! k = take n (drop (k * n) xs)"
proof (induction k arbitrary: xs)
  case 0
  then show ?case by (cases "xs = []") (simp_all add: chunks_step)
next
  case (Suc k)
  then have "xs \<noteq> []" by auto
  with Suc show ?case by (simp add: chunks_step add.commute)
qed

lemma chunk_nonempty: "ch \<in> set (chunks n xs) \<Longrightarrow> ch \<noteq> []"
proof (induction n xs rule: chunks.induct)
  case (1 n xs)
  then show ?case by (subst (asm) (2) chunks.simps) (auto split: if_splits)
qed

lemma nth_number_pages:
  "k < length chs \<Longrightarrow> number_pages fc m chs ! k = page_of fc (m + int k) (chs ! k)"
  by (induction chs arbitrary: k m) (auto simp: nth_Cons' algebra_simps of_nat_diff)

lemma last_current_unique:
  assumes "k < length ps" and "IsCurrent (ps ! k)"
    and "\<And>j. j < length ps \<Longrightarrow> IsCurrent (ps ! j) \<Longrightarrow> j = k"
  shows "last_current d ps = ps ! k"
  using assms
proof (induction ps arbitrary: k d)
  case (Cons p ps)
  have none: "\<not> IsCurrent q" if "q \<in> set ps" and "k = 0" for q
    using that Cons.prems(3) by (fastforce simp: in_set_conv_nth)
  have noop: "last_current e qs = e" if "\<forall>q \<in> set qs. \<not> IsCurrent q" for e qs
    using that by (induction qs) auto
  show ?case
  proof (cases k)
    case 0
    with Cons.prems(2) none noop show ?thesis by simp
  next
    case (Suc k')
    have "last_current (if IsCurrent p then p else d) ps = ps ! k'"
    proof (rule Cons.IH)
      show "j = k'" if "j < length ps" "IsCurrent (ps ! j)" for j
        using that Cons.prems(3) [of "Suc j"] Suc by simp
    qed (use Cons.prems Suc in auto)
    with Suc show ?thesis by simp
  qed
qed simp

lemma chunk_start_less:
  assumes "0 < n" and "k < ((len::nat) + n - 1) div n"
  shows "k * n < len"
proof -
  have "Suc k \<le> (len + n - 1) div n" using assms(2) by simp
  then have "Suc k * n \<le> len + n - 1" using assms(1) by (simp add: less_eq_div_iff_mult_less_eq)
  with assms(1) show ?thesis by simp
qed

lemma chunk_of_index:
  assumes "0 < n" and "j < (len::nat)"
  shows "j div n < (len + n - 1) div n"
proof -
  have "Suc (j div n) = (j + n) div n" using assms(1) by (simp add: div_add_self2)
  also have "\<dots> \<le> (len + n - 1) div n" using assms by (intro div_le_mono) linarith
  finally show ?thesis by simp
qed

lemma set_chunk_nth:
  "x \<in> set (take n (drop (k * n) xs)) \<longleftrightarrow> (\<exists>j < length xs. k * n \<le> j \<and> j < k * n + n \<and> xs ! j = x)"
proof
  assume "x \<in> set (take n (drop (k * n) xs))"
  then obtain i where "i < length (take n (drop (k * n) xs))" "take n (drop (k * n) xs) ! i = x"
    by (auto simp: in_set_conv_nth)
  then show "\<exists>j < length xs. k * n \<le> j \<and> j < k * n + n \<and> xs ! j = x"
    by (intro exI [of _ "k * n + i"]) auto
next
  assume "\<exists>j < length xs. k * n \<le> j \<and> j < k * n + n \<and> xs ! j = x"
  then obtain j where "j < length xs" "k * n \<le> j" "j < k * n + n" "xs ! j = x" by auto
  then show "x \<in> set (take n (drop (k * n) xs))"
    by (auto simp: in_set_conv_nth intro!: exI [of _ "j - k * n"])
qed

text \<open>The page of the j-th cursor is the only current one when the cursors are distinct.\<close>

lemma current_page_of_index:
  assumes "0 < n" and "distinct xs" and "j < length xs"
  shows "last_current d (number_pages (xs ! j) 1 (chunks n xs)) =
    page_of (xs ! j) (1 + int (j div n)) (chunks n xs ! (j div n))"
proof -
  let ?ps = "number_pages (xs ! j) 1 (chunks n xs)"
  have len: "length ?ps = (length xs + n - 1) div n" using assms(1) by (simp add: length_chunks)
  have k: "j div n < length ?ps" using chunk_of_index [OF assms(1,3)] len by simp
  have cur: "IsCurrent (?ps ! k) \<longleftrightarrow> j div n = k" if "k < length ?ps" for k
  proof -
    have "IsCurrent (?ps ! k) \<longleftrightarrow> xs ! j \<in> set (take n (drop (k * n) xs))"
      using that assms(1) by (simp add: nth_number_pages page_of_def nth_chunks)
    also have "\<dots> \<longleftrightarrow> k * n \<le> j \<and> j < k * n + n"
      using assms(2,3) by (auto simp: set_chunk_nth nth_eq_iff_index_eq)
    also have "\<dots> \<longleftrightarrow> j div n = k"
      using assms(1) by (auto simp: div_nat_eqI mult.commute
          dividend_less_times_div add.commute [of _ n])
    finally show ?thesis .
  qed
  have "last_current d ?ps = ?ps ! (j div n)"
    using cur [OF k] cur by (intro last_current_unique [OF k]) auto
  then show ?thesis using k by (simp add: nth_number_pages)
qed

section \<open>Properties\<close>

text \<open>
  For a positive page size \<open>GetPages\<close> never panics and divides the cursors as announced:
  there are as many pages as the rounded-up quotient, page \<open>k\<close> has number \<open>k + 1\<close>, holds the
  next \<open>pageSize\<close> cursors (the last page the remaining ones), its \<open>After\<close> is the last cursor it
  holds, and it is current exactly when it holds the first cursor of the result.
\<close>

theorem GetPages_divides_cursors:
  assumes "0 < n"
  shows "\<exists>pages current. GetPages (Some fc) cursors (int n) = Inr (pages, current)
    \<and> length pages = (length cursors + n - 1) div n
    \<and> (\<forall>k < length pages.
         pages ! k = \<lparr>After = Some (cursors ! (min (k * n + n) (length cursors) - 1)),
           IsCurrent = (\<exists>j < length cursors. k * n \<le> j \<and> j < k * n + n \<and> cursors ! j = fc),
           PageCount = Some (int (min n (length cursors - k * n))),
           PageNumber = Some (int k + 1)\<rparr>)"
proof -
  let ?chs = "chunks n cursors"
  have "number_pages fc 1 ?chs ! k = \<lparr>After = Some (cursors ! (min (k * n + n) (length cursors) - 1)),
           IsCurrent = (\<exists>j < length cursors. k * n \<le> j \<and> j < k * n + n \<and> cursors ! j = fc),
           PageCount = Some (int (min n (length cursors - k * n))),
           PageNumber = Some (int k + 1)\<rparr>" if "k < length ?chs" for k
  proof -
    have less: "k * n < length cursors"
      using that chunk_start_less [OF assms] by (simp add: length_chunks assms)
    then have "k * n + (min (length cursors - k * n) n - 1) = min (k * n + n) (length cursors) - 1"
      using assms by linarith
    then have "last (take n (drop (k * n) cursors)) = cursors ! (min (k * n + n) (length cursors) - 1)"
      using assms less by (subst last_conv_nth) simp_all
    then show ?thesis
      using that assms
      by (simp add: nth_number_pages nth_chunks page_of_def set_chunk_nth min.commute)
  qed
  then show ?thesis by (simp add: GetPages_chunks assms length_chunks)
qed

theorem GetPages_divides_cursors_witness:
  "\<exists>pages current. GetPages (Some ''b'') [''a'', ''b'', ''c''] 2 = Inr (pages, current) \<and> length pages = 2"
  using GetPages_divides_cursors [of 2 "''b''" "[''a'', ''b'', ''c'']"] by auto

text \<open>
  The page information of a result whose first row is the j-th of all rows (all cursors
  distinct): its page number is the number of the page that row lies on, there is a next page
  exactly when rows follow that page, and a previous one exactly when rows precede it.
\<close>

theorem GetPageInfo_locates_page:
  assumes "0 < n" and "distinct cursors" and "j < length cursors" and "res \<noteq> []"
    and "hd res = cursors ! j"
  shows "\<exists>info. GetPageInfo res cursors (int n) cc = Inr info
    \<and> PIPageNumber info = Some (int (j div n) + 1)
    \<and> (HasNextPage info \<longleftrightarrow> j div n * n + n < length cursors)
    \<and> (HasPreviousPage info \<longleftrightarrow> n \<le> j)
    \<and> (IsValidPage info \<longleftrightarrow> cc = Some (last (take n (drop (j div n * n) cursors))))
    \<and> NextPageAfter info = Some (last res)"
proof -
  let ?k = "j div n"
  have k: "?k < (length cursors + n - 1) div n" by (rule chunk_of_index [OF assms(1,3)])
  have "Suc ?k < (length cursors + n - 1) div n \<longleftrightarrow> Suc (Suc ?k) * n \<le> length cursors + n - 1"
    using assms(1) by (simp add: less_eq_div_iff_mult_less_eq flip: Suc_le_eq)
  also have "\<dots> \<longleftrightarrow> ?k * n + n < length cursors" using assms(1) by simp linarith
  finally have next_page: "Suc ?k < (length cursors + n - 1) div n \<longleftrightarrow> ?k * n + n < length cursors" .
  have prev: "0 < ?k \<longleftrightarrow> n \<le> j" using assms(1) by (simp add: div_greater_zero_iff)
  obtain res' where res: "res = cursors ! j # res'" using assms(4,5) by (cases res) auto
  show ?thesis
    using assms(1) k next_page prev
    by (cases cc)
      (auto simp: res GetPageInfo_def GetPages_chunks current_page_of_index [OF assms(1-3)]
        page_of_def length_chunks nth_chunks last_conv_nth)
qed

theorem GetPageInfo_locates_page_witness:
  "\<exists>info. GetPageInfo [''c'', ''d''] [''a'', ''b'', ''c'', ''d''] 2 (Some ''d'') = Inr info
     \<and> PIPageNumber info = Some 2 \<and> \<not> HasNextPage info \<and> HasPreviousPage info"
  using GetPageInfo_locates_page
    [of 2 "[''a'', ''b'', ''c'', ''d'']" 2 "[''c'', ''d'']" "Some ''d''"] by auto

end
