(* ===== verification/Entities.thy ===== *)
theory Entities
  imports Complex_Main Heureka_Base
begin

text \<open>
  The entities of the data model (\<open>internal/entity\<close>): the structs as records and the string
  enumerations with their parsers. A \<open>time.Time\<close> is its distance from Go's zero time, so the
  zero time is 0; a CVSS score (a float64 with one decimal that is only compared) is a rational;
  a pointer is an option. The pointers and slices by which loaded relations refer back
  to their owner (\<open>Issue.IssueVariants\<close>, \<open>ComponentVersion.Issues\<close>, \<open>Issue.IssueMatches\<close>,
  \<open>ComponentInstance.Parent\<close> and the like) are filled by none of the modelled operations and
  are left out of the records.
\<close>

type_synonym gotime = int

definition IsZero :: "gotime \<Rightarrow> bool" where
  "IsZero t \<longleftrightarrow> t = 0"

record metadata =
  CreatedAt :: gotime
  CreatedBy :: id64
  UpdatedAt :: gotime
  UpdatedBy :: id64
  DeletedAt :: gotime

definition zero_metadata :: metadata where
  "zero_metadata = \<lparr>CreatedAt = 0, CreatedBy = 0, UpdatedAt = 0, UpdatedBy = 0, DeletedAt = 0\<rparr>"

datatype StateFilterType = Active | Deleted

section \<open>Severities\<close>

type_synonym SeverityValues = string

definition SeverityValuesNone :: SeverityValues where "SeverityValuesNone = ''None''"
definition SeverityValuesLow :: SeverityValues where "SeverityValuesLow = ''Low''"
definition SeverityValuesMedium :: SeverityValues where "SeverityValuesMedium = ''Medium''"
definition SeverityValuesHigh :: SeverityValues where "SeverityValuesHigh = ''High''"
definition SeverityValuesCritical :: SeverityValues where "SeverityValuesCritical = ''Critical''"
definition SeverityValuesUnknown :: SeverityValues where "SeverityValuesUnknown = ''Unknown''"

lemmas severity_defs = SeverityValuesNone_def SeverityValuesLow_def SeverityValuesMedium_def
  SeverityValuesHigh_def SeverityValuesCritical_def SeverityValuesUnknown_def

definition AllSeverityValues :: "SeverityValues list" where
  "AllSeverityValues = [SeverityValuesNone, SeverityValuesLow, SeverityValuesMedium,
     SeverityValuesHigh, SeverityValuesCritical]"

definition NewSeverityValues :: "string \<Rightarrow> SeverityValues" where
  "NewSeverityValues s =
     (if s = SeverityValuesNone then SeverityValuesNone
      else if s = SeverityValuesCritical then SeverityValuesCritical
      else if s = SeverityValuesHigh then SeverityValuesHigh
      else if s = SeverityValuesMedium then SeverityValuesMedium
      else if s = SeverityValuesLow then SeverityValuesLow
      else SeverityValuesUnknown)"

record severity =
  sevValue :: string
  sevScore :: rat
  sevVector :: string
  sevExternalUrl :: string

definition NewSeverityFromRating :: "SeverityValues \<Rightarrow> severity" where
  "NewSeverityFromRating rating =
     \<lparr>sevValue = rating,
      sevScore = (if rating = SeverityValuesLow then 1/10
                  else if rating = SeverityValuesMedium then 4
                  else if rating = SeverityValuesHigh then 7
                  else if rating = SeverityValuesCritical then 9
                  else 0),
      sevVector = [], sevExternalUrl = []\<rparr>"

text \<open>
  \<open>NewSeverity\<close> decodes a CVSS vector with a library; the decoder is a parameter that returns
  the severity word, the score and the version of a vector it accepts.
\<close>

datatype cvss_version = VUnknown | V3_0 | V3_1

definition NewSeverity ::
  "(string \<Rightarrow> (string \<times> rat \<times> cvss_version) option) \<Rightarrow> string \<Rightarrow> severity" where
  "NewSeverity decode url =
     (case decode url of
        None \<Rightarrow> \<lparr>sevValue = ''unknown'', sevScore = 0, sevVector = [], sevExternalUrl = []\<rparr>
      | Some (sev, score, ver) \<Rightarrow>
          \<lparr>sevValue = sev, sevScore = score, sevVector = url,
           sevExternalUrl = (case ver of
               V3_0 \<Rightarrow> ''https://nvd.nist.gov/vuln-metrics/cvss/v3-calculator?vector='' @ url @ ''&version=3.0''
             | V3_1 \<Rightarrow> ''https://nvd.nist.gov/vuln-metrics/cvss/v3-calculator?vector='' @ url @ ''&version=3.1''
             | VUnknown \<Rightarrow> [])\<rparr>)"

section \<open>Users, support groups, components, services\<close>

record User =
  userMeta :: metadata
  userId :: id64
  userName :: string
  userUniqueUserID :: string
  userType :: int
  userEmail :: string

record SupportGroup =
  sgMeta :: metadata
  sgId :: id64
  sgCCRN :: string

record Component =
  compMeta :: metadata
  compId :: id64
  compCCRN :: string
  compType :: string
  compRepository :: string
  compOrganization :: string
  compUrl :: string

record ComponentVersion =
  cvMeta :: metadata
  cvId :: id64
  cvVersion :: string
  cvComponentId :: id64
  cvTag :: string
  cvRepository :: string
  cvOrganization :: string
  cvEndOfLife :: "bool option"

record IssueRepositoryService =
  irsMeta :: metadata
  irsServiceId :: id64
  irsIssueRepositoryId :: id64
  irsPriority :: int

record Service =
  svcMeta :: metadata
  svcId :: id64
  svcCCRN :: string
  svcDomain :: string
  svcRegion :: string
  svcSupportGroupId :: id64
  svcOwners :: "User list"
  svcPriority :: int
  svcIRS :: IssueRepositoryService

record IssueRepository =
  irMeta :: metadata
  irId :: id64
  irName :: string
  irUrl :: string
  irIRS :: IssueRepositoryService

datatype json =
    JNull
  | JBool bool
  | JNum int
  | JStr string
  | JArr "json list"
  | JObj "(string \<times> json) list"

record ComponentInstance =
  ciMeta :: metadata
  ciId :: id64
  ciCCRN :: string
  ciRegion :: string
  ciCluster :: string
  ciNamespace :: string
  ciDomain :: string
  ciProject :: string
  ciPod :: string
  ciContainer :: string
  ciType :: string
  ciParentId :: id64
  ciContext :: "json option"
  ciCount :: int
  ciComponentVersionId :: id64
  ciServiceId :: id64

section \<open>Issues, variants, matches\<close>

record Issue =
  isMeta :: metadata
  isId :: id64
  isType :: string
  isPrimaryName :: string
  isDescription :: string

record IssueSeverityCounts =
  iscCritical :: int
  iscHigh :: int
  iscMedium :: int
  iscLow :: int
  iscNone :: int
  iscTotal :: int

record IssueVariant =
  ivMeta :: metadata
  ivId :: id64
  ivIssueRepositoryId :: id64
  ivIssueRepository :: "IssueRepository option"
  ivSecondaryName :: string
  ivIssueId :: id64
  ivIssue :: "Issue option"
  ivSeverity :: severity
  ivDescription :: string
  ivExternalUrl :: string

record ServiceIssueVariant =
  sivVariant :: IssueVariant
  sivServiceId :: id64
  sivPriority :: int

definition IssueMatchStatusValuesNew :: string where "IssueMatchStatusValuesNew = ''new''"
definition IssueMatchStatusValuesRiskAccepted :: string where
  "IssueMatchStatusValuesRiskAccepted = ''risk_accepted''"
definition IssueMatchStatusValuesFalsePositive :: string where
  "IssueMatchStatusValuesFalsePositive = ''false_positive''"
definition IssueMatchStatusValuesMitigated :: string where
  "IssueMatchStatusValuesMitigated = ''mitigated''"
definition IssueMatchStatusValuesNone :: string where "IssueMatchStatusValuesNone = ''none''"

definition NewIssueMatchStatusValue :: "string \<Rightarrow> string" where
  "NewIssueMatchStatusValue s =
     (if s = IssueMatchStatusValuesRiskAccepted then IssueMatchStatusValuesRiskAccepted
      else if s = IssueMatchStatusValuesFalsePositive then IssueMatchStatusValuesFalsePositive
      else if s = IssueMatchStatusValuesMitigated then IssueMatchStatusValuesMitigated
      else IssueMatchStatusValuesNew)"

record IssueMatch =
  imMeta :: metadata
  imId :: id64
  imStatus :: string
  imUserId :: id64
  imSeverity :: severity
  imComponentInstance :: "ComponentInstance option"
  imComponentInstanceId :: id64
  imIssue :: "Issue option"
  imIssueId :: id64
  imRemediationDate :: gotime
  imTargetRemediationDate :: gotime

record Patch =
  patchMeta :: metadata
  patchId :: id64
  patchServiceId :: id64
  patchServiceName :: string
  patchComponentVersionId :: id64
  patchComponentVersionName :: string

section \<open>Remediations\<close>

definition RemediationTypeFalsePositive :: string where
  "RemediationTypeFalsePositive = ''false_positive''"
definition RemediationTypeRiskAccepted :: string where
  "RemediationTypeRiskAccepted = ''risk_accepted''"
definition RemediationTypeMitigation :: string where "RemediationTypeMitigation = ''mitigation''"
definition RemediationTypeRescore :: string where "RemediationTypeRescore = ''rescore''"
definition RemediationTypeUnknown :: string where "RemediationTypeUnknown = ''unknown''"

lemmas remediation_type_defs = RemediationTypeFalsePositive_def RemediationTypeRiskAccepted_def
  RemediationTypeMitigation_def RemediationTypeRescore_def RemediationTypeUnknown_def

definition NewRemediationType :: "string \<Rightarrow> string" where
  "NewRemediationType s =
     (if s = RemediationTypeFalsePositive then RemediationTypeFalsePositive
      else if s = RemediationTypeRiskAccepted then RemediationTypeRiskAccepted
      else if s = RemediationTypeMitigation then RemediationTypeMitigation
      else if s = RemediationTypeRescore then RemediationTypeRescore
      else RemediationTypeUnknown)"

record Remediation =
  remMeta :: metadata
  remId :: id64
  remType :: string
  remURL :: string
  remDescription :: string
  remRemediationDate :: gotime
  remExpirationDate :: gotime
  remSeverity :: SeverityValues
  remService :: string
  remServiceId :: id64
  remComponent :: string
  remComponentId :: id64
  remIssue :: string
  remIssueId :: id64
  remRemediatedBy :: string
  remRemediatedById :: id64

end
