(* ===== verification/Order_Cursor.thy ===== *)
theory Order_Cursor
  imports Entities
begin

text \<open>
  Ordering and keyset pagination of the SQL layer: the order fields and their columns
  (\<open>internal/entity/order.go\<close>, \<open>internal/database/mariadb/order.go\<close>), the cursor fields taken from
  a row by the \<open>With...\<close> builders, and the cursor condition with its parameters
  (\<open>internal/database/mariadb/cursor.go\<close>). The condition is produced as text, as the code does;
  its meaning is given on the clauses the text is proved to consist of, with the parameters
  bound to the placeholders from left to right.

  A value of a column is a \<open>sqlval\<close>. How the database orders values is a parameter \<open>lt\<close>;
  a comparison with NULL is never true.
\<close>

section \<open>Orders\<close>

datatype OrderByField =
    ComponentInstanceCcrn
  | ComponentInstanceId
  | ComponentInstanceRegion
  | ComponentInstanceCluster
  | ComponentInstanceNamespace
  | ComponentInstanceDomain
  | ComponentInstanceProject
  | ComponentInstancePod
  | ComponentInstanceContainer
  | ComponentInstanceTypeOrder
  | ComponentVersionId
  | ComponentVersionRepository
  | ComponentId
  | ComponentCcrn
  | ComponentRepository
  | IssueId
  | IssuePrimaryName
  | IssueVariantID
  | IssueVariantRating
  | ServiceIssueVariantID
  | IssueRepositoryID
  | IssueMatchId
  | IssueMatchRating
  | IssueMatchTargetRemediationDate
  | IssueEarliestTargetRemediationDate
  | CriticalCount
  | HighCount
  | MediumCount
  | LowCount
  | NoneCount
  | RemediationId
  | PatchId
  | RemediationIssue
  | RemediationSeverity
  | RemediationExpirationDate
  | SupportGroupId
  | SupportGroupCcrn
  | ServiceId
  | ServiceCcrn
  | UserID
  | UserUniqueUserID
  | UserName
  | OtherField int

fun ColumnName :: "OrderByField \<Rightarrow> string" where
  "ColumnName ComponentInstanceCcrn = ''componentinstance_ccrn''"
| "ColumnName ComponentInstanceId = ''componentinstance_id''"
| "ColumnName ComponentInstanceRegion = ''componentinstance_region''"
| "ColumnName ComponentInstanceCluster = ''componentinstance_cluster''"
| "ColumnName ComponentInstanceNamespace = ''componentinstance_namespace''"
| "ColumnName ComponentInstanceDomain = ''componentinstance_domain''"
| "ColumnName ComponentInstanceProject = ''componentinstance_project''"
| "ColumnName ComponentInstancePod = ''componentinstance_pod''"
| "ColumnName ComponentInstanceContainer = ''componentinstance_container''"
| "ColumnName ComponentInstanceTypeOrder = ''componentinstance_type''"
| "ColumnName ComponentVersionId = ''componentversion_id''"
| "ColumnName ComponentVersionRepository = ''componentversion_repository''"
| "ColumnName ComponentId = ''component_id''"
| "ColumnName ComponentCcrn = ''component_ccrn''"
| "ColumnName ComponentRepository = ''component_repository''"
| "ColumnName IssueId = ''issue_id''"
| "ColumnName IssuePrimaryName = ''issue_primary_name''"
| "ColumnName IssueVariantID = ''issuevariant_id''"
| "ColumnName IssueVariantRating = ''issuevariant_rating_num''"
| "ColumnName ServiceIssueVariantID = ''issuevariant_id''"
| "ColumnName IssueRepositoryID = ''issuerepository_id''"
| "ColumnName IssueMatchId = ''issuematch_id''"
| "ColumnName IssueMatchRating = ''issuematch_rating''"
| "ColumnName IssueMatchTargetRemediationDate = ''issuematch_target_remediation_date''"
| "ColumnName IssueEarliestTargetRemediationDate = ''issue_earliest_target_remediation_date''"
| "ColumnName CriticalCount = ''critical_count''"
| "ColumnName HighCount = ''high_count''"
| "ColumnName MediumCount = ''medium_count''"
| "ColumnName LowCount = ''low_count''"
| "ColumnName NoneCount = ''none_count''"
| "ColumnName RemediationId = ''remediation_id''"
| "ColumnName PatchId = ''patch_id''"
| "ColumnName RemediationIssue = ''remediation_issue''"
| "ColumnName RemediationSeverity = ''remediation_severity''"
| "ColumnName RemediationExpirationDate = ''remediation_expiration_date''"
| "ColumnName SupportGroupId = ''supportgroup_id''"
| "ColumnName SupportGroupCcrn = ''supportgroup_ccrn''"
| "ColumnName ServiceId = ''service_id''"
| "ColumnName ServiceCcrn = ''service_ccrn''"
| "ColumnName UserID = ''user_id''"
| "ColumnName UserUniqueUserID = ''user_unique_user_id''"
| "ColumnName UserName = ''user_name''"
| "ColumnName (OtherField n) = []"

datatype OrderDirection = OrderDirectionAsc | OrderDirectionDesc | OtherDirection int

record entity_order =
  By :: OrderByField
  Direction :: OrderDirection

fun OrderDirectionStr :: "OrderDirection \<Rightarrow> string" where
  "OrderDirectionStr OrderDirectionAsc = ''ASC''"
| "OrderDirectionStr OrderDirectionDesc = ''DESC''"
| "OrderDirectionStr (OtherDirection n) = []"

record sql_order =
  sequence :: "entity_order list"
  counterPrefix :: string

definition NewOrderWithCounterPrefix :: "entity_order list \<Rightarrow> entity_order \<Rightarrow> string \<Rightarrow> sql_order" where
  "NewOrderWithCounterPrefix seq dflt prefix =
     \<lparr>sequence = (if seq = [] then [dflt] else seq), counterPrefix = prefix\<rparr>"

definition NewOrder :: "entity_order list \<Rightarrow> entity_order \<Rightarrow> sql_order" where
  "NewOrder seq dflt = NewOrderWithCounterPrefix seq dflt []"

definition count_fields :: "OrderByField list" where
  "count_fields = [CriticalCount, HighCount, MediumCount, LowCount, NoneCount]"

definition ToSql :: "sql_order \<Rightarrow> string" where
  "ToSql ord = strings_Join
     (map (\<lambda>eo. (if counterPrefix ord \<noteq> [] \<and> By eo \<in> set count_fields
                then counterPrefix ord @ ''.'' @ ColumnName (By eo) else ColumnName (By eo))
               @ '' '' @ OrderDirectionStr (Direction eo)) (sequence ord)) '', ''"

definition ToSqlWithPrefixAll :: "sql_order \<Rightarrow> string \<Rightarrow> string" where
  "ToSqlWithPrefixAll ord prefix = strings_Join
     (map (\<lambda>eo. (if prefix \<noteq> [] then prefix @ ''.'' @ ColumnName (By eo) else ColumnName (By eo))
               @ '' '' @ OrderDirectionStr (Direction eo)) (sequence ord)) '', ''"

definition order_By :: "sql_order \<Rightarrow> OrderByField list \<Rightarrow> bool" where
  "order_By ord flds = list_ex (\<lambda>o'. list_ex (\<lambda>f. By o' = f) flds) (sequence ord)"

definition ByCount :: "sql_order \<Rightarrow> bool" where "ByCount ord = order_By ord count_fields"
definition ByRating :: "sql_order \<Rightarrow> bool" where "ByRating ord = order_By ord [IssueVariantRating]"
definition ByIssuePrimaryName :: "sql_order \<Rightarrow> bool" where
  "ByIssuePrimaryName ord = order_By ord [IssuePrimaryName]"
definition ByCiCcrn :: "sql_order \<Rightarrow> bool" where "ByCiCcrn ord = order_By ord [ComponentInstanceCcrn]"

definition GetDefaultOrder ::
  "entity_order list \<Rightarrow> OrderByField \<Rightarrow> OrderDirection \<Rightarrow> entity_order list" where
  "GetDefaultOrder ord by dir = (if ord = [] then [\<lparr>By = by, Direction = dir\<rparr>] else ord)"

section \<open>Cursor fields of a row\<close>

datatype sqlval = NullV | IntV int | StrV string | TimeV gotime

record Field =
  fName :: OrderByField
  fValue :: sqlval
  fOrder :: OrderDirection

text \<open>
  Every \<open>With...\<close> builder runs through the order (or the default order) and appends one field,
  named after the order field, for each field its entity has a value for; it skips the others.
\<close>

definition cursor_fields ::
  "(OrderByField \<Rightarrow> sqlval option) \<Rightarrow> entity_order list \<Rightarrow> Field list" where
  "cursor_fields val ord = concat (map (\<lambda>o'. case val (By o') of
      None \<Rightarrow> []
    | Some v \<Rightarrow> [\<lparr>fName = By o', fValue = v, fOrder = Direction o'\<rparr>]) ord)"

fun issue_match_value :: "IssueMatch \<Rightarrow> OrderByField \<Rightarrow> sqlval option" where
  "issue_match_value im IssueMatchId = Some (IntV (imId im))"
| "issue_match_value im IssueMatchTargetRemediationDate = Some (TimeV (imTargetRemediationDate im))"
| "issue_match_value im IssueMatchRating = Some (StrV (sevValue (imSeverity im)))"
| "issue_match_value im ComponentInstanceCcrn =
     map_option (\<lambda>ci. StrV (ciCCRN ci)) (imComponentInstance im)"
| "issue_match_value im IssuePrimaryName = map_option (\<lambda>i. StrV (isPrimaryName i)) (imIssue im)"
| "issue_match_value im _ = None"

definition WithIssueMatch :: "entity_order list \<Rightarrow> IssueMatch \<Rightarrow> Field list" where
  "WithIssueMatch ord im =
     cursor_fields (issue_match_value im) (GetDefaultOrder ord IssueMatchId OrderDirectionAsc)"

fun count_value :: "IssueSeverityCounts \<Rightarrow> OrderByField \<Rightarrow> sqlval option" where
  "count_value isc CriticalCount = Some (IntV (iscCritical isc))"
| "count_value isc HighCount = Some (IntV (iscHigh isc))"
| "count_value isc MediumCount = Some (IntV (iscMedium isc))"
| "count_value isc LowCount = Some (IntV (iscLow isc))"
| "count_value isc NoneCount = Some (IntV (iscNone isc))"
| "count_value isc _ = None"

definition WithService ::
  "entity_order list \<Rightarrow> Service \<Rightarrow> IssueSeverityCounts \<Rightarrow> Field list" where
  "WithService ord s isc = cursor_fields
     (\<lambda>f. if f = ServiceId then Some (IntV (svcId s))
          else if f = ServiceCcrn then Some (StrV (svcCCRN s))
          else count_value isc f)
     (GetDefaultOrder ord ServiceId OrderDirectionAsc)"

fun component_instance_value :: "ComponentInstance \<Rightarrow> OrderByField \<Rightarrow> sqlval option" where
  "component_instance_value ci ComponentInstanceId = Some (IntV (ciId ci))"
| "component_instance_value ci ComponentInstanceCcrn = Some (StrV (ciCCRN ci))"
| "component_instance_value ci ComponentInstanceRegion = Some (StrV (ciRegion ci))"
| "component_instance_value ci ComponentInstanceCluster = Some (StrV (ciCluster ci))"
| "component_instance_value ci ComponentInstanceNamespace = Some (StrV (ciNamespace ci))"
| "component_instance_value ci ComponentInstanceDomain = Some (StrV (ciDomain ci))"
| "component_instance_value ci ComponentInstanceProject = Some (StrV (ciProject ci))"
| "component_instance_value ci ComponentInstancePod = Some (StrV (ciPod ci))"
| "component_instance_value ci ComponentInstanceContainer = Some (StrV (ciContainer ci))"
| "component_instance_value ci ComponentInstanceTypeOrder = Some (StrV (ciType ci))"
| "component_instance_value ci _ = None"

definition WithComponentInstance :: "entity_order list \<Rightarrow> ComponentInstance \<Rightarrow> Field list" where
  "WithComponentInstance ord ci = cursor_fields (component_instance_value ci)
     (GetDefaultOrder ord ComponentInstanceId OrderDirectionAsc)"

definition WithComponentVersion ::
  "entity_order list \<Rightarrow> ComponentVersion \<Rightarrow> IssueSeverityCounts \<Rightarrow> Field list" where
  "WithComponentVersion ord cv isc = cursor_fields
     (\<lambda>f. if f = ComponentVersionId then Some (IntV (cvId cv))
          else if f = ComponentVersionRepository then Some (StrV (cvRepository cv))
          else count_value isc f)
     (GetDefaultOrder ord ComponentVersionId OrderDirectionAsc)"

text \<open>The zero time stands for the field \<open>Time\<close> of a NULL \<open>sql.NullTime\<close>.\<close>

definition WithIssue ::
  "entity_order list \<Rightarrow> Issue \<Rightarrow> int \<Rightarrow> gotime option \<Rightarrow> Field list" where
  "WithIssue ord issue ivRating earliest = cursor_fields
     (\<lambda>f. if f = IssueId then Some (IntV (isId issue))
          else if f = IssuePrimaryName then Some (StrV (isPrimaryName issue))
          else if f = IssueVariantRating then Some (IntV ivRating)
          else if f = IssueEarliestTargetRemediationDate
            then Some (TimeV (case earliest of None \<Rightarrow> 0 | Some t \<Rightarrow> t))
          else None)
     (GetDefaultOrder ord IssueId OrderDirectionAsc)"

definition WithSupportGroup :: "entity_order list \<Rightarrow> SupportGroup \<Rightarrow> Field list" where
  "WithSupportGroup ord sg = cursor_fields
     (\<lambda>f. if f = SupportGroupId then Some (IntV (sgId sg))
          else if f = SupportGroupCcrn then Some (StrV (sgCCRN sg)) else None)
     (GetDefaultOrder ord SupportGroupId OrderDirectionAsc)"

definition WithComponent ::
  "entity_order list \<Rightarrow> Component \<Rightarrow> IssueSeverityCounts \<Rightarrow> Field list" where
  "WithComponent ord c isc = cursor_fields
     (\<lambda>f. if f = ComponentId then Some (IntV (compId c))
          else if f = ComponentCcrn then Some (StrV (compCCRN c))
          else if f = ComponentRepository then Some (StrV (compRepository c))
          else count_value isc f)
     (GetDefaultOrder ord ComponentId OrderDirectionAsc)"

definition WithRemediation :: "entity_order list \<Rightarrow> Remediation \<Rightarrow> Field list" where
  "WithRemediation ord r = cursor_fields
     (\<lambda>f. if f = RemediationId then Some (IntV (remId r))
          else if f = RemediationIssue then Some (StrV (remIssue r))
          else if f = RemediationSeverity then Some (StrV (remSeverity r))
          else if f = RemediationExpirationDate then Some (TimeV (remExpirationDate r))
          else None)
     (GetDefaultOrder ord RemediationId OrderDirectionAsc)"

definition WithPatch :: "entity_order list \<Rightarrow> Patch \<Rightarrow> Field list" where
  "WithPatch ord p = cursor_fields
     (\<lambda>f. if f = PatchId then Some (IntV (patchId p)) else None)
     (GetDefaultOrder ord PatchId OrderDirectionAsc)"

definition WithUser :: "entity_order list \<Rightarrow> User \<Rightarrow> Field list" where
  "WithUser ord r = cursor_fields
     (\<lambda>f. if f = UserID then Some (IntV (userId r))
          else if f = UserUniqueUserID then Some (StrV (userUniqueUserID r))
          else if f = UserName then Some (StrV (userName r)) else None)
     (GetDefaultOrder ord UserID OrderDirectionAsc)"

definition WithIssueVariant :: "entity_order list \<Rightarrow> IssueVariant \<Rightarrow> Field list" where
  "WithIssueVariant ord r = cursor_fields
     (\<lambda>f. if f = IssueVariantID then Some (IntV (ivId r)) else None)
     (GetDefaultOrder ord IssueVariantID OrderDirectionAsc)"

definition WithIssueRepository :: "entity_order list \<Rightarrow> IssueRepository \<Rightarrow> Field list" where
  "WithIssueRepository ord r = cursor_fields
     (\<lambda>f. if f = IssueRepositoryID then Some (IntV (irId r)) else None)
     (GetDefaultOrder ord IssueRepositoryID OrderDirectionAsc)"

definition WithServiceIssueVariant :: "entity_order list \<Rightarrow> ServiceIssueVariant \<Rightarrow> Field list" where
  "WithServiceIssueVariant ord r = cursor_fields
     (\<lambda>f. if f = ServiceIssueVariantID then Some (IntV (ivId (sivVariant r))) else None)
     (GetDefaultOrder ord ServiceIssueVariantID OrderDirectionAsc)"

section \<open>The cursor condition and its parameters\<close>

fun cursor_dir :: "OrderDirection \<Rightarrow> string" where
  "cursor_dir OrderDirectionAsc = ''>''"
| "cursor_dir OrderDirectionDesc = ''<''"
| "cursor_dir (OtherDirection n) = ''>''"

fun cursor_sub_query :: "string \<Rightarrow> Field list \<Rightarrow> string" where
  "cursor_sub_query sub [] = sub"
| "cursor_sub_query sub [f] = sub @ '' '' @ ColumnName (fName f) @ '' '' @ cursor_dir (fOrder f) @ '' ? ''"
| "cursor_sub_query sub (f # g # fs) =
     cursor_sub_query (sub @ '' '' @ ColumnName (fName f) @ '' = ? AND '') (g # fs)"

function CreateCursorQuery :: "string \<Rightarrow> Field list \<Rightarrow> string" where
  "CreateCursorQuery query flds =
     (if flds = [] then query
      else (let sub = ''( '' @ cursor_sub_query [] flds @ '' )'';
                sub = (if query \<noteq> [] then query @ '' OR '' @ sub else sub)
            in CreateCursorQuery sub (butlast flds)))"
  by pat_completeness auto
termination by (relation "measure (\<lambda>(q, fs). length fs)") auto

function CreateCursorParameters :: "sqlval list \<Rightarrow> Field list \<Rightarrow> sqlval list" where
  "CreateCursorParameters params flds =
     (if flds = [] then params
      else CreateCursorParameters (params @ map fValue flds) (butlast flds))"
  by pat_completeness auto
termination by (relation "measure (\<lambda>(q, fs). length fs)") auto

declare CreateCursorQuery.simps [simp del] CreateCursorParameters.simps [simp del]

text \<open>\<open>getCursorQueryParameters\<close> of \<open>db_object.go\<close>: the parameters, and the row limit.\<close>

definition getCursorQueryParameters :: "int option \<Rightarrow> Field list \<Rightarrow> sqlval list \<times> int" where
  "getCursorQueryParameters pagFirst flds =
     (CreateCursorParameters [] flds, case pagFirst of None \<Rightarrow> 1000 | Some n \<Rightarrow> n)"

definition GetCursorQueryParameters :: "int option \<Rightarrow> Field list \<Rightarrow> sqlval list" where
  "GetCursorQueryParameters pagFirst flds =
     CreateCursorParameters [] flds @ [IntV (case pagFirst of None \<Rightarrow> 1000 | Some n \<Rightarrow> n)]"

section \<open>The clauses of the cursor condition\<close>

datatype cmp = CmpEq | CmpGt | CmpLt

type_synonym cond = "string \<times> cmp"
type_synonym row = "string \<Rightarrow> sqlval"

fun dir_cmp :: "OrderDirection \<Rightarrow> cmp" where
  "dir_cmp OrderDirectionAsc = CmpGt"
| "dir_cmp OrderDirectionDesc = CmpLt"
| "dir_cmp (OtherDirection n) = CmpGt"

fun cmp_str :: "cmp \<Rightarrow> string" where
  "cmp_str CmpEq = ''=''"
| "cmp_str CmpGt = ''>''"
| "cmp_str CmpLt = ''<''"

fun clause_of :: "Field list \<Rightarrow> cond list" where
  "clause_of [] = []"
| "clause_of [f] = [(ColumnName (fName f), dir_cmp (fOrder f))]"
| "clause_of (f # g # fs) = (ColumnName (fName f), CmpEq) # clause_of (g # fs)"

fun render_conds :: "cond list \<Rightarrow> string" where
  "render_conds [] = []"
| "render_conds [(c, k)] = '' '' @ c @ '' '' @ cmp_str k @ '' ? ''"
| "render_conds ((c, k) # d # ds) = '' '' @ c @ '' '' @ cmp_str k @ '' ? AND '' @ render_conds (d # ds)"

definition render_clause :: "cond list \<Rightarrow> string" where
  "render_clause cs = ''( '' @ render_conds cs @ '' )''"

text \<open>The nonempty prefixes of the field list, the longest first.\<close>

definition prefixes_down :: "'a list \<Rightarrow> 'a list list" where
  "prefixes_down xs = map (\<lambda>k. take k xs) (rev [1..<Suc (length xs)])"

definition cursor_clauses :: "Field list \<Rightarrow> cond list list" where
  "cursor_clauses fs = map clause_of (prefixes_down fs)"

lemma prefixes_down_Nil [simp]: "prefixes_down [] = []"
  by (simp add: prefixes_down_def)

lemma prefixes_down_butlast: "xs \<noteq> [] \<Longrightarrow> prefixes_down xs = xs # prefixes_down (butlast xs)"
  by (cases xs rule: rev_cases) (auto simp: prefixes_down_def)

lemma set_prefixes_down_Cons:
  "set (prefixes_down (x # xs)) = insert [x] ((\<lambda>p. x # p) ` set (prefixes_down xs))"
proof (induction xs rule: rev_induct)
  case Nil
  then show ?case by (simp add: prefixes_down_butlast)
next
  case (snoc y ys)
  then show ?case by (auto simp: prefixes_down_butlast [of "x # ys @ [y]"]
        prefixes_down_butlast [of "ys @ [y]"])
qed

lemma prefixes_down_nonempty: "p \<in> set (prefixes_down xs) \<Longrightarrow> p \<noteq> []"
  by (auto simp: prefixes_down_def)

lemma clause_of_not_Nil: "fs \<noteq> [] \<Longrightarrow> clause_of fs \<noteq> []"
  by (cases fs rule: clause_of.cases) auto

lemma cursor_dir_str: "cursor_dir d = cmp_str (dir_cmp d)"
  by (cases d) auto

lemma cursor_sub_query_render: "cursor_sub_query sub fs = sub @ render_conds (clause_of fs)"
proof (induction sub fs rule: cursor_sub_query.induct)
  case (3 sub f g fs)
  then show ?case using clause_of_not_Nil [of "g # fs"] by (cases "clause_of (g # fs)") auto
qed (auto simp: cursor_dir_str)

lemma CreateCursorQuery_render:
  "CreateCursorQuery q fs =
    strings_Join ((if q = [] then [] else [q]) @ map render_clause (cursor_clauses fs)) '' OR ''"
proof (induction fs arbitrary: q rule: butlast_induct)
  case Nil
  then show ?case by (subst CreateCursorQuery.simps) (simp add: cursor_clauses_def)
next
  case (step fs)
  let ?g = "''( '' @ cursor_sub_query [] fs @ '' )''"
  have g: "render_clause (clause_of fs) = ?g"
    by (simp add: render_clause_def cursor_sub_query_render)
  have ne: "?g \<noteq> []" "q @ '' OR '' @ ?g \<noteq> []" by simp_all
  have "CreateCursorQuery q fs = CreateCursorQuery (if q \<noteq> [] then q @ '' OR '' @ ?g else ?g) (butlast fs)"
    using step.hyps by (subst CreateCursorQuery.simps) (simp add: Let_def)
  also have "\<dots> = strings_Join ((if q \<noteq> [] then q @ '' OR '' @ ?g else ?g)
      # map render_clause (cursor_clauses (butlast fs))) '' OR ''"
    using ne by (simp only: step.IH) simp
  also have "\<dots> = strings_Join ((if q = [] then [] else [q]) @ ?g
      # map render_clause (cursor_clauses (butlast fs))) '' OR ''"
    by (cases "cursor_clauses (butlast fs)") (auto simp: strings_Join_Cons)
  also have "?g # map render_clause (cursor_clauses (butlast fs)) = map render_clause (cursor_clauses fs)"
    using step.hyps g by (simp add: cursor_clauses_def prefixes_down_butlast [of fs])
  finally show ?case .
qed

lemma CreateCursorParameters_concat:
  "CreateCursorParameters ps fs = ps @ concat (map (map fValue) (prefixes_down fs))"
proof (induction fs arbitrary: ps rule: butlast_induct)
  case Nil
  then show ?case by (subst CreateCursorParameters.simps) simp
next
  case (step fs)
  then show ?case
    by (subst CreateCursorParameters.simps) (simp add: prefixes_down_butlast [of fs])
qed

section \<open>Counting placeholders\<close>

lemma ColumnName_no_placeholder [simp]: "count_char (CHR ''?'') (ColumnName f) = 0"
  by (cases f) simp_all

lemma cmp_str_no_placeholder [simp]: "count_char (CHR ''?'') (cmp_str k) = 0"
  by (cases k) simp_all

lemma length_clause_of [simp]: "length (clause_of fs) = length fs"
  by (induction fs rule: clause_of.induct) auto

lemma count_render_clause: "count_char (CHR ''?'') (render_clause (clause_of fs)) = length fs"
proof -
  have "count_char (CHR ''?'') (render_conds (clause_of fs)) = length fs"
  proof (induction fs rule: clause_of.induct)
    case (3 f g fs)
    then show ?case using clause_of_not_Nil [of "g # fs"] by (cases "clause_of (g # fs)") auto
  qed auto
  then show ?thesis by (simp add: render_clause_def)
qed

lemma count_Join_OR:
  "count_char (CHR ''?'') (strings_Join xs '' OR '') = sum_list (map (count_char (CHR ''?'')) xs)"
  by (induction xs "'' OR ''" rule: strings_Join.induct) auto

lemma sum_prefix_lengths: "2 * sum_list (map length (prefixes_down xs)) = length xs * (length xs + 1)"
proof (induction xs rule: butlast_induct)
  case (step xs)
  then obtain n where n: "length xs = Suc n" by (cases xs) auto
  have "2 * sum_list (map length (prefixes_down xs)) = 2 * length xs + (length xs - 1) * length xs"
    using step n by (simp add: prefixes_down_butlast [of xs])
  then show ?case using n by simp
qed simp

text \<open>
  The text of the cursor condition is the disjunction of one parenthesised clause for every
  nonempty prefix of the order fields, the longest first, and it has exactly as many
  placeholders as \<open>CreateCursorParameters\<close> yields values: \<open>n (n + 1) / 2\<close> for \<open>n\<close> fields.
\<close>

theorem CreateCursorQuery_text:
  "CreateCursorQuery [] fs = strings_Join (map render_clause (cursor_clauses fs)) '' OR ''
   \<and> count_char (CHR ''?'') (CreateCursorQuery [] fs) = length (CreateCursorParameters [] fs)
   \<and> 2 * length (CreateCursorParameters [] fs) = length fs * (length fs + 1)"
proof -
  have "CreateCursorQuery [] fs = strings_Join (map render_clause (cursor_clauses fs)) '' OR ''"
    by (simp add: CreateCursorQuery_render)
  moreover have "length (CreateCursorParameters [] fs) = sum_list (map length (prefixes_down fs))"
    by (simp add: CreateCursorParameters_concat length_concat comp_def)
  ultimately show ?thesis
    by (simp add: count_Join_OR cursor_clauses_def comp_def count_render_clause sum_prefix_lengths)
qed

section \<open>The meaning of the cursor condition\<close>

fun cmp_holds :: "(sqlval \<Rightarrow> sqlval \<Rightarrow> bool) \<Rightarrow> cmp \<Rightarrow> sqlval \<Rightarrow> sqlval \<Rightarrow> bool" where
  "cmp_holds lt CmpEq a v = (a = v \<and> a \<noteq> NullV)"
| "cmp_holds lt CmpGt a v = (lt v a \<and> a \<noteq> NullV \<and> v \<noteq> NullV)"
| "cmp_holds lt CmpLt a v = (lt a v \<and> a \<noteq> NullV \<and> v \<noteq> NullV)"

text \<open>Evaluation takes one parameter per placeholder and returns the parameters left over.\<close>

fun eval_clause ::
  "(sqlval \<Rightarrow> sqlval \<Rightarrow> bool) \<Rightarrow> row \<Rightarrow> cond list \<Rightarrow> sqlval list \<Rightarrow> bool \<times> sqlval list" where
  "eval_clause lt r [] ps = (True, ps)"
| "eval_clause lt r (c # cs) [] = (False, [])"
| "eval_clause lt r ((c, k) # cs) (p # ps) =
     (let (b, ps') = eval_clause lt r cs ps in (cmp_holds lt k (r c) p \<and> b, ps'))"

fun eval_query ::
  "(sqlval \<Rightarrow> sqlval \<Rightarrow> bool) \<Rightarrow> row \<Rightarrow> cond list list \<Rightarrow> sqlval list \<Rightarrow> bool \<times> sqlval list" where
  "eval_query lt r [] ps = (False, ps)"
| "eval_query lt r (cl # cls) ps =
     (let (b, ps1) = eval_clause lt r cl ps; (b', ps2) = eval_query lt r cls ps1 in (b \<or> b', ps2))"

text \<open>Reference: the row lies beyond the cursor in the lexicographic order of the fields.\<close>

definition field_equal :: "row \<Rightarrow> Field \<Rightarrow> bool" where
  "field_equal r f \<longleftrightarrow> r (ColumnName (fName f)) = fValue f \<and> fValue f \<noteq> NullV"

definition field_beyond :: "(sqlval \<Rightarrow> sqlval \<Rightarrow> bool) \<Rightarrow> row \<Rightarrow> Field \<Rightarrow> bool" where
  "field_beyond lt r f \<longleftrightarrow> cmp_holds lt (dir_cmp (fOrder f)) (r (ColumnName (fName f))) (fValue f)"

fun beyond :: "(sqlval \<Rightarrow> sqlval \<Rightarrow> bool) \<Rightarrow> row \<Rightarrow> Field list \<Rightarrow> bool" where
  "beyond lt r [] = False"
| "beyond lt r (f # fs) = (field_beyond lt r f \<or> field_equal r f \<and> beyond lt r fs)"

fun clause_holds :: "(sqlval \<Rightarrow> sqlval \<Rightarrow> bool) \<Rightarrow> row \<Rightarrow> Field list \<Rightarrow> bool" where
  "clause_holds lt r [] = True"
| "clause_holds lt r [f] = field_beyond lt r f"
| "clause_holds lt r (f # g # fs) = (field_equal r f \<and> clause_holds lt r (g # fs))"

lemma eval_clause_of:
  "eval_clause lt r (clause_of fs) (map fValue fs @ ps) = (clause_holds lt r fs, ps)"
  by (induction fs rule: clause_of.induct) (auto simp: field_beyond_def field_equal_def)

lemma eval_query_clauses:
  "eval_query lt r (map clause_of gs) (concat (map (map fValue) gs) @ ps) =
    (\<exists>g \<in> set gs. clause_holds lt r g, ps)"
  by (induction gs) (auto simp: eval_clause_of)

lemma clause_holds_Cons:
  "p \<noteq> [] \<Longrightarrow> clause_holds lt r (f # p) \<longleftrightarrow> field_equal r f \<and> clause_holds lt r p"
  by (cases p) auto

lemma prefixes_beyond: "(\<exists>p \<in> set (prefixes_down fs). clause_holds lt r p) \<longleftrightarrow> beyond lt r fs"
proof (induction fs)
  case (Cons f fs)
  have "(\<exists>p \<in> set (prefixes_down (f # fs)). clause_holds lt r p) \<longleftrightarrow>
    field_beyond lt r f \<or> (\<exists>p \<in> set (prefixes_down fs). field_equal r f \<and> clause_holds lt r p)"
    using clause_holds_Cons [OF prefixes_down_nonempty, of _ fs lt r f]
    by (simp add: set_prefixes_down_Cons cong: bex_cong)
  with Cons show ?case by auto
qed simp

lemma eval_cursor_query:
  "eval_query lt r (cursor_clauses fs) (CreateCursorParameters [] fs) = (beyond lt r fs, [])"
  using eval_query_clauses [of lt r "prefixes_down fs" "[]"]
  by (simp add: cursor_clauses_def CreateCursorParameters_concat prefixes_beyond)

text \<open>
  The cursor condition with its parameters bound from left to right holds for exactly the
  rows that follow the cursor in the lexicographic order of its fields, each field in its own
  direction, and uses up all parameters.
\<close>

theorem cursor_query_lexicographic:
  "eval_query lt r (cursor_clauses fs) (CreateCursorParameters [] fs) = (beyond lt r fs, [])"
  by (rule eval_cursor_query)

section \<open>Keyset pagination\<close>

text \<open>
  The cursor of a row that has a value for every order field, the query for the page after a
  cursor (or the first page), and a client that asks for one page after the other.
\<close>

definition row_fields :: "entity_order list \<Rightarrow> row \<Rightarrow> Field list" where
  "row_fields ord r =
     map (\<lambda>o'. \<lparr>fName = By o', fValue = r (ColumnName (By o')), fOrder = Direction o'\<rparr>) ord"

definition cursor_accepts ::
  "(sqlval \<Rightarrow> sqlval \<Rightarrow> bool) \<Rightarrow> entity_order list \<Rightarrow> row \<Rightarrow> row \<Rightarrow> bool" where
  "cursor_accepts lt ord c r =
     fst (eval_query lt r (cursor_clauses (row_fields ord c)) (CreateCursorParameters [] (row_fields ord c)))"

definition fetch_page ::
  "(sqlval \<Rightarrow> sqlval \<Rightarrow> bool) \<Rightarrow> entity_order list \<Rightarrow> nat \<Rightarrow> row list \<Rightarrow> row option \<Rightarrow> row list" where
  "fetch_page lt ord n rows cur =
     take n (case cur of None \<Rightarrow> rows | Some c \<Rightarrow> filter (cursor_accepts lt ord c) rows)"

fun fetch_all ::
  "nat \<Rightarrow> (sqlval \<Rightarrow> sqlval \<Rightarrow> bool) \<Rightarrow> entity_order list \<Rightarrow> nat \<Rightarrow> row list \<Rightarrow> row option \<Rightarrow> row list" where
  "fetch_all 0 lt ord n rows cur = []"
| "fetch_all (Suc fuel) lt ord n rows cur =
     (let page = fetch_page lt ord n rows cur
      in if page = [] then [] else page @ fetch_all fuel lt ord n rows (Some (last page)))"

lemma cursor_accepts_beyond: "cursor_accepts lt ord c r \<longleftrightarrow> beyond lt r (row_fields ord c)"
  by (simp add: cursor_accepts_def eval_cursor_query)

lemma row_fields_simps [simp]:
  "row_fields [] r = []"
  "row_fields (o' # ord) r =
     \<lparr>fName = By o', fValue = r (ColumnName (By o')), fOrder = Direction o'\<rparr> # row_fields ord r"
  by (simp_all add: row_fields_def)

definition asymmetric :: "(sqlval \<Rightarrow> sqlval \<Rightarrow> bool) \<Rightarrow> bool" where
  "asymmetric lt \<longleftrightarrow> (\<forall>a b. lt a b \<longrightarrow> \<not> lt b a)"

lemma cmp_holds_asym:
  assumes "asymmetric lt"
  shows "cmp_holds lt (dir_cmp d) a b \<Longrightarrow> \<not> cmp_holds lt (dir_cmp d) b a"
  using assms by (cases d) (auto simp: asymmetric_def)

lemma cmp_holds_irrefl: "asymmetric lt \<Longrightarrow> \<not> cmp_holds lt (dir_cmp d) a a"
  using cmp_holds_asym by blast

lemma beyond_asym:
  assumes "asymmetric lt"
  shows "beyond lt r (row_fields ord c) \<Longrightarrow> \<not> beyond lt c (row_fields ord r)"
proof (induction ord)
  case (Cons o' ord)
  then show ?case
    using cmp_holds_asym [OF assms] cmp_holds_irrefl [OF assms]
    by (auto simp: field_beyond_def field_equal_def)
qed simp

lemma beyond_irrefl:
  assumes "asymmetric lt"
  shows "\<not> beyond lt r (row_fields ord r)"
  using beyond_asym [OF assms] by blast

lemma ties_not_beyond:
  assumes "asymmetric lt"
    and "\<And>o'. o' \<in> set ord \<Longrightarrow> r (ColumnName (By o')) = c (ColumnName (By o'))"
  shows "\<not> beyond lt r (row_fields ord c)"
proof -
  have "row_fields ord c = row_fields ord r" using assms(2) by (simp add: row_fields_def)
  then show ?thesis using beyond_irrefl [OF assms(1)] by simp
qed

text \<open>On rows sorted by the order, the cursor of the i-th row selects the rows after it.\<close>

lemma filter_after:
  assumes "asymmetric lt"
    and "sorted_wrt (\<lambda>a b. beyond lt b (row_fields ord a)) (xs @ c # ys)"
  shows "filter (cursor_accepts lt ord c) (xs @ c # ys) = ys"
proof -
  have "\<not> beyond lt x (row_fields ord c)" if "x \<in> set xs" for x
    using assms(2) that beyond_asym [OF assms(1)] by (auto simp: sorted_wrt_append)
  moreover have "beyond lt y (row_fields ord c)" if "y \<in> set ys" for y
    using assms(2) that by (auto simp: sorted_wrt_append)
  ultimately show ?thesis
    using beyond_irrefl [OF assms(1)] by (simp add: cursor_accepts_beyond)
qed

lemma fetch_all_after:
  assumes "asymmetric lt" and "0 < n"
    and "sorted_wrt (\<lambda>a b. beyond lt b (row_fields ord a)) (xs @ c # ys)"
  shows "length ys < fuel \<Longrightarrow> fetch_all fuel lt ord n (xs @ c # ys) (Some c) = ys"
  using assms(3)
proof (induction fuel arbitrary: xs c ys)
  case (Suc fuel)
  have page: "fetch_page lt ord n (xs @ c # ys) (Some c) = take n ys"
    using filter_after [OF assms(1) Suc.prems(2)] by (simp add: fetch_page_def)
  show ?case
  proof (cases "ys = []")
    case True
    with page show ?thesis by (simp add: Let_def)
  next
    case False
    then have ne: "take n ys \<noteq> []" using assms(2) by simp
    let ?l = "last (take n ys)"
    have split: "xs @ c # ys = (xs @ c # butlast (take n ys)) @ ?l # drop n ys"
      using append_butlast_last_id [OF ne] append_take_drop_id [of n ys]
      by (metis append.assoc append_Cons append_Nil)
    have "length (drop n ys) < fuel" using Suc.prems(1) False assms(2) by (cases ys) auto
    then have "fetch_all fuel lt ord n (xs @ c # ys) (Some ?l) = drop n ys"
      using Suc.IH [of "drop n ys" "xs @ c # butlast (take n ys)" ?l] Suc.prems(2) split by simp
    with page ne show ?thesis by (simp add: Let_def)
  qed
qed simp

text \<open>
  C27. Keyset pagination is complete: when the rows come sorted by the requested order and no two
  rows tie on it, asking page after page with the cursor of the last row of each page (any
  positive page size) returns every row exactly once and in order.
\<close>

theorem keyset_pagination_complete:
  assumes "asymmetric lt" and "0 < n"
    and "sorted_wrt (\<lambda>a b. beyond lt b (row_fields ord a)) rows"
    and "length rows < fuel"
  shows "fetch_all fuel lt ord n rows None = rows"
proof (cases "rows = []")
  case True
  then show ?thesis using assms(4) by (cases fuel) (auto simp: fetch_page_def)
next
  case False
  then have ne: "take n rows \<noteq> []" using assms(2) by simp
  obtain fuel' where fuel: "fuel = Suc fuel'" using assms(4) by (cases fuel) auto
  let ?l = "last (take n rows)"
  have split: "rows = butlast (take n rows) @ ?l # drop n rows"
    using append_butlast_last_id [OF ne] append_take_drop_id [of n rows]
    by (metis append.assoc append_Cons append_Nil)
  have "length (drop n rows) < fuel'" using assms(2,4) False fuel by (cases rows) auto
  moreover have "sorted_wrt (\<lambda>a b. beyond lt b (row_fields ord a))
      (butlast (take n rows) @ ?l # drop n rows)" using assms(3) split by simp
  ultimately have "fetch_all fuel' lt ord n rows (Some ?l) = drop n rows"
    using fetch_all_after [OF assms(1,2)] split by metis
  with ne show ?thesis by (simp add: fuel fetch_page_def Let_def)
qed

definition int_lt :: "sqlval \<Rightarrow> sqlval \<Rightarrow> bool" where
  "int_lt a b = (case (a, b) of (IntV i, IntV j) \<Rightarrow> i < j | _ \<Rightarrow> False)"

lemma int_lt_asym: "asymmetric int_lt"
  by (auto simp: asymmetric_def int_lt_def split: sqlval.splits)

theorem keyset_pagination_complete_witness:
  "fetch_all 4 int_lt [\<lparr>By = IssueMatchId, Direction = OrderDirectionDesc\<rparr>] 2
     [\<lambda>_. IntV 9, \<lambda>_. IntV 5, \<lambda>_. IntV 2] None = [\<lambda>_. IntV 9, \<lambda>_. IntV 5, \<lambda>_. IntV 2]"
  by (rule keyset_pagination_complete)
    (auto simp: int_lt_asym field_beyond_def, auto simp: int_lt_def)

text \<open>
  Without a tie-breaker rows are lost: a row that agrees with the last row of a page on
  every order column never satisfies the cursor condition of that page, so if it does not fit on
  the page itself it is on no later page either, whatever the page size.
\<close>

theorem tied_rows_skipped:
  assumes "asymmetric lt"
    and "\<And>o'. o' \<in> set ord \<Longrightarrow> r (ColumnName (By o')) = c (ColumnName (By o'))"
  shows "r \<notin> set (fetch_page lt ord n rows (Some c))"
proof -
  have "\<not> cursor_accepts lt ord c r"
    using ties_not_beyond [OF assms(1), of ord r c] assms(2) by (auto simp: cursor_accepts_beyond)
  then show ?thesis by (auto simp: fetch_page_def dest: in_set_takeD)
qed

theorem tied_rows_skipped_witness:
  "let rating = (\<lambda>i c. if c = ''issuematch_id'' then IntV i else StrV ''High'')
   in rating 2 \<notin> set (fetch_page int_lt [\<lparr>By = IssueMatchRating, Direction = OrderDirectionDesc\<rparr>] 1
        [rating 1, rating 2] (Some (rating 1)))"
  unfolding Let_def by (rule tied_rows_skipped) (simp_all add: int_lt_asym)

section \<open>The cursor of a row\<close>

lemma cursor_fields_aligned:
  "(\<And>o'. o' \<in> set ord \<Longrightarrow> val (By o') \<noteq> None) \<Longrightarrow>
   map (\<lambda>f. (fName f, fOrder f)) (cursor_fields val ord) = map (\<lambda>o'. (By o', Direction o')) ord"
  by (induction ord) (fastforce simp: cursor_fields_def split: option.splits)+

lemma sequence_NewOrder:
  "sequence (NewOrderWithCounterPrefix ord \<lparr>By = by, Direction = dir\<rparr> p) = GetDefaultOrder ord by dir"
  by (simp add: NewOrderWithCounterPrefix_def GetDefaultOrder_def)

text \<open>
  The cursor of an issue match lists exactly the fields the query is sorted by, in the
  same order and directions, provided the order uses issue-match fields only and the relations
  it sorts by are loaded with the row.
\<close>

theorem issue_match_cursor_matches_order:
  assumes "set (map By ord) \<subseteq> {IssueMatchId, IssueMatchTargetRemediationDate, IssueMatchRating,
      ComponentInstanceCcrn, IssuePrimaryName}"
    and "ComponentInstanceCcrn \<in> set (map By ord) \<Longrightarrow> imComponentInstance im \<noteq> None"
    and "IssuePrimaryName \<in> set (map By ord) \<Longrightarrow> imIssue im \<noteq> None"
  shows "map (\<lambda>f. (fName f, fOrder f)) (WithIssueMatch ord im) =
    map (\<lambda>o'. (By o', Direction o'))
      (sequence (NewOrder ord \<lparr>By = IssueMatchId, Direction = OrderDirectionAsc\<rparr>))"
proof -
  have "issue_match_value im (By o') \<noteq> None"
    if "o' \<in> set (GetDefaultOrder ord IssueMatchId OrderDirectionAsc)" for o'
    using that assms by (cases "By o'") (auto simp: GetDefaultOrder_def image_iff split: if_splits; force)+
  then show ?thesis
    by (simp add: WithIssueMatch_def NewOrder_def sequence_NewOrder cursor_fields_aligned)
qed

definition example_issue_match :: IssueMatch where
  "example_issue_match = \<lparr>imMeta = zero_metadata, imId = 7, imStatus = ''new'', imUserId = 1,
     imSeverity = NewSeverityFromRating SeverityValuesHigh, imComponentInstance = None,
     imComponentInstanceId = 2, imIssue = None, imIssueId = 3, imRemediationDate = 0,
     imTargetRemediationDate = 0\<rparr>"

theorem issue_match_cursor_matches_order_witness:
  "map (\<lambda>f. (fName f, fOrder f)) (WithIssueMatch [\<lparr>By = IssueMatchRating, Direction = OrderDirectionDesc\<rparr>]
     example_issue_match) = [(IssueMatchRating, OrderDirectionDesc)]"
  using issue_match_cursor_matches_order
    [of "[\<lparr>By = IssueMatchRating, Direction = OrderDirectionDesc\<rparr>]" example_issue_match]
  by (simp add: NewOrder_def NewOrderWithCounterPrefix_def)

end
