(* ===== verification/Filter_Query.thy ===== *)
theory Filter_Query
  imports Order_Cursor
begin

text \<open>
  The filter conditions of the SQL layer: the text builders of
  \<open>internal/database/mariadb/database.go\<close>, the \<open>FilterProperty\<close> values and the methods
  \<open>AddFilter\<close> and \<open>AddCursor\<close> of \<open>internal/database/mariadb/db_object.go\<close>, the flattening of
  JSON filters of \<open>internal/util/json_encode.go\<close>, and the filter properties of
  \<open>issueMatchObject\<close>. The last part gives the WHERE clause that joins them its meaning under
  the precedence of SQL.
\<close>

section \<open>Text builders\<close>

definition OP_AND :: string where "OP_AND = ''AND''"
definition OP_OR :: string where "OP_OR = ''OR''"

text \<open>\<open>fmt.Sprintf(FILTER_FORMAT_STR, a, b)\<close>\<close>

definition filter_format :: "string \<Rightarrow> string \<Rightarrow> string" where
  "filter_format a b = '' '' @ a @ '' '' @ b"

fun combine_loop :: "string \<Rightarrow> string \<Rightarrow> nat \<Rightarrow> string list \<Rightarrow> string" where
  "combine_loop opr acc i [] = acc"
| "combine_loop opr acc i (f # fs) =
     (if f = [] then combine_loop opr acc i fs
      else combine_loop opr
             (filter_format (if i > 0 then filter_format acc opr else acc) f) (i + 1) fs)"

definition in_brackets :: "string \<Rightarrow> string" where
  "in_brackets s = (if s \<noteq> [] then ''( '' @ s @ '' )'' else s)"

definition combineFilterQueries :: "string list \<Rightarrow> string \<Rightarrow> string" where
  "combineFilterQueries filterQueries opr = in_brackets (combine_loop opr [] 0 filterQueries)"

fun build_loop :: "string \<Rightarrow> string \<Rightarrow> string \<Rightarrow> nat \<Rightarrow> 'a list \<Rightarrow> string" where
  "build_loop expr opr acc i [] = acc"
| "build_loop expr opr acc i (x # xs) =
     build_loop expr opr (filter_format (if i > 0 then filter_format acc opr else acc) expr) (i + 1) xs"

definition buildFilterQuery :: "'a list \<Rightarrow> string \<Rightarrow> string \<Rightarrow> string" where
  "buildFilterQuery flt expr opr = in_brackets (build_loop expr opr [] 0 flt)"

definition buildQueryParametersCount :: "'a list \<Rightarrow> 'a list \<Rightarrow> nat \<Rightarrow> 'a list" where
  "buildQueryParametersCount params flt count =
     fold (\<lambda>item ps. ps @ replicate count item) flt params"

definition buildQueryParameters :: "'a list \<Rightarrow> 'a list \<Rightarrow> 'a list" where
  "buildQueryParameters params flt = buildQueryParametersCount params flt 1"

definition getNParameters :: "'a list \<Rightarrow> nat \<Rightarrow> 'a list" where
  "getNParameters params count = concat (map (replicate count) params)"

fun state_query :: "string \<Rightarrow> StateFilterType \<Rightarrow> string" where
  "state_query prefix Active = prefix @ ''_deleted_at IS NULL''"
| "state_query prefix Deleted = prefix @ ''_deleted_at IS NOT NULL''"

definition buildStateFilterQuery :: "StateFilterType list \<Rightarrow> string \<Rightarrow> string" where
  "buildStateFilterQuery state prefix =
     combineFilterQueries
       (if state = [] then [prefix @ ''_deleted_at IS NULL''] else map (state_query prefix) state)
       OP_OR"

section \<open>JSON filters\<close>

text \<open>
  A Go map is an association list with distinct keys; the keys are visited sorted. Array
  elements get an index, every scalar yields one attribute with its path.
\<close>

function separateJson :: "json \<Rightarrow> string \<Rightarrow> (string \<times> json) list" where
  "separateJson (JObj kvs) prefix =
     concat (map (\<lambda>(k, v). separateJson v (if prefix \<noteq> [] then prefix @ ''.'' @ k else k))
       (sort_key fst kvs))"
| "separateJson (JArr xs) prefix =
     concat (map (\<lambda>(i, x). separateJson x (prefix @ ''['' @ FormatInt (int i) @ '']''))
       (List.enumerate 0 xs))"
| "separateJson JNull prefix = [(prefix, JNull)]"
| "separateJson (JBool b) prefix = [(prefix, JBool b)]"
| "separateJson (JNum n) prefix = [(prefix, JNum n)]"
| "separateJson (JStr s) prefix = [(prefix, JStr s)]"
  by pat_completeness auto

lemma size_json_member:
  "(k, v) \<in> set kvs \<Longrightarrow> size v < Suc (size_list (size_prod (\<lambda>_. 0) size) kvs)"
  by (induction kvs) auto

lemma size_json_element:
  "x \<in> set xs \<Longrightarrow> size x < Suc (size_list size xs)"
  by (induction xs) auto

termination separateJson
proof (relation "measure (\<lambda>(j, p). size j)")
  show "((v, if prefix \<noteq> [] then prefix @ ''.'' @ k else k), JObj kvs, prefix)
      \<in> measure (\<lambda>(j, p). size j)"
    if "kv \<in> set (sort_key fst kvs)" "(k, v) = kv" for kvs prefix kv k v
    using that size_json_member [of k v kvs] by auto
  show "((x, prefix @ ''['' @ FormatInt (int i) @ '']''), JArr xs, prefix)
      \<in> measure (\<lambda>(j, p). size j)"
    if "ix \<in> set (List.enumerate 0 xs)" "(i, x) = ix" for xs prefix ix i x
    using that size_json_element [of x xs] by (auto simp: in_set_enumerate_eq)
qed auto

definition SeparateJsonAttributes :: "json \<Rightarrow> (string \<times> json) list" where
  "SeparateJsonAttributes j = separateJson j []"

definition json_condition :: "string \<Rightarrow> string \<Rightarrow> string" where
  "json_condition column key = ''JSON_VALUE('' @ column @ '', '' @ [CHR 0x27] @ ''$.'' @ key @ [CHR 0x27] @ '') = ?''"

definition buildJsonFilterQuery :: "json list \<Rightarrow> string \<Rightarrow> string \<Rightarrow> string" where
  "buildJsonFilterQuery flt column opr =
     combineFilterQueries
       (map (\<lambda>j. combineFilterQueries
              (map (\<lambda>(key, attr). json_condition column key) (SeparateJsonAttributes j)) OP_AND) flt)
       opr"

definition buildJsonQueryParameters :: "json list \<Rightarrow> json list \<Rightarrow> json list" where
  "buildJsonQueryParameters params flt =
     buildQueryParameters params (concat (map (\<lambda>j. map snd (SeparateJsonAttributes j)) flt))"

section \<open>Filter properties\<close>

text \<open>The values a filter field holds, and a WHERE part: its text and its parameters.\<close>

datatype fparam = PVal sqlval | PState StateFilterType | PJson json

record 'f FilterProperty =
  BuildQuery :: "fparam list \<Rightarrow> string go"
  GetParam :: "'f \<Rightarrow> fparam list"
  BuildParams :: "'f \<Rightarrow> fparam list"

definition GetQuery :: "'f FilterProperty \<Rightarrow> 'f \<Rightarrow> string go" where
  "GetQuery fp f = BuildQuery fp (GetParam fp f)"

definition GetParameters :: "'f FilterProperty \<Rightarrow> 'f \<Rightarrow> fparam list" where
  "GetParameters fp f = BuildParams fp f"

definition NewNFilterProperty :: "string \<Rightarrow> ('f \<Rightarrow> fparam list) \<Rightarrow> nat \<Rightarrow> 'f FilterProperty" where
  "NewNFilterProperty query param nparam =
     \<lparr>BuildQuery = (\<lambda>filterParam. Inr (buildFilterQuery filterParam query OP_OR)),
      GetParam = param, BuildParams = (\<lambda>f. getNParameters (param f) nparam)\<rparr>"

definition NewFilterProperty :: "string \<Rightarrow> ('f \<Rightarrow> fparam list) \<Rightarrow> 'f FilterProperty" where
  "NewFilterProperty query param = NewNFilterProperty query param 1"

fun ToStateSlice :: "fparam list \<Rightarrow> StateFilterType list go" where
  "ToStateSlice [] = Inr []"
| "ToStateSlice (PState s # ps) = bindR (ToStateSlice ps) (\<lambda>ss. Inr (s # ss))"
| "ToStateSlice (_ # ps) = Inl (ExplicitPanic ''ToStateSlice'')"

fun ToJsonSlice :: "fparam list \<Rightarrow> json list go" where
  "ToJsonSlice [] = Inr []"
| "ToJsonSlice (PJson j # ps) = bindR (ToJsonSlice ps) (\<lambda>js. Inr (j # js))"
| "ToJsonSlice (_ # ps) = Inl (ExplicitPanic ''ToJsonSlice'')"

definition doNotUseParameters :: "'f \<Rightarrow> fparam list" where
  "doNotUseParameters f = []"

definition NewStateFilterProperty :: "string \<Rightarrow> ('f \<Rightarrow> StateFilterType list) \<Rightarrow> 'f FilterProperty" where
  "NewStateFilterProperty prefix param =
     \<lparr>BuildQuery = (\<lambda>ps. bindR (ToStateSlice ps) (\<lambda>ss. Inr (buildStateFilterQuery ss prefix))),
      GetParam = (\<lambda>f. map PState (param f)), BuildParams = doNotUseParameters\<rparr>"

definition NewJsonFilterProperty :: "string \<Rightarrow> ('f \<Rightarrow> json list) \<Rightarrow> 'f FilterProperty" where
  "NewJsonFilterProperty query param =
     \<lparr>BuildQuery = (\<lambda>ps. bindR (ToJsonSlice ps) (\<lambda>js. Inr (buildJsonFilterQuery js query OP_OR))),
      GetParam = (\<lambda>f. map PJson (param f)),
      BuildParams = (\<lambda>f. map PJson (buildJsonQueryParameters [] (param f)))\<rparr>"

text \<open>The assertion of \<open>WrapBuilder\<close> that every value has the type of the builder.\<close>

definition WrapBuilder :: "(fparam \<Rightarrow> 'a option) \<Rightarrow> ('a list \<Rightarrow> string go) \<Rightarrow> fparam list \<Rightarrow> string go" where
  "WrapBuilder as_type build values =
     (if list_all (\<lambda>v. as_type v \<noteq> None) values then build (map (\<lambda>v. the (as_type v)) values)
      else Inl (ExplicitPanic ''WrapBuilderSlice''))"

definition NewCustomFilterProperty ::
  "(fparam list \<Rightarrow> string go) \<Rightarrow> ('f \<Rightarrow> fparam list) \<Rightarrow> 'f FilterProperty" where
  "NewCustomFilterProperty buildQuery getParam =
     \<lparr>BuildQuery = buildQuery, GetParam = getParam, BuildParams = doNotUseParameters\<rparr>"

text \<open>The query under construction: what \<open>Where\<close>, \<open>Having\<close> and \<open>Limit\<close> were given.\<close>

type_synonym part = "string \<times> fparam list"

record select_parts =
  where_parts :: "part list"
  having_parts :: "part list"
  limit :: "int option"

fun AddFilter :: "'f FilterProperty list \<Rightarrow> 'f \<Rightarrow> select_parts \<Rightarrow> select_parts go" where
  "AddFilter [] f qb = Inr qb"
| "AddFilter (v # vs) f qb =
     bindR (GetQuery v f) (\<lambda>q.
       AddFilter vs f
         (if q \<noteq> [] then qb\<lparr>where_parts := where_parts qb @ [(q, GetParameters v f)]\<rparr> else qb))"

text \<open>The limit is converted to an unsigned integer, so a negative page size wraps around.\<close>

definition AddCursor :: "bool \<Rightarrow> int option \<Rightarrow> Field list \<Rightarrow> select_parts \<Rightarrow> select_parts" where
  "AddCursor aggregated pagFirst cursorFields qb =
     (let cursorQuery = CreateCursorQuery [] cursorFields;
          (cursorParams, lim) = getCursorQueryParameters pagFirst cursorFields;
          part = (cursorQuery, map PVal cursorParams);
          qb = (if cursorQuery \<noteq> []
                then (if aggregated then qb\<lparr>having_parts := having_parts qb @ [part]\<rparr>
                      else qb\<lparr>where_parts := where_parts qb @ [part]\<rparr>)
                else qb)
      in qb\<lparr>limit := Some (lim mod 2 ^ 64)\<rparr>)"

section \<open>The filter of issue matches\<close>

record IssueMatchFilter =
  imfFirst :: "int option"
  imfAfter :: "string option"
  imfId :: "id64 list"
  imfServiceCCRN :: "string list"
  imfSeverityValue :: "string list"
  imfStatus :: "string list"
  imfIssueId :: "id64 list"
  imfComponentInstanceId :: "id64 list"
  imfServiceId :: "id64 list"
  imfSupportGroupCCRN :: "string list"
  imfSearch :: "string list"
  imfComponentCCRN :: "string list"
  imfPrimaryName :: "string list"
  imfIssueType :: "string list"
  imfState :: "StateFilterType list"
  imfServiceOwnerUsername :: "string list"
  imfServiceOwnerUniqueUserId :: "string list"

definition ids :: "id64 list \<Rightarrow> fparam list" where "ids = map (\<lambda>i. PVal (IntV i))"
definition strs :: "string list \<Rightarrow> fparam list" where "strs = map (\<lambda>s. PVal (StrV s))"

text \<open>A nil pointer to a string is passed on as NULL.\<close>

definition ptrs :: "string option list \<Rightarrow> fparam list" where
  "ptrs = map (\<lambda>p. PVal (case p of None \<Rightarrow> NullV | Some s \<Rightarrow> StrV s))"

definition like_param :: "string \<Rightarrow> string" where
  "like_param column = column @ '' LIKE Concat('' @ [CHR 0x27] @ ''%'' @ [CHR 0x27] @ '',?,'' @ [CHR 0x27] @ ''%'' @ [CHR 0x27] @ '')''"

definition issueMatchFilterProperties :: "IssueMatchFilter FilterProperty list" where
  "issueMatchFilterProperties =
    [NewFilterProperty ''IM.issuematch_id = ?'' (\<lambda>f. ids (imfId f)),
     NewFilterProperty ''IM.issuematch_issue_id = ?'' (\<lambda>f. ids (imfIssueId f)),
     NewFilterProperty ''IM.issuematch_component_instance_id = ?'' (\<lambda>f. ids (imfComponentInstanceId f)),
     NewFilterProperty ''S.service_ccrn = ?'' (\<lambda>f. strs (imfServiceCCRN f)),
     NewFilterProperty ''CI.componentinstance_service_id = ?'' (\<lambda>f. ids (imfServiceId f)),
     NewFilterProperty ''IM.issuematch_rating = ?'' (\<lambda>f. strs (imfSeverityValue f)),
     NewFilterProperty ''IM.issuematch_status = ?'' (\<lambda>f. strs (imfStatus f)),
     NewFilterProperty ''SG.supportgroup_ccrn = ?'' (\<lambda>f. strs (imfSupportGroupCCRN f)),
     NewFilterProperty ''I.issue_primary_name = ?'' (\<lambda>f. strs (imfPrimaryName f)),
     NewFilterProperty ''C.component_ccrn = ?'' (\<lambda>f. strs (imfComponentCCRN f)),
     NewFilterProperty ''I.issue_type = ?'' (\<lambda>f. strs (imfIssueType f)),
     NewFilterProperty ''U.user_name = ?'' (\<lambda>f. strs (imfServiceOwnerUsername f)),
     NewFilterProperty ''U.user_unique_user_id = ?'' (\<lambda>f. strs (imfServiceOwnerUniqueUserId f)),
     NewNFilterProperty (like_param ''IV.issuevariant_secondary_name'' @ '' OR '' @ like_param ''I.issue_primary_name'')
       (\<lambda>f. strs (imfSearch f)) 2,
     NewStateFilterProperty ''IM.issuematch'' imfState]"

section \<open>Normal form of a combined filter\<close>

lemma combine_loop_form:
  "0 < i \<Longrightarrow> combine_loop opr acc i fs =
     replicate (2 * length (filter (\<lambda>f. f \<noteq> []) fs)) CHR 0x20 @ acc
     @ concat (map (\<lambda>f. '' '' @ opr @ '' '' @ f) (filter (\<lambda>f. f \<noteq> []) fs))"
proof (induction fs arbitrary: acc i)
  case (Cons f fs)
  show ?case
  proof (cases "f = []")
    case False
    have "replicate n CHR 0x20 @ '' '' @ '' '' @ s = replicate (n + 2) CHR 0x20 @ s" for n and s :: string
      by (induction n) auto
    with False Cons show ?thesis by (simp add: filter_format_def)
  qed (use Cons in simp)
qed simp

lemma Join_concat: "strings_Join (x # xs) sep = x @ concat (map (\<lambda>y. sep @ y) xs)"
  by (induction xs arbitrary: x) auto

definition combined_form :: "string list \<Rightarrow> string \<Rightarrow> string" where
  "combined_form qs opr =
     (if qs = [] then []
      else ''( '' @ replicate (2 * length qs) CHR 0x20 @ strings_Join qs ('' '' @ opr @ '' '') @ '' )'')"

lemma combineFilterQueries_form:
  "combineFilterQueries qs opr = combined_form (filter (\<lambda>q. q \<noteq> []) qs) opr"
proof (induction qs)
  case Nil
  then show ?case by (simp add: combineFilterQueries_def in_brackets_def combined_form_def)
next
  case (Cons q qs)
  show ?case
  proof (cases "q = []")
    case True
    with Cons show ?thesis by (simp add: combineFilterQueries_def)
  next
    case False
    have "replicate n CHR 0x20 @ '' '' @ '' '' @ s = '' '' @ '' '' @ replicate n CHR 0x20 @ s"
      for n and s :: string by (induction n) auto
    with False show ?thesis
      by (simp add: combineFilterQueries_def in_brackets_def combined_form_def filter_format_def
          combine_loop_form Join_concat)
  qed
qed

lemma build_loop_combine:
  "expr \<noteq> [] \<Longrightarrow> build_loop expr opr acc i xs = combine_loop opr acc i (replicate (length xs) expr)"
  by (induction xs arbitrary: acc i) auto

lemma buildFilterQuery_form:
  "expr \<noteq> [] \<Longrightarrow> buildFilterQuery xs expr opr = combined_form (replicate (length xs) expr) opr"
  using combineFilterQueries_form [of "replicate (length xs) expr" opr]
  by (simp add: buildFilterQuery_def combineFilterQueries_def build_loop_combine)

text \<open>
  Empty conditions drop out of a combined filter: the result is empty when all conditions
  are, and otherwise one bracket around the nonempty conditions in order, joined by the
  operator. A filter over \<open>n\<close> values is the combination of \<open>n\<close> copies of its condition.
\<close>

theorem combined_filter_text:
  "combineFilterQueries qs opr = combined_form (filter (\<lambda>q. q \<noteq> []) qs) opr
   \<and> (expr \<noteq> [] \<longrightarrow> buildFilterQuery xs expr opr = combineFilterQueries (map (\<lambda>_. expr) xs) opr)"
  by (simp add: combineFilterQueries_form buildFilterQuery_form map_replicate_const)

theorem combined_filter_text_witness:
  "buildFilterQuery [1::nat, 2] ''a = ?'' OP_OR = ''(     a = ? OR a = ? )''"
  using combined_filter_text [of "[''a = ?'', ''a = ?'']" OP_OR "''a = ?''" "[1::nat, 2]"]
  by (simp add: combined_form_def OP_OR_def numeral_eq_Suc)

section \<open>Placeholders and parameters\<close>

lemma count_Join:
  "count_char c (strings_Join xs sep) = sum_list (map (count_char c) xs) + (length xs - 1) * count_char c sep"
  by (induction xs sep rule: strings_Join.induct) auto

lemma count_replicate: "c \<noteq> d \<Longrightarrow> count_char c (replicate n d) = 0"
  by (induction n) auto

lemma count_combined_form:
  "count_char (CHR ''?'') opr = 0 \<Longrightarrow>
   count_char (CHR ''?'') (combined_form qs opr) = sum_list (map (count_char (CHR ''?'')) qs)"
  by (simp add: combined_form_def count_Join count_replicate)

lemma sum_count_nonempty:
  "sum_list (map (count_char c) (filter (\<lambda>q. q \<noteq> []) qs)) = sum_list (map (count_char c) qs)"
  by (induction qs) auto

lemma count_combineFilterQueries:
  "count_char (CHR ''?'') opr = 0 \<Longrightarrow>
   count_char (CHR ''?'') (combineFilterQueries qs opr) = sum_list (map (count_char (CHR ''?'')) qs)"
  by (simp add: combineFilterQueries_form count_combined_form sum_count_nonempty)

lemma count_operators [simp]:
  "count_char (CHR ''?'') OP_OR = 0" "count_char (CHR ''?'') OP_AND = 0"
  by (simp_all add: OP_OR_def OP_AND_def)

lemma length_getNParameters [simp]: "length (getNParameters ps n) = length ps * n"
  by (induction ps) (simp_all add: getNParameters_def)

text \<open>A filter property is aligned when its text has one placeholder for each parameter.\<close>

definition aligned_property :: "'f FilterProperty \<Rightarrow> bool" where
  "aligned_property fp \<longleftrightarrow> (\<forall>f. \<exists>q. GetQuery fp f = Inr q
     \<and> count_char (CHR ''?'') q = length (GetParameters fp f))"

lemma aligned_NFilterProperty:
  assumes "count_char (CHR ''?'') query = n" and "query \<noteq> []"
  shows "aligned_property (NewNFilterProperty query param n)"
  using assms
  by (simp add: aligned_property_def NewNFilterProperty_def GetQuery_def GetParameters_def
      buildFilterQuery_form count_combined_form sum_list_replicate)

lemma aligned_FilterProperty:
  "count_char (CHR ''?'') query = 1 \<Longrightarrow> aligned_property (NewFilterProperty query param)"
  unfolding NewFilterProperty_def by (rule aligned_NFilterProperty) auto

lemma ToStateSlice_map [simp]: "ToStateSlice (map PState ss) = Inr ss"
  by (induction ss) auto

lemma ToJsonSlice_map [simp]: "ToJsonSlice (map PJson js) = Inr js"
  by (induction js) auto

lemma count_state_query:
  "count_char (CHR ''?'') prefix = 0 \<Longrightarrow> count_char (CHR ''?'') (state_query prefix s) = 0"
  by (cases s) auto

lemma aligned_StateFilterProperty:
  assumes "count_char (CHR ''?'') prefix = 0"
  shows "aligned_property (NewStateFilterProperty prefix param)"
proof -
  have "sum_list (map (count_char (CHR ''?'') \<circ> state_query prefix) ss) = 0" for ss
    using assms by (induction ss) (auto simp: count_state_query)
  with assms show ?thesis
    by (simp add: aligned_property_def NewStateFilterProperty_def GetQuery_def GetParameters_def
        doNotUseParameters_def buildStateFilterQuery_def count_combineFilterQueries)
qed

lemma aligned_issueMatchFilterProperties:
  "list_all aligned_property issueMatchFilterProperties"
  by (simp add: issueMatchFilterProperties_def aligned_FilterProperty aligned_NFilterProperty
      aligned_StateFilterProperty like_param_def)

lemma AddFilter_aligned:
  assumes "list_all aligned_property fps"
  shows "\<exists>new. AddFilter fps f qb = Inr (qb\<lparr>where_parts := where_parts qb @ new\<rparr>)
    \<and> (\<forall>(q, ps) \<in> set new. q \<noteq> [] \<and> count_char (CHR ''?'') q = length ps)
    \<and> (\<forall>fp \<in> set fps. \<forall>q. GetQuery fp f = Inr q \<and> q \<noteq> [] \<longrightarrow> (q, GetParameters fp f) \<in> set new)"
  using assms
proof (induction fps arbitrary: qb)
  case Nil
  then show ?case by (intro exI [of _ "[]"]) simp
next
  case (Cons fp fps)
  then have "aligned_property fp" by simp
  then obtain q where q: "GetQuery fp f = Inr q"
    "count_char (CHR ''?'') q = length (GetParameters fp f)"
    by (meson aligned_property_def)
  let ?head = "if q \<noteq> [] then [(q, GetParameters fp f)] else []"
  let ?qb = "qb\<lparr>where_parts := where_parts qb @ ?head\<rparr>"
  obtain new where new: "AddFilter fps f ?qb = Inr (?qb\<lparr>where_parts := where_parts ?qb @ new\<rparr>)"
    "\<forall>(q, ps) \<in> set new. q \<noteq> [] \<and> count_char (CHR ''?'') q = length ps"
    "\<forall>fp \<in> set fps. \<forall>q. GetQuery fp f = Inr q \<and> q \<noteq> [] \<longrightarrow> (q, GetParameters fp f) \<in> set new"
    using Cons.IH [of ?qb] Cons.prems by force
  have "AddFilter (fp # fps) f qb = Inr (qb\<lparr>where_parts := where_parts qb @ (?head @ new)\<rparr>)"
    using new(1) q(1) by (cases "q = []") simp_all
  moreover have "\<forall>(q, ps) \<in> set (?head @ new). q \<noteq> [] \<and> count_char (CHR ''?'') q = length ps"
    using new(2) q(2) by auto
  moreover have "\<forall>fp \<in> set (fp # fps). \<forall>q. GetQuery fp f = Inr q \<and> q \<noteq> []
      \<longrightarrow> (q, GetParameters fp f) \<in> set (?head @ new)"
    using new(3) q(1) by auto
  ultimately show ?case by blast
qed

definition empty_select :: select_parts where
  "empty_select = \<lparr>where_parts = [], having_parts = [], limit = None\<rparr>"

text \<open>
  Filtering issue matches never panics, and in every WHERE part it produces the number of
  placeholders equals the number of parameters passed with the part, for every filter value.
  When the filter names no state, the part that excludes deleted rows is among them.
\<close>

theorem issue_match_filter_parts:
  "\<exists>qb. AddFilter issueMatchFilterProperties f empty_select = Inr qb
    \<and> (\<forall>(q, ps) \<in> set (where_parts qb). q \<noteq> [] \<and> count_char (CHR ''?'') q = length ps)
    \<and> (imfState f = [] \<longrightarrow> (''(   IM.issuematch_deleted_at IS NULL )'', []) \<in> set (where_parts qb))"
proof -
  obtain new where new:
    "AddFilter issueMatchFilterProperties f empty_select
       = Inr (empty_select\<lparr>where_parts := where_parts empty_select @ new\<rparr>)"
    "\<forall>(q, ps) \<in> set new. q \<noteq> [] \<and> count_char (CHR ''?'') q = length ps"
    "\<forall>fp \<in> set issueMatchFilterProperties. \<forall>q. GetQuery fp f = Inr q \<and> q \<noteq> []
       \<longrightarrow> (q, GetParameters fp f) \<in> set new"
    using AddFilter_aligned [OF aligned_issueMatchFilterProperties, of f empty_select] by blast
  let ?st = "NewStateFilterProperty ''IM.issuematch'' imfState"
  have "?st \<in> set issueMatchFilterProperties" by (simp add: issueMatchFilterProperties_def)
  moreover have "imfState f = [] \<Longrightarrow> GetQuery ?st f = Inr ''(   IM.issuematch_deleted_at IS NULL )''"
    by (simp add: NewStateFilterProperty_def GetQuery_def buildStateFilterQuery_def
        combineFilterQueries_def filter_format_def in_brackets_def)
  moreover have "GetParameters ?st f = []"
    by (simp add: NewStateFilterProperty_def GetParameters_def doNotUseParameters_def)
  ultimately have "imfState f = [] \<longrightarrow> (''(   IM.issuematch_deleted_at IS NULL )'', []) \<in> set new"
    using new(3) by force
  with new show ?thesis by (simp add: empty_select_def)
qed

theorem issue_match_filter_parts_witness:
  "\<exists>f qb. imfSearch f = [''log4j''] \<and> imfState f = []
     \<and> AddFilter issueMatchFilterProperties f empty_select = Inr qb
     \<and> (''(   IM.issuematch_deleted_at IS NULL )'', []) \<in> set (where_parts qb)"
proof -
  let ?f = "\<lparr>imfFirst = None, imfAfter = None, imfId = [], imfServiceCCRN = [],
    imfSeverityValue = [], imfStatus = [], imfIssueId = [], imfComponentInstanceId = [],
    imfServiceId = [], imfSupportGroupCCRN = [], imfSearch = [''log4j''], imfComponentCCRN = [],
    imfPrimaryName = [], imfIssueType = [], imfState = [], imfServiceOwnerUsername = [],
    imfServiceOwnerUniqueUserId = []\<rparr>"
  show ?thesis using issue_match_filter_parts [of ?f] by (intro exI [of _ ?f]) auto
qed

section \<open>JSON filters\<close>

definition json_keys :: "json list \<Rightarrow> string list" where
  "json_keys js = concat (map (\<lambda>j. map fst (SeparateJsonAttributes j)) js)"

lemma buildQueryParametersCount_concat:
  "buildQueryParametersCount ps xs n = ps @ concat (map (replicate n) xs)"
  unfolding buildQueryParametersCount_def by (induction xs arbitrary: ps) auto

lemma concat_replicate1 [simp]: "concat (map (replicate (Suc 0)) xs) = xs"
  by (induction xs) auto

lemma buildJsonQueryParameters_concat:
  "buildJsonQueryParameters ps js = ps @ concat (map (\<lambda>j. map snd (SeparateJsonAttributes j)) js)"
  by (simp add: buildJsonQueryParameters_def buildQueryParameters_def buildQueryParametersCount_concat)

text \<open>
  A JSON filter interpolates the attribute keys: its text has one placeholder for every
  parameter and, on top, one for every question mark inside a key, so a key with a question
  mark breaks the alignment of the statement; and the key of a one-attribute filter stands in
  the text as the client wrote it, inside the quotes and without escaping.
\<close>

theorem json_filter_placeholders:
  assumes "count_char (CHR ''?'') column = 0"
  shows "count_char (CHR ''?'') (buildJsonFilterQuery js column OP_OR) =
      length (buildJsonQueryParameters [] js) + sum_list (map (count_char (CHR ''?'')) (json_keys js))
    \<and> buildJsonFilterQuery [JObj [(key, JStr v)]] column OP_OR =
      ''(   (   JSON_VALUE('' @ column @ '', '' @ [CHR 0x27] @ ''$.'' @ key @ [CHR 0x27] @ '') = ? ) )''"
proof -
  have attrs: "sum_list (map (count_char (CHR ''?'')) (map (\<lambda>(key, attr). json_condition column key) as)) =
    length as + sum_list (map (count_char (CHR ''?'')) (map fst as))" for as :: "(string \<times> json) list"
    using assms by (induction as) (auto simp: json_condition_def)
  have "sum_list (map (count_char (CHR ''?'')) (map (\<lambda>j. combineFilterQueries
      (map (\<lambda>(key, attr). json_condition column key) (SeparateJsonAttributes j)) OP_AND) js)) =
    length (buildJsonQueryParameters [] js) + sum_list (map (count_char (CHR ''?'')) (json_keys js))"
  proof (induction js)
    case (Cons j js)
    then show ?case
      using attrs [of "SeparateJsonAttributes j"]
      by (simp add: count_combineFilterQueries buildJsonQueryParameters_concat json_keys_def
          del: map_map)
  qed (simp add: buildJsonQueryParameters_concat json_keys_def)
  then have "count_char (CHR ''?'') (buildJsonFilterQuery js column OP_OR) =
    length (buildJsonQueryParameters [] js) + sum_list (map (count_char (CHR ''?'')) (json_keys js))"
    by (simp only: buildJsonFilterQuery_def count_combineFilterQueries count_operators)
  then show ?thesis
    by (simp add: buildJsonFilterQuery_def SeparateJsonAttributes_def combineFilterQueries_def
        filter_format_def in_brackets_def json_condition_def)
qed

theorem json_filter_placeholders_witness:
  "count_char (CHR ''?'') (buildJsonFilterQuery [JObj [(''a?'', JStr ''v'')]] ''c'' OP_OR) = 2
   \<and> length (buildJsonQueryParameters [] [JObj [(''a?'', JStr ''v'')]]) = 1"
  using json_filter_placeholders [of "''c''" "[JObj [(''a?'', JStr ''v'')]]" "''a?''" "''v''"]
  by (simp add: json_keys_def SeparateJsonAttributes_def buildJsonQueryParameters_concat)

section \<open>The WHERE clause under SQL precedence\<close>

text \<open>
  A WHERE clause without outer brackets is a sequence of bracketed groups between AND and OR,
  and AND binds tighter. \<open>flat_value\<close> is its truth value, \<open>groups_text\<close> its text. The groups of
  a query are its filter parts and the clauses of its cursor condition.
\<close>

datatype lop = LAnd | LOr

fun flat_value :: "bool \<Rightarrow> (lop \<times> bool) list \<Rightarrow> bool" where
  "flat_value b [] = b"
| "flat_value b ((LAnd, c) # r) = flat_value (b \<and> c) r"
| "flat_value b ((LOr, c) # r) = (b \<or> flat_value c r)"

fun lop_text :: "lop \<Rightarrow> string" where
  "lop_text LAnd = '' AND ''"
| "lop_text LOr = '' OR ''"

type_synonym group = "string + Field list"

fun group_text :: "group \<Rightarrow> string" where
  "group_text (Inl q) = q"
| "group_text (Inr p) = render_clause (clause_of p)"

definition groups_text :: "group \<Rightarrow> (lop \<times> group) list \<Rightarrow> string" where
  "groups_text g gs = group_text g @ concat (map (\<lambda>(l, h). lop_text l @ group_text h) gs)"

definition groups_value :: "(group \<Rightarrow> bool) \<Rightarrow> group \<Rightarrow> (lop \<times> group) list \<Rightarrow> bool" where
  "groups_value v g gs = flat_value (v g) (map (\<lambda>(l, h). (l, v h)) gs)"

definition where_groups :: "string list \<Rightarrow> Field list \<Rightarrow> (lop \<times> group) list" where
  "where_groups filters flds = map (\<lambda>q. (LAnd, Inl q)) filters
     @ (case prefixes_down flds of [] \<Rightarrow> []
        | p # ps \<Rightarrow> (LAnd, Inr p) # map (\<lambda>q. (LOr, Inr q)) ps)"

definition row_satisfies :: "(sqlval \<Rightarrow> sqlval \<Rightarrow> bool) \<Rightarrow> (string \<Rightarrow> bool) \<Rightarrow> row \<Rightarrow> group \<Rightarrow> bool" where
  "row_satisfies lt holds r g = (case g of Inl q \<Rightarrow> holds q | Inr p \<Rightarrow> clause_holds lt r p)"

lemma flat_value_ands:
  "flat_value b (map (\<lambda>c. (LAnd, c)) cs @ r) = flat_value (b \<and> (\<forall>c \<in> set cs. c)) r"
  by (induction cs arbitrary: b) auto

lemma flat_value_ors: "flat_value b (map (\<lambda>c. (LOr, c)) cs) \<longleftrightarrow> b \<or> (\<exists>c \<in> set cs. c)"
  by (induction cs arbitrary: b) auto

lemma CreateCursorQuery_nonempty: "flds \<noteq> [] \<Longrightarrow> CreateCursorQuery [] flds \<noteq> []"
  by (simp add: CreateCursorQuery_render cursor_clauses_def prefixes_down_butlast [of flds]
      render_clause_def Join_concat)

lemma where_groups_text:
  assumes "flds \<noteq> []"
  shows "groups_text (Inl q) (where_groups qs flds) =
    strings_Join ((q # qs) @ [CreateCursorQuery [] flds]) '' AND ''"
proof -
  have "strings_Join (map render_clause (cursor_clauses flds)) '' OR ''
    = render_clause (clause_of flds)
      @ concat (map (\<lambda>p. '' OR '' @ render_clause (clause_of p)) (prefixes_down (butlast flds)))"
    using assms by (simp add: cursor_clauses_def prefixes_down_butlast [of flds] Join_concat comp_def)
  then show ?thesis
    using assms
    by (simp add: groups_text_def where_groups_def prefixes_down_butlast [of flds] Join_concat
        CreateCursorQuery_render comp_def)
qed

lemma where_groups_value:
  assumes "flds \<noteq> []"
  shows "groups_value (row_satisfies lt holds r) (Inl q) (where_groups qs flds) \<longleftrightarrow>
    ((\<forall>f \<in> set (q # qs). holds f) \<and> clause_holds lt r flds) \<or> beyond lt r (butlast flds)"
proof -
  let ?ps = "prefixes_down (butlast flds)"
  have "where_groups qs flds = map (\<lambda>q. (LAnd, Inl q)) qs @ (LAnd, Inr flds) # map (\<lambda>q. (LOr, Inr q)) ?ps"
    using assms by (simp add: where_groups_def prefixes_down_butlast [of flds])
  then have "groups_value (row_satisfies lt holds r) (Inl q) (where_groups qs flds) =
    flat_value (holds q) (map (\<lambda>c. (LAnd, c)) (map holds qs)
      @ (LAnd, clause_holds lt r flds) # map (\<lambda>c. (LOr, c)) (map (clause_holds lt r) ?ps))"
    by (simp add: groups_value_def row_satisfies_def comp_def)
  then show ?thesis
    by (simp only: flat_value_ands flat_value.simps flat_value_ors)
      (auto simp flip: prefixes_beyond)
qed

text \<open>
  C25. In a query that is not aggregated the cursor condition is one more WHERE part. The parts
  are joined by AND without brackets, so by precedence only the first clause of the cursor is
  bound to the filters: a row is selected if it passes every filter and ties up to the last
  order field, or if it lies beyond the cursor in the remaining fields, whether it passes the
  filters or not. With two or more order fields rows outside the filter are returned.
\<close>

theorem cursor_condition_escapes_filters:
  assumes "\<And>parts. join_where parts = strings_Join parts '' AND ''"
    and "flds \<noteq> []" and "map fst (where_parts qb) = q # qs"
  shows "join_where (map fst (where_parts (AddCursor False n flds qb)))
      = groups_text (Inl q) (where_groups qs flds)
    \<and> (groups_value (row_satisfies lt holds r) (Inl q) (where_groups qs flds) \<longleftrightarrow>
        ((\<forall>f \<in> set (q # qs). holds f) \<and> clause_holds lt r flds) \<or> beyond lt r (butlast flds))"
proof -
  have "CreateCursorQuery [] flds \<noteq> []" using assms(2) by (rule CreateCursorQuery_nonempty)
  then have "map fst (where_parts (AddCursor False n flds qb)) = (q # qs) @ [CreateCursorQuery [] flds]"
    using assms(3) by (simp add: AddCursor_def getCursorQueryParameters_def Let_def)
  then show ?thesis
    using assms(1) where_groups_text [OF assms(2)] where_groups_value [OF assms(2)] by simp
qed

theorem cursor_condition_escapes_filters_witness:
  "let order = [\<lparr>By = IssueMatchRating, Direction = OrderDirectionDesc\<rparr>,
                \<lparr>By = IssueMatchId, Direction = OrderDirectionAsc\<rparr>];
       cursor = row_fields order (\<lambda>c. IntV 3); row = (\<lambda>c. IntV 1);
       holds = (\<lambda>f. f \<noteq> ''( IM.issuematch_deleted_at IS NULL )'');
       qb = \<lparr>where_parts = [(''( IM.issuematch_deleted_at IS NULL )'', [])], having_parts = [], limit = None\<rparr>
   in strings_Join (map fst (where_parts (AddCursor False None cursor qb))) '' AND '' =
        groups_text (Inl ''( IM.issuematch_deleted_at IS NULL )'') (where_groups [] cursor)
    \<and> \<not> holds ''( IM.issuematch_deleted_at IS NULL )''
    \<and> groups_value (row_satisfies int_lt holds row)
        (Inl ''( IM.issuematch_deleted_at IS NULL )'') (where_groups [] cursor)"
  unfolding Let_def
  by (subst cursor_condition_escapes_filters [where join_where = "\<lambda>parts. strings_Join parts '' AND ''",
        THEN conjunct1])
    (simp_all add: cursor_condition_escapes_filters [where join_where = "\<lambda>parts. strings_Join parts '' AND ''"
        and qb = "\<lparr>where_parts = [(''( IM.issuematch_deleted_at IS NULL )'', [])], having_parts = [], limit = None\<rparr>"
        and n = None, THEN conjunct2] field_beyond_def int_lt_def)

end
