(* ===== verification/Join_Resolver.thy ===== *)
theory Join_Resolver
  imports Filter_Query
begin

text \<open>
  The join resolver of \<open>internal/database/mariadb/db_object.go\<close> and the join definitions of
  \<open>issueMatchObject\<close> (\<open>issue_match.go\<close>). \<open>require\<close> marks a join as included only after its
  dependencies, so a cyclic definition recurses without end; the model takes fuel and returns
  \<open>None\<close> when it runs out. For definitions with a rank that decreases along dependencies the
  fuel is proved to suffice, the order is proved to be topological, and the set of joins to be
  the dependency closure of the requested ones.
\<close>

section \<open>Operations\<close>

definition LeftJoin :: string where "LeftJoin = ''LEFT JOIN''"
definition RightJoin :: string where "RightJoin = ''RIGHT JOIN''"
definition InnerJoin :: string where "InnerJoin = ''JOIN''"

record 'f JoinDef =
  jName :: string
  jType :: string
  jTable :: string
  jOn :: string
  jDependsOn :: "string list"
  jCondition :: "('f \<Rightarrow> sql_order \<Rightarrow> bool) option"

definition DependentJoin :: "'f \<Rightarrow> sql_order \<Rightarrow> bool" where
  "DependentJoin f ord = False"

record resolver =
  jr_included :: "string list"
  jr_order :: "string list"

definition NewJoinResolver :: resolver where
  "NewJoinResolver = \<lparr>jr_included = [], jr_order = []\<rparr>"

definition find_join :: "'f JoinDef list \<Rightarrow> string \<Rightarrow> 'f JoinDef option" where
  "find_join defs name = find (\<lambda>jd. jName jd = name) defs"

function (sequential)
  require :: "nat \<Rightarrow> 'f JoinDef list \<Rightarrow> string \<Rightarrow> resolver \<Rightarrow> resolver go option" and
  require_all :: "nat \<Rightarrow> 'f JoinDef list \<Rightarrow> string list \<Rightarrow> resolver \<Rightarrow> resolver go option"
where
  "require 0 defs name jr = None"
| "require (Suc n) defs name jr =
     (if name \<in> set (jr_included jr) then Some (Inr jr)
      else case find_join defs name of
        None \<Rightarrow> Some (Inl (ExplicitPanic (''JoinResolver::require(...) Unknown join: '' @ name)))
      | Some def \<Rightarrow>
          (case require_all n defs (jDependsOn def) jr of
             None \<Rightarrow> None
           | Some (Inl e) \<Rightarrow> Some (Inl e)
           | Some (Inr jr') \<Rightarrow> Some (Inr (jr'\<lparr>jr_included := name # jr_included jr',
                                        jr_order := jr_order jr' @ [name]\<rparr>))))"
| "require_all n defs [] jr = Some (Inr jr)"
| "require_all n defs (d # ds) jr =
     (case require n defs d jr of
        None \<Rightarrow> None
      | Some (Inl e) \<Rightarrow> Some (Inl e)
      | Some (Inr jr') \<Rightarrow> require_all n defs ds jr')"
  by pat_completeness auto
termination
  by (relation "measures [\<lambda>x. case x of Inl (n, _) \<Rightarrow> n | Inr (n, _) \<Rightarrow> n,
      \<lambda>x. case x of Inl _ \<Rightarrow> 0 | Inr (_, _, ds, _) \<Rightarrow> Suc (length ds)]") auto

text \<open>The names \<open>Build\<close> requires, in order: the forced joins, then those whose condition holds.\<close>

definition required_joins ::
  "'f JoinDef list \<Rightarrow> string list \<Rightarrow> 'f \<Rightarrow> sql_order \<Rightarrow> string list" where
  "required_joins defs forced f ord =
     forced @ map jName (filter (\<lambda>d. case jCondition d of None \<Rightarrow> True | Some c \<Rightarrow> c f ord) defs)"

definition join_sql :: "'f JoinDef \<Rightarrow> string" where
  "join_sql j = jType j @ '' '' @ jTable j @ '' ON '' @ jOn j"

fun join_texts :: "'f JoinDef list \<Rightarrow> string list \<Rightarrow> string list \<Rightarrow> string list go" where
  "join_texts defs uniq [] = Inr []"
| "join_texts defs uniq (name # names) =
     (case find_join defs name of
        None \<Rightarrow> Inl (ExplicitPanic (''JoinResolver::Build(...) Unknown join: '' @ name))
      | Some j \<Rightarrow>
          if jTable j \<in> set uniq then join_texts defs uniq names
          else bindR (join_texts defs (jTable j # uniq) names) (\<lambda>r. Inr (join_sql j # r)))"

definition Build ::
  "nat \<Rightarrow> 'f JoinDef list \<Rightarrow> string list \<Rightarrow> 'f \<Rightarrow> sql_order \<Rightarrow> string list go option" where
  "Build fuel defs forced f ord =
     (case require_all fuel defs (required_joins defs forced f ord) NewJoinResolver of
        None \<Rightarrow> None
      | Some (Inl e) \<Rightarrow> Some (Inl e)
      | Some (Inr jr) \<Rightarrow> Some (join_texts defs [] (jr_order jr)))"

section \<open>Topological order and closure\<close>

definition deps :: "'f JoinDef list \<Rightarrow> string \<Rightarrow> string set" where
  "deps defs name = (case find_join defs name of None \<Rightarrow> {} | Some d \<Rightarrow> set (jDependsOn d))"

definition ranked :: "'f JoinDef list \<Rightarrow> (string \<Rightarrow> nat) \<Rightarrow> bool" where
  "ranked defs rank \<longleftrightarrow> (\<forall>d \<in> set defs. \<forall>x \<in> set (jDependsOn d).
     x \<in> jName ` set defs \<and> rank x < rank (jName d))"

fun topological :: "'f JoinDef list \<Rightarrow> string set \<Rightarrow> string list \<Rightarrow> bool" where
  "topological defs seen [] = True"
| "topological defs seen (x # xs) =
     (x \<notin> seen \<and> x \<in> jName ` set defs \<and> deps defs x \<subseteq> seen \<and> topological defs (insert x seen) xs)"

inductive needed :: "'f JoinDef list \<Rightarrow> string set \<Rightarrow> string \<Rightarrow> bool" for defs roots where
  needed_root: "x \<in> roots \<Longrightarrow> needed defs roots x"
| needed_dep: "needed defs roots x \<Longrightarrow> y \<in> deps defs x \<Longrightarrow> needed defs roots y"

lemma find_join_name: "find_join defs name = Some d \<Longrightarrow> jName d = name \<and> d \<in> set defs"
  by (auto simp: find_join_def find_Some_iff)

lemma find_join_defined: "name \<in> jName ` set defs \<Longrightarrow> \<exists>d. find_join defs name = Some d"
  by (cases "find_join defs name") (auto simp: find_join_def find_None_iff)

lemma topological_append:
  "topological defs seen (xs @ ys) \<longleftrightarrow> topological defs seen xs \<and> topological defs (seen \<union> set xs) ys"
  by (induction xs arbitrary: seen) auto

lemma topological_distinct: "topological defs seen xs \<Longrightarrow> distinct xs \<and> set xs \<inter> seen = {}"
  by (induction xs arbitrary: seen) auto

lemma topological_closed:
  "topological defs seen xs \<Longrightarrow> x \<in> set xs \<Longrightarrow> deps defs x \<subseteq> seen \<union> set xs"
  by (induction xs arbitrary: seen) fastforce+

text \<open>
  The state of the resolver is consistent, and the outcome of requiring names: the order grows
  by a topological extension that contains the names and only what they need.
\<close>

definition consistent :: "'f JoinDef list \<Rightarrow> resolver \<Rightarrow> bool" where
  "consistent defs jr \<longleftrightarrow> set (jr_included jr) = set (jr_order jr) \<and> topological defs {} (jr_order jr)"

definition extends ::
  "'f JoinDef list \<Rightarrow> string set \<Rightarrow> resolver \<Rightarrow> resolver \<Rightarrow> bool" where
  "extends defs names jr jr' \<longleftrightarrow> consistent defs jr' \<and> names \<subseteq> set (jr_order jr')
     \<and> (\<exists>new. jr_order jr' = jr_order jr @ new \<and> (\<forall>x \<in> set new. needed defs names x))"

lemma needed_mono: "needed defs A x \<Longrightarrow> A \<subseteq> B \<Longrightarrow> needed defs B x"
  by (induction rule: needed.induct) (auto intro: needed.intros)

lemma needed_trans: "needed defs A x \<Longrightarrow> (\<And>a. a \<in> A \<Longrightarrow> needed defs B a) \<Longrightarrow> needed defs B x"
  by (induction rule: needed.induct) (auto intro: needed.intros)

lemma extends_trans:
  assumes "extends defs A jr jr1" and "extends defs B jr1 jr2"
  shows "extends defs (A \<union> B) jr jr2"
proof -
  obtain n1 n2 where "jr_order jr1 = jr_order jr @ n1" "\<forall>x \<in> set n1. needed defs A x"
    "jr_order jr2 = jr_order jr1 @ n2" "\<forall>x \<in> set n2. needed defs B x"
    using assms by (auto simp: extends_def)
  then show ?thesis
    using assms needed_mono [of defs A _ "A \<union> B"] needed_mono [of defs B _ "A \<union> B"]
    by (auto simp: extends_def)
qed

lemma require_step:
  assumes "find_join defs name = Some d" and "name \<notin> set (jr_included jr)" and "consistent defs jr"
    and "extends defs (set (jDependsOn d)) jr jr'" and "name \<notin> set (jr_order jr')"
  shows "extends defs {name} jr (jr'\<lparr>jr_included := name # jr_included jr', jr_order := jr_order jr' @ [name]\<rparr>)"
proof -
  have d: "deps defs name = set (jDependsOn d)" using assms(1) by (simp add: deps_def)
  have nm: "name \<in> jName ` set defs" using find_join_name [OF assms(1)] by auto
  obtain new where new: "jr_order jr' = jr_order jr @ new"
    "\<forall>x \<in> set new. needed defs (set (jDependsOn d)) x"
    using assms(4) by (auto simp: extends_def)
  have "needed defs {name} x" if "x \<in> set new" for x
  proof (rule needed_trans)
    show "needed defs (set (jDependsOn d)) x" using new(2) that by blast
    show "needed defs {name} a" if "a \<in> set (jDependsOn d)" for a
      using that d needed_dep [OF needed_root [of name "{name}" defs]] by simp
  qed
  then have "\<forall>x \<in> set (new @ [name]). needed defs {name} x" by (auto intro: needed_root)
  moreover have "consistent defs (jr'\<lparr>jr_included := name # jr_included jr', jr_order := jr_order jr' @ [name]\<rparr>)"
    using assms(4,5) d nm by (auto simp: extends_def consistent_def topological_append)
  ultimately show ?thesis using new(1) by (auto simp: extends_def)
qed

text \<open>The required name itself cannot turn up among the joins its dependencies need.\<close>

lemma needed_rank:
  "needed defs A x \<Longrightarrow> ranked defs rank \<Longrightarrow> (\<And>a. a \<in> A \<Longrightarrow> rank a < k) \<Longrightarrow> rank x < k"
proof (induction rule: needed.induct)
  case (needed_dep x y)
  then obtain d where "find_join defs x = Some d" "y \<in> set (jDependsOn d)"
    by (auto simp: deps_def split: option.splits)
  then have "rank y < rank x"
    using needed_dep.prems(1) find_join_name [of defs x d] by (auto simp: ranked_def)
  with needed_dep show ?case by (meson less_trans)
qed auto

lemma require_total:
  shows "ranked defs rank \<Longrightarrow> name \<in> jName ` set defs \<Longrightarrow> rank name < fuel \<Longrightarrow> consistent defs jr \<Longrightarrow>
      \<exists>jr'. require fuel defs name jr = Some (Inr jr') \<and> extends defs {name} jr jr'"
    and "ranked defs rank \<Longrightarrow> set names \<subseteq> jName ` set defs \<Longrightarrow> \<forall>x \<in> set names. rank x < fuel \<Longrightarrow> consistent defs jr \<Longrightarrow>
      \<exists>jr'. require_all fuel defs names jr = Some (Inr jr') \<and> extends defs (set names) jr jr'"
proof (induction fuel defs name jr and fuel defs names jr rule: require_require_all.induct)
  case (2 n defs name jr)
  show ?case
  proof (cases "name \<in> set (jr_included jr)")
    case True
    with "2.prems" show ?thesis by (auto simp: extends_def consistent_def)
  next
    case False
    obtain d where d: "find_join defs name = Some d" using find_join_defined [OF "2.prems"(2)] ..
    note dd = find_join_name [OF d]
    have lower: "rank x < rank name" "x \<in> jName ` set defs" if "x \<in> set (jDependsOn d)" for x
      using "2.prems"(1) dd that by (auto simp: ranked_def)
    have sub: "set (jDependsOn d) \<subseteq> jName ` set defs" using lower(2) by blast
    have "\<forall>x \<in> set (jDependsOn d). rank x < n" using lower(1) "2.prems"(3) by fastforce
    from "2.IH" [OF False d "2.prems"(1) sub this "2.prems"(4)]
    obtain jr' where jr': "require_all n defs (jDependsOn d) jr = Some (Inr jr')"
      "extends defs (set (jDependsOn d)) jr jr'" by blast
    have "name \<notin> set (jr_order jr')"
    proof
      assume "name \<in> set (jr_order jr')"
      moreover have "name \<notin> set (jr_order jr)" using False "2.prems"(4) by (simp add: consistent_def)
      ultimately have "needed defs (set (jDependsOn d)) name" using jr'(2) by (auto simp: extends_def)
      from needed_rank [OF this "2.prems"(1) lower(1)] show False by simp
    qed
    from require_step [OF d False "2.prems"(4) jr'(2) this] show ?thesis
      using False d jr'(1) by simp
  qed
next
  case (4 n defs d ds jr)
  then obtain jr1 where jr1: "require n defs d jr = Some (Inr jr1)" "extends defs {d} jr jr1"
    by auto
  then have "consistent defs jr1" by (simp add: extends_def)
  with 4 jr1 obtain jr2 where jr2: "require_all n defs ds jr1 = Some (Inr jr2)"
    "extends defs (set ds) jr1 jr2" by fastforce
  show ?case using extends_trans [OF jr1(2) jr2(2)] jr1(1) jr2(1) by simp
qed (auto simp: extends_def)

section \<open>Build\<close>


lemma join_texts_distinct_tables:
  assumes "distinct (map (\<lambda>n. jTable (the (find_join defs n))) names)"
    and "\<And>n. n \<in> set names \<Longrightarrow> jTable (the (find_join defs n)) \<notin> set uniq"
    and "set names \<subseteq> jName ` set defs"
  shows "join_texts defs uniq names = Inr (map (\<lambda>n. join_sql (the (find_join defs n))) names)"
  using assms
proof (induction names arbitrary: uniq)
  case (Cons name names)
  obtain d where d: "find_join defs name = Some d"
    using find_join_defined [of name defs] Cons.prems(3) by auto
  have "join_texts defs (jTable d # uniq) names = Inr (map (\<lambda>n. join_sql (the (find_join defs n))) names)"
    using Cons.prems d by (intro Cons.IH) (auto simp: image_iff)
  then show ?case using d Cons.prems(2) [of name] by simp
qed simp

lemma consistent_New [simp]: "consistent defs NewJoinResolver"
  by (simp add: NewJoinResolver_def consistent_def)

lemma topological_names: "topological defs seen xs \<Longrightarrow> set xs \<subseteq> jName ` set defs"
  by (induction xs arbitrary: seen) auto

lemma needed_in_closed:
  assumes "needed defs A x" and "A \<subseteq> B" and "\<And>b. b \<in> B \<Longrightarrow> deps defs b \<subseteq> B"
  shows "x \<in> B"
  using assms by (induction rule: needed.induct) auto

lemma require_all_New:
  assumes "ranked defs rank" and "set names \<subseteq> jName ` set defs"
    and "\<forall>d \<in> set defs. rank (jName d) < fuel"
  shows "\<exists>jr. require_all fuel defs names NewJoinResolver = Some (Inr jr)
    \<and> topological defs {} (jr_order jr) \<and> set (jr_order jr) = {x. needed defs (set names) x}"
proof -
  have "\<forall>x \<in> set names. rank x < fuel" using assms(2,3) by auto
  from require_total(2) [OF assms(1,2) this consistent_New]
  obtain jr where jr: "require_all fuel defs names NewJoinResolver = Some (Inr jr)"
    "extends defs (set names) NewJoinResolver jr" by blast
  then have top: "topological defs {} (jr_order jr)" by (simp add: extends_def consistent_def)
  have "x \<in> set (jr_order jr)" if "needed defs (set names) x" for x
    using that jr(2) topological_closed [OF top]
    by (intro needed_in_closed [OF that]) (auto simp: extends_def)
  with jr top show ?thesis
    by (intro exI [of _ jr]) (auto simp: extends_def NewJoinResolver_def)
qed


section \<open>The joins of issue matches\<close>

definition issueMatchJoinDefs :: "IssueMatchFilter JoinDef list" where
  "issueMatchJoinDefs =
    [\<lparr>jName = ''I'', jType = LeftJoin, jTable = ''Issue I'',
      jOn = ''IM.issuematch_issue_id = I.issue_id'', jDependsOn = [],
      jCondition = Some (\<lambda>f ord. imfIssueType f \<noteq> [] \<or> imfPrimaryName f \<noteq> [] \<or> ByIssuePrimaryName ord)\<rparr>,
     \<lparr>jName = ''IV'', jType = LeftJoin, jTable = ''IssueVariant IV'',
      jOn = ''I.issue_id = IV.issuevariant_issue_id'', jDependsOn = [''I''],
      jCondition = Some (\<lambda>f ord. imfSearch f \<noteq> [])\<rparr>,
     \<lparr>jName = ''CI'', jType = LeftJoin, jTable = ''ComponentInstance CI'',
      jOn = ''IM.issuematch_component_instance_id = CI.componentinstance_id'', jDependsOn = [],
      jCondition = Some (\<lambda>f ord. ByCiCcrn ord \<or> imfServiceId f \<noteq> [])\<rparr>,
     \<lparr>jName = ''CV'', jType = LeftJoin, jTable = ''ComponentVersion CV'',
      jOn = ''CI.componentinstance_component_version_id = CV.componentversion_id'', jDependsOn = [''CI''],
      jCondition = Some DependentJoin\<rparr>,
     \<lparr>jName = ''C'', jType = LeftJoin, jTable = ''Component C'',
      jOn = ''CV.componentversion_component_id = C.component_id'', jDependsOn = [''CV''],
      jCondition = Some (\<lambda>f ord. imfComponentCCRN f \<noteq> [])\<rparr>,
     \<lparr>jName = ''S'', jType = LeftJoin, jTable = ''Service S'',
      jOn = ''CI.componentinstance_service_id = S.service_id'', jDependsOn = [''CI''],
      jCondition = Some (\<lambda>f ord. imfServiceCCRN f \<noteq> [])\<rparr>,
     \<lparr>jName = ''SGS'', jType = LeftJoin, jTable = ''SupportGroupService SGS'',
      jOn = ''S.service_id = SGS.supportgroupservice_service_id'', jDependsOn = [''S''],
      jCondition = Some DependentJoin\<rparr>,
     \<lparr>jName = ''SG'', jType = LeftJoin, jTable = ''SupportGroup SG'',
      jOn = ''SGS.supportgroupservice_support_group_id = SG.supportgroup_id'', jDependsOn = [''SGS''],
      jCondition = Some (\<lambda>f ord. imfSupportGroupCCRN f \<noteq> [])\<rparr>,
     \<lparr>jName = ''O'', jType = LeftJoin, jTable = ''Owner O'',
      jOn = ''CI.componentinstance_service_id = O.owner_service_id'', jDependsOn = [''CI''],
      jCondition = Some DependentJoin\<rparr>,
     \<lparr>jName = ''U'', jType = LeftJoin, jTable = ''User U'',
      jOn = ''O.owner_user_id = U.user_id'', jDependsOn = [''O''],
      jCondition = Some (\<lambda>f ord. imfServiceOwnerUsername f \<noteq> [] \<or> imfServiceOwnerUniqueUserId f \<noteq> [])\<rparr>]"

text \<open>The length of the longest chain of dependencies below a join.\<close>

definition im_rank :: "string \<Rightarrow> nat" where
  "im_rank n = (if n \<in> {''IV'', ''CV'', ''S'', ''O''} then 1
     else if n \<in> {''C'', ''SGS'', ''U''} then 2 else if n = ''SG'' then 3 else 0)"

lemma ranked_issueMatchJoinDefs: "ranked issueMatchJoinDefs im_rank"
  by (simp add: ranked_def issueMatchJoinDefs_def im_rank_def)

lemma im_rank_bound: "im_rank n < 4"
  by (simp add: im_rank_def)

lemma im_names: "jName ` set issueMatchJoinDefs =
    {''I'', ''IV'', ''CI'', ''CV'', ''C'', ''S'', ''SGS'', ''SG'', ''O'', ''U''}"
  by (auto simp: issueMatchJoinDefs_def)

lemma im_deps:
  "deps issueMatchJoinDefs ''IV'' = {''I''}" "deps issueMatchJoinDefs ''CV'' = {''CI''}"
  "deps issueMatchJoinDefs ''C'' = {''CV''}" "deps issueMatchJoinDefs ''S'' = {''CI''}"
  "deps issueMatchJoinDefs ''SGS'' = {''S''}" "deps issueMatchJoinDefs ''SG'' = {''SGS''}"
  "deps issueMatchJoinDefs ''O'' = {''CI''}" "deps issueMatchJoinDefs ''U'' = {''O''}"
  by (simp_all add: deps_def find_join_def issueMatchJoinDefs_def)

lemma im_tables_inj: "inj_on (\<lambda>n. jTable (the (find_join issueMatchJoinDefs n))) (jName ` set issueMatchJoinDefs)"
  unfolding im_names by (simp add: inj_on_def find_join_def issueMatchJoinDefs_def)

lemma im_required_simps:
  "''I'' \<in> set (required_joins issueMatchJoinDefs [] f so) \<longleftrightarrow>
     imfIssueType f \<noteq> [] \<or> imfPrimaryName f \<noteq> [] \<or> ByIssuePrimaryName so"
  "''IV'' \<in> set (required_joins issueMatchJoinDefs [] f so) \<longleftrightarrow> imfSearch f \<noteq> []"
  "''CI'' \<in> set (required_joins issueMatchJoinDefs [] f so) \<longleftrightarrow> ByCiCcrn so \<or> imfServiceId f \<noteq> []"
  "''C'' \<in> set (required_joins issueMatchJoinDefs [] f so) \<longleftrightarrow> imfComponentCCRN f \<noteq> []"
  "''S'' \<in> set (required_joins issueMatchJoinDefs [] f so) \<longleftrightarrow> imfServiceCCRN f \<noteq> []"
  "''SG'' \<in> set (required_joins issueMatchJoinDefs [] f so) \<longleftrightarrow> imfSupportGroupCCRN f \<noteq> []"
  "''U'' \<in> set (required_joins issueMatchJoinDefs [] f so) \<longleftrightarrow>
     imfServiceOwnerUsername f \<noteq> [] \<or> imfServiceOwnerUniqueUserId f \<noteq> []"
  by (simp_all add: required_joins_def issueMatchJoinDefs_def DependentJoin_def)

text \<open>
  The join definitions of issue matches are sound for every filter and order: the query is
  built without panic, every join is emitted once, after the joins it refers to, and every table
  whose columns a nonempty filter field or the order mentions is joined.
\<close>

theorem issue_match_joins_cover_filter:
  "\<exists>ord. Build 4 issueMatchJoinDefs [] f so
        = Some (Inr (map (\<lambda>n. join_sql (the (find_join issueMatchJoinDefs n))) ord))
    \<and> topological issueMatchJoinDefs {} ord
    \<and> (imfIssueType f \<noteq> [] \<or> imfPrimaryName f \<noteq> [] \<or> ByIssuePrimaryName so \<longrightarrow> ''I'' \<in> set ord)
    \<and> (imfSearch f \<noteq> [] \<longrightarrow> {''I'', ''IV''} \<subseteq> set ord)
    \<and> (imfServiceId f \<noteq> [] \<or> ByCiCcrn so \<longrightarrow> ''CI'' \<in> set ord)
    \<and> (imfServiceCCRN f \<noteq> [] \<longrightarrow> ''S'' \<in> set ord)
    \<and> (imfComponentCCRN f \<noteq> [] \<longrightarrow> ''C'' \<in> set ord)
    \<and> (imfSupportGroupCCRN f \<noteq> [] \<longrightarrow> ''SG'' \<in> set ord)
    \<and> (imfServiceOwnerUsername f \<noteq> [] \<or> imfServiceOwnerUniqueUserId f \<noteq> [] \<longrightarrow> ''U'' \<in> set ord)"
proof -
  let ?D = "issueMatchJoinDefs" and ?R = "required_joins issueMatchJoinDefs [] f so"
  have names: "set ?R \<subseteq> jName ` set ?D" by (auto simp: required_joins_def)
  have "\<forall>d \<in> set ?D. im_rank (jName d) < 4" by (simp add: im_rank_bound)
  then obtain jr where jr: "require_all 4 ?D ?R NewJoinResolver = Some (Inr jr)"
    "topological ?D {} (jr_order jr)" "set (jr_order jr) = {x. needed ?D (set ?R) x}"
    using require_all_New [OF ranked_issueMatchJoinDefs names] by blast
  have sub: "set (jr_order jr) \<subseteq> jName ` set ?D" by (rule topological_names [OF jr(2)])
  have "distinct (map (\<lambda>n. jTable (the (find_join ?D n))) (jr_order jr))"
    using topological_distinct [OF jr(2)] inj_on_subset [OF im_tables_inj sub]
    by (simp add: distinct_map)
  then have texts: "join_texts ?D [] (jr_order jr)
      = Inr (map (\<lambda>n. join_sql (the (find_join ?D n))) (jr_order jr))"
    using sub by (intro join_texts_distinct_tables) auto
  have root: "n \<in> set (jr_order jr)" if "n \<in> set ?R" for n
    using that jr(3) by (simp add: needed_root)
  have "imfSearch f \<noteq> [] \<longrightarrow> ''I'' \<in> set (jr_order jr)"
    using needed_dep [OF needed_root, of "''IV''" "set ?R" "''I''" ?D] jr(3)
    by (simp add: im_required_simps im_deps)
  then show ?thesis
    using jr(1,2) texts root [of "''I''"] root [of "''IV''"] root [of "''CI''"] root [of "''S''"]
      root [of "''C''"] root [of "''SG''"] root [of "''U''"]
    unfolding im_required_simps
    by (intro exI [of _ "jr_order jr"]) (simp add: Build_def, blast)
qed

theorem issue_match_joins_cover_filter_witness:
  "\<exists>ord. ''SG'' \<in> set ord \<and> topological issueMatchJoinDefs {} ord \<and>
     Build 4 issueMatchJoinDefs []
       \<lparr>imfFirst = None, imfAfter = None, imfId = [], imfServiceCCRN = [],
        imfSeverityValue = [], imfStatus = [], imfIssueId = [], imfComponentInstanceId = [],
        imfServiceId = [], imfSupportGroupCCRN = [''team''], imfSearch = [], imfComponentCCRN = [],
        imfPrimaryName = [], imfIssueType = [], imfState = [], imfServiceOwnerUsername = [],
        imfServiceOwnerUniqueUserId = []\<rparr> \<lparr>sequence = [], counterPrefix = []\<rparr>
     = Some (Inr (map (\<lambda>n. join_sql (the (find_join issueMatchJoinDefs n))) ord))"
  using issue_match_joins_cover_filter [of "\<lparr>imfFirst = None, imfAfter = None, imfId = [], imfServiceCCRN = [],
        imfSeverityValue = [], imfStatus = [], imfIssueId = [], imfComponentInstanceId = [],
        imfServiceId = [], imfSupportGroupCCRN = [''team''], imfSearch = [], imfComponentCCRN = [],
        imfPrimaryName = [], imfIssueType = [], imfState = [], imfServiceOwnerUsername = [],
        imfServiceOwnerUniqueUserId = []\<rparr>" "\<lparr>sequence = [], counterPrefix = []\<rparr>"]
  by auto


end
