(* ===== verification/App_Errors.thy ===== *)
theory App_Errors
  imports Heureka_Base
begin

text \<open>
  The application's error values (\<open>internal/errors\<close>): the codes, the structured error
  \<open>*errors.Error\<close> with its rendering, the variadic constructor \<open>E\<close> that assigns every
  argument by its dynamic type, the convenience constructors, and the predicates that
  classify an error by walking its chain of wrapped errors.

  An error value of another type is \<open>ErrVal t m\<close>, with its Go type \<open>t\<close> and its text \<open>m\<close>; an
  error made by \<open>fmt.Errorf("p%w", err)\<close> is \<open>WrapErr p err\<close>. A nil error is \<open>None\<close>.
\<close>

section \<open>Codes\<close>

type_synonym Code = string

definition OK :: Code where "OK = ''OK''"
definition Canceled :: Code where "Canceled = ''CANCELED''"
definition Unknown :: Code where "Unknown = ''UNKNOWN''"
definition InvalidArgument :: Code where "InvalidArgument = ''INVALID_ARGUMENT''"
definition NotFound :: Code where "NotFound = ''NOT_FOUND''"
definition AlreadyExists :: Code where "AlreadyExists = ''ALREADY_EXISTS''"
definition PermissionDenied :: Code where "PermissionDenied = ''PERMISSION_DENIED''"
definition Unauthenticated :: Code where "Unauthenticated = ''UNAUTHENTICATED''"
definition ResourceExhausted :: Code where "ResourceExhausted = ''RESOURCE_EXHAUSTED''"
definition FailedPrecondition :: Code where "FailedPrecondition = ''FAILED_PRECONDITION''"
definition Internal :: Code where "Internal = ''INTERNAL''"

lemmas code_defs = OK_def Canceled_def Unknown_def InvalidArgument_def NotFound_def
  AlreadyExists_def PermissionDenied_def Unauthenticated_def ResourceExhausted_def
  FailedPrecondition_def Internal_def

section \<open>Error values\<close>

datatype field_value = FString string | FInt int | FBool bool

datatype goerr =
    ErrVal string string
  | WrapErr string goerr
  | AppErr app_error
and app_error = AppError
  (eCode: Code) (eEntity: string) (eID: string) (eOp: string) (eMessage: string)
  (eErr: "goerr option") (eFields: "string \<Rightarrow> field_value option")

text \<open>The method \<open>Error()\<close>: the parts that are set, separated by colons.\<close>

definition error_parts :: "string \<Rightarrow> string \<Rightarrow> string \<Rightarrow> Code \<Rightarrow> string list" where
  "error_parts opn entity eid code =
     (if opn \<noteq> [] then [opn] else [])
     @ (if entity \<noteq> [] then [if eid \<noteq> [] then entity @ ''('' @ eid @ '')'' else entity] else [])
     @ (if code \<noteq> Unknown \<and> code \<noteq> [] then [code] else [])"

fun error_text :: "goerr \<Rightarrow> string" and app_error_text :: "app_error \<Rightarrow> string" where
  "error_text (ErrVal t m) = m"
| "error_text (WrapErr p e) = p @ error_text e"
| "error_text (AppErr a) = app_error_text a"
| "app_error_text (AppError c en i opn m er fs) =
     (let parts = error_parts opn en i c;
          msg = (if parts \<noteq> [] then strings_Join parts '': '' else [])
      in if m \<noteq> [] then (if msg \<noteq> [] then msg @ '': '' @ m else m)
         else case er of
                None \<Rightarrow> msg
              | Some e \<Rightarrow> (if msg \<noteq> [] then msg @ '': '' @ error_text e else error_text e))"

fun Unwrap :: "goerr \<Rightarrow> goerr option" where
  "Unwrap (ErrVal t m) = None"
| "Unwrap (WrapErr p e) = Some e"
| "Unwrap (AppErr a) = eErr a"

text \<open>\<open>With\<close> returns a copy whose field map is overridden by the new fields.\<close>

definition With :: "app_error \<Rightarrow> (string \<Rightarrow> field_value option) \<Rightarrow> app_error" where
  "With e fields = AppError (eCode e) (eEntity e) (eID e) (eOp e) (eMessage e) (eErr e)
     (eFields e ++ fields)"

section \<open>The variadic constructor E\<close>

datatype E_arg =
    OpArg string
  | StrArg string
  | CodeArg Code
  | ErrArg "goerr option"
  | MapArg "string \<Rightarrow> field_value option"

definition or_else :: "string \<Rightarrow> string \<Rightarrow> string" where
  "or_else s t = (if s = [] then t else s)"

fun E_step :: "app_error \<Rightarrow> E_arg \<Rightarrow> app_error" where
  "E_step (AppError c en i opn m er fs) (OpArg a) = AppError c en i a m er fs"
| "E_step (AppError c en i opn m er fs) (StrArg a) =
     (if en = [] then AppError c a i opn m er fs
      else if i = [] then AppError c en a opn m er fs
      else if m = [] then AppError c en i opn a er fs
      else AppError c en i opn m er fs)"
| "E_step (AppError c en i opn m er fs) (CodeArg a) = AppError a en i opn m er fs"
| "E_step (AppError c en i opn m er fs) (ErrArg (Some (AppErr a))) =
     AppError (if c = Unknown then eCode a else c) (or_else en (eEntity a)) (or_else i (eID a))
       (or_else opn (eOp a)) (or_else m (eMessage a))
       (if er = None then eErr a else er) (eFields a ++ fs)"
| "E_step (AppError c en i opn m er fs) (ErrArg (Some (ErrVal t x))) =
     AppError c en i opn m (Some (ErrVal t x)) fs"
| "E_step (AppError c en i opn m er fs) (ErrArg (Some (WrapErr p e))) =
     AppError c en i opn m (Some (WrapErr p e)) fs"
| "E_step e (ErrArg None) = e"
| "E_step (AppError c en i opn m er fs) (MapArg a) = AppError c en i opn m er (fs ++ a)"

definition E :: "E_arg list \<Rightarrow> app_error" where
  "E args = foldl E_step (AppError Unknown [] [] [] [] None Map.empty) args"

text \<open>The convenience constructors; \<open>Errorf\<close> is given its formatted message.\<close>

definition Errorf :: "Code \<Rightarrow> string \<Rightarrow> app_error" where
  "Errorf code msg = AppError code [] [] [] msg None Map.empty"

definition Wrap :: "goerr option \<Rightarrow> Code \<Rightarrow> string \<Rightarrow> app_error option" where
  "Wrap err code message =
     (case err of None \<Rightarrow> None
      | Some e \<Rightarrow> Some (AppError code [] [] [] message (Some e) Map.empty))"

definition NotFoundError :: "string \<Rightarrow> string \<Rightarrow> string \<Rightarrow> app_error" where
  "NotFoundError opn entity eid =
     E [OpArg opn, StrArg entity, StrArg eid, CodeArg NotFound, StrArg ''not found'']"

definition AlreadyExistsError :: "string \<Rightarrow> string \<Rightarrow> string \<Rightarrow> app_error" where
  "AlreadyExistsError opn entity eid =
     E [OpArg opn, StrArg entity, StrArg eid, CodeArg AlreadyExists, StrArg ''already exists'']"

definition PermissionDeniedError :: "string \<Rightarrow> string \<Rightarrow> string \<Rightarrow> app_error" where
  "PermissionDeniedError opn entity eid =
     E [OpArg opn, StrArg entity, StrArg eid, CodeArg PermissionDenied, StrArg ''permission denied'']"

definition InvalidArgumentError :: "string \<Rightarrow> string \<Rightarrow> string \<Rightarrow> app_error" where
  "InvalidArgumentError opn entity reason =
     AppError InvalidArgument entity [] opn reason None Map.empty"

definition InternalError :: "string \<Rightarrow> string \<Rightarrow> string \<Rightarrow> goerr option \<Rightarrow> app_error" where
  "InternalError opn entity eid err =
     E [OpArg opn, StrArg entity, StrArg eid, CodeArg Internal, ErrArg err]"

section \<open>Classification\<close>

text \<open>
  \<open>errors.As\<close> with a target of type \<open>*Error\<close>: the first \<open>*Error\<close> of the chain. The chain
  below an \<open>*Error\<close> is never reached, because its own type already matches.
\<close>

fun as_AppErr :: "goerr \<Rightarrow> app_error option" where
  "as_AppErr (ErrVal t m) = None"
| "as_AppErr (WrapErr p e) = as_AppErr e"
| "as_AppErr (AppErr a) = Some a"

definition Is :: "goerr \<Rightarrow> Code \<Rightarrow> bool" where
  "Is err code = (case as_AppErr err of Some e \<Rightarrow> eCode e = code | None \<Rightarrow> False)"

definition IsNotFound :: "goerr \<Rightarrow> bool" where "IsNotFound err = Is err NotFound"
definition IsAlreadyExists :: "goerr \<Rightarrow> bool" where "IsAlreadyExists err = Is err AlreadyExists"
definition IsInvalidArgument :: "goerr \<Rightarrow> bool" where
  "IsInvalidArgument err = Is err InvalidArgument"

definition Match :: "goerr \<Rightarrow> string \<Rightarrow> Code \<Rightarrow> bool" where
  "Match err entity code =
     (case as_AppErr err of
        None \<Rightarrow> False
      | Some e \<Rightarrow> if entity \<noteq> [] \<and> eEntity e \<noteq> entity then False else eCode e = code)"

definition CodeToHTTPStatus :: "Code \<Rightarrow> int" where
  "CodeToHTTPStatus code =
     (if code = OK then 200
      else if code = InvalidArgument then 400
      else if code = NotFound then 404
      else if code = AlreadyExists then 409
      else if code = PermissionDenied then 403
      else if code = Unauthenticated then 401
      else if code = ResourceExhausted then 429
      else if code = FailedPrecondition then 412
      else 500)"

section \<open>How the arguments of E are assigned\<close>

text \<open>The nonempty strings among the arguments, in order, and the k-th of them.\<close>

fun E_strings :: "E_arg list \<Rightarrow> string list" where
  "E_strings [] = []"
| "E_strings (StrArg s # as) = (if s = [] then E_strings as else s # E_strings as)"
| "E_strings (_ # as) = E_strings as"

definition nth_or_empty :: "string list \<Rightarrow> nat \<Rightarrow> string" where
  "nth_or_empty ss k = (if k < length ss then ss ! k else [])"

fun is_app_arg :: "E_arg \<Rightarrow> bool" where
  "is_app_arg (ErrArg (Some (AppErr a))) = True"
| "is_app_arg _ = False"

fun is_code_arg :: "E_arg \<Rightarrow> bool" where
  "is_code_arg (CodeArg c) = True"
| "is_code_arg _ = False"

lemma E_snoc: "E (args @ [a]) = E_step (E args) a"
  by (simp add: E_def)

lemma E_strings_append: "E_strings (xs @ ys) = E_strings xs @ E_strings ys"
  by (induction xs rule: E_strings.induct) auto

lemma E_strings_nonempty: "s \<in> set (E_strings xs) \<Longrightarrow> s \<noteq> []"
  by (induction xs rule: E_strings.induct) (auto split: if_splits)

lemma nth_or_empty_snoc:
  "nth_or_empty (ss @ [s]) k = (if k = length ss then s else nth_or_empty ss k)"
  by (auto simp: nth_or_empty_def nth_append)

lemma nth_or_empty_iff:
  "(\<And>s. s \<in> set ss \<Longrightarrow> s \<noteq> []) \<Longrightarrow> nth_or_empty ss k = [] \<longleftrightarrow> length ss \<le> k"
  by (auto simp: nth_or_empty_def)

lemma nth_or_empty_E_strings: "nth_or_empty (E_strings xs) k = [] \<longleftrightarrow> length (E_strings xs) \<le> k"
  by (rule nth_or_empty_iff) (rule E_strings_nonempty)

definition positioned :: "app_error \<Rightarrow> string list \<Rightarrow> bool" where
  "positioned e ss \<longleftrightarrow> eEntity e = nth_or_empty ss 0 \<and> eID e = nth_or_empty ss 1
     \<and> eMessage e = nth_or_empty ss 2"

lemma positioned_string:
  assumes "positioned e (E_strings xs)" and "s \<noteq> []"
  shows "positioned (E_step e (StrArg s)) (E_strings xs @ [s])"
proof -
  have k: "nth_or_empty (E_strings xs) k = [] \<longleftrightarrow> length (E_strings xs) \<le> k" for k
    by (rule nth_or_empty_E_strings)
  obtain c en i opn m er fs where e: "e = AppError c en i opn m er fs" by (cases e)
  consider "length (E_strings xs) = 0" | "length (E_strings xs) = 1"
    | "length (E_strings xs) = 2" | "length (E_strings xs) > 2" by linarith
  then show ?thesis
    using assms k [of 0] k [of 1] k [of 2]
    by cases (simp_all add: e positioned_def nth_or_empty_snoc nth_or_empty_snoc [of "[]", simplified])
qed

lemma E_step_keeps_strings:
  assumes "\<not> is_app_arg a" and "\<And>s. a \<noteq> StrArg s"
  shows "eEntity (E_step e a) = eEntity e \<and> eID (E_step e a) = eID e
    \<and> eMessage (E_step e a) = eMessage e"
  using assms by (induction e a rule: E_step.induct) auto

lemma positioned_step:
  assumes "positioned e (E_strings xs)" and "\<not> is_app_arg a"
  shows "positioned (E_step e a) (E_strings (xs @ [a]))"
proof (cases "\<exists>s. a = StrArg s")
  case True
  then obtain s where a: "a = StrArg s" ..
  show ?thesis
  proof (cases "s = []")
    case True
    with a assms(1) show ?thesis by (cases e) (auto simp: E_strings_append positioned_def)
  next
    case False
    with a positioned_string [OF assms(1)] show ?thesis by (simp add: E_strings_append)
  qed
next
  case False
  then have "E_strings [a] = []" by (cases a) auto
  with False E_step_keeps_strings [OF assms(2)] assms(1) show ?thesis
    by (simp add: E_strings_append positioned_def)
qed

lemma E_positioned: "list_all (\<lambda>a. \<not> is_app_arg a) args \<Longrightarrow> positioned (E args) (E_strings args)"
proof (induction args rule: rev_induct)
  case Nil
  then show ?case by (simp add: E_def positioned_def nth_or_empty_def)
next
  case (snoc a args)
  then show ?case by (simp add: E_snoc positioned_step)
qed

lemma eCode_E_step:
  "\<not> is_code_arg a \<Longrightarrow> eCode e \<noteq> Unknown \<Longrightarrow> eCode (E_step e a) = eCode e"
  by (cases "(e, a)" rule: E_step.cases) auto

lemma eCode_E_steps:
  "list_all (\<lambda>a. \<not> is_code_arg a) args \<Longrightarrow> eCode e \<noteq> Unknown \<Longrightarrow>
   eCode (foldl E_step e args) = eCode e"
  by (induction args arbitrary: e) (auto simp: eCode_E_step)

text \<open>
  The strings given to \<open>E\<close> are assigned by position only: whatever operations, codes,
  maps and foreign errors stand between them, the first nonempty string is the entity, the
  second the ID, the third the message, and later ones are dropped. In particular an empty
  string does not hold its position.
\<close>

theorem E_strings_by_position:
  assumes "list_all (\<lambda>a. \<not> is_app_arg a) args"
  shows "eEntity (E args) = nth_or_empty (E_strings args) 0
    \<and> eID (E args) = nth_or_empty (E_strings args) 1
    \<and> eMessage (E args) = nth_or_empty (E_strings args) 2"
  using E_positioned [OF assms] by (simp add: positioned_def)

theorem E_strings_by_position_witness:
  "eID (E [OpArg ''op'', StrArg ''Remediation'', CodeArg InvalidArgument, StrArg ''Service is required''])
     = ''Service is required''
   \<and> eMessage (E [OpArg ''op'', StrArg ''Remediation'', CodeArg InvalidArgument,
                  StrArg ''Service is required'']) = []"
  using E_strings_by_position [of "[OpArg ''op'', StrArg ''Remediation'', CodeArg InvalidArgument,
    StrArg ''Service is required'']"]
  by (simp add: nth_or_empty_def)

text \<open>
  A code given to \<open>E\<close> explicitly decides the code of the result: the last code argument
  wins over the codes of all errors passed before or after it, unless it is \<open>Unknown\<close>.
\<close>

lemma explicit_code_wins:
  assumes "c \<noteq> Unknown" and "list_all (\<lambda>a. \<not> is_code_arg a) ys"
  shows "eCode (E (xs @ CodeArg c # ys)) = c"
proof -
  let ?e = "E_step (E xs) (CodeArg c)"
  have "eCode ?e = c" by (cases "E xs") simp
  moreover have "E (xs @ CodeArg c # ys) = foldl E_step ?e ys" by (simp add: E_def)
  ultimately show ?thesis using assms eCode_E_steps [of ys ?e] by simp
qed

text \<open>
  Wrapping a failure with \<open>InternalError\<close> masks it: whatever the cause, the result has
  exactly the code \<open>Internal\<close> (HTTP status 500), and when the cause is itself an application
  error it is merged, not chained: unwrapping yields the cause's own cause, so no later
  classification can find the code of the masked error.
\<close>

theorem InternalError_masks_cause:
  "(Is (AppErr (InternalError opn en i err)) code \<longleftrightarrow> code = Internal)
   \<and> CodeToHTTPStatus (eCode (InternalError opn en i err)) = 500
   \<and> Unwrap (AppErr (InternalError opn en i (Some (AppErr a)))) = eErr a
   \<and> eMessage (InternalError opn ''Issue'' ''1'' (Some (AppErr a))) = eMessage a"
proof -
  have "eCode (InternalError opn en i err) = Internal"
    unfolding InternalError_def
    using explicit_code_wins
      [of Internal "[ErrArg err]" "[OpArg opn, StrArg en, StrArg i]"]
    by (simp add: code_defs)
  then show ?thesis
    by (auto simp: Is_def CodeToHTTPStatus_def InternalError_def E_def code_defs or_else_def)
qed

end
