(* ===== verification/Cache_Key.thy ===== *)
theory Cache_Key
  imports App_Errors
begin

text \<open>
  Cache keys (\<open>internal/cache/key.go\<close>, \<open>DecodeKey\<close> of \<open>cache.go\<close>, \<open>EncodeKey\<close> of
  \<open>cache_base.go\<close>): the hash types with their names, and the encodings of a key. The base64 and
  hexadecimal codecs of Go's standard library are defined here on bytes; the digests SHA-256 and
  SHA-512 are a parameter, as nothing in the code depends on more than their being functions.
\<close>

section \<open>Hash types\<close>

datatype KeyHashType =
    KEY_HASH_BASE64
  | KEY_HASH_SHA256
  | KEY_HASH_SHA512
  | KEY_HASH_HEX
  | KEY_HASH_NONE
  | KEY_HASH_OTHER int

definition DefaultKeyHash :: KeyHashType where "DefaultKeyHash = KEY_HASH_BASE64"

fun KeyHashType_String :: "KeyHashType \<Rightarrow> string" where
  "KeyHashType_String KEY_HASH_BASE64 = ''Base64''"
| "KeyHashType_String KEY_HASH_SHA256 = ''SHA256''"
| "KeyHashType_String KEY_HASH_SHA512 = ''SHA512''"
| "KeyHashType_String KEY_HASH_HEX = ''HEX''"
| "KeyHashType_String KEY_HASH_NONE = ''None''"
| "KeyHashType_String (KEY_HASH_OTHER n) = ''Unknown''"

text \<open>\<open>strings.ToLower\<close> on the ASCII letters, the only ones the names are made of.\<close>

definition char_lower :: "char \<Rightarrow> char" where
  "char_lower c = (let n = of_char c :: nat in if 65 \<le> n \<and> n \<le> 90 then char_of (n + 32) else c)"

definition ToLower :: "string \<Rightarrow> string" where "ToLower s = map char_lower s"

definition ParseKeyHashType :: "string \<Rightarrow> KeyHashType" where
  "ParseKeyHashType s =
     (let l = ToLower s in
      if l = ''base64'' then KEY_HASH_BASE64
      else if l = ''sha256'' then KEY_HASH_SHA256
      else if l = ''sha512'' then KEY_HASH_SHA512
      else if l = ''hex'' then KEY_HASH_HEX
      else if l = ''none'' then KEY_HASH_NONE
      else DefaultKeyHash)"

section \<open>Hexadecimal\<close>

definition hex_digit :: "nat \<Rightarrow> char" where
  "hex_digit d = (if d < 10 then char_of (48 + d) else char_of (87 + d))"

definition hex_value :: "char \<Rightarrow> nat option" where
  "hex_value c = (let n = of_char c :: nat in
     if 48 \<le> n \<and> n \<le> 57 then Some (n - 48)
     else if 97 \<le> n \<and> n \<le> 102 then Some (n - 87)
     else if 65 \<le> n \<and> n \<le> 70 then Some (n - 55)
     else None)"

fun encodeHex :: "string \<Rightarrow> string" where
  "encodeHex [] = []"
| "encodeHex (c # cs) =
     hex_digit ((of_char c :: nat) div 16) # hex_digit ((of_char c :: nat) mod 16) # encodeHex cs"

definition codec_error :: goerr where "codec_error = ErrVal ''encoding'' ''invalid input''"

fun decodeHex :: "string \<Rightarrow> goerr + string" where
  "decodeHex [] = Inr []"
| "decodeHex [c] = Inl codec_error"
| "decodeHex (a # b # cs) =
     (case (hex_value a, hex_value b) of
        (Some x, Some y) \<Rightarrow> bindR (decodeHex cs) (\<lambda>r. Inr (char_of (16 * x + y) # r))
      | _ \<Rightarrow> Inl codec_error)"

section \<open>Base64 (standard alphabet, padded)\<close>

definition b64_char :: "nat \<Rightarrow> char" where
  "b64_char n = char_of (if n < 26 then 65 + n else if n < 52 then 71 + n
     else if n < 62 then n - 4 else if n = 62 then 43 else 47)"

definition b64_value :: "char \<Rightarrow> nat option" where
  "b64_value c = (let n = of_char c :: nat in
     if 65 \<le> n \<and> n \<le> 90 then Some (n - 65)
     else if 97 \<le> n \<and> n \<le> 122 then Some (n - 71)
     else if 48 \<le> n \<and> n \<le> 57 then Some (n + 4)
     else if n = 43 then Some 62 else if n = 47 then Some 63 else None)"

fun encodeBase64 :: "string \<Rightarrow> string" where
  "encodeBase64 [] = []"
| "encodeBase64 [a] =
     (let a = (of_char a :: nat)
      in [b64_char (a div 4), b64_char (16 * (a mod 4)), CHR ''='', CHR ''=''])"
| "encodeBase64 [a, b] =
     (let a = (of_char a :: nat); b = (of_char b :: nat)
      in [b64_char (a div 4), b64_char (16 * (a mod 4) + b div 16), b64_char (4 * (b mod 16)), CHR ''=''])"
| "encodeBase64 (a # b # c # cs) =
     (let a = (of_char a :: nat); b = (of_char b :: nat); c = (of_char c :: nat)
      in b64_char (a div 4) # b64_char (16 * (a mod 4) + b div 16)
         # b64_char (4 * (b mod 16) + c div 64) # b64_char (c mod 64) # encodeBase64 cs)"

text \<open>The decoder skips line breaks, and padding may only end the input.\<close>

fun decode_quads :: "string \<Rightarrow> goerr + string" where
  "decode_quads [] = Inr []"
| "decode_quads (p # q # r # s # cs) =
     (case (b64_value p, b64_value q) of
        (Some w, Some x) \<Rightarrow>
          (if r = CHR ''='' then
             (if s = CHR ''='' \<and> cs = [] then Inr [char_of (4 * w + x div 16)] else Inl codec_error)
           else case b64_value r of
             None \<Rightarrow> Inl codec_error
           | Some y \<Rightarrow>
               (if s = CHR ''='' then
                  (if cs = [] then Inr [char_of (4 * w + x div 16), char_of (16 * (x mod 16) + y div 4)]
                   else Inl codec_error)
                else case b64_value s of
                  None \<Rightarrow> Inl codec_error
                | Some z \<Rightarrow> bindR (decode_quads cs) (\<lambda>rest.
                    Inr (char_of (4 * w + x div 16) # char_of (16 * (x mod 16) + y div 4)
                         # char_of (64 * (y mod 4) + z) # rest))))
      | _ \<Rightarrow> Inl codec_error)"
| "decode_quads _ = Inl codec_error"

definition decodeBase64 :: "string \<Rightarrow> goerr + string" where
  "decodeBase64 s = decode_quads (filter (\<lambda>c. c \<noteq> CHR 0x0A \<and> c \<noteq> CHR 0x0D) s)"

section \<open>Keys\<close>

text \<open>The digests, printed in hexadecimal, are the parameters \<open>sha256\<close> and \<open>sha512\<close>.\<close>

fun EncodeKey :: "(string \<Rightarrow> string) \<Rightarrow> (string \<Rightarrow> string) \<Rightarrow> KeyHashType \<Rightarrow> string \<Rightarrow> string" where
  "EncodeKey sha256 sha512 KEY_HASH_SHA256 key = encodeHex (sha256 key)"
| "EncodeKey sha256 sha512 KEY_HASH_SHA512 key = encodeHex (sha512 key)"
| "EncodeKey sha256 sha512 KEY_HASH_HEX key = encodeHex key"
| "EncodeKey sha256 sha512 KEY_HASH_NONE key = key"
| "EncodeKey sha256 sha512 _ key = encodeBase64 key"

fun DecodeKey :: "KeyHashType \<Rightarrow> string \<Rightarrow> goerr + string" where
  "DecodeKey KEY_HASH_BASE64 key = decodeBase64 key"
| "DecodeKey KEY_HASH_HEX key = decodeHex key"
| "DecodeKey KEY_HASH_NONE key = Inr key"
| "DecodeKey k key =
     Inl (ErrVal ''fmt'' (''cache: Key hash '' @ [CHR 0x27] @ KeyHashType_String k @ [CHR 0x27] @ '' could not be decoded''))"

section \<open>Round trips\<close>

lemma of_char_lt [simp]: "(of_char c :: nat) < 256"
  by (metis of_char_mod_256 mod_less_divisor zero_less_numeral)

lemma hex_value_digit: "d < 16 \<Longrightarrow> hex_value (hex_digit d) = Some d"
  by (simp add: hex_value_def hex_digit_def Let_def)

lemma decodeHex_encodeHex: "decodeHex (encodeHex s) = Inr s"
proof (induction s)
  case (Cons c s)
  have "(of_char c :: nat) div 16 < 16" using of_char_lt [of c] by (simp add: less_mult_imp_div_less)
  then show ?case using Cons by (simp add: hex_value_digit)
qed simp

lemma b64_value_char: "n < 64 \<Longrightarrow> b64_value (b64_char n) = Some n"
  by (auto simp: b64_value_def b64_char_def Let_def)

lemma b64_char_plain:
  "n < 64 \<Longrightarrow> b64_char n \<noteq> CHR ''=''" "n < 64 \<Longrightarrow> b64_char n \<noteq> CHR 0x0A"
  "n < 64 \<Longrightarrow> b64_char n \<noteq> CHR 0x0D"
  using b64_value_char [of n] by (auto simp: b64_value_def Let_def)

lemma regroup_div: "y < k \<Longrightarrow> (k * x + y) div k = (x::nat)" and regroup_mod: "y < k \<Longrightarrow> (k * x + y) mod k = (y::nat)"
  by simp_all

lemma sextet_bounds:
  assumes "a < 256" "b < 256" "c < (256::nat)"
  shows "a div 4 < 64" "16 * (a mod 4) + b div 16 < 64" "4 * (b mod 16) + c div 64 < 64" "c mod 64 < 64"
    "16 * (a mod 4) < 64" "4 * (b mod 16) < 64" "b div 16 < 16" "c div 64 < 4"
proof -
  show "a div 4 < 64" "b div 16 < 16" "c div 64 < 4" using assms by (simp_all add: less_mult_imp_div_less)
  moreover have "a mod 4 < 4" "b mod 16 < 16" by simp_all
  ultimately show "16 * (a mod 4) + b div 16 < 64" "4 * (b mod 16) + c div 64 < 64"
    "16 * (a mod 4) < 64" "4 * (b mod 16) < 64" by linarith+
qed simp

lemma regroup:
  assumes "a < 256" "b < 256" "c < (256::nat)"
  shows "4 * (a div 4) + (16 * (a mod 4) + b div 16) div 16 = a"
    "16 * ((16 * (a mod 4) + b div 16) mod 16) + (4 * (b mod 16) + c div 64) div 4 = b"
    "64 * ((4 * (b mod 16) + c div 64) mod 4) + c mod 64 = c"
  using sextet_bounds [OF assms] by (simp_all only: regroup_div regroup_mod mult_div_mod_eq)

text \<open>The output of the encoder holds no line breaks, so the filter of the decoder keeps it.\<close>

lemma encodeBase64_no_breaks:
  "filter (\<lambda>c. c \<noteq> CHR 0x0A \<and> c \<noteq> CHR 0x0D) (encodeBase64 s) = encodeBase64 s"
proof (induction s rule: encodeBase64.induct)
  case (2 a)
  then show ?case using sextet_bounds [of "of_char a" 0 0] by (simp add: Let_def b64_char_plain)
next
  case (3 a b)
  then show ?case using sextet_bounds [of "of_char a" "of_char b" 0] by (simp add: Let_def b64_char_plain)
next
  case (4 a b c cs)
  then show ?case
    using sextet_bounds [of "of_char a" "of_char b" "of_char c"] by (simp add: Let_def b64_char_plain)
qed simp

lemma decode_quads_encodeBase64: "decode_quads (encodeBase64 s) = Inr s"
proof (induction s rule: encodeBase64.induct)
  case (2 a)
  then show ?case
    using sextet_bounds [of "of_char a" 0 0] regroup [of "of_char a" 0 0]
    by (simp add: Let_def b64_char_plain b64_value_char)
next
  case (3 a b)
  then show ?case
    using sextet_bounds [of "of_char a" "of_char b" 0] regroup [of "of_char a" "of_char b" 0]
    by (simp add: Let_def b64_char_plain b64_value_char)
next
  case (4 a b c cs)
  then show ?case
    using sextet_bounds [of "of_char a" "of_char b" "of_char c"]
      regroup [of "of_char a" "of_char b" "of_char c"]
    by (simp add: Let_def b64_char_plain b64_value_char del: mod_mult_self4)
qed simp

lemma DecodeKey_EncodeKey:
  "kh \<in> {KEY_HASH_BASE64, KEY_HASH_HEX, KEY_HASH_NONE} \<Longrightarrow>
   DecodeKey kh (EncodeKey sha256 sha512 kh key) = Inr key"
  by (auto simp: decodeBase64_def encodeBase64_no_breaks decode_quads_encodeBase64 decodeHex_encodeHex)

lemma ParseKeyHashType_names:
  "ParseKeyHashType ''Base64'' = KEY_HASH_BASE64" "ParseKeyHashType ''SHA256'' = KEY_HASH_SHA256"
  "ParseKeyHashType ''SHA512'' = KEY_HASH_SHA512" "ParseKeyHashType ''HEX'' = KEY_HASH_HEX"
  "ParseKeyHashType ''None'' = KEY_HASH_NONE"
  by code_simp+

text \<open>
  A cache key survives the encoding exactly for the reversible hash types: with Base64, HEX
  and None decoding returns the key for every byte string, with the digests it is an error for
  every string; and parsing the printed name of a hash type gives the type back.
\<close>

theorem key_encoding_roundtrip:
  "(kh \<in> {KEY_HASH_BASE64, KEY_HASH_HEX, KEY_HASH_NONE} \<longrightarrow>
      DecodeKey kh (EncodeKey sha256 sha512 kh key) = Inr key)
   \<and> (kh \<in> {KEY_HASH_SHA256, KEY_HASH_SHA512} \<longrightarrow> (\<forall>s. \<exists>e. DecodeKey kh s = Inl e))
   \<and> ((\<forall>n. kh \<noteq> KEY_HASH_OTHER n) \<longrightarrow> ParseKeyHashType (KeyHashType_String kh) = kh)"
  using DecodeKey_EncodeKey [of kh sha256 sha512 key] ParseKeyHashType_names by (cases kh) auto

theorem key_encoding_roundtrip_witness:
  "ParseKeyHashType (KeyHashType_String KEY_HASH_HEX) = KEY_HASH_HEX
   \<and> DecodeKey KEY_HASH_BASE64 (EncodeKey id id KEY_HASH_BASE64 ''k'') = Inr ''k''"
  using key_encoding_roundtrip [of KEY_HASH_HEX id id "''k''"]
    key_encoding_roundtrip [of KEY_HASH_BASE64 id id "''k''"] by blast

end
