(* ===== verification/Cache.thy ===== *)
theory Cache
  imports Cache_Key "HOL-Library.AList"
begin

text \<open>
  The read-through cache (\<open>internal/cache\<close>): the in-memory and the valkey store behind the
  interface \<open>Cache\<close>, invalidation by matching decoded keys, \<open>CallCached\<close> with its hit, miss,
  poisoned-entry and error paths, and the limits on background refreshes of
  \<open>cache_base.go\<close> as a state machine. The third-party stores (go-cache, the valkey client) are
  parameters; \<open>expiring_map\<close> is an instance with the documented behaviour of go-cache.
\<close>

section \<open>The interface and its implementations\<close>

type_synonym duration = int

record 'g cache_ops =
  op_Get :: "'g \<Rightarrow> int \<Rightarrow> string \<Rightarrow> goerr + string option"
  op_Set :: "'g \<Rightarrow> int \<Rightarrow> string \<Rightarrow> string \<Rightarrow> duration \<Rightarrow> goerr option \<times> 'g"
  op_Invalidate :: "'g \<Rightarrow> string \<Rightarrow> goerr option \<times> 'g"
  op_GetAllKeys :: "'g \<Rightarrow> int \<Rightarrow> goerr + string list"
  op_KeyHash :: KeyHashType

text \<open>go-cache: values of any type with an expiration; the current time is an argument.\<close>

datatype gval = GStr string | GOther

record 'g gocache_ops =
  gc_Get :: "'g \<Rightarrow> int \<Rightarrow> string \<Rightarrow> gval option"
  gc_Set :: "'g \<Rightarrow> int \<Rightarrow> string \<Rightarrow> gval \<Rightarrow> duration \<Rightarrow> 'g"
  gc_Delete :: "'g \<Rightarrow> string \<Rightarrow> 'g"
  gc_Items :: "'g \<Rightarrow> int \<Rightarrow> string list"

definition NoExpiration :: duration where "NoExpiration = - 1"

definition InMemory_Get :: "'g gocache_ops \<Rightarrow> 'g \<Rightarrow> int \<Rightarrow> string \<Rightarrow> goerr + string option" where
  "InMemory_Get gc g now key =
     (case gc_Get gc g now key of
        None \<Rightarrow> Inr None
      | Some (GStr s) \<Rightarrow> Inr (Some s)
      | Some GOther \<Rightarrow> Inl (ErrVal ''fmt'' ''Cache: Get value could not be converted to string''))"

definition InMemory_GetAllKeys :: "'g gocache_ops \<Rightarrow> 'g \<Rightarrow> int \<Rightarrow> goerr + string list" where
  "InMemory_GetAllKeys gc g now = Inr (gc_Items gc g now)"

definition InMemory_Set ::
  "'g gocache_ops \<Rightarrow> 'g \<Rightarrow> int \<Rightarrow> string \<Rightarrow> string \<Rightarrow> duration \<Rightarrow> goerr option \<times> 'g" where
  "InMemory_Set gc g now key val ttl =
     (None, gc_Set gc g now key (GStr val) (if ttl \<le> 0 then NoExpiration else ttl))"

definition InMemory_Invalidate :: "'g gocache_ops \<Rightarrow> 'g \<Rightarrow> string \<Rightarrow> goerr option \<times> 'g" where
  "InMemory_Invalidate gc g key = (None, gc_Delete gc g key)"

definition in_memory_cache :: "'g gocache_ops \<Rightarrow> KeyHashType \<Rightarrow> 'g cache_ops" where
  "in_memory_cache gc kh = \<lparr>op_Get = InMemory_Get gc, op_Set = InMemory_Set gc,
     op_Invalidate = InMemory_Invalidate gc, op_GetAllKeys = InMemory_GetAllKeys gc, op_KeyHash = kh\<rparr>"

text \<open>The valkey client: one reply per command.\<close>

datatype vk_reply = VkNil | VkErr goerr | VkStr string

record 'g valkey_client =
  vk_Get :: "'g \<Rightarrow> int \<Rightarrow> string \<Rightarrow> vk_reply"
  vk_SetPx :: "'g \<Rightarrow> int \<Rightarrow> string \<Rightarrow> string \<Rightarrow> duration \<Rightarrow> goerr option \<times> 'g"
  vk_Del :: "'g \<Rightarrow> string \<Rightarrow> goerr option \<times> 'g"
  vk_Keys :: "'g \<Rightarrow> int \<Rightarrow> goerr + string list"

definition Valkey_Get :: "'g valkey_client \<Rightarrow> 'g \<Rightarrow> int \<Rightarrow> string \<Rightarrow> goerr + string option" where
  "Valkey_Get vc g now key =
     (case vk_Get vc g now key of VkNil \<Rightarrow> Inr None | VkErr e \<Rightarrow> Inl e | VkStr s \<Rightarrow> Inr (Some s))"

definition valkey_cache :: "'g valkey_client \<Rightarrow> KeyHashType \<Rightarrow> 'g cache_ops" where
  "valkey_cache vc kh = \<lparr>op_Get = Valkey_Get vc, op_Set = vk_SetPx vc, op_Invalidate = vk_Del vc,
     op_GetAllKeys = vk_Keys vc, op_KeyHash = kh\<rparr>"

text \<open>\<open>InvalidateByMatch\<close>, the same loop in both implementations.\<close>

fun invalidate_loop ::
  "'g cache_ops \<Rightarrow> (string \<Rightarrow> bool) \<Rightarrow> string list \<Rightarrow> 'g \<Rightarrow> goerr option \<times> 'g" where
  "invalidate_loop ops matcher [] g = (None, g)"
| "invalidate_loop ops matcher (key # keys) g =
     (case DecodeKey (op_KeyHash ops) key of
        Inl e \<Rightarrow> (Some (WrapErr ''cache: failed to decode cached key: '' e), g)
      | Inr decoded \<Rightarrow>
          if matcher decoded
          then (case op_Invalidate ops g key of
                  (Some e, g') \<Rightarrow>
                    (Some (WrapErr (''cache: failed to invalidate key: [key: '' @ decoded @ '', error: '') e), g')
                | (None, g') \<Rightarrow> invalidate_loop ops matcher keys g')
          else invalidate_loop ops matcher keys g)"

definition InvalidateByMatch ::
  "'g cache_ops \<Rightarrow> (string \<Rightarrow> bool) \<Rightarrow> 'g \<Rightarrow> int \<Rightarrow> goerr option \<times> 'g" where
  "InvalidateByMatch ops matcher g now =
     (case op_GetAllKeys ops g now of
        Inl e \<Rightarrow> (Some (WrapErr ''cache: failed to get cache keys: '' e), g)
      | Inr keys \<Rightarrow> invalidate_loop ops matcher keys g)"

section \<open>CallCached\<close>

record Stat =
  Hit :: int
  Miss :: int
  Shared :: int

definition IncHit :: "Stat \<Rightarrow> Stat" where "IncHit s = s\<lparr>Hit := Hit s + 1\<rparr>"
definition IncMiss :: "Stat \<Rightarrow> Stat" where "IncMiss s = s\<lparr>Miss := Miss s + 1\<rparr>"
definition IncShared :: "Stat \<Rightarrow> Stat" where "IncShared s = s\<lparr>Shared := Shared s + 1\<rparr>"

text \<open>
  A call to be cached: its time to live, the outcome of checking its parameters by reflection,
  its cache key, and what the wrapped function returns when it is called now. \<open>cc_flight\<close> is the
  result of a call for the same key that is in flight, which singleflight shares instead of
  calling the function. \<open>encode\<close> and \<open>decode\<close> are the JSON codec of the result type.
\<close>

record 'v call =
  cc_ttl :: duration
  cc_params :: "goerr option"
  cc_key :: "goerr + string"
  cc_fn :: "goerr + 'v"
  cc_flight :: "(goerr + 'v) option"

record 'g cache_state =
  cs_store :: 'g
  cs_stat :: Stat

record ('v, 'g) call_result =
  cr_result :: "goerr + 'v"
  cr_state :: "'g cache_state"
  cr_executed :: bool
  cr_refresh :: bool

definition callFn ::
  "'g cache_ops \<Rightarrow> ('v \<Rightarrow> string option) \<Rightarrow> int \<Rightarrow> 'v call \<Rightarrow> string \<Rightarrow> 'g cache_state \<Rightarrow> ('v, 'g) call_result" where
  "callFn ops encode now c key s =
     (case cc_flight c of
        Some r \<Rightarrow> \<lparr>cr_result = r, cr_state = s\<lparr>cs_stat := IncShared (cs_stat s)\<rparr>,
                   cr_executed = False, cr_refresh = False\<rparr>
      | None \<Rightarrow>
         (case cc_fn c of
            Inl e \<Rightarrow> \<lparr>cr_result = Inl (WrapErr ''cache (fcall): Return value error: ''
                                      (WrapErr ''execution failed: '' e)),
                      cr_state = s, cr_executed = True, cr_refresh = False\<rparr>
          | Inr v \<Rightarrow>
             (case encode v of
                None \<Rightarrow> \<lparr>cr_result = Inl (ErrVal ''fmt'' ''cache (encode): %!w(<nil>)''),
                         cr_state = s, cr_executed = True, cr_refresh = False\<rparr>
              | Some enc \<Rightarrow>
                 (case op_Set ops (cs_store s) now key enc (cc_ttl c) of
                    (Some e, g) \<Rightarrow> \<lparr>cr_result = Inl (WrapErr ''cache (set): '' e),
                                   cr_state = s\<lparr>cs_store := g\<rparr>, cr_executed = True, cr_refresh = False\<rparr>
                  | (None, g) \<Rightarrow> \<lparr>cr_result = Inr v, cr_state = s\<lparr>cs_store := g\<rparr>,
                                 cr_executed = True, cr_refresh = False\<rparr>))))"

definition callEnabled ::
  "'g cache_ops \<Rightarrow> ('v \<Rightarrow> string option) \<Rightarrow> (string \<Rightarrow> goerr + 'v) \<Rightarrow> int \<Rightarrow> 'v call \<Rightarrow> 'g cache_state
   \<Rightarrow> ('v, 'g) call_result" where
  "callEnabled ops encode decode now c s =
     (let fail = (\<lambda>e. \<lparr>cr_result = Inl e, cr_state = s, cr_executed = False, cr_refresh = False\<rparr>);
          missed = (\<lambda>key s. callFn ops encode now c key (s\<lparr>cs_stat := IncMiss (cs_stat s)\<rparr>))
      in case cc_params c of
           Some e \<Rightarrow> fail (WrapErr ''cache (param): Get call parameters failed: '' e)
         | None \<Rightarrow>
          (case cc_key c of
             Inl e \<Rightarrow> fail (ErrVal ''fmt'' ''cache (key): Could not create cache key'')
           | Inr key \<Rightarrow>
              (case op_Get ops (cs_store s) now key of
                 Inl e \<Rightarrow> fail (WrapErr ''cache (get): '' e)
               | Inr None \<Rightarrow> missed key s
               | Inr (Some str) \<Rightarrow>
                  (case decode str of
                     Inr val \<Rightarrow> \<lparr>cr_result = Inr val, cr_state = s\<lparr>cs_stat := IncHit (cs_stat s)\<rparr>,
                                cr_executed = False, cr_refresh = True\<rparr>
                   | Inl e \<Rightarrow> missed key (s\<lparr>cs_store := snd (op_Invalidate ops (cs_store s) key)\<rparr>)))))"

definition callDisabled :: "'v call \<Rightarrow> 'g cache_state \<Rightarrow> ('v, 'g) call_result" where
  "callDisabled c s =
     (case cc_params c of
        Some e \<Rightarrow> \<lparr>cr_result = Inl (WrapErr ''noCache (param): Get call parameters failed: '' e),
                   cr_state = s, cr_executed = False, cr_refresh = False\<rparr>
      | None \<Rightarrow> \<lparr>cr_result = (case cc_fn c of Inl e \<Rightarrow> Inl (WrapErr ''execution failed: '' e) | Inr v \<Rightarrow> Inr v),
                 cr_state = s, cr_executed = True, cr_refresh = False\<rparr>)"

definition CallCached ::
  "'g cache_ops option \<Rightarrow> ('v \<Rightarrow> string option) \<Rightarrow> (string \<Rightarrow> goerr + 'v) \<Rightarrow> int \<Rightarrow> 'v call option
   \<Rightarrow> 'g cache_state \<Rightarrow> ('v, 'g) call_result" where
  "CallCached cache encode decode now ccparams s =
     (case ccparams of
        None \<Rightarrow> \<lparr>cr_result = Inl (ErrVal ''fmt'' ''cache: nil CacheCallParams''), cr_state = s,
                cr_executed = False, cr_refresh = False\<rparr>
      | Some c \<Rightarrow> (case cache of None \<Rightarrow> callDisabled c s
                  | Some ops \<Rightarrow> callEnabled ops encode decode now c s))"

section \<open>The contract of a cache store\<close>

text \<open>
  What the callers rely on: \<open>lookup\<close> is the live content at a time, operations succeed, a value
  that was set is found until its time to live has passed, and an invalidated key is gone.
\<close>

locale cache_store =
  fixes ops :: "'g cache_ops" and lookup :: "'g \<Rightarrow> int \<Rightarrow> string \<Rightarrow> string option"
    and valid :: "'g \<Rightarrow> bool"
  assumes get_lookup: "valid g \<Longrightarrow> op_Get ops g now key = Inr (lookup g now key)"
    and set_lookup: "valid g \<Longrightarrow> ttl \<le> 0 \<or> now' \<le> now + ttl \<Longrightarrow>
      \<exists>g'. op_Set ops g now key val ttl = (None, g') \<and> valid g' \<and> lookup g' now' key = Some val"
    and set_expires: "valid g \<Longrightarrow> 0 < ttl \<Longrightarrow> now + ttl < now' \<Longrightarrow>
      lookup (snd (op_Set ops g now key val ttl)) now' key = None"
    and invalidate_lookup: "valid g \<Longrightarrow> \<exists>g'. op_Invalidate ops g key = (None, g') \<and> valid g'
      \<and> (\<forall>now k. lookup g' now k = (if k = key then None else lookup g now k))"
    and keys_lookup: "valid g \<Longrightarrow> \<exists>ks. op_GetAllKeys ops g now = Inr ks \<and> set ks = dom (lookup g now)"
begin

lemma invalidate_loop_exact:
  assumes "valid g" and "\<And>k. k \<in> set ks \<Longrightarrow> \<exists>d. DecodeKey (op_KeyHash ops) k = Inr d"
  shows "\<exists>g'. invalidate_loop ops matcher ks g = (None, g') \<and> valid g'
    \<and> (\<forall>now k. lookup g' now k =
        (if k \<in> set ks \<and> (\<exists>d. DecodeKey (op_KeyHash ops) k = Inr d \<and> matcher d) then None
         else lookup g now k))"
  using assms
proof (induction ks arbitrary: g)
  case (Cons key ks)
  obtain d where d: "DecodeKey (op_KeyHash ops) key = Inr d" using Cons.prems(2) by auto
  show ?case
  proof (cases "matcher d")
    case True
    obtain g1 where g1: "op_Invalidate ops g key = (None, g1)" "valid g1"
      "\<forall>now k. lookup g1 now k = (if k = key then None else lookup g now k)"
      using invalidate_lookup [OF Cons.prems(1)] by blast
    obtain g2 where g2: "invalidate_loop ops matcher ks g1 = (None, g2)" "valid g2"
      "\<forall>now k. lookup g2 now k =
        (if k \<in> set ks \<and> (\<exists>d. DecodeKey (op_KeyHash ops) k = Inr d \<and> matcher d) then None
         else lookup g1 now k)"
      using Cons.IH [OF g1(2)] Cons.prems(2) by auto
    show ?thesis using d True g1 g2 by (intro exI [of _ g2]) auto
  next
    case False
    obtain g2 where g2: "invalidate_loop ops matcher ks g = (None, g2)" "valid g2"
      "\<forall>now k. lookup g2 now k =
        (if k \<in> set ks \<and> (\<exists>d. DecodeKey (op_KeyHash ops) k = Inr d \<and> matcher d) then None
         else lookup g now k)"
      using Cons.IH [OF Cons.prems(1)] Cons.prems(2) by auto
    show ?thesis using d False g2 by (intro exI [of _ g2]) auto
  qed
qed auto

lemma invalidate_by_match_exact:
  assumes "valid g" and "\<And>k. k \<in> dom (lookup g now) \<Longrightarrow> \<exists>d. DecodeKey (op_KeyHash ops) k = Inr d"
  shows "\<exists>g'. InvalidateByMatch ops matcher g now = (None, g') \<and> valid g'
    \<and> (\<forall>k. lookup g' now k =
        (if \<exists>d. DecodeKey (op_KeyHash ops) k = Inr d \<and> matcher d then None else lookup g now k))"
proof -
  obtain ks where ks: "op_GetAllKeys ops g now = Inr ks" "set ks = dom (lookup g now)"
    using keys_lookup [OF assms(1)] by blast
  obtain g' where g': "invalidate_loop ops matcher ks g = (None, g')" "valid g'"
    "\<forall>t k. lookup g' t k =
        (if k \<in> set ks \<and> (\<exists>d. DecodeKey (op_KeyHash ops) k = Inr d \<and> matcher d) then None
         else lookup g t k)"
    using invalidate_loop_exact [OF assms(1), of ks matcher] assms(2) ks(2) by blast
  then show ?thesis using ks by (intro exI [of _ g']) (auto simp: InvalidateByMatch_def domIff)
qed

lemma undecodable_keys_block_invalidation:
  assumes "valid g" and "lookup g now key \<noteq> None"
    and "\<And>k. \<exists>e. DecodeKey (op_KeyHash ops) k = Inl e"
  shows "\<exists>e. InvalidateByMatch ops matcher g now = (Some e, g)"
proof -
  obtain ks where ks: "op_GetAllKeys ops g now = Inr ks" "set ks = dom (lookup g now)"
    using keys_lookup [OF assms(1)] by blast
  then obtain k ks' where "ks = k # ks'" using assms(2) by (cases ks) auto
  with ks(1) assms(3) [of k] show ?thesis by (auto simp: InvalidateByMatch_def)
qed

lemma miss_then_hit:
  assumes "valid (cs_store s)" and "cc_params c = None" and "cc_key c = Inr key"
    and "lookup (cs_store s) now key = None" and "cc_flight c = None"
    and "cc_fn c = Inr v" and "encode v = Some enc" and "decode enc = Inr v"
    and "cc_params c' = None" and "cc_key c' = Inr key"
    and "cc_ttl c \<le> 0 \<or> now' \<le> now + cc_ttl c"
  shows "\<exists>s1. CallCached (Some ops) encode decode now (Some c) s =
        \<lparr>cr_result = Inr v, cr_state = s1, cr_executed = True, cr_refresh = False\<rparr>
      \<and> cs_stat s1 = IncMiss (cs_stat s)
      \<and> CallCached (Some ops) encode decode now' (Some c') s1 =
        \<lparr>cr_result = Inr v, cr_state = s1\<lparr>cs_stat := IncHit (cs_stat s1)\<rparr>,
         cr_executed = False, cr_refresh = True\<rparr>"
proof -
  obtain g' where g': "op_Set ops (cs_store s) now key enc (cc_ttl c) = (None, g')" "valid g'"
    "lookup g' now' key = Some enc"
    using set_lookup [OF assms(1,11)] by blast
  show ?thesis
    by (intro exI [of _ "s\<lparr>cs_stat := IncMiss (cs_stat s), cs_store := g'\<rparr>"])
      (simp add: CallCached_def callEnabled_def callFn_def Let_def assms get_lookup g')
qed

end

section \<open>The in-memory cache keeps the contract\<close>

text \<open>The documented behaviour of go-cache on string values.\<close>

locale gocache =
  fixes gc :: "'g gocache_ops" and content :: "'g \<Rightarrow> int \<Rightarrow> string \<Rightarrow> string option"
    and valid :: "'g \<Rightarrow> bool" and kh :: KeyHashType
  assumes gc_get: "valid g \<Longrightarrow> gc_Get gc g now key = map_option GStr (content g now key)"
    and gc_set_valid: "valid g \<Longrightarrow> valid (gc_Set gc g now key (GStr s) d)"
    and gc_set_forever: "valid g \<Longrightarrow> content (gc_Set gc g now key (GStr s) NoExpiration) now' key = Some s"
    and gc_set_live: "valid g \<Longrightarrow> 0 < d \<Longrightarrow>
      content (gc_Set gc g now key (GStr s) d) now' key = (if now' \<le> now + d then Some s else None)"
    and gc_delete: "valid g \<Longrightarrow> valid (gc_Delete gc g key) \<and>
      content (gc_Delete gc g key) now k = (if k = key then None else content g now k)"
    and gc_items: "valid g \<Longrightarrow> set (gc_Items gc g now) = dom (content g now)"

sublocale gocache \<subseteq> imc: cache_store "in_memory_cache gc kh" content valid
proof
  fix g now key
  assume "valid g"
  then show "op_Get (in_memory_cache gc kh) g now key = Inr (content g now key)"
    by (cases "content g now key") (simp_all add: in_memory_cache_def InMemory_Get_def gc_get)
next
  fix g now now' key val and ttl :: int
  assume "valid g" and "ttl \<le> 0 \<or> now' \<le> now + ttl"
  then show "\<exists>g'. op_Set (in_memory_cache gc kh) g now key val ttl = (None, g') \<and> valid g'
      \<and> content g' now' key = Some val"
    by (cases "ttl \<le> 0")
      (simp_all add: in_memory_cache_def InMemory_Set_def gc_set_valid gc_set_forever gc_set_live)
next
  fix g now now' key val and ttl :: int
  assume "valid g" and "0 < ttl" and "now + ttl < now'"
  then show "content (snd (op_Set (in_memory_cache gc kh) g now key val ttl)) now' key = None"
    by (simp add: in_memory_cache_def InMemory_Set_def gc_set_live)
next
  fix g key
  assume "valid g"
  then show "\<exists>g'. op_Invalidate (in_memory_cache gc kh) g key = (None, g') \<and> valid g'
      \<and> (\<forall>now k. content g' now k = (if k = key then None else content g now k))"
    by (simp add: in_memory_cache_def InMemory_Invalidate_def gc_delete)
next
  fix g now
  assume "valid g"
  then show "\<exists>ks. op_GetAllKeys (in_memory_cache gc kh) g now = Inr ks \<and> set ks = dom (content g now)"
    by (simp add: in_memory_cache_def InMemory_GetAllKeys_def gc_items)
qed

text \<open>
  go-cache as an association list: a positive duration sets an expiration time, a negative one
  none, and zero the default of one hour (in nanoseconds); an item is gone once the time is past
  its expiration.
\<close>

type_synonym exp_map = "(string \<times> gval \<times> int option) list"

definition defaultTtl :: duration where "defaultTtl = 3600000000000"

definition em_Get :: "exp_map \<Rightarrow> int \<Rightarrow> string \<Rightarrow> gval option" where
  "em_Get g now key =
     (case map_of g key of
        None \<Rightarrow> None
      | Some (v, None) \<Rightarrow> Some v
      | Some (v, Some e) \<Rightarrow> if now > e then None else Some v)"

definition em_Set :: "exp_map \<Rightarrow> int \<Rightarrow> string \<Rightarrow> gval \<Rightarrow> duration \<Rightarrow> exp_map" where
  "em_Set g now key v d =
     (let d = (if d = 0 then defaultTtl else d)
      in AList.update key (v, if d > 0 then Some (now + d) else None) g)"

definition expiring_map :: "exp_map gocache_ops" where
  "expiring_map = \<lparr>gc_Get = em_Get, gc_Set = em_Set, gc_Delete = (\<lambda>g key. AList.delete key g),
     gc_Items = (\<lambda>g now. filter (\<lambda>k. em_Get g now k \<noteq> None) (map fst g))\<rparr>"

definition em_content :: "exp_map \<Rightarrow> int \<Rightarrow> string \<Rightarrow> string option" where
  "em_content g now key = (case em_Get g now key of Some (GStr s) \<Rightarrow> Some s | _ \<Rightarrow> None)"

definition em_valid :: "exp_map \<Rightarrow> bool" where
  "em_valid g \<longleftrightarrow> (\<forall>key v e. map_of g key = Some (v, e) \<longrightarrow> v \<noteq> GOther)"

lemma em_Get_string: "em_valid g \<Longrightarrow> em_Get g now key \<noteq> Some GOther"
  by (auto simp: em_Get_def em_valid_def split: option.splits if_splits)

lemma em_Get_content: "em_valid g \<Longrightarrow> em_Get g now key = map_option GStr (em_content g now key)"
  using em_Get_string [of g now key]
  by (auto simp: em_content_def split: option.splits gval.splits)

lemma em_Get_dom: "em_Get g now key \<noteq> None \<Longrightarrow> key \<in> set (map fst g)"
  by (auto simp: em_Get_def map_of_eq_None_iff split: option.splits
      intro: rev_image_eqI dest: map_of_SomeD)

interpretation em: gocache expiring_map em_content em_valid kh for kh
proof
  fix g now key
  assume "em_valid g"
  then show "gc_Get expiring_map g now key = map_option GStr (em_content g now key)"
    by (simp add: expiring_map_def em_Get_content)
next
  fix g now key s d
  assume "em_valid g"
  then show "em_valid (gc_Set expiring_map g now key (GStr s) d)"
    by (auto simp: expiring_map_def em_Set_def em_valid_def update_conv' Let_def split: if_splits)
next
  fix g now now' key s
  assume "em_valid g"
  then show "em_content (gc_Set expiring_map g now key (GStr s) NoExpiration) now' key = Some s"
    by (simp add: expiring_map_def em_Set_def em_content_def em_Get_def update_conv' Let_def NoExpiration_def)
next
  fix g now now' key s and d :: int
  assume "em_valid g" and "0 < d"
  then show "em_content (gc_Set expiring_map g now key (GStr s) d) now' key =
      (if now' \<le> now + d then Some s else None)"
    by (simp add: expiring_map_def em_Set_def em_content_def em_Get_def update_conv' Let_def)
next
  fix g key now k
  assume "em_valid g"
  then show "em_valid (gc_Delete expiring_map g key) \<and>
      em_content (gc_Delete expiring_map g key) now k = (if k = key then None else em_content g now k)"
    by (auto simp: expiring_map_def em_content_def em_Get_def em_valid_def delete_conv' split: if_splits)
next
  fix g now
  assume v: "em_valid g"
  show "set (gc_Items expiring_map g now) = dom (em_content g now)"
  proof -
    have iff: "em_Get g now k \<noteq> None \<longleftrightarrow> em_content g now k \<noteq> None" for k
      by (simp add: em_Get_content [OF v])
    then have "em_content g now k \<noteq> None \<Longrightarrow> k \<in> set (map fst g)" for k
      using em_Get_dom by blast
    with iff show ?thesis by (auto simp: expiring_map_def dom_def)
  qed
qed

section \<open>Properties of the cache\<close>

text \<open>
  A value computed on a miss is served until its time to live has passed: the first call
  runs the function, counts one miss and stores the result; a later call with the same key
  returns that value whatever the function would return by then, counts one hit, does not run
  the function and asks for a background refresh.
\<close>

theorem CallCached_serves_stored_value:
  assumes "em_valid (cs_store s)" and "cc_params c = None" and "cc_key c = Inr key"
    and "em_content (cs_store s) now key = None" and "cc_flight c = None"
    and "cc_fn c = Inr v" and "encode v = Some enc" and "decode enc = Inr v"
    and "cc_params c' = None" and "cc_key c' = Inr key"
    and "cc_ttl c \<le> 0 \<or> now' \<le> now + cc_ttl c"
  shows "\<exists>s1. CallCached (Some (in_memory_cache expiring_map kh)) encode decode now (Some c) s =
        \<lparr>cr_result = Inr v, cr_state = s1, cr_executed = True, cr_refresh = False\<rparr>
      \<and> cs_stat s1 = IncMiss (cs_stat s)
      \<and> CallCached (Some (in_memory_cache expiring_map kh)) encode decode now' (Some c') s1 =
        \<lparr>cr_result = Inr v, cr_state = s1\<lparr>cs_stat := IncHit (cs_stat s1)\<rparr>,
         cr_executed = False, cr_refresh = True\<rparr>"
  by (rule em.imc.miss_then_hit [where encode = encode and decode = decode and enc = enc and key = key
        and v = v and c = c and c' = c' and now = now and now' = now' and s = s]) (fact assms)+

theorem CallCached_serves_stored_value_witness:
  "\<exists>s1. CallCached (Some (in_memory_cache expiring_map KEY_HASH_NONE)) Some Inr 100
        (Some \<lparr>cc_ttl = 5, cc_params = None, cc_key = Inr ''k'', cc_fn = Inr ''v'', cc_flight = None\<rparr>)
        \<lparr>cs_store = [], cs_stat = \<lparr>Hit = 0, Miss = 0, Shared = 0\<rparr>\<rparr> =
        \<lparr>cr_result = Inr ''v'', cr_state = s1, cr_executed = True, cr_refresh = False\<rparr>"
  using CallCached_serves_stored_value
    [where s = "\<lparr>cs_store = [], cs_stat = \<lparr>Hit = 0, Miss = 0, Shared = 0\<rparr>\<rparr>" and now = 100 and now' = 105
      and c = "\<lparr>cc_ttl = 5, cc_params = None, cc_key = Inr ''k'', cc_fn = Inr ''v'', cc_flight = None\<rparr>"
      and c' = "\<lparr>cc_ttl = 5, cc_params = None, cc_key = Inr ''k'',
                cc_fn = Inl (ErrVal ''db'' ''down''), cc_flight = None\<rparr>"
      and key = "''k''" and v = "''v''" and enc = "''v''" and encode = Some and decode = Inr
      and kh = KEY_HASH_NONE]
  by (auto simp: em_valid_def em_content_def em_Get_def)

text \<open>
  \<open>InvalidateByMatch\<close> removes exactly the entries whose decoded key matches when every key
  in the cache can be decoded. With a digest as hash type and anything in the cache it fails
  and removes nothing, so invalidation is impossible under that configuration.
\<close>

theorem InvalidateByMatch_exact:
  assumes "em_valid g"
  shows "((\<forall>k \<in> dom (em_content g now). \<exists>d. DecodeKey kh k = Inr d) \<longrightarrow>
      (\<exists>g'. InvalidateByMatch (in_memory_cache expiring_map kh) matcher g now = (None, g')
        \<and> (\<forall>k. em_content g' now k =
              (if \<exists>d. DecodeKey kh k = Inr d \<and> matcher d then None else em_content g now k))))
    \<and> (kh \<in> {KEY_HASH_SHA256, KEY_HASH_SHA512} \<and> em_content g now key \<noteq> None \<longrightarrow>
      (\<exists>e. InvalidateByMatch (in_memory_cache expiring_map kh) matcher g now = (Some e, g)))"
proof -
  have kh: "op_KeyHash (in_memory_cache expiring_map kh) = kh" by (simp add: in_memory_cache_def)
  have "\<exists>e. DecodeKey kh k = Inl e" if "kh \<in> {KEY_HASH_SHA256, KEY_HASH_SHA512}" for k
    using that by auto
  then show ?thesis
    using em.imc.invalidate_by_match_exact [OF assms, where kh = kh and now = now and matcher = matcher]
      em.imc.undecodable_keys_block_invalidation [OF assms, where kh = kh and now = now and matcher = matcher and key = key]
    unfolding kh by blast
qed

theorem InvalidateByMatch_exact_witness:
  "\<exists>e. InvalidateByMatch (in_memory_cache expiring_map KEY_HASH_SHA256) (\<lambda>k. True)
      [(''k'', GStr ''v'', None)] 0 = (Some e, [(''k'', GStr ''v'', None)])"
  using InvalidateByMatch_exact [of "[(''k'', GStr ''v'', None)]" 0 KEY_HASH_SHA256 "\<lambda>k. True" "''k''"]
  by (simp add: em_valid_def em_content_def em_Get_def)

section \<open>Limits on background refreshes\<close>

text \<open>
  The state of \<open>CacheBase\<close> that bounds refreshes: the capacity of the semaphore channel (\<open>None\<close>
  when it is nil), the tokens in it, the refreshes running, and how many were started.
  The limiter's answer is part of the event; without a limiter it always allows.
\<close>

record refresh_state =
  rs_unlimited :: bool
  rs_capacity :: "nat option"
  rs_tokens :: nat
  rs_running :: nat
  rs_started :: nat

definition NewCacheBase :: "int \<Rightarrow> refresh_state" where
  "NewCacheBase maxRefreshes =
     \<lparr>rs_unlimited = (maxRefreshes < 0),
      rs_capacity = (if maxRefreshes > 0 then Some (nat maxRefreshes) else None),
      rs_tokens = 0, rs_running = 0, rs_started = 0\<rparr>"

datatype refresh_event = Launch bool | Finish

definition launchRefreshWithThrottling :: "bool \<Rightarrow> refresh_state \<Rightarrow> refresh_state" where
  "launchRefreshWithThrottling allow s =
     (if allow then s\<lparr>rs_running := rs_running s + 1, rs_started := rs_started s + 1\<rparr> else s)"

definition LaunchRefresh :: "bool \<Rightarrow> refresh_state \<Rightarrow> refresh_state" where
  "LaunchRefresh allow s =
     (if rs_unlimited s then launchRefreshWithThrottling allow s
      else case rs_capacity s of
        None \<Rightarrow> s
      | Some cap \<Rightarrow>
          (if rs_tokens s < cap
           then launchRefreshWithThrottling allow (s\<lparr>rs_tokens := rs_tokens s + 1\<rparr>) else s))"

text \<open>A running refresh ends and, when limited, takes its token out of the channel.\<close>

definition finish_refresh :: "refresh_state \<Rightarrow> refresh_state" where
  "finish_refresh s =
     (if rs_running s = 0 then s
      else s\<lparr>rs_running := rs_running s - 1,
             rs_tokens := (if rs_unlimited s then rs_tokens s else rs_tokens s - 1)\<rparr>)"

fun refresh_step :: "refresh_event \<Rightarrow> refresh_state \<Rightarrow> refresh_state" where
  "refresh_step (Launch allow) s = LaunchRefresh allow s"
| "refresh_step Finish s = finish_refresh s"

definition run_refreshes :: "refresh_event list \<Rightarrow> refresh_state \<Rightarrow> refresh_state" where
  "run_refreshes evs s = fold refresh_step evs s"

text \<open>Launches the limiter denied while a token could be taken: their tokens stay forever.\<close>

definition limited :: "nat \<Rightarrow> refresh_state \<Rightarrow> bool" where
  "limited cap s \<longleftrightarrow> \<not> rs_unlimited s \<and> rs_capacity s = Some cap
     \<and> rs_running s \<le> rs_tokens s \<and> rs_tokens s \<le> cap"

lemma refresh_step_limited:
  "limited cap s \<Longrightarrow> limited cap (refresh_step ev s)
     \<and> rs_tokens s - rs_running s \<le> rs_tokens (refresh_step ev s) - rs_running (refresh_step ev s)"
  by (cases ev) (auto simp: limited_def LaunchRefresh_def launchRefreshWithThrottling_def finish_refresh_def)

lemma run_refreshes_limited:
  "limited cap s \<Longrightarrow> limited cap (run_refreshes evs s)
     \<and> rs_tokens s - rs_running s \<le> rs_tokens (run_refreshes evs s) - rs_running (run_refreshes evs s)"
  unfolding run_refreshes_def
proof (induction evs arbitrary: s)
  case (Cons ev evs)
  then show ?case using refresh_step_limited [OF Cons.prems, of ev] by fastforce
qed simp

lemma allowed_tokens_step:
  "limited cap s \<Longrightarrow> rs_tokens s = rs_running s \<Longrightarrow> ev \<noteq> Launch False \<Longrightarrow>
   rs_tokens (refresh_step ev s) = rs_running (refresh_step ev s)"
  by (cases ev) (auto simp: limited_def LaunchRefresh_def launchRefreshWithThrottling_def finish_refresh_def)

lemma allowed_tokens_run:
  "limited cap s \<Longrightarrow> rs_tokens s = rs_running s \<Longrightarrow> Launch False \<notin> set evs \<Longrightarrow>
   rs_tokens (run_refreshes evs s) = rs_running (run_refreshes evs s)"
  unfolding run_refreshes_def
proof (induction evs arbitrary: s)
  case (Cons ev evs)
  then show ?case
    using refresh_step_limited [OF Cons.prems(1), of ev] allowed_tokens_step [OF Cons.prems(1,2), of ev]
    by auto
qed simp

lemma denied_launches:
  "limited cap s \<Longrightarrow> rs_tokens s + n = cap \<Longrightarrow>
   rs_tokens (run_refreshes (replicate n (Launch False)) s) = cap
   \<and> rs_running (run_refreshes (replicate n (Launch False)) s) = rs_running s
   \<and> rs_started (run_refreshes (replicate n (Launch False)) s) = rs_started s"
  unfolding run_refreshes_def
  by (induction n arbitrary: s)
    (auto simp: limited_def LaunchRefresh_def launchRefreshWithThrottling_def)

lemma exhausted_stays:
  "limited cap s \<Longrightarrow> rs_tokens s = cap \<Longrightarrow> rs_running s = 0 \<Longrightarrow>
   run_refreshes evs s = s"
  unfolding run_refreshes_def
proof (induction evs arbitrary: s)
  case (Cons ev evs)
  then have "refresh_step ev s = s"
    by (cases ev) (auto simp: limited_def LaunchRefresh_def finish_refresh_def)
  with Cons show ?case by simp
qed simp

lemma limited_New: "0 < n \<Longrightarrow> limited (nat n) (NewCacheBase n)"
  by (simp add: limited_def NewCacheBase_def)

text \<open>
  C38. With a limit of \<open>n\<close> concurrent refreshes never more than \<open>n\<close> run. As long as the rate
  limiter denies nothing, every token belongs to a running refresh. But a denied launch has
  taken its token already and never gives it back: after \<open>n\<close> denied launches no refresh is
  started ever again, whatever follows.
\<close>

theorem denied_refreshes_exhaust_semaphore:
  assumes "0 < n"
  shows "rs_running (run_refreshes evs (NewCacheBase n)) \<le> nat n
    \<and> (Launch False \<notin> set evs \<longrightarrow>
        rs_tokens (run_refreshes evs (NewCacheBase n)) = rs_running (run_refreshes evs (NewCacheBase n)))
    \<and> rs_started (run_refreshes (replicate (nat n) (Launch False) @ evs) (NewCacheBase n)) = 0"
proof -
  let ?s = "NewCacheBase n" and ?d = "replicate (nat n) (Launch False)"
  note lim = limited_New [OF assms]
  have "limited (nat n) (run_refreshes evs ?s)" using run_refreshes_limited [OF lim] by simp
  moreover have "rs_tokens (run_refreshes ?d ?s) = nat n \<and> rs_running (run_refreshes ?d ?s) = 0
      \<and> rs_started (run_refreshes ?d ?s) = 0"
    using denied_launches [OF lim, of "nat n"] by (simp add: NewCacheBase_def)
  moreover have "limited (nat n) (run_refreshes ?d ?s)" using run_refreshes_limited [OF lim] by simp
  ultimately have "run_refreshes evs (run_refreshes ?d ?s) = run_refreshes ?d ?s"
    by (intro exhausted_stays) auto
  moreover have "run_refreshes (?d @ evs) ?s = run_refreshes evs (run_refreshes ?d ?s)"
    by (simp add: run_refreshes_def)
  moreover have "rs_tokens ?s = rs_running ?s" by (simp add: NewCacheBase_def)
  ultimately show ?thesis
    using \<open>limited (nat n) (run_refreshes evs ?s)\<close> \<open>rs_tokens (run_refreshes ?d ?s) = nat n \<and> _\<close>
      allowed_tokens_run [OF lim, of evs]
    by (auto simp: limited_def)
qed

theorem denied_refreshes_exhaust_semaphore_witness:
  "rs_started (run_refreshes [Launch False, Launch False, Launch True, Finish, Launch True] (NewCacheBase 2)) = 0"
  using denied_refreshes_exhaust_semaphore [of 2 "[Launch True, Finish, Launch True]"]
  by (simp add: numeral_2_eq_2)

end
