(* ===== verification/Event_Registry.thy ===== *)
theory Event_Registry
  imports Heureka_Base "HOL-Library.Multiset"
begin

text \<open>
  The event registry (\<open>internal/app/event/event_registry.go\<close>) as a labelled step relation: the
  channels made so far (the last one is \<open>er.ch\<close>), the goroutines that drain replaced channels,
  and the workers. Go evaluates \<open>er.ch\<close> when a send or a \<open>select\<close> starts, so a pusher, a drain
  goroutine or a worker may still hold a channel that has been replaced since; the labels
  \<open>PushLate\<close>, \<open>DrainSend i j\<close> and the index held by a worker model this. \<open>er_pushed\<close> and
  \<open>er_taken\<close> record the events whose send succeeded and those a worker received.
\<close>

section \<open>Handlers\<close>

type_synonym ('n, 'h) handlers = "('n \<times> 'h list) list"

definition handlers_for :: "('n, 'h) handlers \<Rightarrow> 'n \<Rightarrow> 'h list" where
  "handlers_for hs n = (case map_of hs n of None \<Rightarrow> [] | Some l \<Rightarrow> l)"

definition RegisterEventHandler :: "'n \<Rightarrow> 'h \<Rightarrow> ('n, 'h) handlers \<Rightarrow> ('n, 'h) handlers" where
  "RegisterEventHandler n h hs = (n, handlers_for hs n @ [h]) # hs"

text \<open>The calls made for an event, in order.\<close>

definition processEvent :: "('n, 'h) handlers \<Rightarrow> ('e \<Rightarrow> 'n) \<Rightarrow> 'e \<Rightarrow> ('h \<times> 'e) list" where
  "processEvent hs name e = map (\<lambda>h. (h, e)) (handlers_for hs (name e))"

section \<open>The registry\<close>

record 'e chan =
  c_cap :: nat
  c_queue :: "'e list"
  c_closed :: bool

datatype worker = WLoop | WSelect nat | WDone

record 'e registry =
  er_chans :: "'e chan list"
  er_drains :: "'e option list"
  er_workers :: "worker list"
  er_cancelled :: bool
  er_panicked :: bool
  er_pushed :: "'e list"
  er_taken :: "'e list"

definition make_chan :: "nat \<Rightarrow> 'e list \<Rightarrow> 'e chan" where
  "make_chan n q = \<lparr>c_cap = n, c_queue = q, c_closed = False\<rparr>"

definition has_room :: "'e chan \<Rightarrow> bool" where
  "has_room c \<longleftrightarrow> \<not> c_closed c \<and> length (c_queue c) < c_cap c"

definition send :: "'e \<Rightarrow> 'e chan \<Rightarrow> 'e chan" where
  "send e c = c\<lparr>c_queue := c_queue c @ [e]\<rparr>"

definition cur :: "'e registry \<Rightarrow> nat" where
  "cur s = length (er_chans s) - 1"

definition chan_at :: "'e registry \<Rightarrow> nat \<Rightarrow> 'e chan" where
  "chan_at s i = er_chans s ! i"

definition put_chan :: "nat \<Rightarrow> 'e chan \<Rightarrow> 'e registry \<Rightarrow> 'e registry" where
  "put_chan i c s = s\<lparr>er_chans := (er_chans s)[i := c]\<rparr>"

definition initialBufferSize :: nat where "initialBufferSize = 1024"
definition workerCount :: nat where "workerCount = 4"

definition NewEventRegistry :: "'e registry" where
  "NewEventRegistry = \<lparr>er_chans = [make_chan initialBufferSize []], er_drains = [],
     er_workers = [], er_cancelled = False, er_panicked = False, er_pushed = [], er_taken = []\<rparr>"

definition Run :: "'e registry \<Rightarrow> 'e registry" where
  "Run s = s\<lparr>er_workers := er_workers s @ replicate workerCount WLoop\<rparr>"

definition newCap :: "'e chan \<Rightarrow> nat" where
  "newCap c = max (c_cap c * 2) 1024"

text \<open>
  \<open>PushEvent\<close>: the send on the current channel succeeds, or the channel is full and is replaced by
  a larger one that holds the event first. A send on a closed channel panics.
\<close>

datatype 'e label =
    Push 'e | PushLate nat 'e | DrainTake nat | DrainSend nat nat
  | Select nat | Take nat | Cancel | Exit nat

inductive reg_step :: "'e registry \<Rightarrow> 'e label \<Rightarrow> 'e registry \<Rightarrow> bool" where
  push_room: "has_room (chan_at s (cur s)) \<Longrightarrow>
    reg_step s (Push e) ((put_chan (cur s) (send e (chan_at s (cur s))) s)\<lparr>er_pushed := er_pushed s @ [e]\<rparr>)"
| push_grow: "\<not> c_closed (chan_at s (cur s)) \<Longrightarrow> c_cap (chan_at s (cur s)) \<le> length (c_queue (chan_at s (cur s))) \<Longrightarrow>
    reg_step s (Push e) (s\<lparr>er_chans := er_chans s @ [make_chan (newCap (chan_at s (cur s))) [e]],
      er_drains := er_drains s @ [None], er_pushed := er_pushed s @ [e]\<rparr>)"
| push_closed: "c_closed (chan_at s (cur s)) \<Longrightarrow> reg_step s (Push e) (s\<lparr>er_panicked := True\<rparr>)"
| push_late: "i < cur s \<Longrightarrow> has_room (chan_at s i) \<Longrightarrow>
    reg_step s (PushLate i e) ((put_chan i (send e (chan_at s i)) s)\<lparr>er_pushed := er_pushed s @ [e]\<rparr>)"
| drain_take: "i < length (er_drains s) \<Longrightarrow> er_drains s ! i = None \<Longrightarrow> c_queue (chan_at s i) = e # q \<Longrightarrow>
    reg_step s (DrainTake i)
      ((put_chan i ((chan_at s i)\<lparr>c_queue := q\<rparr>) s)\<lparr>er_drains := (er_drains s)[i := Some e]\<rparr>)"
| drain_send: "i < length (er_drains s) \<Longrightarrow> er_drains s ! i = Some e \<Longrightarrow> i < j \<Longrightarrow> j \<le> cur s \<Longrightarrow>
    has_room (chan_at s j) \<Longrightarrow>
    reg_step s (DrainSend i j)
      ((put_chan j (send e (chan_at s j)) s)\<lparr>er_drains := (er_drains s)[i := None]\<rparr>)"
| drain_closed: "i < length (er_drains s) \<Longrightarrow> er_drains s ! i = Some e \<Longrightarrow> i < j \<Longrightarrow> j \<le> cur s \<Longrightarrow>
    c_closed (chan_at s j) \<Longrightarrow> reg_step s (DrainSend i j) (s\<lparr>er_panicked := True\<rparr>)"
| worker_select: "w < length (er_workers s) \<Longrightarrow> er_workers s ! w = WLoop \<Longrightarrow>
    reg_step s (Select w) (s\<lparr>er_workers := (er_workers s)[w := WSelect (cur s)]\<rparr>)"
| worker_take: "w < length (er_workers s) \<Longrightarrow> er_workers s ! w = WSelect i \<Longrightarrow>
    c_queue (chan_at s i) = e # q \<Longrightarrow>
    reg_step s (Take w)
      ((put_chan i ((chan_at s i)\<lparr>c_queue := q\<rparr>) s)\<lparr>er_workers := (er_workers s)[w := WLoop],
        er_taken := er_taken s @ [e]\<rparr>)"
| cancel: "\<not> er_cancelled s \<Longrightarrow>
    reg_step s Cancel ((put_chan (cur s) ((chan_at s (cur s))\<lparr>c_closed := True\<rparr>) s)\<lparr>er_cancelled := True\<rparr>)"
| worker_exit: "w < length (er_workers s) \<Longrightarrow> er_cancelled s \<Longrightarrow>
    reg_step s (Exit w) (s\<lparr>er_workers := (er_workers s)[w := WDone]\<rparr>)"

inductive_cases reg_step_PushE: "reg_step s (Push e) s'"
inductive_cases reg_step_TakeE: "reg_step s (Take w) s'"

text \<open>Runs of the registry with the labels they take.\<close>

inductive run :: "'e registry \<Rightarrow> 'e label list \<Rightarrow> 'e registry \<Rightarrow> bool" where
  run_Nil: "run s [] s"
| run_snoc: "run s ls s' \<Longrightarrow> reg_step s' l s'' \<Longrightarrow> run s (ls @ [l]) s''"

lemma run_append: "run s' ks s'' \<Longrightarrow> run s ls s' \<Longrightarrow> run s (ls @ ks) s''"
proof (induction rule: run.induct)
  case (run_snoc t ks t' l t'')
  from run.run_snoc [OF run_snoc.IH [OF run_snoc.prems] run_snoc.hyps(2)] show ?case by simp
qed simp

lemma run_single: "reg_step s l s' \<Longrightarrow> run s [l] s'"
  using run_snoc [OF run_Nil] by force

section \<open>Invariants\<close>

definition well_formed :: "'e registry \<Rightarrow> bool" where
  "well_formed s \<longleftrightarrow> length (er_chans s) = Suc (length (er_drains s))
     \<and> (\<forall>w < length (er_workers s). \<forall>i. er_workers s ! w = WSelect i \<longrightarrow> i \<le> cur s)
     \<and> (\<forall>k < length (er_chans s). length (c_queue (er_chans s ! k)) \<le> c_cap (er_chans s ! k))
     \<and> (\<forall>k < length (er_chans s). c_cap (er_chans s ! k) = 1024 * 2 ^ k)"

text \<open>The events somewhere in the registry: queued, in the hand of a drain goroutine, received.\<close>

definition queued :: "'e registry \<Rightarrow> 'e multiset" where
  "queued s = (\<Sum>c\<leftarrow>er_chans s. mset (c_queue c))"

definition held :: "'e registry \<Rightarrow> 'e multiset" where
  "held s = (\<Sum>d\<leftarrow>er_drains s. case d of None \<Rightarrow> {#} | Some e \<Rightarrow> {#e#})"

definition conserved :: "'e registry \<Rightarrow> bool" where
  "conserved s \<longleftrightarrow> mset (er_pushed s) = mset (er_taken s) + queued s + held s"

lemma sum_update_mset:
  fixes f :: "'a \<Rightarrow> 'b multiset"
  assumes "i < length xs"
  shows "(\<Sum>x\<leftarrow>xs[i := y]. f x) + f (xs ! i) = (\<Sum>x\<leftarrow>xs. f x) + f y"
  using assms
proof (induction xs arbitrary: i)
  case (Cons a xs)
  then show ?case by (cases i) (auto simp: algebra_simps)
qed simp

lemma queued_put:
  assumes "i < length (er_chans s)"
  shows "queued (put_chan i c s) + mset (c_queue (chan_at s i)) = queued s + mset (c_queue c)"
  using sum_update_mset [OF assms, of "\<lambda>c. mset (c_queue c)" c]
  by (simp add: queued_def put_chan_def chan_at_def)

lemma held_update:
  assumes "i < length (er_drains s)"
  shows "(\<Sum>d\<leftarrow>(er_drains s)[i := y]. case d of None \<Rightarrow> {#} | Some e \<Rightarrow> {#e#})
      + (case er_drains s ! i of None \<Rightarrow> {#} | Some e \<Rightarrow> {#e#})
    = held s + (case y of None \<Rightarrow> {#} | Some e \<Rightarrow> {#e#})"
  using sum_update_mset [OF assms] by (simp add: held_def)

lemma put_chan_other [simp]:
  "er_drains (put_chan i c s) = er_drains s" "er_workers (put_chan i c s) = er_workers s"
  "er_pushed (put_chan i c s) = er_pushed s" "er_taken (put_chan i c s) = er_taken s"
  "length (er_chans (put_chan i c s)) = length (er_chans s)" "cur (put_chan i c s) = cur s"
  by (simp_all add: put_chan_def cur_def)

lemma cur_less: "well_formed s \<Longrightarrow> i \<le> cur s \<longleftrightarrow> i < length (er_chans s)"
  by (auto simp: well_formed_def cur_def)

lemma queued_update [simp]:
  "queued (s\<lparr>er_pushed := p\<rparr>) = queued s" "queued (s\<lparr>er_drains := d\<rparr>) = queued s"
  "queued (s\<lparr>er_workers := w\<rparr>) = queued s" "queued (s\<lparr>er_taken := t\<rparr>) = queued s"
  "queued (s\<lparr>er_panicked := b\<rparr>) = queued s" "queued (s\<lparr>er_cancelled := b\<rparr>) = queued s"
  by (simp_all add: queued_def)

lemma held_update_simps [simp]:
  "held (s\<lparr>er_pushed := p\<rparr>) = held s" "held (s\<lparr>er_workers := w\<rparr>) = held s"
  "held (s\<lparr>er_taken := t\<rparr>) = held s" "held (s\<lparr>er_panicked := b\<rparr>) = held s"
  "held (s\<lparr>er_cancelled := b\<rparr>) = held s" "held (put_chan i c s) = held s"
  by (simp_all add: held_def)

lemma queued_put_eq:
  assumes "i < length (er_chans s)" and "mset (c_queue c) = mset (c_queue (chan_at s i)) + m"
  shows "queued (put_chan i c s) = queued s + m"
proof -
  have "queued (put_chan i c s) + mset (c_queue (chan_at s i)) = queued s + m + mset (c_queue (chan_at s i))"
    using queued_put [OF assms(1), of c] assms(2) by (simp add: ac_simps)
  then show ?thesis by simp
qed

lemma queued_put_less:
  assumes "i < length (er_chans s)" and "mset (c_queue (chan_at s i)) = mset (c_queue c) + m"
  shows "queued s = queued (put_chan i c s) + m"
proof -
  have "queued s + mset (c_queue c) = queued (put_chan i c s) + m + mset (c_queue c)"
    using queued_put [OF assms(1), of c] assms(2) by (simp add: ac_simps)
  then show ?thesis by simp
qed

lemma step_conserved:
  "reg_step s l s' \<Longrightarrow> well_formed s \<Longrightarrow> conserved s \<Longrightarrow> conserved s'"
proof (induction rule: reg_step.induct)
  case (push_room s e)
  then have "queued (put_chan (cur s) (send e (chan_at s (cur s))) s) = queued s + {#e#}"
    by (intro queued_put_eq) (auto simp: send_def cur_less [symmetric])
  with push_room show ?case by (simp add: conserved_def)
next
  case (push_grow s e)
  then show ?case by (simp add: conserved_def queued_def held_def make_chan_def)
next
  case (push_late i s e)
  then have "queued (put_chan i (send e (chan_at s i)) s) = queued s + {#e#}"
    by (intro queued_put_eq) (auto simp: send_def cur_less [symmetric])
  with push_late show ?case by (simp add: conserved_def)
next
  case (drain_take i s e q)
  then have i: "i < length (er_chans s)" by (simp add: well_formed_def)
  have "queued s = queued (put_chan i ((chan_at s i)\<lparr>c_queue := q\<rparr>) s) + {#e#}"
    using drain_take by (intro queued_put_less [OF i]) simp
  moreover have "held (s\<lparr>er_drains := (er_drains s)[i := Some e]\<rparr>) = held s + {#e#}"
    using held_update [OF drain_take(1), of "Some e"] drain_take(2) by (simp add: held_def)
  ultimately show ?case using drain_take by (simp add: conserved_def held_def)
next
  case (drain_send i s e j)
  then have "queued (put_chan j (send e (chan_at s j)) s) = queued s + {#e#}"
    by (intro queued_put_eq) (auto simp: send_def cur_less [symmetric])
  moreover have "held s = held (s\<lparr>er_drains := (er_drains s)[i := None]\<rparr>) + {#e#}"
    using held_update [OF drain_send(1), of None] drain_send(2) by (simp add: held_def)
  ultimately show ?case using drain_send by (simp add: conserved_def held_def)
next
  case (worker_take w s i e q)
  then have i: "i < length (er_chans s)" using cur_less [of s i] by (auto simp: well_formed_def)
  have "queued s = queued (put_chan i ((chan_at s i)\<lparr>c_queue := q\<rparr>) s) + {#e#}"
    using worker_take by (intro queued_put_less [OF i]) simp
  then show ?case using worker_take by (simp add: conserved_def)
next
  case (cancel s)
  have "queued (put_chan (cur s) ((chan_at s (cur s))\<lparr>c_closed := True\<rparr>) s) = queued s + {#}"
    using cancel by (intro queued_put_eq) (auto simp: cur_less [symmetric])
  with cancel show ?case by (simp add: conserved_def)
qed (auto simp: conserved_def)

lemma put_chan_nth:
  "i < length (er_chans s) \<Longrightarrow> k < length (er_chans s) \<Longrightarrow>
   er_chans (put_chan i c s) ! k = (if k = i then c else er_chans s ! k)"
  by (simp add: put_chan_def)

lemma well_formed_put:
  assumes "well_formed s" and "i < length (er_chans s)" and "c_cap c = c_cap (chan_at s i)"
    and "length (c_queue c) \<le> c_cap c"
  shows "well_formed (put_chan i c s)"
  using assms by (auto simp: well_formed_def put_chan_nth chan_at_def)

lemma well_formed_simps [simp]:
  "well_formed (s\<lparr>er_pushed := p\<rparr>) = well_formed s" "well_formed (s\<lparr>er_taken := t\<rparr>) = well_formed s"
  "well_formed (s\<lparr>er_panicked := b\<rparr>) = well_formed s" "well_formed (s\<lparr>er_cancelled := b\<rparr>) = well_formed s"
  by (simp_all add: well_formed_def cur_def)

lemma well_formed_drains:
  "well_formed s \<Longrightarrow> well_formed (s\<lparr>er_drains := (er_drains s)[i := d]\<rparr>)"
  by (auto simp: well_formed_def cur_def)

lemma well_formed_workers:
  assumes "well_formed s" and "\<And>i. v = WSelect i \<Longrightarrow> i \<le> cur s"
  shows "well_formed (s\<lparr>er_workers := (er_workers s)[w := v]\<rparr>)"
  using assms
  by (cases "w < length (er_workers s)")
    (auto simp: well_formed_def cur_def nth_list_update split: if_splits)

lemma well_formed_queue:
  "well_formed s \<Longrightarrow> i < length (er_chans s) \<Longrightarrow> length (c_queue (chan_at s i)) \<le> c_cap (chan_at s i)"
  unfolding well_formed_def chan_at_def by blast

lemma well_formed_grow:
  assumes "well_formed s" and "m = 1024 * 2 ^ length (er_chans s)"
  shows "well_formed (s\<lparr>er_chans := er_chans s @ [make_chan m [e]],
    er_drains := er_drains s @ [None], er_pushed := p\<rparr>)"
proof -
  have "i \<le> length (er_chans s)" if "i \<le> length (er_chans s) - 1" for i using that by simp
  moreover have "1 \<le> m" using assms(2) by simp
  ultimately show ?thesis
    using assms by (auto simp: well_formed_def cur_def make_chan_def nth_append less_Suc_eq)
qed

lemma step_well_formed: "reg_step s l s' \<Longrightarrow> well_formed s \<Longrightarrow> well_formed s'"
proof (induction rule: reg_step.induct)
  case (push_room s e)
  then have "well_formed (put_chan (cur s) (send e (chan_at s (cur s))) s)"
    by (intro well_formed_put) (auto simp: has_room_def send_def cur_less [symmetric])
  then show ?case by simp
next
  case (push_grow s e)
  let ?c = "chan_at s (cur s)" and ?n = "length (er_chans s)"
  have n: "?n = Suc (cur s)" using push_grow by (simp add: well_formed_def cur_def)
  have "newCap ?c = 1024 * 2 ^ ?n"
    using push_grow n by (simp add: newCap_def well_formed_def chan_at_def)
  then show ?case using well_formed_grow [OF push_grow.prems] by simp
next
  case (push_late i s e)
  then have "well_formed (put_chan i (send e (chan_at s i)) s)"
    by (intro well_formed_put) (auto simp: has_room_def send_def cur_less [symmetric])
  then show ?case by simp
next
  case (drain_take i s e q)
  then have i: "i < length (er_chans s)" by (simp add: well_formed_def)
  then have "well_formed (put_chan i ((chan_at s i)\<lparr>c_queue := q\<rparr>) s)"
    using drain_take well_formed_queue [of s i] by (intro well_formed_put) auto
  from well_formed_drains [OF this, of i "Some e"] show ?case by simp
next
  case (drain_send i s e j)
  then have "well_formed (put_chan j (send e (chan_at s j)) s)"
    by (intro well_formed_put) (auto simp: has_room_def send_def cur_less [symmetric])
  from well_formed_drains [OF this, of i None] show ?case by simp
next
  case (worker_select w s)
  then show ?case by (intro well_formed_workers) auto
next
  case (worker_take w s i e q)
  then have i: "i < length (er_chans s)" using cur_less [of s i] by (auto simp: well_formed_def)
  then have "well_formed (put_chan i ((chan_at s i)\<lparr>c_queue := q\<rparr>) s)"
    using worker_take well_formed_queue [of s i] by (intro well_formed_put) auto
  from well_formed_workers [OF this, of WLoop w] show ?case by simp
next
  case (cancel s)
  then have "well_formed (put_chan (cur s) ((chan_at s (cur s))\<lparr>c_closed := True\<rparr>) s)"
    using well_formed_queue [of s "cur s"] by (intro well_formed_put) (auto simp: cur_less [symmetric])
  then show ?case by simp
next
  case (worker_exit w s)
  then show ?case by (intro well_formed_workers) auto
qed auto

lemma run_invariant:
  assumes "run s ls s'" and "well_formed s" and "conserved s"
  shows "well_formed s' \<and> conserved s'"
  using assms by (induction rule: run.induct) (auto intro: step_well_formed step_conserved)

lemma initial_invariant: "well_formed (Run NewEventRegistry)" "conserved (Run NewEventRegistry)"
  by (auto simp: well_formed_def conserved_def Run_def NewEventRegistry_def make_chan_def
      initialBufferSize_def cur_def queued_def held_def)

lemma not_closed_step:
  "reg_step s l s' \<Longrightarrow> l \<noteq> Cancel \<Longrightarrow> well_formed s \<Longrightarrow> \<forall>c \<in> set (er_chans s). \<not> c_closed c \<Longrightarrow>
   \<forall>c \<in> set (er_chans s'). \<not> c_closed c"
proof (induction rule: reg_step.induct)
  case (drain_take i s e q)
  then show ?case
    by (auto simp: put_chan_def chan_at_def well_formed_def dest!: set_update_subset_insert [THEN subsetD])
next
  case (worker_take w s i e q)
  then have "i < length (er_chans s)" using cur_less [of s i] by (auto simp: well_formed_def)
  with worker_take show ?case
    by (auto simp: put_chan_def chan_at_def dest!: set_update_subset_insert [THEN subsetD])
qed (auto simp: put_chan_def send_def has_room_def chan_at_def make_chan_def
    dest!: set_update_subset_insert [THEN subsetD])

lemma run_not_closed:
  assumes "run s ls s'" and "Cancel \<notin> set ls" and "well_formed s"
    and "\<forall>c \<in> set (er_chans s). \<not> c_closed c"
  shows "well_formed s' \<and> (\<forall>c \<in> set (er_chans s'). \<not> c_closed c)"
  using assms
proof (induction rule: run.induct)
  case (run_snoc s ls s' l s'')
  then show ?case using not_closed_step [OF run_snoc.hyps(2)] step_well_formed [OF run_snoc.hyps(2)] by auto
qed simp

section \<open>Properties\<close>

text \<open>
  C29. Events are neither lost nor duplicated: in every run of the registry, the events whose
  push succeeded are exactly the ones a worker received, the ones queued in the current or a
  replaced channel, and the ones in the hand of a drain goroutine. The k-th channel has room
  for 1024 times 2 to the k events and never holds more.
\<close>

theorem events_conserved:
  assumes "run (Run NewEventRegistry) ls s"
  shows "mset (er_pushed s) = mset (er_taken s) + queued s + held s
    \<and> (\<forall>k < length (er_chans s). c_cap (er_chans s ! k) = 1024 * 2 ^ k
         \<and> length (c_queue (er_chans s ! k)) \<le> c_cap (er_chans s ! k))"
  using run_invariant [OF assms initial_invariant] by (auto simp: conserved_def well_formed_def)

text \<open>
  Until the registry is cancelled a push always succeeds at once: in every state reached
  without a cancellation it records the event and does not panic. After the cancellation every
  push panics, because the current channel is closed.
\<close>

theorem PushEvent_accepts:
  assumes "run (Run NewEventRegistry) ls s" and "Cancel \<notin> set ls"
  shows "(\<exists>s'. reg_step s (Push e) s') \<and> (\<forall>s'. reg_step s (Push e) s' \<longrightarrow>
      er_pushed s' = er_pushed s @ [e] \<and> er_panicked s' = er_panicked s)
    \<and> (\<forall>t s'. reg_step s Cancel t \<and> reg_step t (Push e) s' \<longrightarrow> er_panicked s' \<and> er_pushed s' = er_pushed s)"
proof -
  have "\<forall>c \<in> set (er_chans (Run NewEventRegistry)). \<not> c_closed c"
    by (simp add: Run_def NewEventRegistry_def make_chan_def)
  then have wf: "well_formed s" and opn: "\<forall>c \<in> set (er_chans s). \<not> c_closed c"
    using run_not_closed [OF assms initial_invariant(1)] by auto
  then have cur: "cur s < length (er_chans s)" "\<not> c_closed (chan_at s (cur s))"
    using cur_less [OF wf, of "cur s"] opn by (auto simp: chan_at_def)
  have "\<exists>s'. reg_step s (Push e) s'"
  proof (cases "has_room (chan_at s (cur s))")
    case True
    show ?thesis by (rule exI, rule push_room [OF True])
  next
    case False
    then have "c_cap (chan_at s (cur s)) \<le> length (c_queue (chan_at s (cur s)))"
      using cur(2) by (simp add: has_room_def)
    then show ?thesis by (intro exI) (rule push_grow [OF cur(2)])
  qed
  moreover have "er_pushed s' = er_pushed s @ [e] \<and> er_panicked s' = er_panicked s"
    if "reg_step s (Push e) s'" for s'
    using that cur(2) by (elim reg_step_PushE) (auto simp: put_chan_def)
  moreover have "er_panicked s' \<and> er_pushed s' = er_pushed s"
    if "reg_step s Cancel t" "reg_step t (Push e) s'" for t s'
  proof -
    from that(1) have t: "t = (put_chan (cur s) ((chan_at s (cur s))\<lparr>c_closed := True\<rparr>) s)\<lparr>er_cancelled := True\<rparr>"
      by (cases rule: reg_step.cases) auto
    then have "c_closed (chan_at t (cur t))" and "er_pushed t = er_pushed s"
      using cur(1) by (auto simp: chan_at_def put_chan_def cur_def)
    with that(2) show ?thesis by (elim reg_step_PushE) (auto simp: has_room_def)
  qed
  ultimately show ?thesis by blast
qed

theorem PushEvent_accepts_witness:
  "\<exists>s'. reg_step (Run NewEventRegistry) (Push (7::nat)) s'"
  using PushEvent_accepts [OF run_Nil, where e = "7::nat"] by simp

theorem events_conserved_witness:
  "\<exists>s. reg_step (Run NewEventRegistry) (Push (7::nat)) s
     \<and> mset (er_pushed s) = mset (er_taken s) + queued s + held s \<and> er_pushed s = [7]"
proof -
  let ?s = "Run NewEventRegistry :: nat registry"
  have room: "has_room (chan_at ?s (cur ?s))"
    by (simp add: has_room_def chan_at_def cur_def Run_def NewEventRegistry_def make_chan_def initialBufferSize_def)
  from push_room [OF room, of 7] events_conserved [OF run_single [OF push_room [OF room, of 7]]]
  show ?thesis by (auto simp: Run_def NewEventRegistry_def)
qed

lemma handlers_for_fold:
  "handlers_for (fold (\<lambda>(n, h). RegisterEventHandler n h) regs hs) n =
   handlers_for hs n @ map snd (filter (\<lambda>(m, h). m = n) regs)"
proof (induction regs arbitrary: hs)
  case (Cons r regs)
  obtain m h where r: "r = (m, h)" by (cases r)
  have "handlers_for (RegisterEventHandler m h hs) n =
      handlers_for hs n @ (if m = n then [h] else [])"
    by (auto simp: handlers_for_def RegisterEventHandler_def)
  with r Cons show ?case by simp
qed simp

text \<open>
  An event is handled by the handlers registered for its name, each once, in the order of
  their registration, and by no other handler.
\<close>

theorem handlers_run_in_registration_order:
  "processEvent (fold (\<lambda>(n, h). RegisterEventHandler n h) regs []) name e =
   map (\<lambda>(n, h). (h, e)) (filter (\<lambda>(n, h). n = name e) regs)"
  by (simp add: processEvent_def handlers_for_fold case_prod_beta comp_def)
    (simp add: handlers_for_def)

section \<open>Workers on a replaced channel\<close>

text \<open>
  A schedule in which the channel is replaced after the workers have read \<open>er.ch\<close> but before
  they receive from it, and the drain goroutine empties the old channel before they do.
\<close>

definition race_state :: "'e \<Rightarrow> nat \<Rightarrow> 'e registry" where
  "race_state e k = \<lparr>er_chans = [make_chan initialBufferSize (replicate (initialBufferSize - k) e),
       make_chan (newCap (make_chan initialBufferSize [] :: 'e chan)) (e # replicate k e)],
     er_drains = [None], er_workers = replicate workerCount (WSelect 0), er_cancelled = False,
     er_panicked = False, er_pushed = replicate (Suc initialBufferSize) e, er_taken = []\<rparr>"

definition filled_state :: "'e \<Rightarrow> worker list \<Rightarrow> nat \<Rightarrow> 'e registry" where
  "filled_state e ws n = \<lparr>er_chans = [make_chan initialBufferSize (replicate n e)], er_drains = [],
     er_workers = ws, er_cancelled = False, er_panicked = False, er_pushed = replicate n e, er_taken = []\<rparr>"

lemma fill_channel:
  "n \<le> initialBufferSize \<Longrightarrow> run (Run NewEventRegistry) (replicate n (Push e)) (filled_state e (replicate workerCount WLoop) n)"
proof (induction n)
  case 0
  have "Run NewEventRegistry = filled_state e (replicate workerCount WLoop) 0"
    by (simp add: Run_def NewEventRegistry_def filled_state_def)
  then show ?case by (simp add: run_Nil)
next
  case (Suc n)
  let ?s = "filled_state e (replicate workerCount WLoop) n"
  have room: "has_room (chan_at ?s (cur ?s))"
    using Suc.prems by (simp add: has_room_def chan_at_def cur_def filled_state_def make_chan_def)
  have "reg_step ?s (Push e) (filled_state e (replicate workerCount WLoop) (Suc n))"
    using push_room [OF room, of e]
    by (simp add: put_chan_def chan_at_def cur_def filled_state_def make_chan_def send_def
        replicate_append_same)
  with Suc have "run (Run NewEventRegistry) (replicate n (Push e) @ [Push e])
      (filled_state e (replicate workerCount WLoop) (Suc n))" by (auto intro: run_snoc)
  then show ?case by (simp add: replicate_append_same)
qed

lemma select_all:
  "run (filled_state e (replicate workerCount WLoop) n) [Select 0, Select 1, Select 2, Select 3]
     (filled_state e (replicate workerCount (WSelect 0)) n)"
proof -
  have step: "reg_step (filled_state e ws n) (Select w) (filled_state e (ws[w := WSelect 0]) n)"
    if "w < length ws" "ws ! w = WLoop" for ws w
    using worker_select [of w "filled_state e ws n"] that
    by (simp add: filled_state_def cur_def)
  have ws: "replicate workerCount v = [v, v, v, v]" for v :: worker
    by (simp add: workerCount_def numeral_eq_Suc)
  let ?st = "filled_state e"
  have "reg_step (?st [WLoop, WLoop, WLoop, WLoop] n) (Select 0) (?st [WSelect 0, WLoop, WLoop, WLoop] n)"
    using step [of 0 "[WLoop, WLoop, WLoop, WLoop]"] by simp
  note run1 = run_single [OF this]
  have "reg_step (?st [WSelect 0, WLoop, WLoop, WLoop] n) (Select 1) (?st [WSelect 0, WSelect 0, WLoop, WLoop] n)"
    using step [of 1 "[WSelect 0, WLoop, WLoop, WLoop]"] by simp
  note run2 = run_snoc [OF run1 this]
  have "reg_step (?st [WSelect 0, WSelect 0, WLoop, WLoop] n) (Select 2) (?st [WSelect 0, WSelect 0, WSelect 0, WLoop] n)"
    using step [of 2 "[WSelect 0, WSelect 0, WLoop, WLoop]"] by (simp add: numeral_eq_Suc)
  note run3 = run_snoc [OF run2 this]
  have "reg_step (?st [WSelect 0, WSelect 0, WSelect 0, WLoop] n) (Select 3) (?st [WSelect 0, WSelect 0, WSelect 0, WSelect 0] n)"
    using step [of 3 "[WSelect 0, WSelect 0, WSelect 0, WLoop]"] by (simp add: numeral_eq_Suc)
  from run_snoc [OF run3 this] show ?thesis by (simp add: ws)
qed

lemma grow_channel: "reg_step (filled_state e (replicate workerCount (WSelect 0)) initialBufferSize) (Push e) (race_state e 0)"
proof -
  let ?s = "filled_state e (replicate workerCount (WSelect 0)) initialBufferSize"
  have c: "chan_at ?s (cur ?s) = make_chan initialBufferSize (replicate initialBufferSize e)"
    by (simp add: chan_at_def cur_def filled_state_def)
  have "reg_step ?s (Push e) (?s\<lparr>er_chans := er_chans ?s @ [make_chan (newCap (chan_at ?s (cur ?s))) [e]],
      er_drains := er_drains ?s @ [None], er_pushed := er_pushed ?s @ [e]\<rparr>)"
    by (rule push_grow) (simp_all add: c make_chan_def)
  then show ?thesis
    by (simp add: c) (simp add: filled_state_def race_state_def newCap_def make_chan_def replicate_append_same)
qed

lemma drain_one:
  assumes "k < initialBufferSize"
  shows "run (race_state e k) [DrainTake 0, DrainSend 0 1] (race_state e (Suc k))"
proof -
  let ?s = "race_state e k"
  obtain m where m: "initialBufferSize - k = Suc m" using assms by (cases "initialBufferSize - k") auto
  have m': "initialBufferSize - Suc k = m" using m by simp
  let ?q = "(chan_at ?s 0)\<lparr>c_queue := replicate m e\<rparr>"
  let ?t = "(put_chan 0 ?q ?s)\<lparr>er_drains := [Some e]\<rparr>"
  have "reg_step ?s (DrainTake 0) ((put_chan 0 ?q ?s)\<lparr>er_drains := (er_drains ?s)[0 := Some e]\<rparr>)"
    by (rule drain_take) (simp_all add: race_state_def chan_at_def make_chan_def m)
  then have 1: "reg_step ?s (DrainTake 0) ?t" by (simp add: race_state_def)
  have one: "chan_at ?t 1 = make_chan (newCap (make_chan initialBufferSize [] :: 'a chan)) (e # replicate k e)"
    by (simp add: race_state_def chan_at_def put_chan_def)
  have "reg_step ?t (DrainSend 0 1)
      ((put_chan 1 (send e (chan_at ?t 1)) ?t)\<lparr>er_drains := (er_drains ?t)[0 := None]\<rparr>)"
  proof (rule drain_send)
    show "has_room (chan_at ?t 1)"
      using assms unfolding one by (simp add: has_room_def make_chan_def newCap_def)
    show "1 \<le> cur ?t" by (simp add: race_state_def cur_def put_chan_def)
  qed simp_all
  moreover have "(put_chan 1 (send e (chan_at ?t 1)) ?t)\<lparr>er_drains := (er_drains ?t)[0 := None]\<rparr> = race_state e (Suc k)"
    unfolding one
    by (simp add: race_state_def put_chan_def chan_at_def send_def make_chan_def m' replicate_append_same)
  ultimately have "reg_step ?t (DrainSend 0 1) (race_state e (Suc k))" by (simp only:)
  from run_snoc [OF run_single [OF 1] this] show ?thesis by simp
qed

lemma drain_all:
  "k \<le> initialBufferSize \<Longrightarrow>
   run (race_state e 0) (concat (replicate k [DrainTake 0, DrainSend 0 1])) (race_state e k)"
proof (induction k)
  case (Suc k)
  then have "run (race_state e 0) (concat (replicate k [DrainTake 0, DrainSend 0 1]) @ [DrainTake 0, DrainSend 0 1])
      (race_state e (Suc k))"
    by (intro run_append [OF drain_one]) auto
  then show ?case by (simp flip: replicate_append_same)
qed (simp add: run_Nil)

text \<open>All workers wait for an empty channel that has been replaced.\<close>

definition stranded :: "'e registry \<Rightarrow> bool" where
  "stranded s \<longleftrightarrow> (\<forall>w < length (er_workers s). er_workers s ! w = WSelect 0) \<and> 0 < cur s
     \<and> c_queue (chan_at s 0) = [] \<and> \<not> er_cancelled s \<and> er_taken s = []"

lemma stranded_step:
  assumes "reg_step s l s'" and "stranded s" and "l \<noteq> Cancel" and "\<forall>e. l \<noteq> PushLate 0 e"
  shows "stranded s'"
  using assms
proof (induction rule: reg_step.induct)
  case (push_room s e)
  then show ?case by (simp add: stranded_def chan_at_def put_chan_def cur_def)
next
  case (push_grow s e)
  then have "0 < length (er_chans s)" by (auto simp: stranded_def cur_def)
  then have "er_chans s \<noteq> []" by auto
  with push_grow show ?case by (auto simp: stranded_def chan_at_def cur_def nth_append)
next
  case (drain_take i s e q)
  then show ?case by (cases i) (auto simp: stranded_def chan_at_def put_chan_def cur_def)
qed (auto simp: stranded_def chan_at_def put_chan_def cur_def)

lemma stranded_run:
  assumes "run s ls s'" and "stranded s" and "Cancel \<notin> set ls" and "\<forall>e. PushLate 0 e \<notin> set ls"
  shows "stranded s'"
  using assms
proof (induction rule: run.induct)
  case (run_snoc s ls s' l s'')
  then show ?case using stranded_step [OF run_snoc.hyps(2)] by auto
qed simp

text \<open>
  C40. Replacing a full channel can strand the workers: there is a run without cancellation
  after which all workers wait on the first, replaced and empty channel while every pushed
  event is queued in the current one, and from then on no worker ever receives an event,
  whatever is pushed or forwarded, unless a sender still holds the old channel.
\<close>

theorem replaced_channel_strands_workers:
  "\<exists>ls s. run (Run NewEventRegistry) ls s \<and> Cancel \<notin> set ls \<and> er_panicked s = False
    \<and> c_queue (chan_at s (cur s)) = replicate (Suc initialBufferSize) e \<and> er_pushed s = replicate (Suc initialBufferSize) e
    \<and> (\<forall>ks s'. run s ks s' \<and> Cancel \<notin> set ks \<and> (\<forall>x. PushLate 0 x \<notin> set ks) \<longrightarrow> er_taken s' = [])"
proof -
  let ?sel = "[Select 0, Select 1, Select 2, Select 3]"
  let ?dr = "concat (replicate initialBufferSize [DrainTake 0, DrainSend 0 1])"
  let ?ls = "((replicate initialBufferSize (Push e) @ ?sel) @ [Push e]) @ ?dr"
  let ?s = "race_state e initialBufferSize"
  have "run (Run NewEventRegistry) ?ls ?s"
    by (intro run_append [OF drain_all] run_snoc [OF run_append [OF select_all fill_channel] grow_channel]) simp_all
  moreover have "Cancel \<notin> set ?ls" by auto
  moreover have "stranded ?s"
    by (simp add: stranded_def race_state_def chan_at_def cur_def make_chan_def)
  then have "er_taken s' = []"
    if "run ?s ks s'" "Cancel \<notin> set ks" "\<forall>x. PushLate 0 x \<notin> set ks" for ks s'
    using stranded_run [OF that(1) _ that(2,3)] by (simp add: stranded_def)
  moreover have "c_queue (chan_at ?s (cur ?s)) = replicate (Suc initialBufferSize) e"
    "er_panicked ?s = False" "er_pushed ?s = replicate (Suc initialBufferSize) e"
    by (simp_all add: race_state_def chan_at_def cur_def make_chan_def)
  ultimately show ?thesis by blast
qed

theorem replaced_channel_strands_workers_witness:
  "\<exists>ls s. run (Run NewEventRegistry) ls s \<and> er_taken s = [] \<and> er_pushed s = replicate (Suc initialBufferSize) (7::nat)
     \<and> Cancel \<notin> set ls"
  using replaced_channel_strands_workers [of "7::nat"] run_Nil by fastforce

end
