(* ===== verification/Current_User.thy ===== *)
theory Current_User
  imports App_Errors
begin

text \<open>
  The user on whose behalf a request is served (\<open>internal/app/common/user_id.go\<close>): the name from
  the context when authentication is required, else the system user, looked up in the user
  table. The table is a parameter: the ids of the users with one of the given unique ids.
\<close>

text \<open>
  Of a context the user id needs whether authentication is required and the user name that the
  middleware stored in it.
\<close>

record app_context =
  ctx_authenticationRequired :: bool
  ctx_username :: "goerr + string"

definition NewAdminContext :: app_context where
  "NewAdminContext = \<lparr>ctx_authenticationRequired = False,
     ctx_username = Inl (ErrVal ''fmt'' ''could not retrieve gin.Context'')\<rparr>"

definition systemUserUniqueUserId :: string where "systemUserUniqueUserId = ''S0000000''"
definition unknownUser :: id64 where "unknownUser = 0"

type_synonym user_table = "string list \<Rightarrow> goerr + id64 list"

definition getUserIdFromDb :: "user_table \<Rightarrow> string \<Rightarrow> goerr + id64" where
  "getUserIdFromDb users uniqueUserId =
     (case users [uniqueUserId] of
        Inl e \<Rightarrow> Inl (WrapErr ''unable to get user ids '' e)
      | Inr [] \<Rightarrow> Inr unknownUser
      | Inr (i # ids) \<Rightarrow> Inr i)"

definition GetCurrentUniqueUserId :: "app_context \<Rightarrow> goerr + string" where
  "GetCurrentUniqueUserId ctx =
     (if ctx_authenticationRequired ctx then
        (case ctx_username ctx of
           Inl e \<Rightarrow> Inl (WrapErr ''could not get user name from context: '' e)
         | Inr u \<Rightarrow> Inr u)
      else Inr systemUserUniqueUserId)"

definition GetCurrentUserId :: "app_context \<Rightarrow> user_table \<Rightarrow> goerr + id64" where
  "GetCurrentUserId ctx users =
     (if ctx_authenticationRequired ctx then
        (case ctx_username ctx of
           Inl e \<Rightarrow> Inl (WrapErr ''could not get user name from context: '' e)
         | Inr u \<Rightarrow> getUserIdFromDb users u)
      else getUserIdFromDb users systemUserUniqueUserId)"

definition GetUserIdByUniqueId :: "user_table \<Rightarrow> string \<Rightarrow> goerr + id64" where
  "GetUserIdByUniqueId users uniqueUserId = getUserIdFromDb users uniqueUserId"

lemma getUserIdFromDb_Inr: "users [u] = Inr ids \<Longrightarrow> \<exists>i. getUserIdFromDb users u = Inr i"
  by (cases ids) (simp_all add: getUserIdFromDb_def)

lemma GetCurrentUserId_system:
  "\<not> ctx_authenticationRequired ctx \<Longrightarrow> users [systemUserUniqueUserId] = Inr ids \<Longrightarrow>
   \<exists>i. GetCurrentUserId ctx users = Inr i"
  by (simp add: GetCurrentUserId_def getUserIdFromDb_Inr)

end
