(* ===== verification/Authz.thy ===== *)
theory Authz
  imports App_Errors
begin

text \<open>
  Authorization (\<open>internal/openfga\<close>, \<open>internal/app/common/filter_helpers.go\<close>): the operations on
  relation tuples of \<open>Authz\<close> and \<open>NoAuthz\<close>, and the restriction of a filter to the accessible
  objects. The OpenFGA client is a parameter (\<open>fga_client\<close>); \<open>tuple_store\<close> is an instance with the
  documented behaviour of the API: a read returns at most one page, a write that names a tuple
  twice is refused, and a read with the type of an object only needs a user.
\<close>

section \<open>Relations\<close>

record RelationInput =
  riUserType :: string
  riUserId :: string
  riRelation :: string
  riObjectType :: string
  riObjectId :: string

record AccessibleResource =
  arObjectType :: string
  arObjectId :: string

type_synonym fga_tuple = "string \<times> string \<times> string"

definition TypeUser :: string where "TypeUser = ''user''"
definition TypeRole :: string where "TypeRole = ''role''"
definition TypeSupportGroup :: string where "TypeSupportGroup = ''support_group''"
definition TypeService :: string where "TypeService = ''service''"
definition TypeComponent :: string where "TypeComponent = ''component''"
definition TypeComponentVersion :: string where "TypeComponentVersion = ''component_version''"
definition TypeComponentInstance :: string where "TypeComponentInstance = ''component_instance''"
definition TypeIssueMatch :: string where "TypeIssueMatch = ''issue_match''"
definition RelCanView :: string where "RelCanView = ''can_view''"
definition RelRole :: string where "RelRole = ''role''"
definition RelSupportGroup :: string where "RelSupportGroup = ''support_group''"
definition RelRelatedService :: string where "RelRelatedService = ''related_service''"
definition RelOwner :: string where "RelOwner = ''owner''"
definition RelMember :: string where "RelMember = ''member''"
definition RelComponentInstance :: string where "RelComponentInstance = ''component_instance''"
definition RelComponentVersion :: string where "RelComponentVersion = ''component_version''"

lemmas type_defs = TypeUser_def TypeRole_def TypeSupportGroup_def TypeService_def
  TypeComponent_def TypeComponentVersion_def TypeComponentInstance_def TypeIssueMatch_def
lemmas rel_defs = RelCanView_def RelRole_def RelSupportGroup_def RelRelatedService_def RelOwner_def
  RelMember_def RelComponentInstance_def RelComponentVersion_def

definition ObjectIdFromInt :: "id64 \<Rightarrow> string" where "ObjectIdFromInt i = FormatInt i"
definition UserIdFromInt :: "id64 \<Rightarrow> string" where "UserIdFromInt i = FormatInt i"

definition user_string :: "RelationInput \<Rightarrow> string" where
  "user_string r = riUserType r @ '':'' @ riUserId r"

definition object_string :: "RelationInput \<Rightarrow> string" where
  "object_string r = riObjectType r @ '':'' @ riObjectId r"

definition tuple_of :: "RelationInput \<Rightarrow> fga_tuple" where
  "tuple_of r = (user_string r, riRelation r, object_string r)"

section \<open>The interface and its two implementations\<close>

record 's fga_client =
  fga_Read :: "'s \<Rightarrow> string \<Rightarrow> string \<Rightarrow> string \<Rightarrow> goerr + fga_tuple list"
  fga_Check :: "'s \<Rightarrow> fga_tuple \<Rightarrow> goerr + bool"
  fga_Write :: "'s \<Rightarrow> fga_tuple list \<Rightarrow> fga_tuple list \<Rightarrow> bool \<Rightarrow> goerr option \<times> 's"
  fga_ListObjects :: "'s \<Rightarrow> string \<Rightarrow> string \<Rightarrow> string \<Rightarrow> goerr + string list"

record 's authorization =
  az_CheckPermission :: "'s \<Rightarrow> RelationInput \<Rightarrow> goerr + bool"
  az_AddRelation :: "'s \<Rightarrow> RelationInput \<Rightarrow> goerr option \<times> 's"
  az_AddRelationBulk :: "'s \<Rightarrow> RelationInput list \<Rightarrow> goerr option \<times> 's"
  az_RemoveRelation :: "'s \<Rightarrow> RelationInput \<Rightarrow> goerr option \<times> 's"
  az_RemoveRelationBulk :: "'s \<Rightarrow> RelationInput list \<Rightarrow> goerr option \<times> 's"
  az_RemoveAllRelations :: "'s \<Rightarrow> goerr option \<times> 's"
  az_UpdateRelation :: "'s \<Rightarrow> RelationInput \<Rightarrow> RelationInput \<Rightarrow> goerr option \<times> 's"
  az_ListRelations :: "'s \<Rightarrow> RelationInput \<Rightarrow> goerr + fga_tuple list"
  az_ListAccessibleResources :: "'s \<Rightarrow> RelationInput \<Rightarrow> goerr + AccessibleResource list"
  az_GetListOfAccessibleObjectIds :: "'s \<Rightarrow> string \<Rightarrow> string \<Rightarrow> goerr + id64 option list"

definition NoAuthz :: "'s authorization" where
  "NoAuthz = \<lparr>az_CheckPermission = (\<lambda>s r. Inr True),
     az_AddRelation = (\<lambda>s r. (None, s)), az_AddRelationBulk = (\<lambda>s r. (None, s)),
     az_RemoveRelation = (\<lambda>s r. (None, s)), az_RemoveRelationBulk = (\<lambda>s r. (None, s)),
     az_RemoveAllRelations = (\<lambda>s. (None, s)), az_UpdateRelation = (\<lambda>s r u. (None, s)),
     az_ListRelations = (\<lambda>s r. Inr []), az_ListAccessibleResources = (\<lambda>s r. Inr []),
     az_GetListOfAccessibleObjectIds = (\<lambda>s u t. Inr [])\<rparr>"

definition checkTuple :: "'s fga_client \<Rightarrow> 's \<Rightarrow> RelationInput \<Rightarrow> goerr + bool" where
  "checkTuple c s r =
     bindR (fga_Read c s (user_string r) (riRelation r) (object_string r)) (\<lambda>ts. Inr (ts \<noteq> []))"

definition CheckPermission :: "'s fga_client \<Rightarrow> 's \<Rightarrow> RelationInput \<Rightarrow> goerr + bool" where
  "CheckPermission c s r = fga_Check c s (tuple_of r)"

definition AddRelation :: "'s fga_client \<Rightarrow> 's \<Rightarrow> RelationInput \<Rightarrow> goerr option \<times> 's" where
  "AddRelation c s r =
     (case checkTuple c s r of
        Inl e \<Rightarrow> (Some e, s)
      | Inr True \<Rightarrow> (None, s)
      | Inr False \<Rightarrow> fga_Write c s [tuple_of r] [] False)"

definition AddRelationBulk :: "'s fga_client \<Rightarrow> 's \<Rightarrow> RelationInput list \<Rightarrow> goerr option \<times> 's" where
  "AddRelationBulk c s rs = fga_Write c s (map tuple_of rs) [] True"

definition RemoveRelation :: "'s fga_client \<Rightarrow> 's \<Rightarrow> RelationInput \<Rightarrow> goerr option \<times> 's" where
  "RemoveRelation c s r =
     (case checkTuple c s r of
        Inl e \<Rightarrow> (Some e, s)
      | Inr False \<Rightarrow> (None, s)
      | Inr True \<Rightarrow> fga_Write c s [] [tuple_of r] True)"

definition ListRelations :: "'s fga_client \<Rightarrow> 's \<Rightarrow> RelationInput \<Rightarrow> goerr + fga_tuple list" where
  "ListRelations c s f =
     (let userStr = (if riUserType f \<noteq> [] \<and> riUserId f \<noteq> [] then user_string f else [])
      in if riObjectType f \<noteq> [] then fga_Read c s userStr (riRelation f) (object_string f)
         else Inl (ErrVal ''errors'' ''objectType must be specified in the filter''))"

fun list_all_relations :: "'s fga_client \<Rightarrow> 's \<Rightarrow> RelationInput list \<Rightarrow> goerr + fga_tuple list" where
  "list_all_relations c s [] = Inr []"
| "list_all_relations c s (r # rs) =
     bindR (ListRelations c s r) (\<lambda>found.
       bindR (list_all_relations c s rs) (\<lambda>more. Inr (found @ more)))"

definition RemoveRelationBulk :: "'s fga_client \<Rightarrow> 's \<Rightarrow> RelationInput list \<Rightarrow> goerr option \<times> 's" where
  "RemoveRelationBulk c s rs =
     (case list_all_relations c s rs of
        Inl e \<Rightarrow> (Some e, s)
      | Inr [] \<Rightarrow> (None, s)
      | Inr ts \<Rightarrow> fga_Write c s [] ts True)"

definition RemoveAllRelations :: "'s fga_client \<Rightarrow> 's \<Rightarrow> goerr option \<times> 's" where
  "RemoveAllRelations c s =
     (case fga_Read c s [] [] [] of
        Inl e \<Rightarrow> (Some e, s)
      | Inr [] \<Rightarrow> (None, s)
      | Inr ts \<Rightarrow> fga_Write c s [] ts True)"

definition UpdateRelation ::
  "'s fga_client \<Rightarrow> 's \<Rightarrow> RelationInput \<Rightarrow> RelationInput \<Rightarrow> goerr option \<times> 's" where
  "UpdateRelation c s add rem =
     (case RemoveRelationBulk c s [rem] of
        (Some e, s') \<Rightarrow> (Some e, s')
      | (None, s') \<Rightarrow> AddRelation c s' add)"

text \<open>\<open>strings.SplitN(obj, ":", 2)\<close>, when it yields two parts.\<close>

fun split_colon :: "string \<Rightarrow> (string \<times> string) option" where
  "split_colon [] = None"
| "split_colon (c # cs) =
     (if c = CHR '':'' then Some ([], cs)
      else map_option (\<lambda>(a, b). (c # a, b)) (split_colon cs))"

definition ListAccessibleResources ::
  "'s fga_client \<Rightarrow> 's \<Rightarrow> RelationInput \<Rightarrow> goerr + AccessibleResource list" where
  "ListAccessibleResources c s r =
     bindR (fga_ListObjects c s (user_string r) (riRelation r) (riObjectType r)) (\<lambda>objs.
       let resources = List.map_filter (\<lambda>obj. map_option
             (\<lambda>(t, i). \<lparr>arObjectType = t, arObjectId = i\<rparr>) (split_colon obj)) objs
       in Inr (if resources = [] then [\<lparr>arObjectType = riObjectType r, arObjectId = ''-1''\<rparr>] else resources))"

definition GetListOfAccessibleObjectIds ::
  "'s fga_client \<Rightarrow> 's \<Rightarrow> string \<Rightarrow> string \<Rightarrow> goerr + id64 option list" where
  "GetListOfAccessibleObjectIds c s userId objectType =
     bindR (ListAccessibleResources c s \<lparr>riUserType = TypeUser, riUserId = userId,
              riRelation = RelCanView, riObjectType = objectType, riObjectId = ''*''\<rparr>)
       (\<lambda>rs. Inr (map Some (List.map_filter (\<lambda>r. ParseInt (arObjectId r)) rs)))"

definition Authz :: "'s fga_client \<Rightarrow> 's authorization" where
  "Authz c = \<lparr>az_CheckPermission = CheckPermission c, az_AddRelation = AddRelation c,
     az_AddRelationBulk = AddRelationBulk c, az_RemoveRelation = RemoveRelation c,
     az_RemoveRelationBulk = RemoveRelationBulk c, az_RemoveAllRelations = RemoveAllRelations c,
     az_UpdateRelation = UpdateRelation c, az_ListRelations = ListRelations c,
     az_ListAccessibleResources = ListAccessibleResources c,
     az_GetListOfAccessibleObjectIds = GetListOfAccessibleObjectIds c\<rparr>"

section \<open>Restricting a filter to the accessible ids\<close>

text \<open>Ids are pointers; nil entries are skipped by the intersection.\<close>

definition getIntersectionOfIdSlices :: "id64 option list \<Rightarrow> id64 option list \<Rightarrow> id64 option list" where
  "getIntersectionOfIdSlices slice1 slice2 =
     filter (\<lambda>v. case v of None \<Rightarrow> False | Some i \<Rightarrow> Some i \<in> set slice1) slice2"

definition CombineFilterWithAccessibleIds :: "id64 option list \<Rightarrow> id64 option list \<Rightarrow> id64 option list" where
  "CombineFilterWithAccessibleIds filterIds accessibleIds =
     (if accessibleIds = [Some (- 1)] then accessibleIds
      else if accessibleIds \<noteq> [] then
        (if filterIds \<noteq> [] then
           (let ids = getIntersectionOfIdSlices filterIds accessibleIds
            in if ids = [] then [Some (- 1)] else ids)
         else accessibleIds)
      else filterIds)"

section \<open>Contracts of the interface\<close>

text \<open>
  A relation is proper when it names a single tuple. As a filter of a bulk removal a relation
  matches the tuples that agree with its set fields; it is complete when the API accepts it.
\<close>

definition proper :: "RelationInput \<Rightarrow> bool" where
  "proper r \<longleftrightarrow> riUserType r \<noteq> [] \<and> riUserId r \<noteq> [] \<and> riRelation r \<noteq> [] \<and> riObjectType r \<noteq> []
     \<and> riObjectId r \<noteq> [] \<and> last (riObjectId r) \<noteq> CHR '':''"

definition object_matches :: "string \<Rightarrow> string \<Rightarrow> bool" where
  "object_matches obj o' \<longleftrightarrow> obj = []
     \<or> (if last obj = CHR '':'' then take (length obj) o' = obj else o' = obj)"

definition tuple_matches :: "string \<Rightarrow> string \<Rightarrow> string \<Rightarrow> fga_tuple \<Rightarrow> bool" where
  "tuple_matches u r obj t \<longleftrightarrow> (u = [] \<or> fst t = u) \<and> (r = [] \<or> fst (snd t) = r)
     \<and> object_matches obj (snd (snd t))"

definition filter_user :: "RelationInput \<Rightarrow> string" where
  "filter_user f = (if riUserType f \<noteq> [] \<and> riUserId f \<noteq> [] then user_string f else [])"

definition rel_matches :: "RelationInput \<Rightarrow> fga_tuple \<Rightarrow> bool" where
  "rel_matches f t \<longleftrightarrow> tuple_matches (filter_user f) (riRelation f) (object_string f) t"

definition filter_ok :: "RelationInput \<Rightarrow> bool" where
  "filter_ok f \<longleftrightarrow> riObjectType f \<noteq> [] \<and> (last (object_string f) = CHR '':'' \<longrightarrow> filter_user f \<noteq> [])"

text \<open>
  What holds with and without OpenFGA: adding a tuple and removing it can be repeated without
  effect, and removing a tuple that was added to a store without it restores the store.
\<close>

locale authorization =
  fixes az :: "'s authorization" and valid :: "'s \<Rightarrow> bool" and present :: "'s \<Rightarrow> RelationInput \<Rightarrow> bool"
  assumes add_valid: "valid s \<Longrightarrow> proper r \<Longrightarrow> valid (snd (az_AddRelationBulk az s [r]))"
    and add_again: "valid s \<Longrightarrow> proper r \<Longrightarrow>
      snd (az_AddRelationBulk az (snd (az_AddRelationBulk az s [r])) [r]) = snd (az_AddRelationBulk az s [r])"
    and remove_again: "valid s \<Longrightarrow> proper r \<Longrightarrow>
      snd (az_RemoveRelation az (snd (az_RemoveRelation az s r)) r) = snd (az_RemoveRelation az s r)"
    and remove_absent: "valid s \<Longrightarrow> proper r \<Longrightarrow> \<not> present s r \<Longrightarrow> snd (az_RemoveRelation az s r) = s"
    and remove_added: "valid s \<Longrightarrow> proper r \<Longrightarrow> \<not> present s r \<Longrightarrow>
      snd (az_RemoveRelation az (snd (az_AddRelationBulk az s [r])) r) = s"

text \<open>
  What a store of tuples promises in addition: a set of tuples is its content, a bulk add unites
  it with the tuples, and a bulk removal by filters takes away what they match, as long as every
  filter's matches fit a page and no tuple matches two of the filters.
\<close>

locale relation_store = authorization az valid present
  for az :: "'s authorization" and valid :: "'s \<Rightarrow> bool" and present :: "'s \<Rightarrow> RelationInput \<Rightarrow> bool" +
  fixes rels :: "'s \<Rightarrow> fga_tuple set" and page :: "'s \<Rightarrow> nat"
  assumes rels_finite: "finite (rels s)"
    and present_rels: "present s r \<longleftrightarrow> tuple_of r \<in> rels s"
    and rels_add: "valid s \<Longrightarrow> distinct (map tuple_of rs) \<Longrightarrow>
      valid (snd (az_AddRelationBulk az s rs)) \<and> page (snd (az_AddRelationBulk az s rs)) = page s
      \<and> rels (snd (az_AddRelationBulk az s rs)) = rels s \<union> tuple_of ` set rs"
    and rels_remove: "valid s \<Longrightarrow> proper r \<Longrightarrow>
      valid (snd (az_RemoveRelation az s r)) \<and> page (snd (az_RemoveRelation az s r)) = page s
      \<and> rels (snd (az_RemoveRelation az s r)) = rels s - {tuple_of r}"
    and rels_bulk: "valid s \<Longrightarrow> list_all filter_ok fs \<Longrightarrow>
      list_all (\<lambda>f. card {t \<in> rels s. rel_matches f t} \<le> page s) fs \<Longrightarrow>
      sorted_wrt (\<lambda>f g. \<forall>t \<in> rels s. \<not> (rel_matches f t \<and> rel_matches g t)) fs \<Longrightarrow>
      valid (snd (az_RemoveRelationBulk az s fs)) \<and> page (snd (az_RemoveRelationBulk az s fs)) = page s
      \<and> rels (snd (az_RemoveRelationBulk az s fs)) = {t \<in> rels s. \<forall>f \<in> set fs. \<not> rel_matches f t}"
    and rels_update: "valid s \<Longrightarrow> proper r \<Longrightarrow> filter_ok f \<Longrightarrow>
      card {t \<in> rels s. rel_matches f t} \<le> page s \<Longrightarrow>
      valid (snd (az_UpdateRelation az s r f)) \<and> page (snd (az_UpdateRelation az s r f)) = page s
      \<and> rels (snd (az_UpdateRelation az s r f)) = {t \<in> rels s. \<not> rel_matches f t} \<union> {tuple_of r}"
    and page_pos: "valid s \<Longrightarrow> 0 < page s"
    and rels_list: "valid s \<Longrightarrow> proper r \<Longrightarrow>
      \<exists>ts. az_ListRelations az s r = Inr ts \<and> (ts = [] \<longleftrightarrow> tuple_of r \<notin> rels s)"

interpretation na: authorization NoAuthz "\<lambda>s. True" "\<lambda>s r. False"
  by unfold_locales (simp_all add: NoAuthz_def)

section \<open>A tuple store\<close>

record tuple_state =
  ts_tuples :: "fga_tuple list"
  ts_page :: nat

definition fga_error :: goerr where "fga_error = ErrVal ''fga'' ''validation error''"

definition ts_Read :: "tuple_state \<Rightarrow> string \<Rightarrow> string \<Rightarrow> string \<Rightarrow> goerr + fga_tuple list" where
  "ts_Read s u r obj =
     (if obj \<noteq> [] \<and> last obj = CHR '':'' \<and> u = [] then Inl fga_error
      else Inr (take (ts_page s) (filter (tuple_matches u r obj) (ts_tuples s))))"

definition ts_Write ::
  "tuple_state \<Rightarrow> fga_tuple list \<Rightarrow> fga_tuple list \<Rightarrow> bool \<Rightarrow> goerr option \<times> tuple_state" where
  "ts_Write s ws ds ignore_conflicts =
     (if \<not> distinct (ws @ ds) then (Some fga_error, s)
      else if \<not> ignore_conflicts \<and>
          (list_ex (\<lambda>w. w \<in> set (ts_tuples s)) ws \<or> list_ex (\<lambda>d. d \<notin> set (ts_tuples s)) ds)
      then (Some fga_error, s)
      else (None, s\<lparr>ts_tuples := filter (\<lambda>t. t \<notin> set ds) (ts_tuples s)
                     @ filter (\<lambda>w. w \<notin> set (ts_tuples s)) ws\<rparr>))"

definition tuple_store :: "tuple_state fga_client" where
  "tuple_store = \<lparr>fga_Read = ts_Read,
     fga_Check = (\<lambda>s t. Inr (t \<in> set (ts_tuples s))), fga_Write = ts_Write,
     fga_ListObjects = (\<lambda>s u r ty. Inr (map (\<lambda>t. snd (snd t))
        (filter (tuple_matches u r (ty @ '':'')) (ts_tuples s))))\<rparr>"

definition ts_valid :: "tuple_state \<Rightarrow> bool" where
  "ts_valid s \<longleftrightarrow> distinct (ts_tuples s) \<and> 0 < ts_page s"

definition ts_present :: "tuple_state \<Rightarrow> RelationInput \<Rightarrow> bool" where
  "ts_present s r \<longleftrightarrow> tuple_of r \<in> set (ts_tuples s)"

lemma tuple_matches_proper:
  "proper r \<Longrightarrow> tuple_matches (user_string r) (riRelation r) (object_string r) t \<longleftrightarrow> t = tuple_of r"
  by (cases t) (auto simp: tuple_matches_def object_matches_def proper_def user_string_def
      object_string_def tuple_of_def)

lemma filter_eq_distinct: "distinct xs \<Longrightarrow> filter (\<lambda>x. x = a) xs = (if a \<in> set xs then [a] else [])"
  by (induction xs) auto

lemma checkTuple_store:
  assumes "ts_valid s" and "proper r"
  shows "checkTuple tuple_store s r = Inr (ts_present s r)"
proof -
  have "filter (tuple_matches (user_string r) (riRelation r) (object_string r)) (ts_tuples s) =
    filter (\<lambda>t. t = tuple_of r) (ts_tuples s)"
    by (rule filter_cong) (simp_all add: tuple_matches_proper [OF assms(2)])
  also have "\<dots> = (if tuple_of r \<in> set (ts_tuples s) then [tuple_of r] else [])"
    using assms(1) by (simp add: filter_eq_distinct ts_valid_def)
  finally have "filter (tuple_matches (user_string r) (riRelation r) (object_string r)) (ts_tuples s) =
    (if tuple_of r \<in> set (ts_tuples s) then [tuple_of r] else [])" .
  then show ?thesis
    using assms
    by (simp add: checkTuple_def tuple_store_def ts_Read_def user_string_def ts_present_def ts_valid_def)
qed

lemma ListRelations_present:
  assumes "ts_valid s" and "proper r"
  shows "\<exists>ts. ListRelations tuple_store s r = Inr ts \<and> (ts = [] \<longleftrightarrow> tuple_of r \<notin> set (ts_tuples s))"
proof -
  have "ListRelations tuple_store s r =
      fga_Read tuple_store s (user_string r) (riRelation r) (object_string r)"
    using assms(2) by (simp add: ListRelations_def proper_def Let_def)
  moreover have "checkTuple tuple_store s r = Inr (ts_present s r)" by (rule checkTuple_store [OF assms])
  ultimately show ?thesis
    by (cases "fga_Read tuple_store s (user_string r) (riRelation r) (object_string r)")
      (auto simp: checkTuple_def ts_present_def)
qed

lemma AddRelationBulk_store:
  "AddRelationBulk tuple_store s [r] =
     (None, s\<lparr>ts_tuples := (if ts_present s r then ts_tuples s else ts_tuples s @ [tuple_of r])\<rparr>)"
  by (simp add: AddRelationBulk_def tuple_store_def ts_Write_def ts_present_def)

lemma RemoveRelation_store:
  assumes "ts_valid s" and "proper r"
  shows "RemoveRelation tuple_store s r = (None, s\<lparr>ts_tuples := filter (\<lambda>t. t \<noteq> tuple_of r) (ts_tuples s)\<rparr>)"
proof (cases "ts_present s r")
  case True
  with assms show ?thesis
    by (simp add: RemoveRelation_def checkTuple_store) (simp add: tuple_store_def ts_Write_def)
next
  case False
  then have "filter (\<lambda>t. t \<noteq> tuple_of r) (ts_tuples s) = ts_tuples s"
    by (auto simp: ts_present_def filter_id_conv)
  with False assms show ?thesis by (simp add: RemoveRelation_def checkTuple_store)
qed

lemma ts_valid_filter: "ts_valid s \<Longrightarrow> ts_valid (s\<lparr>ts_tuples := filter P (ts_tuples s)\<rparr>)"
  by (simp add: ts_valid_def)

lemma ts_valid_add:
  "ts_valid s \<Longrightarrow> ts_valid (s\<lparr>ts_tuples := (if ts_present s r then ts_tuples s else ts_tuples s @ [tuple_of r])\<rparr>)"
  by (simp add: ts_valid_def ts_present_def)

text \<open>Bulk removal and update on the store.\<close>

lemma ListRelations_store:
  assumes "filter_ok f" and "card {t \<in> set (ts_tuples s). rel_matches f t} \<le> ts_page s" and "ts_valid s"
  shows "ListRelations tuple_store s f = Inr (filter (rel_matches f) (ts_tuples s))"
proof -
  have "length (filter (rel_matches f) (ts_tuples s)) \<le> ts_page s"
    using assms(2,3) by (simp add: ts_valid_def distinct_card [symmetric] Int_def conj_commute)
  then show ?thesis
    using assms(1)
    by (auto simp: ListRelations_def tuple_store_def ts_Read_def filter_ok_def filter_user_def
        rel_matches_def [abs_def] object_string_def)
qed

lemma list_all_relations_store:
  assumes "ts_valid s" and "list_all filter_ok fs"
    and "list_all (\<lambda>f. card {t \<in> set (ts_tuples s). rel_matches f t} \<le> ts_page s) fs"
  shows "list_all_relations tuple_store s fs = Inr (concat (map (\<lambda>f. filter (rel_matches f) (ts_tuples s)) fs))"
  using assms(2,3) by (induction fs) (simp_all add: ListRelations_store [OF _ _ assms(1)])

lemma distinct_matches:
  assumes "distinct ts" and "sorted_wrt (\<lambda>f g. \<forall>t \<in> set ts. \<not> (rel_matches f t \<and> rel_matches g t)) fs"
  shows "distinct (concat (map (\<lambda>f. filter (rel_matches f) ts) fs))"
  using assms(2) by (induction fs) (use assms(1) in auto)

lemma RemoveRelationBulk_store:
  assumes "ts_valid s" and "list_all filter_ok fs"
    and "list_all (\<lambda>f. card {t \<in> set (ts_tuples s). rel_matches f t} \<le> ts_page s) fs"
    and "sorted_wrt (\<lambda>f g. \<forall>t \<in> set (ts_tuples s). \<not> (rel_matches f t \<and> rel_matches g t)) fs"
  shows "RemoveRelationBulk tuple_store s fs =
    (None, s\<lparr>ts_tuples := filter (\<lambda>t. \<forall>f \<in> set fs. \<not> rel_matches f t) (ts_tuples s)\<rparr>)"
proof -
  let ?ds = "concat (map (\<lambda>f. filter (rel_matches f) (ts_tuples s)) fs)"
  have d: "distinct ?ds" using assms(1,4) by (simp add: distinct_matches ts_valid_def)
  have f: "filter (\<lambda>t. t \<notin> set ?ds) (ts_tuples s) =
      filter (\<lambda>t. \<forall>f \<in> set fs. \<not> rel_matches f t) (ts_tuples s)"
    by (rule filter_cong) auto
  show ?thesis
  proof (cases "?ds = []")
    case True
    then have "filter (\<lambda>t. \<forall>f \<in> set fs. \<not> rel_matches f t) (ts_tuples s) = ts_tuples s" using f by simp
    with True show ?thesis
      by (simp only: RemoveRelationBulk_def list_all_relations_store [OF assms(1-3)]) simp
  next
    case False
    then obtain x xs where x: "?ds = x # xs" by (cases ?ds) auto
    have "RemoveRelationBulk tuple_store s fs = fga_Write tuple_store s [] ?ds True"
      by (simp only: RemoveRelationBulk_def list_all_relations_store [OF assms(1-3)] x) simp
    with d f show ?thesis by (simp add: tuple_store_def ts_Write_def)
  qed
qed

lemma AddRelation_store:
  assumes "ts_valid s" and "proper r"
  shows "AddRelation tuple_store s r =
     (None, s\<lparr>ts_tuples := (if ts_present s r then ts_tuples s else ts_tuples s @ [tuple_of r])\<rparr>)"
  using assms by (simp add: AddRelation_def checkTuple_store)
    (simp add: tuple_store_def ts_Write_def ts_present_def)

lemma UpdateRelation_store:
  assumes "ts_valid s" and "proper r" and "filter_ok f"
    and "card {t \<in> set (ts_tuples s). rel_matches f t} \<le> ts_page s"
  shows "ts_valid (snd (UpdateRelation tuple_store s r f))"
    and "ts_page (snd (UpdateRelation tuple_store s r f)) = ts_page s"
    and "set (ts_tuples (snd (UpdateRelation tuple_store s r f))) =
      {t \<in> set (ts_tuples s). \<not> rel_matches f t} \<union> {tuple_of r}"
proof -
  have "RemoveRelationBulk tuple_store s [f] =
      (None, s\<lparr>ts_tuples := filter (\<lambda>t. \<not> rel_matches f t) (ts_tuples s)\<rparr>)"
    using RemoveRelationBulk_store [OF assms(1), of "[f]"] assms(3,4) by simp
  then have u: "UpdateRelation tuple_store s r f =
      AddRelation tuple_store (s\<lparr>ts_tuples := filter (\<lambda>t. \<not> rel_matches f t) (ts_tuples s)\<rparr>) r"
    by (simp add: UpdateRelation_def)
  note a = AddRelation_store [OF ts_valid_filter [OF assms(1)] assms(2), of "\<lambda>t. \<not> rel_matches f t"]
  show "ts_valid (snd (UpdateRelation tuple_store s r f))"
    "ts_page (snd (UpdateRelation tuple_store s r f)) = ts_page s"
    "set (ts_tuples (snd (UpdateRelation tuple_store s r f))) =
      {t \<in> set (ts_tuples s). \<not> rel_matches f t} \<union> {tuple_of r}"
    using assms(1) by (auto simp: u a ts_valid_def ts_present_def)
qed

interpretation ts: authorization "Authz tuple_store" ts_valid ts_present
proof
  fix s r assume a: "ts_valid s" "proper r"
  show "ts_valid (snd (az_AddRelationBulk (Authz tuple_store) s [r]))"
    using ts_valid_add [OF a(1), of r] by (simp add: Authz_def AddRelationBulk_store)
  show "snd (az_AddRelationBulk (Authz tuple_store) (snd (az_AddRelationBulk (Authz tuple_store) s [r])) [r]) =
      snd (az_AddRelationBulk (Authz tuple_store) s [r])"
    by (simp add: Authz_def AddRelationBulk_store ts_present_def)
  show "snd (az_RemoveRelation (Authz tuple_store) (snd (az_RemoveRelation (Authz tuple_store) s r)) r) =
      snd (az_RemoveRelation (Authz tuple_store) s r)"
    using a ts_valid_filter [OF a(1)] by (simp add: Authz_def RemoveRelation_store)
  have same: "filter (\<lambda>t. t \<noteq> tuple_of r) (ts_tuples s) = ts_tuples s" if "\<not> ts_present s r"
    using that by (auto simp: ts_present_def filter_id_conv)
  show "snd (az_RemoveRelation (Authz tuple_store) s r) = s" if "\<not> ts_present s r"
    using a same [OF that] by (simp add: Authz_def RemoveRelation_store)
  show "snd (az_RemoveRelation (Authz tuple_store) (snd (az_AddRelationBulk (Authz tuple_store) s [r])) r) = s"
    if "\<not> ts_present s r"
    using a that same [OF that] ts_valid_add [OF a(1), of r]
    by (simp add: Authz_def AddRelationBulk_store RemoveRelation_store)
qed

lemma AddRelationBulk_distinct:
  assumes "ts_valid s" and "distinct (map tuple_of rs)"
  shows "AddRelationBulk tuple_store s rs =
    (None, s\<lparr>ts_tuples := ts_tuples s @ filter (\<lambda>w. w \<notin> set (ts_tuples s)) (map tuple_of rs)\<rparr>)"
  using assms by (simp add: AddRelationBulk_def tuple_store_def ts_Write_def)

interpretation tr: relation_store "Authz tuple_store" ts_valid ts_present
  "\<lambda>s :: tuple_state. set (ts_tuples s)" "ts_page :: tuple_state \<Rightarrow> nat"
proof
  fix s :: tuple_state and r rs
  show "finite (set (ts_tuples s))" by simp
  show "ts_present s r \<longleftrightarrow> tuple_of r \<in> set (ts_tuples s)" by (simp add: ts_present_def)
  show "ts_valid (snd (az_AddRelationBulk (Authz tuple_store) s rs))
      \<and> ts_page (snd (az_AddRelationBulk (Authz tuple_store) s rs)) = ts_page s
      \<and> set (ts_tuples (snd (az_AddRelationBulk (Authz tuple_store) s rs))) = set (ts_tuples s) \<union> tuple_of ` set rs"
    if "ts_valid s" "distinct (map tuple_of rs)"
    using that by (auto simp: Authz_def AddRelationBulk_distinct ts_valid_def)
  show "ts_valid (snd (az_RemoveRelation (Authz tuple_store) s r))
      \<and> ts_page (snd (az_RemoveRelation (Authz tuple_store) s r)) = ts_page s
      \<and> set (ts_tuples (snd (az_RemoveRelation (Authz tuple_store) s r))) = set (ts_tuples s) - {tuple_of r}"
    if "ts_valid s" "proper r"
    using that ts_valid_filter [OF that(1)] by (auto simp: Authz_def RemoveRelation_store)
  show "\<exists>ts. az_ListRelations (Authz tuple_store) s r = Inr ts \<and> (ts = [] \<longleftrightarrow> tuple_of r \<notin> set (ts_tuples s))"
    if "ts_valid s" "proper r"
    using that by (simp add: Authz_def ListRelations_present)
  show "0 < ts_page s" if "ts_valid s" using that by (simp add: ts_valid_def)
qed (auto simp: Authz_def RemoveRelationBulk_store UpdateRelation_store ts_valid_filter)

text \<open>
  \<open>RemoveAllRelations\<close> reads once and deletes what that read returned: a store with more
  tuples than a page keeps the rest.
\<close>

theorem RemoveAllRelations_removes_one_page:
  assumes "distinct (ts_tuples s)"
  shows "RemoveAllRelations tuple_store s = (None, s\<lparr>ts_tuples := drop (ts_page s) (ts_tuples s)\<rparr>)"
proof -
  have all: "filter (tuple_matches [] [] []) (ts_tuples s) = ts_tuples s"
    by (simp add: tuple_matches_def object_matches_def)
  have rest: "filter (\<lambda>t. t \<notin> set (take n xs)) xs = drop n xs" if "distinct xs" for n and xs :: "fga_tuple list"
  proof -
    have "filter (\<lambda>t. t \<notin> set (take n xs)) (take n xs @ drop n xs) = drop n xs"
      unfolding filter_append using set_take_disj_set_drop_if_distinct [OF that order_refl, of n]
      by (auto simp: filter_id_conv filter_empty_conv)
    then show ?thesis by simp
  qed
  show ?thesis
  proof (cases "take (ts_page s) (ts_tuples s)")
    case Nil
    then have "drop (ts_page s) (ts_tuples s) = ts_tuples s" by auto
    with Nil show ?thesis by (auto simp: RemoveAllRelations_def tuple_store_def ts_Read_def all)
  next
    case (Cons a list)
    have "distinct (take (ts_page s) (ts_tuples s))" using assms by simp
    with Cons rest [OF assms, of "ts_page s"] show ?thesis
      by (simp add: RemoveAllRelations_def tuple_store_def ts_Read_def ts_Write_def all)
  qed
qed

theorem RemoveAllRelations_removes_one_page_witness:
  "RemoveAllRelations tuple_store \<lparr>ts_tuples = [(''user:1'', ''owner'', ''service:1''),
       (''user:2'', ''owner'', ''service:1''), (''user:3'', ''owner'', ''service:1'')], ts_page = 2\<rparr>
   = (None, \<lparr>ts_tuples = [(''user:3'', ''owner'', ''service:1'')], ts_page = 2\<rparr>)"
  using RemoveAllRelations_removes_one_page [of "\<lparr>ts_tuples = [(''user:1'', ''owner'', ''service:1''),
     (''user:2'', ''owner'', ''service:1''), (''user:3'', ''owner'', ''service:1'')], ts_page = 2\<rparr>"]
  by simp

section \<open>Ids in tuples\<close>

lemma nat_str_last: "is_digit (last (nat_str n))"
proof -
  have "last (nat_str n) \<in> set (nat_str n)" by simp
  then show ?thesis using nat_str_digits [of n] by (simp add: list_all_iff)
qed

lemma FormatInt_last: "last (FormatInt i) \<noteq> CHR '':''"
proof
  assume "last (FormatInt i) = CHR '':''"
  then have "last (nat_str (nat \<bar>i\<bar>)) = CHR '':''" by (auto simp: FormatInt_def split: if_splits)
  then show False using nat_str_last [of "nat \<bar>i\<bar>"] by (simp add: is_digit_def)
qed

section \<open>Access restriction\<close>

lemma map_filter_None: "List.map_filter f xs = [] \<longleftrightarrow> (\<forall>x \<in> set xs. f x = None)"
  by (induction xs) (auto simp: List.map_filter_simps split: option.splits)

definition numeric_ids :: "string list \<Rightarrow> id64 list" where
  "numeric_ids objs = List.map_filter (\<lambda>obj. Option.bind (split_colon obj) (\<lambda>(t, i). ParseInt i)) objs"

lemma numeric_ids_resources:
  "List.map_filter (\<lambda>r. ParseInt (arObjectId r))
     (List.map_filter (\<lambda>obj. map_option (\<lambda>(t, i). \<lparr>arObjectType = t, arObjectId = i\<rparr>) (split_colon obj)) objs)
   = numeric_ids objs"
  unfolding numeric_ids_def
  by (induction objs) (auto simp: List.map_filter_simps split: option.splits)

lemma numeric_ids_nonempty: "numeric_ids objs \<noteq> [] \<Longrightarrow> \<exists>obj \<in> set objs. split_colon obj \<noteq> None"
proof (rule ccontr)
  assume "numeric_ids objs \<noteq> []" and "\<not> (\<exists>obj \<in> set objs. split_colon obj \<noteq> None)"
  then obtain x where x: "x \<in> set objs" "Option.bind (split_colon x) (\<lambda>(t, i). ParseInt i) \<noteq> None"
    by (auto simp: numeric_ids_def map_filter_None)
  then have "split_colon x \<noteq> None" by (cases "split_colon x") auto
  with x(1) \<open>\<not> (\<exists>obj \<in> set objs. split_colon obj \<noteq> None)\<close> show False by blast
qed

lemma ParseInt_minus_one: "ParseInt ''-1'' = Some (- 1)"
  by code_simp

lemma accessible_ids:
  assumes "fga_ListObjects c s (''user:'' @ u) ''can_view'' t = Inr objs"
  shows "GetListOfAccessibleObjectIds c s u t = Inr
     (if \<forall>obj \<in> set objs. split_colon obj = None then [Some (- 1)] else map Some (numeric_ids objs))"
proof -
  let ?res = "List.map_filter (\<lambda>obj. map_option (\<lambda>(t, i). \<lparr>arObjectType = t, arObjectId = i\<rparr>) (split_colon obj)) objs"
  have "?res = [] \<longleftrightarrow> (\<forall>obj \<in> set objs. split_colon obj = None)" by (simp add: map_filter_None)
  moreover have "List.map_filter (\<lambda>r. ParseInt (arObjectId r)) ?res = numeric_ids objs"
    by (rule numeric_ids_resources)
  ultimately show ?thesis
    using assms
    by (simp add: GetListOfAccessibleObjectIds_def ListAccessibleResources_def user_string_def
        TypeUser_def RelCanView_def Let_def List.map_filter_simps ParseInt_minus_one)
qed

text \<open>
  The ids a user may see restrict the filter of a list request. A user without any accessible
  object gets the filter [-1], which matches nothing. A user with accessible numeric ids gets a
  nonempty filter with nothing in it but those ids (or -1), and inside the requested ids if
  there are some. But a user all of whose accessible objects have ids that are not numbers
  gets the requested filter unrestricted, like a user with full access.
\<close>

theorem accessible_ids_restrict_filter:
  assumes "fga_ListObjects c s (''user:'' @ u) ''can_view'' t = Inr objs"
    and "GetListOfAccessibleObjectIds c s u t = Inr ids"
  shows "((\<forall>obj \<in> set objs. split_colon obj = None) \<longrightarrow> CombineFilterWithAccessibleIds flt ids = [Some (- 1)])
    \<and> (numeric_ids objs \<noteq> [] \<longrightarrow> CombineFilterWithAccessibleIds flt ids \<noteq> []
        \<and> set (CombineFilterWithAccessibleIds flt ids) \<subseteq> insert (Some (- 1)) (Some ` set (numeric_ids objs))
        \<and> (flt \<noteq> [] \<longrightarrow> set (CombineFilterWithAccessibleIds flt ids) \<subseteq> insert (Some (- 1)) (set flt)))
    \<and> (numeric_ids objs = [] \<and> (\<exists>obj \<in> set objs. split_colon obj \<noteq> None)
        \<longrightarrow> CombineFilterWithAccessibleIds flt ids = flt)"
proof -
  have ids: "ids = (if \<forall>obj \<in> set objs. split_colon obj = None then [Some (- 1)] else map Some (numeric_ids objs))"
    using assms(2) accessible_ids [OF assms(1)] by simp
  have inter: "set (getIntersectionOfIdSlices flt js) \<subseteq> set flt \<inter> set js" for js
    by (auto simp: getIntersectionOfIdSlices_def split: option.splits)
  have "\<exists>obj \<in> set objs. split_colon obj \<noteq> None" if "numeric_ids objs \<noteq> []"
    using that numeric_ids_nonempty by blast
  then show ?thesis
    using ids inter [of ids]
    by (cases "\<forall>obj \<in> set objs. split_colon obj = None")
      (auto simp: CombineFilterWithAccessibleIds_def Let_def)
qed

theorem accessible_ids_restrict_filter_witness:
  "set (CombineFilterWithAccessibleIds [Some 4, Some 5] [Some 5, Some 6]) \<subseteq> {Some (- 1), Some 5, Some 6}"
proof -
  let ?s = "\<lparr>ts_tuples = [(''user:1'', ''can_view'', ''service:5''), (''user:1'', ''can_view'', ''service:6'')],
       ts_page = 50\<rparr>"
  have objs: "fga_ListObjects tuple_store ?s (''user:'' @ ''1'') ''can_view'' ''service'' =
      Inr [''service:5'', ''service:6'']"
    by (simp add: tuple_store_def tuple_matches_def object_matches_def)
  have n: "numeric_ids [''service:5'', ''service:6''] = [5, 6]" by code_simp
  have "\<not> (\<forall>obj \<in> set [''service:5'', ''service:6'']. split_colon obj = None)" by code_simp
  then have "GetListOfAccessibleObjectIds tuple_store ?s ''1'' ''service'' = Inr [Some 5, Some 6]"
    using accessible_ids [OF objs] n by simp
  from accessible_ids_restrict_filter [OF objs this, of "[Some 4, Some 5]"] show ?thesis
    by (simp add: n)
qed

end
