(* ===== verification/App_Events.thy ===== *)
theory App_Events
  imports Entities Event_Registry
begin

text \<open>
  The events that the application pushes to its registry and that a subscribed handler reacts to:
  the structs of the files \<open>*_handler_events.go\<close> under \<open>internal/app\<close> with their names. The
  arguments are the fields in the order of the struct; all other events are \<open>OtherEvent\<close> with
  their name.
\<close>

section \<open>Events\<close>

datatype app_event =
    CreateServiceEvent Service
  | DeleteServiceEvent id64
  | AddOwnerToServiceEvent id64 id64
  | RemoveOwnerFromServiceEvent id64 id64
  | CreateSupportGroupEvent SupportGroup
  | DeleteSupportGroupEvent id64
  | AddServiceToSupportGroupEvent id64 id64
  | RemoveServiceFromSupportGroupEvent id64 id64
  | AddUserToSupportGroupEvent id64 id64
  | RemoveUserFromSupportGroupEvent id64 id64
  | CreateComponentInstanceEvent ComponentInstance
  | UpdateComponentInstanceEvent ComponentInstance
  | DeleteComponentInstanceEvent id64
  | CreateComponentVersionEvent ComponentVersion
  | UpdateComponentVersionEvent ComponentVersion
  | DeleteComponentVersionEvent id64
  | CreateComponentEvent Component
  | DeleteComponentEvent id64
  | CreateIssueMatchEvent IssueMatch
  | UpdateIssueMatchEvent IssueMatch
  | DeleteIssueMatchEvent id64
  | DeleteUserEvent id64
  | AddComponentVersionToIssueEvent id64 id64
  | CreateIssueRepositoryEvent IssueRepository
  | OtherEvent string

fun event_name :: "app_event \<Rightarrow> string" where
  "event_name (CreateServiceEvent _) = ''CreateService''"
| "event_name (DeleteServiceEvent _) = ''DeleteService''"
| "event_name (AddOwnerToServiceEvent _ _) = ''AddOwnerToService''"
| "event_name (RemoveOwnerFromServiceEvent _ _) = ''RemoveOwnerFromService''"
| "event_name (CreateSupportGroupEvent _) = ''CreateSupportGroup''"
| "event_name (DeleteSupportGroupEvent _) = ''DeleteSupportGroup''"
| "event_name (AddServiceToSupportGroupEvent _ _) = ''AddServiceToSupportGroup''"
| "event_name (RemoveServiceFromSupportGroupEvent _ _) = ''RemoveServiceFromSupportGroup''"
| "event_name (AddUserToSupportGroupEvent _ _) = ''AddUserToSupportGroup''"
| "event_name (RemoveUserFromSupportGroupEvent _ _) = ''RemoveUserFromSupportGroup''"
| "event_name (CreateComponentInstanceEvent _) = ''CreateComponentInstance''"
| "event_name (UpdateComponentInstanceEvent _) = ''UpdateComponentInstance''"
| "event_name (DeleteComponentInstanceEvent _) = ''DeleteComponentInstance''"
| "event_name (CreateComponentVersionEvent _) = ''CreateComponentVersion''"
| "event_name (UpdateComponentVersionEvent _) = ''UpdateComponentVersion''"
| "event_name (DeleteComponentVersionEvent _) = ''DeleteComponentVersion''"
| "event_name (CreateComponentEvent _) = ''CreateComponent''"
| "event_name (DeleteComponentEvent _) = ''DeleteComponent''"
| "event_name (CreateIssueMatchEvent _) = ''CreateIssueMatch''"
| "event_name (UpdateIssueMatchEvent _) = ''UpdateIssueMatch''"
| "event_name (DeleteIssueMatchEvent _) = ''DeleteIssueMatch''"
| "event_name (DeleteUserEvent _) = ''DeleteUser''"
| "event_name (AddComponentVersionToIssueEvent _ _) = ''AddComponentVersionToIssue''"
| "event_name (CreateIssueRepositoryEvent _) = ''CreateIssueRepository''"
| "event_name (OtherEvent n) = n"

end
