(* ===== verification/Handler_Base.thy ===== *)
theory Handler_Base
  imports Current_User Pagination Order_Cursor Cache Authz App_Events
begin

text \<open>
  What the handlers of the application layer (\<open>internal/app\<close>) share. A handler is a function from the
  state to a result and a new state: the state holds the database, the authorization store, the
  cache and the events pushed so far; a result is a value, a returned error or a panic. The
  environment holds the parameters: the user table and the authorization as functions of the
  state, the cache, the time and the context of the request. The queries every entity has in
  \<open>internal/database/interface.go\<close> are a record over the type of its filter and of its rows. A
  background refresh that a cache hit asks for runs after the handler.
\<close>

section \<open>Handlers\<close>

datatype fault = Panicked go_panic | Failed goerr

record ('d, 'z, 'g) app_state =
  as_db :: 'd
  as_authz :: 'z
  as_cache :: "'g cache_state"
  as_events :: "app_event list"

type_synonym ('d, 'z, 'g, 'a) handler = "('d, 'z, 'g) app_state \<Rightarrow> (fault + 'a) \<times> ('d, 'z, 'g) app_state"

definition returnH :: "'a \<Rightarrow> ('d, 'z, 'g, 'a) handler" where
  "returnH x s = (Inr x, s)"

definition failH :: "goerr \<Rightarrow> ('d, 'z, 'g, 'a) handler" where
  "failH e s = (Inl (Failed e), s)"

definition bindH ::
  "('d, 'z, 'g, 'a) handler \<Rightarrow> ('a \<Rightarrow> ('d, 'z, 'g, 'b) handler) \<Rightarrow> ('d, 'z, 'g, 'b) handler" where
  "bindH m f s = (case m s of (Inl e, s') \<Rightarrow> (Inl e, s') | (Inr x, s') \<Rightarrow> f x s')"

text \<open>An error that is wrapped or replaced before it is returned; panics pass.\<close>

definition wrapH :: "(goerr \<Rightarrow> goerr) \<Rightarrow> ('d, 'z, 'g, 'a) handler \<Rightarrow> ('d, 'z, 'g, 'a) handler" where
  "wrapH w m s = (case m s of (Inl (Failed e), s') \<Rightarrow> (Inl (Failed (w e)), s') | r \<Rightarrow> r)"

definition liftH :: "goerr + 'a \<Rightarrow> ('d, 'z, 'g, 'a) handler" where
  "liftH r s = ((case r of Inl e \<Rightarrow> Inl (Failed e) | Inr x \<Rightarrow> Inr x), s)"

definition goH :: "'a go \<Rightarrow> ('d, 'z, 'g, 'a) handler" where
  "goH r s = ((case r of Inl p \<Rightarrow> Inl (Panicked p) | Inr x \<Rightarrow> Inr x), s)"

definition pushH :: "app_event \<Rightarrow> ('d, 'z, 'g, unit) handler" where
  "pushH e s = (Inr (), s\<lparr>as_events := as_events s @ [e]\<rparr>)"

definition readH :: "('d \<Rightarrow> goerr + 'a) \<Rightarrow> ('d, 'z, 'g, 'a) handler" where
  "readH q s = liftH (q (as_db s)) s"

definition writeH :: "('d \<Rightarrow> (goerr + 'a) \<times> 'd) \<Rightarrow> ('d, 'z, 'g, 'a) handler" where
  "writeH u s = (case u (as_db s) of (r, d) \<Rightarrow> liftH r (s\<lparr>as_db := d\<rparr>))"

definition execH :: "('d \<Rightarrow> goerr option \<times> 'd) \<Rightarrow> ('d, 'z, 'g, unit) handler" where
  "execH u = writeH (\<lambda>d. case u d of (Some e, d') \<Rightarrow> (Inl e, d') | (None, d') \<Rightarrow> (Inr (), d'))"

lemmas handler_defs = returnH_def failH_def bindH_def wrapH_def liftH_def goH_def pushH_def readH_def
  writeH_def execH_def

section \<open>Environment and cached calls\<close>

record ('d, 'z, 'g) app_env =
  ae_users :: "'d \<Rightarrow> user_table"
  ae_authz :: "'z authorization"
  ae_cache :: "'g cache_ops option"
  ae_now :: int
  ae_ctx :: app_context

type_synonym 'v codec = "('v \<Rightarrow> string option) \<times> (string \<Rightarrow> goerr + 'v)"

definition CacheTtl :: duration where "CacheTtl = 12 * 3600 * 10 ^ 9"

definition cachedH ::
  "('d, 'z, 'g) app_env \<Rightarrow> 'v codec \<Rightarrow> string \<Rightarrow> ('d \<Rightarrow> goerr + 'v) \<Rightarrow> ('d, 'z, 'g, 'v) handler" where
  "cachedH env c key q s =
     (let r = CallCached (ae_cache env) (fst c) (snd c) (ae_now env)
                (Some \<lparr>cc_ttl = CacheTtl, cc_params = None, cc_key = Inr key, cc_fn = q (as_db s), cc_flight = None\<rparr>)
                (as_cache s)
      in liftH (cr_result r) (s\<lparr>as_cache := cr_state r\<rparr>))"

definition current_user :: "('d, 'z, 'g) app_env \<Rightarrow> ('d, 'z, 'g, id64) handler" where
  "current_user env = readH (\<lambda>d. GetCurrentUserId (ae_ctx env) (ae_users env d))"

definition check_permission ::
  "('d, 'z, 'g) app_env \<Rightarrow> id64 \<Rightarrow> string \<Rightarrow> id64 \<Rightarrow> ('d, 'z, 'g, bool) handler" where
  "check_permission env user objectType objectId s =
     liftH (az_CheckPermission (ae_authz env) (as_authz s)
        \<lparr>riUserType = TypeUser, riUserId = UserIdFromInt user, riRelation = RelCanView,
         riObjectType = objectType, riObjectId = ObjectIdFromInt objectId\<rparr>) s"

definition accessible_ids_of ::
  "('d, 'z, 'g) app_env \<Rightarrow> id64 \<Rightarrow> string \<Rightarrow> ('d, 'z, 'g, id64 option list) handler" where
  "accessible_ids_of env user objectType s =
     liftH (az_GetListOfAccessibleObjectIds (ae_authz env) (as_authz s) (UserIdFromInt user) objectType) s"

section \<open>Lists\<close>

record ListOptions =
  ShowTotalCount :: bool
  ShowPageInfo :: bool
  IncludeAggregations :: bool
  loOrder :: "entity_order list"

definition NewListOptions :: ListOptions where
  "NewListOptions = \<lparr>ShowTotalCount = False, ShowPageInfo = False, IncludeAggregations = False, loOrder = []\<rparr>"

definition EnsureListOptions :: "ListOptions option \<Rightarrow> ListOptions" where
  "EnsureListOptions options = (case options of None \<Rightarrow> NewListOptions | Some l \<Rightarrow> l)"

text \<open>A row is its cursor with the entity. A list pairs the rows with the count and the page information.\<close>

record 'e entity_list =
  elTotalCount :: "int option"
  elPageInfo :: "PageInfo option"
  elElements :: "(string \<times> 'e) list"

record ('d, 'f, 'e) entity_db =
  ed_get :: "'d \<Rightarrow> 'f \<Rightarrow> entity_order list \<Rightarrow> goerr + (string \<times> 'e) list"
  ed_cursors :: "'d \<Rightarrow> 'f \<Rightarrow> entity_order list \<Rightarrow> goerr + string list"
  ed_count :: "'d \<Rightarrow> 'f \<Rightarrow> goerr + int"
  ed_create :: "'d \<Rightarrow> 'e \<Rightarrow> (goerr + 'e) \<times> 'd"
  ed_update :: "'d \<Rightarrow> 'e \<Rightarrow> goerr option \<times> 'd"
  ed_delete :: "'d \<Rightarrow> id64 \<Rightarrow> id64 \<Rightarrow> goerr option \<times> 'd"

text \<open>The JSON codecs of what the handlers of an entity cache, and the key of a call with its filter and order.\<close>

record ('f, 'e) entity_codecs =
  ec_key :: "string \<Rightarrow> 'f \<Rightarrow> entity_order list option \<Rightarrow> string"
  ec_rows :: "(string \<times> 'e) list codec"
  ec_strings :: "string list codec"
  ec_count :: "int codec"

definition internal_error :: "string \<Rightarrow> string \<Rightarrow> string \<Rightarrow> goerr \<Rightarrow> goerr" where
  "internal_error opn entity eid e = AppErr (InternalError opn entity eid (Some e))"

text \<open>\<open>errors.As\<close> with a duplicate-entry error of the database as target.\<close>

fun is_duplicate :: "goerr \<Rightarrow> bool" where
  "is_duplicate (ErrVal t m) = (t = ''DuplicateEntryDatabaseError'')"
| "is_duplicate (WrapErr p e) = is_duplicate e"
| "is_duplicate (AppErr (AppError c en i opn m (Some e) fs)) = is_duplicate e"
| "is_duplicate (AppErr (AppError c en i opn m None fs)) = False"

text \<open>
  Restriction to the accessible objects: the current user's accessible ids of a type combined with
  the ids of the filter. The ids in filters are never nil here.
\<close>

definition restrict_ids :: "id64 list \<Rightarrow> id64 option list \<Rightarrow> id64 list" where
  "restrict_ids filterIds accessibleIds =
     List.map_filter (\<lambda>i. i) (CombineFilterWithAccessibleIds (map Some filterIds) accessibleIds)"

definition restricted ::
  "('d, 'z, 'g) app_env \<Rightarrow> (goerr \<Rightarrow> goerr) \<Rightarrow> string \<Rightarrow> id64 list \<Rightarrow> ('d, 'z, 'g, id64 list) handler" where
  "restricted env internal objectType filterIds =
     bindH (wrapH internal (current_user env)) (\<lambda>user.
     bindH (wrapH internal (accessible_ids_of env user objectType)) (\<lambda>acc.
       returnH (restrict_ids filterIds acc)))"

text \<open>The end of every list handler: page information from the cursors of all rows, or only the count.\<close>

definition list_pages ::
  "ListOptions \<Rightarrow> Paginated \<Rightarrow> (string \<times> 'e) list \<Rightarrow> ('d, 'z, 'g, string list) handler \<Rightarrow> ('d, 'z, 'g, int) handler
   \<Rightarrow> ('d, 'z, 'g, 'e entity_list) handler" where
  "list_pages options page res cursors counted =
     (if ShowPageInfo options then
        (if res \<noteq> [] then
           bindH cursors (\<lambda>cs.
           bindH (goH (GetPageInfo (map fst res) cs (the (First page)) (PAfter page))) (\<lambda>info.
             returnH \<lparr>elTotalCount = Some (int (length cs)), elPageInfo = Some info, elElements = res\<rparr>))
         else returnH \<lparr>elTotalCount = Some 0, elPageInfo = None, elElements = res\<rparr>)
      else if ShowTotalCount options then
        bindH counted (\<lambda>n. returnH \<lparr>elTotalCount = Some n, elPageInfo = None, elElements = res\<rparr>)
      else returnH \<lparr>elTotalCount = Some 0, elPageInfo = None, elElements = res\<rparr>)"

text \<open>A batch lookup: cached under the ids it is asked for.\<close>

definition cached_by_ids ::
  "('d, 'z, 'g) app_env \<Rightarrow> 'v codec \<Rightarrow> (string \<Rightarrow> 'k \<Rightarrow> string) \<Rightarrow> string \<Rightarrow> ('d \<Rightarrow> 'k \<Rightarrow> goerr + 'v) \<Rightarrow> 'k
   \<Rightarrow> ('d, 'z, 'g, 'v) handler" where
  "cached_by_ids env c key fn q ids = cachedH env c (key fn ids) (\<lambda>d. q d ids)"

text \<open>The single row of a list, or an error.\<close>

definition single :: "goerr \<Rightarrow> 'e entity_list \<Rightarrow> ('d, 'z, 'g, 'e) handler" where
  "single e l = (case elElements l of [r] \<Rightarrow> returnH (snd r) | _ \<Rightarrow> failH e)"

section \<open>Rules\<close>

text \<open>
  A reading handler leaves the database and the authorization store as they are and adds to the
  events; only the cache may change. The rules follow the syntax of the handlers.
\<close>

definition extends_state :: "('d, 'z, 'g) app_state \<Rightarrow> ('d, 'z, 'g) app_state \<Rightarrow> bool" where
  "extends_state s t \<longleftrightarrow> as_db t = as_db s \<and> as_authz t = as_authz s \<and> (\<exists>es. as_events t = as_events s @ es)"

definition only_reads :: "('d, 'z, 'g, 'a) handler \<Rightarrow> bool" where
  "only_reads m \<longleftrightarrow> (\<forall>s. extends_state s (snd (m s)))"

named_theorems reading

lemma extends_refl [simp]: "extends_state s s"
  by (simp add: extends_state_def)

lemma extends_state_trans: "extends_state s t \<Longrightarrow> extends_state t u \<Longrightarrow> extends_state s u"
  by (auto simp: extends_state_def)

lemma only_reads_step: "only_reads m \<Longrightarrow> m s = (r, t) \<Longrightarrow> extends_state s t"
  by (metis only_reads_def snd_conv)

lemma only_reads_basic [reading]:
  "only_reads (returnH x)" "only_reads (failH e)" "only_reads (liftH r)" "only_reads (goH g)" "only_reads (pushH ev)"
  "only_reads (readH q)" "only_reads (cachedH env c key q)" "only_reads (current_user env)"
  "only_reads (check_permission env user ot oid)" "only_reads (accessible_ids_of env user ot)"
  by (simp_all add: only_reads_def extends_state_def handler_defs cachedH_def current_user_def check_permission_def
      accessible_ids_of_def Let_def)

lemma only_reads_bind [reading]:
  assumes m: "only_reads m" and f: "\<And>x. only_reads (f x)"
  shows "only_reads (bindH m f)"
  unfolding only_reads_def
proof
  fix s
  obtain r t where r: "m s = (r, t)" by force
  from only_reads_step [OF m r] have "extends_state s t" .
  moreover have "extends_state t (snd (f x t))" for x
    using f [of x] by (simp add: only_reads_def)
  ultimately show "extends_state s (snd (bindH m f s))"
    by (cases r) (auto simp: bindH_def r intro: extends_state_trans)
qed

lemma only_reads_wrap [reading]: "only_reads m \<Longrightarrow> only_reads (wrapH w m)"
proof -
  have "snd (wrapH w m s) = snd (m s)" for s
    by (simp add: wrapH_def split: prod.split sum.split fault.split)
  then show "only_reads m \<Longrightarrow> only_reads (wrapH w m)" by (simp add: only_reads_def)
qed

lemma only_reads_if [reading]: "only_reads m \<Longrightarrow> only_reads n \<Longrightarrow> only_reads (if b then m else n)"
  by simp

lemma only_reads_option [reading]:
  "only_reads m \<Longrightarrow> (\<And>x. only_reads (f x)) \<Longrightarrow> only_reads (case v of None \<Rightarrow> m | Some x \<Rightarrow> f x)"
  by (simp split: option.split)

lemma only_reads_list [reading]:
  "only_reads m \<Longrightarrow> (\<And>x xs. only_reads (f x xs)) \<Longrightarrow> only_reads (case v of [] \<Rightarrow> m | x # xs \<Rightarrow> f x xs)"
  by (simp split: list.split)

lemma only_reads_helpers [reading]:
  "only_reads (restricted env w ot ids)"
  "only_reads cs \<Longrightarrow> only_reads n \<Longrightarrow> only_reads (list_pages options page res cs n)"
  "only_reads (single e l)" "only_reads (cached_by_ids env cv key fn qd ks)"
  by (simp_all add: restricted_def list_pages_def cached_by_ids_def Let_def reading)
    (auto simp: single_def reading split: list.split)

text \<open>Running a handler that is a sequence.\<close>

lemma bind_value: "m s = (Inr x, s') \<Longrightarrow> bindH m f s = f x s'"
  by (simp add: bindH_def)

lemma bind_fault: "m s = (Inl e, s') \<Longrightarrow> bindH m f s = (Inl e, s')"
  by (simp add: bindH_def)

lemma bind_cases:
  assumes "bindH m f s = (Inr y, t)"
  obtains x s' where "m s = (Inr x, s')" and "f x s' = (Inr y, t)"
  using assms by (auto simp: bindH_def split: prod.splits sum.splits)

lemma wrap_value [simp]: "wrapH w m s = (Inr x, t) \<longleftrightarrow> m s = (Inr x, t)"
  by (auto simp: wrapH_def split: prod.splits sum.splits fault.splits)

lemma wrap_panic: "m s = (Inl (Panicked p), t) \<Longrightarrow> wrapH w m s = (Inl (Panicked p), t)"
  by (simp add: wrapH_def)

lemma push_value [simp]: "pushH e s = (Inr (), s\<lparr>as_events := as_events s @ [e]\<rparr>)"
  by (simp add: pushH_def)

lemma return_value [simp]: "returnH x s = (Inr x, s)"
  by (simp add: returnH_def)

lemma fail_value [simp]: "failH e s = (Inl (Failed e), s)"
  by (simp add: failH_def)

text \<open>The elements of a list are the rows that were read.\<close>

lemma list_pages_elements: "list_pages options page res cs n s = (Inr l, t) \<Longrightarrow> elElements l = res"
  by (auto simp: list_pages_def elim!: bind_cases split: if_splits)

lemma restricted_value:
  assumes "restricted env w ot ids s = (Inr ids', t)"
  shows "t = s \<and> (\<exists>user acc. GetCurrentUserId (ae_ctx env) (ae_users env (as_db s)) = Inr user
    \<and> az_GetListOfAccessibleObjectIds (ae_authz env) (as_authz s) (UserIdFromInt user) ot = Inr acc
    \<and> ids' = restrict_ids ids acc)"
  using assms
  by (auto simp: restricted_def current_user_def accessible_ids_of_def readH_def liftH_def elim!: bind_cases split: sum.splits)

text \<open>Without a cache a cached call is the query, and a query leaves the state as it is.\<close>

lemma read_value [simp]: "readH q s = (Inr x, t) \<longleftrightarrow> q (as_db s) = Inr x \<and> t = s"
  by (auto simp: readH_def liftH_def split: sum.splits)

lemma cached_disabled: "ae_cache env = None \<Longrightarrow> cachedH env c key q = wrapH (WrapErr ''execution failed: '') (readH q)"
  by (rule ext) (simp add: cachedH_def readH_def CallCached_def callDisabled_def liftH_def wrapH_def Let_def split: sum.split)

lemma write_value: "u (as_db s) = (Inr x, d) \<Longrightarrow> writeH u s = (Inr x, s\<lparr>as_db := d\<rparr>)"
  by (simp add: writeH_def liftH_def)

lemma exec_value: "u (as_db s) = (None, d) \<Longrightarrow> execH u s = (Inr (), s\<lparr>as_db := d\<rparr>)"
  by (simp add: execH_def writeH_def liftH_def)

lemma user_value:
  "GetCurrentUserId (ae_ctx env) (ae_users env (as_db s)) = Inr user \<Longrightarrow> current_user env s = (Inr user, s)"
  by (simp add: current_user_def)

lemma permission_value:
  "az_CheckPermission (ae_authz env) (as_authz s) \<lparr>riUserType = TypeUser, riUserId = UserIdFromInt user,
     riRelation = RelCanView, riObjectType = ot, riObjectId = ObjectIdFromInt i\<rparr> = Inr b
   \<Longrightarrow> check_permission env user ot i s = (Inr b, s)"
  by (simp add: check_permission_def liftH_def)

lemma wrapped_value: "m s = (Inr x, t) \<Longrightarrow> bindH (wrapH w m) f s = f x t"
  by (rule bind_value) simp

lemma bind_push [simp]: "bindH (pushH e) f s = f () (s\<lparr>as_events := as_events s @ [e]\<rparr>)"
  by (simp add: bind_value [OF push_value])

lemma bind_fail [simp]: "bindH (failH e) f s = (Inl (Failed e), s)"
  by (rule bind_fault) simp

lemma bind_go [simp]: "bindH (goH (Inr x)) f s = f x s" "bindH (goH (Inl p)) f s = (Inl (Panicked p), s)"
  by (simp_all add: bindH_def goH_def)

lemma run_user:
  "GetCurrentUserId (ae_ctx env) (ae_users env (as_db s)) = Inr user \<Longrightarrow> bindH (wrapH w (current_user env)) f s = f user s"
  by (rule wrapped_value) (rule user_value)

lemma run_permission:
  "az_CheckPermission (ae_authz env) (as_authz s) \<lparr>riUserType = TypeUser, riUserId = UserIdFromInt user,
     riRelation = RelCanView, riObjectType = ot, riObjectId = ObjectIdFromInt i\<rparr> = Inr b
   \<Longrightarrow> bindH (wrapH w (check_permission env user ot i)) f s = f b s"
  by (rule wrapped_value) (rule permission_value)

lemma run_exec: "u (as_db s) = (None, d) \<Longrightarrow> bindH (wrapH w (execH u)) f s = f () (s\<lparr>as_db := d\<rparr>)"
  by (rule wrapped_value) (rule exec_value)

lemma run_write: "u (as_db s) = (Inr x, d) \<Longrightarrow> bindH (wrapH w (writeH u)) f s = f x (s\<lparr>as_db := d\<rparr>)"
  by (rule wrapped_value) (rule write_value)

lemma run_create:
  "ed_create db (as_db s) x = (Inr y, d) \<Longrightarrow> bindH (wrapH w (writeH (\<lambda>d. ed_create db d x))) f s = f y (s\<lparr>as_db := d\<rparr>)"
  by (rule run_write)

lemma run_update:
  "ed_update db (as_db s) x = (None, d) \<Longrightarrow> bindH (wrapH w (execH (\<lambda>d. ed_update db d x))) f s = f () (s\<lparr>as_db := d\<rparr>)"
  by (rule run_exec)

lemma run_delete:
  "ed_delete db (as_db s) i u = (None, d) \<Longrightarrow> bindH (wrapH w (execH (\<lambda>d. ed_delete db d i u))) f s = f () (s\<lparr>as_db := d\<rparr>)"
  by (rule run_exec)

lemma restricted_run:
  assumes "GetCurrentUserId (ae_ctx env) (ae_users env (as_db s)) = Inr user"
    and "az_GetListOfAccessibleObjectIds (ae_authz env) (as_authz s) (UserIdFromInt user) ot = Inr acc"
  shows "restricted env w ot ids s = (Inr (restrict_ids ids acc), s)"
proof -
  have a: "accessible_ids_of env user ot s = (Inr acc, s)" by (simp add: accessible_ids_of_def liftH_def assms(2))
  show ?thesis by (simp add: restricted_def run_user assms(1) wrapped_value [of "accessible_ids_of env user ot", OF a])
qed

lemmas handler_runs = run_user run_permission run_exec run_write run_create run_update run_delete

lemma run_cached:
  "ae_cache env = None \<Longrightarrow> q (as_db s) = Inr x \<Longrightarrow> bindH (wrapH w (cachedH env c key q)) f s = f x s"
  by (simp add: cached_disabled wrapped_value)

lemma plain_list [simp]:
  "bindH (list_pages NewListOptions page res cs n) f s = f \<lparr>elTotalCount = Some 0, elPageInfo = None, elElements = res\<rparr> s"
  by (simp add: list_pages_def NewListOptions_def bind_value)

text \<open>
  The ids a list is restricted to: when something is accessible they are accessible and, with ids
  in the filter, among these; otherwise they are the id -1, which no object has.
\<close>

lemma restrict_ids_accessible:
  assumes "acc \<noteq> []" and "i \<in> set (restrict_ids ids acc)"
  shows "i = - 1 \<or> Some i \<in> set acc \<and> (ids \<noteq> [] \<longrightarrow> i \<in> set ids)"
proof -
  have "Some i \<in> set (CombineFilterWithAccessibleIds (map Some ids) acc)"
    using assms(2) by (force simp: restrict_ids_def List.map_filter_def)
  then show ?thesis
    using assms(1)
    by (auto simp: CombineFilterWithAccessibleIds_def Let_def getIntersectionOfIdSlices_def split: if_splits option.splits)
qed

lemma restrict_ids_nonempty:
  assumes "acc \<noteq> []" and "None \<notin> set acc"
  shows "restrict_ids ids acc \<noteq> []"
proof -
  let ?c = "CombineFilterWithAccessibleIds (map Some ids) acc"
  have "?c \<noteq> []" using assms(1) by (auto simp: CombineFilterWithAccessibleIds_def Let_def)
  moreover have "None \<notin> set ?c"
    using assms(2) by (auto simp: CombineFilterWithAccessibleIds_def Let_def getIntersectionOfIdSlices_def split: if_splits option.splits)
  ultimately show ?thesis
    by (cases ?c) (auto simp: restrict_ids_def List.map_filter_def)
qed

section \<open>An environment for examples\<close>

text \<open>User 1 sends the requests; authorization is over stored tuples and there is no cache.\<close>

definition example_env :: "('d, tuple_state, unit) app_env" where
  "example_env = \<lparr>ae_users = (\<lambda>d us. Inr [1]), ae_authz = Authz tuple_store, ae_cache = None, ae_now = 0,
     ae_ctx = NewAdminContext\<rparr>"

lemma example_env_fields [simp]:
  "ae_authz example_env = Authz tuple_store" "ae_cache example_env = None"
  by (simp_all add: example_env_def)

lemma example_env_user: "GetCurrentUserId (ae_ctx example_env) (ae_users example_env d) = Inr 1"
  by (simp add: example_env_def GetCurrentUserId_def getUserIdFromDb_def NewAdminContext_def)

definition example_app :: "'d \<Rightarrow> fga_tuple list \<Rightarrow> ('d, tuple_state, unit) app_state" where
  "example_app d ts = \<lparr>as_db = d, as_authz = \<lparr>ts_tuples = ts, ts_page = 50\<rparr>,
     as_cache = \<lparr>cs_store = (), cs_stat = \<lparr>Hit = 0, Miss = 0, Shared = 0\<rparr>\<rparr>, as_events = []\<rparr>"

lemma example_app_fields [simp]:
  "as_db (example_app d ts) = d" "as_authz (example_app d ts) = \<lparr>ts_tuples = ts, ts_page = 50\<rparr>"
  "as_events (example_app d ts) = []"
  by (simp_all add: example_app_def)

end
