(* ===== verification/Remediation_Handler.thy ===== *)
theory Remediation_Handler
  imports Handler_Base
begin

text \<open>
  The application logic of remediations (\<open>internal/app/remediation/remediation_handler.go\<close>): listing
  through the cache, creation with its validation and the check against remediations in
  progress, update and deletion.

  Parameters are the database (\<open>rem_db\<close>), the JSON codecs and the key function of the cache
  (\<open>rem_cache\<close>), \<open>net/url.Parse\<close>, reduced to the scheme and the host it yields, and the current
  time. The state holds the database, the cache and the events pushed so far. A panic is the
  left result of \<open>go\<close>, an error the left result of the call. The background refresh that a cache hit
  asks for runs after the handler.
\<close>

section \<open>Requests and state\<close>

record RemediationFilter =
  rfPage :: Paginated
  rfId :: "id64 list"
  rfSeverity :: "string list"
  rfService :: "string list"
  rfServiceId :: "id64 list"
  rfComponent :: "string list"
  rfComponentId :: "id64 list"
  rfIssue :: "string list"
  rfIssueId :: "id64 list"
  rfType :: "string list"
  rfURL :: "string list"
  rfState :: "StateFilterType list"
  rfSearch :: "string list"

definition empty_filter :: RemediationFilter where
  "empty_filter = \<lparr>rfPage = \<lparr>First = None, PAfter = None\<rparr>, rfId = [], rfSeverity = [], rfService = [],
     rfServiceId = [], rfComponent = [], rfComponentId = [], rfIssue = [], rfIssueId = [], rfType = [],
     rfURL = [], rfState = [], rfSearch = []\<rparr>"

text \<open>A result is a remediation with its cursor.\<close>

type_synonym RemediationResult = "string \<times> Remediation"

record RemediationList =
  TotalCount :: int
  rlPageInfo :: "PageInfo option"
  Elements :: "RemediationResult list"

datatype rem_event =
    ListRemediationsEvent RemediationFilter ListOptions RemediationList
  | CreateRemediationEvent Remediation
  | UpdateRemediationEvent Remediation
  | DeleteRemediationEvent id64

record 'd rem_db =
  rdb_GetAllUserIds :: "'d \<Rightarrow> user_table"
  rdb_GetRemediations :: "'d \<Rightarrow> RemediationFilter \<Rightarrow> entity_order list \<Rightarrow> goerr + RemediationResult list"
  rdb_GetAllRemediationCursors :: "'d \<Rightarrow> RemediationFilter \<Rightarrow> entity_order list \<Rightarrow> goerr + string list"
  rdb_CountRemediations :: "'d \<Rightarrow> RemediationFilter \<Rightarrow> goerr + int"
  rdb_CreateRemediation :: "'d \<Rightarrow> Remediation \<Rightarrow> (goerr + Remediation) \<times> 'd"
  rdb_UpdateRemediation :: "'d \<Rightarrow> Remediation \<Rightarrow> goerr option \<times> 'd"
  rdb_DeleteRemediation :: "'d \<Rightarrow> id64 \<Rightarrow> id64 \<Rightarrow> goerr option \<times> 'd"

record 'g rem_cache =
  rc_ops :: "'g cache_ops option"
  rc_key :: "string \<Rightarrow> RemediationFilter \<Rightarrow> entity_order list option \<Rightarrow> string"
  rc_encode_results :: "RemediationResult list \<Rightarrow> string option"
  rc_decode_results :: "string \<Rightarrow> goerr + RemediationResult list"
  rc_encode_cursors :: "string list \<Rightarrow> string option"
  rc_decode_cursors :: "string \<Rightarrow> goerr + string list"
  rc_encode_count :: "int \<Rightarrow> string option"
  rc_decode_count :: "string \<Rightarrow> goerr + int"

record ('d, 'g) rem_state =
  rs_db :: 'd
  rs_cache :: "'g cache_state"
  rs_events :: "rem_event list"

definition push :: "rem_event \<Rightarrow> ('d, 'g) rem_state \<Rightarrow> ('d, 'g) rem_state" where
  "push e s = s\<lparr>rs_events := rs_events s @ [e]\<rparr>"

definition rem_call :: "string \<Rightarrow> goerr + 'v \<Rightarrow> 'v call" where
  "rem_call key r = \<lparr>cc_ttl = CacheTtl, cc_params = None, cc_key = Inr key, cc_fn = r, cc_flight = None\<rparr>"

section \<open>Listing\<close>

definition cached_results ::
  "'d rem_db \<Rightarrow> 'g rem_cache \<Rightarrow> int \<Rightarrow> RemediationFilter \<Rightarrow> entity_order list \<Rightarrow> ('d, 'g) rem_state
   \<Rightarrow> (goerr + RemediationResult list) \<times> ('d, 'g) rem_state" where
  "cached_results db rc now f ord s =
     (let r = CallCached (rc_ops rc) (rc_encode_results rc) (rc_decode_results rc) now
                (Some (rem_call (rc_key rc ''GetRemediations'' f (Some ord)) (rdb_GetRemediations db (rs_db s) f ord)))
                (rs_cache s)
      in (cr_result r, s\<lparr>rs_cache := cr_state r\<rparr>))"

definition cached_cursors ::
  "'d rem_db \<Rightarrow> 'g rem_cache \<Rightarrow> int \<Rightarrow> RemediationFilter \<Rightarrow> entity_order list \<Rightarrow> ('d, 'g) rem_state
   \<Rightarrow> (goerr + string list) \<times> ('d, 'g) rem_state" where
  "cached_cursors db rc now f ord s =
     (let r = CallCached (rc_ops rc) (rc_encode_cursors rc) (rc_decode_cursors rc) now
                (Some (rem_call (rc_key rc ''GetAllRemediationCursors'' f (Some ord))
                   (rdb_GetAllRemediationCursors db (rs_db s) f ord)))
                (rs_cache s)
      in (cr_result r, s\<lparr>rs_cache := cr_state r\<rparr>))"

definition cached_count ::
  "'d rem_db \<Rightarrow> 'g rem_cache \<Rightarrow> int \<Rightarrow> RemediationFilter \<Rightarrow> ('d, 'g) rem_state
   \<Rightarrow> (goerr + int) \<times> ('d, 'g) rem_state" where
  "cached_count db rc now f s =
     (let r = CallCached (rc_ops rc) (rc_encode_count rc) (rc_decode_count rc) now
                (Some (rem_call (rc_key rc ''CountRemediations'' f None) (rdb_CountRemediations db (rs_db s) f)))
                (rs_cache s)
      in (cr_result r, s\<lparr>rs_cache := cr_state r\<rparr>))"

definition ListRemediations ::
  "'d rem_db \<Rightarrow> 'g rem_cache \<Rightarrow> int \<Rightarrow> RemediationFilter \<Rightarrow> ListOptions \<Rightarrow> ('d, 'g) rem_state
   \<Rightarrow> ((goerr + RemediationList) \<times> ('d, 'g) rem_state) go" where
  "ListRemediations db rc now f0 options s0 =
     (let opn = ''remediationHandler.ListRemediations'';
          f = f0\<lparr>rfPage := EnsurePaginated (rfPage f0)\<rparr>;
          done = (\<lambda>n pageInfo res s.
            let l = \<lparr>TotalCount = n, rlPageInfo = pageInfo, Elements = res\<rparr>
            in Inr (Inr l, push (ListRemediationsEvent f options l) s))
      in case cached_results db rc now f (loOrder options) s0 of
           (Inl e, s) \<Rightarrow> Inr (Inl (internal_error opn ''Remediations'' [] e), s)
         | (Inr res, s) \<Rightarrow>
             if ShowPageInfo options then
               (if res \<noteq> [] then
                  (case cached_cursors db rc now f (loOrder options) s of
                     (Inl e, s) \<Rightarrow> Inr (Inl (internal_error opn ''RemediationCursors'' [] e), s)
                   | (Inr cursors, s) \<Rightarrow>
                       bindR (GetPageInfo (map fst res) cursors (the (First (rfPage f))) (PAfter (rfPage f)))
                         (\<lambda>pageInfo. done (int (length cursors)) (Some pageInfo) res s))
                else done 0 None res s)
             else if ShowTotalCount options then
               (case cached_count db rc now f s of
                  (Inl e, s) \<Rightarrow> Inr (Inl (internal_error opn ''RemediationCount'' [] e), s)
                | (Inr n, s) \<Rightarrow> done n None res s)
             else done 0 None res s)"

section \<open>Creation\<close>

text \<open>The check against a remediation of the same service and issue that is in progress.\<close>

definition conflicts :: "gotime \<Rightarrow> Remediation \<Rightarrow> Remediation \<Rightarrow> bool" where
  "conflicts now r er =
     (let sameComponent = (remComponentId r \<le> 0 \<and> remComponentId er \<le> 0) \<or> remComponentId r = remComponentId er;
          isExpired = \<not> IsZero (remExpirationDate er) \<and> remExpirationDate er < now;
          existingIsOpen = IsZero (remExpirationDate er);
          newIsLater = \<not> IsZero (remExpirationDate r) \<and> remExpirationDate r > remExpirationDate er
      in if \<not> sameComponent then False
         else if isExpired then False
         else if remType er \<noteq> remType r then False
         else existingIsOpen \<or> \<not> newIsLater)"

text \<open>The decoded cache keys that a new remediation of an issue makes stale.\<close>

definition stale_key :: "id64 \<Rightarrow> string \<Rightarrow> bool" where
  "stale_key issueId decodedKey \<longleftrightarrow>
     (strings_Contains decodedKey (''\"issue_id\":['' @ FormatInt issueId @ '']'')
      \<or> strings_Contains decodedKey (''\"id\":['' @ FormatInt issueId @ '']''))
     \<and> (strings_Contains decodedKey ''GetIssuesWithAggregations'' \<or> strings_Contains decodedKey ''GetIssues''
        \<or> strings_Contains decodedKey ''GetAllIssueCursors'' \<or> strings_Contains decodedKey ''GetIssueVariants''
        \<or> strings_Contains decodedKey ''GetIssueMatches'')"

definition invalidate_issue :: "'g rem_cache \<Rightarrow> int \<Rightarrow> id64 \<Rightarrow> ('d, 'g) rem_state \<Rightarrow> ('d, 'g) rem_state" where
  "invalidate_issue rc now issueId s =
     (case rc_ops rc of
        None \<Rightarrow> s
      | Some ops \<Rightarrow> s\<lparr>rs_cache := (rs_cache s)\<lparr>cs_store :=
          snd (InvalidateByMatch ops (stale_key issueId) (cs_store (rs_cache s)) now)\<rparr>\<rparr>)"

definition invalid_argument :: "string \<Rightarrow> string \<Rightarrow> goerr" where
  "invalid_argument opn msg = AppErr (E [OpArg opn, StrArg ''Remediation'', CodeArg InvalidArgument, StrArg msg])"

definition CreateRemediation ::
  "'d rem_db \<Rightarrow> 'g rem_cache \<Rightarrow> int \<Rightarrow> app_context \<Rightarrow> Remediation option \<Rightarrow> ('d, 'g) rem_state
   \<Rightarrow> (goerr + Remediation) \<times> ('d, 'g) rem_state" where
  "CreateRemediation db rc now ctx remediation s =
     (let opn = ''remediationHandler.CreateRemediation'';
          users = rdb_GetAllUserIds db (rs_db s);
          invalid = (\<lambda>msg. (Inl (invalid_argument opn msg), s));
          failed = (\<lambda>e. (Inl (internal_error opn ''Remediation'' [] e), s))
      in case remediation of
           None \<Rightarrow> invalid ''remediation cannot be nil''
         | Some r \<Rightarrow>
           if remService r = [] then invalid ''Service is required''
           else if remType r = RemediationTypeRiskAccepted \<and> remURL r = []
           then invalid ''URL is required for risk accepted remediation''
           else case GetCurrentUserId ctx users of
             Inl e \<Rightarrow> failed e
           | Inr user \<Rightarrow>
             (case (if remRemediatedBy r = [] then GetCurrentUniqueUserId ctx else Inr (remRemediatedBy r)) of
                Inl e \<Rightarrow> failed e
              | Inr by' \<Rightarrow>
                (case GetUserIdByUniqueId users by' of
                   Inl e \<Rightarrow> failed e
                 | Inr byId \<Rightarrow>
                   let r = r\<lparr>remMeta := (remMeta r)\<lparr>CreatedBy := user, UpdatedBy := user\<rparr>,
                             remRemediatedBy := by', remRemediatedById := byId\<rparr>;
                       f = empty_filter\<lparr>rfServiceId := [remServiceId r], rfIssueId := [remIssueId r],
                             rfState := [Active]\<rparr>
                   in case rdb_GetRemediations db (rs_db s) f [] of
                        Inl e \<Rightarrow> failed e
                      | Inr existing \<Rightarrow>
                        if list_ex (\<lambda>er. conflicts now r (snd er)) existing
                        then invalid ''A remediation of this type is already in progress; the new expiration date must be later than the existing one.''
                        else (case rdb_CreateRemediation db (rs_db s) r of
                                (Inl e, d) \<Rightarrow> (Inl (internal_error opn ''Remediation'' [] e), s\<lparr>rs_db := d\<rparr>)
                              | (Inr r', d) \<Rightarrow>
                                  (Inr r', push (CreateRemediationEvent r')
                                     (invalidate_issue rc now (remIssueId r') (s\<lparr>rs_db := d\<rparr>)))))))"

section \<open>Update and deletion\<close>

definition expect_one :: "string \<Rightarrow> id64 \<Rightarrow> RemediationResult list \<Rightarrow> goerr + Remediation" where
  "expect_one opn i rs =
     (case rs of
        [r] \<Rightarrow> Inr (snd r)
      | _ \<Rightarrow> Inl (AppErr (E [OpArg opn, StrArg ''Remediation'', StrArg (FormatInt i), CodeArg Internal,
          StrArg (''unexpected number of remediations found after update: expected 1, got ''
            @ FormatInt (int (length rs)))])))"

definition wrap_list_error :: "string \<Rightarrow> id64 \<Rightarrow> goerr \<Rightarrow> goerr" where
  "wrap_list_error opn i e =
     AppErr (E [OpArg opn, StrArg ''Remediation'', StrArg (FormatInt i), CodeArg Internal, ErrArg (Some e)])"

definition list_by_id ::
  "'d rem_db \<Rightarrow> 'g rem_cache \<Rightarrow> int \<Rightarrow> string \<Rightarrow> id64 \<Rightarrow> ('d, 'g) rem_state
   \<Rightarrow> ((goerr + Remediation) \<times> ('d, 'g) rem_state) go" where
  "list_by_id db rc now opn i s =
     bindR (ListRemediations db rc now (empty_filter\<lparr>rfId := [i]\<rparr>) NewListOptions s) (\<lambda>r. Inr (case r of
        (Inl e, s) \<Rightarrow> (Inl (wrap_list_error opn i e), s)
      | (Inr l, s) \<Rightarrow> (expect_one opn i (Elements l), s)))"

definition valid_external_url :: "(string \<Rightarrow> (string \<times> string) option) \<Rightarrow> string \<Rightarrow> bool" where
  "valid_external_url parse u =
     (case parse u of
        None \<Rightarrow> False
      | Some (scheme, host) \<Rightarrow> host \<noteq> [] \<and> (scheme = ''http'' \<or> scheme = ''https''))"

definition UpdateRemediation ::
  "'d rem_db \<Rightarrow> 'g rem_cache \<Rightarrow> (string \<Rightarrow> (string \<times> string) option) \<Rightarrow> int \<Rightarrow> app_context
   \<Rightarrow> Remediation option \<Rightarrow> ('d, 'g) rem_state \<Rightarrow> ((goerr + Remediation) \<times> ('d, 'g) rem_state) go" where
  "UpdateRemediation db rc parse now ctx remediation s0 =
     (let opn = ''remediationHandler.UpdateRemediation''
      in case remediation of
           None \<Rightarrow> Inr (Inl (invalid_argument opn ''remediation cannot be nil''), s0)
         | Some r \<Rightarrow>
           if remId r \<le> 0 then Inr (Inl (invalid_argument opn (''invalid ID: '' @ FormatInt (remId r))), s0)
           else case GetCurrentUserId ctx (rdb_GetAllUserIds db (rs_db s0)) of
             Inl e \<Rightarrow> Inr (Inl (internal_error opn ''Remediation'' (FormatInt (remId r)) e), s0)
           | Inr user \<Rightarrow>
             bindR (list_by_id db rc now opn (remId r) s0) (\<lambda>found. case found of
               (Inl e, s) \<Rightarrow> Inr (Inl e, s)
             | (Inr existing, s) \<Rightarrow>
               let finalType = (if remType r \<noteq> [] then remType r else remType existing);
                   finalURL = (if remURL r \<noteq> [] then remURL r else remURL existing);
                   r = r\<lparr>remMeta := (remMeta r)\<lparr>UpdatedBy := user\<rparr>, remURL := finalURL, remType := finalType\<rparr>
               in if finalType = RemediationTypeRiskAccepted \<and> finalURL = []
                  then Inr (Inl (invalid_argument opn ''URL is required for risk accepted remediation''), s)
                  else if finalType = RemediationTypeRiskAccepted \<and> \<not> valid_external_url parse finalURL
                  then Inr (Inl (invalid_argument opn ''invalid external URL for risk accepted remediation''), s)
                  else (case rdb_UpdateRemediation db (rs_db s) r of
                          (Some e, d) \<Rightarrow> Inr (Inl (internal_error opn ''Remediation'' (FormatInt (remId r)) e),
                                            s\<lparr>rs_db := d\<rparr>)
                        | (None, d) \<Rightarrow>
                            bindR (list_by_id db rc now opn (remId r) (s\<lparr>rs_db := d\<rparr>)) (\<lambda>updated. Inr (case updated of
                              (Inl e, s) \<Rightarrow> (Inl e, s)
                            | (Inr u, s) \<Rightarrow> (Inr u, push (UpdateRemediationEvent u) s))))))"

definition DeleteRemediation ::
  "'d rem_db \<Rightarrow> app_context \<Rightarrow> id64 \<Rightarrow> ('d, 'g) rem_state \<Rightarrow> goerr option \<times> ('d, 'g) rem_state" where
  "DeleteRemediation db ctx i s =
     (let opn = ''remediationHandler.DeleteRemediation''
      in if i \<le> 0 then (Some (invalid_argument opn (''invalid ID: '' @ FormatInt i)), s)
         else case GetCurrentUserId ctx (rdb_GetAllUserIds db (rs_db s)) of
           Inl e \<Rightarrow> (Some (internal_error opn ''Remediation'' (FormatInt i) e), s)
         | Inr user \<Rightarrow>
           (case rdb_DeleteRemediation db (rs_db s) i user of
              (Some e, d) \<Rightarrow> (Some (internal_error opn ''Remediation'' (FormatInt i) e), s\<lparr>rs_db := d\<rparr>)
            | (None, d) \<Rightarrow> (None, push (DeleteRemediationEvent i) (s\<lparr>rs_db := d\<rparr>))))"

section \<open>Creation keeps open remediations alone\<close>

lemma conflicts_audit [simp]:
  "conflicts now (r\<lparr>remMeta := m, remRemediatedBy := b, remRemediatedById := i\<rparr>) er = conflicts now r er"
  by (simp add: conflicts_def)

definition in_progress_filter :: "Remediation \<Rightarrow> RemediationFilter" where
  "in_progress_filter r = empty_filter\<lparr>rfServiceId := [remServiceId r], rfIssueId := [remIssueId r], rfState := [Active]\<rparr>"

definition acceptable :: "gotime \<Rightarrow> Remediation \<Rightarrow> Remediation list \<Rightarrow> bool" where
  "acceptable now r existing \<longleftrightarrow> remService r \<noteq> [] \<and> (remType r = RemediationTypeRiskAccepted \<longrightarrow> remURL r \<noteq> [])
     \<and> list_all (\<lambda>er. \<not> conflicts now r er) existing"

definition audited :: "Remediation \<Rightarrow> id64 \<Rightarrow> string \<Rightarrow> id64 \<Rightarrow> Remediation" where
  "audited r user by' byId = r\<lparr>remMeta := (remMeta r)\<lparr>CreatedBy := user, UpdatedBy := user\<rparr>,
     remRemediatedBy := by', remRemediatedById := byId\<rparr>"

lemma list_ex_not_all: "list_ex (\<lambda>er. P (snd er)) xs \<longleftrightarrow> \<not> list_all (\<lambda>r. \<not> P r) (map snd xs)"
  by (induction xs) auto

lemma CreateRemediation_outcome:
  assumes "GetCurrentUserId ctx (rdb_GetAllUserIds db (rs_db s)) = Inr user"
    and "(if remRemediatedBy r = [] then GetCurrentUniqueUserId ctx else Inr (remRemediatedBy r)) = Inr by'"
    and "GetUserIdByUniqueId (rdb_GetAllUserIds db (rs_db s)) by' = Inr byId"
    and "rdb_GetRemediations db (rs_db s) (in_progress_filter r) [] = Inr existing"
    and "rdb_CreateRemediation db (rs_db s) (audited r user by' byId) = (Inr r', d)"
  shows "CreateRemediation db rc now ctx (Some r) s =
    (if acceptable now r (map snd existing) then
       (Inr r', push (CreateRemediationEvent r') (invalidate_issue rc now (remIssueId r') (s\<lparr>rs_db := d\<rparr>)))
     else (Inl (invalid_argument ''remediationHandler.CreateRemediation''
        (if remService r = [] then ''Service is required''
         else if remType r = RemediationTypeRiskAccepted \<and> remURL r = []
         then ''URL is required for risk accepted remediation''
         else ''A remediation of this type is already in progress; the new expiration date must be later than the existing one.'')), s))"
  using assms
  by (auto simp: CreateRemediation_def Let_def acceptable_def in_progress_filter_def audited_def list_ex_not_all)

lemma invalid_argument_text:
  "invalid_argument opn msg = AppErr (AppError InvalidArgument ''Remediation'' msg opn [] None Map.empty)" if "msg \<noteq> []"
  using that by (simp add: invalid_argument_def E_def)

text \<open>
  C35. With a database that answers, a remediation is created exactly when it names a service,
  has a URL if it accepts a risk, and conflicts with no remediation of its service and issue; then it
  is stored with the user in its audit fields, the cached issue queries are invalidated and one
  event is pushed. Otherwise nothing changes and the error has the code \<open>InvalidArgument\<close>,
  with the explanation in the field of the entity's id and an empty message.
\<close>

theorem CreateRemediation_accepts:
  assumes "GetCurrentUserId ctx (rdb_GetAllUserIds db (rs_db s)) = Inr user"
    and "(if remRemediatedBy r = [] then GetCurrentUniqueUserId ctx else Inr (remRemediatedBy r)) = Inr by'"
    and "GetUserIdByUniqueId (rdb_GetAllUserIds db (rs_db s)) by' = Inr byId"
    and "rdb_GetRemediations db (rs_db s) (in_progress_filter r) [] = Inr existing"
    and "rdb_CreateRemediation db (rs_db s) (audited r user by' byId) = (Inr r', d)"
  shows "(acceptable now r (map snd existing) \<longrightarrow> CreateRemediation db rc now ctx (Some r) s =
       (Inr r', push (CreateRemediationEvent r') (invalidate_issue rc now (remIssueId r') (s\<lparr>rs_db := d\<rparr>))))
    \<and> (\<not> acceptable now r (map snd existing) \<longrightarrow> (\<exists>msg. msg \<noteq> [] \<and> CreateRemediation db rc now ctx (Some r) s =
       (Inl (AppErr (AppError InvalidArgument ''Remediation'' msg ''remediationHandler.CreateRemediation'' [] None Map.empty)), s)))"
  unfolding CreateRemediation_outcome [OF assms] by (auto simp: invalid_argument_text)

text \<open>
  What creation relies on: the query for a service and an issue returns their rows, at most a
  thousand, and an insertion appends the row with its new id.
\<close>

definition same_group :: "Remediation \<Rightarrow> Remediation \<Rightarrow> bool" where
  "same_group a b \<longleftrightarrow> remServiceId a = remServiceId b \<and> remIssueId a = remIssueId b \<and> remType a = remType b
     \<and> ((remComponentId a \<le> 0 \<and> remComponentId b \<le> 0) \<or> remComponentId a = remComponentId b)"

definition open_last :: "Remediation list \<Rightarrow> bool" where
  "open_last rs \<longleftrightarrow> sorted_wrt (\<lambda>a b. same_group a b \<longrightarrow> \<not> IsZero (remExpirationDate a)) rs"

locale remediation_table =
  fixes db :: "'d rem_db" and rows :: "'d \<Rightarrow> Remediation list"
  assumes get_in_progress: "length (rows d) \<le> 1000 \<Longrightarrow>
      \<exists>rs. rdb_GetRemediations db d (in_progress_filter r) [] = Inr rs
        \<and> map snd rs = filter (\<lambda>e. remServiceId e = remServiceId r \<and> remIssueId e = remIssueId r) (rows d)"
    and create_appends: "\<exists>k d'. rdb_CreateRemediation db d r = (Inr (r\<lparr>remId := k\<rparr>), d') \<and> rows d' = rows d @ [r\<lparr>remId := k\<rparr>]"
    and users_found: "\<exists>ids. rdb_GetAllUserIds db d us = Inr ids"
begin

lemma create_keeps_open_last:
  assumes "open_last (rows (rs_db s))" and "length (rows (rs_db s)) \<le> 1000" and "\<not> ctx_authenticationRequired ctx"
  shows "open_last (rows (rs_db (snd (CreateRemediation db rc now ctx (Some r) s))))"
proof -
  let ?users = "rdb_GetAllUserIds db (rs_db s)"
  obtain user where user: "GetCurrentUserId ctx ?users = Inr user"
    using GetCurrentUserId_system [OF assms(3)] users_found by metis
  have "\<exists>b. (if remRemediatedBy r = [] then GetCurrentUniqueUserId ctx else Inr (remRemediatedBy r)) = Inr b"
    using assms(3) by (simp add: GetCurrentUniqueUserId_def)
  then obtain by' where b: "(if remRemediatedBy r = [] then GetCurrentUniqueUserId ctx else Inr (remRemediatedBy r)) = Inr by'"
    by blast
  obtain byId where byId: "GetUserIdByUniqueId ?users by' = Inr byId"
    using users_found [of "rs_db s" "[by']"] getUserIdFromDb_Inr by (metis GetUserIdByUniqueId_def)
  obtain existing where ex: "rdb_GetRemediations db (rs_db s) (in_progress_filter r) [] = Inr existing"
      "map snd existing = filter (\<lambda>e. remServiceId e = remServiceId r \<and> remIssueId e = remIssueId r) (rows (rs_db s))"
    using get_in_progress [OF assms(2)] by blast
  obtain k d where d: "rdb_CreateRemediation db (rs_db s) (audited r user by' byId) = (Inr ((audited r user by' byId)\<lparr>remId := k\<rparr>), d)"
      "rows d = rows (rs_db s) @ [(audited r user by' byId)\<lparr>remId := k\<rparr>]"
    using create_appends by blast
  show ?thesis
  proof (cases "acceptable now r (map snd existing)")
    case False
    then show ?thesis using assms(1) CreateRemediation_outcome [OF user b byId ex(1) d(1)] by simp
  next
    case True
    have "\<not> IsZero (remExpirationDate a)" if "a \<in> set (rows (rs_db s))" "same_group a r" for a
    proof -
      have "a \<in> set (map snd existing)" using that by (simp add: ex(2) same_group_def)
      with True have "\<not> conflicts now r a" by (auto simp: acceptable_def list_all_iff)
      with that(2) show ?thesis by (auto simp: conflicts_def same_group_def Let_def split: if_splits)
    qed
    then have "open_last (rows d)"
      using assms(1) by (auto simp: open_last_def d(2) sorted_wrt_append same_group_def audited_def)
    moreover have "rs_db (snd (CreateRemediation db rc now ctx (Some r) s)) = d"
      using True CreateRemediation_outcome [OF user b byId ex(1) d(1)]
      by (simp add: push_def invalidate_issue_def split: option.splits)
    ultimately show ?thesis by simp
  qed
qed

end

text \<open>A table of the active rows, filtered by id, service and issue; cursors are the ids.\<close>

record rem_table =
  rt_rows :: "Remediation list"
  rt_next :: id64
  rt_users :: "(string \<times> id64) list"

definition selected :: "RemediationFilter \<Rightarrow> Remediation \<Rightarrow> bool" where
  "selected f r \<longleftrightarrow> (rfId f = [] \<or> remId r \<in> set (rfId f)) \<and> (rfServiceId f = [] \<or> remServiceId r \<in> set (rfServiceId f))
     \<and> (rfIssueId f = [] \<or> remIssueId r \<in> set (rfIssueId f))"

definition with_cursor :: "Remediation \<Rightarrow> RemediationResult" where
  "with_cursor r = (FormatInt (remId r), r)"

definition rem_table_db :: "rem_table rem_db" where
  "rem_table_db = \<lparr>
     rdb_GetAllUserIds = (\<lambda>d us. Inr (map snd (filter (\<lambda>(u, i). u \<in> set us) (rt_users d)))),
     rdb_GetRemediations = (\<lambda>d f ord. Inr (take (case First (rfPage f) of None \<Rightarrow> 1000 | Some n \<Rightarrow> nat n)
        (map with_cursor (filter (selected f) (rt_rows d))))),
     rdb_GetAllRemediationCursors = (\<lambda>d f ord. Inr (map (\<lambda>r. FormatInt (remId r)) (filter (selected f) (rt_rows d)))),
     rdb_CountRemediations = (\<lambda>d f. Inr (int (length (filter (selected f) (rt_rows d))))),
     rdb_CreateRemediation = (\<lambda>d r. (Inr (r\<lparr>remId := rt_next d\<rparr>),
        d\<lparr>rt_rows := rt_rows d @ [r\<lparr>remId := rt_next d\<rparr>], rt_next := rt_next d + 1\<rparr>)),
     rdb_UpdateRemediation = (\<lambda>d r. (None, d\<lparr>rt_rows := map (\<lambda>e. if remId e = remId r then r else e) (rt_rows d)\<rparr>)),
     rdb_DeleteRemediation = (\<lambda>d i u. (None, d\<lparr>rt_rows := filter (\<lambda>e. remId e \<noteq> i) (rt_rows d)\<rparr>))\<rparr>"

interpretation rt: remediation_table rem_table_db "rt_rows :: rem_table \<Rightarrow> Remediation list"
proof
  fix d :: rem_table and r us
  show "\<exists>rs. rdb_GetRemediations rem_table_db d (in_progress_filter r) [] = Inr rs
        \<and> map snd rs = filter (\<lambda>e. remServiceId e = remServiceId r \<and> remIssueId e = remIssueId r) (rt_rows d)"
    if "length (rt_rows d) \<le> 1000"
  proof -
    have "length (map with_cursor (filter (selected (in_progress_filter r)) (rt_rows d))) \<le> 1000"
      using le_trans [OF length_filter_le that] by simp
    then show ?thesis
      by (auto simp: rem_table_db_def in_progress_filter_def empty_filter_def with_cursor_def comp_def
          selected_def intro!: filter_cong)
  qed
  show "\<exists>k d'. rdb_CreateRemediation rem_table_db d r = (Inr (r\<lparr>remId := k\<rparr>), d') \<and> rt_rows d' = rt_rows d @ [r\<lparr>remId := k\<rparr>]"
    by (intro exI [of _ "rt_next d"]) (simp add: rem_table_db_def)
  show "\<exists>ids. rdb_GetAllUserIds rem_table_db d us = Inr ids" by (simp add: rem_table_db_def)
qed

text \<open>
  Creation keeps the invariant that a remediation without expiration is the last one
  of its service, issue, component and type: once it is in force nothing is created beside it.
\<close>

theorem CreateRemediation_keeps_open_last:
  assumes "open_last (rt_rows (rs_db s))" and "length (rt_rows (rs_db s)) \<le> 1000"
    and "\<not> ctx_authenticationRequired ctx"
  shows "open_last (rt_rows (rs_db (snd (CreateRemediation rem_table_db rc now ctx (Some r) s))))"
  by (rule rt.create_keeps_open_last [OF assms])

section \<open>An update and the cached list\<close>

definition by_id_filter :: "id64 \<Rightarrow> RemediationFilter" where
  "by_id_filter i = empty_filter\<lparr>rfPage := \<lparr>First = Some 10, PAfter = Some []\<rparr>, rfId := [i]\<rparr>"

lemma ensured_by_id: "empty_filter\<lparr>rfId := [i], rfPage := EnsurePaginated (rfPage empty_filter)\<rparr> = by_id_filter i"
  by (simp add: by_id_filter_def empty_filter_def EnsurePaginated_def)

lemma NewListOptions_simps [simp]:
  "ShowPageInfo NewListOptions = False" "ShowTotalCount NewListOptions = False" "loOrder NewListOptions = []"
  by (simp_all add: NewListOptions_def)

lemma list_by_id_cached:
  assumes "cached_results db rc now (by_id_filter i) [] s = (Inr [(c, r)], s')"
  shows "list_by_id db rc now opn i s = Inr (Inr r, push (ListRemediationsEvent (by_id_filter i) NewListOptions
      \<lparr>TotalCount = 0, rlPageInfo = None, Elements = [(c, r)]\<rparr>) s')"
  using assms by (simp add: list_by_id_def ListRemediations_def Let_def expect_one_def ensured_by_id)

lemma cached_results_disabled:
  assumes "rc_ops rc = None" and "rdb_GetRemediations db (rs_db s) f ord = Inr res"
  shows "cached_results db rc now f ord s = (Inr res, s)"
  using assms by (simp add: cached_results_def CallCached_def callDisabled_def rem_call_def)

lemma cached_results_twice:
  assumes "rc_ops rc = Some (in_memory_cache expiring_map kh)" and "em_valid (cs_store (rs_cache s))"
    and "em_content (cs_store (rs_cache s)) now (rc_key rc ''GetRemediations'' f (Some ord)) = None"
    and "rdb_GetRemediations db (rs_db s) f ord = Inr res"
    and "rc_encode_results rc res = Some enc" and "rc_decode_results rc enc = Inr res"
  shows "\<exists>c1 c2. cached_results db rc now f ord s = (Inr res, s\<lparr>rs_cache := c1\<rparr>)
    \<and> (\<forall>s2. rs_cache s2 = c1 \<longrightarrow> cached_results db rc now f ord s2 = (Inr res, s2\<lparr>rs_cache := c2\<rparr>))"
proof -
  let ?key = "rc_key rc ''GetRemediations'' f (Some ord)"
  have hit: "\<exists>s1. CallCached (rc_ops rc) (rc_encode_results rc) (rc_decode_results rc) now
        (Some (rem_call ?key (Inr res))) (rs_cache s) = \<lparr>cr_result = Inr res, cr_state = s1, cr_executed = True, cr_refresh = False\<rparr>
      \<and> CallCached (rc_ops rc) (rc_encode_results rc) (rc_decode_results rc) now (Some (rem_call ?key x)) s1 =
        \<lparr>cr_result = Inr res, cr_state = s1\<lparr>cs_stat := IncHit (cs_stat s1)\<rparr>, cr_executed = False, cr_refresh = True\<rparr>" for x
    unfolding assms(1)
    using em.imc.miss_then_hit [where c = "rem_call ?key (Inr res)" and c' = "rem_call ?key x" and key = ?key
        and s = "rs_cache s" and now = now and now' = now and v = res and enc = enc and kh = kh
        and encode = "rc_encode_results rc" and decode = "rc_decode_results rc"] assms(2-6)
    by (simp add: rem_call_def CacheTtl_def) blast
  obtain s1 where s1: "CallCached (rc_ops rc) (rc_encode_results rc) (rc_decode_results rc) now
        (Some (rem_call ?key (Inr res))) (rs_cache s) = \<lparr>cr_result = Inr res, cr_state = s1, cr_executed = True, cr_refresh = False\<rparr>"
    using hit by blast
  have "CallCached (rc_ops rc) (rc_encode_results rc) (rc_decode_results rc) now (Some (rem_call ?key x)) s1 =
      \<lparr>cr_result = Inr res, cr_state = s1\<lparr>cs_stat := IncHit (cs_stat s1)\<rparr>, cr_executed = False, cr_refresh = True\<rparr>" for x
    using hit [of x] unfolding s1 by simp
  with s1 show ?thesis
    by (intro exI [of _ s1] exI [of _ "s1\<lparr>cs_stat := IncHit (cs_stat s1)\<rparr>"]) (simp add: cached_results_def assms(4) Let_def)
qed

definition update_of :: "Remediation \<Rightarrow> Remediation \<Rightarrow> id64 \<Rightarrow> Remediation" where
  "update_of r existing user = r\<lparr>remMeta := (remMeta r)\<lparr>UpdatedBy := user\<rparr>,
     remURL := (if remURL r \<noteq> [] then remURL r else remURL existing),
     remType := (if remType r \<noteq> [] then remType r else remType existing)\<rparr>"

text \<open>
  C1. A successful update is written to the database, but what the caller and the pushed event
  get depends on the cache: without one it is the row after the update, with the in-memory cache
  it is the row as it was before, which the first lookup of the handler has put in the cache
  and the second lookup finds there.
\<close>

theorem UpdateRemediation_returns_cached_row:
  assumes "rc_ops rc = Some (in_memory_cache expiring_map kh)" and "em_valid (cs_store (rs_cache s))"
    and "em_content (cs_store (rs_cache s)) now (rc_key rc ''GetRemediations'' (by_id_filter (remId r)) (Some [])) = None"
    and "rc_encode_results rc [(c, old)] = Some enc" and "rc_decode_results rc enc = Inr [(c, old)]"
    and "0 < remId r" and "GetCurrentUserId ctx (rdb_GetAllUserIds db (rs_db s)) = Inr user"
    and "rdb_GetRemediations db (rs_db s) (by_id_filter (remId r)) [] = Inr [(c, old)]"
    and "remType (update_of r old user) \<noteq> RemediationTypeRiskAccepted"
    and "rdb_UpdateRemediation db (rs_db s) (update_of r old user) = (None, d)"
    and "rdb_GetRemediations db d (by_id_filter (remId r)) [] = Inr [(c', new)]"
  shows "(\<exists>s'. UpdateRemediation db rc parse now ctx (Some r) s = Inr (Inr old, s') \<and> rs_db s' = d
        \<and> last (rs_events s') = UpdateRemediationEvent old)
    \<and> (\<exists>s'. UpdateRemediation db (rc\<lparr>rc_ops := None\<rparr>) parse now ctx (Some r) s = Inr (Inr new, s') \<and> rs_db s' = d
        \<and> last (rs_events s') = UpdateRemediationEvent new)"
proof -
  let ?opn = "''remediationHandler.UpdateRemediation''" and ?i = "remId r"
  have step: "UpdateRemediation db x parse now ctx (Some r) s = Inr (Inr u, push (UpdateRemediationEvent u) s2)"
    if "list_by_id db x now ?opn ?i s = Inr (Inr old, s1)" and "rs_db s1 = rs_db s"
      and "list_by_id db x now ?opn ?i (s1\<lparr>rs_db := d\<rparr>) = Inr (Inr u, s2)" for x s1 s2 u
    using that assms(6,7,9,10) by (simp add: UpdateRemediation_def Let_def update_of_def)
  obtain c1 c2 where c: "cached_results db rc now (by_id_filter ?i) [] s = (Inr [(c, old)], s\<lparr>rs_cache := c1\<rparr>)"
      "\<And>s2. rs_cache s2 = c1 \<Longrightarrow> cached_results db rc now (by_id_filter ?i) [] s2 = (Inr [(c, old)], s2\<lparr>rs_cache := c2\<rparr>)"
    using cached_results_twice [OF assms(1-3) assms(8) assms(4,5)] by blast
  let ?ev = "\<lambda>c r. ListRemediationsEvent (by_id_filter ?i) NewListOptions
      \<lparr>TotalCount = 0, rlPageInfo = None, Elements = [(c, r)]\<rparr>"
  let ?s1 = "push (?ev c old) (s\<lparr>rs_cache := c1\<rparr>)"
  have l1: "list_by_id db rc now ?opn ?i s = Inr (Inr old, ?s1)" by (rule list_by_id_cached [OF c(1)])
  have l2: "list_by_id db rc now ?opn ?i (?s1\<lparr>rs_db := d\<rparr>) =
      Inr (Inr old, push (?ev c old) (?s1\<lparr>rs_db := d, rs_cache := c2\<rparr>))"
    by (rule list_by_id_cached) (simp add: c(2) push_def)
  have a: "UpdateRemediation db rc parse now ctx (Some r) s = Inr (Inr old, push (UpdateRemediationEvent old)
      (push (?ev c old) (?s1\<lparr>rs_db := d, rs_cache := c2\<rparr>)))"
    by (rule step [OF l1 _ l2]) (simp add: push_def)
  let ?x = "rc\<lparr>rc_ops := None\<rparr>" and ?t1 = "push (?ev c old) s"
  have m1: "list_by_id db ?x now ?opn ?i s = Inr (Inr old, ?t1)"
    by (rule list_by_id_cached) (simp add: cached_results_disabled assms(8))
  have m2: "list_by_id db ?x now ?opn ?i (?t1\<lparr>rs_db := d\<rparr>) = Inr (Inr new, push (?ev c' new) (?t1\<lparr>rs_db := d\<rparr>))"
    by (rule list_by_id_cached) (simp add: cached_results_disabled assms(11) push_def)
  have b: "UpdateRemediation db ?x parse now ctx (Some r) s = Inr (Inr new, push (UpdateRemediationEvent new)
      (push (?ev c' new) (?t1\<lparr>rs_db := d\<rparr>)))"
    by (rule step [OF m1 _ m2]) (simp add: push_def)
  show ?thesis unfolding a b by (simp add: push_def)
qed

section \<open>Examples\<close>

definition example_remediation :: "id64 \<Rightarrow> string \<Rightarrow> string \<Rightarrow> gotime \<Rightarrow> Remediation" where
  "example_remediation i ty url expires = \<lparr>remMeta = zero_metadata, remId = i, remType = ty, remURL = url,
     remDescription = [], remRemediationDate = 0, remExpirationDate = expires, remSeverity = SeverityValuesUnknown,
     remService = ''svc'', remServiceId = 2, remComponent = [], remComponentId = 0, remIssue = [], remIssueId = 3,
     remRemediatedBy = [], remRemediatedById = 0\<rparr>"

definition example_state :: "Remediation list \<Rightarrow> (rem_table, exp_map) rem_state" where
  "example_state rows = \<lparr>rs_db = \<lparr>rt_rows = rows, rt_next = 9, rt_users = [(''S0000000'', 1)]\<rparr>,
     rs_cache = \<lparr>cs_store = [], cs_stat = \<lparr>Hit = 0, Miss = 0, Shared = 0\<rparr>\<rparr>, rs_events = []\<rparr>"

definition example_cache :: "RemediationResult list \<Rightarrow> exp_map rem_cache" where
  "example_cache res = \<lparr>rc_ops = Some (in_memory_cache expiring_map KEY_HASH_NONE), rc_key = (\<lambda>f x ord. f),
     rc_encode_results = (\<lambda>r. Some ''results''), rc_decode_results = (\<lambda>x. Inr res),
     rc_encode_cursors = (\<lambda>r. None), rc_decode_cursors = (\<lambda>x. Inr []),
     rc_encode_count = (\<lambda>r. None), rc_decode_count = (\<lambda>x. Inr 0)\<rparr>"

lemma example_user:
  "GetCurrentUserId NewAdminContext (rdb_GetAllUserIds rem_table_db (rs_db (example_state rows))) = Inr 1"
  "GetUserIdByUniqueId (rdb_GetAllUserIds rem_table_db (rs_db (example_state rows))) ''S0000000'' = Inr 1"
  by (simp_all add: GetCurrentUserId_def getUserIdFromDb_def GetUserIdByUniqueId_def NewAdminContext_def
      systemUserUniqueUserId_def rem_table_db_def example_state_def)

lemma example_in_progress:
  "rdb_GetRemediations rem_table_db (rs_db (example_state [example_remediation 1 ty url e]))
     (in_progress_filter (example_remediation j ty' url' e')) [] = Inr [with_cursor (example_remediation 1 ty url e)]"
  by (simp add: rem_table_db_def example_state_def selected_def in_progress_filter_def empty_filter_def
      example_remediation_def)

theorem CreateRemediation_accepts_witness:
  "\<exists>msg. CreateRemediation rem_table_db (example_cache []) 50 NewAdminContext
      (Some (example_remediation 0 ''rescore'' [] 90)) (example_state [example_remediation 1 ''rescore'' [] 100]) =
     (Inl (AppErr (AppError InvalidArgument ''Remediation'' msg ''remediationHandler.CreateRemediation'' [] None Map.empty)),
      example_state [example_remediation 1 ''rescore'' [] 100])"
proof -
  let ?r = "example_remediation 0 ''rescore'' [] 90" and ?er = "example_remediation 1 ''rescore'' [] 100"
  have b: "(if remRemediatedBy ?r = [] then GetCurrentUniqueUserId NewAdminContext else Inr (remRemediatedBy ?r)) = Inr ''S0000000''"
    by (simp add: example_remediation_def GetCurrentUniqueUserId_def NewAdminContext_def systemUserUniqueUserId_def)
  obtain r' d where c: "rdb_CreateRemediation rem_table_db (rs_db (example_state [?er])) (audited ?r 1 ''S0000000'' 1) = (Inr r', d)"
    by (simp add: rem_table_db_def)
  have "\<not> acceptable 50 ?r (map snd [with_cursor ?er])"
    by (simp add: acceptable_def conflicts_def with_cursor_def example_remediation_def IsZero_def)
  then show ?thesis
    using CreateRemediation_accepts [OF example_user(1) b example_user(2) example_in_progress c] by blast
qed

theorem CreateRemediation_keeps_open_last_witness:
  "open_last (rt_rows (rs_db (snd (CreateRemediation rem_table_db (example_cache []) 50 NewAdminContext
      (Some (example_remediation 0 ''rescore'' [] 0)) (example_state [example_remediation 1 ''rescore'' [] 40])))))"
  by (rule CreateRemediation_keeps_open_last)
    (simp_all add: open_last_def example_state_def NewAdminContext_def)

theorem UpdateRemediation_returns_cached_row_witness:
  "\<exists>s'. UpdateRemediation rem_table_db (example_cache [(''1'', example_remediation 1 ''rescore'' [] 40)]) (\<lambda>u. None) 50
      NewAdminContext (Some (example_remediation 1 ''mitigation'' [] 60))
      (example_state [example_remediation 1 ''rescore'' [] 40])
    = Inr (Inr (example_remediation 1 ''rescore'' [] 40), s')
    \<and> map remType (rt_rows (rs_db s')) = [''mitigation'']"
proof -
  let ?old = "example_remediation 1 ''rescore'' [] 40" and ?r = "example_remediation 1 ''mitigation'' [] 60"
  let ?s = "example_state [?old]" and ?rc = "example_cache [(''1'', ?old)]"
  let ?new = "update_of ?r ?old 1"
  let ?d = "(rs_db ?s)\<lparr>rt_rows := [?new]\<rparr>"
  have i: "FormatInt 1 = ''1''" by code_simp
  have get: "rdb_GetRemediations rem_table_db (rs_db ?s) (by_id_filter (remId ?r)) [] = Inr [(''1'', ?old)]"
    by (simp add: rem_table_db_def example_state_def selected_def by_id_filter_def empty_filter_def
        example_remediation_def with_cursor_def i)
  have upd: "rdb_UpdateRemediation rem_table_db (rs_db ?s) ?new = (None, ?d)"
    by (simp add: rem_table_db_def example_state_def update_of_def example_remediation_def)
  have get': "rdb_GetRemediations rem_table_db ?d (by_id_filter (remId ?r)) [] = Inr [(''1'', ?new)]"
    by (simp add: rem_table_db_def example_state_def selected_def by_id_filter_def empty_filter_def
        example_remediation_def with_cursor_def update_of_def i)
  have "rc_ops ?rc = Some (in_memory_cache expiring_map KEY_HASH_NONE)" "em_valid (cs_store (rs_cache ?s))"
    "em_content (cs_store (rs_cache ?s)) 50 (rc_key ?rc ''GetRemediations'' (by_id_filter (remId ?r)) (Some [])) = None"
    "rc_encode_results ?rc [(''1'', ?old)] = Some ''results''" "rc_decode_results ?rc ''results'' = Inr [(''1'', ?old)]"
    "0 < remId ?r"
    by (simp_all add: example_cache_def example_state_def em_valid_def em_content_def em_Get_def example_remediation_def)
  note h = this
  have "remType ?new \<noteq> RemediationTypeRiskAccepted"
    by (simp add: update_of_def example_remediation_def remediation_type_defs)
  from UpdateRemediation_returns_cached_row [OF h example_user(1) get this upd get', of "\<lambda>u. None"]
  obtain s' where "UpdateRemediation rem_table_db ?rc (\<lambda>u. None) 50 NewAdminContext (Some ?r) ?s = Inr (Inr ?old, s')"
    "rs_db s' = ?d"
    by blast
  then show ?thesis by (simp add: update_of_def example_remediation_def)
qed

end
