(* ===== verification/Authz_Events.thy ===== *)
theory Authz_Events
  imports Authz App_Events
begin

text \<open>
  The event handlers that keep the relation tuples (\<open>*_handler_events.go\<close> under \<open>internal/app\<close>)
  and their subscription (\<open>SubscribeAuthzHandlers\<close> in \<open>internal/app/heureka.go\<close>). A handler that
  gets an event of another type only logs it; a failed call is logged, so the new state of the
  store is all a handler yields.
\<close>

section \<open>Handlers\<close>

type_synonym 's authz_handler = "'s authorization \<Rightarrow> 's \<Rightarrow> app_event \<Rightarrow> 's"

text \<open>
  The relations and the filters of the handlers: all fields, an object, or a user with the
  type of an object.
\<close>

definition relation :: "string \<Rightarrow> id64 \<Rightarrow> string \<Rightarrow> string \<Rightarrow> id64 \<Rightarrow> RelationInput" where
  "relation ut u rel ot i = \<lparr>riUserType = ut, riUserId = UserIdFromInt u, riRelation = rel,
     riObjectType = ot, riObjectId = ObjectIdFromInt i\<rparr>"

definition object_filter :: "string \<Rightarrow> id64 \<Rightarrow> RelationInput" where
  "object_filter ot i = \<lparr>riUserType = [], riUserId = [], riRelation = [],
     riObjectType = ot, riObjectId = ObjectIdFromInt i\<rparr>"

definition user_filter :: "string \<Rightarrow> id64 \<Rightarrow> string \<Rightarrow> RelationInput" where
  "user_filter ut u ot = \<lparr>riUserType = ut, riUserId = UserIdFromInt u, riRelation = [],
     riObjectType = ot, riObjectId = []\<rparr>"

section \<open>Services\<close>

definition OnServiceCreateAuthz :: "'s authz_handler" where
  "OnServiceCreateAuthz az s e = (case e of
     CreateServiceEvent v \<Rightarrow>
       snd (az_AddRelationBulk az s [relation TypeRole (CreatedBy (svcMeta v)) RelRole TypeService (svcId v)])
   | _ \<Rightarrow> s)"

definition OnServiceDeleteAuthz :: "'s authz_handler" where
  "OnServiceDeleteAuthz az s e = (case e of
     DeleteServiceEvent i \<Rightarrow>
       snd (az_RemoveRelationBulk az s [object_filter TypeService i, user_filter TypeService i TypeComponentInstance])
   | _ \<Rightarrow> s)"

definition OnAddOwnerToService :: "'s authz_handler" where
  "OnAddOwnerToService az s e = (case e of
     AddOwnerToServiceEvent v ow \<Rightarrow> snd (az_AddRelationBulk az s [relation TypeUser ow RelOwner TypeService v])
   | _ \<Rightarrow> s)"

definition OnRemoveOwnerFromService :: "'s authz_handler" where
  "OnRemoveOwnerFromService az s e = (case e of
     RemoveOwnerFromServiceEvent v ow \<Rightarrow> snd (az_RemoveRelation az s (relation TypeUser ow RelOwner TypeService v))
   | _ \<Rightarrow> s)"

section \<open>Support groups\<close>

definition OnSupportGroupCreateAuthz :: "'s authz_handler" where
  "OnSupportGroupCreateAuthz az s e = (case e of
     CreateSupportGroupEvent g \<Rightarrow>
       snd (az_AddRelationBulk az s [relation TypeRole (CreatedBy (sgMeta g)) RelRole TypeSupportGroup (sgId g)])
   | _ \<Rightarrow> s)"

definition OnSupportGroupDeleteAuthz :: "'s authz_handler" where
  "OnSupportGroupDeleteAuthz az s e = (case e of
     DeleteSupportGroupEvent i \<Rightarrow>
       (let s1 = snd (az_RemoveRelation az s (relation TypeSupportGroup i RelSupportGroup TypeSupportGroup i))
        in snd (az_RemoveRelationBulk az s1
             [object_filter TypeSupportGroup i, user_filter TypeSupportGroup i TypeService,
              user_filter TypeSupportGroup i TypeSupportGroup]))
   | _ \<Rightarrow> s)"

definition OnAddServiceToSupportGroup :: "'s authz_handler" where
  "OnAddServiceToSupportGroup az s e = (case e of
     AddServiceToSupportGroupEvent g v \<Rightarrow>
       snd (az_AddRelationBulk az s [relation TypeSupportGroup g RelSupportGroup TypeService v])
   | _ \<Rightarrow> s)"

definition OnRemoveServiceFromSupportGroup :: "'s authz_handler" where
  "OnRemoveServiceFromSupportGroup az s e = (case e of
     RemoveServiceFromSupportGroupEvent g v \<Rightarrow>
       snd (az_RemoveRelation az s (relation TypeSupportGroup g RelSupportGroup TypeService v))
   | _ \<Rightarrow> s)"

definition OnAddUserToSupportGroup :: "'s authz_handler" where
  "OnAddUserToSupportGroup az s e = (case e of
     AddUserToSupportGroupEvent g u \<Rightarrow>
       snd (az_AddRelationBulk az s [relation TypeUser u RelMember TypeSupportGroup g])
   | _ \<Rightarrow> s)"

definition OnRemoveUserFromSupportGroup :: "'s authz_handler" where
  "OnRemoveUserFromSupportGroup az s e = (case e of
     RemoveUserFromSupportGroupEvent g u \<Rightarrow>
       snd (az_RemoveRelation az s (relation TypeUser u RelMember TypeSupportGroup g))
   | _ \<Rightarrow> s)"

section \<open>Component instances, versions, components\<close>

definition OnComponentInstanceCreateAuthz :: "'s authz_handler" where
  "OnComponentInstanceCreateAuthz az s e = (case e of
     CreateComponentInstanceEvent ci \<Rightarrow> snd (az_AddRelationBulk az s
       [relation TypeRole (CreatedBy (ciMeta ci)) RelRole TypeComponentInstance (ciId ci),
        relation TypeService (ciServiceId ci) RelRelatedService TypeComponentInstance (ciId ci),
        relation TypeComponentInstance (ciId ci) RelComponentInstance TypeComponentVersion (ciComponentVersionId ci)])
   | _ \<Rightarrow> s)"

text \<open>
  Both halves of the update look for the new relation and replace the old one when it is
  missing; a failed lookup ends the handler (\<open>None\<close> in the second component stands for the early return).
\<close>

definition replace_missing ::
  "'s authorization \<Rightarrow> 's \<Rightarrow> RelationInput \<Rightarrow> RelationInput \<Rightarrow> 's \<times> unit option" where
  "replace_missing az s new rem =
     (case az_ListRelations az s new of
        Inl err \<Rightarrow> (s, None)
      | Inr [] \<Rightarrow> (snd (az_UpdateRelation az s new rem), Some ())
      | Inr (t # ts) \<Rightarrow> (s, Some ()))"

definition service_of_instance_filter :: "id64 \<Rightarrow> RelationInput" where
  "service_of_instance_filter i = \<lparr>riUserType = TypeService, riUserId = [],
     riRelation = RelRelatedService, riObjectType = TypeComponentInstance, riObjectId = ObjectIdFromInt i\<rparr>"

definition version_of_instance_filter :: "id64 \<Rightarrow> RelationInput" where
  "version_of_instance_filter i = \<lparr>riUserType = TypeComponentInstance, riUserId = UserIdFromInt i,
     riRelation = RelComponentInstance, riObjectType = TypeComponentVersion, riObjectId = []\<rparr>"

definition OnComponentInstanceUpdateAuthz :: "'s authz_handler" where
  "OnComponentInstanceUpdateAuthz az s e = (case e of
     UpdateComponentInstanceEvent ci \<Rightarrow>
       (case (if ciServiceId ci \<noteq> 0 then
                replace_missing az s
                  (relation TypeService (ciServiceId ci) RelRelatedService TypeComponentInstance (ciId ci))
                  (service_of_instance_filter (ciId ci))
              else (s, Some ())) of
          (s1, None) \<Rightarrow> s1
        | (s1, Some _) \<Rightarrow>
            if ciComponentVersionId ci \<noteq> 0 then
              fst (replace_missing az s1
                (relation TypeComponentInstance (ciId ci) RelComponentInstance TypeComponentVersion
                   (ciComponentVersionId ci))
                (version_of_instance_filter (ciId ci)))
            else s1)
   | _ \<Rightarrow> s)"

definition OnComponentInstanceDeleteAuthz :: "'s authz_handler" where
  "OnComponentInstanceDeleteAuthz az s e = (case e of
     DeleteComponentInstanceEvent i \<Rightarrow> snd (az_RemoveRelationBulk az s
       [object_filter TypeComponentInstance i, user_filter TypeComponentInstance i TypeComponentVersion,
        user_filter TypeComponentInstance i TypeIssueMatch])
   | _ \<Rightarrow> s)"

definition OnComponentVersionCreateAuthz :: "'s authz_handler" where
  "OnComponentVersionCreateAuthz az s e = (case e of
     CreateComponentVersionEvent v \<Rightarrow>
       snd (az_AddRelationBulk az s [relation TypeRole (CreatedBy (cvMeta v)) RelRole TypeComponentVersion (cvId v)])
   | _ \<Rightarrow> s)"

definition component_of_version_filter :: "id64 \<Rightarrow> RelationInput" where
  "component_of_version_filter i = \<lparr>riUserType = TypeComponentVersion, riUserId = UserIdFromInt i,
     riRelation = RelComponentVersion, riObjectType = TypeComponent, riObjectId = []\<rparr>"

definition OnComponentVersionUpdateAuthz :: "'s authz_handler" where
  "OnComponentVersionUpdateAuthz az s e = (case e of
     UpdateComponentVersionEvent v \<Rightarrow>
       (if FormatInt (cvComponentId v) \<noteq> [] then
          snd (az_UpdateRelation az s
            (relation TypeComponentVersion (cvId v) RelComponentVersion TypeComponent (cvComponentId v))
            (component_of_version_filter (cvId v)))
        else s)
   | _ \<Rightarrow> s)"

definition OnComponentVersionDeleteAuthz :: "'s authz_handler" where
  "OnComponentVersionDeleteAuthz az s e = (case e of
     DeleteComponentVersionEvent i \<Rightarrow> snd (az_RemoveRelationBulk az s
       [object_filter TypeComponentVersion i, user_filter TypeComponentVersion i TypeComponent])
   | _ \<Rightarrow> s)"

definition OnComponentCreateAuthz :: "'s authz_handler" where
  "OnComponentCreateAuthz az s e = (case e of
     CreateComponentEvent c \<Rightarrow>
       snd (az_AddRelationBulk az s [relation TypeRole (CreatedBy (compMeta c)) RelRole TypeComponent (compId c)])
   | _ \<Rightarrow> s)"

definition OnComponentDeleteAuthz :: "'s authz_handler" where
  "OnComponentDeleteAuthz az s e = (case e of
     DeleteComponentEvent i \<Rightarrow> snd (az_RemoveRelationBulk az s [object_filter TypeComponent i])
   | _ \<Rightarrow> s)"

section \<open>Issue matches and users\<close>

definition OnIssueMatchCreateAuthz :: "'s authz_handler" where
  "OnIssueMatchCreateAuthz az s e = (case e of
     CreateIssueMatchEvent m \<Rightarrow>
       snd (az_AddRelationBulk az s [relation TypeRole (CreatedBy (imMeta m)) RelRole TypeIssueMatch (imId m)])
   | _ \<Rightarrow> s)"

definition instance_of_match_filter :: "id64 \<Rightarrow> RelationInput" where
  "instance_of_match_filter i = \<lparr>riUserType = TypeComponentInstance, riUserId = [],
     riRelation = TypeComponentInstance, riObjectType = TypeIssueMatch, riObjectId = ObjectIdFromInt i\<rparr>"

definition OnIssueMatchUpdateAuthz :: "'s authz_handler" where
  "OnIssueMatchUpdateAuthz az s e = (case e of
     UpdateIssueMatchEvent m \<Rightarrow>
       (if FormatInt (imComponentInstanceId m) \<noteq> [] then
          (let s1 = snd (az_RemoveRelationBulk az s [instance_of_match_filter (imId m)])
           in snd (az_AddRelationBulk az s1
                [relation TypeComponentInstance (imComponentInstanceId m) TypeComponentInstance
                   TypeIssueMatch (imId m)]))
        else s)
   | _ \<Rightarrow> s)"

definition OnIssueMatchDeleteAuthz :: "'s authz_handler" where
  "OnIssueMatchDeleteAuthz az s e = (case e of
     DeleteIssueMatchEvent i \<Rightarrow> snd (az_RemoveRelationBulk az s [object_filter TypeIssueMatch i])
   | _ \<Rightarrow> s)"

definition OnUserDeleteAuthz :: "'s authz_handler" where
  "OnUserDeleteAuthz az s e = (case e of
     DeleteUserEvent i \<Rightarrow> snd (az_RemoveRelationBulk az s
       [object_filter TypeUser i, user_filter TypeUser i TypeService, user_filter TypeUser i TypeComponent,
        user_filter TypeUser i TypeComponentVersion, user_filter TypeUser i TypeComponentInstance,
        user_filter TypeUser i TypeIssueMatch, user_filter TypeUser i TypeSupportGroup,
        user_filter TypeUser i TypeRole])
   | _ \<Rightarrow> s)"

section \<open>Subscription\<close>

definition authz_handlers :: "(string \<times> 's authz_handler) list" where
  "authz_handlers =
     [(''CreateService'', OnServiceCreateAuthz),
      (''CreateComponentInstance'', OnComponentInstanceCreateAuthz),
      (''CreateComponentVersion'', OnComponentVersionCreateAuthz),
      (''CreateSupportGroup'', OnSupportGroupCreateAuthz),
      (''CreateComponent'', OnComponentCreateAuthz),
      (''CreateIssueMatch'', OnIssueMatchCreateAuthz),
      (''DeleteUser'', OnUserDeleteAuthz),
      (''DeleteService'', OnServiceDeleteAuthz),
      (''DeleteComponentInstance'', OnComponentInstanceDeleteAuthz),
      (''DeleteComponentVersion'', OnComponentVersionDeleteAuthz),
      (''DeleteSupportGroup'', OnSupportGroupDeleteAuthz),
      (''DeleteComponent'', OnComponentDeleteAuthz),
      (''DeleteIssueMatch'', OnIssueMatchDeleteAuthz),
      (''UpdateComponentVersion'', OnComponentVersionUpdateAuthz),
      (''UpdateIssueMatch'', OnIssueMatchUpdateAuthz),
      (''UpdateComponentInstance'', OnComponentInstanceUpdateAuthz),
      (''AddServiceToSupportGroup'', OnAddServiceToSupportGroup),
      (''RemoveServiceFromSupportGroup'', OnRemoveServiceFromSupportGroup),
      (''AddUserToSupportGroup'', OnAddUserToSupportGroup),
      (''RemoveUserFromSupportGroup'', OnRemoveUserFromSupportGroup),
      (''AddOwnerToService'', OnAddOwnerToService),
      (''RemoveOwnerFromService'', OnRemoveOwnerFromService)]"

definition SubscribeAuthzHandlers ::
  "(string, 's authz_handler) handlers \<Rightarrow> (string, 's authz_handler) handlers" where
  "SubscribeAuthzHandlers hs = fold (\<lambda>(n, h). RegisterEventHandler n h) authz_handlers hs"

definition handle_event ::
  "'s authorization \<Rightarrow> (string, 's authz_handler) handlers \<Rightarrow> app_event \<Rightarrow> 's \<Rightarrow> 's" where
  "handle_event az hs e s = fold (\<lambda>(h, e) s. h az s e) (processEvent hs event_name e) s"

section \<open>What the filters match\<close>

definition object_is :: "string \<Rightarrow> id64 \<Rightarrow> fga_tuple \<Rightarrow> bool" where
  "object_is ty i t \<longleftrightarrow> snd (snd t) = ty @ '':'' @ FormatInt i"

definition user_is :: "string \<Rightarrow> id64 \<Rightarrow> fga_tuple \<Rightarrow> bool" where
  "user_is ty i t \<longleftrightarrow> fst t = ty @ '':'' @ FormatInt i"

definition object_of_type :: "string \<Rightarrow> fga_tuple \<Rightarrow> bool" where
  "object_of_type ty t \<longleftrightarrow> take (Suc (length ty)) (snd (snd t)) = ty @ '':''"

lemma last_id [simp]: "last (FormatInt i) \<noteq> CHR '':''"
  by (rule FormatInt_last)

lemma proper_relation:
  "ut \<noteq> [] \<Longrightarrow> rel \<noteq> [] \<Longrightarrow> ot \<noteq> [] \<Longrightarrow> proper (relation ut u rel ot i)"
  by (simp add: proper_def relation_def UserIdFromInt_def ObjectIdFromInt_def)

lemma tuple_of_relation:
  "tuple_of (relation ut u rel ot i) = (ut @ '':'' @ FormatInt u, rel, ot @ '':'' @ FormatInt i)"
  by (simp add: tuple_of_def relation_def user_string_def object_string_def UserIdFromInt_def
      ObjectIdFromInt_def)

lemma matches_object_filter: "rel_matches (object_filter ty i) t \<longleftrightarrow> object_is ty i t"
  by (simp add: rel_matches_def tuple_matches_def object_matches_def filter_user_def object_filter_def
      object_string_def object_is_def ObjectIdFromInt_def)

lemma matches_user_filter:
  "ut \<noteq> [] \<Longrightarrow> rel_matches (user_filter ut u ot) t \<longleftrightarrow> user_is ut u t \<and> object_of_type ot t"
  by (simp add: rel_matches_def tuple_matches_def object_matches_def filter_user_def user_filter_def
      object_string_def user_is_def UserIdFromInt_def user_string_def object_of_type_def)

lemma filter_ok_filters [simp]:
  "ot \<noteq> [] \<Longrightarrow> filter_ok (object_filter ot i)"
  "ut \<noteq> [] \<Longrightarrow> ot \<noteq> [] \<Longrightarrow> filter_ok (user_filter ut u ot)"
  by (simp_all add: filter_ok_def object_filter_def user_filter_def object_string_def filter_user_def
      user_string_def ObjectIdFromInt_def UserIdFromInt_def)

lemma type_of_object:
  assumes "object_of_type ty t" and "CHR '':'' \<notin> set ty"
  shows "takeWhile (\<lambda>c. c \<noteq> CHR '':'') (snd (snd t)) = ty"
proof -
  have "snd (snd t) = (ty @ '':'') @ drop (Suc (length ty)) (snd (snd t))"
    using assms(1) append_take_drop_id [of "Suc (length ty)" "snd (snd t)"]
    unfolding object_of_type_def by metis
  then have "takeWhile (\<lambda>c. c \<noteq> CHR '':'') (snd (snd t)) =
      takeWhile (\<lambda>c. c \<noteq> CHR '':'') (ty @ '':'' @ drop (Suc (length ty)) (snd (snd t)))"
    by simp
  also have "\<dots> = ty" using assms(2) by (subst takeWhile_append2) auto
  finally show ?thesis .
qed

lemma object_is_type: "object_is ty i t \<Longrightarrow> object_of_type ty t"
  by (simp add: object_is_def object_of_type_def)

lemma object_types_differ:
  "object_of_type a t \<Longrightarrow> object_of_type b t \<Longrightarrow> CHR '':'' \<notin> set a \<Longrightarrow> CHR '':'' \<notin> set b \<Longrightarrow> a = b"
  using type_of_object by metis

lemma no_colon [simp]:
  "CHR '':'' \<notin> set TypeUser" "CHR '':'' \<notin> set TypeRole" "CHR '':'' \<notin> set TypeSupportGroup"
  "CHR '':'' \<notin> set TypeService" "CHR '':'' \<notin> set TypeComponent" "CHR '':'' \<notin> set TypeComponentVersion"
  "CHR '':'' \<notin> set TypeComponentInstance" "CHR '':'' \<notin> set TypeIssueMatch"
  by (simp_all add: type_defs)

lemma types_nonempty [simp]:
  "TypeUser \<noteq> []" "TypeRole \<noteq> []" "TypeSupportGroup \<noteq> []" "TypeService \<noteq> []" "TypeComponent \<noteq> []"
  "TypeComponentVersion \<noteq> []" "TypeComponentInstance \<noteq> []" "TypeIssueMatch \<noteq> []"
  by (simp_all add: type_defs)

lemma rels_nonempty [simp]:
  "RelRole \<noteq> []" "RelSupportGroup \<noteq> []" "RelOwner \<noteq> []" "RelMember \<noteq> []" "RelRelatedService \<noteq> []"
  "RelComponentInstance \<noteq> []" "RelComponentVersion \<noteq> []"
  by (simp_all add: rel_defs)

section \<open>The handlers over a store of tuples\<close>

context authorization begin

lemma add_then_remove_owner:
  assumes "valid s" and "\<not> present s (relation TypeUser ow RelOwner TypeService v)"
  shows "OnRemoveOwnerFromService az (OnAddOwnerToService az s (AddOwnerToServiceEvent v ow))
        (RemoveOwnerFromServiceEvent v ow) = s"
    and "OnAddOwnerToService az (OnAddOwnerToService az s (AddOwnerToServiceEvent v ow))
        (AddOwnerToServiceEvent v ow) = OnAddOwnerToService az s (AddOwnerToServiceEvent v ow)"
    and "OnRemoveOwnerFromService az s (RemoveOwnerFromServiceEvent v ow) = s"
proof -
  have p: "proper (relation TypeUser ow RelOwner TypeService v)" by (simp add: proper_relation)
  show "OnRemoveOwnerFromService az (OnAddOwnerToService az s (AddOwnerToServiceEvent v ow))
        (RemoveOwnerFromServiceEvent v ow) = s"
    using remove_added [OF assms(1) p assms(2)]
    by (simp add: OnRemoveOwnerFromService_def OnAddOwnerToService_def)
  show "OnAddOwnerToService az (OnAddOwnerToService az s (AddOwnerToServiceEvent v ow))
        (AddOwnerToServiceEvent v ow) = OnAddOwnerToService az s (AddOwnerToServiceEvent v ow)"
    using add_again [OF assms(1) p] by (simp add: OnAddOwnerToService_def)
  show "OnRemoveOwnerFromService az s (RemoveOwnerFromServiceEvent v ow) = s"
    using remove_absent [OF assms(1) p assms(2)] by (simp add: OnRemoveOwnerFromService_def)
qed

end

context relation_store begin

lemma card_matches:
  assumes "card {t \<in> rels s. P t} \<le> n" and "\<And>t. Q t \<Longrightarrow> P t"
  shows "card {t \<in> rels s. Q t} \<le> n"
proof -
  have "card {t \<in> rels s. Q t} \<le> card {t \<in> rels s. P t}"
    using rels_finite [of s] assms(2) by (intro card_mono) auto
  with assms(1) show ?thesis by simp
qed

lemma remove_entity:
  assumes "valid s" and "ty \<noteq> []" and "\<forall>u \<in> insert ty (set uts). CHR '':'' \<notin> set u \<and> u \<noteq> []"
    and "distinct uts" and "ty \<in> set uts \<Longrightarrow> \<forall>t \<in> rels s. \<not> (object_is ty i t \<and> user_is ty i t)"
    and "card {t \<in> rels s. object_is ty i t} \<le> page s" and "card {t \<in> rels s. user_is ty i t} \<le> page s"
  shows "rels (snd (az_RemoveRelationBulk az s (object_filter ty i # map (user_filter ty i) uts))) =
    {t \<in> rels s. \<not> object_is ty i t \<and> \<not> (user_is ty i t \<and> (\<exists>u \<in> set uts. object_of_type u t))}"
proof -
  let ?fs = "object_filter ty i # map (user_filter ty i) uts"
  have m: "rel_matches (user_filter ty i u) t \<longleftrightarrow> user_is ty i t \<and> object_of_type u t" for u t
    using assms(2) by (rule matches_user_filter)
  have ok: "list_all filter_ok ?fs" using assms(2,3) by (auto simp: list_all_iff)
  have small: "list_all (\<lambda>f. card {t \<in> rels s. rel_matches f t} \<le> page s) ?fs"
    using assms(6) card_matches [OF assms(7), of "\<lambda>t. user_is ty i t \<and> object_of_type u t" for u]
    by (simp add: list_all_iff matches_object_filter m)
  have tail: "sorted_wrt (\<lambda>f g. \<forall>t \<in> rels s. \<not> (rel_matches f t \<and> rel_matches g t))
      (map (user_filter ty i) us)" if "distinct us" "set us \<subseteq> set uts" for us
    using that
  proof (induction us)
    case (Cons u us)
    then show ?case using object_types_differ [of u] assms(3) by (auto simp: m) blast
  qed simp
  have "\<not> (rel_matches (object_filter ty i) t \<and> rel_matches (user_filter ty i u) t)"
    if "t \<in> rels s" "u \<in> set uts" for t u
    using that assms(3,5) object_types_differ [OF object_is_type, of ty i t u]
    by (cases "u = ty") (auto simp: m matches_object_filter)
  then have disj: "sorted_wrt (\<lambda>f g. \<forall>t \<in> rels s. \<not> (rel_matches f t \<and> rel_matches g t)) ?fs"
    using tail [OF assms(4)] by auto
  show ?thesis
    using rels_bulk [OF assms(1) ok small disj] by (auto simp: matches_object_filter m)
qed

lemma delete_user:
  assumes "valid s"
    and "card {t \<in> rels s. object_is TypeUser i t} \<le> page s" and "card {t \<in> rels s. user_is TypeUser i t} \<le> page s"
  shows "rels (OnUserDeleteAuthz az s (DeleteUserEvent i)) =
    {t \<in> rels s. \<not> object_is TypeUser i t \<and> \<not> (user_is TypeUser i t \<and> (\<exists>u \<in> {TypeService, TypeComponent,
        TypeComponentVersion, TypeComponentInstance, TypeIssueMatch, TypeSupportGroup, TypeRole}. object_of_type u t))}"
proof -
  have "TypeUser \<notin> set [TypeService, TypeComponent, TypeComponentVersion, TypeComponentInstance,
      TypeIssueMatch, TypeSupportGroup, TypeRole]"
    by (simp add: type_defs)
  moreover have "distinct [TypeService, TypeComponent, TypeComponentVersion, TypeComponentInstance,
      TypeIssueMatch, TypeSupportGroup, TypeRole]"
    by (simp add: type_defs)
  ultimately show ?thesis
    using remove_entity [OF assms(1), of TypeUser "[TypeService, TypeComponent, TypeComponentVersion,
        TypeComponentInstance, TypeIssueMatch, TypeSupportGroup, TypeRole]" i] assms(2,3)
    by (simp add: OnUserDeleteAuthz_def)
qed

lemma delete_support_group:
  assumes "valid s" and "\<forall>t \<in> rels s. object_is TypeSupportGroup i t \<and> user_is TypeSupportGroup i t
      \<longrightarrow> fst (snd t) = RelSupportGroup"
    and "card {t \<in> rels s. object_is TypeSupportGroup i t} \<le> page s"
    and "card {t \<in> rels s. user_is TypeSupportGroup i t} \<le> page s"
  shows "rels (OnSupportGroupDeleteAuthz az s (DeleteSupportGroupEvent i)) =
    {t \<in> rels s. \<not> object_is TypeSupportGroup i t \<and> \<not> (user_is TypeSupportGroup i t
        \<and> (object_of_type TypeService t \<or> object_of_type TypeSupportGroup t))}"
proof -
  let ?r = "relation TypeSupportGroup i RelSupportGroup TypeSupportGroup i"
  let ?s1 = "snd (az_RemoveRelation az s ?r)"
  have s1: "valid ?s1" "page ?s1 = page s" "rels ?s1 = rels s - {tuple_of ?r}"
    using rels_remove [OF assms(1), of ?r] by (simp_all add: proper_relation)
  have self: "tuple_of ?r = t" if "object_is TypeSupportGroup i t" "user_is TypeSupportGroup i t" "t \<in> rels s" for t
  proof -
    have "fst (snd t) = RelSupportGroup" using that assms(2) by blast
    with that(1,2) show ?thesis by (cases t) (simp add: tuple_of_relation object_is_def user_is_def)
  qed
  have c: "card {t \<in> rels ?s1. P t} \<le> page ?s1" if "card {t \<in> rels s. P t} \<le> page s" for P
  proof -
    have "card {t \<in> rels ?s1. P t} \<le> card {t \<in> rels s. P t}"
      using rels_finite [of s] s1(3) by (intro card_mono) auto
    with that s1(2) show ?thesis by simp
  qed
  have "rels (OnSupportGroupDeleteAuthz az s (DeleteSupportGroupEvent i)) =
      rels (snd (az_RemoveRelationBulk az ?s1
        (object_filter TypeSupportGroup i # map (user_filter TypeSupportGroup i) [TypeService, TypeSupportGroup])))"
    by (simp add: OnSupportGroupDeleteAuthz_def Let_def)
  also have "\<dots> = {t \<in> rels ?s1. \<not> object_is TypeSupportGroup i t \<and> \<not> (user_is TypeSupportGroup i t
      \<and> (\<exists>u \<in> set [TypeService, TypeSupportGroup]. object_of_type u t))}"
    by (rule remove_entity [OF s1(1)]) (use c assms(3,4) self s1(3) in \<open>auto simp: type_defs\<close>)
  also have "\<dots> = {t \<in> rels s. \<not> object_is TypeSupportGroup i t \<and> \<not> (user_is TypeSupportGroup i t
      \<and> (object_of_type TypeService t \<or> object_of_type TypeSupportGroup t))}"
    by (auto simp: s1(3) tuple_of_relation object_is_def)
  finally show ?thesis .
qed

end

lemma matches_service_of_instance:
  "rel_matches (service_of_instance_filter i) t \<longleftrightarrow> fst (snd t) = RelRelatedService \<and> object_is TypeComponentInstance i t"
  by (auto simp: rel_matches_def tuple_matches_def object_matches_def filter_user_def
      service_of_instance_filter_def object_string_def object_is_def ObjectIdFromInt_def)

lemma matches_version_of_instance:
  "rel_matches (version_of_instance_filter i) t \<longleftrightarrow>
     fst (snd t) = RelComponentInstance \<and> user_is TypeComponentInstance i t \<and> object_of_type TypeComponentVersion t"
  by (auto simp: rel_matches_def tuple_matches_def object_matches_def filter_user_def user_string_def
      version_of_instance_filter_def object_string_def user_is_def object_of_type_def UserIdFromInt_def)

lemma matches_instance_of_match:
  "rel_matches (instance_of_match_filter i) t \<longleftrightarrow> fst (snd t) = TypeComponentInstance \<and> object_is TypeIssueMatch i t"
  by (auto simp: rel_matches_def tuple_matches_def object_matches_def filter_user_def
      instance_of_match_filter_def object_string_def object_is_def ObjectIdFromInt_def)

lemma matches_component_of_version:
  "rel_matches (component_of_version_filter i) t \<longleftrightarrow>
     fst (snd t) = RelComponentVersion \<and> user_is TypeComponentVersion i t \<and> object_of_type TypeComponent t"
  by (auto simp: rel_matches_def tuple_matches_def object_matches_def filter_user_def user_string_def
      component_of_version_filter_def object_string_def user_is_def object_of_type_def UserIdFromInt_def)

lemma filter_ok_updates [simp]:
  "filter_ok (service_of_instance_filter i)" "filter_ok (version_of_instance_filter i)"
  "filter_ok (instance_of_match_filter i)" "filter_ok (component_of_version_filter i)"
  by (simp_all add: filter_ok_def service_of_instance_filter_def version_of_instance_filter_def
      instance_of_match_filter_def component_of_version_filter_def object_string_def filter_user_def
      user_string_def ObjectIdFromInt_def UserIdFromInt_def)

context relation_store begin

lemma card_functional:
  assumes "\<forall>t \<in> rels s. \<forall>u \<in> rels s. P t \<and> P u \<longrightarrow> t = u" and "valid s"
  shows "card {t \<in> rels s. P t} \<le> page s"
proof -
  have "card {t \<in> rels s. P t} \<le> Suc 0"
    using rels_finite [of s] assms(1) by (subst card_le_Suc0_iff_eq) auto
  with page_pos [OF assms(2)] show ?thesis by simp
qed

lemma replace_missing_functional:
  assumes "valid s" and "proper new" and "filter_ok f" and "rel_matches f (tuple_of new)"
    and "\<forall>t \<in> rels s. \<forall>u \<in> rels s. rel_matches f t \<and> rel_matches f u \<longrightarrow> t = u"
  shows "\<exists>s'. replace_missing az s new f = (s', Some ()) \<and> valid s'
    \<and> rels s' = {t \<in> rels s. \<not> rel_matches f t} \<union> {tuple_of new}"
proof -
  obtain ts where ts: "az_ListRelations az s new = Inr ts" "ts = [] \<longleftrightarrow> tuple_of new \<notin> rels s"
    using rels_list [OF assms(1,2)] by blast
  show ?thesis
  proof (cases ts)
    case Nil
    then show ?thesis
      using ts rels_update [OF assms(1-3) card_functional [OF assms(5,1)]] by (simp add: replace_missing_def)
  next
    case (Cons t us)
    then have "tuple_of new \<in> rels s" using ts by simp
    then have "rels s = {t \<in> rels s. \<not> rel_matches f t} \<union> {tuple_of new}" using assms(4,5) by blast
    with Cons ts assms(1) show ?thesis by (simp add: replace_missing_def)
  qed
qed

lemma update_instance:
  assumes "valid s" and "ciServiceId ci \<noteq> 0" and "ciComponentVersionId ci \<noteq> 0"
    and "\<forall>t \<in> rels s. \<forall>u \<in> rels s. rel_matches (service_of_instance_filter (ciId ci)) t
      \<and> rel_matches (service_of_instance_filter (ciId ci)) u \<longrightarrow> t = u"
    and "\<forall>t \<in> rels s. \<forall>u \<in> rels s. rel_matches (version_of_instance_filter (ciId ci)) t
      \<and> rel_matches (version_of_instance_filter (ciId ci)) u \<longrightarrow> t = u"
  shows "rels (OnComponentInstanceUpdateAuthz az s (UpdateComponentInstanceEvent ci)) =
    {t \<in> rels s. \<not> rel_matches (service_of_instance_filter (ciId ci)) t
       \<and> \<not> rel_matches (version_of_instance_filter (ciId ci)) t}
    \<union> {tuple_of (relation TypeService (ciServiceId ci) RelRelatedService TypeComponentInstance (ciId ci)),
       tuple_of (relation TypeComponentInstance (ciId ci) RelComponentInstance TypeComponentVersion
         (ciComponentVersionId ci))}"
proof -
  let ?new1 = "relation TypeService (ciServiceId ci) RelRelatedService TypeComponentInstance (ciId ci)"
  let ?new2 = "relation TypeComponentInstance (ciId ci) RelComponentInstance TypeComponentVersion
         (ciComponentVersionId ci)"
  let ?f1 = "service_of_instance_filter (ciId ci)" and ?f2 = "version_of_instance_filter (ciId ci)"
  have m: "rel_matches ?f1 (tuple_of ?new1)" "rel_matches ?f2 (tuple_of ?new2)"
      "\<not> rel_matches ?f2 (tuple_of ?new1)"
    by (simp_all add: matches_service_of_instance matches_version_of_instance tuple_of_relation
        object_is_def user_is_def object_of_type_def rel_defs)
  obtain s1 where s1: "replace_missing az s ?new1 ?f1 = (s1, Some ())" "valid s1"
      "rels s1 = {t \<in> rels s. \<not> rel_matches ?f1 t} \<union> {tuple_of ?new1}"
    using replace_missing_functional [OF assms(1) _ _ m(1) assms(4)] by (auto simp: proper_relation)
  have "\<forall>t \<in> rels s1. \<forall>u \<in> rels s1. rel_matches ?f2 t \<and> rel_matches ?f2 u \<longrightarrow> t = u"
    using assms(5) m(3) by (auto simp: s1(3))
  then obtain s2 where s2: "replace_missing az s1 ?new2 ?f2 = (s2, Some ())"
      "rels s2 = {t \<in> rels s1. \<not> rel_matches ?f2 t} \<union> {tuple_of ?new2}"
    using replace_missing_functional [OF s1(2) _ _ m(2)] by (auto simp: proper_relation)
  have "OnComponentInstanceUpdateAuthz az s (UpdateComponentInstanceEvent ci) = s2"
    using assms(2,3) s1(1) s2(1) by (simp add: OnComponentInstanceUpdateAuthz_def)
  then show ?thesis using s1(3) s2(2) m(3) by blast
qed

lemma update_match:
  assumes "valid s" and "card {t \<in> rels s. fst (snd t) = TypeComponentInstance \<and> object_is TypeIssueMatch (imId m) t} \<le> page s"
  shows "rels (OnIssueMatchUpdateAuthz az s (UpdateIssueMatchEvent m)) =
    insert (TypeComponentInstance @ '':'' @ FormatInt (imComponentInstanceId m), TypeComponentInstance,
        TypeIssueMatch @ '':'' @ FormatInt (imId m))
      {t \<in> rels s. \<not> (fst (snd t) = TypeComponentInstance \<and> object_is TypeIssueMatch (imId m) t)}"
proof -
  let ?s1 = "snd (az_RemoveRelationBulk az s [instance_of_match_filter (imId m)])"
  have "valid ?s1 \<and> rels ?s1 = {t \<in> rels s. \<not> (fst (snd t) = TypeComponentInstance \<and> object_is TypeIssueMatch (imId m) t)}"
    using rels_bulk [OF assms(1), of "[instance_of_match_filter (imId m)]"] assms(2)
    by (simp add: matches_instance_of_match)
  then show ?thesis
    using rels_add [of ?s1 "[relation TypeComponentInstance (imComponentInstanceId m) TypeComponentInstance
                   TypeIssueMatch (imId m)]"]
    by (simp add: OnIssueMatchUpdateAuthz_def Let_def tuple_of_relation)
qed

lemma update_version:
  assumes "valid s" and "card {t \<in> rels s. rel_matches (component_of_version_filter (cvId v)) t} \<le> page s"
  shows "rels (OnComponentVersionUpdateAuthz az s (UpdateComponentVersionEvent v)) =
    insert (TypeComponentVersion @ '':'' @ FormatInt (cvId v), RelComponentVersion,
        TypeComponent @ '':'' @ FormatInt (cvComponentId v))
      {t \<in> rels s. \<not> rel_matches (component_of_version_filter (cvId v)) t}"
  using rels_update [OF assms(1) _ _ assms(2), of "relation TypeComponentVersion (cvId v) RelComponentVersion
      TypeComponent (cvComponentId v)"]
  by (simp add: OnComponentVersionUpdateAuthz_def tuple_of_relation proper_relation)

end

section \<open>Dispatch\<close>

lemma handle_event_subscribed:
  "handle_event az (SubscribeAuthzHandlers []) e s =
     fold (\<lambda>h s. h az s e) (map snd (filter (\<lambda>(n, h). n = event_name e) authz_handlers)) s"
  by (simp add: handle_event_def processEvent_def SubscribeAuthzHandlers_def handlers_for_fold
      fold_map comp_def case_prod_beta) (simp add: handlers_for_def)

lemma other_event_ignored:
  "fold (\<lambda>h s. h az s (OtherEvent m)) (map snd (filter (\<lambda>(n, h). n = m) authz_handlers)) s = s"
proof -
  have "\<forall>h \<in> set (map snd authz_handlers). \<forall>s. h az s (OtherEvent m) = s"
    by (simp add: authz_handlers_def OnServiceCreateAuthz_def OnServiceDeleteAuthz_def OnAddOwnerToService_def
        OnRemoveOwnerFromService_def OnSupportGroupCreateAuthz_def OnSupportGroupDeleteAuthz_def
        OnAddServiceToSupportGroup_def OnRemoveServiceFromSupportGroup_def OnAddUserToSupportGroup_def
        OnRemoveUserFromSupportGroup_def OnComponentInstanceCreateAuthz_def OnComponentInstanceUpdateAuthz_def
        OnComponentInstanceDeleteAuthz_def OnComponentVersionCreateAuthz_def OnComponentVersionUpdateAuthz_def
        OnComponentVersionDeleteAuthz_def OnComponentCreateAuthz_def OnComponentDeleteAuthz_def
        OnIssueMatchCreateAuthz_def OnIssueMatchUpdateAuthz_def OnIssueMatchDeleteAuthz_def OnUserDeleteAuthz_def)
  then have "\<forall>h \<in> set (map snd (filter (\<lambda>(n, h). n = m) authz_handlers)). \<forall>s. h az s (OtherEvent m) = s"
    by auto
  moreover have "fold (\<lambda>h s. h az s (OtherEvent m)) hs s = s"
    if "\<forall>h \<in> set hs. \<forall>s. h az s (OtherEvent m) = s" for hs :: "'a authz_handler list" and s
    using that by (induction hs arbitrary: s) auto
  ultimately show ?thesis by blast
qed

section \<open>Properties of the handlers\<close>

lemma ts_valid_intro: "distinct (ts_tuples s) \<Longrightarrow> 0 < ts_page s \<Longrightarrow> ts_valid s"
  by (simp add: ts_valid_def)

lemma card_tuples: "length ts \<le> n \<Longrightarrow> card {t \<in> set ts. P t} \<le> n" for ts :: "fga_tuple list"
  using card_mono [of "set ts" "{t \<in> set ts. P t}"] card_length [of ts] by auto

text \<open>
  Adding an owner to a service and removing it again restores the stored tuples, and both
  handlers can run twice for the same event without further effect.
\<close>

theorem owner_events_inverse:
  assumes "distinct (ts_tuples s)" and "0 < ts_page s"
    and "(TypeUser @ '':'' @ FormatInt ow, RelOwner, TypeService @ '':'' @ FormatInt v) \<notin> set (ts_tuples s)"
  shows "OnRemoveOwnerFromService (Authz tuple_store)
        (OnAddOwnerToService (Authz tuple_store) s (AddOwnerToServiceEvent v ow)) (RemoveOwnerFromServiceEvent v ow) = s
    \<and> OnAddOwnerToService (Authz tuple_store)
        (OnAddOwnerToService (Authz tuple_store) s (AddOwnerToServiceEvent v ow)) (AddOwnerToServiceEvent v ow)
      = OnAddOwnerToService (Authz tuple_store) s (AddOwnerToServiceEvent v ow)
    \<and> OnRemoveOwnerFromService (Authz tuple_store) s (RemoveOwnerFromServiceEvent v ow) = s"
proof -
  have "\<not> ts_present s (relation TypeUser ow RelOwner TypeService v)"
    using assms(3) by (simp add: ts_present_def tuple_of_relation)
  then show ?thesis
    using ts.add_then_remove_owner [OF ts_valid_intro [OF assms(1,2)]] by blast
qed

theorem owner_events_inverse_witness:
  "OnRemoveOwnerFromService (Authz tuple_store)
     (OnAddOwnerToService (Authz tuple_store) \<lparr>ts_tuples = [], ts_page = 50\<rparr> (AddOwnerToServiceEvent 3 7))
     (RemoveOwnerFromServiceEvent 3 7) = \<lparr>ts_tuples = [], ts_page = 50\<rparr>"
  using owner_events_inverse [of "\<lparr>ts_tuples = [], ts_page = 50\<rparr>" 7 3] by simp

text \<open>
  After a support group is deleted no tuple has it as its object, and none has it as the
  user of a service or of another support group; every other tuple is kept. This needs the
  group's tuples to fit a page and its relation to itself, if any, to be the one that the handler
  removes first.
\<close>

theorem support_group_deletion_revokes:
  assumes "distinct (ts_tuples s)" and "0 < ts_page s"
    and "\<forall>t \<in> set (ts_tuples s). object_is TypeSupportGroup i t \<and> user_is TypeSupportGroup i t
      \<longrightarrow> fst (snd t) = RelSupportGroup"
    and "card {t \<in> set (ts_tuples s). object_is TypeSupportGroup i t} \<le> ts_page s"
    and "card {t \<in> set (ts_tuples s). user_is TypeSupportGroup i t} \<le> ts_page s"
  shows "set (ts_tuples (OnSupportGroupDeleteAuthz (Authz tuple_store) s (DeleteSupportGroupEvent i))) =
    {t \<in> set (ts_tuples s). \<not> object_is TypeSupportGroup i t \<and> \<not> (user_is TypeSupportGroup i t
        \<and> (object_of_type TypeService t \<or> object_of_type TypeSupportGroup t))}"
  by (rule tr.delete_support_group [OF ts_valid_intro [OF assms(1,2)] assms(3-5)])

theorem support_group_deletion_revokes_witness:
  "set (ts_tuples (OnSupportGroupDeleteAuthz (Authz tuple_store) \<lparr>ts_tuples =
      [(''user:1'', ''member'', ''support_group:4''), (''support_group:4'', ''support_group'', ''support_group:4''),
       (''support_group:4'', ''support_group'', ''service:2''), (''user:1'', ''owner'', ''service:2'')], ts_page = 50\<rparr>
     (DeleteSupportGroupEvent 4))) = {(''user:1'', ''owner'', ''service:2'')}"
proof -
  let ?ts = "[(''user:1'', ''member'', ''support_group:4''), (''support_group:4'', ''support_group'', ''support_group:4''),
       (''support_group:4'', ''support_group'', ''service:2''), (''user:1'', ''owner'', ''service:2'')]"
  let ?s = "\<lparr>ts_tuples = ?ts, ts_page = 50\<rparr>"
  have i: "FormatInt 4 = ''4''" by code_simp
  note d = object_is_def user_is_def object_of_type_def type_defs rel_defs i
  have small: "card {t \<in> set (ts_tuples ?s). P t} \<le> ts_page ?s" for P
    using card_tuples [of ?ts 50 P] by simp
  have self: "\<forall>t \<in> set (ts_tuples ?s). object_is TypeSupportGroup 4 t \<and> user_is TypeSupportGroup 4 t
      \<longrightarrow> fst (snd t) = RelSupportGroup"
    by (simp add: d)
  show ?thesis
    using support_group_deletion_revokes [of ?s 4, OF _ _ self small small]
    unfolding set_filter [symmetric] by (simp add: d)
qed

text \<open>
  After a user is deleted no tuple has it as its object or as the user of an object of one
  of the seven types the handler names, and every other tuple is kept.
\<close>

theorem user_deletion_revokes:
  assumes "distinct (ts_tuples s)" and "0 < ts_page s"
    and "card {t \<in> set (ts_tuples s). object_is TypeUser i t} \<le> ts_page s"
    and "card {t \<in> set (ts_tuples s). user_is TypeUser i t} \<le> ts_page s"
  shows "set (ts_tuples (OnUserDeleteAuthz (Authz tuple_store) s (DeleteUserEvent i))) =
    {t \<in> set (ts_tuples s). \<not> object_is TypeUser i t \<and> \<not> (user_is TypeUser i t \<and> (\<exists>u \<in> {TypeService,
        TypeComponent, TypeComponentVersion, TypeComponentInstance, TypeIssueMatch, TypeSupportGroup, TypeRole}.
          object_of_type u t))}"
  by (rule tr.delete_user [OF ts_valid_intro [OF assms(1,2)] assms(3,4)])

theorem user_deletion_revokes_witness:
  "set (ts_tuples (OnUserDeleteAuthz (Authz tuple_store) \<lparr>ts_tuples =
      [(''user:1'', ''member'', ''support_group:4''), (''user:1'', ''admin'', ''role:2''),
       (''user:2'', ''owner'', ''service:2''), (''user:1'', ''owner'', ''service:2'')], ts_page = 50\<rparr>
     (DeleteUserEvent 1))) = {(''user:2'', ''owner'', ''service:2'')}"
proof -
  let ?ts = "[(''user:1'', ''member'', ''support_group:4''), (''user:1'', ''admin'', ''role:2''),
       (''user:2'', ''owner'', ''service:2''), (''user:1'', ''owner'', ''service:2'')]"
  let ?s = "\<lparr>ts_tuples = ?ts, ts_page = 50\<rparr>"
  have i: "FormatInt 1 = ''1''" by code_simp
  note d = object_is_def user_is_def object_of_type_def type_defs rel_defs i
  have small: "card {t \<in> set (ts_tuples ?s). P t} \<le> ts_page ?s" for P
    using card_tuples [of ?ts 50 P] by simp
  show ?thesis
    using user_deletion_revokes [of ?s 1, OF _ _ small small]
    unfolding set_filter [symmetric] by (simp add: d)
qed

text \<open>
  C39. After a component instance is updated with a service and a version, exactly one tuple
  relates it to a service and exactly one to a version, the ones of the event, if there was at most
  one of each before; every other tuple is kept.
\<close>

theorem instance_update_moves_relations:
  assumes "distinct (ts_tuples s)" and "0 < ts_page s" and "ciServiceId ci \<noteq> 0" and "ciComponentVersionId ci \<noteq> 0"
    and "\<forall>t \<in> set (ts_tuples s). \<forall>u \<in> set (ts_tuples s).
      rel_matches (service_of_instance_filter (ciId ci)) t \<and> rel_matches (service_of_instance_filter (ciId ci)) u \<longrightarrow> t = u"
    and "\<forall>t \<in> set (ts_tuples s). \<forall>u \<in> set (ts_tuples s).
      rel_matches (version_of_instance_filter (ciId ci)) t \<and> rel_matches (version_of_instance_filter (ciId ci)) u \<longrightarrow> t = u"
  shows "set (ts_tuples (OnComponentInstanceUpdateAuthz (Authz tuple_store) s (UpdateComponentInstanceEvent ci))) =
    {t \<in> set (ts_tuples s). \<not> rel_matches (service_of_instance_filter (ciId ci)) t
       \<and> \<not> rel_matches (version_of_instance_filter (ciId ci)) t}
    \<union> {tuple_of (relation TypeService (ciServiceId ci) RelRelatedService TypeComponentInstance (ciId ci)),
       tuple_of (relation TypeComponentInstance (ciId ci) RelComponentInstance TypeComponentVersion
         (ciComponentVersionId ci))}"
  by (rule tr.update_instance [OF ts_valid_intro [OF assms(1,2)] assms(3-6)])

theorem instance_update_moves_relations_witness:
  "set (ts_tuples (OnComponentInstanceUpdateAuthz (Authz tuple_store) \<lparr>ts_tuples =
      [(''service:2'', ''related_service'', ''component_instance:4'')], ts_page = 50\<rparr>
     (UpdateComponentInstanceEvent \<lparr>ciMeta = zero_metadata, ciId = 4, ciCCRN = [], ciRegion = [], ciCluster = [],
        ciNamespace = [], ciDomain = [], ciProject = [], ciPod = [], ciContainer = [], ciType = [], ciParentId = 0,
        ciContext = None, ciCount = 1, ciComponentVersionId = 8, ciServiceId = 3\<rparr>))) =
   {(''service:3'', ''related_service'', ''component_instance:4''),
    (''component_instance:4'', ''component_instance'', ''component_version:8'')}"
proof -
  let ?s = "\<lparr>ts_tuples = [(''service:2'', ''related_service'', ''component_instance:4'')], ts_page = 50\<rparr>"
  let ?ci = "\<lparr>ciMeta = zero_metadata, ciId = 4, ciCCRN = [], ciRegion = [], ciCluster = [],
        ciNamespace = [], ciDomain = [], ciProject = [], ciPod = [], ciContainer = [], ciType = [], ciParentId = 0,
        ciContext = None, ciCount = 1, ciComponentVersionId = 8, ciServiceId = 3\<rparr>"
  have i: "FormatInt 4 = ''4''" "FormatInt 8 = ''8''" "FormatInt 3 = ''3''" by code_simp+
  note d = object_is_def user_is_def object_of_type_def type_defs rel_defs i
  show ?thesis
    using instance_update_moves_relations [of ?s ?ci]
    unfolding set_filter [symmetric]
    by (simp add: matches_service_of_instance matches_version_of_instance tuple_of_relation d insert_commute)
qed

text \<open>
  An update of an issue match leaves it related to exactly the component instance of the
  event, whatever that id is. The guard compares the formatted id with the empty text, which
  it never is: an update that does not set the instance (id 0) takes the match away from
  its instance and relates it to \<open>component_instance:0\<close>. Versions and components are handled alike.
\<close>

theorem update_events_replace_relations:
  assumes "distinct (ts_tuples s)" and "0 < ts_page s"
    and "card {t \<in> set (ts_tuples s). fst (snd t) = TypeComponentInstance \<and> object_is TypeIssueMatch (imId m) t} \<le> ts_page s"
    and "card {t \<in> set (ts_tuples s). rel_matches (component_of_version_filter (cvId v)) t} \<le> ts_page s"
  shows "set (ts_tuples (OnIssueMatchUpdateAuthz (Authz tuple_store) s (UpdateIssueMatchEvent m))) =
      insert (TypeComponentInstance @ '':'' @ FormatInt (imComponentInstanceId m), TypeComponentInstance,
          TypeIssueMatch @ '':'' @ FormatInt (imId m))
        {t \<in> set (ts_tuples s). \<not> (fst (snd t) = TypeComponentInstance \<and> object_is TypeIssueMatch (imId m) t)}
    \<and> set (ts_tuples (OnComponentVersionUpdateAuthz (Authz tuple_store) s (UpdateComponentVersionEvent v))) =
      insert (TypeComponentVersion @ '':'' @ FormatInt (cvId v), RelComponentVersion,
          TypeComponent @ '':'' @ FormatInt (cvComponentId v))
        {t \<in> set (ts_tuples s). \<not> rel_matches (component_of_version_filter (cvId v)) t}"
  using tr.update_match [OF ts_valid_intro [OF assms(1,2)] assms(3)]
    tr.update_version [OF ts_valid_intro [OF assms(1,2)] assms(4)]
  by blast

theorem update_events_replace_relations_witness:
  "set (ts_tuples (OnIssueMatchUpdateAuthz (Authz tuple_store)
     \<lparr>ts_tuples = [(''component_instance:7'', ''component_instance'', ''issue_match:3'')], ts_page = 50\<rparr>
     (UpdateIssueMatchEvent \<lparr>imMeta = zero_metadata, imId = 3, imStatus = ''risk_accepted'', imUserId = 0,
        imSeverity = \<lparr>sevValue = [], sevScore = 0, sevVector = [], sevExternalUrl = []\<rparr>, imComponentInstance = None,
        imComponentInstanceId = 0, imIssue = None, imIssueId = 0, imRemediationDate = 0, imTargetRemediationDate = 0\<rparr>))) =
   {(''component_instance:0'', ''component_instance'', ''issue_match:3'')}"
proof -
  let ?ts = "[(''component_instance:7'', ''component_instance'', ''issue_match:3'')]"
  let ?s = "\<lparr>ts_tuples = ?ts, ts_page = 50\<rparr>"
  let ?m = "\<lparr>imMeta = zero_metadata, imId = 3, imStatus = ''risk_accepted'', imUserId = 0,
        imSeverity = \<lparr>sevValue = [], sevScore = 0, sevVector = [], sevExternalUrl = []\<rparr>, imComponentInstance = None,
        imComponentInstanceId = 0, imIssue = None, imIssueId = 0, imRemediationDate = 0, imTargetRemediationDate = 0\<rparr>"
  have i: "FormatInt 3 = ''3''" "FormatInt 0 = ''0''" by code_simp+
  note d = object_is_def user_is_def object_of_type_def type_defs rel_defs i
  have small: "card {t \<in> set (ts_tuples ?s). P t} \<le> ts_page ?s" for P
    using card_tuples [of ?ts 50 P] by simp
  show ?thesis
    using update_events_replace_relations [of ?s ?m, OF _ _ small small]
    unfolding set_filter [symmetric] by (simp add: d)
qed

text \<open>
  With all handlers subscribed every event runs exactly the handler for its type, and an
  event of a type without handler changes nothing, even under the name of another type.
\<close>

theorem authz_events_dispatched:
  "handle_event az (SubscribeAuthzHandlers []) e s = (case e of
      CreateServiceEvent _ \<Rightarrow> OnServiceCreateAuthz az s e
    | DeleteServiceEvent _ \<Rightarrow> OnServiceDeleteAuthz az s e
    | AddOwnerToServiceEvent _ _ \<Rightarrow> OnAddOwnerToService az s e
    | RemoveOwnerFromServiceEvent _ _ \<Rightarrow> OnRemoveOwnerFromService az s e
    | CreateSupportGroupEvent _ \<Rightarrow> OnSupportGroupCreateAuthz az s e
    | DeleteSupportGroupEvent _ \<Rightarrow> OnSupportGroupDeleteAuthz az s e
    | AddServiceToSupportGroupEvent _ _ \<Rightarrow> OnAddServiceToSupportGroup az s e
    | RemoveServiceFromSupportGroupEvent _ _ \<Rightarrow> OnRemoveServiceFromSupportGroup az s e
    | AddUserToSupportGroupEvent _ _ \<Rightarrow> OnAddUserToSupportGroup az s e
    | RemoveUserFromSupportGroupEvent _ _ \<Rightarrow> OnRemoveUserFromSupportGroup az s e
    | CreateComponentInstanceEvent _ \<Rightarrow> OnComponentInstanceCreateAuthz az s e
    | UpdateComponentInstanceEvent _ \<Rightarrow> OnComponentInstanceUpdateAuthz az s e
    | DeleteComponentInstanceEvent _ \<Rightarrow> OnComponentInstanceDeleteAuthz az s e
    | CreateComponentVersionEvent _ \<Rightarrow> OnComponentVersionCreateAuthz az s e
    | UpdateComponentVersionEvent _ \<Rightarrow> OnComponentVersionUpdateAuthz az s e
    | DeleteComponentVersionEvent _ \<Rightarrow> OnComponentVersionDeleteAuthz az s e
    | CreateComponentEvent _ \<Rightarrow> OnComponentCreateAuthz az s e
    | DeleteComponentEvent _ \<Rightarrow> OnComponentDeleteAuthz az s e
    | CreateIssueMatchEvent _ \<Rightarrow> OnIssueMatchCreateAuthz az s e
    | UpdateIssueMatchEvent _ \<Rightarrow> OnIssueMatchUpdateAuthz az s e
    | DeleteIssueMatchEvent _ \<Rightarrow> OnIssueMatchDeleteAuthz az s e
    | DeleteUserEvent _ \<Rightarrow> OnUserDeleteAuthz az s e
    | _ \<Rightarrow> s)"
  by (cases e) (simp_all add: handle_event_subscribed other_event_ignored, simp_all add: authz_handlers_def)

end
