(* ===== verification/Issue_Matching.thy ===== *)
theory Issue_Matching
  imports Current_User App_Events
begin

text \<open>
  The creation of issue matches by event handlers: \<open>internal/app/shared\<close>,
  \<open>internal/app/issue_match/issue_match_handler_events.go\<close> and
  \<open>internal/app/issue/issue_handler_events.go\<close>.

  The database is a parameter (\<open>match_db\<close>): the queries and the insertion the handlers use. The
  current time is an argument, and so is the order in which a handler visits the keys of a map.
\<close>

section \<open>The database\<close>

record 's match_db =
  db_GetServiceIssueVariants :: "'s \<Rightarrow> id64 list \<Rightarrow> id64 list \<Rightarrow> goerr + ServiceIssueVariant list"
  db_GetComponentInstances :: "'s \<Rightarrow> id64 list \<Rightarrow> goerr + ComponentInstance list"
  db_GetIssueMatches :: "'s \<Rightarrow> id64 list \<Rightarrow> id64 list \<Rightarrow> goerr + IssueMatch list"
  db_CreateIssueMatch :: "'s \<Rightarrow> IssueMatch \<Rightarrow> goerr option \<times> 's"
  db_GetAllUserIds :: "'s \<Rightarrow> user_table"

section \<open>The target remediation date\<close>

record RemediationTimelineConfig =
  LowDays :: int
  MediumDays :: int
  HighDays :: int
  CriticalDays :: int
  DefaultDays :: int

definition DefaultRemediationConfig :: RemediationTimelineConfig where
  "DefaultRemediationConfig = \<lparr>LowDays = 180, MediumDays = 90, HighDays = 20, CriticalDays = 7,
     DefaultDays = 365\<rparr>"

text \<open>\<open>AddDate(0, 0, days)\<close> in UTC, with times in nanoseconds.\<close>

definition AddDays :: "gotime \<Rightarrow> int \<Rightarrow> gotime" where
  "AddDays t days = t + days * 86400 * 10 ^ 9"

definition GetTargetRemediationTimeline ::
  "severity \<Rightarrow> gotime \<Rightarrow> RemediationTimelineConfig option \<Rightarrow> gotime" where
  "GetTargetRemediationTimeline sev creationDate config =
     (let c = (case config of None \<Rightarrow> DefaultRemediationConfig | Some c \<Rightarrow> c);
          v = sevValue sev;
          days = (if v = SeverityValuesLow then LowDays c
                  else if v = SeverityValuesMedium then MediumDays c
                  else if v = SeverityValuesHigh then HighDays c
                  else if v = SeverityValuesCritical then CriticalDays c
                  else DefaultDays c)
      in AddDays creationDate days)"

section \<open>The variant of an issue\<close>

definition sivIssueId :: "ServiceIssueVariant \<Rightarrow> id64" where "sivIssueId v = ivIssueId (sivVariant v)"
definition sivSeverity :: "ServiceIssueVariant \<Rightarrow> severity" where "sivSeverity v = ivSeverity (sivVariant v)"
definition sivScore :: "ServiceIssueVariant \<Rightarrow> rat" where "sivScore v = sevScore (sivSeverity v)"

type_synonym variant_map = "id64 \<Rightarrow> ServiceIssueVariant option"

definition add_variant :: "variant_map \<Rightarrow> ServiceIssueVariant \<Rightarrow> variant_map" where
  "add_variant m v =
     (case m (sivIssueId v) of
        Some w \<Rightarrow>
          if sivPriority w < sivPriority v then m(sivIssueId v \<mapsto> v)
          else if sivScore w < sivScore v then m(sivIssueId v \<mapsto> v)
          else m
      | None \<Rightarrow> m(sivIssueId v \<mapsto> v))"

definition BuildIssueVariantMap ::
  "'s match_db \<Rightarrow> 's \<Rightarrow> id64 list \<Rightarrow> id64 list \<Rightarrow> goerr + variant_map" where
  "BuildIssueVariantMap db s componentInstanceIds issueIds =
     (case db_GetServiceIssueVariants db s componentInstanceIds issueIds of
        Inl e \<Rightarrow> Inl (WrapErr ''error while fetching issue variants: '' e)
      | Inr [] \<Rightarrow> Inl (ErrVal ''fmt'' ''no issue variants found that are related to the issue repository'')
      | Inr (v # vs) \<Rightarrow> Inr (foldl add_variant Map.empty (v # vs)))"

text \<open>The second copy of the function, in the package of the issue matches.\<close>

definition NewIssueMatchHandlerError :: "string \<Rightarrow> goerr" where
  "NewIssueMatchHandlerError msg = ErrVal ''IssueMatchHandlerError'' msg"

definition issue_match_BuildIssueVariantMap ::
  "'s match_db \<Rightarrow> 's \<Rightarrow> id64 \<Rightarrow> id64 \<Rightarrow> goerr + variant_map" where
  "issue_match_BuildIssueVariantMap db s componentInstanceID componentVersionID =
     (case db_GetServiceIssueVariants db s [componentInstanceID] [] of
        Inl e \<Rightarrow> Inl (NewIssueMatchHandlerError ''Error while fetching issue variants'')
      | Inr [] \<Rightarrow> Inl (NewIssueMatchHandlerError
            ''No issue variants found that are related to the issue repository'')
      | Inr (v # vs) \<Rightarrow> Inr (foldl add_variant Map.empty (v # vs)))"

section \<open>The handlers\<close>

definition new_issue_match :: "gotime \<Rightarrow> id64 \<Rightarrow> id64 \<Rightarrow> id64 \<Rightarrow> ServiceIssueVariant \<Rightarrow> IssueMatch" where
  "new_issue_match now user ci issueId v =
     \<lparr>imMeta = zero_metadata\<lparr>CreatedBy := user, UpdatedBy := user\<rparr>, imId = 0,
      imStatus = IssueMatchStatusValuesNew, imUserId = user, imSeverity = sivSeverity v,
      imComponentInstance = None, imComponentInstanceId = ci, imIssue = None, imIssueId = issueId,
      imRemediationDate = 0, imTargetRemediationDate = GetTargetRemediationTimeline (sivSeverity v) now None\<rparr>"







section \<open>Which variant is chosen\<close>

definition better :: "ServiceIssueVariant \<Rightarrow> ServiceIssueVariant \<Rightarrow> bool" where
  "better v w \<longleftrightarrow> sivPriority w < sivPriority v \<or> sivScore w < sivScore v"

definition pick :: "ServiceIssueVariant option \<Rightarrow> ServiceIssueVariant \<Rightarrow> ServiceIssueVariant option" where
  "pick o' v = (case o' of None \<Rightarrow> Some v | Some w \<Rightarrow> if better v w then Some v else Some w)"

lemma add_variant_apply:
  "add_variant m v i = (if sivIssueId v = i then pick (m i) v else m i)"
  by (simp add: add_variant_def pick_def better_def split: option.splits)

lemma fold_variants:
  "foldl add_variant m vs i = foldl pick (m i) (filter (\<lambda>v. sivIssueId v = i) vs)"
  by (induction vs arbitrary: m) (simp_all add: add_variant_apply)

lemma choose_Some: "vs \<noteq> [] \<or> o' \<noteq> None \<Longrightarrow> foldl pick o' vs \<noteq> None"
proof (induction vs arbitrary: o')
  case (Cons v vs)
  have "pick o' v \<noteq> None" by (simp add: pick_def split: option.splits)
  with Cons.IH show ?case by simp
qed simp

lemma dom_variants: "dom (foldl add_variant Map.empty vs) = sivIssueId ` set vs"
proof -
  have "foldl add_variant Map.empty vs i \<noteq> None \<longleftrightarrow> i \<in> sivIssueId ` set vs" for i
    using choose_Some [of "filter (\<lambda>v. sivIssueId v = i) vs" None]
    by (cases "filter (\<lambda>v. sivIssueId v = i) vs = []") (auto simp: fold_variants filter_empty_conv)
  then show ?thesis by (auto simp: dom_def)
qed

definition lex_less :: "ServiceIssueVariant \<Rightarrow> ServiceIssueVariant \<Rightarrow> bool" where
  "lex_less w v \<longleftrightarrow> sivPriority w < sivPriority v \<or> sivPriority w = sivPriority v \<and> sivScore w < sivScore v"

lemma choose_first_best:
  assumes "vs \<noteq> []"
    and "\<forall>v \<in> set vs. \<forall>w \<in> set vs. sivPriority v < sivPriority w \<longrightarrow> sivScore v \<le> sivScore w"
  shows "\<exists>pre v post. vs = pre @ v # post \<and> foldl pick None vs = Some v
    \<and> (\<forall>w \<in> set pre. lex_less w v) \<and> (\<forall>w \<in> set post. \<not> lex_less v w)"
  using assms
proof (induction vs rule: rev_induct)
  case (snoc x xs)
  show ?case
  proof (cases "xs = []")
    case True
    then show ?thesis by (intro exI [of _ "[]"] exI [of _ x]) (simp add: pick_def)
  next
    case False
    have "\<forall>v \<in> set xs. \<forall>w \<in> set xs. sivPriority v < sivPriority w \<longrightarrow> sivScore v \<le> sivScore w"
      using snoc.prems(2) by simp
    from snoc.IH [OF False this] obtain pre v post where v: "xs = pre @ v # post" "foldl pick None xs = Some v"
        "\<forall>w \<in> set pre. lex_less w v" "\<forall>w \<in> set post. \<not> lex_less v w"
      by blast
    have b: "better x v \<longleftrightarrow> lex_less v x"
      using snoc.prems(2) v(1) by (fastforce simp: better_def lex_less_def)
    have f: "foldl pick None (xs @ [x]) = Some (if lex_less v x then x else v)"
      by (simp add: v(2) pick_def b)
    show ?thesis
    proof (cases "lex_less v x")
      case True
      have "\<forall>w \<in> set xs. lex_less w x" using v(1,3,4) True by (auto simp: lex_less_def)
      with True f show ?thesis
        by (intro exI [of _ xs] exI [of _ x] exI [of _ "[]"]) simp
    next
      case False
      have "xs @ [x] = pre @ v # (post @ [x])" by (simp add: v(1))
      with False f v(3,4) show ?thesis
        by (intro exI [of _ pre] exI [of _ v] exI [of _ "post @ [x]"]) auto
    qed
  qed
qed simp

text \<open>
  The map of variants has exactly the issues of the variants found. Where no variant of an
  issue has a lower priority and a greater score than another, the issue's variant is the first
  of those with the highest priority and, among them, the highest score.
\<close>

theorem BuildIssueVariantMap_takes_first_best:
  assumes "db_GetServiceIssueVariants db s cids iids = Inr vs" and "vs \<noteq> []"
  shows "\<exists>m. BuildIssueVariantMap db s cids iids = Inr m \<and> dom m = sivIssueId ` set vs
    \<and> (\<forall>i \<in> dom m. (\<forall>v \<in> set vs. \<forall>w \<in> set vs. sivIssueId v = i \<and> sivIssueId w = i
            \<and> sivPriority v < sivPriority w \<longrightarrow> sivScore v \<le> sivScore w) \<longrightarrow>
        (\<exists>pre v post. filter (\<lambda>v. sivIssueId v = i) vs = pre @ v # post \<and> m i = Some v
           \<and> (\<forall>w \<in> set pre. lex_less w v) \<and> (\<forall>w \<in> set post. \<not> lex_less v w)))"
proof -
  let ?m = "foldl add_variant Map.empty vs"
  have "BuildIssueVariantMap db s cids iids = Inr ?m"
    using assms by (cases vs) (simp_all add: BuildIssueVariantMap_def)
  moreover have "\<exists>pre v post. filter (\<lambda>v. sivIssueId v = i) vs = pre @ v # post \<and> ?m i = Some v
      \<and> (\<forall>w \<in> set pre. lex_less w v) \<and> (\<forall>w \<in> set post. \<not> lex_less v w)"
    if "i \<in> dom ?m" "\<forall>v \<in> set vs. \<forall>w \<in> set vs. sivIssueId v = i \<and> sivIssueId w = i
            \<and> sivPriority v < sivPriority w \<longrightarrow> sivScore v \<le> sivScore w" for i
  proof -
    have "filter (\<lambda>v. sivIssueId v = i) vs \<noteq> []" using that(1) by (auto simp: dom_variants filter_empty_conv)
    then show ?thesis
      using choose_first_best [of "filter (\<lambda>v. sivIssueId v = i) vs"] that(2) by (simp add: fold_variants)
  qed
  ultimately show ?thesis using dom_variants [of vs] by blast
qed

text \<open>
  The documentation promises the variant with the highest priority. With two variants of an
  issue of which one has the higher priority and the other the higher score, the map has
  whichever the database lists last.
\<close>

theorem variant_choice_follows_row_order:
  assumes "db_GetServiceIssueVariants db s cids iids = Inr [a, b]"
    and "db_GetServiceIssueVariants db s' cids iids = Inr [b, a]"
    and "sivIssueId a = i" and "sivIssueId b = i" and "sivPriority b < sivPriority a" and "sivScore a < sivScore b"
  shows "\<exists>m m'. BuildIssueVariantMap db s cids iids = Inr m \<and> m i = Some b
    \<and> BuildIssueVariantMap db s' cids iids = Inr m' \<and> m' i = Some a"
  using assms by (simp add: BuildIssueVariantMap_def add_variant_def)

section \<open>A contract of the database\<close>




section \<open>Tables as lists\<close>

record match_tables =
  mt_rows :: "IssueMatch list"
  mt_next :: id64
  mt_variants :: "(id64 \<times> ServiceIssueVariant) list"
  mt_instances :: "ComponentInstance list"
  mt_users :: "(string \<times> id64) list"

definition table_db :: "match_tables match_db" where
  "table_db = \<lparr>
     db_GetServiceIssueVariants = (\<lambda>s cids iids. Inr (map snd (filter (\<lambda>(c, v).
        (cids = [] \<or> c \<in> set cids) \<and> (iids = [] \<or> sivIssueId v \<in> set iids)) (mt_variants s)))),
     db_GetComponentInstances = (\<lambda>s vids. Inr (filter (\<lambda>c. ciComponentVersionId c \<in> set vids) (mt_instances s))),
     db_GetIssueMatches = (\<lambda>s iids cids. Inr (filter (\<lambda>m. imIssueId m \<in> set iids
        \<and> imComponentInstanceId m \<in> set cids) (mt_rows s))),
     db_CreateIssueMatch = (\<lambda>s m. (None, s\<lparr>mt_rows := mt_rows s @ [m\<lparr>imId := mt_next s\<rparr>],
        mt_next := mt_next s + 1\<rparr>)),
     db_GetAllUserIds = (\<lambda>s us. Inr (map snd (filter (\<lambda>(u, i). u \<in> set us) (mt_users s))))\<rparr>"




section \<open>Examples\<close>

definition example_variant :: "id64 \<Rightarrow> int \<Rightarrow> SeverityValues \<Rightarrow> ServiceIssueVariant" where
  "example_variant i prio rating =
     \<lparr>sivVariant = \<lparr>ivMeta = zero_metadata, ivId = 0, ivIssueRepositoryId = 0, ivIssueRepository = None,
        ivSecondaryName = [], ivIssueId = i, ivIssue = None, ivSeverity = NewSeverityFromRating rating,
        ivDescription = [], ivExternalUrl = []\<rparr>, sivServiceId = 0, sivPriority = prio\<rparr>"

definition example_instance :: "id64 \<Rightarrow> id64 \<Rightarrow> ComponentInstance" where
  "example_instance i v = \<lparr>ciMeta = zero_metadata, ciId = i, ciCCRN = [], ciRegion = [], ciCluster = [],
        ciNamespace = [], ciDomain = [], ciProject = [], ciPod = [], ciContainer = [], ciType = [], ciParentId = 0,
        ciContext = None, ciCount = 1, ciComponentVersionId = v, ciServiceId = 0\<rparr>"

definition example_tables :: "(id64 \<times> ServiceIssueVariant) list \<Rightarrow> match_tables" where
  "example_tables vs = \<lparr>mt_rows = [(new_issue_match 0 1 7 5 (example_variant 5 1 SeverityValuesLow))], mt_next = 2,
     mt_variants = vs, mt_instances = [example_instance 7 3, example_instance 8 3], mt_users = []\<rparr>"

theorem BuildIssueVariantMap_takes_first_best_witness:
  "\<exists>m. BuildIssueVariantMap table_db (example_tables [(7, example_variant 5 2 SeverityValuesLow),
      (7, example_variant 5 2 SeverityValuesHigh)]) [7] [] = Inr m \<and> dom m = {5}"
proof -
  have "db_GetServiceIssueVariants table_db (example_tables [(7, example_variant 5 2 SeverityValuesLow),
      (7, example_variant 5 2 SeverityValuesHigh)]) [7] [] =
      Inr [example_variant 5 2 SeverityValuesLow, example_variant 5 2 SeverityValuesHigh]"
    by (simp add: table_db_def example_tables_def)
  from BuildIssueVariantMap_takes_first_best [OF this] show ?thesis
    by (auto simp: example_variant_def sivIssueId_def)
qed

theorem variant_choice_follows_row_order_witness:
  "\<exists>m. BuildIssueVariantMap table_db (example_tables [(7, example_variant 5 2 SeverityValuesLow),
      (7, example_variant 5 1 SeverityValuesHigh)]) [7] [] = Inr m
    \<and> m 5 = Some (example_variant 5 1 SeverityValuesHigh)"
proof -
  let ?a = "example_variant 5 2 SeverityValuesLow" and ?b = "example_variant 5 1 SeverityValuesHigh"
  have a: "db_GetServiceIssueVariants table_db (example_tables [(7, ?a), (7, ?b)]) [7] [] = Inr [?a, ?b]"
    and b: "db_GetServiceIssueVariants table_db (example_tables [(7, ?b), (7, ?a)]) [7] [] = Inr [?b, ?a]"
    by (simp_all add: table_db_def example_tables_def)
  have "sivIssueId ?a = 5" "sivIssueId ?b = 5" "sivPriority ?b < sivPriority ?a" "sivScore ?a < sivScore ?b"
    by (simp_all add: example_variant_def sivIssueId_def sivScore_def sivSeverity_def
        NewSeverityFromRating_def severity_defs)
  from variant_choice_follows_row_order [OF a b this] show ?thesis by blast
qed



end
