(* ===== verification/Autopatch.thy ===== *)
theory Autopatch
  imports Current_User Entities "HOL-Library.Product_Lexorder"
begin

text \<open>
  The tables that scanner runs write and the patches derived from component instances that disappeared
  between the last two completed runs of a tag (\<open>internal/database/mariadb/autopatch.go\<close>).

  The tables are lists of rows with a flag for soft deletion; every query is written out from its SQL
  text or from the filters of the table it uses. No transaction surrounds the statements, so a
  failing one leaves the effects of those before it: \<open>t_calls\<close> is the number of statements that
  succeed before the database fails (\<open>None\<close>: it does not fail). The orders in which maps are visited are
  arguments.
\<close>

section \<open>Tables\<close>

record run_row =
  rrId :: id64
  rrUUID :: string
  rrTag :: string
  rrCompleted :: bool
  rrDeleted :: bool

record instance_row =
  iwId :: id64
  iwVersion :: id64
  iwService :: id64
  iwDeleted :: bool

record version_row =
  vwId :: id64
  vwName :: string
  vwComponent :: id64
  vwDeleted :: bool

record named_row =
  nwId :: id64
  nwName :: string
  nwDeleted :: bool

record match_row =
  mwId :: id64
  mwInstance :: id64
  mwDeleted :: bool

record patchInfo =
  serviceId :: id64
  serviceName :: string
  componentVersionId :: id64
  componentVersionName :: string

record tables =
  t_runs :: "run_row list"
  t_run_errors :: "(id64 \<times> string) list"
  t_tracker :: "(id64 \<times> id64) list"
  t_instances :: "instance_row list"
  t_versions :: "version_row list"
  t_services :: "named_row list"
  t_components :: "named_row list"
  t_matches :: "match_row list"
  t_links :: "(id64 \<times> id64) list"
  t_patches :: "patchInfo list"
  t_calls :: "nat option"

section \<open>Statements\<close>

type_synonym 'a stmt = "tables \<Rightarrow> (goerr + 'a) \<times> tables"

definition db_error :: goerr where "db_error = ErrVal ''mysql'' ''bad connection''"

definition returnS :: "'a \<Rightarrow> 'a stmt" where "returnS x t = (Inr x, t)"

definition bindS :: "'a stmt \<Rightarrow> ('a \<Rightarrow> 'b stmt) \<Rightarrow> 'b stmt" where
  "bindS m f t = (case m t of (Inl e, t') \<Rightarrow> (Inl e, t') | (Inr x, t') \<Rightarrow> f x t')"

definition db_call :: "(tables \<Rightarrow> 'a \<times> tables) \<Rightarrow> 'a stmt" where
  "db_call f t =
     (case t_calls t of
        Some 0 \<Rightarrow> (Inl db_error, t)
      | Some (Suc n) \<Rightarrow> (case f (t\<lparr>t_calls := Some n\<rparr>) of (x, t') \<Rightarrow> (Inr x, t'))
      | None \<Rightarrow> (case f t of (x, t') \<Rightarrow> (Inr x, t')))"

definition db_query :: "(tables \<Rightarrow> 'a) \<Rightarrow> 'a stmt" where
  "db_query q = db_call (\<lambda>t. (q t, t))"

definition db_exec :: "(tables \<Rightarrow> tables) \<Rightarrow> unit stmt" where
  "db_exec u = db_call (\<lambda>t. ((), u t))"

fun for_each :: "('b \<Rightarrow> unit stmt) \<Rightarrow> 'b list \<Rightarrow> unit stmt" where
  "for_each f [] = returnS ()"
| "for_each f (x # xs) = bindS (f x) (\<lambda>_. for_each f xs)"

definition activeInstances :: "tables \<Rightarrow> instance_row list" where
  "activeInstances t = filter (\<lambda>i. \<not> iwDeleted i) (t_instances t)"

definition activeVersions :: "tables \<Rightarrow> version_row list" where
  "activeVersions t = filter (\<lambda>v. \<not> vwDeleted v) (t_versions t)"

text \<open>The queries of the list interface without a page return at most a thousand rows.\<close>

definition fetchComponentInstancesForRun :: "id64 \<Rightarrow> id64 set stmt" where
  "fetchComponentInstancesForRun run = db_query (\<lambda>t. {i. (run, i) \<in> set (t_tracker t)})"

definition patch_of :: "tables \<Rightarrow> id64 \<Rightarrow> patchInfo option" where
  "patch_of t i =
     (case find (\<lambda>c. iwId c = i) (activeInstances t) of
        None \<Rightarrow> None
      | Some c \<Rightarrow>
         (case (find (\<lambda>s. nwId s = iwService c \<and> \<not> nwDeleted s) (t_services t),
                find (\<lambda>v. vwId v = iwVersion c) (activeVersions t)) of
            (Some s, Some v) \<Rightarrow> Some \<lparr>serviceId = iwService c, serviceName = nwName s,
                componentVersionId = iwVersion c, componentVersionName = vwName v\<rparr>
          | _ \<Rightarrow> None))"

definition fetchServiceAndVersionForInstance :: "id64 \<Rightarrow> patchInfo option stmt" where
  "fetchServiceAndVersionForInstance i = db_query (\<lambda>t. patch_of t i)"

definition in_use :: "tables \<Rightarrow> patchInfo \<Rightarrow> bool" where
  "in_use t p \<longleftrightarrow> list_ex (\<lambda>c. iwService c = serviceId p \<and> iwVersion c = componentVersionId p) (activeInstances t)"

definition insertPatchIfNoInstanceExists :: "patchInfo \<Rightarrow> unit stmt" where
  "insertPatchIfNoInstanceExists p =
     db_exec (\<lambda>t. if in_use t p then t else t\<lparr>t_patches := t_patches t @ [p]\<rparr>)"

definition GetAllIssueMatchIds :: "id64 \<Rightarrow> id64 list stmt" where
  "GetAllIssueMatchIds i = db_query (\<lambda>t. map mwId (filter (\<lambda>m. mwInstance m = i \<and> \<not> mwDeleted m) (t_matches t)))"

definition DeleteIssueMatch :: "id64 \<Rightarrow> unit stmt" where
  "DeleteIssueMatch i = db_exec (\<lambda>t. t\<lparr>t_matches :=
     map (\<lambda>m. if mwId m = i then m\<lparr>mwDeleted := True\<rparr> else m) (t_matches t)\<rparr>)"

definition DeleteComponentInstance :: "id64 \<Rightarrow> unit stmt" where
  "DeleteComponentInstance i = db_exec (\<lambda>t. t\<lparr>t_instances :=
     map (\<lambda>c. if iwId c = i then c\<lparr>iwDeleted := True\<rparr> else c) (t_instances t)\<rparr>)"

definition DeleteComponentVersion :: "id64 \<Rightarrow> unit stmt" where
  "DeleteComponentVersion i = db_exec (\<lambda>t. t\<lparr>t_versions :=
     map (\<lambda>v. if vwId v = i then v\<lparr>vwDeleted := True\<rparr> else v) (t_versions t)\<rparr>)"

definition DeleteComponent :: "id64 \<Rightarrow> unit stmt" where
  "DeleteComponent i = db_exec (\<lambda>t. t\<lparr>t_components :=
     map (\<lambda>c. if nwId c = i then c\<lparr>nwDeleted := True\<rparr> else c) (t_components t)\<rparr>)"

definition RemoveAllIssuesFromComponentVersion :: "id64 \<Rightarrow> unit stmt" where
  "RemoveAllIssuesFromComponentVersion v = db_exec (\<lambda>t. t\<lparr>t_links := filter (\<lambda>(w, i). w \<noteq> v) (t_links t)\<rparr>)"

definition instances_by_id :: "id64 list \<Rightarrow> instance_row list stmt" where
  "instances_by_id ids = db_query (\<lambda>t. take 1000 (filter (\<lambda>c. ids = [] \<or> iwId c \<in> set ids) (activeInstances t)))"

definition instances_by_version :: "id64 \<Rightarrow> instance_row list stmt" where
  "instances_by_version v = db_query (\<lambda>t. take 1000 (filter (\<lambda>c. iwVersion c = v) (activeInstances t)))"

definition versions_by_id :: "id64 list \<Rightarrow> version_row list stmt" where
  "versions_by_id ids = db_query (\<lambda>t. take 1000 (filter (\<lambda>v. ids = [] \<or> vwId v \<in> set ids) (activeVersions t)))"

definition versions_by_component :: "id64 \<Rightarrow> version_row list stmt" where
  "versions_by_component c = db_query (\<lambda>t. take 1000 (filter (\<lambda>v. vwComponent v = c) (activeVersions t)))"

section \<open>Autopatch\<close>

text \<open>The orders of the three kinds of keys that maps are visited in.\<close>

record visits =
  v_ids :: "id64 set \<Rightarrow> id64 list"
  v_patches :: "patchInfo set \<Rightarrow> patchInfo list"
  v_tags :: "string set \<Rightarrow> string list"

definition getDisappearedInstances :: "visits \<Rightarrow> id64 set \<Rightarrow> id64 set \<Rightarrow> id64 list" where
  "getDisappearedInstances vs latest secondLatest = filter (\<lambda>i. i \<notin> latest) (v_ids vs secondLatest)"

fun getPatches :: "id64 list \<Rightarrow> patchInfo set \<Rightarrow> patchInfo set stmt" where
  "getPatches [] ps = returnS ps"
| "getPatches (i # is) ps =
     bindS (fetchServiceAndVersionForInstance i) (\<lambda>r.
       getPatches is (case r of None \<Rightarrow> ps | Some p \<Rightarrow> insert p ps))"

definition insertPatches :: "visits \<Rightarrow> patchInfo set \<Rightarrow> unit stmt" where
  "insertPatches vs ps = for_each insertPatchIfNoInstanceExists (v_patches vs ps)"

definition deleteIssueMatchesOfDisappearedInstances :: "id64 list \<Rightarrow> unit stmt" where
  "deleteIssueMatchesOfDisappearedInstances ds =
     for_each (\<lambda>d. bindS (GetAllIssueMatchIds d) (for_each DeleteIssueMatch)) ds"

definition getVersionIdsOfDisappearedInstances :: "id64 list \<Rightarrow> id64 set stmt" where
  "getVersionIdsOfDisappearedInstances ds = bindS (instances_by_id ds) (\<lambda>cs. returnS (iwVersion ` set cs))"

definition deleteDisappearedInstances :: "id64 list \<Rightarrow> unit stmt" where
  "deleteDisappearedInstances ds = for_each DeleteComponentInstance ds"

definition getComponentIdsOfDisappearedInstances :: "visits \<Rightarrow> id64 set \<Rightarrow> id64 set stmt" where
  "getComponentIdsOfDisappearedInstances vs versions =
     bindS (versions_by_id (v_ids vs versions)) (\<lambda>rs. returnS (vwComponent ` set rs))"

definition deleteVersionsOfDisappearedInstances :: "visits \<Rightarrow> id64 set \<Rightarrow> unit stmt" where
  "deleteVersionsOfDisappearedInstances vs versions =
     for_each (\<lambda>v. bindS (instances_by_version v) (\<lambda>cs.
         if cs = [] then
           bindS (for_each RemoveAllIssuesFromComponentVersion (v_ids vs versions)) (\<lambda>_. DeleteComponentVersion v)
         else returnS ()))
       (v_ids vs versions)"

definition deleteComponentsOfDisappearedInstances :: "visits \<Rightarrow> id64 set \<Rightarrow> unit stmt" where
  "deleteComponentsOfDisappearedInstances vs components =
     for_each (\<lambda>c. bindS (versions_by_component c) (\<lambda>rs.
         if rs = [] then DeleteComponent c else returnS ()))
       (v_ids vs components)"

definition processAutopatchForSingleTag :: "visits \<Rightarrow> id64 \<Rightarrow> id64 \<Rightarrow> bool stmt" where
  "processAutopatchForSingleTag vs latest secondLatest =
     bindS (fetchComponentInstancesForRun latest) (\<lambda>latestInstances.
     bindS (fetchComponentInstancesForRun secondLatest) (\<lambda>secondLatestInstances.
       let ds = getDisappearedInstances vs latestInstances secondLatestInstances in
       if ds = [] then returnS False
       else
         bindS (getPatches ds {}) (\<lambda>patches.
         bindS (deleteIssueMatchesOfDisappearedInstances ds) (\<lambda>_.
         bindS (getVersionIdsOfDisappearedInstances ds) (\<lambda>versions.
         bindS (deleteDisappearedInstances ds) (\<lambda>_.
         bindS (getComponentIdsOfDisappearedInstances vs versions) (\<lambda>components.
         bindS (deleteVersionsOfDisappearedInstances vs versions) (\<lambda>_.
         bindS (deleteComponentsOfDisappearedInstances vs components) (\<lambda>_.
         bindS (insertPatches vs patches) (\<lambda>_. returnS True))))))))))"

definition fetchCompletedRunsWithNewestFirst :: "(string \<Rightarrow> id64 list) stmt" where
  "fetchCompletedRunsWithNewestFirst = db_query (\<lambda>t tag. rev (sort (map rrId
     (filter (\<lambda>r. rrTag r = tag \<and> rrCompleted r \<and> \<not> rrDeleted r) (t_runs t)))))"

fun processAutopatchOnCompletedRuns :: "visits \<Rightarrow> (string \<Rightarrow> id64 list) \<Rightarrow> string list \<Rightarrow> bool \<Rightarrow> bool stmt" where
  "processAutopatchOnCompletedRuns vs runs [] autopatched = returnS autopatched"
| "processAutopatchOnCompletedRuns vs runs (tag # tags) autopatched =
     (case runs tag of
        latest # secondLatest # older \<Rightarrow>
          bindS (processAutopatchForSingleTag vs latest secondLatest) (\<lambda>patched.
            processAutopatchOnCompletedRuns vs runs tags (if patched then True else autopatched))
      | _ \<Rightarrow> processAutopatchOnCompletedRuns vs runs tags autopatched)"

text \<open>The keys of the map are the tags with a completed run.\<close>

definition Autopatch :: "visits \<Rightarrow> bool stmt" where
  "Autopatch vs = (\<lambda>t. bindS fetchCompletedRunsWithNewestFirst (\<lambda>runs.
     processAutopatchOnCompletedRuns vs runs (v_tags vs {tag. runs tag \<noteq> []}) False) t)"


section \<open>Statements that do not fail\<close>

lemma db_query_ok: "t_calls t = None \<Longrightarrow> db_query q t = (Inr (q t), t)"
  by (simp add: db_query_def db_call_def)

lemma db_exec_ok: "t_calls t = None \<Longrightarrow> db_exec u t = (Inr (), u t)"
  by (simp add: db_exec_def db_call_def)

lemma bindS_Inr: "m t = (Inr x, t') \<Longrightarrow> bindS m f t = f x t'"
  by (simp add: bindS_def)

lemma bind_query: "t_calls t = None \<Longrightarrow> bindS (db_query q) f t = f (q t) t"
  by (simp add: bindS_def db_query_ok)

lemma for_each_ok:
  assumes "\<And>x t. t_calls t = None \<Longrightarrow> f x t = (Inr (), g x t) \<and> t_calls (g x t) = None"
  shows "t_calls t = None \<Longrightarrow> for_each f xs t = (Inr (), fold g xs t) \<and> t_calls (fold g xs t) = None"
  by (induction xs arbitrary: t) (simp_all add: returnS_def bindS_Inr [OF conjunct1 [OF assms]] assms)

lemma getPatches_ok:
  "t_calls t = None \<Longrightarrow> getPatches is ps t = (Inr (ps \<union> {p. \<exists>i \<in> set is. patch_of t i = Some p}), t)"
proof (induction "is" arbitrary: ps)
  case (Cons i "is")
  have "bindS (fetchServiceAndVersionForInstance i) f t = f (patch_of t i) t" for f :: "patchInfo option \<Rightarrow> patchInfo set stmt"
    by (rule bindS_Inr) (simp add: fetchServiceAndVersionForInstance_def db_query_ok Cons.prems)
  then show ?case using Cons.IH [OF Cons.prems] by (auto split: option.splits)
qed (simp add: returnS_def)

definition delete_matches :: "id64 list \<Rightarrow> tables \<Rightarrow> tables" where
  "delete_matches ds t = t\<lparr>t_matches :=
     map (\<lambda>m. if mwInstance m \<in> set ds then m\<lparr>mwDeleted := True\<rparr> else m) (t_matches t)\<rparr>"

definition delete_instances :: "id64 list \<Rightarrow> tables \<Rightarrow> tables" where
  "delete_instances ds t = t\<lparr>t_instances :=
     map (\<lambda>c. if iwId c \<in> set ds then c\<lparr>iwDeleted := True\<rparr> else c) (t_instances t)\<rparr>"

lemma DeleteIssueMatch_each:
  "t_calls t = None \<Longrightarrow> for_each DeleteIssueMatch ids t = (Inr (), t\<lparr>t_matches :=
     map (\<lambda>m. if mwId m \<in> set ids then m\<lparr>mwDeleted := True\<rparr> else m) (t_matches t)\<rparr>)"
proof (induction ids arbitrary: t)
  case (Cons i ids)
  let ?t = "t\<lparr>t_matches := map (\<lambda>m. if mwId m = i then m\<lparr>mwDeleted := True\<rparr> else m) (t_matches t)\<rparr>"
  have "DeleteIssueMatch i t = (Inr (), ?t)" by (simp add: DeleteIssueMatch_def db_exec_ok Cons.prems)
  then show ?case using Cons.IH [of ?t] Cons.prems by (auto simp: bindS_Inr comp_def)
qed (simp add: returnS_def)

lemma delete_matches_of_one:
  assumes "t_calls t = None" and "distinct (map mwId (t_matches t))"
  shows "bindS (GetAllIssueMatchIds d) (for_each DeleteIssueMatch) t = (Inr (), delete_matches [d] t)"
proof -
  let ?ids = "map mwId (filter (\<lambda>m. mwInstance m = d \<and> \<not> mwDeleted m) (t_matches t))"
  have "(if mwId m \<in> set ?ids then m\<lparr>mwDeleted := True\<rparr> else m) =
      (if mwInstance m \<in> set [d] then m\<lparr>mwDeleted := True\<rparr> else m)" if "m \<in> set (t_matches t)" for m
  proof (cases "mwId m \<in> set ?ids")
    case True
    then obtain m' where m': "m' \<in> set (t_matches t)" "mwInstance m' = d" "mwId m' = mwId m" by auto
    with assms(2) that have "m' = m" by (auto simp: distinct_map inj_on_def)
    with m' True show ?thesis by simp
  next
    case False
    with that have "mwInstance m = d \<Longrightarrow> mwDeleted m" by auto
    then have "mwInstance m = d \<Longrightarrow> m\<lparr>mwDeleted := True\<rparr> = m" by (cases m) simp
    with False show ?thesis by simp
  qed
  then have "map (\<lambda>m. if mwId m \<in> set ?ids then m\<lparr>mwDeleted := True\<rparr> else m) (t_matches t) =
      map (\<lambda>m. if mwInstance m \<in> set [d] then m\<lparr>mwDeleted := True\<rparr> else m) (t_matches t)"
    by (rule map_cong [OF refl])
  then show ?thesis
    by (simp add: bindS_def GetAllIssueMatchIds_def db_query_ok assms(1) DeleteIssueMatch_each delete_matches_def)
qed

lemma deleteIssueMatches_ok:
  "t_calls t = None \<Longrightarrow> distinct (map mwId (t_matches t)) \<Longrightarrow>
   deleteIssueMatchesOfDisappearedInstances ds t = (Inr (), delete_matches ds t)"
  unfolding deleteIssueMatchesOfDisappearedInstances_def
proof (induction ds arbitrary: t)
  case Nil
  then show ?case by (simp add: returnS_def delete_matches_def)
next
  case (Cons d ds)
  have "map mwId (t_matches (delete_matches [d] t)) = map mwId (t_matches t)"
    by (simp add: delete_matches_def comp_def if_distrib cong: if_cong)
  moreover have "t_calls (delete_matches [d] t) = None" using Cons.prems by (simp add: delete_matches_def)
  moreover have "delete_matches ds (delete_matches [d] t) = delete_matches (d # ds) t"
    by (auto simp: delete_matches_def)
  ultimately show ?case
    using Cons.IH [of "delete_matches [d] t"] Cons.prems by (simp add: bindS_Inr [OF delete_matches_of_one])
qed

lemma deleteDisappearedInstances_ok:
  "t_calls t = None \<Longrightarrow> deleteDisappearedInstances ds t = (Inr (), delete_instances ds t)"
  unfolding deleteDisappearedInstances_def
proof (induction ds arbitrary: t)
  case Nil
  then show ?case by (simp add: returnS_def delete_instances_def)
next
  case (Cons d ds)
  have "DeleteComponentInstance d t = (Inr (), delete_instances [d] t)"
    by (simp add: DeleteComponentInstance_def db_exec_ok Cons.prems delete_instances_def)
  moreover have "delete_instances ds (delete_instances [d] t) = delete_instances (d # ds) t"
    by (auto simp: delete_instances_def)
  ultimately show ?case
    using Cons.IH [of "delete_instances [d] t"] Cons.prems by (simp add: bindS_Inr delete_instances_def)
qed

section \<open>Versions and components\<close>

definition unused :: "tables \<Rightarrow> id64 \<Rightarrow> bool" where
  "unused t v \<longleftrightarrow> list_all (\<lambda>c. iwVersion c \<noteq> v) (activeInstances t)"

definition delete_version :: "id64 list \<Rightarrow> id64 \<Rightarrow> tables \<Rightarrow> tables" where
  "delete_version vs v t =
     (if unused t v then t\<lparr>t_links := filter (\<lambda>(w, i). w \<notin> set vs) (t_links t),
        t_versions := map (\<lambda>w. if vwId w = v then w\<lparr>vwDeleted := True\<rparr> else w) (t_versions t)\<rparr> else t)"

lemma remove_links_ok:
  "t_calls t = None \<Longrightarrow> for_each RemoveAllIssuesFromComponentVersion vs t =
     (Inr (), t\<lparr>t_links := filter (\<lambda>(w, i). w \<notin> set vs) (t_links t)\<rparr>)"
proof (induction vs arbitrary: t)
  case (Cons v vs)
  let ?t = "t\<lparr>t_links := filter (\<lambda>(w, i). w \<noteq> v) (t_links t)\<rparr>"
  have "RemoveAllIssuesFromComponentVersion v t = (Inr (), ?t)"
    by (simp add: RemoveAllIssuesFromComponentVersion_def db_exec_ok Cons.prems)
  then show ?case using Cons.IH [of ?t] Cons.prems
    by (simp add: bindS_Inr) (auto intro!: arg_cong [where f = "\<lambda>l. t\<lparr>t_links := l\<rparr>"] filter_cong)
qed (simp add: returnS_def)

lemma instances_by_version_ok:
  "t_calls t = None \<Longrightarrow> \<exists>cs. instances_by_version v t = (Inr cs, t) \<and> (cs = [] \<longleftrightarrow> unused t v)"
  by (auto simp: instances_by_version_def db_query_ok unused_def list_all_iff filter_empty_conv)

lemma delete_version_ok:
  assumes "t_calls t = None"
  shows "bindS (instances_by_version v) (\<lambda>cs. if cs = [] then
           bindS (for_each RemoveAllIssuesFromComponentVersion vs) (\<lambda>_. DeleteComponentVersion v)
         else returnS ()) t = (Inr (), delete_version vs v t)"
proof -
  obtain cs where "instances_by_version v t = (Inr cs, t)" "cs = [] \<longleftrightarrow> unused t v"
    using instances_by_version_ok [OF assms] by blast
  then show ?thesis
    using assms by (simp add: bindS_def remove_links_ok DeleteComponentVersion_def db_exec_ok delete_version_def returnS_def)
qed

lemma deleteVersions_ok:
  assumes "t_calls t = None"
  shows "deleteVersionsOfDisappearedInstances vs V t = (Inr (), fold (delete_version (v_ids vs V)) (v_ids vs V) t)"
  unfolding deleteVersionsOfDisappearedInstances_def
  by (rule conjunct1 [OF for_each_ok [OF _ assms]]) (simp add: delete_version_ok, simp add: delete_version_def)

lemma delete_where:
  "map (\<lambda>w. if P (vwId w) then w\<lparr>vwDeleted := True\<rparr> else w)
     (map (\<lambda>w. if Q (vwId w) then w\<lparr>vwDeleted := True\<rparr> else w) ws) =
   map (\<lambda>w. if P (vwId w) \<or> Q (vwId w) then w\<lparr>vwDeleted := True\<rparr> else w) ws"
  by (induction ws) auto

lemma fold_delete_version:
  "fold (delete_version L) vs t =
     t\<lparr>t_links := (if \<exists>v \<in> set vs. unused t v then filter (\<lambda>(w, i). w \<notin> set L) (t_links t) else t_links t),
       t_versions := map (\<lambda>w. if vwId w \<in> set vs \<and> unused t (vwId w) then w\<lparr>vwDeleted := True\<rparr> else w) (t_versions t)\<rparr>"
proof (induction vs arbitrary: t)
  case (Cons v vs)
  show ?case
  proof (cases "unused t v")
    case False
    then have "delete_version L v t = t" by (simp add: delete_version_def)
    moreover have "(w = v \<or> w \<in> set vs) \<and> unused t w \<longleftrightarrow> w \<in> set vs \<and> unused t w" for w using False by auto
    ultimately show ?thesis using False by (simp add: Cons.IH)
  next
    case True
    let ?d = "map (\<lambda>w. if vwId w = v then w\<lparr>vwDeleted := True\<rparr> else w) (t_versions t)"
    have d: "delete_version L v t = t\<lparr>t_links := filter (\<lambda>(w, i). w \<notin> set L) (t_links t), t_versions := ?d\<rparr>"
      using True by (simp add: delete_version_def)
    have u: "unused (delete_version L v t) w \<longleftrightarrow> unused t w" for w
      by (simp add: d unused_def activeInstances_def)
    have m: "map (\<lambda>w. if vwId w \<in> set vs \<and> unused t (vwId w) then w\<lparr>vwDeleted := True\<rparr> else w) ?d =
        map (\<lambda>w. if vwId w \<in> set (v # vs) \<and> unused t (vwId w) then w\<lparr>vwDeleted := True\<rparr> else w) (t_versions t)"
      unfolding delete_where [of "\<lambda>i. i \<in> set vs \<and> unused t i" "\<lambda>i. i = v"] using True
      by (intro map_cong refl) auto
    have "fold (delete_version L) (v # vs) t = fold (delete_version L) vs (delete_version L v t)" by simp
    also have "\<dots> = (delete_version L v t)\<lparr>t_links := filter (\<lambda>(w, i). w \<notin> set L) (t_links t),
        t_versions := map (\<lambda>w. if vwId w \<in> set vs \<and> unused t (vwId w) then w\<lparr>vwDeleted := True\<rparr> else w) ?d\<rparr>"
      unfolding Cons.IH u by (simp add: d)
    also have "\<dots> = t\<lparr>t_links := filter (\<lambda>(w, i). w \<notin> set L) (t_links t),
        t_versions := map (\<lambda>w. if vwId w \<in> set (v # vs) \<and> unused t (vwId w) then w\<lparr>vwDeleted := True\<rparr> else w) (t_versions t)\<rparr>"
      unfolding m by (simp add: d)
    finally show ?thesis using True by simp
  qed
qed simp

definition delete_component :: "id64 \<Rightarrow> tables \<Rightarrow> tables" where
  "delete_component c t =
     (if list_all (\<lambda>v. vwComponent v \<noteq> c) (activeVersions t) then t\<lparr>t_components :=
        map (\<lambda>w. if nwId w = c then w\<lparr>nwDeleted := True\<rparr> else w) (t_components t)\<rparr> else t)"

lemma deleteComponents_ok:
  assumes "t_calls t = None"
  shows "deleteComponentsOfDisappearedInstances vs C t = (Inr (), fold delete_component (v_ids vs C) t)"
  unfolding deleteComponentsOfDisappearedInstances_def
proof (rule conjunct1 [OF for_each_ok [OF _ assms]])
  fix c and t :: tables
  assume t: "t_calls t = None"
  have "take 1000 (filter (\<lambda>v. vwComponent v = c) (activeVersions t)) = [] \<longleftrightarrow>
      list_all (\<lambda>v. vwComponent v \<noteq> c) (activeVersions t)"
    by (auto simp: list_all_iff filter_empty_conv)
  with t show "bindS (versions_by_component c) (\<lambda>rs. if rs = [] then DeleteComponent c else returnS ()) t =
      (Inr (), delete_component c t) \<and> t_calls (delete_component c t) = None"
    by (simp add: bindS_def versions_by_component_def db_query_ok DeleteComponent_def db_exec_ok delete_component_def returnS_def)
qed

lemma fold_delete_component:
  "\<exists>cs. fold delete_component C t = t\<lparr>t_components := cs\<rparr>"
proof (induction C arbitrary: t)
  case Nil
  show ?case by (intro exI [of _ "t_components t"]) simp
next
  case (Cons c C)
  obtain xs where xs: "delete_component c t = t\<lparr>t_components := xs\<rparr>"
  proof
    show "delete_component c t = t\<lparr>t_components := (if list_all (\<lambda>v. vwComponent v \<noteq> c) (activeVersions t)
        then map (\<lambda>w. if nwId w = c then w\<lparr>nwDeleted := True\<rparr> else w) (t_components t) else t_components t)\<rparr>"
      by (simp add: delete_component_def)
  qed
  obtain cs where "fold delete_component C (delete_component c t) = (delete_component c t)\<lparr>t_components := cs\<rparr>"
    using Cons.IH by blast
  then show ?case by (intro exI [of _ cs]) (simp add: xs)
qed

section \<open>Patches\<close>

lemma insert_patches_ok:
  "t_calls t = None \<Longrightarrow> for_each insertPatchIfNoInstanceExists ps t =
     (Inr (), t\<lparr>t_patches := t_patches t @ filter (\<lambda>p. \<not> in_use t p) ps\<rparr>)"
proof (induction ps arbitrary: t)
  case (Cons p ps)
  let ?t = "if in_use t p then t else t\<lparr>t_patches := t_patches t @ [p]\<rparr>"
  have "insertPatchIfNoInstanceExists p t = (Inr (), ?t)"
    by (simp add: insertPatchIfNoInstanceExists_def db_exec_ok Cons.prems)
  moreover have "in_use ?t q \<longleftrightarrow> in_use t q" for q by (simp add: in_use_def activeInstances_def)
  ultimately show ?case using Cons.IH [of ?t] Cons.prems by (auto simp: bindS_Inr)
qed (simp add: returnS_def)

text \<open>A whole run for a tag, up to the rows of versions, components and links.\<close>

definition disappeared :: "tables \<Rightarrow> id64 \<Rightarrow> id64 \<Rightarrow> id64 set" where
  "disappeared t latest second = {i. (second, i) \<in> set (t_tracker t) \<and> (latest, i) \<notin> set (t_tracker t)}"

definition orders_ok :: "visits \<Rightarrow> bool" where
  "orders_ok vs \<longleftrightarrow> (\<forall>S. finite S \<longrightarrow> enumerates (v_ids vs S) S) \<and> (\<forall>S. finite S \<longrightarrow> enumerates (v_patches vs S) S)
     \<and> (\<forall>S. finite S \<longrightarrow> enumerates (v_tags vs S) S)"

lemma tracked_finite: "finite {i. (run, i) \<in> set (t_tracker t)}"
  by (rule finite_subset [of _ "snd ` set (t_tracker t)"]) force+

lemma getDisappeared_set:
  assumes "orders_ok vs"
  shows "set (getDisappearedInstances vs {i. (latest, i) \<in> set (t_tracker t)} {i. (second, i) \<in> set (t_tracker t)})
    = disappeared t latest second"
  using assms tracked_finite [of second t]
  by (auto simp: getDisappearedInstances_def orders_ok_def disappeared_def enumerates_def)

lemma autopatch_run:
  assumes "orders_ok vs" and "t_calls t = None" and "distinct (map mwId (t_matches t))"
    and "disappeared t latest second \<noteq> {}"
    and that: "ds = getDisappearedInstances vs {i. (latest, i) \<in> set (t_tracker t)} {i. (second, i) \<in> set (t_tracker t)}"
  shows "\<exists>t' ls vrs cs. processAutopatchForSingleTag vs latest second t = (Inr True, t')
    \<and> t' = (delete_instances ds (delete_matches ds t))\<lparr>t_links := ls, t_versions := vrs, t_components := cs,
        t_patches := t_patches t @ filter (\<lambda>p. \<not> in_use (delete_instances ds t) p)
          (v_patches vs {p. \<exists>i \<in> disappeared t latest second. patch_of t i = Some p})\<rparr>"
proof -
  have ds: "set ds = disappeared t latest second" using that getDisappeared_set [OF assms(1)] by simp
  then have "ds \<noteq> []" using assms(4) by auto
  let ?t1 = "delete_matches ds t" and ?t2 = "delete_instances ds (delete_matches ds t)"
  let ?ps = "{p. \<exists>i \<in> disappeared t latest second. patch_of t i = Some p}"
  have c: "t_calls ?t1 = None" "t_calls ?t2 = None" using assms(2) by (simp_all add: delete_matches_def delete_instances_def)
  obtain V where V: "getVersionIdsOfDisappearedInstances ds ?t1 = (Inr V, ?t1)"
    by (simp add: getVersionIdsOfDisappearedInstances_def bindS_def instances_by_id_def db_query_ok c returnS_def)
  obtain C where C: "getComponentIdsOfDisappearedInstances vs V ?t2 = (Inr C, ?t2)"
    by (simp add: getComponentIdsOfDisappearedInstances_def bindS_def versions_by_id_def db_query_ok c returnS_def)
  let ?t3 = "fold (delete_version (v_ids vs V)) (v_ids vs V) ?t2"
  obtain ls vrs where t3: "?t3 = ?t2\<lparr>t_links := ls, t_versions := vrs\<rparr>" unfolding fold_delete_version by blast
  then have c3: "t_calls ?t3 = None" using c by simp
  obtain cs where t4: "fold delete_component (v_ids vs C) ?t3 = ?t3\<lparr>t_components := cs\<rparr>"
    using fold_delete_component by blast
  let ?t4 = "?t2\<lparr>t_links := ls, t_versions := vrs, t_components := cs\<rparr>"
  have use: "in_use ?t4 p \<longleftrightarrow> in_use (delete_instances ds t) p" for p
    by (simp add: in_use_def activeInstances_def delete_instances_def delete_matches_def)
  have p: "getPatches ds {} t = (Inr ?ps, t)" using getPatches_ok [OF assms(2), of ds "{}"] by (simp add: ds)
  have "processAutopatchForSingleTag vs latest second t = (Inr True, ?t4\<lparr>t_patches :=
      t_patches ?t4 @ filter (\<lambda>p. \<not> in_use ?t4 p) (v_patches vs ?ps)\<rparr>)"
    using \<open>ds \<noteq> []\<close> c c3 assms(2)
    by (simp add: that [symmetric] processAutopatchForSingleTag_def fetchComponentInstancesForRun_def bindS_def db_query_ok Let_def
        p deleteIssueMatches_ok assms(3) V deleteDisappearedInstances_ok C deleteVersions_ok deleteComponents_ok
        t4 [unfolded t3] t3 insertPatches_def insert_patches_ok returnS_def)
  moreover have "t_patches ?t4 = t_patches t" by (simp add: delete_instances_def delete_matches_def)
  ultimately have e: "processAutopatchForSingleTag vs latest second t = (Inr True, ?t4\<lparr>t_patches :=
      t_patches t @ filter (\<lambda>p. \<not> in_use (delete_instances ds t) p) (v_patches vs ?ps)\<rparr>)"
    by (simp only: use)
  show ?thesis by (intro exI conjI, rule e, rule refl)
qed

text \<open>Iterating over a finite map in the order of its keys is one admissible order.\<close>

definition patch_key :: "patchInfo \<Rightarrow> int \<times> string \<times> int \<times> string" where
  "patch_key p = (serviceId p, serviceName p, componentVersionId p, componentVersionName p)"

definition key_patch :: "int \<times> string \<times> int \<times> string \<Rightarrow> patchInfo" where
  "key_patch = (\<lambda>(s, sn, v, vn). \<lparr>serviceId = s, serviceName = sn, componentVersionId = v, componentVersionName = vn\<rparr>)"

definition sorted_visits :: visits where
  "sorted_visits = \<lparr>v_ids = sorted_list_of_set, v_patches = \<lambda>S. map key_patch (sorted_list_of_set (patch_key ` S)),
     v_tags = sorted_list_of_set\<rparr>"

lemma key_patch_inverse [simp]: "key_patch (patch_key p) = p" "patch_key (key_patch k) = k"
  by (simp_all add: key_patch_def patch_key_def split: prod.splits)

lemma sorted_visits_ok: "orders_ok sorted_visits"
proof -
  have "inj key_patch" by (rule inj_on_inverseI [where g = patch_key]) simp
  then have "distinct (map key_patch (sorted_list_of_set K))" for K
    by (simp add: distinct_map inj_on_subset [OF _ subset_UNIV])
  then show ?thesis by (simp add: orders_ok_def sorted_visits_def enumerates_def image_comp comp_def)
qed

section \<open>Properties of automatic patches\<close>

lemma patches_finite: "finite {p. \<exists>i \<in> disappeared t latest second. patch_of t i = Some p}"
proof -
  have "{p. \<exists>i \<in> disappeared t latest second. patch_of t i = Some p} \<subseteq>
      (\<lambda>i. the (patch_of t i)) ` disappeared t latest second"
    by (rule subsetI) (auto intro: rev_image_eqI)
  moreover have "finite (disappeared t latest second)"
    by (rule finite_subset [OF _ tracked_finite [of second t]]) (auto simp: disappeared_def)
  ultimately show ?thesis by (rule finite_subset [OF _ finite_imageI])
qed

lemma in_use_instances: "t_instances t = t_instances u \<Longrightarrow> in_use t p \<longleftrightarrow> in_use u p"
  by (simp add: in_use_def activeInstances_def)

text \<open>
  C33. When no statement fails, the automatic patch of a tag deletes exactly the component instances that the
  newest completed run no longer saw and their issue matches, and adds a patch for exactly the pairs
  of service and version of those instances that no remaining instance uses.
\<close>

theorem autopatch_of_tag:
  assumes "orders_ok vs" and "t_calls t = None" and "distinct (map mwId (t_matches t))"
    and "disappeared t latest second \<noteq> {}"
  shows "\<exists>t'. processAutopatchForSingleTag vs latest second t = (Inr True, t')
    \<and> t_instances t' = map (\<lambda>c. if iwId c \<in> disappeared t latest second then c\<lparr>iwDeleted := True\<rparr> else c) (t_instances t)
    \<and> t_matches t' = map (\<lambda>m. if mwInstance m \<in> disappeared t latest second then m\<lparr>mwDeleted := True\<rparr> else m) (t_matches t)
    \<and> set (t_patches t') = set (t_patches t) \<union>
        {p. (\<exists>i \<in> disappeared t latest second. patch_of t i = Some p) \<and> \<not> in_use t' p}"
proof -
  let ?ds = "getDisappearedInstances vs {i. (latest, i) \<in> set (t_tracker t)} {i. (second, i) \<in> set (t_tracker t)}"
  have d: "set ?ds = disappeared t latest second" by (rule getDisappeared_set [OF assms(1)])
  obtain t' ls vrs cs where t': "processAutopatchForSingleTag vs latest second t = (Inr True, t')"
    "t' = (delete_instances ?ds (delete_matches ?ds t))\<lparr>t_links := ls, t_versions := vrs, t_components := cs,
        t_patches := t_patches t @ filter (\<lambda>p. \<not> in_use (delete_instances ?ds t) p)
          (v_patches vs {p. \<exists>i \<in> disappeared t latest second. patch_of t i = Some p})\<rparr>"
    using autopatch_run [OF assms refl] by blast
  have "in_use t' p \<longleftrightarrow> in_use (delete_instances ?ds t) p" for p
    by (rule in_use_instances) (simp add: t'(2) delete_instances_def delete_matches_def)
  moreover have "set (v_patches vs {p. \<exists>i \<in> disappeared t latest second. patch_of t i = Some p}) =
      {p. \<exists>i \<in> disappeared t latest second. patch_of t i = Some p}"
    using assms(1) patches_finite [of t latest second] by (simp add: orders_ok_def enumerates_def)
  ultimately have "set (t_patches t') = set (t_patches t) \<union>
        {p. (\<exists>i \<in> disappeared t latest second. patch_of t i = Some p) \<and> \<not> in_use t' p}"
    by (auto simp: t'(2))
  then show ?thesis
    using t' by (intro exI [of _ t']) (simp add: t'(2) delete_instances_def delete_matches_def d)
qed

text \<open>Two tagged runs: the newer one no longer saw instances 1 and 2; instance 3 still uses version 20.\<close>

definition example_tables :: tables where
  "example_tables = \<lparr>
     t_runs = [\<lparr>rrId = 1, rrUUID = ''a'', rrTag = ''k8s'', rrCompleted = True, rrDeleted = False\<rparr>,
               \<lparr>rrId = 2, rrUUID = ''b'', rrTag = ''k8s'', rrCompleted = True, rrDeleted = False\<rparr>],
     t_run_errors = [], t_tracker = [(1, 1), (1, 2), (1, 3), (2, 3)],
     t_instances = [\<lparr>iwId = 1, iwVersion = 10, iwService = 5, iwDeleted = False\<rparr>,
                    \<lparr>iwId = 2, iwVersion = 20, iwService = 5, iwDeleted = False\<rparr>,
                    \<lparr>iwId = 3, iwVersion = 20, iwService = 5, iwDeleted = False\<rparr>],
     t_versions = [\<lparr>vwId = 10, vwName = ''1.0'', vwComponent = 7, vwDeleted = False\<rparr>,
                   \<lparr>vwId = 20, vwName = ''2.0'', vwComponent = 7, vwDeleted = False\<rparr>],
     t_services = [\<lparr>nwId = 5, nwName = ''svc'', nwDeleted = False\<rparr>],
     t_components = [\<lparr>nwId = 7, nwName = ''lib'', nwDeleted = False\<rparr>],
     t_matches = [\<lparr>mwId = 1, mwInstance = 1, mwDeleted = False\<rparr>, \<lparr>mwId = 2, mwInstance = 3, mwDeleted = False\<rparr>],
     t_links = [(10, 100), (20, 100)], t_patches = [], t_calls = None\<rparr>"

lemma example_disappeared [simp]: "disappeared example_tables 2 1 = {1, 2}"
  by (auto simp: disappeared_def example_tables_def)

lemma example_simps [simp]:
  "t_calls example_tables = None" "distinct (map mwId (t_matches example_tables))"
  by (simp_all add: example_tables_def)

lemma example_patches:
  "patch_of example_tables 1 = Some \<lparr>serviceId = 5, serviceName = ''svc'', componentVersionId = 10, componentVersionName = ''1.0''\<rparr>"
  "patch_of example_tables 2 = Some \<lparr>serviceId = 5, serviceName = ''svc'', componentVersionId = 20, componentVersionName = ''2.0''\<rparr>"
  by (simp_all add: example_tables_def patch_of_def activeInstances_def activeVersions_def)

lemma one_of_two:
  "f 1 = Some a \<Longrightarrow> f 2 = Some b \<Longrightarrow> P b \<Longrightarrow> \<not> P a \<Longrightarrow> {p. (\<exists>i \<in> {1, 2 :: int}. f i = Some p) \<and> \<not> P p} = {a}"
  by auto

theorem autopatch_of_tag_witness:
  "\<exists>t'. processAutopatchForSingleTag sorted_visits 2 1 example_tables = (Inr True, t') \<and>
     set (t_patches t') = {\<lparr>serviceId = 5, serviceName = ''svc'', componentVersionId = 10, componentVersionName = ''1.0''\<rparr>} \<and>
     map iwDeleted (t_instances t') = [True, True, False] \<and> map mwDeleted (t_matches t') = [True, False]"
proof -
  have "disappeared example_tables 2 1 \<noteq> {}" by simp
  from autopatch_of_tag [OF sorted_visits_ok example_simps this]
  obtain t' where t': "processAutopatchForSingleTag sorted_visits 2 1 example_tables = (Inr True, t')"
    "t_instances t' = map (\<lambda>c. if iwId c \<in> {1, 2} then c\<lparr>iwDeleted := True\<rparr> else c) (t_instances example_tables)"
    "t_matches t' = map (\<lambda>m. if mwInstance m \<in> {1, 2} then m\<lparr>mwDeleted := True\<rparr> else m) (t_matches example_tables)"
    "set (t_patches t') = set (t_patches example_tables) \<union>
        {p. (\<exists>i \<in> {1, 2}. patch_of example_tables i = Some p) \<and> \<not> in_use t' p}"
    unfolding example_disappeared by blast
  have "in_use t' \<lparr>serviceId = 5, serviceName = ''svc'', componentVersionId = 20, componentVersionName = ''2.0''\<rparr>"
    "\<not> in_use t' \<lparr>serviceId = 5, serviceName = ''svc'', componentVersionId = 10, componentVersionName = ''1.0''\<rparr>"
    by (simp_all add: in_use_def activeInstances_def t'(2) example_tables_def)
  then have "{p. (\<exists>i \<in> {1, 2}. patch_of example_tables i = Some p) \<and> \<not> in_use t' p} =
      {\<lparr>serviceId = 5, serviceName = ''svc'', componentVersionId = 10, componentVersionName = ''1.0''\<rparr>}"
    by (rule one_of_two [where P = "in_use t'", OF example_patches])
  moreover have "t_patches example_tables = []" by (simp add: example_tables_def)
  ultimately have "set (t_patches t') =
      {\<lparr>serviceId = 5, serviceName = ''svc'', componentVersionId = 10, componentVersionName = ''1.0''\<rparr>}"
    using t'(4) by simp
  moreover have "map iwDeleted (t_instances t') = [True, True, False]" "map mwDeleted (t_matches t') = [True, False]"
    unfolding t'(2,3) by (simp_all add: example_tables_def)
  ultimately show ?thesis using t'(1) by (intro exI [of _ t'] conjI)
qed

text \<open>
  Removing the versions of disappeared instances: as soon as one of them has no instance left, the issues of
  every version of the batch are detached, also those of a version that instances still use and
  that therefore stays.
\<close>

theorem unused_version_detaches_all:
  assumes "orders_ok vs" and "t_calls t = None" and "finite V"
    and "v \<in> V" and "unused t v" and "w \<in> V" and "\<not> unused t w"
  shows "\<exists>t'. deleteVersionsOfDisappearedInstances vs V t = (Inr (), t')
    \<and> (\<forall>i. (w, i) \<notin> set (t_links t'))
    \<and> filter (\<lambda>r. vwId r = w) (t_versions t') = filter (\<lambda>r. vwId r = w) (t_versions t)"
proof -
  have V: "set (v_ids vs V) = V" using assms(1,3) by (simp add: orders_ok_def enumerates_def)
  have "filter (\<lambda>r. vwId r = w) (map (\<lambda>r. if vwId r \<in> V \<and> unused t (vwId r) then r\<lparr>vwDeleted := True\<rparr> else r) rs) =
      filter (\<lambda>r. vwId r = w) rs" for rs using assms(7) by (induction rs) auto
  then show ?thesis
    using assms(4-6) by (auto simp: deleteVersions_ok [OF assms(2)] fold_delete_version V)
qed

theorem unused_version_detaches_all_witness:
  "let t = delete_instances [1, 2] example_tables in
   \<exists>t'. deleteVersionsOfDisappearedInstances sorted_visits {10, 20} t = (Inr (), t') \<and>
     (20, 100) \<in> set (t_links t) \<and> (20, 100) \<notin> set (t_links t')"
  using unused_version_detaches_all [OF sorted_visits_ok, of "delete_instances [1, 2] example_tables" "{10, 20}" 10 20]
  by (auto simp: Let_def delete_instances_def example_tables_def unused_def activeInstances_def)

text \<open>
  No transaction surrounds the statements: after an attempt that failed once the disappeared instances were
  deleted, a further attempt on the same runs succeeds but adds no patch, so the patches of the failed
  attempt are lost.
\<close>

theorem retry_adds_no_patch:
  assumes "orders_ok vs" and "processAutopatchForSingleTag vs latest second t = (Inl e, t1)"
    and "\<forall>c \<in> set (activeInstances t1). iwId c \<notin> disappeared t1 latest second"
    and "disappeared t1 latest second \<noteq> {}" and "distinct (map mwId (t_matches t1))"
  shows "\<exists>t2. processAutopatchForSingleTag vs latest second (t1\<lparr>t_calls := None\<rparr>) = (Inr True, t2)
    \<and> t_patches t2 = t_patches t1"
proof -
  let ?t = "t1\<lparr>t_calls := None\<rparr>"
  have d: "disappeared ?t latest second = disappeared t1 latest second" by (simp add: disappeared_def)
  have "patch_of ?t i = None" if "i \<in> disappeared t1 latest second" for i
  proof -
    have "find (\<lambda>c. iwId c = i) (activeInstances ?t) = None"
      using assms(3) that by (auto simp: find_None_iff activeInstances_def)
    then show ?thesis by (simp add: patch_of_def)
  qed
  then have "{p. \<exists>i \<in> disappeared ?t latest second. patch_of ?t i = Some p} = {}" unfolding d by auto
  moreover have "set (v_patches vs {}) = {}"
    using assms(1) unfolding orders_ok_def enumerates_def by (metis finite.emptyI)
  ultimately show ?thesis
    using autopatch_run [OF assms(1), of ?t latest second, OF _ _ _ refl] assms(4,5) d by auto
qed

text \<open>In the witness the eleventh statement fails: both instances are deleted, their components are not read.\<close>

lemma example_failure:
  "processAutopatchForSingleTag sorted_visits 2 1 (example_tables\<lparr>t_calls := Some 10\<rparr>) =
     (Inl db_error, (delete_instances [1, 2] (delete_matches [1, 2] example_tables))\<lparr>t_calls := Some 0\<rparr>)"
proof -
  have s: "{i. i = a \<or> i = b \<or> i = c} = {a, b, c}" for a b c :: int by auto
  show ?thesis
    by (simp add: processAutopatchForSingleTag_def fetchComponentInstancesForRun_def bindS_def db_query_def db_exec_def
        db_call_def example_tables_def s getDisappearedInstances_def sorted_visits_def Let_def
        fetchServiceAndVersionForInstance_def patch_of_def activeInstances_def activeVersions_def returnS_def
        deleteIssueMatchesOfDisappearedInstances_def GetAllIssueMatchIds_def DeleteIssueMatch_def
        getVersionIdsOfDisappearedInstances_def instances_by_id_def deleteDisappearedInstances_def
        DeleteComponentInstance_def getComponentIdsOfDisappearedInstances_def versions_by_id_def
        delete_instances_def delete_matches_def eval_nat_numeral)
qed

theorem retry_adds_no_patch_witness:
  "\<exists>e t1 t2. processAutopatchForSingleTag sorted_visits 2 1 (example_tables\<lparr>t_calls := Some 10\<rparr>) = (Inl e, t1)
     \<and> processAutopatchForSingleTag sorted_visits 2 1 (t1\<lparr>t_calls := None\<rparr>) = (Inr True, t2) \<and> t_patches t2 = []"
proof -
  let ?t1 = "(delete_instances [1, 2] (delete_matches [1, 2] example_tables))\<lparr>t_calls := Some 0\<rparr>"
  have d: "disappeared ?t1 2 1 = {1, 2}"
    by (auto simp: disappeared_def delete_instances_def delete_matches_def example_tables_def)
  have "\<forall>c \<in> set (activeInstances ?t1). iwId c \<notin> disappeared ?t1 2 1"
    unfolding d by (simp add: activeInstances_def delete_instances_def delete_matches_def example_tables_def)
  moreover have "disappeared ?t1 2 1 \<noteq> {}" unfolding d by simp
  moreover have "distinct (map mwId (t_matches ?t1))"
    by (simp add: delete_instances_def delete_matches_def example_tables_def)
  moreover have "t_patches ?t1 = []"
    by (simp add: delete_instances_def delete_matches_def example_tables_def)
  ultimately show ?thesis
    using retry_adds_no_patch [OF sorted_visits_ok example_failure] example_failure by metis
qed

end
