(* ===== verification/Scanner_Runs.thy ===== *)
theory Scanner_Runs
  imports Autopatch Pagination Order_Cursor
begin

text \<open>
  Scanner runs: the statements of \<open>internal/database/mariadb/scanner_run.go\<close>, the handler
  \<open>internal/app/scanner_run/scanner_run_handler.go\<close> and the queries of
  \<open>internal/api/graphql/graph/baseResolver/scannerrun.go\<close>, over the tables of \<open>Autopatch\<close>. Start and
  end times of runs are left out.

  The filter of a run is built as text; its meaning follows the precedence of SQL, under which AND
  binds tighter than OR, so a condition is a list of alternatives that are lists of atoms.
\<close>

section \<open>Creating, completing and failing a run\<close>

datatype run_event = CreateScannerRunEvent run_row | UpdateScannerRunEvent bool

text \<open>The table numbers its rows itself and refuses a second row with a uuid.\<close>

definition next_run_id :: "run_row list \<Rightarrow> id64" where
  "next_run_id rs = Max (insert 0 (rrId ` set rs)) + 1"

definition CreateScannerRun_db :: "run_row \<Rightarrow> id64 stmt" where
  "CreateScannerRun_db r t =
     (if list_ex (\<lambda>r'. rrUUID r' = rrUUID r) (t_runs t) then (Inl (ErrVal ''mysql'' ''Duplicate entry''), t)
      else db_call (\<lambda>t. let i = next_run_id (t_runs t) in
             (i, t\<lparr>t_runs := t_runs t @ [r\<lparr>rrId := i, rrDeleted := False\<rparr>]\<rparr>)) t)"

definition CompleteScannerRun_db :: "string \<Rightarrow> unit stmt" where
  "CompleteScannerRun_db uuid = db_exec (\<lambda>t. t\<lparr>t_runs :=
     map (\<lambda>r. if rrUUID r = uuid \<and> \<not> rrCompleted r then r\<lparr>rrCompleted := True\<rparr> else r) (t_runs t)\<rparr>)"

text \<open>The error row refers to the run by its uuid; without such a run the insertion violates \<open>NOT NULL\<close>.\<close>

definition FailScannerRun_db :: "string \<Rightarrow> string \<Rightarrow> unit stmt" where
  "FailScannerRun_db uuid message =
     bindS (db_exec (\<lambda>t. t\<lparr>t_runs :=
       map (\<lambda>r. if rrUUID r = uuid \<and> rrCompleted r then r\<lparr>rrCompleted := False\<rparr> else r) (t_runs t)\<rparr>)) (\<lambda>_.
     bindS (db_query (\<lambda>t. find (\<lambda>r. rrUUID r = uuid) (t_runs t))) (\<lambda>r. (case r of
         None \<Rightarrow> (\<lambda>t. (Inl (ErrVal ''mysql'' ''Column cannot be null''), t))
       | Some r \<Rightarrow> (\<lambda>t. (Inr (), t\<lparr>t_run_errors := t_run_errors t @ [(rrId r, message)]\<rparr>)))))"

definition ScannerRunHandlerError :: "string \<Rightarrow> goerr" where
  "ScannerRunHandlerError msg = ErrVal ''ScannerRunHandlerError'' msg"

definition CreateScannerRun :: "run_row \<Rightarrow> tables \<Rightarrow> (goerr + bool) \<times> run_event list \<times> tables" where
  "CreateScannerRun r t =
     (case CreateScannerRun_db r t of
        (Inl e, t') \<Rightarrow> (Inl (ScannerRunHandlerError ''Error creating scanner run''), [], t')
      | (Inr i, t') \<Rightarrow> (Inr True, [CreateScannerRunEvent (r\<lparr>rrId := i\<rparr>)], t'))"

definition CompleteScannerRun :: "visits \<Rightarrow> string \<Rightarrow> tables \<Rightarrow> (goerr + bool) \<times> run_event list \<times> tables" where
  "CompleteScannerRun vs uuid t =
     (case CompleteScannerRun_db uuid t of
        (Inl e, t') \<Rightarrow> (Inl (ScannerRunHandlerError ''Error updating scanner run''), [], t')
      | (Inr _, t') \<Rightarrow>
         (case Autopatch vs t' of
            (Inl e, t'') \<Rightarrow> (Inl (ScannerRunHandlerError ''Error executing autopatch in CompleteScannerRun''), [], t'')
          | (Inr _, t'') \<Rightarrow> (Inr True, [UpdateScannerRunEvent True], t'')))"

definition FailScannerRun :: "string \<Rightarrow> string \<Rightarrow> tables \<Rightarrow> (goerr + bool) \<times> run_event list \<times> tables" where
  "FailScannerRun uuid message t =
     (case FailScannerRun_db uuid message t of
        (Inl e, t') \<Rightarrow> (Inl (ScannerRunHandlerError (''Error updating scanner run: '' @ error_text e)), [], t')
      | (Inr _, t') \<Rightarrow> (Inr True, [UpdateScannerRunEvent False], t'))"

section \<open>Queries\<close>

record ScannerRunFilter =
  srPage :: Paginated
  srTag :: "string list"
  srCompleted :: bool

definition HasArgs :: "ScannerRunFilter \<Rightarrow> bool" where
  "HasArgs f \<longleftrightarrow> srTag f \<noteq> [] \<or> srCompleted f"

definition ensurePagination :: "Paginated \<Rightarrow> Paginated" where
  "ensurePagination p =
     (let p1 = (case First p of None \<Rightarrow> p\<lparr>First := Some 1000\<rparr> | Some _ \<Rightarrow> p)
      in case PAfter p1 of None \<Rightarrow> p1\<lparr>PAfter := Some []\<rparr> | Some _ \<Rightarrow> p1)"

fun tag_loop :: "string list \<Rightarrow> string" where
  "tag_loop [] = []"
| "tag_loop (t # ts) = '' scannerrun_tag = ?'' @ (if ts \<noteq> [] then '' OR'' else []) @ tag_loop ts"

definition applyScannerRunFilter :: "string \<Rightarrow> ScannerRunFilter \<Rightarrow> (sqlval list \<times> string) go" where
  "applyScannerRunFilter baseQuery f =
     (let q1 = baseQuery @ '' WHERE'' @ tag_loop (srTag f);
          q2 = (if srCompleted f then q1 @ (if srTag f \<noteq> [] then '' AND'' else []) @ '' scannerrun_is_completed = TRUE'' else q1);
          q3 = (if HasArgs f then q2 @ '' AND'' else q2);
          q4 = (if PAfter (srPage f) \<noteq> None then q3 @ '' scannerrun_run_id > ?'' else q3);
          args = map StrV (srTag f) @ (case PAfter (srPage f) of None \<Rightarrow> [] | Some a \<Rightarrow> [StrV a])
      in case First (srPage f) of
           None \<Rightarrow> Inl NilDereference
         | Some n \<Rightarrow> Inr (args @ [IntV n], q4 @ '' ORDER BY scannerrun_run_id'' @ '' LIMIT ?''))"

text \<open>The atoms of the condition with the values bound to them.\<close>

datatype run_atom = TagIs string | CompletedIsTrue | IdAbove string

fun atom_text :: "run_atom \<Rightarrow> string" where
  "atom_text (TagIs t) = '' scannerrun_tag = ?''"
| "atom_text CompletedIsTrue = '' scannerrun_is_completed = TRUE''"
| "atom_text (IdAbove a) = '' scannerrun_run_id > ?''"

fun atom_args :: "run_atom \<Rightarrow> sqlval list" where
  "atom_args (TagIs t) = [StrV t]"
| "atom_args CompletedIsTrue = []"
| "atom_args (IdAbove a) = [StrV a]"

definition run_alternatives :: "ScannerRunFilter \<Rightarrow> run_atom list list" where
  "run_alternatives f =
     map (\<lambda>t. [TagIs t]) (butlast (srTag f)) @
     [(if srTag f = [] then [] else [TagIs (last (srTag f))]) @ (if srCompleted f then [CompletedIsTrue] else [])
      @ (case PAfter (srPage f) of None \<Rightarrow> [] | Some a \<Rightarrow> [IdAbove a])]"

definition alternatives_text :: "run_atom list list \<Rightarrow> string" where
  "alternatives_text alts = strings_Join (map (\<lambda>as. strings_Join (map atom_text as) '' AND'') alts) '' OR''"

text \<open>A string compared with a number counts as the number it spells; the empty cursor as zero.\<close>

definition sql_number :: "string \<Rightarrow> int" where
  "sql_number s = (case ParseInt s of None \<Rightarrow> 0 | Some i \<Rightarrow> i)"

fun atom_holds :: "run_row \<Rightarrow> run_atom \<Rightarrow> bool" where
  "atom_holds r (TagIs t) = (rrTag r = t)"
| "atom_holds r CompletedIsTrue = rrCompleted r"
| "atom_holds r (IdAbove a) = (rrId r > sql_number a)"

definition run_selected :: "ScannerRunFilter \<Rightarrow> run_row \<Rightarrow> bool" where
  "run_selected f r = list_ex (list_all (atom_holds r)) (run_alternatives f)"

definition ensure_filter :: "ScannerRunFilter \<Rightarrow> ScannerRunFilter" where
  "ensure_filter f = f\<lparr>srPage := ensurePagination (srPage f)\<rparr>"

text \<open>A negative limit is a syntax error.\<close>

definition limited_query :: "ScannerRunFilter \<Rightarrow> 'a stmt \<Rightarrow> 'a stmt" where
  "limited_query f m = (if the (First (srPage f)) < 0 then (\<lambda>t. (Inl (ErrVal ''mysql'' ''syntax error''), t)) else m)"

definition GetScannerRuns :: "ScannerRunFilter \<Rightarrow> run_row list stmt" where
  "GetScannerRuns f0 = (let f = ensure_filter f0 in
     limited_query f (db_query (\<lambda>t. take (nat (the (First (srPage f)))) (sort_key rrId (filter (run_selected f) (t_runs t))))))"

text \<open>With a limit of zero the count has no row to read.\<close>

definition CountScannerRuns :: "ScannerRunFilter \<Rightarrow> int stmt" where
  "CountScannerRuns f0 = (let f = ensure_filter f0 in
     limited_query f (bindS (db_query (\<lambda>t. int (length (filter (run_selected f) (t_runs t))))) (\<lambda>n t.
       if the (First (srPage f)) = 0 then (Inl (ErrVal ''sql'' ''no rows in result set''), t) else (Inr n, t))))"

definition GetScannerRunTags :: "string list stmt" where
  "GetScannerRunTags = db_query (\<lambda>t. remdups (map rrTag (t_runs t)))"

section \<open>Resolvers\<close>

record run_connection =
  rcTotal :: int
  rcHasNext :: bool
  rcHasPrevious :: bool
  rcEdges :: "(run_row \<times> string) list"

definition ParseCursor :: "string option \<Rightarrow> goerr + int" where
  "ParseCursor cursor =
     (case cursor of
        None \<Rightarrow> Inr 0
      | Some s \<Rightarrow> (case ParseInt s of None \<Rightarrow> Inl (ErrVal ''strconv'' ''invalid syntax'') | Some i \<Rightarrow> Inr i))"

definition ScannerRuns ::
  "(string list \<times> bool) option \<Rightarrow> int option \<Rightarrow> string option \<Rightarrow> run_connection stmt" where
  "ScannerRuns flt first after t =
     (case ParseCursor after of
        Inl e \<Rightarrow> (Inl e, t)
      | Inr v \<Rightarrow>
        let f = (case flt of
                   None \<Rightarrow> \<lparr>srPage = \<lparr>First = first, PAfter = after\<rparr>, srTag = [], srCompleted = False\<rparr>
                 | Some (tags, c) \<Rightarrow> \<lparr>srPage = \<lparr>First = first, PAfter = after\<rparr>, srTag = tags, srCompleted = c\<rparr>)
        in bindS (GetScannerRuns f) (\<lambda>runs.
           bindS (CountScannerRuns f) (\<lambda>total.
             returnS \<lparr>rcTotal = total,
               rcHasNext = (total > (case first of None \<Rightarrow> 0 | Some n \<Rightarrow> n) + v),
               rcHasPrevious = (case after of None \<Rightarrow> False | Some a \<Rightarrow> a \<noteq> []),
               rcEdges = map (\<lambda>r. (r, FormatInt (rrId r))) runs\<rparr>)) t)"

text \<open>The result starts as a slice of as many nil pointers as there are tags, and the tags are appended.\<close>

definition ScannerRunTagFilterValues :: "string option list stmt" where
  "ScannerRunTagFilterValues =
     bindS GetScannerRunTags (\<lambda>tags. returnS (replicate (length tags) None @ map Some tags))"

section \<open>What a statement leaves alone\<close>

text \<open>\<open>keeps g m\<close>: the statement \<open>m\<close> does not change the part \<open>g\<close> of the tables, whether it succeeds or fails.\<close>

definition keeps :: "(tables \<Rightarrow> 'b) \<Rightarrow> 'a stmt \<Rightarrow> bool" where
  "keeps g m \<longleftrightarrow> (\<forall>t. g (snd (m t)) = g t)"

named_theorems keeps_intros

lemma keeps_returnS [keeps_intros]: "keeps g (returnS x)"
  by (simp add: keeps_def returnS_def)

lemma keeps_bindS [keeps_intros]: "keeps g m \<Longrightarrow> (\<And>x. keeps g (f x)) \<Longrightarrow> keeps g (bindS m f)"
  unfolding keeps_def bindS_def by (simp split: prod.splits sum.splits) (metis snd_conv)

lemma keeps_query [keeps_intros]: "(\<And>t c. g (t\<lparr>t_calls := c\<rparr>) = g t) \<Longrightarrow> keeps g (db_query q)"
  by (auto simp: keeps_def db_query_def db_call_def split: option.splits nat.splits)

lemma keeps_exec [keeps_intros]: "(\<And>t c. g (t\<lparr>t_calls := c\<rparr>) = g t) \<Longrightarrow> (\<And>t. g (u t) = g t) \<Longrightarrow> keeps g (db_exec u)"
  by (auto simp: keeps_def db_exec_def db_call_def split: option.splits nat.splits)

lemma keeps_for_each [keeps_intros]: "(\<And>x. keeps g (f x)) \<Longrightarrow> keeps g (for_each f xs)"
  by (induction xs) (auto intro!: keeps_intros)

lemma keeps_if [keeps_intros]: "keeps g m \<Longrightarrow> keeps g n \<Longrightarrow> keeps g (if b then m else n)"
  by simp

lemmas autopatch_defs =
  fetchComponentInstancesForRun_def fetchServiceAndVersionForInstance_def insertPatchIfNoInstanceExists_def
  GetAllIssueMatchIds_def DeleteIssueMatch_def DeleteComponentInstance_def DeleteComponentVersion_def
  DeleteComponent_def RemoveAllIssuesFromComponentVersion_def instances_by_id_def instances_by_version_def
  versions_by_id_def versions_by_component_def insertPatches_def deleteIssueMatchesOfDisappearedInstances_def
  getVersionIdsOfDisappearedInstances_def deleteDisappearedInstances_def getComponentIdsOfDisappearedInstances_def
  deleteVersionsOfDisappearedInstances_def deleteComponentsOfDisappearedInstances_def
  fetchCompletedRunsWithNewestFirst_def

lemma getPatches_keeps: "keeps t_runs (getPatches ds ps)"
  by (induction ds arbitrary: ps) (auto simp: autopatch_defs intro!: keeps_intros)

lemma single_tag_keeps: "keeps t_runs (processAutopatchForSingleTag vs latest second)"
  unfolding processAutopatchForSingleTag_def autopatch_defs Let_def
  by (intro keeps_intros getPatches_keeps) simp_all

lemma on_runs_keeps: "keeps t_runs (processAutopatchOnCompletedRuns vs runs tags b)"
proof (induction tags arbitrary: b)
  case (Cons tag tags)
  then show ?case
    by (cases "runs tag" rule: remdups_adj.cases) (auto intro!: keeps_intros single_tag_keeps)
qed (simp add: keeps_intros)

lemma Autopatch_keeps: "keeps t_runs (Autopatch vs)"
  unfolding Autopatch_def autopatch_defs by (intro keeps_intros on_runs_keeps) simp_all

section \<open>The lifecycle\<close>

definition runs_ok :: "tables \<Rightarrow> bool" where
  "runs_ok t \<longleftrightarrow> distinct (map rrUUID (t_runs t)) \<and> sorted_wrt (<) (map rrId (t_runs t))"

definition run_status :: "tables \<Rightarrow> (string \<times> bool) list" where
  "run_status t = map (\<lambda>r. (rrUUID r, rrCompleted r)) (t_runs t)"

lemma next_run_id_above: "r \<in> set rs \<Longrightarrow> rrId r < next_run_id rs"
proof -
  assume "r \<in> set rs"
  then have "rrId r \<le> Max (insert 0 (rrId ` set rs))" by (intro Max_ge) simp_all
  then show ?thesis by (simp add: next_run_id_def)
qed

definition set_completed :: "string \<Rightarrow> bool \<Rightarrow> run_row list \<Rightarrow> run_row list" where
  "set_completed uuid b rs = map (\<lambda>r. if rrUUID r = uuid \<and> rrCompleted r = (\<not> b) then r\<lparr>rrCompleted := b\<rparr> else r) rs"

lemma set_completed_ok:
  "runs_ok t \<Longrightarrow> t_runs t' = set_completed uuid b (t_runs t) \<Longrightarrow> runs_ok t'"
proof -
  have "map rrUUID (set_completed uuid b rs) = map rrUUID rs" "map rrId (set_completed uuid b rs) = map rrId rs" for rs
    by (simp_all add: set_completed_def)
  then show "runs_ok t \<Longrightarrow> t_runs t' = set_completed uuid b (t_runs t) \<Longrightarrow> runs_ok t'"
    by (simp add: runs_ok_def)
qed

lemma run_status_set_completed:
  "map (\<lambda>r. (rrUUID r, rrCompleted r)) (set_completed uuid b rs) =
   map (\<lambda>(u, c). (u, if u = uuid then b else c)) (map (\<lambda>r. (rrUUID r, rrCompleted r)) rs)"
  by (auto simp: set_completed_def)

lemma Complete_runs:
  "t_runs (snd (snd (CompleteScannerRun vs uuid t))) = t_runs (snd (CompleteScannerRun_db uuid t))"
proof -
  obtain x t' where c: "CompleteScannerRun_db uuid t = (x, t')" by (rule prod.exhaust)
  obtain y t'' where a: "Autopatch vs t' = (y, t'')" by (rule prod.exhaust)
  have "t_runs t'' = t_runs t'" using Autopatch_keeps [of vs] a unfolding keeps_def by (metis snd_conv)
  then show ?thesis by (simp add: CompleteScannerRun_def c a split: sum.splits)
qed

lemma Complete_db_runs:
  "t_runs (snd (CompleteScannerRun_db uuid t)) \<in> {set_completed uuid True (t_runs t), t_runs t}"
  "fst (CompleteScannerRun_db uuid t) = Inr () \<Longrightarrow>
     t_runs (snd (CompleteScannerRun_db uuid t)) = set_completed uuid True (t_runs t)"
  by (auto simp: CompleteScannerRun_db_def db_exec_def db_call_def set_completed_def split: option.splits nat.splits)

lemma Fail_runs:
  "t_runs (snd (snd (FailScannerRun uuid msg t))) = t_runs (snd (FailScannerRun_db uuid msg t))"
  by (simp add: FailScannerRun_def split: prod.splits sum.splits)

lemma Fail_db_runs:
  "t_runs (snd (FailScannerRun_db uuid msg t)) \<in> {set_completed uuid False (t_runs t), t_runs t}"
  "fst (FailScannerRun_db uuid msg t) = Inr () \<Longrightarrow>
     t_runs (snd (FailScannerRun_db uuid msg t)) = set_completed uuid False (t_runs t)"
  by (auto simp: FailScannerRun_db_def bindS_def db_exec_def db_query_def db_call_def set_completed_def
      split: option.splits nat.splits)

lemma Create_runs:
  "runs_ok t \<Longrightarrow> runs_ok (snd (snd (CreateScannerRun r t)))"
proof -
  assume ok: "runs_ok t"
  let ?r = "r\<lparr>rrId := next_run_id (t_runs t), rrDeleted := False\<rparr>"
  have "t_runs (snd (snd (CreateScannerRun r t))) = t_runs t
      \<or> (t_runs (snd (snd (CreateScannerRun r t))) = t_runs t @ [?r] \<and> rrUUID r \<notin> rrUUID ` set (t_runs t))"
    by (auto simp: CreateScannerRun_def CreateScannerRun_db_def db_call_def Let_def list_ex_iff
        split: option.splits nat.splits)
  with ok show ?thesis
    using next_run_id_above by (fastforce simp: runs_ok_def sorted_wrt_append)
qed

text \<open>
  Every operation on scanner runs, whether it succeeds or fails, keeps their uuids distinct and their ids
  increasing. A run that was completed or failed without an error has that status afterwards, and no
  other run changed: the patches derived at completion leave the runs alone.
\<close>

theorem lifecycle_of_runs:
  assumes "runs_ok t"
  shows "runs_ok (snd (snd (CreateScannerRun r t)))
    \<and> runs_ok (snd (snd (CompleteScannerRun vs uuid t)))
    \<and> runs_ok (snd (snd (FailScannerRun uuid msg t)))
    \<and> (fst (CompleteScannerRun vs uuid t) = Inr True \<longrightarrow>
         run_status (snd (snd (CompleteScannerRun vs uuid t))) = map (\<lambda>(u, c). (u, if u = uuid then True else c)) (run_status t))
    \<and> (fst (FailScannerRun uuid msg t) = Inr True \<longrightarrow>
         run_status (snd (snd (FailScannerRun uuid msg t))) = map (\<lambda>(u, c). (u, if u = uuid then False else c)) (run_status t))"
proof (intro conjI impI)
  show "runs_ok (snd (snd (CreateScannerRun r t)))" by (rule Create_runs [OF assms])
  show "runs_ok (snd (snd (CompleteScannerRun vs uuid t)))"
    using Complete_db_runs(1) [of uuid t] Complete_runs [of vs uuid t] set_completed_ok [OF assms] assms
    by (auto simp: runs_ok_def)
  show "runs_ok (snd (snd (FailScannerRun uuid msg t)))"
    using Fail_db_runs(1) [of uuid msg t] Fail_runs [of uuid msg t] set_completed_ok [OF assms] assms
    by (auto simp: runs_ok_def)
next
  assume "fst (CompleteScannerRun vs uuid t) = Inr True"
  then have "fst (CompleteScannerRun_db uuid t) = Inr ()"
    by (simp add: CompleteScannerRun_def split: prod.splits sum.splits)
  then show "run_status (snd (snd (CompleteScannerRun vs uuid t))) =
      map (\<lambda>(u, c). (u, if u = uuid then True else c)) (run_status t)"
    by (simp add: run_status_def Complete_runs Complete_db_runs(2) run_status_set_completed)
next
  assume "fst (FailScannerRun uuid msg t) = Inr True"
  then have "fst (FailScannerRun_db uuid msg t) = Inr ()"
    by (simp add: FailScannerRun_def split: prod.splits sum.splits)
  then show "run_status (snd (snd (FailScannerRun uuid msg t))) =
      map (\<lambda>(u, c). (u, if u = uuid then False else c)) (run_status t)"
    by (simp add: run_status_def Fail_runs Fail_db_runs(2) run_status_set_completed)
qed

theorem lifecycle_of_runs_witness:
  "runs_ok example_tables \<and> fst (FailScannerRun ''b'' ''boom'' example_tables) = Inr True \<and>
   run_status (snd (snd (FailScannerRun ''b'' ''boom'' example_tables))) = [(''a'', True), (''b'', False)]"
proof -
  have ok: "runs_ok example_tables" by (simp add: runs_ok_def example_tables_def)
  have f: "fst (FailScannerRun ''b'' ''boom'' example_tables) = Inr True"
    by (simp add: FailScannerRun_def FailScannerRun_db_def bindS_def db_exec_def db_query_def db_call_def example_tables_def)
  have "run_status example_tables = [(''a'', True), (''b'', True)]" by (simp add: run_status_def example_tables_def)
  with lifecycle_of_runs [OF ok, of _ sorted_visits "''b''" "''boom''"] ok f show ?thesis by simp
qed

section \<open>The filter and its pages\<close>

lemma atoms_Join: "strings_Join (map (\<lambda>as. strings_Join (map atom_text as) '' AND'') (map (\<lambda>t. [TagIs t]) ts @ [as])) '' OR''
  = concat (map (\<lambda>t. '' scannerrun_tag = ?'' @ '' OR'') ts) @ strings_Join (map atom_text as) '' AND''"
  by (induction ts) (simp_all add: strings_Join_Cons)

lemma tag_loop_split:
  "ts \<noteq> [] \<Longrightarrow> tag_loop ts = concat (map (\<lambda>t. '' scannerrun_tag = ?'' @ '' OR'') (butlast ts)) @ '' scannerrun_tag = ?''"
  by (induction ts) auto

text \<open>
  The text and the parameters built for a filter are those of its alternatives. With at most one tag the
  query selects the runs of that tag after the cursor, completed ones where asked; with several tags every
  run with a tag other than the last is selected whatever the cursor and its status, since the OR between
  the tags is not bracketed.
\<close>

theorem run_filter_grouping:
  assumes "PAfter (srPage f) = Some a" and "First (srPage f) = Some n"
  shows "applyScannerRunFilter q f =
      Inr (concat (map atom_args (concat (run_alternatives f))) @ [IntV n],
        q @ '' WHERE'' @ alternatives_text (run_alternatives f) @ '' ORDER BY scannerrun_run_id LIMIT ?'')
    \<and> (length (srTag f) \<le> 1 \<longrightarrow> (run_selected f r \<longleftrightarrow>
         (\<forall>tag \<in> set (srTag f). rrTag r = tag) \<and> (srCompleted f \<longrightarrow> rrCompleted r) \<and> rrId r > sql_number a))
    \<and> (rrTag r \<in> set (butlast (srTag f)) \<longrightarrow> run_selected f r)"
proof (intro conjI impI)
  have args: "concat (map (atom_args \<circ> TagIs) ts) = map StrV ts" for ts
    by (induction ts) auto
  have A: "concat (map atom_args (concat (run_alternatives f))) = map StrV (srTag f) @ [StrV a]"
    by (cases "srTag f" rule: rev_cases) (simp_all add: run_alternatives_def assms args)
  have T: "alternatives_text (run_alternatives f) = tag_loop (srTag f)
      @ (if srCompleted f then (if srTag f \<noteq> [] then '' AND'' else []) @ '' scannerrun_is_completed = TRUE'' else [])
      @ (if HasArgs f then '' AND'' else []) @ '' scannerrun_run_id > ?''"
    unfolding alternatives_text_def run_alternatives_def atoms_Join
    by (cases "srTag f" rule: rev_cases; cases "srCompleted f") (simp_all add: tag_loop_split HasArgs_def assms)
  show "applyScannerRunFilter q f =
      Inr (concat (map atom_args (concat (run_alternatives f))) @ [IntV n],
        q @ '' WHERE'' @ alternatives_text (run_alternatives f) @ '' ORDER BY scannerrun_run_id LIMIT ?'')"
    unfolding A T by (simp add: applyScannerRunFilter_def Let_def assms)
next
  assume "length (srTag f) \<le> 1"
  then show "run_selected f r \<longleftrightarrow>
         (\<forall>tag \<in> set (srTag f). rrTag r = tag) \<and> (srCompleted f \<longrightarrow> rrCompleted r) \<and> rrId r > sql_number a"
    using assms by (cases "srTag f") (auto simp: run_selected_def run_alternatives_def)
next
  assume "rrTag r \<in> set (butlast (srTag f))"
  then show "run_selected f r" by (auto simp: run_selected_def run_alternatives_def list_ex_iff)
qed

definition example_filter :: ScannerRunFilter where
  "example_filter = \<lparr>srPage = \<lparr>First = Some 10, PAfter = Some ''7''\<rparr>, srTag = [''k8s'', ''keppel''], srCompleted = True\<rparr>"

theorem run_filter_grouping_witness:
  "applyScannerRunFilter ''Q'' example_filter = Inr ([StrV ''k8s'', StrV ''keppel'', StrV ''7'', IntV 10],
      ''Q WHERE scannerrun_tag = ? OR scannerrun_tag = ? AND scannerrun_is_completed = TRUE AND scannerrun_run_id > ? ORDER BY scannerrun_run_id LIMIT ?'')
   \<and> run_selected example_filter \<lparr>rrId = 3, rrUUID = ''u'', rrTag = ''k8s'', rrCompleted = False, rrDeleted = False\<rparr>"
  using run_filter_grouping [of example_filter "''7''" 10 "''Q''"
      "\<lparr>rrId = 3, rrUUID = ''u'', rrTag = ''k8s'', rrCompleted = False, rrDeleted = False\<rparr>"]
  by (simp add: example_filter_def run_alternatives_def alternatives_text_def)

text \<open>
  For runs numbered from one and no filter, the page after run m holds the runs that follow m, but a next
  page is announced only if more than k + m runs follow m, since the total already leaves out the runs
  up to the cursor while the comparison counts them again: from the second page on, runs are missed.
\<close>

theorem scanner_run_pages:
  assumes "t_calls t = None" and "map rrId (t_runs t) = [1..int n]"
    and "0 < m" and "m \<le> int n" and "in_int64 m" and "0 < k"
  shows "\<exists>p. ScannerRuns None (Some k) (Some (FormatInt m)) t = (Inr p, t)
    \<and> map (rrId \<circ> fst) (rcEdges p) = [m + 1..min (m + k) (int n)]
    \<and> rcTotal p = int n - m
    \<and> (rcHasNext p \<longleftrightarrow> k + m < int n - m)"
proof -
  let ?f = "\<lparr>srPage = \<lparr>First = Some k, PAfter = Some (FormatInt m)\<rparr>, srTag = [], srCompleted = False\<rparr>"
  have v: "ParseInt (FormatInt m) = Some m" by (rule ParseInt_FormatInt [OF assms(5)])
  have sel: "run_selected ?f = (\<lambda>r. rrId r > m)"
    by (rule ext) (simp add: run_selected_def run_alternatives_def sql_number_def v)
  have ids: "map rrId (filter (\<lambda>r. rrId r > m) (t_runs t)) = [m + 1..int n]"
  proof -
    have "map rrId (filter (\<lambda>r. rrId r > m) (t_runs t)) = filter (\<lambda>i. i > m) [1..int n]"
      unfolding assms(2) [symmetric] filter_map comp_def ..
    also have "[1..int n] = [1..m] @ [m + 1..int n]" by (rule upto_split2) (use assms(3,4) in simp_all)
    also have "filter (\<lambda>i. i > m) ([1..m] @ [m + 1..int n]) = [m + 1..int n]" by (auto simp: filter_id_conv)
    finally show ?thesis .
  qed
  have sorted: "sort_key rrId (filter (\<lambda>r. rrId r > m) (t_runs t)) = filter (\<lambda>r. rrId r > m) (t_runs t)"
    by (rule sort_key_id_if_sorted) (simp add: ids)
  have edges: "map rrId (take (nat k) (filter (\<lambda>r. rrId r > m) (t_runs t))) = [m + 1..min (m + k) (int n)]"
    unfolding take_map [symmetric] ids
  proof (cases "m + k \<le> int n")
    case True
    then have "[m + 1..int n] = [m + 1..m + k] @ [m + k + 1..int n]"
      by (intro upto_split2) (use assms(6) in simp_all)
    with True show "take (nat k) [m + 1..int n] = [m + 1..min (m + k) (int n)]" by (simp add: min_def)
  qed (simp add: min_def)
  have total: "int (length (filter (\<lambda>r. rrId r > m) (t_runs t))) = int n - m"
    using arg_cong [OF ids, of length] assms(4) by simp
  let ?p = "\<lparr>rcTotal = int n - m, rcHasNext = (int n - m > k + m), rcHasPrevious = True,
      rcEdges = map (\<lambda>r. (r, FormatInt (rrId r))) (take (nat k) (filter (\<lambda>r. rrId r > m) (t_runs t)))\<rparr>"
  have "ScannerRuns None (Some k) (Some (FormatInt m)) t = (Inr ?p, t)"
    using assms(6) by (simp add: ScannerRuns_def ParseCursor_def v GetScannerRuns_def CountScannerRuns_def
        ensure_filter_def ensurePagination_def Let_def limited_query_def bindS_def db_query_ok assms(1) sel sorted total returnS_def)
  then show ?thesis using edges by (intro exI [of _ ?p]) (simp add: comp_def)
qed

definition three_runs :: tables where
  "three_runs = example_tables\<lparr>t_runs :=
     map (\<lambda>i. \<lparr>rrId = i, rrUUID = FormatInt i, rrTag = ''k8s'', rrCompleted = True, rrDeleted = False\<rparr>) [1, 2, 3, 4]\<rparr>"

theorem scanner_run_pages_witness:
  "\<exists>p. ScannerRuns None (Some 1) (Some (FormatInt 2)) three_runs = (Inr p, three_runs)
    \<and> map (rrId \<circ> fst) (rcEdges p) = [3] \<and> \<not> rcHasNext p"
proof -
  have "map rrId (t_runs three_runs) = [1..int 4]" by (simp add: three_runs_def upto.simps)
  moreover have "t_calls three_runs = None" by (simp add: three_runs_def)
  ultimately obtain p where p: "ScannerRuns None (Some 1) (Some (FormatInt 2)) three_runs = (Inr p, three_runs)"
    "map (rrId \<circ> fst) (rcEdges p) = [2 + 1..min (2 + 1) (int 4)]" "rcHasNext p \<longleftrightarrow> 1 + 2 < int 4 - 2"
    using scanner_run_pages [of three_runs 4 2 1] by (auto simp: in_int64_def)
  have "\<not> rcHasNext p" using p(3) by simp
  moreover have "map (rrId \<circ> fst) (rcEdges p) = [3]" unfolding p(2) by (simp add: upto.simps)
  ultimately show ?thesis using p(1) by (intro exI [of _ p] conjI)
qed

end
