(* ===== verification/Service_Handler.thy ===== *)
theory Service_Handler
  imports Handler_Base
begin

text \<open>
  The handler of services (\<open>internal/app/service/service_handler.go\<close>): reading restricted to what the
  user may see, creation, update, deletion, owners and issue repositories, the values for
  filters, and the batch lookups. The database operations of services and the codecs of what is
  cached are records.
\<close>

section \<open>Requests\<close>

record ServiceFilter =
  sfPage :: Paginated
  sfSupportGroupCCRN :: "string list"
  sfId :: "id64 list"
  sfCCRN :: "string option list"
  sfDomain :: "string list"
  sfRegion :: "string list"
  sfOwnerName :: "string list"
  sfOwnerId :: "id64 list"
  sfIssueId :: "id64 list"
  sfComponentInstanceId :: "id64 list"
  sfIssueRepositoryId :: "id64 list"
  sfSupportGroupId :: "id64 list"
  sfSearch :: "string list"
  sfState :: "StateFilterType list"

definition no_service_filter :: ServiceFilter where
  "no_service_filter = \<lparr>sfPage = \<lparr>First = None, PAfter = None\<rparr>, sfSupportGroupCCRN = [], sfId = [], sfCCRN = [],
     sfDomain = [], sfRegion = [], sfOwnerName = [], sfOwnerId = [], sfIssueId = [], sfComponentInstanceId = [],
     sfIssueRepositoryId = [], sfSupportGroupId = [], sfSearch = [], sfState = []\<rparr>"

record 'd service_db = "('d, ServiceFilter, Service) entity_db" +
  sdb_get_aggregated :: "'d \<Rightarrow> ServiceFilter \<Rightarrow> entity_order list \<Rightarrow> goerr + (string \<times> Service) list"
  sdb_add_owner :: "'d \<Rightarrow> id64 \<Rightarrow> id64 \<Rightarrow> goerr option \<times> 'd"
  sdb_remove_owner :: "'d \<Rightarrow> id64 \<Rightarrow> id64 \<Rightarrow> goerr option \<times> 'd"
  sdb_add_repository :: "'d \<Rightarrow> id64 \<Rightarrow> id64 \<Rightarrow> int \<Rightarrow> goerr option \<times> 'd"
  sdb_remove_repository :: "'d \<Rightarrow> id64 \<Rightarrow> id64 \<Rightarrow> goerr option \<times> 'd"
  sdb_attribute :: "string \<Rightarrow> 'd \<Rightarrow> ServiceFilter \<Rightarrow> goerr + string list"
  sdb_owners :: "'d \<Rightarrow> id64 list \<Rightarrow> goerr + (id64 \<times> User list) list"
  sdb_support_groups :: "'d \<Rightarrow> id64 list \<Rightarrow> goerr + (id64 \<times> SupportGroup list) list"
  sdb_issue_counts :: "'d \<Rightarrow> id64 list \<Rightarrow> goerr + (id64 \<times> IssueSeverityCounts) list"

record service_codecs = "(ServiceFilter, Service) entity_codecs" +
  sc_ids_key :: "string \<Rightarrow> id64 list \<Rightarrow> string"
  sc_owners :: "(id64 \<times> User list) list codec"
  sc_support_groups :: "(id64 \<times> SupportGroup list) list codec"
  sc_issue_counts :: "(id64 \<times> IssueSeverityCounts) list codec"

definition ServiceHandlerError :: "string \<Rightarrow> goerr" where
  "ServiceHandlerError msg = ErrVal ''ServiceHandlerError'' (''ServiceHandlerError: '' @ msg)"

section \<open>Reading\<close>

definition ListServices ::
  "('d, 'z, 'g) app_env \<Rightarrow> 'd service_db \<Rightarrow> service_codecs \<Rightarrow> ServiceFilter \<Rightarrow> ListOptions option
   \<Rightarrow> ('d, 'z, 'g, Service entity_list) handler" where
  "ListServices env db cd f0 options0 =
     (let internal = internal_error ''serviceHandler.ListServices'' ''Services'' [];
          f1 = f0\<lparr>sfPage := EnsurePaginated (sfPage f0)\<rparr>;
          options = EnsureListOptions options0
      in bindH (restricted env internal TypeSupportGroup (sfSupportGroupId f1)) (\<lambda>sgIds.
         let f = f1\<lparr>sfSupportGroupId := sgIds\<rparr>; ord = loOrder options
         in bindH (wrapH internal
              (if IncludeAggregations options
               then cachedH env (ec_rows cd) (ec_key cd ''GetServicesWithAggregations'' f (Some ord)) (\<lambda>d. sdb_get_aggregated db d f ord)
               else cachedH env (ec_rows cd) (ec_key cd ''GetServices'' f (Some ord)) (\<lambda>d. ed_get db d f ord))) (\<lambda>res.
            bindH (list_pages options (sfPage f) res
              (wrapH internal (cachedH env (ec_strings cd) (ec_key cd ''GetAllServiceCursors'' f (Some ord)) (\<lambda>d. ed_cursors db d f ord)))
              (wrapH internal (cachedH env (ec_count cd) (ec_key cd ''CountServices'' f None) (\<lambda>d. ed_count db d f)))) (\<lambda>l.
            bindH (pushH (OtherEvent ''ListServices'')) (\<lambda>_. returnH l)))))"

definition GetService ::
  "('d, 'z, 'g) app_env \<Rightarrow> 'd service_db \<Rightarrow> service_codecs \<Rightarrow> id64 \<Rightarrow> ('d, 'z, 'g, Service) handler" where
  "GetService env db cd i =
     (let opn = ''serviceHandler.GetService'';
          internal = internal_error opn ''Services'' (FormatInt i)
      in bindH (wrapH internal (current_user env)) (\<lambda>user.
         bindH (wrapH internal (check_permission env user TypeService i)) (\<lambda>hasPermission.
         if \<not> hasPermission then failH (AppErr (PermissionDeniedError opn ''Service'' (FormatInt i)))
         else
           bindH (wrapH internal (ListServices env db cd (no_service_filter\<lparr>sfId := [i]\<rparr>) (Some NewListOptions))) (\<lambda>l.
           bindH (single (AppErr (NotFoundError opn ''Service'' (FormatInt i))) l) (\<lambda>svc.
           bindH (pushH (OtherEvent ''GetService'')) (\<lambda>_. returnH svc))))))"

section \<open>Changes\<close>

definition CreateService ::
  "('d, 'z, 'g) app_env \<Rightarrow> 'd service_db \<Rightarrow> service_codecs \<Rightarrow> Service \<Rightarrow> ('d, 'z, 'g, Service) handler" where
  "CreateService env db cd svc =
     bindH (wrapH (\<lambda>_. ServiceHandlerError ''Internal error while creating service (GetUserId).'') (current_user env)) (\<lambda>user.
     let svc = svc\<lparr>svcMeta := (svcMeta svc)\<lparr>CreatedBy := user, UpdatedBy := user\<rparr>\<rparr>;
         failed = (\<lambda>_. ServiceHandlerError ''Internal error while creating service.'')
     in bindH (wrapH failed (ListServices env db cd (no_service_filter\<lparr>sfCCRN := [Some (svcCCRN svc)]\<rparr>) (Some NewListOptions))) (\<lambda>l.
        if elElements l \<noteq> [] then failH (ServiceHandlerError (''Duplicated entry '' @ svcCCRN svc @ '' for name.''))
        else
          bindH (wrapH failed (writeH (\<lambda>d. ed_create db d svc))) (\<lambda>new.
          bindH (pushH (CreateServiceEvent new)) (\<lambda>_. returnH new))))"

definition UpdateService ::
  "('d, 'z, 'g) app_env \<Rightarrow> 'd service_db \<Rightarrow> service_codecs \<Rightarrow> Service \<Rightarrow> ('d, 'z, 'g, Service) handler" where
  "UpdateService env db cd svc =
     bindH (wrapH (\<lambda>_. ServiceHandlerError ''Internal error while updating service (GetUserId).'') (current_user env)) (\<lambda>user.
     let svc = svc\<lparr>svcMeta := (svcMeta svc)\<lparr>UpdatedBy := user\<rparr>\<rparr>
     in bindH (wrapH (\<lambda>_. ServiceHandlerError ''Internal error while updating service.'') (execH (\<lambda>d. ed_update db d svc))) (\<lambda>_.
        bindH (pushH (OtherEvent ''UpdateService'')) (\<lambda>_. GetService env db cd (svcId svc))))"

definition DeleteService ::
  "('d, 'z, 'g) app_env \<Rightarrow> 'd service_db \<Rightarrow> id64 \<Rightarrow> ('d, 'z, 'g, unit) handler" where
  "DeleteService env db i =
     bindH (wrapH (\<lambda>_. ServiceHandlerError ''Internal error while deleting service (GetUserId).'') (current_user env)) (\<lambda>user.
     bindH (wrapH (\<lambda>_. ServiceHandlerError ''Internal error while deleting service.'') (execH (\<lambda>d. ed_delete db d i user))) (\<lambda>_.
       pushH (DeleteServiceEvent i)))"

text \<open>The four changes of relations: the statement, the event, and the service read back with its permission check.\<close>

definition relate ::
  "('d, 'z, 'g) app_env \<Rightarrow> 'd service_db \<Rightarrow> service_codecs \<Rightarrow> string \<Rightarrow> ('d \<Rightarrow> goerr option \<times> 'd) \<Rightarrow> app_event \<Rightarrow> id64
   \<Rightarrow> ('d, 'z, 'g, Service) handler" where
  "relate env db cd msg u e i =
     bindH (wrapH (\<lambda>_. ServiceHandlerError msg) (execH u)) (\<lambda>_. bindH (pushH e) (\<lambda>_. GetService env db cd i))"

definition AddOwnerToService ::
  "('d, 'z, 'g) app_env \<Rightarrow> 'd service_db \<Rightarrow> service_codecs \<Rightarrow> id64 \<Rightarrow> id64 \<Rightarrow> ('d, 'z, 'g, Service) handler" where
  "AddOwnerToService env db cd i owner =
     relate env db cd ''Internal error while adding owner to service.'' (\<lambda>d. sdb_add_owner db d i owner)
       (AddOwnerToServiceEvent i owner) i"

definition RemoveOwnerFromService ::
  "('d, 'z, 'g) app_env \<Rightarrow> 'd service_db \<Rightarrow> service_codecs \<Rightarrow> id64 \<Rightarrow> id64 \<Rightarrow> ('d, 'z, 'g, Service) handler" where
  "RemoveOwnerFromService env db cd i owner =
     relate env db cd ''Internal error while removing owner from service.'' (\<lambda>d. sdb_remove_owner db d i owner)
       (RemoveOwnerFromServiceEvent i owner) i"

definition AddIssueRepositoryToService ::
  "('d, 'z, 'g) app_env \<Rightarrow> 'd service_db \<Rightarrow> service_codecs \<Rightarrow> id64 \<Rightarrow> id64 \<Rightarrow> int \<Rightarrow> ('d, 'z, 'g, Service) handler" where
  "AddIssueRepositoryToService env db cd i repo priority =
     relate env db cd ''Internal error while adding issue repository to service.''
       (\<lambda>d. sdb_add_repository db d i repo priority) (OtherEvent ''AddIssueRepositoryToService'') i"

definition RemoveIssueRepositoryFromService ::
  "('d, 'z, 'g) app_env \<Rightarrow> 'd service_db \<Rightarrow> service_codecs \<Rightarrow> id64 \<Rightarrow> id64 \<Rightarrow> ('d, 'z, 'g, Service) handler" where
  "RemoveIssueRepositoryFromService env db cd i repo =
     relate env db cd ''Internal error while removing issue repository from service.''
       (\<lambda>d. sdb_remove_repository db d i repo) (OtherEvent ''RemoveIssueRepositoryFromService'') i"

section \<open>Values and batches\<close>

definition list_attribute ::
  "('d, 'z, 'g) app_env \<Rightarrow> 'd service_db \<Rightarrow> service_codecs \<Rightarrow> string \<Rightarrow> string \<Rightarrow> string \<Rightarrow> ServiceFilter
   \<Rightarrow> ('d, 'z, 'g, string list) handler" where
  "list_attribute env db cd fn msg evt f =
     bindH (wrapH (\<lambda>_. ServiceHandlerError msg) (cachedH env (ec_strings cd) (ec_key cd fn f None) (\<lambda>d. sdb_attribute db fn d f)))
       (\<lambda>vs. bindH (pushH (OtherEvent evt)) (\<lambda>_. returnH vs))"

definition ListServiceCcrns where
  "ListServiceCcrns env db cd f =
     list_attribute env db cd ''GetServiceCcrns'' ''Internal error while retrieving serviceCCRNs.'' ''ListServiceCcrns'' f"

definition ListServiceDomains where
  "ListServiceDomains env db cd f =
     list_attribute env db cd ''GetServiceDomains'' ''Internal error while retrieving serviceDomains.'' ''ListServiceDomains'' f"

definition ListServiceRegions where
  "ListServiceRegions env db cd f =
     list_attribute env db cd ''GetServiceRegions'' ''Internal error while retrieving serviceRegions.'' ''ListServiceRegions'' f"

definition ListOwnersByServiceIDs where
  "ListOwnersByServiceIDs env db cd ids =
     wrapH (\<lambda>_. ServiceHandlerError ''Internal error while retrieving owners by service IDs.'')
       (cachedH env (sc_owners cd) (sc_ids_key cd ''GetOwnersByServiceIDs'' ids) (\<lambda>d. sdb_owners db d ids))"

definition ListSupportGroupsByServiceIDs where
  "ListSupportGroupsByServiceIDs env db cd ids =
     wrapH (\<lambda>_. ServiceHandlerError ''Internal error while retrieving support groups by service IDs.'')
       (cachedH env (sc_support_groups cd) (sc_ids_key cd ''GetSupportGroupsByServiceIDs'' ids) (\<lambda>d. sdb_support_groups db d ids))"

definition ListIssueCountsByServiceIDs where
  "ListIssueCountsByServiceIDs env db cd ids =
     wrapH (\<lambda>_. ServiceHandlerError ''Internal error while retrieving issue counts by service IDs.'')
       (cachedH env (sc_issue_counts cd) (sc_ids_key cd ''GetIssueCountsByServiceIDs'' ids) (\<lambda>d. sdb_issue_counts db d ids))"

section \<open>Lemmas\<close>

lemma service_reads [reading]:
  "only_reads (ListServices env db cd f options)" "only_reads (GetService env db cd i)"
  "only_reads (ListServiceCcrns env db cd f)" "only_reads (ListServiceDomains env db cd f)"
  "only_reads (ListServiceRegions env db cd f)" "only_reads (ListOwnersByServiceIDs env db cd ids)"
  "only_reads (ListSupportGroupsByServiceIDs env db cd ids)" "only_reads (ListIssueCountsByServiceIDs env db cd ids)"
  by (simp_all add: ListServices_def GetService_def ListServiceCcrns_def ListServiceDomains_def ListServiceRegions_def
      list_attribute_def ListOwnersByServiceIDs_def ListSupportGroupsByServiceIDs_def ListIssueCountsByServiceIDs_def
      Let_def reading)

text \<open>Without a cache the elements are the rows of one query with the restricted ids.\<close>

lemma ListServices_rows:
  assumes "ae_cache env = None" and "ListServices env db cd f0 options s = (Inr l, t)"
  shows "\<exists>user acc f ord. GetCurrentUserId (ae_ctx env) (ae_users env (as_db s)) = Inr user
    \<and> az_GetListOfAccessibleObjectIds (ae_authz env) (as_authz s) (UserIdFromInt user) TypeSupportGroup = Inr acc
    \<and> sfSupportGroupId f = restrict_ids (sfSupportGroupId f0) acc
    \<and> (ed_get db (as_db s) f ord = Inr (elElements l) \<or> sdb_get_aggregated db (as_db s) f ord = Inr (elElements l))"
proof -
  let ?f = "\<lambda>ids. f0\<lparr>sfPage := EnsurePaginated (sfPage f0), sfSupportGroupId := ids\<rparr>"
  note c = cached_disabled [OF assms(1)]
  from assms(2) obtain ids s' where ids: "restricted env (internal_error ''serviceHandler.ListServices'' ''Services'' [])
        TypeSupportGroup (sfSupportGroupId f0) s = (Inr ids, s')"
    and res: "ed_get db (as_db s') (?f ids) (loOrder (EnsureListOptions options)) = Inr (elElements l)
      \<or> sdb_get_aggregated db (as_db s') (?f ids) (loOrder (EnsureListOptions options)) = Inr (elElements l)"
    by (auto simp: ListServices_def Let_def c elim!: bind_cases split: if_splits dest!: list_pages_elements)
  from restricted_value [OF ids] obtain user acc where "s' = s"
    "GetCurrentUserId (ae_ctx env) (ae_users env (as_db s)) = Inr user"
    "az_GetListOfAccessibleObjectIds (ae_authz env) (as_authz s) (UserIdFromInt user) TypeSupportGroup = Inr acc"
    "ids = restrict_ids (sfSupportGroupId f0) acc"
    by blast
  with res show ?thesis
    by (intro exI [of _ user] exI [of _ acc] exI [of _ "?f ids"] exI [of _ "loOrder (EnsureListOptions options)"]) simp
qed

text \<open>Reading a service back when the user may not see it.\<close>

lemma GetService_denied:
  assumes "GetCurrentUserId (ae_ctx env) (ae_users env (as_db s)) = Inr user"
    and "az_CheckPermission (ae_authz env) (as_authz s) \<lparr>riUserType = TypeUser, riUserId = UserIdFromInt user,
      riRelation = RelCanView, riObjectType = TypeService, riObjectId = ObjectIdFromInt i\<rparr> = Inr False"
  shows "GetService env db cd i s =
    (Inl (Failed (AppErr (PermissionDeniedError ''serviceHandler.GetService'' ''Service'' (FormatInt i)))), s)"
  by (simp add: GetService_def Let_def handler_runs assms(1) run_permission [OF assms(2)])

lemma relate_denied:
  assumes "u (as_db s) = (None, d)"
    and "GetCurrentUserId (ae_ctx env) (ae_users env d) = Inr user"
    and "az_CheckPermission (ae_authz env) (as_authz s) \<lparr>riUserType = TypeUser, riUserId = UserIdFromInt user,
      riRelation = RelCanView, riObjectType = TypeService, riObjectId = ObjectIdFromInt i\<rparr> = Inr False"
  shows "relate env db cd msg u e i s =
    (Inl (Failed (AppErr (PermissionDeniedError ''serviceHandler.GetService'' ''Service'' (FormatInt i)))),
     s\<lparr>as_db := d, as_events := as_events s @ [e]\<rparr>)"
  using GetService_denied [of env "s\<lparr>as_db := d, as_events := as_events s @ [e]\<rparr>" user i] assms(2,3)
  by (simp add: relate_def handler_runs assms(1))

section \<open>Properties\<close>

text \<open>
  C31. Without a cache, a user with access to some support groups is shown only services of those
  groups, and with support groups in the filter only of groups that the filter names too. Groups
  have positive ids, and the queries return services of the groups that a non-empty filter names.
\<close>

theorem ListServices_shows_accessible:
  assumes "ae_cache env = None"
    and "\<And>f ord rows r. ed_get db (as_db s) f ord = Inr rows \<or> sdb_get_aggregated db (as_db s) f ord = Inr rows
      \<Longrightarrow> sfSupportGroupId f \<noteq> [] \<Longrightarrow> r \<in> set rows \<Longrightarrow> \<exists>g \<in> set (sfSupportGroupId f). 0 < g \<and> (g, svcId (snd r)) \<in> groups"
    and "GetCurrentUserId (ae_ctx env) (ae_users env (as_db s)) = Inr user"
    and "az_GetListOfAccessibleObjectIds (ae_authz env) (as_authz s) (UserIdFromInt user) TypeSupportGroup = Inr acc"
    and "acc \<noteq> []" and "None \<notin> set acc"
    and "fst (ListServices env db cd f0 options s) = Inr l"
    and "r \<in> set (elElements l)"
  shows "\<exists>g. (g, svcId (snd r)) \<in> groups \<and> Some g \<in> set acc \<and> (sfSupportGroupId f0 \<noteq> [] \<longrightarrow> g \<in> set (sfSupportGroupId f0))"
proof -
  obtain t where "ListServices env db cd f0 options s = (Inr l, t)"
    using assms(7) by (metis fst_conv surj_pair)
  from ListServices_rows [OF assms(1) this] assms(3,4) obtain f ord
    where f: "sfSupportGroupId f = restrict_ids (sfSupportGroupId f0) acc"
      and rows: "ed_get db (as_db s) f ord = Inr (elElements l) \<or> sdb_get_aggregated db (as_db s) f ord = Inr (elElements l)"
    by auto
  have "sfSupportGroupId f \<noteq> []" using restrict_ids_nonempty [OF assms(5,6)] f by simp
  from assms(2) [OF rows this assms(8)] obtain g where g: "g \<in> set (sfSupportGroupId f)" "0 < g" "(g, svcId (snd r)) \<in> groups"
    by blast
  with restrict_ids_accessible [OF assms(5)] f have "Some g \<in> set acc \<and> (sfSupportGroupId f0 \<noteq> [] \<longrightarrow> g \<in> set (sfSupportGroupId f0))"
    by fastforce
  with g(3) show ?thesis by blast
qed

text \<open>
  An update of a service that the user may not see is carried out and its event pushed; only
  then the permission is checked and the caller gets \<open>PermissionDenied\<close>.
\<close>

theorem UpdateService_denied_takes_effect:
  assumes "GetCurrentUserId (ae_ctx env) (ae_users env (as_db s)) = Inr user"
    and "ed_update db (as_db s) (svc\<lparr>svcMeta := (svcMeta svc)\<lparr>UpdatedBy := user\<rparr>\<rparr>) = (None, d)"
    and "GetCurrentUserId (ae_ctx env) (ae_users env d) = Inr user"
    and "az_CheckPermission (ae_authz env) (as_authz s) \<lparr>riUserType = TypeUser, riUserId = UserIdFromInt user,
      riRelation = RelCanView, riObjectType = TypeService, riObjectId = ObjectIdFromInt (svcId svc)\<rparr> = Inr False"
  shows "UpdateService env db cd svc s =
    (Inl (Failed (AppErr (PermissionDeniedError ''serviceHandler.GetService'' ''Service'' (FormatInt (svcId svc))))),
     s\<lparr>as_db := d, as_events := as_events s @ [OtherEvent ''UpdateService'']\<rparr>)"
  using GetService_denied [of env "s\<lparr>as_db := d, as_events := as_events s @ [OtherEvent ''UpdateService'']\<rparr>" user "svcId svc"]
    assms(3,4)
  by (simp add: UpdateService_def Let_def handler_runs assms(1,2))

section \<open>Examples\<close>

text \<open>Services as rows with the groups and owners they are linked to.\<close>

record service_rows =
  sr_services :: "Service list"
  sr_groups :: "(id64 \<times> id64) list"
  sr_owners :: "(id64 \<times> id64) list"

definition example_service_db :: "service_rows service_db" where
  "example_service_db =
     \<lparr>ed_get = (\<lambda>d f ord. Inr (map (\<lambda>v. (FormatInt (svcId v), v)) (filter (\<lambda>v.
          (sfSupportGroupId f = [] \<or> (\<exists>g \<in> set (sfSupportGroupId f). (g, svcId v) \<in> set (sr_groups d)))
          \<and> (sfId f = [] \<or> svcId v \<in> set (sfId f)) \<and> (sfCCRN f = [] \<or> Some (svcCCRN v) \<in> set (sfCCRN f))) (sr_services d)))),
      ed_cursors = (\<lambda>d f ord. Inr []), ed_count = (\<lambda>d f. Inr (int (length (sr_services d)))),
      ed_create = (\<lambda>d v. (Inr (v\<lparr>svcId := int (length (sr_services d)) + 1\<rparr>),
          d\<lparr>sr_services := sr_services d @ [v\<lparr>svcId := int (length (sr_services d)) + 1\<rparr>]\<rparr>)),
      ed_update = (\<lambda>d v. (None, d\<lparr>sr_services := map (\<lambda>w. if svcId w = svcId v then v else w) (sr_services d)\<rparr>)),
      ed_delete = (\<lambda>d i u. (None, d\<lparr>sr_services := filter (\<lambda>w. svcId w \<noteq> i) (sr_services d)\<rparr>)),
      sdb_get_aggregated = (\<lambda>d f ord. Inr []),
      sdb_add_owner = (\<lambda>d i u. (None, d\<lparr>sr_owners := sr_owners d @ [(i, u)]\<rparr>)),
      sdb_remove_owner = (\<lambda>d i u. (None, d\<lparr>sr_owners := removeAll (i, u) (sr_owners d)\<rparr>)),
      sdb_add_repository = (\<lambda>d i r p. (None, d)), sdb_remove_repository = (\<lambda>d i r. (None, d)),
      sdb_attribute = (\<lambda>n d f. Inr []), sdb_owners = (\<lambda>d is. Inr []), sdb_support_groups = (\<lambda>d is. Inr []),
      sdb_issue_counts = (\<lambda>d is. Inr [])\<rparr>"

definition example_service_codecs :: service_codecs where
  "example_service_codecs =
     \<lparr>ec_key = (\<lambda>n f ord. n), ec_rows = (\<lambda>v. None, \<lambda>t. Inr []), ec_strings = (\<lambda>v. None, \<lambda>t. Inr []),
      ec_count = (\<lambda>v. None, \<lambda>t. Inr 0), sc_ids_key = (\<lambda>n is. n), sc_owners = (\<lambda>v. None, \<lambda>t. Inr []),
      sc_support_groups = (\<lambda>v. None, \<lambda>t. Inr []), sc_issue_counts = (\<lambda>v. None, \<lambda>t. Inr [])\<rparr>"

definition example_service :: "id64 \<Rightarrow> string \<Rightarrow> Service" where
  "example_service i ccrn = \<lparr>svcMeta = zero_metadata, svcId = i, svcCCRN = ccrn, svcDomain = [], svcRegion = [],
     svcSupportGroupId = 0, svcOwners = [], svcPriority = 0,
     svcIRS = \<lparr>irsMeta = zero_metadata, irsServiceId = 0, irsIssueRepositoryId = 0, irsPriority = 0\<rparr>\<rparr>"

definition example_rows :: service_rows where
  "example_rows = \<lparr>sr_services = [example_service 1 ''compute'', example_service 2 ''network''],
     sr_groups = [(4, 1), (5, 2)], sr_owners = []\<rparr>"

lemma example_denied:
  "az_CheckPermission (Authz tuple_store) \<lparr>ts_tuples = [], ts_page = 50\<rparr> \<lparr>riUserType = TypeUser, riUserId = UserIdFromInt 1,
     riRelation = RelCanView, riObjectType = TypeService, riObjectId = ObjectIdFromInt i\<rparr> = Inr False"
  by (simp add: Authz_def CheckPermission_def tuple_store_def)

lemma example_accessible:
  "az_GetListOfAccessibleObjectIds (Authz tuple_store) \<lparr>ts_tuples = [(''user:1'', ''can_view'', ''support_group:4'')], ts_page = 50\<rparr>
     (UserIdFromInt 1) TypeSupportGroup = Inr [Some 4]"
proof -
  let ?s = "\<lparr>ts_tuples = [(''user:1'', ''can_view'', ''support_group:4'')], ts_page = 50\<rparr>"
  have u: "UserIdFromInt 1 = ''1''" by code_simp
  have objs: "fga_ListObjects tuple_store ?s (''user:'' @ ''1'') ''can_view'' ''support_group'' = Inr [''support_group:4'']"
    by (simp add: tuple_store_def tuple_matches_def object_matches_def)
  have n: "numeric_ids [''support_group:4''] = [4]" by code_simp
  have "\<not> (\<forall>obj \<in> set [''support_group:4'']. split_colon obj = None)" by code_simp
  then have "GetListOfAccessibleObjectIds tuple_store ?s ''1'' ''support_group'' = Inr [Some 4]"
    using accessible_ids [OF objs] n by simp
  then show ?thesis by (simp add: Authz_def u type_defs)
qed

theorem UpdateService_denied_takes_effect_witness:
  "UpdateService example_env example_service_db example_service_codecs (example_service 2 ''renamed'') (example_app example_rows []) =
    (Inl (Failed (AppErr (PermissionDeniedError ''serviceHandler.GetService'' ''Service'' (FormatInt 2)))),
     (example_app example_rows [])\<lparr>as_db := example_rows\<lparr>sr_services := [example_service 1 ''compute'',
         (example_service 2 ''renamed'')\<lparr>svcMeta := zero_metadata\<lparr>UpdatedBy := 1\<rparr>\<rparr>]\<rparr>,
       as_events := [OtherEvent ''UpdateService'']\<rparr>)"
proof -
  let ?s = "example_app example_rows []" and ?svc = "example_service 2 ''renamed''"
  have u: "ed_update example_service_db (as_db ?s) (?svc\<lparr>svcMeta := (svcMeta ?svc)\<lparr>UpdatedBy := 1\<rparr>\<rparr>) =
      (None, example_rows\<lparr>sr_services := [example_service 1 ''compute'', ?svc\<lparr>svcMeta := zero_metadata\<lparr>UpdatedBy := 1\<rparr>\<rparr>]\<rparr>)"
    by (simp add: example_service_db_def  example_rows_def example_service_def)
  have "az_CheckPermission (ae_authz example_env) (as_authz ?s) \<lparr>riUserType = TypeUser,
     riUserId = UserIdFromInt 1, riRelation = RelCanView, riObjectType = TypeService, riObjectId = ObjectIdFromInt (svcId ?svc)\<rparr> = Inr False"
    using example_denied [of "svcId ?svc"] by simp
  from UpdateService_denied_takes_effect [OF example_env_user u example_env_user this]
  show ?thesis by (simp add:  example_service_def)
qed

theorem ListServices_shows_accessible_witness:
  "\<exists>l. fst (ListServices example_env example_service_db example_service_codecs no_service_filter None
        (example_app example_rows [(''user:1'', ''can_view'', ''support_group:4'')])) = Inr l
     \<and> map (svcId \<circ> snd) (elElements l) = [1]
     \<and> (\<forall>r \<in> set (elElements l). (4, svcId (snd r)) \<in> set (sr_groups example_rows))"
proof -
  let ?s = "example_app example_rows [(''user:1'', ''can_view'', ''support_group:4'')]"
  have acc: "az_GetListOfAccessibleObjectIds (ae_authz example_env) (as_authz ?s) (UserIdFromInt 1) TypeSupportGroup = Inr [Some 4]"
    using example_accessible by simp
  have db: "\<exists>g \<in> set (sfSupportGroupId f). 0 < g \<and> (g, svcId (snd r)) \<in> set (sr_groups example_rows)"
    if "ed_get example_service_db (as_db ?s) f ord = Inr rows \<or> sdb_get_aggregated example_service_db (as_db ?s) f ord = Inr rows"
      and "sfSupportGroupId f \<noteq> []" and "r \<in> set rows" for f ord rows r
  proof -
    have "\<forall>(g, i) \<in> set (sr_groups example_rows). 0 < g" by (simp add: example_rows_def)
    with that show ?thesis by (fastforce simp: example_service_db_def)
  qed
  have "restricted example_env w TypeSupportGroup [] ?s = (Inr [4], ?s)" for w
    using restricted_run [of example_env ?s 1 TypeSupportGroup "[Some 4]" w "[]", OF example_env_user] example_accessible
    by (simp add: restrict_ids_def CombineFilterWithAccessibleIds_def List.map_filter_def)
  then have "fst (ListServices example_env example_service_db example_service_codecs no_service_filter None ?s) =
      Inr \<lparr>elTotalCount = Some 0, elPageInfo = None, elElements = [(FormatInt 1, example_service 1 ''compute'')]\<rparr>"
    by (simp add: ListServices_def Let_def no_service_filter_def EnsureListOptions_def NewListOptions_def cached_disabled
        wrapped_value bind_value list_pages_def example_service_db_def example_rows_def example_service_def)
  note l = this
  from ListServices_shows_accessible [OF _ db example_env_user acc _ _ l]
  show ?thesis by (simp add: l example_service_def)
qed

end
