(* ===== verification/Group_User_Handlers.thy ===== *)
theory Group_User_Handlers
  imports Handler_Base
begin

text \<open>
  The handlers of support groups (\<open>internal/app/support_group/support_group_handler.go\<close>), which reads
  past the cache, and of users (\<open>internal/app/user/user_handler.go\<close>), which caches rows and cursors but
  neither counts nor names.
\<close>

section \<open>Support groups\<close>

record SupportGroupFilter =
  gfPage :: Paginated
  gfId :: "id64 list"
  gfServiceId :: "id64 list"
  gfUserId :: "id64 list"
  gfIssueId :: "id64 list"
  gfCCRN :: "string list"
  gfState :: "StateFilterType list"

definition no_group_filter :: SupportGroupFilter where
  "no_group_filter = \<lparr>gfPage = \<lparr>First = None, PAfter = None\<rparr>, gfId = [], gfServiceId = [], gfUserId = [],
     gfIssueId = [], gfCCRN = [], gfState = []\<rparr>"

record 'd group_db = "('d, SupportGroupFilter, SupportGroup) entity_db" +
  gdb_add_service :: "'d \<Rightarrow> id64 \<Rightarrow> id64 \<Rightarrow> goerr option \<times> 'd"
  gdb_remove_service :: "'d \<Rightarrow> id64 \<Rightarrow> id64 \<Rightarrow> goerr option \<times> 'd"
  gdb_add_user :: "'d \<Rightarrow> id64 \<Rightarrow> id64 \<Rightarrow> goerr option \<times> 'd"
  gdb_remove_user :: "'d \<Rightarrow> id64 \<Rightarrow> id64 \<Rightarrow> goerr option \<times> 'd"
  gdb_ccrns :: "'d \<Rightarrow> SupportGroupFilter \<Rightarrow> goerr + string list"

definition SupportGroupHandlerError :: "string \<Rightarrow> goerr" where
  "SupportGroupHandlerError msg = ErrVal ''SupportGroupHandlerError'' msg"

definition ListSupportGroups ::
  "('d, 'z, 'g) app_env \<Rightarrow> 'd group_db \<Rightarrow> SupportGroupFilter \<Rightarrow> ListOptions
   \<Rightarrow> ('d, 'z, 'g, SupportGroup entity_list) handler" where
  "ListSupportGroups env db f0 options =
     (let internal = internal_error ''supportGroupHandler.ListSupportGroups'' ''SupportGroups'' [];
          f1 = f0\<lparr>gfPage := EnsurePaginated (gfPage f0)\<rparr>
      in bindH (restricted env internal TypeSupportGroup (gfId f1)) (\<lambda>ids.
         let f = f1\<lparr>gfId := ids\<rparr>; ord = loOrder options
         in bindH (wrapH internal (readH (\<lambda>d. ed_get db d f ord))) (\<lambda>res.
            bindH (list_pages options (gfPage f) res
              (wrapH internal (readH (\<lambda>d. ed_cursors db d f ord)))
              (wrapH internal (readH (\<lambda>d. ed_count db d f)))) (\<lambda>l.
            bindH (pushH (OtherEvent ''ListSupportGroups'')) (\<lambda>_. returnH l)))))"

definition GetSupportGroup ::
  "('d, 'z, 'g) app_env \<Rightarrow> 'd group_db \<Rightarrow> id64 \<Rightarrow> ('d, 'z, 'g, SupportGroup) handler" where
  "GetSupportGroup env db i =
     (let opn = ''supportGroupHandler.GetSupportGroup'';
          internal = internal_error opn ''SupportGroups'' (FormatInt i)
      in bindH (wrapH internal (current_user env)) (\<lambda>user.
         bindH (wrapH internal (check_permission env user TypeSupportGroup i)) (\<lambda>hasPermission.
         if \<not> hasPermission then failH (AppErr (PermissionDeniedError opn ''SupportGroups'' (FormatInt i)))
         else
           bindH (wrapH internal (ListSupportGroups env db (no_group_filter\<lparr>gfId := [i]\<rparr>) NewListOptions)) (\<lambda>l.
           bindH (single (AppErr (InternalError opn ''SupportGroups'' (FormatInt i) None)) l) (\<lambda>g.
           bindH (pushH (OtherEvent ''GetSupportGroup'')) (\<lambda>_. returnH g))))))"

definition CreateSupportGroup ::
  "('d, 'z, 'g) app_env \<Rightarrow> 'd group_db \<Rightarrow> SupportGroup \<Rightarrow> ('d, 'z, 'g, SupportGroup) handler" where
  "CreateSupportGroup env db sg =
     bindH (wrapH (\<lambda>_. SupportGroupHandlerError ''Internal error while creating supportGroup (GetUserId).'') (current_user env)) (\<lambda>user.
     let sg = sg\<lparr>sgMeta := (sgMeta sg)\<lparr>CreatedBy := user, UpdatedBy := user\<rparr>\<rparr>;
         failed = (\<lambda>_. SupportGroupHandlerError ''Internal error while creating supportGroup.'')
     in bindH (wrapH failed (ListSupportGroups env db (no_group_filter\<lparr>gfCCRN := [sgCCRN sg]\<rparr>) NewListOptions)) (\<lambda>l.
        if elElements l \<noteq> [] then failH (SupportGroupHandlerError (''Duplicated entry '' @ sgCCRN sg @ '' for ccrn.''))
        else
          bindH (wrapH failed (writeH (\<lambda>d. ed_create db d sg))) (\<lambda>new.
          bindH (pushH (CreateSupportGroupEvent new)) (\<lambda>_. returnH new))))"

definition UpdateSupportGroup ::
  "('d, 'z, 'g) app_env \<Rightarrow> 'd group_db \<Rightarrow> SupportGroup \<Rightarrow> ('d, 'z, 'g, SupportGroup) handler" where
  "UpdateSupportGroup env db sg =
     bindH (wrapH (\<lambda>_. SupportGroupHandlerError ''Internal error while updating supportGroup (GetUserId).'') (current_user env)) (\<lambda>user.
     let sg = sg\<lparr>sgMeta := (sgMeta sg)\<lparr>UpdatedBy := user\<rparr>\<rparr>
     in bindH (wrapH (\<lambda>_. SupportGroupHandlerError ''Internal error while updating supportGroup.'') (execH (\<lambda>d. ed_update db d sg))) (\<lambda>_.
        bindH (pushH (OtherEvent ''UpdateSupportGroup'')) (\<lambda>_. GetSupportGroup env db (sgId sg))))"

definition DeleteSupportGroup ::
  "('d, 'z, 'g) app_env \<Rightarrow> 'd group_db \<Rightarrow> id64 \<Rightarrow> ('d, 'z, 'g, unit) handler" where
  "DeleteSupportGroup env db i =
     bindH (wrapH (\<lambda>_. SupportGroupHandlerError ''Internal error while deleting supportGroup (GetUserId).'') (current_user env)) (\<lambda>user.
     bindH (wrapH (\<lambda>_. SupportGroupHandlerError ''Internal error while deleting supportGroup.'') (execH (\<lambda>d. ed_delete db d i user))) (\<lambda>_.
       pushH (DeleteSupportGroupEvent i)))"

definition relate_group ::
  "('d, 'z, 'g) app_env \<Rightarrow> 'd group_db \<Rightarrow> string \<Rightarrow> ('d \<Rightarrow> goerr option \<times> 'd) \<Rightarrow> app_event \<Rightarrow> id64
   \<Rightarrow> ('d, 'z, 'g, SupportGroup) handler" where
  "relate_group env db msg u e i =
     bindH (wrapH (\<lambda>_. SupportGroupHandlerError msg) (execH u)) (\<lambda>_. bindH (pushH e) (\<lambda>_. GetSupportGroup env db i))"

definition AddServiceToSupportGroup ::
  "('d, 'z, 'g) app_env \<Rightarrow> 'd group_db \<Rightarrow> id64 \<Rightarrow> id64 \<Rightarrow> ('d, 'z, 'g, SupportGroup) handler" where
  "AddServiceToSupportGroup env db i svc =
     relate_group env db ''Internal error while adding service to supportGroup.'' (\<lambda>d. gdb_add_service db d i svc)
       (AddServiceToSupportGroupEvent i svc) i"

definition RemoveServiceFromSupportGroup ::
  "('d, 'z, 'g) app_env \<Rightarrow> 'd group_db \<Rightarrow> id64 \<Rightarrow> id64 \<Rightarrow> ('d, 'z, 'g, SupportGroup) handler" where
  "RemoveServiceFromSupportGroup env db i svc =
     relate_group env db ''Internal error while removing service from supportGroup.'' (\<lambda>d. gdb_remove_service db d i svc)
       (RemoveServiceFromSupportGroupEvent i svc) i"

definition AddUserToSupportGroup ::
  "('d, 'z, 'g) app_env \<Rightarrow> 'd group_db \<Rightarrow> id64 \<Rightarrow> id64 \<Rightarrow> ('d, 'z, 'g, SupportGroup) handler" where
  "AddUserToSupportGroup env db i user =
     relate_group env db ''Internal error while adding user to supportGroup.'' (\<lambda>d. gdb_add_user db d i user)
       (AddUserToSupportGroupEvent i user) i"

definition RemoveUserFromSupportGroup ::
  "('d, 'z, 'g) app_env \<Rightarrow> 'd group_db \<Rightarrow> id64 \<Rightarrow> id64 \<Rightarrow> ('d, 'z, 'g, SupportGroup) handler" where
  "RemoveUserFromSupportGroup env db i user =
     relate_group env db ''Internal error while removing user from supportGroup.'' (\<lambda>d. gdb_remove_user db d i user)
       (RemoveUserFromSupportGroupEvent i user) i"

definition ListSupportGroupCcrns ::
  "'d group_db \<Rightarrow> SupportGroupFilter \<Rightarrow> ('d, 'z, 'g, string list) handler" where
  "ListSupportGroupCcrns db f =
     bindH (wrapH (\<lambda>_. SupportGroupHandlerError ''Internal error while retrieving supportGroupCcrns.'') (readH (\<lambda>d. gdb_ccrns db d f)))
       (\<lambda>vs. bindH (pushH (OtherEvent ''ListSupportGroupCcrns'')) (\<lambda>_. returnH vs))"

section \<open>Users\<close>

record UserFilter =
  ufPage :: Paginated
  ufName :: "string list"
  ufUniqueUserID :: "string list"
  ufType :: "int list"
  ufId :: "id64 list"
  ufSupportGroupId :: "id64 list"
  ufServiceId :: "id64 list"
  ufState :: "StateFilterType list"
  ufEmail :: "string list"

definition no_user_filter :: UserFilter where
  "no_user_filter = \<lparr>ufPage = \<lparr>First = None, PAfter = None\<rparr>, ufName = [], ufUniqueUserID = [], ufType = [], ufId = [],
     ufSupportGroupId = [], ufServiceId = [], ufState = [], ufEmail = []\<rparr>"

record 'd user_db = "('d, UserFilter, User) entity_db" +
  udb_names :: "'d \<Rightarrow> UserFilter \<Rightarrow> goerr + string list"
  udb_unique_ids :: "'d \<Rightarrow> UserFilter \<Rightarrow> goerr + string list"

definition UserHandlerError :: "string \<Rightarrow> goerr" where
  "UserHandlerError msg = ErrVal ''UserHandlerError'' (''UserHandlerError: '' @ msg)"

definition ListUsers ::
  "('d, 'z, 'g) app_env \<Rightarrow> 'd user_db \<Rightarrow> (UserFilter, User) entity_codecs \<Rightarrow> UserFilter \<Rightarrow> ListOptions
   \<Rightarrow> ('d, 'z, 'g, User entity_list) handler" where
  "ListUsers env db cd f0 options =
     (let internal = internal_error ''userHandler.ListUsers'' ''Users'' [];
          f1 = f0\<lparr>ufPage := EnsurePaginated (ufPage f0)\<rparr>
      in bindH (restricted env internal TypeSupportGroup (ufSupportGroupId f1)) (\<lambda>ids.
         let f = f1\<lparr>ufSupportGroupId := ids\<rparr>; ord = loOrder options
         in bindH (wrapH internal (cachedH env (ec_rows cd) (ec_key cd ''GetUsers'' f (Some ord)) (\<lambda>d. ed_get db d f ord))) (\<lambda>res.
            bindH (list_pages options (ufPage f) res
              (wrapH internal (cachedH env (ec_strings cd) (ec_key cd ''GetAllUserCursors'' f (Some ord)) (\<lambda>d. ed_cursors db d f ord)))
              (wrapH internal (readH (\<lambda>d. ed_count db d f)))) (\<lambda>l.
            bindH (pushH (OtherEvent ''ListUsers'')) (\<lambda>_. returnH l)))))"

definition CreateUser ::
  "('d, 'z, 'g) app_env \<Rightarrow> 'd user_db \<Rightarrow> (UserFilter, User) entity_codecs \<Rightarrow> User \<Rightarrow> ('d, 'z, 'g, User) handler" where
  "CreateUser env db cd u =
     bindH (wrapH (\<lambda>_. UserHandlerError ''Internal error while creating user (GetUserId).'') (current_user env)) (\<lambda>user.
     let u = u\<lparr>userMeta := (userMeta u)\<lparr>CreatedBy := user, UpdatedBy := user\<rparr>\<rparr>;
         failed = (\<lambda>_. UserHandlerError ''Internal error while creating user.'')
     in bindH (wrapH failed (ListUsers env db cd (no_user_filter\<lparr>ufUniqueUserID := [userUniqueUserID u]\<rparr>) NewListOptions)) (\<lambda>l.
        if elElements l \<noteq> [] then failH (UserHandlerError (''Duplicated entry '' @ userUniqueUserID u @ '' for UniqueUserID.''))
        else
          bindH (wrapH failed (writeH (\<lambda>d. ed_create db d u))) (\<lambda>new.
          bindH (pushH (OtherEvent ''CreateUser'')) (\<lambda>_. returnH new))))"

definition UpdateUser ::
  "('d, 'z, 'g) app_env \<Rightarrow> 'd user_db \<Rightarrow> (UserFilter, User) entity_codecs \<Rightarrow> User \<Rightarrow> ('d, 'z, 'g, User) handler" where
  "UpdateUser env db cd u =
     bindH (wrapH (\<lambda>_. UserHandlerError ''Internal error while updating user (GetUserId).'') (current_user env)) (\<lambda>user.
     let u = u\<lparr>userMeta := (userMeta u)\<lparr>UpdatedBy := user\<rparr>\<rparr>
     in bindH (wrapH (\<lambda>_. UserHandlerError ''Internal error while updating user.'') (execH (\<lambda>d. ed_update db d u))) (\<lambda>_.
        bindH (wrapH (\<lambda>_. UserHandlerError ''Internal error while retrieving updated user.'')
          (ListUsers env db cd (no_user_filter\<lparr>ufId := [userId u]\<rparr>) NewListOptions)) (\<lambda>l.
        bindH (single (UserHandlerError ''Multiple users found.'') l) (\<lambda>found.
        bindH (pushH (OtherEvent ''UpdateUser'')) (\<lambda>_. returnH found)))))"

definition DeleteUser ::
  "('d, 'z, 'g) app_env \<Rightarrow> 'd user_db \<Rightarrow> id64 \<Rightarrow> ('d, 'z, 'g, unit) handler" where
  "DeleteUser env db i =
     bindH (wrapH (\<lambda>_. UserHandlerError ''Internal error while deleting user (GetUserId).'') (current_user env)) (\<lambda>user.
     bindH (wrapH (\<lambda>_. UserHandlerError ''Internal error while deleting user.'') (execH (\<lambda>d. ed_delete db d i user))) (\<lambda>_.
       pushH (DeleteUserEvent i)))"

definition ListUserNames :: "'d user_db \<Rightarrow> UserFilter \<Rightarrow> ('d, 'z, 'g, string list) handler" where
  "ListUserNames db f =
     bindH (wrapH (\<lambda>_. UserHandlerError ''Internal error while retrieving userNames.'') (readH (\<lambda>d. udb_names db d f)))
       (\<lambda>vs. bindH (pushH (OtherEvent ''ListUserNames'')) (\<lambda>_. returnH vs))"

definition ListUniqueUserIDs :: "'d user_db \<Rightarrow> UserFilter \<Rightarrow> ('d, 'z, 'g, string list) handler" where
  "ListUniqueUserIDs db f =
     bindH (wrapH (\<lambda>_. UserHandlerError ''Internal error while retrieving uniqueUserID.'') (readH (\<lambda>d. udb_unique_ids db d f)))
       (\<lambda>vs. bindH (pushH (OtherEvent ''ListUniqueUserIDs'')) (\<lambda>_. returnH vs))"

definition ListUserNamesAndIds ::
  "'d user_db \<Rightarrow> UserFilter \<Rightarrow> ListOptions \<Rightarrow> ('d, 'z, 'g, string list \<times> string list) handler" where
  "ListUserNamesAndIds db f options =
     bindH (wrapH (\<lambda>_. UserHandlerError ''Internal error while retrieving user.'') (readH (\<lambda>d. ed_get db d f (loOrder options))))
       (\<lambda>rows. bindH (pushH (OtherEvent ''ListUserNamesAndIds''))
          (\<lambda>_. returnH (map (userName \<circ> snd) rows, map (userUniqueUserID \<circ> snd) rows)))"

section \<open>Lemmas\<close>

lemma group_user_reads [reading]:
  "only_reads (ListSupportGroups env db f options)" "only_reads (GetSupportGroup env db i)"
  "only_reads (ListSupportGroupCcrns db f)" "only_reads (ListUsers env udb ucd uf options)"
  "only_reads (ListUserNames udb uf)" "only_reads (ListUniqueUserIDs udb uf)"
  "only_reads (ListUserNamesAndIds udb uf options)"
  by (simp_all add: ListSupportGroups_def GetSupportGroup_def ListSupportGroupCcrns_def ListUsers_def ListUserNames_def
      ListUniqueUserIDs_def ListUserNamesAndIds_def Let_def reading)

text \<open>Adding a user to a support group that the caller may not see.\<close>

lemma GetSupportGroup_denied:
  assumes "GetCurrentUserId (ae_ctx env) (ae_users env (as_db s)) = Inr user"
    and "az_CheckPermission (ae_authz env) (as_authz s) \<lparr>riUserType = TypeUser, riUserId = UserIdFromInt user,
      riRelation = RelCanView, riObjectType = TypeSupportGroup, riObjectId = ObjectIdFromInt i\<rparr> = Inr False"
  shows "GetSupportGroup env db i s =
    (Inl (Failed (AppErr (PermissionDeniedError ''supportGroupHandler.GetSupportGroup'' ''SupportGroups'' (FormatInt i)))), s)"
  by (simp add: GetSupportGroup_def Let_def run_user assms(1) run_permission [OF assms(2)])

lemma AddUserToSupportGroup_denied:
  assumes "gdb_add_user db (as_db s) i user = (None, d)"
    and "GetCurrentUserId (ae_ctx env) (ae_users env d) = Inr caller"
    and "az_CheckPermission (ae_authz env) (as_authz s) \<lparr>riUserType = TypeUser, riUserId = UserIdFromInt caller,
      riRelation = RelCanView, riObjectType = TypeSupportGroup, riObjectId = ObjectIdFromInt i\<rparr> = Inr False"
  shows "AddUserToSupportGroup env db i user s =
    (Inl (Failed (AppErr (PermissionDeniedError ''supportGroupHandler.GetSupportGroup'' ''SupportGroups'' (FormatInt i)))),
     s\<lparr>as_db := d, as_events := as_events s @ [AddUserToSupportGroupEvent i user]\<rparr>)"
  using GetSupportGroup_denied [of env "s\<lparr>as_db := d, as_events := as_events s @ [AddUserToSupportGroupEvent i user]\<rparr>" caller i]
    assms(2,3)
  by (simp add: AddUserToSupportGroup_def relate_group_def run_exec assms(1))

text \<open>A deletion that succeeds pushes its event.\<close>

lemma DeleteSupportGroup_run:
  assumes "GetCurrentUserId (ae_ctx env) (ae_users env (as_db s)) = Inr user" and "ed_delete db (as_db s) i user = (None, d)"
  shows "DeleteSupportGroup env db i s = (Inr (), s\<lparr>as_db := d, as_events := as_events s @ [DeleteSupportGroupEvent i]\<rparr>)"
  by (simp add: DeleteSupportGroup_def run_user assms(1) run_delete [OF assms(2)])

end
