(* ===== verification/Component_Handlers.thy ===== *)
theory Component_Handlers
  imports Handler_Base
begin

text \<open>
  The handlers of components, component versions and component instances
  (\<open>internal/app/component\<close>, \<open>internal/app/component_version\<close>, \<open>internal/app/component_instance\<close>). Rows
  of components are read past the cache. A component instance may name the scanner run that saw it;
  the failure of that bookkeeping is logged and does not fail the request.
\<close>

section \<open>Components\<close>

record ComponentFilter =
  cfPage :: Paginated
  cfCCRN :: "string list"
  cfRepository :: "string option list"
  cfOrganization :: "string list"
  cfServiceCCRN :: "string option list"
  cfId :: "id64 list"
  cfComponentVersionId :: "id64 list"
  cfState :: "StateFilterType list"
  cfUseMvComponentService :: bool

definition no_component_filter :: ComponentFilter where
  "no_component_filter = \<lparr>cfPage = \<lparr>First = None, PAfter = None\<rparr>, cfCCRN = [], cfRepository = [], cfOrganization = [],
     cfServiceCCRN = [], cfId = [], cfComponentVersionId = [], cfState = [], cfUseMvComponentService = False\<rparr>"

record 'd component_db = "('d, ComponentFilter, Component) entity_db" +
  cdb_ccrns :: "'d \<Rightarrow> ComponentFilter \<Rightarrow> goerr + string list"
  cdb_vulnerabilities :: "'d \<Rightarrow> ComponentFilter \<Rightarrow> goerr + IssueSeverityCounts list"

definition ComponentHandlerError :: "string \<Rightarrow> goerr" where
  "ComponentHandlerError msg = ErrVal ''ComponentHandlerError'' (''ComponentHandlerError: '' @ msg)"

definition ListComponents ::
  "('d, 'z, 'g) app_env \<Rightarrow> 'd component_db \<Rightarrow> (ComponentFilter, Component) entity_codecs \<Rightarrow> ComponentFilter \<Rightarrow> ListOptions option
   \<Rightarrow> ('d, 'z, 'g, Component entity_list) handler" where
  "ListComponents env db cd f0 options0 =
     (let internal = internal_error ''componentHandler.ListComponents'' ''Components'' [];
          f1 = f0\<lparr>cfPage := EnsurePaginated (cfPage f0)\<rparr>;
          options = EnsureListOptions options0
      in bindH (restricted env internal TypeComponent (cfId f1)) (\<lambda>ids.
         let f = f1\<lparr>cfId := ids\<rparr>; ord = loOrder options
         in bindH (wrapH internal (readH (\<lambda>d. ed_get db d f ord))) (\<lambda>res.
            bindH (list_pages options (cfPage f) res
              (wrapH internal (cachedH env (ec_strings cd) (ec_key cd ''GetAllComponentCursors'' f (Some ord)) (\<lambda>d. ed_cursors db d f ord)))
              (wrapH internal (cachedH env (ec_count cd) (ec_key cd ''CountComponents'' f None) (\<lambda>d. ed_count db d f)))) (\<lambda>l.
            bindH (pushH (OtherEvent ''ListComponents'')) (\<lambda>_. returnH l)))))"

definition CreateComponent ::
  "('d, 'z, 'g) app_env \<Rightarrow> 'd component_db \<Rightarrow> (ComponentFilter, Component) entity_codecs \<Rightarrow> Component
   \<Rightarrow> ('d, 'z, 'g, Component) handler" where
  "CreateComponent env db cd c =
     bindH (wrapH (\<lambda>_. ComponentHandlerError ''Internal error while creating component (GetUserId).'') (current_user env)) (\<lambda>user.
     let c = c\<lparr>compMeta := (compMeta c)\<lparr>CreatedBy := user, UpdatedBy := user\<rparr>\<rparr>;
         failed = (\<lambda>_. ComponentHandlerError ''Internal error while creating component.'')
     in bindH (wrapH failed (ListComponents env db cd (no_component_filter\<lparr>cfCCRN := [compCCRN c]\<rparr>) (Some NewListOptions))) (\<lambda>l.
        if elElements l \<noteq> [] then failH (ComponentHandlerError (''Duplicated entry '' @ compCCRN c @ '' for ccrn.''))
        else
          bindH (wrapH failed (writeH (\<lambda>d. ed_create db d c))) (\<lambda>new.
          bindH (pushH (CreateComponentEvent new)) (\<lambda>_. returnH new))))"

definition UpdateComponent ::
  "('d, 'z, 'g) app_env \<Rightarrow> 'd component_db \<Rightarrow> (ComponentFilter, Component) entity_codecs \<Rightarrow> Component
   \<Rightarrow> ('d, 'z, 'g, Component) handler" where
  "UpdateComponent env db cd c =
     bindH (wrapH (\<lambda>_. ComponentHandlerError ''Internal error while updating component (GetUserId).'') (current_user env)) (\<lambda>user.
     let c = c\<lparr>compMeta := (compMeta c)\<lparr>UpdatedBy := user\<rparr>\<rparr>
     in bindH (wrapH (\<lambda>_. ComponentHandlerError ''Internal error while updating component.'') (execH (\<lambda>d. ed_update db d c))) (\<lambda>_.
        bindH (wrapH (\<lambda>_. ComponentHandlerError ''Internal error while retrieving updated component.'')
          (ListComponents env db cd (no_component_filter\<lparr>cfId := [compId c]\<rparr>) (Some NewListOptions))) (\<lambda>l.
        bindH (single (ComponentHandlerError ''Multiple components found.'') l) (\<lambda>found.
        bindH (pushH (OtherEvent ''UpdateComponent'')) (\<lambda>_. returnH found)))))"

definition DeleteComponent_handler ::
  "('d, 'z, 'g) app_env \<Rightarrow> 'd component_db \<Rightarrow> id64 \<Rightarrow> ('d, 'z, 'g, unit) handler" where
  "DeleteComponent_handler env db i =
     bindH (wrapH (\<lambda>_. ComponentHandlerError ''Internal error while deleting component (GetUserId).'') (current_user env)) (\<lambda>user.
     bindH (wrapH (\<lambda>_. ComponentHandlerError ''Internal error while deleting component.'') (execH (\<lambda>d. ed_delete db d i user))) (\<lambda>_.
       pushH (DeleteComponentEvent i)))"

definition ListComponentCcrns ::
  "('d, 'z, 'g) app_env \<Rightarrow> 'd component_db \<Rightarrow> (ComponentFilter, Component) entity_codecs \<Rightarrow> ComponentFilter
   \<Rightarrow> ('d, 'z, 'g, string list) handler" where
  "ListComponentCcrns env db cd f =
     bindH (wrapH (\<lambda>_. ComponentHandlerError ''Internal error while retrieving componentCcrns.'')
       (cachedH env (ec_strings cd) (ec_key cd ''GetComponentCcrns'' f None) (\<lambda>d. cdb_ccrns db d f)))
       (\<lambda>vs. bindH (pushH (OtherEvent ''ListComponentCcrns'')) (\<lambda>_. returnH vs))"

definition GetComponentVulnerabilityCounts ::
  "'d component_db \<Rightarrow> ComponentFilter \<Rightarrow> ('d, 'z, 'g, IssueSeverityCounts list) handler" where
  "GetComponentVulnerabilityCounts db f =
     bindH (wrapH (\<lambda>_. ComponentHandlerError ''Internal error while retrieving issue severity counts.'') (readH (\<lambda>d. cdb_vulnerabilities db d f)))
       (\<lambda>vs. bindH (pushH (OtherEvent ''GetComponentIssueSeverityCounts'')) (\<lambda>_. returnH vs))"

text \<open>Batch lookups (\<open>component_handler_batch.go\<close>); the first two also depend on the services asked for.\<close>

definition GetVersionsByComponentIDs where
  "GetVersionsByComponentIDs env c key q componentIDs serviceCCRN =
     cached_by_ids env c key ''GetVersionsByComponentIDs'' q (componentIDs :: id64 list, serviceCCRN :: string list)"

definition GetIssueCountsByComponentIDs where
  "GetIssueCountsByComponentIDs env c key q componentIDs serviceCCRN =
     cached_by_ids env c key ''GetIssueCountsByComponentIDs'' q (componentIDs :: id64 list, serviceCCRN :: string list)"

definition GetVulnerabilitiesByComponentIDs where
  "GetVulnerabilitiesByComponentIDs env c key q componentIDs =
     cached_by_ids env c key ''GetVulnerabilitiesByComponentIDs'' q (componentIDs :: id64 list)"

definition GetVulnerabilityCountsByComponentIDs where
  "GetVulnerabilityCountsByComponentIDs env c key q componentIDs =
     cached_by_ids env c key ''GetVulnerabilityCountsByComponentIDs'' q (componentIDs :: id64 list)"

section \<open>Component versions\<close>

record ComponentVersionFilter =
  vfPage :: Paginated
  vfId :: "id64 list"
  vfIssueId :: "id64 list"
  vfComponentCCRN :: "string list"
  vfComponentId :: "id64 list"
  vfIssueRepositoryId :: "id64 list"
  vfVersion :: "string list"
  vfServiceId :: "id64 list"
  vfServiceCCRN :: "string list"
  vfState :: "StateFilterType list"
  vfTag :: "string list"
  vfRepository :: "string list"
  vfOrganization :: "string list"
  vfEndOfLife :: "bool list"

definition no_version_filter :: ComponentVersionFilter where
  "no_version_filter = \<lparr>vfPage = \<lparr>First = None, PAfter = None\<rparr>, vfId = [], vfIssueId = [], vfComponentCCRN = [],
     vfComponentId = [], vfIssueRepositoryId = [], vfVersion = [], vfServiceId = [], vfServiceCCRN = [], vfState = [],
     vfTag = [], vfRepository = [], vfOrganization = [], vfEndOfLife = []\<rparr>"

type_synonym 'd version_db = "('d, ComponentVersionFilter, ComponentVersion) entity_db"
type_synonym version_codecs = "(ComponentVersionFilter, ComponentVersion) entity_codecs"

definition ComponentVersionHandlerError :: "string \<Rightarrow> goerr" where
  "ComponentVersionHandlerError msg = ErrVal ''ComponentVersionHandlerError'' msg"

definition ListComponentVersions ::
  "('d, 'z, 'g) app_env \<Rightarrow> 'd version_db \<Rightarrow> version_codecs \<Rightarrow> ComponentVersionFilter \<Rightarrow> ListOptions
   \<Rightarrow> ('d, 'z, 'g, ComponentVersion entity_list) handler" where
  "ListComponentVersions env db cd f0 options =
     (let internal = internal_error ''componentVersionHandler.ListComponentVersions'' ''ComponentVersions'' [];
          f1 = f0\<lparr>vfPage := EnsurePaginated (vfPage f0)\<rparr>
      in bindH (restricted env internal TypeComponent (vfComponentId f1)) (\<lambda>ids.
         let f = f1\<lparr>vfComponentId := ids\<rparr>; ord = loOrder options
         in bindH (wrapH internal (cachedH env (ec_rows cd) (ec_key cd ''GetComponentVersions'' f (Some ord)) (\<lambda>d. ed_get db d f ord))) (\<lambda>res.
            bindH (list_pages options (vfPage f) res
              (wrapH internal (cachedH env (ec_strings cd) (ec_key cd ''GetAllComponentVersionCursors'' f (Some ord)) (\<lambda>d. ed_cursors db d f ord)))
              (wrapH internal (cachedH env (ec_count cd) (ec_key cd ''CountComponentVersions'' f None) (\<lambda>d. ed_count db d f)))) (\<lambda>l.
            bindH (pushH (OtherEvent ''ListComponentVersions'')) (\<lambda>_. returnH l)))))"

definition CreateComponentVersion ::
  "('d, 'z, 'g) app_env \<Rightarrow> 'd version_db \<Rightarrow> ComponentVersion \<Rightarrow> ('d, 'z, 'g, ComponentVersion) handler" where
  "CreateComponentVersion env db cv =
     bindH (wrapH (\<lambda>_. ComponentVersionHandlerError ''Internal error while creating componentVersion (GetUserId).'') (current_user env)) (\<lambda>user.
     let cv = cv\<lparr>cvMeta := (cvMeta cv)\<lparr>CreatedBy := user, UpdatedBy := user\<rparr>\<rparr>
     in bindH (wrapH (\<lambda>e. if is_duplicate e then ComponentVersionHandlerError ''Entry already Exists''
                          else ComponentVersionHandlerError ''Internal error while creating componentVersion.'')
          (writeH (\<lambda>d. ed_create db d cv))) (\<lambda>new.
        bindH (pushH (CreateComponentVersionEvent new)) (\<lambda>_. returnH new)))"

definition UpdateComponentVersion ::
  "('d, 'z, 'g) app_env \<Rightarrow> 'd version_db \<Rightarrow> version_codecs \<Rightarrow> ComponentVersion \<Rightarrow> ('d, 'z, 'g, ComponentVersion) handler" where
  "UpdateComponentVersion env db cd cv =
     bindH (wrapH (\<lambda>_. ComponentVersionHandlerError ''Internal error while updating componentVersion (GetUserId).'') (current_user env)) (\<lambda>user.
     let cv = cv\<lparr>cvMeta := (cvMeta cv)\<lparr>UpdatedBy := user\<rparr>\<rparr>
     in bindH (wrapH (\<lambda>_. ComponentVersionHandlerError ''Internal error while updating componentVersion.'') (execH (\<lambda>d. ed_update db d cv))) (\<lambda>_.
        bindH (wrapH (\<lambda>_. ComponentVersionHandlerError ''Internal error while retrieving updated componentVersion.'')
          (ListComponentVersions env db cd (no_version_filter\<lparr>vfId := [cvId cv]\<rparr>) NewListOptions)) (\<lambda>l.
        bindH (single (ComponentVersionHandlerError ''Multiple componentVersions found.'') l) (\<lambda>found.
        bindH (pushH (UpdateComponentVersionEvent cv)) (\<lambda>_. returnH found)))))"

definition DeleteComponentVersion_handler ::
  "('d, 'z, 'g) app_env \<Rightarrow> 'd version_db \<Rightarrow> id64 \<Rightarrow> ('d, 'z, 'g, unit) handler" where
  "DeleteComponentVersion_handler env db i =
     bindH (wrapH (\<lambda>_. ComponentVersionHandlerError ''Internal error while deleting componentVersion (GetUserId).'') (current_user env)) (\<lambda>user.
     bindH (wrapH (\<lambda>_. ComponentVersionHandlerError ''Internal error while deleting componentVersion.'') (execH (\<lambda>d. ed_delete db d i user))) (\<lambda>_.
       pushH (DeleteComponentVersionEvent i)))"

section \<open>Component instances\<close>

record ComponentInstanceFilter =
  nfPage :: Paginated
  nfIssueMatchId :: "id64 list"
  nfServiceId :: "id64 list"
  nfServiceCcrn :: "string list"
  nfComponentVersionId :: "id64 list"
  nfComponentVersionVersion :: "string list"
  nfId :: "id64 list"
  nfCCRN :: "string list"
  nfRegion :: "string list"
  nfCluster :: "string list"
  nfNamespace :: "string list"
  nfDomain :: "string list"
  nfProject :: "string list"
  nfPod :: "string list"
  nfContainer :: "string list"
  nfType :: "string list"
  nfParentId :: "id64 list"
  nfContext :: "json list"
  nfSearch :: "string list"
  nfState :: "StateFilterType list"

definition no_instance_filter :: ComponentInstanceFilter where
  "no_instance_filter = \<lparr>nfPage = \<lparr>First = None, PAfter = None\<rparr>, nfIssueMatchId = [], nfServiceId = [], nfServiceCcrn = [],
     nfComponentVersionId = [], nfComponentVersionVersion = [], nfId = [], nfCCRN = [], nfRegion = [], nfCluster = [],
     nfNamespace = [], nfDomain = [], nfProject = [], nfPod = [], nfContainer = [], nfType = [], nfParentId = [],
     nfContext = [], nfSearch = [], nfState = []\<rparr>"

record 'd instance_db = "('d, ComponentInstanceFilter, ComponentInstance) entity_db" +
  ndb_track :: "'d \<Rightarrow> id64 \<Rightarrow> string \<Rightarrow> goerr option \<times> 'd"
  ndb_attribute :: "string \<Rightarrow> 'd \<Rightarrow> ComponentInstanceFilter \<Rightarrow> goerr + string list"

type_synonym instance_codecs = "(ComponentInstanceFilter, ComponentInstance) entity_codecs"

definition validateParentIdForType :: "id64 \<Rightarrow> string \<Rightarrow> goerr option" where
  "validateParentIdForType parentId typeStr =
     (if parentId \<noteq> 0 \<and> parentId \<noteq> - 1 then
        (if typeStr \<noteq> ''RecordSet'' \<and> typeStr \<noteq> ''User'' \<and> typeStr \<noteq> ''SecurityGroupRule'' then
           Some (ErrVal ''fmt'' (''ParentId can only be set for component instances of type '' @ [CHR 0x27] @ ''RecordSet'' @ [CHR 0x27]
             @ '', '' @ [CHR 0x27] @ ''User'' @ [CHR 0x27] @ '' or '' @ [CHR 0x27] @ ''SecurityGroupRule'' @ [CHR 0x27]
             @ '', but got type '' @ [CHR 0x27] @ typeStr @ [CHR 0x27]))
         else None)
      else None)"

definition ListComponentInstances ::
  "('d, 'z, 'g) app_env \<Rightarrow> 'd instance_db \<Rightarrow> instance_codecs \<Rightarrow> ComponentInstanceFilter \<Rightarrow> ListOptions
   \<Rightarrow> ('d, 'z, 'g, ComponentInstance entity_list) handler" where
  "ListComponentInstances env db cd f0 options =
     (let opn = ''componentInstanceHandler.ListComponentInstances'';
          internal = internal_error opn ''ComponentInstances'' [];
          f1 = f0\<lparr>nfPage := EnsurePaginated (nfPage f0)\<rparr>
      in bindH (restricted env internal TypeService (nfServiceId f1)) (\<lambda>ids.
         let f = f1\<lparr>nfServiceId := ids\<rparr>; ord = loOrder options
         in bindH (wrapH internal (cachedH env (ec_rows cd) (ec_key cd ''GetComponentInstances'' f (Some ord)) (\<lambda>d. ed_get db d f ord))) (\<lambda>res.
            bindH (list_pages options (nfPage f) res
              (wrapH (internal_error opn ''ComponentInstanceCursors'' [])
                (cachedH env (ec_strings cd) (ec_key cd ''GetAllComponentInstanceCursors'' f (Some ord)) (\<lambda>d. ed_cursors db d f ord)))
              (wrapH (internal_error opn ''ComponentInstanceCount'' [])
                (cachedH env (ec_count cd) (ec_key cd ''CountComponentInstances'' f None) (\<lambda>d. ed_count db d f)))) (\<lambda>l.
            bindH (pushH (OtherEvent ''ListComponentInstances'')) (\<lambda>_. returnH l)))))"

definition ci_error :: "string \<Rightarrow> string \<Rightarrow> goerr" where
  "ci_error opn msg = AppErr (E [OpArg opn, StrArg ''ComponentInstance'', CodeArg InvalidArgument, StrArg msg])"

text \<open>The run that saw the instance is recorded; a failure is only logged.\<close>

definition track_run :: "'d instance_db \<Rightarrow> id64 \<Rightarrow> string option \<Rightarrow> ('d, 'z, 'g, unit) handler" where
  "track_run db i scanned s =
     (case scanned of
        None \<Rightarrow> (Inr (), s)
      | Some uuid \<Rightarrow> (Inr (), s\<lparr>as_db := snd (ndb_track db (as_db s) i uuid)\<rparr>))"

definition CreateComponentInstance ::
  "('d, 'z, 'g) app_env \<Rightarrow> 'd instance_db \<Rightarrow> ComponentInstance option \<Rightarrow> string option
   \<Rightarrow> ('d, 'z, 'g, ComponentInstance) handler" where
  "CreateComponentInstance env db ci0 scanned =
     (let opn = ''componentInstanceHandler.CreateComponentInstance'';
          internal = internal_error opn ''ComponentInstance'' []
      in case ci0 of
           None \<Rightarrow> failH (ci_error opn ''component instance cannot be nil'')
         | Some ci \<Rightarrow>
           if ciCCRN ci = [] then failH (ci_error opn ''CCRN is required'')
           else if ciServiceId ci \<le> 0 then failH (ci_error opn ''valid service ID is required'')
           else case validateParentIdForType (ciParentId ci) (ciType ci) of
             Some e \<Rightarrow> failH (ci_error opn (error_text e))
           | None \<Rightarrow>
             bindH (wrapH internal (current_user env)) (\<lambda>user.
             let ci = ci\<lparr>ciMeta := (ciMeta ci)\<lparr>CreatedBy := user, UpdatedBy := user\<rparr>\<rparr>
             in bindH (wrapH (\<lambda>e. if is_duplicate e then AppErr (AlreadyExistsError opn ''ComponentInstance'' (ciCCRN ci)) else internal e)
                  (writeH (\<lambda>d. ed_create db d ci))) (\<lambda>new.
                bindH (track_run db (ciId new) scanned) (\<lambda>_.
                bindH (pushH (CreateComponentInstanceEvent new)) (\<lambda>_. returnH new)))))"

definition UpdateComponentInstance ::
  "('d, 'z, 'g) app_env \<Rightarrow> 'd instance_db \<Rightarrow> instance_codecs \<Rightarrow> ComponentInstance option \<Rightarrow> string option
   \<Rightarrow> ('d, 'z, 'g, ComponentInstance) handler" where
  "UpdateComponentInstance env db cd ci0 scanned =
     (let opn = ''componentInstanceHandler.UpdateComponentInstance''
      in case ci0 of
           None \<Rightarrow> failH (ci_error opn ''component instance cannot be nil'')
         | Some ci \<Rightarrow>
           if ciId ci \<le> 0 then failH (ci_error opn (''invalid ID: '' @ FormatInt (ciId ci)))
           else case validateParentIdForType (ciParentId ci) (ciType ci) of
             Some e \<Rightarrow> failH (AppErr (E [OpArg opn, StrArg ''ComponentInstance'', StrArg (FormatInt (ciId ci)),
                 CodeArg InvalidArgument, StrArg (error_text e)]))
           | None \<Rightarrow>
             (let sid = FormatInt (ciId ci); internal = internal_error opn ''ComponentInstance'' sid
              in bindH (wrapH internal (current_user env)) (\<lambda>user.
                 let ci = ci\<lparr>ciMeta := (ciMeta ci)\<lparr>UpdatedBy := user\<rparr>\<rparr>
                 in bindH (wrapH internal (execH (\<lambda>d. ed_update db d ci))) (\<lambda>_.
                    bindH (track_run db (ciId ci) scanned) (\<lambda>_.
                    bindH (wrapH (\<lambda>e. AppErr (E [OpArg opn, StrArg ''ComponentInstance'', StrArg sid, CodeArg Internal, ErrArg (Some e)]))
                      (ListComponentInstances env db cd (no_instance_filter\<lparr>nfId := [ciId ci]\<rparr>) NewListOptions)) (\<lambda>l.
                    bindH (single (AppErr (E [OpArg opn, StrArg ''ComponentInstance'', StrArg sid, CodeArg Internal,
                        StrArg (''unexpected number of component instances found after update: expected 1, got ''
                          @ FormatInt (int (length (elElements l))))])) l) (\<lambda>updated.
                    bindH (pushH (UpdateComponentInstanceEvent updated)) (\<lambda>_. returnH updated))))))))"

definition DeleteComponentInstance_handler ::
  "('d, 'z, 'g) app_env \<Rightarrow> 'd instance_db \<Rightarrow> id64 \<Rightarrow> ('d, 'z, 'g, unit) handler" where
  "DeleteComponentInstance_handler env db i =
     (let opn = ''componentInstanceHandler.DeleteComponentInstance'';
          internal = internal_error opn ''ComponentInstance'' (FormatInt i)
      in if i \<le> 0 then failH (ci_error opn (''invalid ID: '' @ FormatInt i))
         else bindH (wrapH internal (current_user env)) (\<lambda>user.
              bindH (wrapH internal (execH (\<lambda>d. ed_delete db d i user))) (\<lambda>_. pushH (DeleteComponentInstanceEvent i))))"

text \<open>The values of one column of the instances that a filter selects.\<close>

definition list_column ::
  "'d instance_db \<Rightarrow> string \<Rightarrow> string \<Rightarrow> string \<Rightarrow> string \<Rightarrow> ComponentInstanceFilter \<Rightarrow> ('d, 'z, 'g, string list) handler" where
  "list_column db opn entity fn evt f =
     bindH (wrapH (internal_error opn entity []) (readH (\<lambda>d. ndb_attribute db fn d f)))
       (\<lambda>vs. bindH (pushH (OtherEvent evt)) (\<lambda>_. returnH vs))"

definition ListRegions where "ListRegions db = list_column db ''componentInstanceHandler.ListRegions'' ''ComponentInstanceRegions'' ''GetRegion'' ''ListRegions''"
definition ListCcrns where "ListCcrns db = list_column db ''componentInstanceHandler.ListCcrns'' ''ComponentInstanceCcrns'' ''GetCcrn'' ''ListCcrn''"
definition ListClusters where "ListClusters db = list_column db ''componentInstanceHandler.ListClusters'' ''ComponentInstanceClusters'' ''GetCluster'' ''ListClusters''"
definition ListNamespaces where "ListNamespaces db = list_column db ''componentInstanceHandler.ListNamespaces'' ''ComponentInstanceNamespaces'' ''GetNamespace'' ''ListNamespaces''"
definition ListDomains where "ListDomains db = list_column db ''componentInstanceHandler.ListDomains'' ''ComponentInstanceDomains'' ''GetDomain'' ''ListDomains''"
definition ListProjects where "ListProjects db = list_column db ''componentInstanceHandler.ListProjects'' ''ComponentInstanceProjects'' ''GetProject'' ''ListProjects''"
definition ListPods where "ListPods db = list_column db ''componentInstanceHandler.ListPods'' ''ComponentInstancePods'' ''GetPod'' ''ListPods''"
definition ListContainers where "ListContainers db = list_column db ''componentInstanceHandler.ListContainers'' ''ComponentInstanceContainers'' ''GetContainer'' ''ListContainers''"
definition ListTypes where "ListTypes db = list_column db ''componentInstanceHandler.ListTypes'' ''ComponentInstanceTypes'' ''GetType'' ''ListTypes''"
definition ListParents where "ListParents db = list_column db ''componentInstanceHandler.ListParents'' ''ComponentInstanceParents'' ''GetComponentInstanceParent'' ''ListParents''"
definition ListContexts where "ListContexts db = list_column db ''componentInstanceHandler.ListContexts'' ''ComponentInstanceContexts'' ''GetContext'' ''ListContexts''"

section \<open>Lemmas\<close>

lemma component_reads [reading]:
  "only_reads (ListComponents env db cd f co)" "only_reads (ListComponentVersions env vdb vcd vf options)"
  "only_reads (ListComponentInstances env idb icd nf options)"
  by (simp_all add: ListComponents_def ListComponentVersions_def ListComponentInstances_def Let_def reading)

lemma track_run_value:
  "track_run db i scanned s =
     (Inr (), s\<lparr>as_db := (case scanned of None \<Rightarrow> as_db s | Some uuid \<Rightarrow> snd (ndb_track db (as_db s) i uuid))\<rparr>)"
  by (simp add: track_run_def split: option.split)

text \<open>When an instance is accepted, and the text that refuses it.\<close>

definition valid_instance :: "ComponentInstance \<Rightarrow> bool" where
  "valid_instance ci \<longleftrightarrow> ciCCRN ci \<noteq> [] \<and> 0 < ciServiceId ci
     \<and> (ciParentId ci \<in> {0, - 1} \<or> ciType ci \<in> {''RecordSet'', ''User'', ''SecurityGroupRule''})"

lemma parent_valid: "validateParentIdForType p t = None \<longleftrightarrow> p \<in> {0, - 1} \<or> t \<in> {''RecordSet'', ''User'', ''SecurityGroupRule''}"
  by (auto simp: validateParentIdForType_def)

lemma parent_text: "validateParentIdForType p t = Some e \<Longrightarrow> error_text e \<noteq> []"
  by (auto simp: validateParentIdForType_def split: if_splits)

lemma ci_error_text:
  "msg \<noteq> [] \<Longrightarrow> ci_error opn msg = AppErr (AppError InvalidArgument ''ComponentInstance'' msg opn [] None Map.empty)"
  by (simp add: ci_error_def E_def)

lemma create_invalid:
  assumes "\<not> valid_instance ci"
  shows "\<exists>msg. msg \<noteq> [] \<and> CreateComponentInstance env db (Some ci) scanned s =
    (Inl (Failed (ci_error ''componentInstanceHandler.CreateComponentInstance'' msg)), s)"
proof (cases "ciCCRN ci = [] \<or> ciServiceId ci \<le> 0")
  case True
  then show ?thesis by (auto simp: CreateComponentInstance_def Let_def)
next
  case False
  with assms obtain e where e: "validateParentIdForType (ciParentId ci) (ciType ci) = Some e"
    using parent_valid by (fastforce simp: valid_instance_def)
  with False parent_text [OF e] show ?thesis
    by (auto simp: CreateComponentInstance_def Let_def)
qed

section \<open>Properties\<close>

text \<open>
  With a database that answers, a component instance is created exactly when it has a CCRN, a
  service with a positive id, and a parent only if its type allows one: then it is stored with the
  user in its audit fields, linked to the scanner run if one is named (whether or not that works),
  and its event is pushed. Otherwise nothing changes and the code is \<open>InvalidArgument\<close>, with the
  explanation in the field of the entity's id.
\<close>

theorem CreateComponentInstance_accepts:
  assumes "GetCurrentUserId (ae_ctx env) (ae_users env (as_db s)) = Inr user"
    and "ed_create db (as_db s) (ci\<lparr>ciMeta := (ciMeta ci)\<lparr>CreatedBy := user, UpdatedBy := user\<rparr>\<rparr>) = (Inr new, d)"
  shows "(valid_instance ci \<longrightarrow> CreateComponentInstance env db (Some ci) scanned s =
        (Inr new, s\<lparr>as_db := (case scanned of None \<Rightarrow> d | Some uuid \<Rightarrow> snd (ndb_track db d (ciId new) uuid)),
           as_events := as_events s @ [CreateComponentInstanceEvent new]\<rparr>))
    \<and> (\<not> valid_instance ci \<longrightarrow> (\<exists>msg. msg \<noteq> [] \<and> CreateComponentInstance env db (Some ci) scanned s =
        (Inl (Failed (AppErr (AppError InvalidArgument ''ComponentInstance'' msg
           ''componentInstanceHandler.CreateComponentInstance'' [] None Map.empty))), s)))"
proof (intro conjI impI)
  assume v: "valid_instance ci"
  then have p: "validateParentIdForType (ciParentId ci) (ciType ci) = None"
    using parent_valid by (auto simp: valid_instance_def)
  have t: "bindH (track_run db i scanned) f s' = f () (s'\<lparr>as_db := (case scanned of None \<Rightarrow> as_db s'
      | Some uuid \<Rightarrow> snd (ndb_track db (as_db s') i uuid))\<rparr>)" for i f s'
    by (rule bind_value) (rule track_run_value)
  show "CreateComponentInstance env db (Some ci) scanned s =
        (Inr new, s\<lparr>as_db := (case scanned of None \<Rightarrow> d | Some uuid \<Rightarrow> snd (ndb_track db d (ciId new) uuid)),
           as_events := as_events s @ [CreateComponentInstanceEvent new]\<rparr>)"
    using v by (simp add: CreateComponentInstance_def Let_def valid_instance_def p run_user assms(1) run_create [OF assms(2)] t split: option.split)
next
  assume "\<not> valid_instance ci"
  from create_invalid [OF this] show "\<exists>msg. msg \<noteq> [] \<and> CreateComponentInstance env db (Some ci) scanned s =
        (Inl (Failed (AppErr (AppError InvalidArgument ''ComponentInstance'' msg
           ''componentInstanceHandler.CreateComponentInstance'' [] None Map.empty))), s)"
    by (metis ci_error_text)
qed

section \<open>Examples\<close>

text \<open>Instances as rows with the scanner runs they are linked to; linking can be made to fail.\<close>

record instance_rows =
  ir_instances :: "ComponentInstance list"
  ir_runs :: "(id64 \<times> string) list"

definition sample_instance_db :: "instance_rows instance_db" where
  "sample_instance_db =
     \<lparr>ed_get = (\<lambda>d f ord. Inr (map (\<lambda>c. (FormatInt (ciId c), c)) (filter (\<lambda>c. nfId f = [] \<or> ciId c \<in> set (nfId f)) (ir_instances d)))),
      ed_cursors = (\<lambda>d f ord. Inr []), ed_count = (\<lambda>d f. Inr (int (length (ir_instances d)))),
      ed_create = (\<lambda>d c. (Inr (c\<lparr>ciId := int (length (ir_instances d)) + 1\<rparr>),
          d\<lparr>ir_instances := ir_instances d @ [c\<lparr>ciId := int (length (ir_instances d)) + 1\<rparr>]\<rparr>)),
      ed_update = (\<lambda>d c. (None, d\<lparr>ir_instances := map (\<lambda>x. if ciId x = ciId c then c else x) (ir_instances d)\<rparr>)),
      ed_delete = (\<lambda>d i u. (None, d\<lparr>ir_instances := filter (\<lambda>x. ciId x \<noteq> i) (ir_instances d)\<rparr>)),
      ndb_track = (\<lambda>d i uuid. (None, d\<lparr>ir_runs := ir_runs d @ [(i, uuid)]\<rparr>)), ndb_attribute = (\<lambda>n d f. Inr [])\<rparr>"

definition sample_instance :: "string \<Rightarrow> id64 \<Rightarrow> ComponentInstance" where
  "sample_instance ty parent = \<lparr>ciMeta = zero_metadata, ciId = 0, ciCCRN = ''pod-1'', ciRegion = [], ciCluster = [],
     ciNamespace = [], ciDomain = [], ciProject = [], ciPod = [], ciContainer = [], ciType = ty, ciParentId = parent,
     ciContext = None, ciCount = 1, ciComponentVersionId = 3, ciServiceId = 2\<rparr>"

theorem CreateComponentInstance_accepts_witness:
  "(\<exists>new. CreateComponentInstance example_env sample_instance_db (Some (sample_instance ''User'' 7)) (Some ''u'') (example_app \<lparr>ir_instances = [], ir_runs = []\<rparr> []) =
      (Inr new, (example_app \<lparr>ir_instances = [], ir_runs = []\<rparr> [])\<lparr>as_db := \<lparr>ir_instances = [new], ir_runs = [(1, ''u'')]\<rparr>, as_events := [CreateComponentInstanceEvent new]\<rparr>))
    \<and> (\<exists>e. CreateComponentInstance example_env sample_instance_db (Some (sample_instance ''Pod'' 7)) (Some ''u'') (example_app \<lparr>ir_instances = [], ir_runs = []\<rparr> []) = (Inl e, (example_app \<lparr>ir_instances = [], ir_runs = []\<rparr> [])))"
proof -
  have ok: "valid_instance (sample_instance ''User'' 7)" and bad: "\<not> valid_instance (sample_instance ''Pod'' 7)"
    by (simp_all add: valid_instance_def sample_instance_def)
  let ?created = "\<lambda>ci. ci\<lparr>ciMeta := (ciMeta ci)\<lparr>CreatedBy := 1, UpdatedBy := 1\<rparr>\<rparr>"
  have c: "ed_create sample_instance_db (as_db (example_app \<lparr>ir_instances = [], ir_runs = []\<rparr> [])) (?created ci) =
      (Inr ((?created ci)\<lparr>ciId := 1\<rparr>), \<lparr>ir_instances = [(?created ci)\<lparr>ciId := 1\<rparr>], ir_runs = []\<rparr>)" for ci
    by (simp add: sample_instance_db_def)
  have t: "snd (ndb_track sample_instance_db \<lparr>ir_instances = cs, ir_runs = []\<rparr> 1 u) = \<lparr>ir_instances = cs, ir_runs = [(1, u)]\<rparr>" for cs u
    by (simp add: sample_instance_db_def)
  have e: "as_events (example_app \<lparr>ir_instances = [], ir_runs = []\<rparr> []) = []" by simp
  show ?thesis
    using CreateComponentInstance_accepts [OF example_env_user c, of "sample_instance ''User'' 7" "Some ''u''"] ok
      CreateComponentInstance_accepts [OF example_env_user c, of "sample_instance ''Pod'' 7" "Some ''u''"] bad
    by (fastforce simp: t e)
qed

end
