(* ===== verification/Issue_Handlers.thy ===== *)
theory Issue_Handlers
  imports Handler_Base Filter_Query
begin

text \<open>
  The handler of issues (\<open>internal/app/issue/issue_handler.go\<close>) and its batch lookups
  (\<open>issue_handler_batch.go\<close>): lists with page information and type counts, reading one issue,
  creation, update, deletion, links to component versions, names and severity counts.
\<close>

section \<open>Issues\<close>

record IssueFilter =
  ifPage :: Paginated
  ifPrimaryName :: "string option list"
  ifServiceCCRN :: "string list"
  ifAllServices :: bool
  ifHasIssueMatches :: bool
  ifSupportGroupCCRN :: "string list"
  ifType :: "string list"
  ifId :: "id64 list"
  ifIssueMatchId :: "id64 list"
  ifComponentId :: "id64 list"
  ifComponentVersionId :: "id64 list"
  ifIssueVariantId :: "id64 list"
  ifIssueRepositoryId :: "id64 list"
  ifServiceId :: "id64 list"
  ifSearch :: "string list"
  ifIssueMatchStatus :: "string list"
  ifIssueMatchSeverity :: "string list"
  ifMvSeverity :: "string list"
  ifIssueMatchDiscoveryDate :: "(gotime \<times> gotime) option"
  ifIssueMatchTargetRemediationDate :: "(gotime \<times> gotime) option"
  ifUnique :: bool
  ifUseMvVulnerabilityList :: bool
  ifStatus :: int
  ifState :: "StateFilterType list"

definition no_issue_filter :: IssueFilter where
  "no_issue_filter = \<lparr>ifPage = \<lparr>First = None, PAfter = None\<rparr>, ifPrimaryName = [], ifServiceCCRN = [], ifAllServices = False,
     ifHasIssueMatches = False, ifSupportGroupCCRN = [], ifType = [], ifId = [], ifIssueMatchId = [], ifComponentId = [],
     ifComponentVersionId = [], ifIssueVariantId = [], ifIssueRepositoryId = [], ifServiceId = [], ifSearch = [],
     ifIssueMatchStatus = [], ifIssueMatchSeverity = [], ifMvSeverity = [], ifIssueMatchDiscoveryDate = None,
     ifIssueMatchTargetRemediationDate = None, ifUnique = False, ifUseMvVulnerabilityList = False, ifStatus = 0, ifState = []\<rparr>"

record IssueListOptions = ListOptions +
  ShowIssueTypeCounts :: bool

definition new_issue_options :: IssueListOptions where
  "new_issue_options = \<lparr>ShowTotalCount = False, ShowPageInfo = False, IncludeAggregations = False, loOrder = [],
     ShowIssueTypeCounts = False\<rparr>"

definition ensureIssueListOptions :: "IssueListOptions option \<Rightarrow> IssueListOptions" where
  "ensureIssueListOptions options = (case options of None \<Rightarrow> new_issue_options | Some l \<Rightarrow> l)"

record IssueTypeCounts =
  VulnerabilityCount :: int
  PolicyViolationCount :: int
  SecurityEventCount :: int

definition TotalIssueCount :: "IssueTypeCounts \<Rightarrow> int" where
  "TotalIssueCount c = VulnerabilityCount c + PolicyViolationCount c + SecurityEventCount c"

record IssueList =
  ilTotalCount :: "int option"
  ilPageInfo :: "PageInfo option"
  ilElements :: "(string \<times> Issue) list"
  ilTypeCounts :: "IssueTypeCounts option"

record 'd issue_db = "('d, IssueFilter, Issue) entity_db" +
  isdb_get_aggregated :: "'d \<Rightarrow> IssueFilter \<Rightarrow> entity_order list \<Rightarrow> goerr + (string \<times> Issue) list"
  isdb_type_counts :: "'d \<Rightarrow> IssueFilter \<Rightarrow> goerr + IssueTypeCounts"
  isdb_ratings :: "'d \<Rightarrow> IssueFilter \<Rightarrow> goerr + IssueSeverityCounts"
  isdb_names :: "'d \<Rightarrow> IssueFilter \<Rightarrow> goerr + string list"
  isdb_add_version :: "'d \<Rightarrow> id64 \<Rightarrow> id64 \<Rightarrow> goerr option \<times> 'd"
  isdb_remove_version :: "'d \<Rightarrow> id64 \<Rightarrow> id64 \<Rightarrow> goerr option \<times> 'd"

record issue_codecs = "(IssueFilter, Issue) entity_codecs" +
  isc_type_counts :: "IssueTypeCounts codec"
  isc_ratings :: "IssueSeverityCounts codec"

definition ListIssues ::
  "('d, 'z, 'g) app_env \<Rightarrow> 'd issue_db \<Rightarrow> issue_codecs \<Rightarrow> IssueFilter \<Rightarrow> IssueListOptions option
   \<Rightarrow> ('d, 'z, 'g, IssueList) handler" where
  "ListIssues env db cd f0 options0 =
     (let opn = ''issueHandler.ListIssues'';
          f = f0\<lparr>ifPage := EnsurePaginated (ifPage f0)\<rparr>;
          options = ensureIssueListOptions options0;
          ord = loOrder options
      in bindH (wrapH (internal_error opn ''Issues'' [])
           (if IncludeAggregations options
            then cachedH env (ec_rows cd) (ec_key cd ''GetIssuesWithAggregations'' f (Some ord)) (\<lambda>d. isdb_get_aggregated db d f ord)
            else cachedH env (ec_rows cd) (ec_key cd ''GetIssues'' f (Some ord)) (\<lambda>d. ed_get db d f ord))) (\<lambda>res.
         bindH (if ShowPageInfo options \<and> res \<noteq> [] then
             bindH (wrapH (internal_error opn ''IssueCursors'' [])
               (cachedH env (ec_strings cd) (ec_key cd ''GetAllIssueCursors'' f (Some ord)) (\<lambda>d. ed_cursors db d f ord))) (\<lambda>cs.
             bindH (goH (GetPageInfo (map fst res) cs (the (First (ifPage f))) (PAfter (ifPage f)))) (\<lambda>info. returnH (Some info)))
           else returnH None) (\<lambda>info.
         bindH (if ShowPageInfo options \<or> ShowTotalCount options \<or> ShowIssueTypeCounts options then
             bindH (wrapH (internal_error opn ''IssueTypeCounts'' [])
               (cachedH env (isc_type_counts cd) (ec_key cd ''CountIssueTypes'' f None) (\<lambda>d. isdb_type_counts db d f))) (\<lambda>c. returnH (Some c))
           else returnH None) (\<lambda>counts.
         let l = \<lparr>ilTotalCount = map_option TotalIssueCount counts, ilPageInfo = info, ilElements = res, ilTypeCounts = counts\<rparr>
         in bindH (pushH (OtherEvent ''ListIssues'')) (\<lambda>_. returnH l)))))"

definition issue_error :: "string \<Rightarrow> id64 \<Rightarrow> goerr \<Rightarrow> goerr" where
  "issue_error opn i e = AppErr (E [OpArg opn, StrArg ''Issue'', StrArg (FormatInt i), CodeArg Internal, ErrArg (Some e)])"

definition GetIssue ::
  "('d, 'z, 'g) app_env \<Rightarrow> 'd issue_db \<Rightarrow> issue_codecs \<Rightarrow> id64 \<Rightarrow> ('d, 'z, 'g, Issue) handler" where
  "GetIssue env db cd i =
     (let opn = ''issueHandler.GetIssue''
      in if i \<le> 0 then failH (AppErr (E [OpArg opn, StrArg ''Issue'', CodeArg InvalidArgument, StrArg (''invalid ID: '' @ FormatInt i)]))
         else
           bindH (wrapH (issue_error opn i) (ListIssues env db cd (no_issue_filter\<lparr>ifId := [i]\<rparr>) (Some new_issue_options))) (\<lambda>l.
           case ilElements l of
             [] \<Rightarrow> failH (AppErr (E [OpArg opn, StrArg ''Issue'', StrArg (FormatInt i), CodeArg NotFound]))
           | [r] \<Rightarrow> bindH (pushH (OtherEvent ''GetIssue'')) (\<lambda>_. returnH (snd r))
           | rs \<Rightarrow> failH (AppErr (E [OpArg opn, StrArg ''Issue'', StrArg (FormatInt i), CodeArg Internal,
                 StrArg (''found '' @ FormatInt (int (length rs)) @ '' issues with ID '' @ FormatInt i @ '', expected 1'')]))))"

definition CreateIssue ::
  "('d, 'z, 'g) app_env \<Rightarrow> 'd issue_db \<Rightarrow> issue_codecs \<Rightarrow> Issue \<Rightarrow> ('d, 'z, 'g, Issue) handler" where
  "CreateIssue env db cd is0 =
     (let opn = ''issueHandler.CreateIssue''; internal = internal_error opn ''Issue'' []
      in bindH (wrapH internal (current_user env)) (\<lambda>user.
         let is1 = is0\<lparr>isMeta := (isMeta is0)\<lparr>CreatedBy := user, UpdatedBy := user\<rparr>\<rparr>
         in bindH (wrapH internal (ListIssues env db cd (no_issue_filter\<lparr>ifPrimaryName := [Some (isPrimaryName is1)]\<rparr>) (Some new_issue_options))) (\<lambda>l.
            if ilElements l \<noteq> [] then failH (AppErr (AlreadyExistsError opn ''Issue'' (isPrimaryName is1)))
            else
              bindH (wrapH internal (writeH (\<lambda>d. ed_create db d is1))) (\<lambda>new.
              bindH (pushH (OtherEvent ''CreateIssue'')) (\<lambda>_. returnH new)))))"

definition UpdateIssue ::
  "('d, 'z, 'g) app_env \<Rightarrow> 'd issue_db \<Rightarrow> issue_codecs \<Rightarrow> Issue \<Rightarrow> ('d, 'z, 'g, Issue) handler" where
  "UpdateIssue env db cd is0 =
     (let opn = ''issueHandler.UpdateIssue''; sid = FormatInt (isId is0); internal = internal_error opn ''Issue'' sid
      in bindH (wrapH internal (current_user env)) (\<lambda>user.
         let is1 = is0\<lparr>isMeta := (isMeta is0)\<lparr>UpdatedBy := user\<rparr>\<rparr>
         in bindH (wrapH internal (execH (\<lambda>d. ed_update db d is1))) (\<lambda>_.
            bindH (wrapH (issue_error opn (isId is1))
              (ListIssues env db cd (no_issue_filter\<lparr>ifId := [isId is1]\<rparr>) (Some new_issue_options))) (\<lambda>l.
            case ilElements l of
              [r] \<Rightarrow> bindH (pushH (OtherEvent ''UpdateIssue'')) (\<lambda>_. returnH (snd r))
            | _ \<Rightarrow> failH (AppErr (E [OpArg opn, StrArg ''Issue'', StrArg sid, CodeArg Internal,
                  StrArg ''unexpected number of issues found after update'']))))))"

definition DeleteIssue ::
  "('d, 'z, 'g) app_env \<Rightarrow> 'd issue_db \<Rightarrow> id64 \<Rightarrow> ('d, 'z, 'g, unit) handler" where
  "DeleteIssue env db i =
     (let internal = internal_error ''issueHandler.DeleteIssue'' ''Issue'' (FormatInt i)
      in bindH (wrapH internal (current_user env)) (\<lambda>user.
         bindH (wrapH internal (execH (\<lambda>d. ed_delete db d i user))) (\<lambda>_. pushH (OtherEvent ''DeleteIssue''))))"

definition version_link :: "id64 \<Rightarrow> id64 \<Rightarrow> string" where
  "version_link i v = ''issue:'' @ FormatInt i @ ''-componentVersion:'' @ FormatInt v"

definition AddComponentVersionToIssue ::
  "('d, 'z, 'g) app_env \<Rightarrow> 'd issue_db \<Rightarrow> issue_codecs \<Rightarrow> id64 \<Rightarrow> id64 \<Rightarrow> ('d, 'z, 'g, Issue) handler" where
  "AddComponentVersionToIssue env db cd i v =
     (let opn = ''issueHandler.AddComponentVersionToIssue''
      in bindH (wrapH (\<lambda>e. if is_duplicate e then AppErr (AlreadyExistsError opn ''ComponentVersionIssue'' (version_link i v))
                           else internal_error opn ''ComponentVersionIssue'' (version_link i v) e)
           (execH (\<lambda>d. isdb_add_version db d i v))) (\<lambda>_.
         bindH (pushH (AddComponentVersionToIssueEvent i v)) (\<lambda>_.
           wrapH (issue_error opn i) (GetIssue env db cd i))))"

definition RemoveComponentVersionFromIssue ::
  "('d, 'z, 'g) app_env \<Rightarrow> 'd issue_db \<Rightarrow> issue_codecs \<Rightarrow> id64 \<Rightarrow> id64 \<Rightarrow> ('d, 'z, 'g, Issue) handler" where
  "RemoveComponentVersionFromIssue env db cd i v =
     (let opn = ''issueHandler.RemoveComponentVersionFromIssue''
      in bindH (wrapH (internal_error opn ''ComponentVersionIssue'' (version_link i v)) (execH (\<lambda>d. isdb_remove_version db d i v))) (\<lambda>_.
         bindH (pushH (OtherEvent ''RemoveComponentVersionFromIssue'')) (\<lambda>_.
           wrapH (issue_error opn i) (GetIssue env db cd i))))"

definition ListIssueNames ::
  "('d, 'z, 'g) app_env \<Rightarrow> 'd issue_db \<Rightarrow> issue_codecs \<Rightarrow> IssueFilter \<Rightarrow> ('d, 'z, 'g, string list) handler" where
  "ListIssueNames env db cd f =
     bindH (wrapH (internal_error ''issueHandler.ListIssueNames'' ''IssueNames'' [])
       (cachedH env (ec_strings cd) (ec_key cd ''GetIssueNames'' f None) (\<lambda>d. isdb_names db d f)))
       (\<lambda>vs. bindH (pushH (OtherEvent ''ListIssueNames'')) (\<lambda>_. returnH vs))"

definition GetIssueSeverityCounts ::
  "('d, 'z, 'g) app_env \<Rightarrow> 'd issue_db \<Rightarrow> issue_codecs \<Rightarrow> IssueFilter \<Rightarrow> ('d, 'z, 'g, IssueSeverityCounts) handler" where
  "GetIssueSeverityCounts env db cd f =
     bindH (wrapH (internal_error ''issueHandler.GetIssueSeverityCounts'' ''IssueSeverityCounts'' [])
       (cachedH env (isc_ratings cd) (ec_key cd ''CountIssueRatings'' f None) (\<lambda>d. isdb_ratings db d f)))
       (\<lambda>c. bindH (pushH (OtherEvent ''GetIssueSeverityCounts'')) (\<lambda>_. returnH c))"

text \<open>Batch lookups (\<open>issue_handler_batch.go\<close>).\<close>

definition GetMaxSeverityByIssueIDs where
  "GetMaxSeverityByIssueIDs env c key q issueIDs = cached_by_ids env c key ''GetMaxSeverityByIssueIDs'' q (issueIDs :: id64 list)"

definition GetEarliestRemediationByIssueIDs where
  "GetEarliestRemediationByIssueIDs env c key q issueIDs =
     cached_by_ids env c key ''GetEarliestRemediationByIssueIDs'' q (issueIDs :: id64 list)"

definition GetSourceURLsByIssueIDs where
  "GetSourceURLsByIssueIDs env c key q issueIDs = cached_by_ids env c key ''GetSourceURLsByIssueIDs'' q (issueIDs :: id64 list)"

definition GetServicesByIssueIDs where
  "GetServicesByIssueIDs env c key q issueIDs = cached_by_ids env c key ''GetServicesByIssueIDs'' q (issueIDs :: id64 list)"

definition GetSupportGroupsByIssueIDs where
  "GetSupportGroupsByIssueIDs env c key q issueIDs =
     cached_by_ids env c key ''GetSupportGroupsByIssueIDs'' q (issueIDs :: id64 list)"

definition GetVulnerabilityAggregatesByIssueIDs where
  "GetVulnerabilityAggregatesByIssueIDs env c key q issueIDs =
     cached_by_ids env c key ''GetVulnerabilityAggregatesByIssueIDs'' q (issueIDs :: id64 list)"

section \<open>Lemmas\<close>

lemma issue_reads [reading]:
  "only_reads (ListIssues env db cd f options)" "only_reads (GetIssue env db cd i)" "only_reads (ListIssueNames env db cd f)"
  "only_reads (GetIssueSeverityCounts env db cd f)"
  by (auto simp: ListIssues_def GetIssue_def ListIssueNames_def GetIssueSeverityCounts_def Let_def reading split: list.split)

end
