(* ===== verification/Severity_Handlers.thy ===== *)
theory Severity_Handlers
  imports Handler_Base Filter_Query
begin

text \<open>
  From issue repositories over variants and severities to issue matches: the handlers of
  \<open>internal/app/issue_repository\<close>, \<open>issue_variant\<close>, \<open>severity\<close>, \<open>issue_match\<close> and, without changes,
  \<open>patch\<close>. The severity of a new match is that of the best effective variant of its issue. Of the
  library \<open>lo\<close> the function \<open>MaxBy\<close> is a parameter with its documented contract (\<open>max_by\<close>); its
  maps and filters are those of HOL.
\<close>

section \<open>Issue repositories\<close>

record IssueRepositoryFilter =
  yfPage :: Paginated
  yfId :: "id64 list"
  yfServiceId :: "id64 list"
  yfName :: "string list"
  yfServiceCCRN :: "string list"
  yfState :: "StateFilterType list"

definition no_repository_filter :: IssueRepositoryFilter where
  "no_repository_filter = \<lparr>yfPage = \<lparr>First = None, PAfter = None\<rparr>, yfId = [], yfServiceId = [], yfName = [],
     yfServiceCCRN = [], yfState = []\<rparr>"

type_synonym 'd repository_db = "('d, IssueRepositoryFilter, IssueRepository) entity_db"
type_synonym repository_codecs = "(IssueRepositoryFilter, IssueRepository) entity_codecs"

definition IssueRepositoryHandlerError :: "string \<Rightarrow> goerr" where
  "IssueRepositoryHandlerError msg = ErrVal ''IssueRepositoryHandlerError'' msg"

definition getIssueRepositoryResults ::
  "('d, 'z, 'g) app_env \<Rightarrow> 'd repository_db \<Rightarrow> repository_codecs \<Rightarrow> IssueRepositoryFilter
   \<Rightarrow> ('d, 'z, 'g, (string \<times> IssueRepository) list) handler" where
  "getIssueRepositoryResults env db cd f =
     cachedH env (ec_rows cd) (ec_key cd ''GetIssueRepositories'' f (Some [])) (\<lambda>d. ed_get db d f [])"

definition ListIssueRepositories ::
  "('d, 'z, 'g) app_env \<Rightarrow> 'd repository_db \<Rightarrow> repository_codecs \<Rightarrow> IssueRepositoryFilter \<Rightarrow> ListOptions
   \<Rightarrow> ('d, 'z, 'g, IssueRepository entity_list) handler" where
  "ListIssueRepositories env db cd f0 options =
     (let f = f0\<lparr>yfPage := EnsurePaginated (yfPage f0)\<rparr>; ord = loOrder options
      in bindH (wrapH (\<lambda>_. IssueRepositoryHandlerError ''Error while filtering for IssueRepositories'')
           (getIssueRepositoryResults env db cd f)) (\<lambda>res.
         bindH (list_pages options (yfPage f) res
           (wrapH (\<lambda>_. IssueRepositoryHandlerError ''Error while getting IssueRepository cursors'')
             (cachedH env (ec_strings cd) (ec_key cd ''GetAllIssueRepositoryCursors'' f (Some ord)) (\<lambda>d. ed_cursors db d f ord)))
           (wrapH (\<lambda>_. IssueRepositoryHandlerError ''Error while total count of IssueRepositories'')
             (readH (\<lambda>d. ed_count db d f)))) (\<lambda>l.
         bindH (pushH (OtherEvent ''ListIssueRepositories'')) (\<lambda>_. returnH l))))"

definition CreateIssueRepository ::
  "('d, 'z, 'g) app_env \<Rightarrow> 'd repository_db \<Rightarrow> repository_codecs \<Rightarrow> IssueRepository \<Rightarrow> ('d, 'z, 'g, IssueRepository) handler" where
  "CreateIssueRepository env db cd ir =
     bindH (wrapH (\<lambda>_. IssueRepositoryHandlerError ''Internal error while creating issueRepository (GetUserId).'') (current_user env)) (\<lambda>user.
     let ir = ir\<lparr>irMeta := (irMeta ir)\<lparr>CreatedBy := user, UpdatedBy := user\<rparr>\<rparr>;
         failed = (\<lambda>_. IssueRepositoryHandlerError ''Internal error while creating issueRepository.'')
     in bindH (wrapH failed (ListIssueRepositories env db cd (no_repository_filter\<lparr>yfName := [irName ir]\<rparr>) NewListOptions)) (\<lambda>l.
        if elElements l \<noteq> [] then failH (IssueRepositoryHandlerError (''Duplicated entry '' @ irName ir @ '' for name.''))
        else
          bindH (wrapH failed (writeH (\<lambda>d. ed_create db d ir))) (\<lambda>new.
          bindH (pushH (CreateIssueRepositoryEvent new)) (\<lambda>_. returnH new))))"

definition UpdateIssueRepository ::
  "('d, 'z, 'g) app_env \<Rightarrow> 'd repository_db \<Rightarrow> repository_codecs \<Rightarrow> IssueRepository \<Rightarrow> ('d, 'z, 'g, IssueRepository) handler" where
  "UpdateIssueRepository env db cd ir =
     bindH (wrapH (\<lambda>_. IssueRepositoryHandlerError ''Internal error while updating issueRepository (GetUserId).'') (current_user env)) (\<lambda>user.
     let ir = ir\<lparr>irMeta := (irMeta ir)\<lparr>UpdatedBy := user\<rparr>\<rparr>
     in bindH (wrapH (\<lambda>_. IssueRepositoryHandlerError ''Internal error while updating issueRepository.'') (execH (\<lambda>d. ed_update db d ir))) (\<lambda>_.
        bindH (wrapH (\<lambda>_. IssueRepositoryHandlerError ''Internal error while retrieving updated issueRepository.'')
          (ListIssueRepositories env db cd (no_repository_filter\<lparr>yfId := [irId ir]\<rparr>) NewListOptions)) (\<lambda>l.
        bindH (single (IssueRepositoryHandlerError ''Multiple issueRepositories found.'') l) (\<lambda>found.
        bindH (pushH (OtherEvent ''UpdateIssueRepository'')) (\<lambda>_. returnH found)))))"

definition DeleteIssueRepository ::
  "('d, 'z, 'g) app_env \<Rightarrow> 'd repository_db \<Rightarrow> id64 \<Rightarrow> ('d, 'z, 'g, unit) handler" where
  "DeleteIssueRepository env db i =
     bindH (wrapH (\<lambda>_. IssueRepositoryHandlerError ''Internal error while deleting issueRepository (GetUserId).'') (current_user env)) (\<lambda>user.
     bindH (wrapH (\<lambda>_. IssueRepositoryHandlerError ''Internal error while updating issueRepository.'') (execH (\<lambda>d. ed_delete db d i user))) (\<lambda>_.
       pushH (OtherEvent ''DeleteIssueRepository'')))"

section \<open>Issue variants\<close>

record IssueVariantFilter =
  wfPage :: Paginated
  wfId :: "id64 list"
  wfSecondaryName :: "string list"
  wfIssueId :: "id64 list"
  wfIssueRepositoryId :: "id64 list"
  wfServiceId :: "id64 list"
  wfIssueMatchId :: "id64 list"
  wfState :: "StateFilterType list"

definition no_variant_filter :: IssueVariantFilter where
  "no_variant_filter = \<lparr>wfPage = \<lparr>First = None, PAfter = None\<rparr>, wfId = [], wfSecondaryName = [], wfIssueId = [],
     wfIssueRepositoryId = [], wfServiceId = [], wfIssueMatchId = [], wfState = []\<rparr>"

type_synonym 'd variant_db = "('d, IssueVariantFilter, IssueVariant) entity_db"
type_synonym variant_codecs = "(IssueVariantFilter, IssueVariant) entity_codecs"

definition IssueVariantHandlerError :: "string \<Rightarrow> goerr" where
  "IssueVariantHandlerError msg = ErrVal ''IssueVariantHandlerError'' msg"

definition getIssueVariantResults ::
  "('d, 'z, 'g) app_env \<Rightarrow> 'd variant_db \<Rightarrow> variant_codecs \<Rightarrow> IssueVariantFilter
   \<Rightarrow> ('d, 'z, 'g, (string \<times> IssueVariant) list) handler" where
  "getIssueVariantResults env db cd f =
     cachedH env (ec_rows cd) (ec_key cd ''GetIssueVariants'' f (Some [])) (\<lambda>d. ed_get db d f [])"

definition ListIssueVariants ::
  "('d, 'z, 'g) app_env \<Rightarrow> 'd variant_db \<Rightarrow> variant_codecs \<Rightarrow> IssueVariantFilter \<Rightarrow> ListOptions
   \<Rightarrow> ('d, 'z, 'g, IssueVariant entity_list) handler" where
  "ListIssueVariants env db cd f0 options =
     (let f = f0\<lparr>wfPage := EnsurePaginated (wfPage f0)\<rparr>; ord = loOrder options
      in bindH (wrapH (\<lambda>_. IssueVariantHandlerError ''Error while filtering for IssueVariants'')
           (getIssueVariantResults env db cd f)) (\<lambda>res.
         bindH (list_pages options (wfPage f) res
           (wrapH (\<lambda>_. IssueVariantHandlerError ''Error while getting IssueVariant cursors'')
             (cachedH env (ec_strings cd) (ec_key cd ''GetAllIssueVariantCursors'' f (Some ord)) (\<lambda>d. ed_cursors db d f ord)))
           (wrapH (\<lambda>_. IssueVariantHandlerError ''Error while total count of IssueVariants'')
             (cachedH env (ec_count cd) (ec_key cd ''CountIssueVariants'' f None) (\<lambda>d. ed_count db d f)))) (\<lambda>l.
         bindH (pushH (OtherEvent ''ListIssueVariants'')) (\<lambda>_. returnH l))))"

text \<open>
  \<open>lo.MaxBy\<close>: nothing for an empty collection, else an element that no other element beats; where
  several qualify, the first.
\<close>

locale max_by =
  fixes maxBy :: "('a \<Rightarrow> 'a \<Rightarrow> bool) \<Rightarrow> 'a list \<Rightarrow> 'a option"
  assumes max_empty: "maxBy beats [] = None"
    and max_key: "maxBy (\<lambda>x y. (key x :: rat) > key y) xs = find (\<lambda>x. \<forall>y \<in> set xs. key y \<le> key x) xs"

context max_by begin

lemma max_none: "maxBy (\<lambda>x y. key y < (key x :: rat)) xs = None \<longleftrightarrow> xs = []"
proof (cases "xs = []")
  case False
  then have "Max (key ` set xs) \<in> key ` set xs" by simp
  then obtain x where "x \<in> set xs" "key x = Max (key ` set xs)" by auto
  then have "\<forall>y \<in> set xs. key y \<le> key x" by simp
  with \<open>x \<in> set xs\<close> show ?thesis by (auto simp: max_key find_None_iff)
qed (simp add: max_empty)

lemma max_some:
  assumes "maxBy (\<lambda>x y. key y < (key x :: rat)) xs = Some x"
  shows "x \<in> set xs" and "y \<in> set xs \<Longrightarrow> key y \<le> key x"
  using assms by (auto simp: max_key find_Some_iff)

end

text \<open>A scan that replaces the candidate only by an element that beats it keeps the contract.\<close>

fun first_max :: "('a \<Rightarrow> 'a \<Rightarrow> bool) \<Rightarrow> 'a list \<Rightarrow> 'a option" where
  "first_max beats [] = None"
| "first_max beats (x # xs) = Some (foldl (\<lambda>m y. if beats y m then y else m) x xs)"

lemma foldl_first_max:
  fixes key :: "'a \<Rightarrow> rat"
  shows "Some (foldl (\<lambda>m y. if key m < key y then y else m) x xs) = find (\<lambda>z. \<forall>y \<in> set (x # xs). key y \<le> key z) (x # xs)"
proof (induction xs arbitrary: x)
  case (Cons y ys)
  show ?case
  proof (cases "key x < key y")
    case True
    then have "(\<lambda>z. \<forall>u \<in> set (x # y # ys). key u \<le> key z) = (\<lambda>z. \<forall>u \<in> set (y # ys). key u \<le> key z)"
      by (fastforce intro!: ext)
    with True show ?thesis using Cons.IH [of y] by auto
  next
    case False
    then have e: "(\<lambda>z. \<forall>u \<in> set (x # y # ys). key u \<le> key z) = (\<lambda>z. \<forall>u \<in> set (x # ys). key u \<le> key z)"
      by (fastforce intro!: ext)
    define Q where "Q = (\<lambda>z. \<forall>u \<in> set (x # ys). key u \<le> key z)"
    have skip: "\<not> Q x \<Longrightarrow> \<not> Q y"
      unfolding Q_def using False by (meson list.set_intros(1) linorder_not_less order_trans)
    from False have f: "foldl (\<lambda>m u. if key m < key u then u else m) x (y # ys) = foldl (\<lambda>m u. if key m < key u then u else m) x ys"
      by simp
    have "find Q (x # y # ys) = find Q (x # ys)" using skip by simp
    with Cons.IH [of x] show ?thesis unfolding e f Q_def [symmetric] by simp
  qed
qed simp

interpretation lo_scan: max_by "first_max :: ('a \<Rightarrow> 'a \<Rightarrow> bool) \<Rightarrow> 'a list \<Rightarrow> 'a option"
proof
  fix beats :: "'a \<Rightarrow> 'a \<Rightarrow> bool" and key :: "'a \<Rightarrow> rat" and xs
  show "first_max beats [] = None" by simp
  show "first_max (\<lambda>x y. key y < key x) xs = find (\<lambda>x. \<forall>y \<in> set xs. key y \<le> key x) xs"
    using foldl_first_max by (cases xs) (simp_all del: find.simps(2) foldl.simps)
qed

text \<open>The repositories and variants are passed to \<open>MaxBy\<close> as rows.\<close>

record lo_lib =
  lo_MaxBy_repositories :: "(string \<times> IssueRepository \<Rightarrow> string \<times> IssueRepository \<Rightarrow> bool) \<Rightarrow> (string \<times> IssueRepository) list
    \<Rightarrow> (string \<times> IssueRepository) option"
  lo_MaxBy_variants :: "(string \<times> IssueVariant \<Rightarrow> string \<times> IssueVariant \<Rightarrow> bool) \<Rightarrow> (string \<times> IssueVariant) list
    \<Rightarrow> (string \<times> IssueVariant) option"

definition repo_priority :: "string \<times> IssueRepository \<Rightarrow> int" where
  "repo_priority r = irsPriority (irIRS (snd r))"

text \<open>The comparison with the best repository happens per repository, so an empty result reads no priority.\<close>

definition effective_variants ::
  "lo_lib \<Rightarrow> (string \<times> IssueVariant) list \<Rightarrow> (string \<times> IssueRepository) list \<Rightarrow> (string \<times> IssueVariant) list" where
  "effective_variants lo variants repositories =
     (let best = lo_MaxBy_repositories lo (\<lambda>item m. repo_priority item > repo_priority m) repositories;
          maxIds = map (irId \<circ> snd) (filter (\<lambda>r. repo_priority r = repo_priority (the best)) repositories)
      in filter (\<lambda>v. ivIssueRepositoryId (snd v) \<in> set maxIds) variants)"

definition ListEffectiveIssueVariants ::
  "('d, 'z, 'g) app_env \<Rightarrow> lo_lib \<Rightarrow> 'd variant_db \<Rightarrow> variant_codecs \<Rightarrow> 'd repository_db \<Rightarrow> repository_codecs
   \<Rightarrow> IssueVariantFilter \<Rightarrow> ListOptions \<Rightarrow> ('d, 'z, 'g, IssueVariant entity_list) handler" where
  "ListEffectiveIssueVariants env lo vdb vcd rdb rcd f options =
     bindH (wrapH (\<lambda>_. IssueVariantHandlerError ''Internal error while returning issueVariants.'')
       (ListIssueVariants env vdb vcd f options)) (\<lambda>variants.
     bindH (wrapH (\<lambda>_. IssueVariantHandlerError ''Internal error while returning issue repositories.'')
       (ListIssueRepositories env rdb rcd
         (no_repository_filter\<lparr>yfId := map (ivIssueRepositoryId \<circ> snd) (elElements variants)\<rparr>) NewListOptions)) (\<lambda>repositories.
     bindH (pushH (OtherEvent ''ListEffectiveIssueVariants'')) (\<lambda>_.
       returnH \<lparr>elTotalCount = None, elPageInfo = None,
         elElements = effective_variants lo (elElements variants) (elElements repositories)\<rparr>)))"

definition CreateIssueVariant ::
  "('d, 'z, 'g) app_env \<Rightarrow> 'd variant_db \<Rightarrow> variant_codecs \<Rightarrow> IssueVariant \<Rightarrow> ('d, 'z, 'g, IssueVariant) handler" where
  "CreateIssueVariant env db cd iv =
     bindH (wrapH (\<lambda>_. IssueVariantHandlerError ''Internal error while creating issueVariant (GetUserId).'') (current_user env)) (\<lambda>user.
     let iv = iv\<lparr>ivMeta := (ivMeta iv)\<lparr>CreatedBy := user, UpdatedBy := user\<rparr>\<rparr>;
         failed = (\<lambda>_. IssueVariantHandlerError ''Internal error while creating issueVariant.'')
     in bindH (wrapH failed (ListIssueVariants env db cd (no_variant_filter\<lparr>wfSecondaryName := [ivSecondaryName iv]\<rparr>) NewListOptions)) (\<lambda>l.
        if elElements l \<noteq> [] then failH (IssueVariantHandlerError (''Duplicated entry '' @ ivSecondaryName iv @ '' for name.''))
        else
          bindH (wrapH failed (writeH (\<lambda>d. ed_create db d iv))) (\<lambda>new.
          bindH (pushH (OtherEvent ''CreateIssueVariant'')) (\<lambda>_. returnH new))))"

definition UpdateIssueVariant ::
  "('d, 'z, 'g) app_env \<Rightarrow> 'd variant_db \<Rightarrow> variant_codecs \<Rightarrow> IssueVariant \<Rightarrow> ('d, 'z, 'g, IssueVariant) handler" where
  "UpdateIssueVariant env db cd iv =
     bindH (wrapH (\<lambda>_. IssueVariantHandlerError ''Internal error while updating issueVariant (GetUserId).'') (current_user env)) (\<lambda>user.
     let iv = iv\<lparr>ivMeta := (ivMeta iv)\<lparr>UpdatedBy := user\<rparr>\<rparr>
     in bindH (wrapH (\<lambda>_. IssueVariantHandlerError ''Internal error while updating issueVariant.'') (execH (\<lambda>d. ed_update db d iv))) (\<lambda>_.
        bindH (wrapH (\<lambda>_. IssueVariantHandlerError ''Internal error while retrieving updated issueVariant.'')
          (ListIssueVariants env db cd (no_variant_filter\<lparr>wfId := [ivId iv]\<rparr>) NewListOptions)) (\<lambda>l.
        bindH (single (IssueVariantHandlerError ''Multiple issueVariants found.'') l) (\<lambda>found.
        bindH (pushH (OtherEvent ''UpdateIssueVariant'')) (\<lambda>_. returnH found)))))"

definition DeleteIssueVariant ::
  "('d, 'z, 'g) app_env \<Rightarrow> 'd variant_db \<Rightarrow> id64 \<Rightarrow> ('d, 'z, 'g, unit) handler" where
  "DeleteIssueVariant env db i =
     bindH (wrapH (\<lambda>_. IssueVariantHandlerError ''Internal error while deleting issueVariant (GetUserId).'') (current_user env)) (\<lambda>user.
     bindH (wrapH (\<lambda>_. IssueVariantHandlerError ''Internal error while deleting issueVariant.'') (execH (\<lambda>d. ed_delete db d i user))) (\<lambda>_.
       pushH (OtherEvent ''DeleteIssueVariant'')))"

section \<open>Severities\<close>

record SeverityFilter =
  zfIssueMatchId :: "id64 list"
  zfIssueId :: "id64 list"

definition SeverityHandlerError :: "string \<Rightarrow> goerr" where
  "SeverityHandlerError msg = ErrVal ''SeverityHandlerError'' msg"

text \<open>The arguments that reading effective variants takes.\<close>

record ('d, 'z, 'g) variant_env =
  ve_env :: "('d, 'z, 'g) app_env"
  ve_lo :: lo_lib
  ve_variants :: "'d variant_db"
  ve_variant_codecs :: variant_codecs
  ve_repositories :: "'d repository_db"
  ve_repository_codecs :: repository_codecs

text \<open>The result is a pointer: nil when the issue has no effective variant.\<close>

definition GetSeverity :: "('d, 'z, 'g) variant_env \<Rightarrow> SeverityFilter \<Rightarrow> ('d, 'z, 'g, severity option) handler" where
  "GetSeverity ve f =
     bindH (wrapH (\<lambda>_. SeverityHandlerError ''Internal error while returning effective issueVariants.'')
       (ListEffectiveIssueVariants (ve_env ve) (ve_lo ve) (ve_variants ve) (ve_variant_codecs ve) (ve_repositories ve)
          (ve_repository_codecs ve) (no_variant_filter\<lparr>wfIssueMatchId := zfIssueMatchId f, wfIssueId := zfIssueId f\<rparr>) NewListOptions)) (\<lambda>l.
     case lo_MaxBy_variants (ve_lo ve) (\<lambda>item m. sevScore (ivSeverity (snd item)) > sevScore (ivSeverity (snd m))) (elElements l) of
       None \<Rightarrow> returnH None
     | Some v \<Rightarrow> bindH (pushH (OtherEvent ''GetSeverity'')) (\<lambda>_. returnH (Some (ivSeverity (snd v)))))"

section \<open>Issue matches\<close>

type_synonym 'd match_table_db = "('d, IssueMatchFilter, IssueMatch) entity_db"
type_synonym match_codecs = "(IssueMatchFilter, IssueMatch) entity_codecs"

definition no_match_filter :: IssueMatchFilter where
  "no_match_filter = \<lparr>imfFirst = None, imfAfter = None, imfId = [], imfServiceCCRN = [], imfSeverityValue = [], imfStatus = [],
     imfIssueId = [], imfComponentInstanceId = [], imfServiceId = [], imfSupportGroupCCRN = [], imfSearch = [],
     imfComponentCCRN = [], imfPrimaryName = [], imfIssueType = [], imfState = [], imfServiceOwnerUsername = [],
     imfServiceOwnerUniqueUserId = []\<rparr>"

definition match_page :: "IssueMatchFilter \<Rightarrow> Paginated" where
  "match_page f = \<lparr>First = imfFirst f, PAfter = imfAfter f\<rparr>"

definition set_match_page :: "Paginated \<Rightarrow> IssueMatchFilter \<Rightarrow> IssueMatchFilter" where
  "set_match_page p f = f\<lparr>imfFirst := First p, imfAfter := PAfter p\<rparr>"

definition IssueMatchHandlerError :: "string \<Rightarrow> goerr" where
  "IssueMatchHandlerError msg = ErrVal ''IssueMatchHandlerError'' msg"

definition ListIssueMatches ::
  "('d, 'z, 'g) app_env \<Rightarrow> 'd match_table_db \<Rightarrow> match_codecs \<Rightarrow> IssueMatchFilter \<Rightarrow> ListOptions
   \<Rightarrow> ('d, 'z, 'g, IssueMatch entity_list) handler" where
  "ListIssueMatches env db cd f0 options =
     (let internal = internal_error ''issueMatchHandler.ListIssueMatches'' ''IssueMatches'' [];
          f1 = set_match_page (EnsurePaginated (match_page f0)) f0
      in bindH (restricted env internal TypeComponentInstance (imfComponentInstanceId f1)) (\<lambda>ids.
         let f = f1\<lparr>imfComponentInstanceId := ids\<rparr>; ord = loOrder options
         in bindH (wrapH internal (cachedH env (ec_rows cd) (ec_key cd ''GetIssueMatches'' f (Some ord)) (\<lambda>d. ed_get db d f ord))) (\<lambda>res.
            bindH (list_pages options (match_page f) res
              (wrapH internal (cachedH env (ec_strings cd) (ec_key cd ''GetAllIssueMatchCursors'' f (Some ord)) (\<lambda>d. ed_cursors db d f ord)))
              (wrapH internal (cachedH env (ec_count cd) (ec_key cd ''CountIssueMatches'' f None) (\<lambda>d. ed_count db d f)))) (\<lambda>l.
            bindH (pushH (OtherEvent ''ListIssueMatches'')) (\<lambda>_. returnH l)))))"

definition GetIssueMatch ::
  "('d, 'z, 'g) app_env \<Rightarrow> 'd match_table_db \<Rightarrow> match_codecs \<Rightarrow> id64 \<Rightarrow> ('d, 'z, 'g, IssueMatch) handler" where
  "GetIssueMatch env db cd i =
     (let opn = ''issueMatchHandler.GetIssueMatch'';
          internal = internal_error opn ''IssueMatches'' (FormatInt i)
      in bindH (wrapH internal (current_user env)) (\<lambda>user.
         bindH (wrapH internal (check_permission env user TypeIssueMatch i)) (\<lambda>hasPermission.
         if \<not> hasPermission then failH (AppErr (PermissionDeniedError opn ''IssueMatch'' (FormatInt i)))
         else
           bindH (wrapH internal (ListIssueMatches env db cd (no_match_filter\<lparr>imfId := [i]\<rparr>) NewListOptions)) (\<lambda>l.
           bindH (single (AppErr (InternalError opn ''IssueMatches'' (FormatInt i) None)) l) (\<lambda>m.
           bindH (pushH (OtherEvent ''GetIssueMatch'')) (\<lambda>_. returnH m))))))"

text \<open>The pointer to the severity is dereferenced without a check.\<close>

definition CreateIssueMatch ::
  "('d, 'z, 'g) variant_env \<Rightarrow> 'd match_table_db \<Rightarrow> IssueMatch \<Rightarrow> ('d, 'z, 'g, IssueMatch) handler" where
  "CreateIssueMatch ve db im =
     bindH (wrapH (\<lambda>_. IssueMatchHandlerError ''Internal error while creating issueMatch (GetUserId).'') (current_user (ve_env ve))) (\<lambda>user.
     let im = im\<lparr>imMeta := (imMeta im)\<lparr>CreatedBy := user, UpdatedBy := user\<rparr>\<rparr>
     in bindH (wrapH (\<lambda>_. IssueMatchHandlerError ''Internal error while retrieving effective severity.'')
          (GetSeverity ve \<lparr>zfIssueMatchId = [], zfIssueId = [imIssueId im]\<rparr>)) (\<lambda>effectiveSeverity.
        bindH (goH (case effectiveSeverity of None \<Rightarrow> Inl NilDereference | Some sev \<Rightarrow> Inr sev)) (\<lambda>sev.
        bindH (wrapH (\<lambda>_. IssueMatchHandlerError ''Internal error while creating issueMatch.'')
          (writeH (\<lambda>d. ed_create db d (im\<lparr>imSeverity := sev\<rparr>)))) (\<lambda>new.
        bindH (pushH (CreateIssueMatchEvent new)) (\<lambda>_. returnH new)))))"

definition UpdateIssueMatch ::
  "('d, 'z, 'g) app_env \<Rightarrow> 'd match_table_db \<Rightarrow> match_codecs \<Rightarrow> IssueMatch \<Rightarrow> ('d, 'z, 'g, IssueMatch) handler" where
  "UpdateIssueMatch env db cd im =
     bindH (wrapH (\<lambda>_. IssueMatchHandlerError ''Internal error while updating issueMatch (GetUserId).'') (current_user env)) (\<lambda>user.
     let im = im\<lparr>imMeta := (imMeta im)\<lparr>UpdatedBy := user\<rparr>\<rparr>
     in bindH (wrapH (\<lambda>_. IssueMatchHandlerError ''Internal error while updating issueMatch.'') (execH (\<lambda>d. ed_update db d im))) (\<lambda>_.
        bindH (pushH (UpdateIssueMatchEvent im)) (\<lambda>_. GetIssueMatch env db cd (imId im))))"

definition DeleteIssueMatch_handler ::
  "('d, 'z, 'g) app_env \<Rightarrow> 'd match_table_db \<Rightarrow> id64 \<Rightarrow> ('d, 'z, 'g, unit) handler" where
  "DeleteIssueMatch_handler env db i =
     bindH (wrapH (\<lambda>_. IssueMatchHandlerError ''Internal error while deleting issueMatch (GetUserId).'') (current_user env)) (\<lambda>user.
     bindH (wrapH (\<lambda>_. IssueMatchHandlerError ''Internal error while deleting issueMatch.'') (execH (\<lambda>d. ed_delete db d i user))) (\<lambda>_.
       pushH (DeleteIssueMatchEvent i)))"

section \<open>Patches\<close>

record PatchFilter =
  pfPage :: Paginated
  pfId :: "id64 list"
  pfServiceId :: "id64 list"
  pfServiceName :: "string list"
  pfComponentVersionId :: "id64 list"
  pfComponentVersionName :: "string list"
  pfState :: "StateFilterType list"

definition ListPatches ::
  "('d, 'z, 'g) app_env \<Rightarrow> ('d, PatchFilter, Patch) entity_db \<Rightarrow> (PatchFilter, Patch) entity_codecs \<Rightarrow> PatchFilter \<Rightarrow> ListOptions
   \<Rightarrow> ('d, 'z, 'g, Patch entity_list) handler" where
  "ListPatches env db cd f0 options =
     (let opn = ''patchHandler.ListPatches'';
          f = f0\<lparr>pfPage := EnsurePaginated (pfPage f0)\<rparr>; ord = loOrder options
      in bindH (wrapH (internal_error opn ''Patches'' [])
           (cachedH env (ec_rows cd) (ec_key cd ''GetPatches'' f (Some ord)) (\<lambda>d. ed_get db d f ord))) (\<lambda>res.
         bindH (list_pages options (pfPage f) res
           (wrapH (internal_error opn ''PatchCursors'' [])
             (cachedH env (ec_strings cd) (ec_key cd ''GetAllPatchCursors'' f (Some ord)) (\<lambda>d. ed_cursors db d f ord)))
           (wrapH (internal_error opn ''PatchCount'' [])
             (cachedH env (ec_count cd) (ec_key cd ''CountPatches'' f None) (\<lambda>d. ed_count db d f)))) (\<lambda>l.
         bindH (pushH (OtherEvent ''ListPatches'')) (\<lambda>_. returnH l))))"

section \<open>Lemmas\<close>

lemma repository_reads [reading]: "only_reads (ListIssueRepositories env db cd f options)"
  by (simp add: ListIssueRepositories_def getIssueRepositoryResults_def Let_def reading)

lemma variant_reads [reading]: "only_reads (ListIssueVariants env db cd f options)"
  by (simp add: ListIssueVariants_def getIssueVariantResults_def Let_def reading)

lemma effective_reads [reading]: "only_reads (ListEffectiveIssueVariants env lo vdb vcd rdb rcd f options)"
  by (simp add: ListEffectiveIssueVariants_def reading)

lemma severity_reads [reading]: "only_reads (GetSeverity ve f)"
  by (simp add: GetSeverity_def reading)

lemma match_list_reads [reading]: "only_reads (ListIssueMatches env db cd f options)"
  by (simp add: ListIssueMatches_def Let_def reading)

lemma match_reads [reading]: "only_reads (GetIssueMatch env db cd i)" "only_reads (ListPatches env pdb pcd pf options)"
  by (simp_all add: GetIssueMatch_def ListPatches_def Let_def reading)

text \<open>Without a cache the plain lists are one query each, with the default page.\<close>

lemma ListIssueVariants_run:
  assumes "ae_cache env = None" and "ed_get db (as_db s) (f\<lparr>wfPage := EnsurePaginated (wfPage f)\<rparr>) [] = Inr vs"
  shows "ListIssueVariants env db cd f NewListOptions s = (Inr \<lparr>elTotalCount = Some 0, elPageInfo = None, elElements = vs\<rparr>,
    s\<lparr>as_events := as_events s @ [OtherEvent ''ListIssueVariants'']\<rparr>)"
  by (simp add: ListIssueVariants_def getIssueVariantResults_def Let_def run_cached assms)

lemma ListIssueRepositories_run:
  assumes "ae_cache env = None" and "ed_get db (as_db s) (f\<lparr>yfPage := EnsurePaginated (yfPage f)\<rparr>) [] = Inr rs"
  shows "ListIssueRepositories env db cd f NewListOptions s = (Inr \<lparr>elTotalCount = Some 0, elPageInfo = None, elElements = rs\<rparr>,
    s\<lparr>as_events := as_events s @ [OtherEvent ''ListIssueRepositories'']\<rparr>)"
  by (simp add: ListIssueRepositories_def getIssueRepositoryResults_def Let_def run_cached assms)

text \<open>The queries for the variants of a severity and for their repositories.\<close>

definition severity_variants :: "SeverityFilter \<Rightarrow> IssueVariantFilter" where
  "severity_variants f = no_variant_filter\<lparr>wfPage := \<lparr>First = Some 10, PAfter = Some []\<rparr>,
     wfIssueMatchId := zfIssueMatchId f, wfIssueId := zfIssueId f\<rparr>"

definition variant_repositories :: "(string \<times> IssueVariant) list \<Rightarrow> IssueRepositoryFilter" where
  "variant_repositories vs = no_repository_filter\<lparr>yfPage := \<lparr>First = Some 10, PAfter = Some []\<rparr>,
     yfId := map (ivIssueRepositoryId \<circ> snd) vs\<rparr>"

lemma GetSeverity_run:
  assumes "ae_cache (ve_env ve) = None" and "ed_get (ve_variants ve) (as_db s) (severity_variants f) [] = Inr vs"
    and "ed_get (ve_repositories ve) (as_db s) (variant_repositories vs) [] = Inr rs"
  shows "\<exists>es. GetSeverity ve f s =
    (Inr (map_option (ivSeverity \<circ> snd) (lo_MaxBy_variants (ve_lo ve)
        (\<lambda>x y. sevScore (ivSeverity (snd y)) < sevScore (ivSeverity (snd x))) (effective_variants (ve_lo ve) vs rs))),
     s\<lparr>as_events := as_events s @ es\<rparr>)"
proof -
  let ?f = "no_variant_filter\<lparr>wfIssueMatchId := zfIssueMatchId f, wfIssueId := zfIssueId f\<rparr>"
  let ?s1 = "s\<lparr>as_events := as_events s @ [OtherEvent ''ListIssueVariants'']\<rparr>"
  have "?f\<lparr>wfPage := EnsurePaginated (wfPage ?f)\<rparr> = severity_variants f"
    by (simp add: severity_variants_def no_variant_filter_def EnsurePaginated_def)
  with assms(2) have v: "ListIssueVariants (ve_env ve) (ve_variants ve) (ve_variant_codecs ve) ?f NewListOptions s =
      (Inr \<lparr>elTotalCount = Some 0, elPageInfo = None, elElements = vs\<rparr>, ?s1)"
    by (intro ListIssueVariants_run [OF assms(1)]) simp
  let ?g = "no_repository_filter\<lparr>yfId := map (ivIssueRepositoryId \<circ> snd) vs\<rparr>"
  have "?g\<lparr>yfPage := EnsurePaginated (yfPage ?g)\<rparr> = variant_repositories vs"
    by (simp add: variant_repositories_def no_repository_filter_def EnsurePaginated_def)
  with assms(3) have r: "ListIssueRepositories (ve_env ve) (ve_repositories ve) (ve_repository_codecs ve) ?g NewListOptions ?s1 =
      (Inr \<lparr>elTotalCount = Some 0, elPageInfo = None, elElements = rs\<rparr>,
       ?s1\<lparr>as_events := as_events ?s1 @ [OtherEvent ''ListIssueRepositories'']\<rparr>)"
    by (intro ListIssueRepositories_run [OF assms(1)]) simp
  have "ListEffectiveIssueVariants (ve_env ve) (ve_lo ve) (ve_variants ve) (ve_variant_codecs ve) (ve_repositories ve)
        (ve_repository_codecs ve) ?f NewListOptions s =
      (Inr \<lparr>elTotalCount = None, elPageInfo = None, elElements = effective_variants (ve_lo ve) vs rs\<rparr>,
       s\<lparr>as_events := as_events s @ map OtherEvent [''ListIssueVariants'', ''ListIssueRepositories'', ''ListEffectiveIssueVariants'']\<rparr>)"
    unfolding ListEffectiveIssueVariants_def wrapped_value [of "ListIssueVariants (ve_env ve) (ve_variants ve) (ve_variant_codecs ve) ?f NewListOptions", OF v]
    by (simp add: wrapped_value [of "ListIssueRepositories (ve_env ve) (ve_repositories ve) (ve_repository_codecs ve) ?g NewListOptions", OF r])
  note e = wrapped_value [of "ListEffectiveIssueVariants (ve_env ve) (ve_lo ve) (ve_variants ve) (ve_variant_codecs ve)
      (ve_repositories ve) (ve_repository_codecs ve) ?f NewListOptions", OF this]
  show ?thesis
    unfolding GetSeverity_def e
    by (simp split: option.split) (auto intro: exI [of _ "map OtherEvent [''ListIssueVariants'', ''ListIssueRepositories'',
      ''ListEffectiveIssueVariants'']"] exI [of _ "map OtherEvent [''ListIssueVariants'', ''ListIssueRepositories'',
      ''ListEffectiveIssueVariants'', ''GetSeverity'']"])
qed

text \<open>The repositories with the highest priority decide which variants count.\<close>

definition effective :: "(string \<times> IssueRepository) list \<Rightarrow> IssueVariant \<Rightarrow> bool" where
  "effective rs v \<longleftrightarrow> (\<exists>r \<in> set rs. irId (snd r) = ivIssueRepositoryId v
     \<and> (\<forall>q \<in> set rs. irsPriority (irIRS (snd q)) \<le> irsPriority (irIRS (snd r))))"

lemma effective_variants_filter:
  assumes "max_by (lo_MaxBy_repositories lo)"
  shows "effective_variants lo vs rs = filter (\<lambda>v. effective rs (snd v)) vs"
proof (cases "rs = []")
  case True
  then show ?thesis by (simp add: effective_variants_def effective_def)
next
  case False
  let ?best = "lo_MaxBy_repositories lo (\<lambda>x y. repo_priority y < repo_priority x) rs"
  have o: "(\<lambda>x y. repo_priority y < repo_priority x) =
      (\<lambda>x y. (of_int (repo_priority y) :: rat) < of_int (repo_priority x))" by simp
  obtain b where b: "?best = Some b"
    using False max_by.max_none [OF assms, of "\<lambda>x. of_int (repo_priority x)" rs] unfolding o by fastforce
  have bm: "b \<in> set rs" "\<forall>q \<in> set rs. repo_priority q \<le> repo_priority b"
    using max_by.max_some [OF assms, of "\<lambda>x. of_int (repo_priority x)" rs b] b unfolding o by simp_all
  have top: "repo_priority r = repo_priority b \<longleftrightarrow> (\<forall>q \<in> set rs. repo_priority q \<le> repo_priority r)" if "r \<in> set rs" for r
    using bm that by (metis order_antisym)
  have e: "(\<exists>r \<in> set rs. k = irId (snd r) \<and> repo_priority r = repo_priority b) \<longleftrightarrow>
      (\<exists>r \<in> set rs. irId (snd r) = k \<and> (\<forall>q \<in> set rs. repo_priority q \<le> repo_priority r))" for k
    using top by metis
  have "ivIssueRepositoryId (snd v) \<in> set (map (irId \<circ> snd) (filter (\<lambda>r. repo_priority r = repo_priority b) rs))
      \<longleftrightarrow> effective rs (snd v)" for v :: "string \<times> IssueVariant"
    unfolding effective_def repo_priority_def [symmetric] e [symmetric] by auto
  then show ?thesis by (simp add: effective_variants_def b)
qed

lemma GetSeverity_outcome:
  assumes "max_by (lo_MaxBy_repositories (ve_lo ve))" and "max_by (lo_MaxBy_variants (ve_lo ve))"
    and "ae_cache (ve_env ve) = None" and "ed_get (ve_variants ve) (as_db s) (severity_variants f) [] = Inr vs"
    and "ed_get (ve_repositories ve) (as_db s) (variant_repositories vs) [] = Inr rs"
  obtains (none) es where "\<forall>v \<in> set vs. \<not> effective rs (snd v)" and "GetSeverity ve f s = (Inr None, s\<lparr>as_events := as_events s @ es\<rparr>)"
  | (some) v es where "v \<in> set vs" and "effective rs (snd v)"
      and "\<forall>w \<in> set vs. effective rs (snd w) \<longrightarrow> sevScore (ivSeverity (snd w)) \<le> sevScore (ivSeverity (snd v))"
      and "GetSeverity ve f s = (Inr (Some (ivSeverity (snd v))), s\<lparr>as_events := as_events s @ es\<rparr>)"
proof -
  let ?key = "\<lambda>v. sevScore (ivSeverity (snd v))" and ?vs = "filter (\<lambda>v. effective rs (snd v)) vs"
  let ?max = "lo_MaxBy_variants (ve_lo ve) (\<lambda>x y. ?key y < ?key x) ?vs"
  obtain es where es: "GetSeverity ve f s = (Inr (map_option (ivSeverity \<circ> snd) ?max), s\<lparr>as_events := as_events s @ es\<rparr>)"
    using GetSeverity_run [OF assms(3-5)] unfolding effective_variants_filter [OF assms(1)] by (rule exE)
  show ?thesis
  proof (cases ?max)
    case None
    then have "?vs = []" using max_by.max_none [OF assms(2), of ?key ?vs] by simp
    then have "\<forall>v \<in> set vs. \<not> effective rs (snd v)" by (simp add: filter_empty_conv)
    moreover have "GetSeverity ve f s = (Inr None, s\<lparr>as_events := as_events s @ es\<rparr>)" unfolding es None by simp
    ultimately show ?thesis by (rule none)
  next
    case (Some v)
    note m = max_by.max_some [OF assms(2) this]
    have "v \<in> set vs" "effective rs (snd v)" using m(1) by simp_all
    moreover have "\<forall>w \<in> set vs. effective rs (snd w) \<longrightarrow> ?key w \<le> ?key v" using m(2) by simp
    moreover have "GetSeverity ve f s = (Inr (Some (ivSeverity (snd v))), s\<lparr>as_events := as_events s @ es\<rparr>)"
      unfolding es Some by simp
    ultimately show ?thesis by (rule some)
  qed
qed

section \<open>Properties\<close>

text \<open>
  C32. Without a cache the severity of an issue is that of an effective variant (one of a
  repository with the highest priority) with the highest score among the effective variants that
  the query returned, and there is none exactly when no returned variant is effective.
\<close>

theorem GetSeverity_is_effective_maximum:
  assumes "max_by (lo_MaxBy_repositories (ve_lo ve))" and "max_by (lo_MaxBy_variants (ve_lo ve))"
    and "ae_cache (ve_env ve) = None" and "ed_get (ve_variants ve) (as_db s) (severity_variants f) [] = Inr vs"
    and "ed_get (ve_repositories ve) (as_db s) (variant_repositories vs) [] = Inr rs"
  shows "case fst (GetSeverity ve f s) of Inl e \<Rightarrow> False
    | Inr None \<Rightarrow> \<forall>v \<in> set vs. \<not> effective rs (snd v)
    | Inr (Some sev) \<Rightarrow> \<exists>v \<in> set vs. effective rs (snd v) \<and> ivSeverity (snd v) = sev
        \<and> (\<forall>w \<in> set vs. effective rs (snd w) \<longrightarrow> sevScore (ivSeverity (snd w)) \<le> sevScore sev)"
  by (rule GetSeverity_outcome [OF assms]) auto

text \<open>
  C28. An issue match is created with the effective severity of its issue, the user in its audit
  fields and an event. For an issue without effective variant nothing is stored and the nil severity
  is dereferenced.
\<close>

theorem CreateIssueMatch_takes_effective_severity:
  assumes "max_by (lo_MaxBy_repositories (ve_lo ve))" and "max_by (lo_MaxBy_variants (ve_lo ve))"
    and "ae_cache (ve_env ve) = None"
    and "ed_get (ve_variants ve) (as_db s) (severity_variants \<lparr>zfIssueMatchId = [], zfIssueId = [imIssueId im]\<rparr>) [] = Inr vs"
    and "ed_get (ve_repositories ve) (as_db s) (variant_repositories vs) [] = Inr rs"
    and "GetCurrentUserId (ae_ctx (ve_env ve)) (ae_users (ve_env ve) (as_db s)) = Inr user"
    and "\<And>x. ed_create db (as_db s) x = (Inr (stored x), inserted x)"
  shows "((\<forall>v \<in> set vs. \<not> effective rs (snd v)) \<longrightarrow>
      (\<exists>es. CreateIssueMatch ve db im s = (Inl (Panicked NilDereference), s\<lparr>as_events := as_events s @ es\<rparr>)))
    \<and> ((\<exists>v \<in> set vs. effective rs (snd v)) \<longrightarrow>
      (\<exists>v \<in> set vs. effective rs (snd v)
        \<and> (\<forall>w \<in> set vs. effective rs (snd w) \<longrightarrow> sevScore (ivSeverity (snd w)) \<le> sevScore (ivSeverity (snd v)))
        \<and> (\<exists>es x. x = im\<lparr>imMeta := (imMeta im)\<lparr>CreatedBy := user, UpdatedBy := user\<rparr>, imSeverity := ivSeverity (snd v)\<rparr>
          \<and> CreateIssueMatch ve db im s = (Inr (stored x),
              s\<lparr>as_db := inserted x, as_events := as_events s @ es @ [CreateIssueMatchEvent (stored x)]\<rparr>))))"
proof (rule GetSeverity_outcome [OF assms(1-5)], goal_cases)
  case (1 es)
  have "CreateIssueMatch ve db im s = (Inl (Panicked NilDereference), s\<lparr>as_events := as_events s @ es\<rparr>)"
    by (simp add: CreateIssueMatch_def Let_def run_user assms(6) wrapped_value [of "GetSeverity ve \<lparr>zfIssueMatchId = [], zfIssueId = [imIssueId im]\<rparr>", OF 1(2)])
  with 1(1) show ?case by blast
next
  case (2 v es)
  let ?x = "im\<lparr>imMeta := (imMeta im)\<lparr>CreatedBy := user, UpdatedBy := user\<rparr>, imSeverity := ivSeverity (snd v)\<rparr>"
  have "CreateIssueMatch ve db im s = (Inr (stored ?x),
      s\<lparr>as_db := inserted ?x, as_events := as_events s @ es @ [CreateIssueMatchEvent (stored ?x)]\<rparr>)"
    by (simp add: CreateIssueMatch_def Let_def run_user assms(6)
        wrapped_value [of "GetSeverity ve \<lparr>zfIssueMatchId = [], zfIssueId = [imIssueId im]\<rparr>", OF 2(4)] run_create assms(7))
  with 2(1-3) show ?case by blast
qed

text \<open>
  The queries for variants ask for a page of ten: with a database that returns as many rows
  as it is asked for, a later variant does not count, however severe it is.
\<close>

theorem severity_from_first_ten_variants:
  assumes "max_by (lo_MaxBy_repositories (ve_lo ve))" and "max_by (lo_MaxBy_variants (ve_lo ve))"
    and "ae_cache (ve_env ve) = None"
    and "\<And>g n. First (wfPage g) = Some n \<Longrightarrow> ed_get (ve_variants ve) (as_db s) g [] = Inr (take (nat n) (selected g))"
    and "\<And>g. \<exists>rs. ed_get (ve_repositories ve) (as_db s) g [] = Inr rs"
    and "\<And>w. w \<in> set (take 10 (selected (severity_variants f))) \<Longrightarrow> sevScore (ivSeverity (snd w)) < bound"
    and "fst (GetSeverity ve f s) = Inr (Some sev)"
  shows "sevScore sev < bound"
proof -
  let ?vs = "take 10 (selected (severity_variants f))"
  have "First (wfPage (severity_variants f)) = Some 10" by (simp add: severity_variants_def)
  from assms(4) [OF this] have v: "ed_get (ve_variants ve) (as_db s) (severity_variants f) [] = Inr ?vs" by simp
  obtain rs where "ed_get (ve_repositories ve) (as_db s) (variant_repositories ?vs) [] = Inr rs"
    using assms(5) by blast
  from GetSeverity_outcome [OF assms(1-3) v this] assms(7) have "\<exists>v \<in> set ?vs. sev = ivSeverity (snd v)"
    by (metis Inr_inject fst_conv option.distinct(1) option.inject)
  then show ?thesis using assms(6) by blast
qed

section \<open>Examples\<close>

text \<open>Variants, repositories and matches as rows; a query returns at most the page it is asked for.\<close>

record severity_rows =
  vr_variants :: "IssueVariant list"
  vr_repositories :: "IssueRepository list"
  vr_matches :: "IssueMatch list"

definition example_variant_db :: "severity_rows variant_db" where
  "example_variant_db =
     \<lparr>ed_get = (\<lambda>d f ord. Inr (take (case First (wfPage f) of None \<Rightarrow> 1000 | Some n \<Rightarrow> nat n) (map (\<lambda>v. (FormatInt (ivId v), v))
         (filter (\<lambda>v. wfIssueId f = [] \<or> ivIssueId v \<in> set (wfIssueId f)) (vr_variants d))))),
      ed_cursors = (\<lambda>d f ord. Inr []), ed_count = (\<lambda>d f. Inr (int (length (vr_variants d)))),
      ed_create = (\<lambda>d v. (Inr v, d\<lparr>vr_variants := vr_variants d @ [v]\<rparr>)), ed_update = (\<lambda>d v. (None, d)),
      ed_delete = (\<lambda>d i u. (None, d))\<rparr>"

definition example_repository_db :: "severity_rows repository_db" where
  "example_repository_db =
     \<lparr>ed_get = (\<lambda>d f ord. Inr (take (case First (yfPage f) of None \<Rightarrow> 1000 | Some n \<Rightarrow> nat n) (map (\<lambda>r. (FormatInt (irId r), r))
         (filter (\<lambda>r. yfId f = [] \<or> irId r \<in> set (yfId f)) (vr_repositories d))))),
      ed_cursors = (\<lambda>d f ord. Inr []), ed_count = (\<lambda>d f. Inr (int (length (vr_repositories d)))),
      ed_create = (\<lambda>d r. (Inr r, d\<lparr>vr_repositories := vr_repositories d @ [r]\<rparr>)), ed_update = (\<lambda>d r. (None, d)),
      ed_delete = (\<lambda>d i u. (None, d))\<rparr>"

definition example_match_db :: "severity_rows match_table_db" where
  "example_match_db =
     \<lparr>ed_get = (\<lambda>d f ord. Inr []), ed_cursors = (\<lambda>d f ord. Inr []), ed_count = (\<lambda>d f. Inr 0),
      ed_create = (\<lambda>d m. (Inr (m\<lparr>imId := 1\<rparr>), d\<lparr>vr_matches := vr_matches d @ [m\<lparr>imId := 1\<rparr>]\<rparr>)),
      ed_update = (\<lambda>d m. (None, d)), ed_delete = (\<lambda>d i u. (None, d))\<rparr>"

definition no_codecs :: "('f, 'e) entity_codecs" where
  "no_codecs = \<lparr>ec_key = (\<lambda>n f ord. n), ec_rows = (\<lambda>v. None, \<lambda>t. Inr []), ec_strings = (\<lambda>v. None, \<lambda>t. Inr []),
     ec_count = (\<lambda>v. None, \<lambda>t. Inr 0)\<rparr>"

definition example_variant_env :: "(severity_rows, tuple_state, unit) variant_env" where
  "example_variant_env = \<lparr>ve_env = example_env, ve_lo = \<lparr>lo_MaxBy_repositories = first_max, lo_MaxBy_variants = first_max\<rparr>,
     ve_variants = example_variant_db, ve_variant_codecs = no_codecs, ve_repositories = example_repository_db,
     ve_repository_codecs = no_codecs\<rparr>"

definition sample_variant :: "id64 \<Rightarrow> id64 \<Rightarrow> rat \<Rightarrow> IssueVariant" where
  "sample_variant i repo score = \<lparr>ivMeta = zero_metadata, ivId = i, ivIssueRepositoryId = repo, ivIssueRepository = None,
     ivSecondaryName = [], ivIssueId = 1, ivIssue = None,
     ivSeverity = \<lparr>sevValue = [], sevScore = score, sevVector = [], sevExternalUrl = []\<rparr>, ivDescription = [], ivExternalUrl = []\<rparr>"

definition example_repository :: "id64 \<Rightarrow> int \<Rightarrow> IssueRepository" where
  "example_repository i prio = \<lparr>irMeta = zero_metadata, irId = i, irName = [], irUrl = [],
     irIRS = \<lparr>irsMeta = zero_metadata, irsServiceId = 0, irsIssueRepositoryId = i, irsPriority = prio\<rparr>\<rparr>"

definition example_match :: "id64 \<Rightarrow> IssueMatch" where
  "example_match issue = \<lparr>imMeta = zero_metadata, imId = 0, imStatus = ''new'', imUserId = 0,
     imSeverity = \<lparr>sevValue = [], sevScore = 0, sevVector = [], sevExternalUrl = []\<rparr>, imComponentInstance = None,
     imComponentInstanceId = 4, imIssue = None, imIssueId = issue, imRemediationDate = 0, imTargetRemediationDate = 0\<rparr>"

text \<open>The repository of the variant with the lower score has the higher priority.\<close>

definition two_repositories :: severity_rows where
  "two_repositories = \<lparr>vr_variants = [sample_variant 1 1 9, sample_variant 2 2 5],
     vr_repositories = [example_repository 1 50, example_repository 2 100], vr_matches = []\<rparr>"

definition eleven_variants :: severity_rows where
  "eleven_variants = \<lparr>vr_variants = map (\<lambda>i. sample_variant i 1 (if i = 11 then 9 else 2)) [1..11],
     vr_repositories = [example_repository 1 100], vr_matches = []\<rparr>"

lemma example_variant_env_fields [simp]:
  "ve_env example_variant_env = example_env" "ve_variants example_variant_env = example_variant_db"
  "ve_repositories example_variant_env = example_repository_db"
  "lo_MaxBy_repositories (ve_lo example_variant_env) = first_max" "lo_MaxBy_variants (ve_lo example_variant_env) = first_max"
  by (simp_all add: example_variant_env_def)

lemma example_max_by:
  "max_by (lo_MaxBy_repositories (ve_lo example_variant_env))" "max_by (lo_MaxBy_variants (ve_lo example_variant_env))"
  by (simp_all add: lo_scan.max_by_axioms)

lemma two_repositories_rows:
  "ed_get example_variant_db two_repositories (severity_variants \<lparr>zfIssueMatchId = [], zfIssueId = [1]\<rparr>) [] =
     Inr [(FormatInt 1, sample_variant 1 1 9), (FormatInt 2, sample_variant 2 2 5)]"
  "ed_get example_variant_db two_repositories (severity_variants \<lparr>zfIssueMatchId = [], zfIssueId = [7]\<rparr>) [] = Inr []"
  "\<exists>rs. ed_get example_repository_db d g [] = Inr rs"
  "ed_get example_repository_db two_repositories (variant_repositories
      [(FormatInt 1, sample_variant 1 1 9), (FormatInt 2, sample_variant 2 2 5)]) [] =
     Inr [(FormatInt 1, example_repository 1 50), (FormatInt 2, example_repository 2 100)]"
  by (simp_all add: example_variant_db_def example_repository_db_def two_repositories_def severity_variants_def
      variant_repositories_def no_variant_filter_def no_repository_filter_def sample_variant_def example_repository_def)

theorem GetSeverity_is_effective_maximum_witness:
  "\<exists>sev. fst (GetSeverity example_variant_env \<lparr>zfIssueMatchId = [], zfIssueId = [1]\<rparr> (example_app two_repositories [])) = Inr (Some sev)
    \<and> sevScore sev = 5"
proof -
  let ?f = "\<lparr>zfIssueMatchId = [], zfIssueId = [1]\<rparr>" and ?s = "example_app two_repositories []"
  let ?vs = "[(FormatInt 1, sample_variant 1 1 9), (FormatInt 2, sample_variant 2 2 5)]"
  let ?rs = "[(FormatInt 1, example_repository 1 50), (FormatInt 2, example_repository 2 100)]"
  have v: "ed_get (ve_variants example_variant_env) (as_db ?s) (severity_variants ?f) [] = Inr ?vs"
    and r: "ed_get (ve_repositories example_variant_env) (as_db ?s) (variant_repositories ?vs) [] = Inr ?rs"
    using two_repositories_rows(1,4) by simp_all
  have e: "\<not> effective ?rs (sample_variant 1 1 9)" "effective ?rs (sample_variant 2 2 5)"
    by (simp_all add: effective_def sample_variant_def example_repository_def)
  have sc: "sevScore (ivSeverity (sample_variant 2 2 5)) = 5" by (simp add: sample_variant_def)
  have c: "ae_cache (ve_env example_variant_env) = None" by simp
  from GetSeverity_is_effective_maximum [OF example_max_by c v r] e sc show ?thesis
    by (auto split: sum.splits option.splits)
qed

theorem CreateIssueMatch_takes_effective_severity_witness:
  "\<exists>es. CreateIssueMatch example_variant_env example_match_db (example_match 7) (example_app two_repositories []) =
    (Inl (Panicked NilDereference), (example_app two_repositories [])\<lparr>as_events := es\<rparr>)"
proof -
  let ?s = "example_app two_repositories []"
  have v: "ed_get (ve_variants example_variant_env) (as_db ?s)
      (severity_variants \<lparr>zfIssueMatchId = [], zfIssueId = [imIssueId (example_match 7)]\<rparr>) [] = Inr []"
    using two_repositories_rows(2) by (simp add: example_match_def)
  obtain rs where r: "ed_get (ve_repositories example_variant_env) (as_db ?s) (variant_repositories []) [] = Inr rs"
    using two_repositories_rows(3) by (metis example_variant_env_fields(3))
  have w: "ed_create example_match_db (as_db ?s) x = (Inr (x\<lparr>imId := 1\<rparr>), two_repositories\<lparr>vr_matches := [x\<lparr>imId := 1\<rparr>]\<rparr>)" for x
    by (simp add: example_match_db_def two_repositories_def)
  have c: "ae_cache (ve_env example_variant_env) = None" by simp
  have u: "GetCurrentUserId (ae_ctx (ve_env example_variant_env)) (ae_users (ve_env example_variant_env) (as_db ?s)) = Inr 1"
    using example_env_user by simp
  from CreateIssueMatch_takes_effective_severity [OF example_max_by c v r u w] show ?thesis by simp
qed

theorem severity_from_first_ten_variants_witness:
  "\<exists>sev. fst (GetSeverity example_variant_env \<lparr>zfIssueMatchId = [], zfIssueId = [1]\<rparr> (example_app eleven_variants [])) = Inr (Some sev)
    \<and> sevScore sev < 3 \<and> (\<exists>v \<in> set (vr_variants eleven_variants). ivIssueId v = 1 \<and> sevScore (ivSeverity v) = 9)"
proof -
  let ?f = "\<lparr>zfIssueMatchId = [], zfIssueId = [1]\<rparr>" and ?s = "example_app eleven_variants []"
  let ?sel = "\<lambda>g. map (\<lambda>v. (FormatInt (ivId v), v)) (filter (\<lambda>v. wfIssueId g = [] \<or> ivIssueId v \<in> set (wfIssueId g)) (vr_variants eleven_variants))"
  have l: "[1..11] = [1, 2, 3, 4, 5, 6, 7, 8, 9, 10, 11::int]" by (simp add: upto.simps)
  have vs: "vr_variants eleven_variants = map (\<lambda>i. sample_variant i 1 2) [1, 2, 3, 4, 5, 6, 7, 8, 9, 10] @ [sample_variant 11 1 9]"
    by (simp add: eleven_variants_def l)
  have s: "?sel (severity_variants ?f) = map (\<lambda>i. (FormatInt i, sample_variant i 1 2)) [1, 2, 3, 4, 5, 6, 7, 8, 9, 10] @ [(FormatInt 11, sample_variant 11 1 9)]"
    unfolding vs by (simp add: severity_variants_def sample_variant_def)
  have first: "ed_get (ve_variants example_variant_env) (as_db ?s) g [] = Inr (take (nat n) (?sel g))" if "First (wfPage g) = Some n" for g n
    by (simp add: example_variant_db_def that)
  have repos: "\<exists>rs. ed_get (ve_repositories example_variant_env) (as_db ?s) g [] = Inr rs" for g
    using two_repositories_rows(3) by simp
  have small: "sevScore (ivSeverity (snd w)) < 3" if "w \<in> set (take 10 (?sel (severity_variants ?f)))" for w
    using that unfolding s by (auto simp: sample_variant_def)
  have c: "ae_cache (ve_env example_variant_env) = None" by simp
  have "First (wfPage (severity_variants ?f)) = Some 10" by (simp add: severity_variants_def)
  from first [OF this] have v: "ed_get (ve_variants example_variant_env) (as_db ?s) (severity_variants ?f) [] = Inr (take 10 (?sel (severity_variants ?f)))"
    by simp
  let ?vs = "take 10 (?sel (severity_variants ?f))"
  have r: "ed_get (ve_repositories example_variant_env) (as_db ?s) (variant_repositories ?vs) [] = Inr [(FormatInt 1, example_repository 1 100)]"
    unfolding s by (simp add: example_repository_db_def variant_repositories_def eleven_variants_def example_repository_def sample_variant_def)
  have "\<exists>v \<in> set ?vs. effective [(FormatInt 1, example_repository 1 100)] (snd v)"
    unfolding s by (simp add: effective_def example_repository_def sample_variant_def)
  then obtain sev where sev: "fst (GetSeverity example_variant_env ?f ?s) = Inr (Some sev)"
    by (rule_tac GetSeverity_outcome [OF example_max_by c v r]) auto
  from severity_from_first_ten_variants [OF example_max_by c first repos small sev]
  have "sevScore sev < 3" .
  moreover have "\<exists>v \<in> set (vr_variants eleven_variants). ivIssueId v = 1 \<and> sevScore (ivSeverity v) = 9"
    by (rule bexI [of _ "sample_variant 11 1 9"]) (simp_all add: vs, simp_all add: sample_variant_def)
  ultimately show ?thesis using sev by blast
qed

end
