(* ===== verification/Access_Control.thy ===== *)
theory Access_Control
  imports Authz_Events Service_Handler Group_User_Handlers Component_Handlers Issue_Handlers Severity_Handlers
begin

text \<open>
  What the handlers and the authorization handlers do together. A change is carried out, its event
  is pushed, the subscribed handlers of \<open>internal/app\<close> turn the event into relation tuples, and only
  the row read back afterwards is checked against the permission of the caller. The events that
  a request pushed are processed in order by \<open>process_events\<close>.
\<close>

definition process_events ::
  "('d, 'z, 'g) app_env \<Rightarrow> ('d, 'z, 'g) app_state \<Rightarrow> ('d, 'z, 'g) app_state \<Rightarrow> 'z" where
  "process_events env s t =
     fold (handle_event (ae_authz env) (SubscribeAuthzHandlers [])) (drop (length (as_events s)) (as_events t)) (as_authz t)"

lemma process_one:
  "process_events env s (s\<lparr>as_db := d, as_events := as_events s @ [e]\<rparr>) =
     handle_event (ae_authz env) (SubscribeAuthzHandlers []) e (as_authz s)"
  by (simp add: process_events_def)

lemma add_owner_handled:
  "handle_event az (SubscribeAuthzHandlers []) (AddOwnerToServiceEvent v ow) z =
     snd (az_AddRelationBulk az z [relation TypeUser ow RelOwner TypeService v])"
  by (simp add: handle_event_subscribed, simp add: authz_handlers_def OnAddOwnerToService_def)

lemma add_member_handled:
  "handle_event az (SubscribeAuthzHandlers []) (AddUserToSupportGroupEvent g u) z =
     snd (az_AddRelationBulk az z [relation TypeUser u RelMember TypeSupportGroup g])"
  by (simp add: handle_event_subscribed, simp add: authz_handlers_def OnAddUserToSupportGroup_def)


lemma store_add:
  "ae_authz env = Authz tuple_store \<Longrightarrow>
   tuple_of r \<in> set (ts_tuples (snd (az_AddRelationBulk (ae_authz env) z [r])))"
  by (simp add: Authz_def AddRelationBulk_store ts_present_def)

section \<open>Properties\<close>

text \<open>
  C26. A caller without permission to see a service who adds an owner to it gets
  \<open>PermissionDenied\<close>, but the owner is stored, and the pushed event gives that user, who may be the
  caller, the owner relation to the service.
\<close>

theorem denied_caller_grants_ownership:
  assumes "ae_authz env = Authz tuple_store"
    and "sdb_add_owner db (as_db s) i ow = (None, d)"
    and "GetCurrentUserId (ae_ctx env) (ae_users env d) = Inr caller"
    and "az_CheckPermission (ae_authz env) (as_authz s) \<lparr>riUserType = TypeUser, riUserId = UserIdFromInt caller,
      riRelation = RelCanView, riObjectType = TypeService, riObjectId = ObjectIdFromInt i\<rparr> = Inr False"
  shows "case AddOwnerToService env db cd i ow s of (r, t) \<Rightarrow>
    r = Inl (Failed (AppErr (PermissionDeniedError ''serviceHandler.GetService'' ''Service'' (FormatInt i))))
    \<and> as_db t = d
    \<and> (TypeUser @ '':'' @ FormatInt ow, RelOwner, TypeService @ '':'' @ FormatInt i) \<in> set (ts_tuples (process_events env s t))"
proof -
  have "AddOwnerToService env db cd i ow s =
    (Inl (Failed (AppErr (PermissionDeniedError ''serviceHandler.GetService'' ''Service'' (FormatInt i)))),
     s\<lparr>as_db := d, as_events := as_events s @ [AddOwnerToServiceEvent i ow]\<rparr>)"
    unfolding AddOwnerToService_def by (rule relate_denied) (rule assms(2-4))+
  then show ?thesis
    using store_add [OF assms(1), of "relation TypeUser ow RelOwner TypeService i"]
    by (simp add: process_one add_owner_handled tuple_of_relation)
qed

text \<open>
  In the same way a caller who may not see a support group makes a user, for example
  themselves, a member of it, in the database and in the authorization store.
\<close>

theorem denied_caller_joins_support_group:
  assumes "ae_authz env = Authz tuple_store"
    and "gdb_add_user db (as_db s) i user = (None, d)"
    and "GetCurrentUserId (ae_ctx env) (ae_users env d) = Inr caller"
    and "az_CheckPermission (ae_authz env) (as_authz s) \<lparr>riUserType = TypeUser, riUserId = UserIdFromInt caller,
      riRelation = RelCanView, riObjectType = TypeSupportGroup, riObjectId = ObjectIdFromInt i\<rparr> = Inr False"
  shows "case AddUserToSupportGroup env db i user s of (r, t) \<Rightarrow>
    r = Inl (Failed (AppErr (PermissionDeniedError ''supportGroupHandler.GetSupportGroup'' ''SupportGroups'' (FormatInt i))))
    \<and> as_db t = d
    \<and> (TypeUser @ '':'' @ FormatInt user, RelMember, TypeSupportGroup @ '':'' @ FormatInt i) \<in> set (ts_tuples (process_events env s t))"
  using store_add [OF assms(1), of "relation TypeUser user RelMember TypeSupportGroup i"]
  by (simp add: AddUserToSupportGroup_denied [OF assms(2-4)] process_one add_member_handled tuple_of_relation)


text \<open>
  Every handler that lists or reads leaves the database and the authorization store as they
  are and only adds to the events, whatever the cache, the request and the answers are.
\<close>

theorem reading_handlers_only_read:
  "only_reads (ListServices env sdb scd sf so) \<and> only_reads (GetService env sdb scd i)
    \<and> only_reads (ListSupportGroups env gdb gf lo) \<and> only_reads (GetSupportGroup env gdb i)
    \<and> only_reads (ListUsers env udb ucd uf lo)
    \<and> only_reads (ListComponents env cdb ccd cf co) \<and> only_reads (ListComponentVersions env vdb vcd vf lo)
    \<and> only_reads (ListComponentInstances env ndb ncd nf lo)
    \<and> only_reads (ListIssues env idb icd isf io) \<and> only_reads (GetIssue env idb icd i)
    \<and> only_reads (ListIssueRepositories env rdb rcd rf lo) \<and> only_reads (ListIssueVariants env wdb wcd xf lo)
    \<and> only_reads (GetSeverity ve zf) \<and> only_reads (ListIssueMatches env mdb mcd mf lo)
    \<and> only_reads (GetIssueMatch env mdb mcd i) \<and> only_reads (ListPatches env pdb pcd pf lo)"
  by (intro conjI reading)

section \<open>Examples\<close>

definition members_db :: "(id64 \<times> id64) list group_db" where
  "members_db =
     \<lparr>ed_get = (\<lambda>d f ord. Inr []), ed_cursors = (\<lambda>d f ord. Inr []), ed_count = (\<lambda>d f. Inr 0),
      ed_create = (\<lambda>d g. (Inr g, d)), ed_update = (\<lambda>d g. (None, d)),
      ed_delete = (\<lambda>d i u. (None, filter (\<lambda>(g, m). g \<noteq> i) d)),
      gdb_add_service = (\<lambda>d i v. (None, d)), gdb_remove_service = (\<lambda>d i v. (None, d)),
      gdb_add_user = (\<lambda>d i u. (None, d @ [(i, u)])), gdb_remove_user = (\<lambda>d i u. (None, removeAll (i, u) d)),
      gdb_ccrns = (\<lambda>d f. Inr [])\<rparr>"

lemma store_denies:
  "az_CheckPermission (ae_authz example_env) (as_authz (example_app d [])) \<lparr>riUserType = TypeUser, riUserId = UserIdFromInt 1,
     riRelation = RelCanView, riObjectType = ot, riObjectId = ObjectIdFromInt i\<rparr> = Inr False"
  by (simp add: Authz_def CheckPermission_def tuple_store_def)

theorem denied_caller_grants_ownership_witness:
  "case AddOwnerToService example_env example_service_db example_service_codecs 2 1 (example_app example_rows []) of (r, t) \<Rightarrow>
    (\<exists>e. r = Inl (Failed e)) \<and> sr_owners (as_db t) = [(2, 1)]
    \<and> (''user:1'', ''owner'', ''service:2'') \<in> set (ts_tuples (process_events example_env (example_app example_rows []) t))"
proof -
  let ?s = "example_app example_rows []"
  have a: "sdb_add_owner example_service_db (as_db ?s) 2 1 = (None, example_rows\<lparr>sr_owners := [(2, 1)]\<rparr>)"
    by (simp add: example_service_db_def example_rows_def)
  have i: "FormatInt 2 = ''2''" "FormatInt 1 = ''1''" by code_simp+
  from denied_caller_grants_ownership [OF example_env_fields(1) a example_env_user store_denies, of example_service_codecs]
  show ?thesis by (auto simp: i type_defs rel_defs split: prod.splits)
qed

theorem denied_caller_joins_support_group_witness:
  "case AddUserToSupportGroup example_env members_db 4 1 (example_app [] []) of (r, t) \<Rightarrow>
    (\<exists>e. r = Inl (Failed e)) \<and> as_db t = [(4, 1)]
    \<and> (''user:1'', ''member'', ''support_group:4'') \<in> set (ts_tuples (process_events example_env (example_app [] []) t))"
proof -
  have a: "gdb_add_user members_db (as_db (example_app [] [])) 4 1 = (None, [(4, 1)])"
    by (simp add: members_db_def)
  have i: "FormatInt 4 = ''4''" "FormatInt 1 = ''1''" by code_simp+
  from denied_caller_joins_support_group [OF example_env_fields(1) a example_env_user store_denies]
  show ?thesis by (auto simp: i type_defs rel_defs split: prod.splits)
qed


end
