(* ===== verification/Default_Repositories.thy ===== *)
theory Default_Repositories
  imports Service_Handler Severity_Handlers
begin

text \<open>
  The links between services and issue repositories that events create: a new service gets the
  repository with the configured default name (\<open>OnServiceCreate\<close> of
  \<open>internal/app/service/service_handler_events.go\<close>), a new repository is linked to the existing services
  (\<open>OnIssueRepositoryCreate\<close> of \<open>internal/app/issue_repository\<close>). Both use the default priority and
  only log their errors.
\<close>

record 'd default_db =
  dd_priority :: int
  dd_repository_name :: string
  dd_services :: "'d service_db"
  dd_repositories :: "'d repository_db"

definition OnServiceCreate :: "'d default_db \<Rightarrow> 'd \<Rightarrow> app_event \<Rightarrow> 'd" where
  "OnServiceCreate db d e = (case e of
     CreateServiceEvent svc \<Rightarrow>
       (case ed_get (dd_repositories db) d (no_repository_filter\<lparr>yfName := [dd_repository_name db]\<rparr>) [] of
          Inl err \<Rightarrow> d
        | Inr [] \<Rightarrow> d
        | Inr (r # rs) \<Rightarrow> snd (sdb_add_repository (dd_services db) d (svcId svc) (irId (snd r)) (dd_priority db)))
   | _ \<Rightarrow> d)"

definition OnIssueRepositoryCreate :: "'d default_db \<Rightarrow> 'd \<Rightarrow> app_event \<Rightarrow> 'd" where
  "OnIssueRepositoryCreate db d e = (case e of
     CreateIssueRepositoryEvent repo \<Rightarrow>
       (case ed_get (dd_services db) d no_service_filter [] of
          Inl err \<Rightarrow> d
        | Inr services \<Rightarrow>
            fold (\<lambda>srv d. snd (sdb_add_repository (dd_services db) d (svcId (snd srv)) (irId repo) (dd_priority db))) services d)
   | _ \<Rightarrow> d)"

section \<open>Links\<close>

text \<open>
  The links of a database as a set; adding fails for some pairs, for example for those that exist
  or refer to a deleted row, and then changes nothing.
\<close>

locale repository_links =
  fixes db :: "'d default_db" and links :: "'d \<Rightarrow> (id64 \<times> id64 \<times> int) set" and refused :: "id64 \<Rightarrow> id64 \<Rightarrow> bool"
  assumes add_link: "links (snd (sdb_add_repository (dd_services db) d v r p)) =
      (if refused v r then links d else insert (v, r, p) (links d))"
begin

lemma fold_links:
  "links (fold (\<lambda>srv d. snd (sdb_add_repository (dd_services db) d (svcId (snd srv)) r p)) services d) =
     links d \<union> (\<lambda>v. (v, r, p)) ` {v \<in> (svcId \<circ> snd) ` set services. \<not> refused v r}"
  by (induction services arbitrary: d) (auto simp: add_link)

lemma service_created:
  "links (OnServiceCreate db d (CreateServiceEvent svc)) = links d \<union>
     (case ed_get (dd_repositories db) d (no_repository_filter\<lparr>yfName := [dd_repository_name db]\<rparr>) [] of
        Inr (r # rs) \<Rightarrow> (if refused (svcId svc) (irId (snd r)) then {} else {(svcId svc, irId (snd r), dd_priority db)})
      | _ \<Rightarrow> {})"
  by (auto simp: OnServiceCreate_def add_link split: sum.split list.split)

lemma repository_created:
  assumes "ed_get (dd_services db) d no_service_filter [] = Inr services"
  shows "links (OnIssueRepositoryCreate db d (CreateIssueRepositoryEvent repo)) = links d \<union>
     (\<lambda>v. (v, irId repo, dd_priority db)) ` {v \<in> (svcId \<circ> snd) ` set services. \<not> refused v (irId repo)}"
  by (simp add: OnIssueRepositoryCreate_def assms fold_links)

end

text \<open>A database of rows that refuses a second link of the same pair, and never more rows than its limit.\<close>

record link_rows =
  lr_services :: "Service list"
  lr_repositories :: "IssueRepository list"
  lr_links :: "(id64 \<times> id64 \<times> int) list"

definition page_limit :: "Paginated \<Rightarrow> nat" where
  "page_limit p = (case First p of None \<Rightarrow> 1000 | Some n \<Rightarrow> nat n)"

definition link_service_db :: "id64 list \<Rightarrow> link_rows service_db" where
  "link_service_db deleted =
     \<lparr>ed_get = (\<lambda>d f ord. Inr (take (page_limit (sfPage f)) (map (\<lambda>v. (FormatInt (svcId v), v)) (lr_services d)))),
      ed_cursors = (\<lambda>d f ord. Inr []), ed_count = (\<lambda>d f. Inr (int (length (lr_services d)))),
      ed_create = (\<lambda>d v. (Inr v, d\<lparr>lr_services := lr_services d @ [v]\<rparr>)), ed_update = (\<lambda>d v. (None, d)),
      ed_delete = (\<lambda>d i u. (None, d)), sdb_get_aggregated = (\<lambda>d f ord. Inr []),
      sdb_add_owner = (\<lambda>d i u. (None, d)), sdb_remove_owner = (\<lambda>d i u. (None, d)),
      sdb_add_repository = (\<lambda>d v r p. if v \<in> set deleted then (Some (ErrVal ''mysql'' ''foreign key''), d)
          else (None, d\<lparr>lr_links := lr_links d @ [(v, r, p)]\<rparr>)),
      sdb_remove_repository = (\<lambda>d i r. (None, d)), sdb_attribute = (\<lambda>n d f. Inr []), sdb_owners = (\<lambda>d is. Inr []),
      sdb_support_groups = (\<lambda>d is. Inr []), sdb_issue_counts = (\<lambda>d is. Inr [])\<rparr>"

definition link_repository_db :: "link_rows repository_db" where
  "link_repository_db =
     \<lparr>ed_get = (\<lambda>d f ord. Inr (take (page_limit (yfPage f)) (map (\<lambda>r. (FormatInt (irId r), r))
         (filter (\<lambda>r. yfName f = [] \<or> irName r \<in> set (yfName f)) (lr_repositories d))))),
      ed_cursors = (\<lambda>d f ord. Inr []), ed_count = (\<lambda>d f. Inr (int (length (lr_repositories d)))),
      ed_create = (\<lambda>d r. (Inr r, d\<lparr>lr_repositories := lr_repositories d @ [r]\<rparr>)), ed_update = (\<lambda>d r. (None, d)),
      ed_delete = (\<lambda>d i u. (None, d))\<rparr>"

definition link_db :: "id64 list \<Rightarrow> link_rows default_db" where
  "link_db deleted = \<lparr>dd_priority = 100, dd_repository_name = ''nvd'', dd_services = link_service_db deleted,
     dd_repositories = link_repository_db\<rparr>"

interpretation link_store: repository_links "link_db deleted" "\<lambda>d. set (lr_links d)" "\<lambda>v r. v \<in> set deleted"
  by unfold_locales (simp add: link_db_def link_service_db_def)

section \<open>Properties\<close>

text \<open>
  A new service is linked with the default priority to the first repository with the default
  name and to no other, and to none when there is no such repository, the query fails or the link
  is refused.
\<close>

theorem new_service_gets_default_repository:
  assumes "repository_links db links refused"
  shows "links (OnServiceCreate db d (CreateServiceEvent svc)) = links d \<union>
     (case ed_get (dd_repositories db) d (no_repository_filter\<lparr>yfName := [dd_repository_name db]\<rparr>) [] of
        Inr (r # rs) \<Rightarrow> (if refused (svcId svc) (irId (snd r)) then {} else {(svcId svc, irId (snd r), dd_priority db)})
      | _ \<Rightarrow> {})"
  by (rule repository_links.service_created [OF assms])

theorem new_service_gets_default_repository_witness:
  "set (lr_links (OnServiceCreate (link_db []) \<lparr>lr_services = [], lr_repositories = [(example_repository 3 0)\<lparr>irName := ''ghsa''\<rparr>,
      (example_repository 4 0)\<lparr>irName := ''nvd''\<rparr>], lr_links = []\<rparr> (CreateServiceEvent (example_service 9 ''dns''))))
    = {(9, 4, 100)}"
  using new_service_gets_default_repository [OF link_store.repository_links_axioms, of "[]"
      "\<lparr>lr_services = [], lr_repositories = [(example_repository 3 0)\<lparr>irName := ''ghsa''\<rparr>,
        (example_repository 4 0)\<lparr>irName := ''nvd''\<rparr>], lr_links = []\<rparr>" "example_service 9 ''dns''"]
  by (simp add: link_db_def link_repository_db_def no_repository_filter_def page_limit_def example_repository_def
      example_service_def)

text \<open>
  A new repository is linked with the default priority to each of the first thousand services
  whose link is not refused, and a refused link does not stop the others; the services after the
  first thousand are not linked.
\<close>

theorem new_repository_reaches_first_thousand:
  assumes "repository_links db links refused"
    and "ed_get (dd_services db) d no_service_filter [] = Inr (take 1000 rows)"
  shows "links (OnIssueRepositoryCreate db d (CreateIssueRepositoryEvent repo)) = links d \<union>
     (\<lambda>v. (v, irId repo, dd_priority db)) ` {v \<in> (svcId \<circ> snd) ` set (take 1000 rows). \<not> refused v (irId repo)}"
  by (rule repository_links.repository_created [OF assms])

theorem new_repository_reaches_first_thousand_witness:
  "set (lr_links (OnIssueRepositoryCreate (link_db [2]) \<lparr>lr_services = [example_service 1 ''a'', example_service 2 ''b'',
      example_service 3 ''c''], lr_repositories = [], lr_links = []\<rparr> (CreateIssueRepositoryEvent (example_repository 5 0))))
    = {(1, 5, 100), (3, 5, 100)}"
proof -
  let ?svcs = "[example_service 1 ''a'', example_service 2 ''b'', example_service 3 ''c'']"
  let ?d = "\<lparr>lr_services = ?svcs, lr_repositories = [], lr_links = []\<rparr>"
  have "ed_get (dd_services (link_db [2])) ?d no_service_filter [] = Inr (take 1000 (map (\<lambda>v. (FormatInt (svcId v), v)) ?svcs))"
    by (simp add: link_db_def link_service_db_def page_limit_def no_service_filter_def)
  note l = new_repository_reaches_first_thousand [OF link_store.repository_links_axioms this, of "example_repository 5 0"]
  have v: "{v \<in> (svcId \<circ> snd) ` set (take 1000 (map (\<lambda>v. (FormatInt (svcId v), v)) ?svcs)). v \<notin> set [2]} = {1, 3}"
    by (auto simp: example_service_def)
  have c: "irId (example_repository 5 0) = 5" "dd_priority (link_db [2]) = 100" "set (lr_links ?d) = {}"
    by (simp_all add: example_repository_def link_db_def)
  show ?thesis unfolding l v c by simp
qed

end
