(* ===== verification/Db_Object.thy ===== *)
theory Db_Object
  imports Join_Resolver Pagination App_Errors
begin

text \<open>
  The generic object of the SQL layer (\<open>internal/database/mariadb/db_object.go\<close>): a table with its
  properties, filters, joins and attributes, and the statements built from them. A statement is a
  record of what the query builder (squirrel) is given; its text and its execution are outside.
\<close>

section \<open>Objects\<close>

text \<open>A property is a column with its value and whether an update writes it.\<close>

record 'e Property =
  prName :: string
  prAccess :: "'e \<Rightarrow> fparam \<times> bool"

definition NoUpdate :: bool where "NoUpdate = False"

definition NewProperty :: "string \<Rightarrow> ('e \<Rightarrow> fparam \<times> bool) \<Rightarrow> 'e Property" where
  "NewProperty name access = \<lparr>prName = name, prAccess = access\<rparr>"

definition GetName :: "'e Property \<Rightarrow> string" where "GetName p = prName p"
definition GetValue :: "'e Property \<Rightarrow> 'e \<Rightarrow> fparam" where "GetValue p e = fst (prAccess p e)"
definition GetUpdateData :: "'e Property \<Rightarrow> 'e \<Rightarrow> fparam \<times> bool" where "GetUpdateData p e = prAccess p e"

record Attr =
  atName :: string
  atOrder :: entity_order

record ('e, 'f) DbObject =
  dbPrefix :: string
  dbTableName :: string
  dbTableKey :: string
  dbDefaultOrder :: entity_order
  dbOrderPrefix :: string
  dbProperties :: "'e Property list"
  dbFilterProperties :: "'f FilterProperty list"
  dbJoinDefs :: "'f JoinDef list"
  dbAttributes :: "Attr list"
  dbAggregated :: bool
  dbExtraColumns :: "('f \<Rightarrow> sql_order \<Rightarrow> string list) option"
  dbForceFrom :: string

section \<open>Statements that change rows\<close>

datatype set_value = SetParam fparam | SetExpr string

record insert_stmt =
  ins_table :: string
  ins_columns :: "string list"
  ins_values :: "fparam list"

text \<open>The clauses of \<open>SetMap\<close> and the equalities of \<open>Eq\<close> are maps.\<close>

record update_stmt =
  upd_table :: string
  upd_set :: "string \<rightharpoonup> set_value"
  upd_where :: "string \<rightharpoonup> fparam"

record delete_stmt =
  del_table :: string
  del_where :: "string \<rightharpoonup> fparam"

text \<open>Executing a statement: an insertion returns the id of the new row.\<close>

record 'd sql_exec =
  ex_insert :: "insert_stmt \<Rightarrow> 'd \<Rightarrow> (goerr + id64) \<times> 'd"
  ex_update :: "update_stmt \<Rightarrow> 'd \<Rightarrow> goerr option \<times> 'd"
  ex_delete :: "delete_stmt \<Rightarrow> 'd \<Rightarrow> goerr option \<times> 'd"
  ex_number :: "goerr \<Rightarrow> int option"

definition int_param :: "int \<Rightarrow> fparam" where "int_param i = PVal (IntV i)"

definition InsertQuery :: "('e, 'f) DbObject \<Rightarrow> 'e \<Rightarrow> insert_stmt" where
  "InsertQuery ob entityItem =
     \<lparr>ins_table = dbTableName ob, ins_columns = map GetName (dbProperties ob),
      ins_values = map (\<lambda>p. GetValue p entityItem) (dbProperties ob)\<rparr>"

definition not_allowed :: "string \<Rightarrow> ('e, 'f) DbObject \<Rightarrow> go_panic" where
  "not_allowed name ob = ExplicitPanic (''database.'' @ name @ '' ('' @ dbTableName ob @ '') - not allowed'')"

definition has_prefix :: "string \<Rightarrow> string \<Rightarrow> bool" where
  "has_prefix p s \<longleftrightarrow> take (length p) s = p"

text \<open>Errors of the driver are returned as their text.\<close>

definition exec_text :: "goerr \<Rightarrow> goerr" where
  "exec_text e = ErrVal ''fmt'' (error_text e)"

definition Create :: "'d sql_exec \<Rightarrow> (id64 \<Rightarrow> 'e \<Rightarrow> 'e) \<Rightarrow> ('e, 'f) DbObject \<Rightarrow> 'e \<Rightarrow> 'd \<Rightarrow> ((goerr + 'e) \<times> 'd) go" where
  "Create ex setId ob entityItem d =
     (if dbTableName ob = [] \<or> dbPrefix ob = [] then Inl (not_allowed ''Create'' ob)
      else case ex_insert ex (InsertQuery ob entityItem) d of
        (Inl e, d') \<Rightarrow>
          (let e' = exec_text e
           in if has_prefix ''Error 1062'' (error_text e')
              then Inr (Inl (ErrVal ''DuplicateEntryDatabaseError'' (dbTableName ob @ '' element already exists'')), d')
              else Inr (Inl e', d'))
      | (Inr i, d') \<Rightarrow> Inr (Inr (setId i entityItem), d'))"

definition getUpdateMap :: "('e, 'f) DbObject \<Rightarrow> 'e \<Rightarrow> string \<rightharpoonup> fparam" where
  "getUpdateMap ob e =
     fold (\<lambda>v m. case GetUpdateData v e of (val, isUpdatePresent) \<Rightarrow>
        if isUpdatePresent then m(GetName v \<mapsto> val) else m) (dbProperties ob) Map.empty"

definition update_query :: "('e, 'f) DbObject \<Rightarrow> (string \<rightharpoonup> set_value) \<Rightarrow> id64 \<Rightarrow> update_stmt" where
  "update_query ob sets i =
     \<lparr>upd_table = dbTableName ob, upd_set = sets, upd_where = [dbPrefix ob @ ''_id'' \<mapsto> int_param i]\<rparr>"

text \<open>The builder refuses an update without clauses.\<close>

definition exec_update :: "'d sql_exec \<Rightarrow> update_stmt \<Rightarrow> 'd \<Rightarrow> goerr option \<times> 'd" where
  "exec_update ex stmt d =
     (if upd_set stmt = Map.empty then (Some (ErrVal ''squirrel'' ''update statements must have at least one Set clause''), d)
      else case ex_update ex stmt d of (e, d') \<Rightarrow> (map_option exec_text e, d'))"

definition Update :: "'d sql_exec \<Rightarrow> ('e \<Rightarrow> id64) \<Rightarrow> ('e, 'f) DbObject \<Rightarrow> 'e \<Rightarrow> 'd \<Rightarrow> (goerr option \<times> 'd) go" where
  "Update ex getId ob entityItem d =
     (if dbTableName ob = [] \<or> dbPrefix ob = [] then Inl (not_allowed ''Create'' ob)
      else Inr (exec_update ex
        (update_query ob (\<lambda>c. map_option SetParam (getUpdateMap ob entityItem c)) (getId entityItem)) d))"

definition Delete :: "'d sql_exec \<Rightarrow> ('e, 'f) DbObject \<Rightarrow> id64 \<Rightarrow> id64 \<Rightarrow> 'd \<Rightarrow> (goerr option \<times> 'd) go" where
  "Delete ex ob i user d =
     (if dbTableName ob = [] \<or> dbPrefix ob = [] then Inl (not_allowed ''Delete'' ob)
      else Inr (exec_update ex
        (update_query ob [dbPrefix ob @ ''_deleted_at'' \<mapsto> SetExpr ''NOW()'',
           dbPrefix ob @ ''_updated_by'' \<mapsto> SetParam (int_param user)] i) d))"

text \<open>Links between rows; a link that exists already is not an error.\<close>

definition ErrCodeDuplicateEntry :: int where "ErrCodeDuplicateEntry = 1062"

definition exec_link :: "'d sql_exec \<Rightarrow> insert_stmt \<Rightarrow> 'd \<Rightarrow> goerr option \<times> 'd" where
  "exec_link ex stmt d =
     (case ex_insert ex stmt d of
        (Inl e, d') \<Rightarrow> (if ex_number ex e = Some ErrCodeDuplicateEntry then None else Some e, d')
      | (Inr i, d') \<Rightarrow> (None, d'))"

definition AssociateId :: "'d sql_exec \<Rightarrow> string \<Rightarrow> string \<Rightarrow> string \<Rightarrow> id64 \<Rightarrow> string \<Rightarrow> id64 \<Rightarrow> 'd \<Rightarrow> goerr option \<times> 'd" where
  "AssociateId ex tableName tablePrefix prefix1 id1 prefix2 id2 =
     exec_link ex \<lparr>ins_table = tableName,
       ins_columns = [tablePrefix @ ''_'' @ prefix1 @ ''_id'', tablePrefix @ ''_'' @ prefix2 @ ''_id''],
       ins_values = [int_param id1, int_param id2]\<rparr>"

definition AssociateIdWithVal ::
  "'d sql_exec \<Rightarrow> string \<Rightarrow> string \<Rightarrow> string \<Rightarrow> id64 \<Rightarrow> string \<Rightarrow> id64 \<Rightarrow> string \<Rightarrow> int \<Rightarrow> 'd \<Rightarrow> goerr option \<times> 'd" where
  "AssociateIdWithVal ex tableName tablePrefix prefix1 id1 prefix2 id2 valName val =
     exec_link ex \<lparr>ins_table = tableName,
       ins_columns = [tablePrefix @ ''_'' @ prefix1 @ ''_id'', tablePrefix @ ''_'' @ prefix2 @ ''_id'', tablePrefix @ ''_'' @ valName],
       ins_values = [int_param id1, int_param id2, int_param val]\<rparr>"

definition DissociateId :: "'d sql_exec \<Rightarrow> string \<Rightarrow> string \<Rightarrow> string \<Rightarrow> id64 \<Rightarrow> string \<Rightarrow> id64 \<Rightarrow> 'd \<Rightarrow> goerr option \<times> 'd" where
  "DissociateId ex tableName tablePrefix prefix1 id1 prefix2 id2 =
     ex_delete ex \<lparr>del_table = tableName,
       del_where = [tablePrefix @ ''_'' @ prefix1 @ ''_id'' \<mapsto> int_param id1, tablePrefix @ ''_'' @ prefix2 @ ''_id'' \<mapsto> int_param id2]\<rparr>"

definition DissociateAllIds :: "'d sql_exec \<Rightarrow> string \<Rightarrow> string \<Rightarrow> string \<Rightarrow> id64 \<Rightarrow> 'd \<Rightarrow> goerr option \<times> 'd" where
  "DissociateAllIds ex tableName tablePrefix prefix i =
     ex_delete ex \<lparr>del_table = tableName, del_where = [tablePrefix @ ''_'' @ prefix @ ''_id'' \<mapsto> int_param i]\<rparr>"

section \<open>Queries\<close>

record select_stmt =
  st_columns :: "string list"
  st_from :: string
  st_group :: "string list"
  st_joins :: "string list"
  st_parts :: select_parts
  st_order :: "string list"

definition no_parts :: select_parts where
  "no_parts = \<lparr>where_parts = [], having_parts = [], limit = None\<rparr>"

definition Select :: "string list \<Rightarrow> select_stmt" where
  "Select cols = \<lparr>st_columns = cols, st_from = [], st_group = [], st_joins = [], st_parts = no_parts, st_order = []\<rparr>"

definition getAttrStr :: "('e, 'f) DbObject \<Rightarrow> string \<Rightarrow> string" where
  "getAttrStr ob attrName = dbTableKey ob @ ''.'' @ dbPrefix ob @ ''_'' @ attrName"

definition selectColumns :: "('e, 'f) DbObject \<Rightarrow> string list \<Rightarrow> 'f \<Rightarrow> sql_order \<Rightarrow> string list" where
  "selectColumns ob s0 f ord = (case dbExtraColumns ob of None \<Rightarrow> s0 | Some extra \<Rightarrow> s0 @ extra f ord)"

definition getSelectBuilder :: "('e, 'f) DbObject \<Rightarrow> 'f \<Rightarrow> sql_order \<Rightarrow> select_stmt" where
  "getSelectBuilder ob f ord =
     Select (selectColumns ob (if dbTableKey ob \<noteq> [] then [dbTableKey ob @ ''.*''] else []) f ord)"

definition countSelectBuilder :: "('e, 'f) DbObject \<Rightarrow> select_stmt" where
  "countSelectBuilder ob = Select [''count(distinct '' @ getAttrStr ob ''id'' @ '')'']"

definition fromBuilder :: "('e, 'f) DbObject \<Rightarrow> select_stmt \<Rightarrow> select_stmt" where
  "fromBuilder ob q = q\<lparr>st_from :=
     (if dbForceFrom ob \<noteq> [] then dbForceFrom ob
      else if dbTableKey ob \<noteq> [] then dbTableName ob @ '' '' @ dbTableKey ob
      else dbTableName ob)\<rparr>"

definition groupByBuilder :: "('e, 'f) DbObject \<Rightarrow> select_stmt \<Rightarrow> select_stmt" where
  "groupByBuilder ob q = (if dbTableKey ob \<noteq> [] then q\<lparr>st_group := st_group q @ [getAttrStr ob ''id'']\<rparr> else q)"

text \<open>
  \<open>BuildQuery\<close> on a filter with its page; the decoder of cursors is an argument. The result is
  \<open>None\<close> only without fuel for the joins, a panic, an error of the decoder, or the statement.
\<close>

definition BuildQuery_object ::
  "nat \<Rightarrow> (string \<Rightarrow> goerr + Field list) \<Rightarrow> ('e, 'f) DbObject \<Rightarrow> select_stmt \<Rightarrow> 'f \<Rightarrow> Paginated \<Rightarrow> sql_order \<Rightarrow> bool
   \<Rightarrow> string list \<Rightarrow> (goerr + select_stmt) go option" where
  "BuildQuery_object fuel decode ob baseQuery f page ord withCursor forcedJoin =
     map_option (\<lambda>joins. bindR joins (\<lambda>js. bindR (AddFilter (dbFilterProperties ob) f (st_parts baseQuery)) (\<lambda>parts.
       let qb = baseQuery\<lparr>st_joins := st_joins baseQuery @ js, st_parts := parts\<rparr>
       in if withCursor then
            (case decode (case PAfter page of None \<Rightarrow> [] | Some a \<Rightarrow> a) of
               Inl e \<Rightarrow> Inr (Inl (WrapErr ''failed to decode cursor: '' e))
             | Inr cursorFields \<Rightarrow>
                 Inr (Inr (qb\<lparr>st_parts := AddCursor (dbAggregated ob)
                     (Some (case First page of None \<Rightarrow> 1000 | Some n \<Rightarrow> n)) cursorFields parts,
                   st_order := st_order qb @ [ToSql ord]\<rparr>)))
          else Inr (Inr (qb\<lparr>st_order := st_order qb @ [ToSql ord]\<rparr>)))))
     (Build fuel (dbJoinDefs ob) forcedJoin f ord)"

definition guarded :: "bool \<Rightarrow> string \<Rightarrow> ('e, 'f) DbObject \<Rightarrow> 'a go option \<Rightarrow> 'a go option" where
  "guarded ok name ob q = (if ok then q else Some (Inl (not_allowed name ob)))"

definition build_error :: "string \<Rightarrow> ('e, 'f) DbObject \<Rightarrow> (goerr + 'a) go option \<Rightarrow> (goerr + 'a) go option" where
  "build_error what ob = map_option (map_sum id (map_sum (WrapErr (''failed to build '' @ dbTableName ob @ '' '' @ what @ '' query: '')) id))"

definition named :: "('e, 'f) DbObject \<Rightarrow> bool" where
  "named ob \<longleftrightarrow> dbTableName ob \<noteq> [] \<and> dbTableKey ob \<noteq> [] \<and> dbPrefix ob \<noteq> []"

definition Get where
  "Get fuel decode ob f page order =
     (let ord = NewOrderWithCounterPrefix order (dbDefaultOrder ob) (dbOrderPrefix ob)
      in guarded (dbTableName ob \<noteq> [] \<and> (dbTableKey ob \<noteq> [] \<longrightarrow> dbPrefix ob \<noteq> [])) ''Get'' ob
           (build_error ''Get'' ob (BuildQuery_object fuel decode ob (groupByBuilder ob (fromBuilder ob (getSelectBuilder ob f ord))) f page ord True [])))"

definition GetAllCursors where
  "GetAllCursors fuel decode ob f page order =
     (let ord = NewOrderWithCounterPrefix order (dbDefaultOrder ob) (dbOrderPrefix ob)
      in guarded (named ob) ''GetAllCursors'' ob
           (build_error ''GetAllCursors'' ob (BuildQuery_object fuel decode ob (groupByBuilder ob (fromBuilder ob (getSelectBuilder ob f ord))) f page ord False [])))"

definition Count where
  "Count fuel decode ob f page =
     guarded (named ob) ''Count'' ob
       (build_error ''count'' ob (BuildQuery_object fuel decode ob (fromBuilder ob (countSelectBuilder ob)) f page (NewOrder [] (dbDefaultOrder ob)) False []))"

definition GetAllIds where
  "GetAllIds fuel decode ob f page =
     guarded (named ob) ''GetAllIds'' ob
       (build_error ''GetAllIds'' ob (BuildQuery_object fuel decode ob (groupByBuilder ob (fromBuilder ob (Select [getAttrStr ob ''id'']))) f page
          (NewOrder [] (dbDefaultOrder ob)) False []))"

definition GetAttr where
  "GetAttr fuel decode ob attrName f page =
     guarded (named ob) ''GetAttr'' ob
       (case find (\<lambda>x. atName x = attrName) (dbAttributes ob) of
          None \<Rightarrow> Some (Inl (ExplicitPanic (''database.GetAttr ('' @ dbTableName ob @ '') - not allowed for: '' @ [CHR 0x27]
            @ attrName @ [CHR 0x27])))
        | Some attr \<Rightarrow>
            build_error ''queryAttr'' ob (BuildQuery_object fuel decode ob (fromBuilder ob (Select [getAttrStr ob (atName attr)])) f page
              (NewOrder [] (atOrder attr)) False []))"

text \<open>An aggregated list: one query per aggregation, joined under names.\<close>

record Aggregation =
  agTable :: string
  agTableKey :: string
  agColumns :: "string list"
  agForcedJoins :: "string list"

record AggregationDef =
  adAggregations :: "Aggregation list"
  adFrom :: string
  adJoins :: "string list"
  adOrderByPrefix :: string

record with_stmt =
  ws_queries :: "(string \<times> select_stmt) list"
  ws_columns :: "string list"
  ws_from :: string
  ws_joins :: "string list"
  ws_order :: "string list"

fun aggregation_queries ::
  "(Aggregation \<Rightarrow> (goerr + select_stmt) go option) \<Rightarrow> Aggregation list \<Rightarrow> (goerr + (string \<times> select_stmt) list) go option" where
  "aggregation_queries build [] = Some (Inr (Inr []))"
| "aggregation_queries build (a # as) =
     (case build a of
        None \<Rightarrow> None
      | Some (Inl p) \<Rightarrow> Some (Inl p)
      | Some (Inr (Inl e)) \<Rightarrow> Some (Inr (Inl e))
      | Some (Inr (Inr q)) \<Rightarrow> map_option (map_sum id (map_sum id (\<lambda>qs. (agTable a, q) # qs))) (aggregation_queries build as))"

definition GetWithAggregations where
  "GetWithAggregations fuel decode ob aggDef f page order =
     (let ord = NewOrder order (dbDefaultOrder ob);
          baseQuery = groupByBuilder ob (fromBuilder ob (getSelectBuilder ob f ord))
      in guarded (dbTableName ob \<noteq> [] \<and> (dbTableKey ob \<noteq> [] \<longrightarrow> dbPrefix ob \<noteq> [])) ''GetWithAggregations'' ob
           (map_option (map_sum id (map_sum (WrapErr ''failed to build query builder: '') (\<lambda>qs.
              \<lparr>ws_queries = qs, ws_columns = map (\<lambda>a. agTableKey a @ ''.*'') (adAggregations aggDef), ws_from = adFrom aggDef,
               ws_joins = adJoins aggDef,
               ws_order = (if adOrderByPrefix aggDef \<noteq> [] then [ToSqlWithPrefixAll ord (adOrderByPrefix aggDef)] else [])\<rparr>)))
             (aggregation_queries (\<lambda>agg. BuildQuery_object fuel decode ob (baseQuery\<lparr>st_columns := st_columns baseQuery @ agColumns agg\<rparr>)
                f page ord True (agForcedJoins agg)) (adAggregations aggDef))))"

end
