(* ===== verification/Sql_Aliases.thy ===== *)
theory Sql_Aliases
  imports Db_Object
begin

text \<open>
  Table aliases in the statements of \<open>Db_Object\<close>. A statement is resolved when each of its joins
  declares a new alias and refers only to aliases declared before, and its columns, conditions
  and orders mention declared aliases only; the predicate reads the texts the code produces. The
  locale \<open>join_set\<close> states what the join definitions of an object must satisfy for every list of
  joins it builds to be resolved, whatever the filter and the order.
\<close>

section \<open>Aliases of a text\<close>

text \<open>
  The words that stand before a dot, outside of quotes and of subqueries. A subquery starts with
  the word \<open>SELECT\<close> and ends with the bracket that closes it.
\<close>

datatype scan_state = Word string | Quoted | Subquery nat

definition quote :: char where "quote = CHR 0x27"

fun alias_step :: "char \<Rightarrow> scan_state \<times> string list \<Rightarrow> scan_state \<times> string list" where
  "alias_step c (Quoted, out) = (if c = quote then Word [] else Quoted, out)"
| "alias_step c (Subquery d, out) =
     (if c = CHR ''('' then Subquery (Suc d)
      else if c = CHR '')'' then (if d = 0 then Word [] else Subquery (d - 1)) else Subquery d, out)"
| "alias_step c (Word w, out) =
     (if c = quote then (Quoted, out)
      else if c = CHR ''.'' then (Word [], if w = [] then out else rev w # out)
      else if c \<in> set '' (),=?'' then (if w = rev ''SELECT'' then Subquery 0 else Word [], out)
      else (Word (c # w), out))"

definition alias_scan :: "string \<Rightarrow> scan_state \<times> string list" where
  "alias_scan s = fold alias_step (s @ '' '') (Word [], [])"

definition aliases :: "string \<Rightarrow> string set" where "aliases s = set (snd (alias_scan s))"

definition closed_text :: "string \<Rightarrow> bool" where "closed_text s \<longleftrightarrow> fst (alias_scan s) = Word []"

lemma alias_step_out: "alias_step c (q, out) = (fst (alias_step c (q, [])), snd (alias_step c (q, [])) @ out)"
  by (cases q) auto

lemma alias_fold_out:
  "fold alias_step s (q, out) = (fst (fold alias_step s (q, [])), snd (fold alias_step s (q, [])) @ out)"
proof (induction s arbitrary: q out)
  case (Cons c s)
  obtain q1 o1 where st: "alias_step c (q, []) = (q1, o1)" by fastforce
  have "fold alias_step (c # s) (q, out) = fold alias_step s (q1, o1 @ out)"
    using alias_step_out [of c q out] st by simp
  moreover have "fold alias_step (c # s) (q, []) = fold alias_step s (q1, o1)" using st by simp
  ultimately show ?case using Cons.IH [of q1 o1] Cons.IH [of q1 "o1 @ out"] by simp
qed simp

lemma alias_scan_join:
  assumes "closed_text a"
  shows "alias_scan (a @ '' '' @ b) = (fst (alias_scan b), snd (alias_scan b) @ snd (alias_scan a))"
proof -
  have "fold alias_step (a @ '' '') (Word [], []) = (Word [], snd (alias_scan a))"
    using assms by (simp add: closed_text_def alias_scan_def prod_eq_iff)
  then have "alias_scan (a @ '' '' @ b) = fold alias_step (b @ '' '') (Word [], snd (alias_scan a))"
    by (simp add: alias_scan_def)
  then show ?thesis
    using alias_fold_out [of "b @ '' ''" "Word []" "snd (alias_scan a)"] by (simp add: alias_scan_def)
qed

lemma aliases_join [simp]: "closed_text a \<Longrightarrow> aliases (a @ CHR 0x20 # b) = aliases a \<union> aliases b"
  using alias_scan_join [of a b] by (auto simp: aliases_def)

lemma closed_join [simp]: "closed_text a \<Longrightarrow> closed_text (a @ CHR 0x20 # b) = closed_text b"
  using alias_scan_join [of a b] by (simp add: closed_text_def)

lemma blank_text [simp]: "alias_scan [] = (Word [], [])" "aliases [] = {}" "closed_text []"
  by (simp_all add: alias_scan_def aliases_def closed_text_def quote_def)

lemma spaces_text [simp]: "closed_text (replicate n CHR 0x20)" "aliases (replicate n CHR 0x20) = {}"
proof -
  have "fold alias_step (replicate n CHR 0x20 @ '' '') (Word [], []) = (Word [], [])"
    by (induction n) (simp_all add: quote_def)
  then show "closed_text (replicate n CHR 0x20)" "aliases (replicate n CHR 0x20) = {}"
    by (simp_all add: closed_text_def aliases_def alias_scan_def)
qed

lemma space_text [simp]: "closed_text (CHR 0x20 # a) = closed_text a" "aliases (CHR 0x20 # a) = aliases a"
  using closed_join [of "[]" a] aliases_join [of "[]" a] by simp_all

lemma word_text:
  assumes "set w \<inter> set (quote # ''. (),=?'') = {}" and "w \<noteq> ''SELECT''"
  shows "closed_text w" "aliases w = {}"
proof -
  have "fold alias_step w (Word v, []) = (Word (rev w @ v), [])" for v
    using assms(1) by (induction w arbitrary: v) auto
  then have "alias_scan w = (Word [], [])"
    using assms(2) by (simp add: alias_scan_def quote_def)
  then show "closed_text w" "aliases w = {}" by (simp_all add: closed_text_def aliases_def)
qed

lemma operator_text [simp]:
  "closed_text OP_AND" "closed_text OP_OR" "aliases OP_AND = {}" "aliases OP_OR = {}"
  by (code_simp)+

text \<open>A text without dots mentions no alias.\<close>

lemma no_dot_aliases: "CHR ''.'' \<notin> set s \<Longrightarrow> aliases s = {}"
proof -
  assume dot: "CHR ''.'' \<notin> set s"
  have "snd (fold alias_step t (q, [])) = []" if "CHR ''.'' \<notin> set t" for t q
    using that
  proof (induction t arbitrary: q)
    case (Cons c t)
    then have "snd (alias_step c (q, [])) = []" by (cases q) auto
    then show ?case using Cons by (cases "alias_step c (q, [])") auto
  qed simp
  from this [of "s @ '' ''"] dot show ?thesis by (simp add: aliases_def alias_scan_def)
qed

lemma spaces_join [simp]:
  "closed_text (replicate n CHR 0x20 @ s) = closed_text s" "aliases (replicate n CHR 0x20 @ s) = aliases s"
  by (induction n) simp_all

lemma bracket_text [simp]:
  "closed_text (CHR ''('' # CHR 0x20 # s) = closed_text s" "aliases (CHR ''('' # CHR 0x20 # s) = aliases s"
  "closed_text '')''" "aliases '')'' = {}"
proof -
  have br: "closed_text ''(''" "aliases ''('' = {}" by (code_simp)+
  then show "closed_text (CHR ''('' # CHR 0x20 # s) = closed_text s" "aliases (CHR ''('' # CHR 0x20 # s) = aliases s"
    using closed_join [of "''(''" s] aliases_join [of "''(''" s] by simp_all
  show "closed_text '')''" "aliases '')'' = {}" by (code_simp)+
qed

section \<open>Aliases of combined conditions\<close>

lemma text_Join:
  assumes "closed_text opr" and "aliases opr = {}" and "\<forall>q \<in> set qs. closed_text q"
  shows "closed_text (strings_Join qs ('' '' @ opr @ '' ''))"
    and "aliases (strings_Join qs ('' '' @ opr @ '' '')) = (\<Union>q \<in> set qs. aliases q)"
proof -
  have "closed_text (strings_Join qs ('' '' @ opr @ '' ''))
      \<and> aliases (strings_Join qs ('' '' @ opr @ '' '')) = (\<Union>q \<in> set qs. aliases q)"
    using assms(3)
  proof (induction qs)
    case (Cons q qs)
    then show ?case using assms(1,2) by (cases qs) simp_all
  qed simp
  then show "closed_text (strings_Join qs ('' '' @ opr @ '' ''))"
    "aliases (strings_Join qs ('' '' @ opr @ '' '')) = (\<Union>q \<in> set qs. aliases q)" by simp_all
qed

lemma combined_text:
  assumes "closed_text opr" and "aliases opr = {}" and "\<forall>q \<in> set qs. closed_text q"
  shows "closed_text (combined_form qs opr)" and "aliases (combined_form qs opr) = (\<Union>q \<in> set qs. aliases q)"
  using text_Join [OF assms] by (simp_all add: combined_form_def)

lemma combineFilterQueries_text:
  assumes "closed_text opr" and "aliases opr = {}" and "\<forall>q \<in> set qs. closed_text q"
  shows "closed_text (combineFilterQueries qs opr)"
    and "aliases (combineFilterQueries qs opr) = (\<Union>q \<in> set qs. aliases q)"
proof -
  have sub: "\<forall>q \<in> set (filter (\<lambda>q. q \<noteq> []) qs). closed_text q" using assms(3) by simp
  have "(\<Union>q \<in> set (filter (\<lambda>q. q \<noteq> []) qs). aliases q) = (\<Union>q \<in> set qs. aliases q)"
  proof (rule equalityI; rule subsetI)
    fix a assume "a \<in> (\<Union>q \<in> set qs. aliases q)"
    then obtain q where "q \<in> set qs" "a \<in> aliases q" by blast
    then show "a \<in> (\<Union>q \<in> set (filter (\<lambda>q. q \<noteq> []) qs). aliases q)" by (cases "q = []") auto
  qed auto
  then show "closed_text (combineFilterQueries qs opr)"
    "aliases (combineFilterQueries qs opr) = (\<Union>q \<in> set qs. aliases q)"
    using combined_text [OF assms(1,2) sub] by (simp_all add: combineFilterQueries_form)
qed

text \<open>The aliases of the condition a filter property yields.\<close>

definition part_aliases :: "'f \<Rightarrow> 'f FilterProperty \<Rightarrow> string set" where
  "part_aliases f fp = (case GetQuery fp f of Inl e \<Rightarrow> {} | Inr q \<Rightarrow> aliases q)"

definition total_property :: "'f FilterProperty \<Rightarrow> bool" where
  "total_property fp \<longleftrightarrow> (\<forall>f. \<exists>q. GetQuery fp f = Inr q)"

definition good_condition :: "string \<Rightarrow> bool" where
  "good_condition q \<longleftrightarrow> q \<noteq> [] \<and> closed_text q"

lemma NFilterProperty_aliases:
  "good_condition q \<Longrightarrow> part_aliases f (NewNFilterProperty q p n) = (if p f = [] then {} else aliases q)"
  by (auto simp: part_aliases_def GetQuery_def NewNFilterProperty_def buildFilterQuery_form good_condition_def
      combined_text operator_text split: if_splits)

lemma FilterProperty_aliases:
  "good_condition q \<Longrightarrow> part_aliases f (NewFilterProperty q p) = (if p f = [] then {} else aliases q)"
  unfolding NewFilterProperty_def by (rule NFilterProperty_aliases)

lemma deleted_text: "closed_text ''IS NULL''" "aliases ''IS NULL'' = {}" "closed_text ''IS NOT NULL''" "aliases ''IS NOT NULL'' = {}"
  by (code_simp)+

lemma state_text:
  assumes "closed_text (prefix @ ''_deleted_at'')"
  shows "closed_text (state_query prefix s)" "aliases (state_query prefix s) = aliases (prefix @ ''_deleted_at'')"
proof -
  have split: "prefix @ ''_deleted_at IS NULL'' = (prefix @ ''_deleted_at'') @ CHR 0x20 # ''IS NULL''"
    "prefix @ ''_deleted_at IS NOT NULL'' = (prefix @ ''_deleted_at'') @ CHR 0x20 # ''IS NOT NULL''" by simp_all
  show "closed_text (state_query prefix s)"
    by (cases s; simp only: state_query.simps split closed_join [OF assms] deleted_text)
  show "aliases (state_query prefix s) = aliases (prefix @ ''_deleted_at'')"
    by (cases s; simp only: state_query.simps split aliases_join [OF assms] deleted_text Un_empty_right)
qed

lemma StateFilterProperty_aliases:
  assumes "closed_text (prefix @ ''_deleted_at'')"
  shows "part_aliases f (NewStateFilterProperty prefix p) = aliases (prefix @ ''_deleted_at'')"
proof -
  let ?qs = "if p f = [] then [state_query prefix Active] else map (state_query prefix) (p f)"
  have "aliases (combineFilterQueries ?qs OP_OR) = (\<Union>q \<in> set ?qs. aliases q)"
    by (rule combineFilterQueries_text(2)) (auto simp: state_text(1) [OF assms] simp del: state_query.simps)
  also have "\<dots> = aliases (prefix @ ''_deleted_at'')"
    using state_text(2) [OF assms] by (auto simp del: state_query.simps)
  finally show ?thesis
    by (simp add: part_aliases_def GetQuery_def NewStateFilterProperty_def buildStateFilterQuery_def split: if_splits)
qed

lemma CustomFilterProperty_aliases:
  "b (p f) = Inr q \<Longrightarrow> part_aliases f (NewCustomFilterProperty b p) = aliases q"
  by (simp add: part_aliases_def GetQuery_def NewCustomFilterProperty_def)

lemma total_custom: "total_property (NewCustomFilterProperty b p) \<longleftrightarrow> (\<forall>f. \<exists>q. b (p f) = Inr q)"
  by (simp add: total_property_def GetQuery_def NewCustomFilterProperty_def)

text \<open>The key of a JSON filter stands in the text unescaped, so it must not contain a quote.\<close>

lemma quoted_text:
  assumes "quote \<notin> set k"
  shows "alias_scan (quote # k @ quote # s) = alias_scan s"
proof -
  have "fold alias_step k (Quoted, []) = (Quoted, [])"
    using assms by (induction k) auto
  then show ?thesis by (simp add: alias_scan_def)
qed

lemma json_condition_text:
  assumes "quote \<notin> set key" and "closed_text (''JSON_VALUE('' @ column @ '','')"
  shows "closed_text (json_condition column key)"
    and "aliases (json_condition column key) = aliases (''JSON_VALUE('' @ column @ '','')"
proof -
  have split: "json_condition column key =
      (''JSON_VALUE('' @ column @ '','') @ CHR 0x20 # quote # (''$.'' @ key) @ quote # '') = ?''"
    by (simp add: json_condition_def quote_def)
  have "alias_scan (quote # (''$.'' @ key) @ quote # '') = ?'') = alias_scan '') = ?''"
    by (rule quoted_text) (use assms(1) in \<open>simp add: quote_def\<close>)
  moreover have "alias_scan '') = ?'' = (Word [], [])" by code_simp
  ultimately have "closed_text (quote # (''$.'' @ key) @ quote # '') = ?'')"
    "aliases (quote # (''$.'' @ key) @ quote # '') = ?'') = {}"
    by (simp_all add: closed_text_def aliases_def)
  then show "closed_text (json_condition column key)"
    "aliases (json_condition column key) = aliases (''JSON_VALUE('' @ column @ '','')"
    unfolding split using assms(2) by (simp_all only: closed_join aliases_join Un_empty_right)
qed

section \<open>Resolved statements\<close>

definition last_word :: "string \<Rightarrow> string" where
  "last_word s = rev (takeWhile (\<lambda>c. c \<noteq> CHR 0x20) (rev s))"

text \<open>A join text is a type and a table up to the first \<open>ON\<close>, then its condition.\<close>

fun before_on :: "string \<Rightarrow> string" where
  "before_on [] = []"
| "before_on (c # s) =
     (if c = CHR 0x20 then (if take 3 s = ''ON '' then [] else c # before_on s) else c # before_on s)"

definition join_alias :: "string \<Rightarrow> string" where "join_alias t = last_word (before_on t)"
definition join_on :: "string \<Rightarrow> string" where "join_on t = drop (length (before_on t) + 4) t"

fun joins_resolve :: "string set \<Rightarrow> string list \<Rightarrow> bool" where
  "joins_resolve known [] = True"
| "joins_resolve known (t # ts) =
     (join_alias t \<notin> known \<and> aliases (join_on t) \<subseteq> insert (join_alias t) known
      \<and> joins_resolve (insert (join_alias t) known) ts)"

definition mentions :: "select_stmt \<Rightarrow> string set" where
  "mentions st = (\<Union>s \<in> set (st_columns st @ st_group st @ map fst (where_parts (st_parts st))
      @ map fst (having_parts (st_parts st)) @ st_order st). aliases s)"

definition resolved :: "select_stmt \<Rightarrow> bool" where
  "resolved st \<longleftrightarrow> joins_resolve {last_word (st_from st)} (st_joins st)
     \<and> mentions st \<subseteq> insert (last_word (st_from st)) (join_alias ` set (st_joins st))"

section \<open>Join definitions\<close>

definition alias_of :: "'f JoinDef \<Rightarrow> string" where "alias_of d = join_alias (join_sql d)"

definition name_alias :: "'f JoinDef list \<Rightarrow> string \<Rightarrow> string" where
  "name_alias defs n = alias_of (the (find_join defs n))"

text \<open>The joins that a join pulls in, itself included.\<close>

fun reach :: "nat \<Rightarrow> 'f JoinDef list \<Rightarrow> string \<Rightarrow> string list" where
  "reach 0 defs n = []"
| "reach (Suc k) defs n =
     (case find_join defs n of None \<Rightarrow> [] | Some d \<Rightarrow> n # concat (map (reach k defs) (jDependsOn d)))"

definition joined :: "nat \<Rightarrow> 'f JoinDef list \<Rightarrow> string list \<Rightarrow> 'f \<Rightarrow> sql_order \<Rightarrow> string set" where
  "joined k defs forced f so = (\<Union>n \<in> set (required_joins defs forced f so). name_alias defs ` set (reach k defs n))"

lemma reach_needed: "x \<in> set (reach k defs n) \<Longrightarrow> n \<in> A \<Longrightarrow> needed defs A x"
proof -
  have "needed defs {n} x" if "x \<in> set (reach k defs n)" for x
    using that
  proof (induction k defs n arbitrary: x rule: reach.induct)
    case (2 k defs n)
    then obtain d where d: "find_join defs n = Some d" by (cases "find_join defs n") auto
    show ?case
    proof (cases "x = n")
      case False
      then obtain y where y: "y \<in> set (jDependsOn d)" "x \<in> set (reach k defs y)"
        using 2 d by auto
      have "needed defs {y} x" using 2(1) [OF d y(1) y(2)] .
      moreover have "needed defs {n} y"
        using needed_dep [OF needed_root, of n "{n}" y defs] d y(1) by (simp add: deps_def)
      ultimately show ?thesis using needed_trans [of defs "{y}" x "{n}"] by blast
    qed (simp add: needed_root)
  qed simp
  then show "x \<in> set (reach k defs n) \<Longrightarrow> n \<in> A \<Longrightarrow> needed defs A x"
    using needed_mono [of defs "{n}" x A] by blast
qed

lemma reach_step:
  assumes "ranked defs rank" and "x \<in> set (reach k defs n)" and "y \<in> deps defs x" and "rank n < k"
  shows "y \<in> set (reach k defs n)"
  using assms
proof (induction k defs n rule: reach.induct)
  case (2 k defs n)
  then obtain d where d: "find_join defs n = Some d" by (cases "find_join defs n") auto
  have dep: "z \<in> jName ` set defs \<and> rank z < k" if "z \<in> set (jDependsOn d)" for z
  proof -
    have "z \<in> jName ` set defs \<and> rank z < rank n"
      using that 2(2) find_join_name [OF d] unfolding ranked_def by auto
    with 2(5) show ?thesis by simp
  qed
  show ?case
  proof (cases "x = n")
    case True
    then have y: "y \<in> set (jDependsOn d)" using 2(4) d by (simp add: deps_def)
    obtain e where "find_join defs y = Some e" using find_join_defined dep [OF y] by blast
    moreover obtain k' where "k = Suc k'" using dep [OF y] by (cases k) auto
    ultimately show ?thesis using d y by force
  next
    case False
    then obtain z where z: "z \<in> set (jDependsOn d)" "x \<in> set (reach k defs z)"
      using 2(3) d by auto
    have "y \<in> set (reach k defs z)" using 2(1) [OF d z(1) 2(2) z(2) 2(4)] dep [OF z(1)] by blast
    then show ?thesis using d z(1) by auto
  qed
qed simp

lemma needed_reach:
  assumes "ranked defs rank" and "A \<subseteq> jName ` set defs" and "\<And>a. a \<in> A \<Longrightarrow> rank a < k" and "needed defs A x"
  shows "\<exists>a \<in> A. x \<in> set (reach k defs a)"
  using assms(4)
proof (induction rule: needed.induct)
  case (needed_root x)
  obtain d where "find_join defs x = Some d" using find_join_defined assms(2) needed_root by blast
  moreover obtain k' where "k = Suc k'" using assms(3) [OF needed_root] by (cases k) auto
  ultimately show ?case using needed_root by force
next
  case (needed_dep x y)
  then show ?case using reach_step [OF assms(1)] assms(3) by blast
qed

text \<open>
  What the definitions of an object must satisfy: dependencies are acyclic, the condition of a
  join mentions its own table, the table of the object and those of its direct dependencies, and
  two joins that can occur together have the same alias only if they join the same table, so
  that the resolver drops one of them. \<open>live\<close> are the joins that can occur.
\<close>

locale join_set =
  fixes defs :: "'f JoinDef list" and key :: string and rank :: "string \<Rightarrow> nat" and k :: nat
    and live :: "string set"
  assumes ranked_defs: "ranked defs rank"
    and rank_bound: "\<And>d. d \<in> set defs \<Longrightarrow> rank (jName d) < k"
    and live_defined: "live \<subseteq> jName ` set defs"
    and live_closed: "\<And>n. n \<in> live \<Longrightarrow> deps defs n \<subseteq> live"
    and live_alias: "\<And>n. n \<in> live \<Longrightarrow> name_alias defs n \<noteq> key"
    and live_on: "\<And>n. n \<in> live \<Longrightarrow> aliases (join_on (join_sql (the (find_join defs n))))
      \<subseteq> {key, name_alias defs n} \<union> name_alias defs ` deps defs n"
    and live_tables: "\<And>m n. m \<in> live \<Longrightarrow> n \<in> live \<Longrightarrow> name_alias defs m = name_alias defs n \<Longrightarrow>
      jTable (the (find_join defs m)) = jTable (the (find_join defs n))"
    and same_table: "\<And>m n. m \<in> live \<Longrightarrow> n \<in> live \<Longrightarrow>
      jTable (the (find_join defs m)) = jTable (the (find_join defs n)) \<Longrightarrow> name_alias defs m = name_alias defs n"
begin

lemma texts_resolve:
  assumes "topological defs seen names" and "set names \<subseteq> live" and "seen \<subseteq> live"
    and "set uniq = (\<lambda>n. jTable (the (find_join defs n))) ` seen"
  shows "\<exists>ts. join_texts defs uniq names = Inr ts
    \<and> joins_resolve (insert key (name_alias defs ` seen)) ts
    \<and> join_alias ` set ts \<union> name_alias defs ` seen = name_alias defs ` (seen \<union> set names)"
  using assms
proof (induction names arbitrary: seen uniq)
  case (Cons n ns)
  have n: "n \<in> live" "n \<notin> seen" "deps defs n \<subseteq> seen" using Cons.prems by auto
  obtain d where d: "find_join defs n = Some d"
    using find_join_defined [of n defs] n(1) live_defined by blast
  let ?A = "name_alias defs" and ?T = "\<lambda>n. jTable (the (find_join defs n))"
  show ?case
  proof (cases "jTable d \<in> set uniq")
    case True
    then obtain m where m: "m \<in> seen" "?T m = ?T n" using Cons.prems(4) d by auto
    then have al: "?A n = ?A m" using same_table [of n m] n(1) Cons.prems(3) by auto
    have "set uniq = ?T ` insert n seen" using True Cons.prems(4) d by auto
    then obtain ts where ts: "join_texts defs uniq ns = Inr ts"
      "joins_resolve (insert key (?A ` insert n seen)) ts"
      "join_alias ` set ts \<union> ?A ` insert n seen = ?A ` (insert n seen \<union> set ns)"
      using Cons.IH [of "insert n seen" uniq] Cons.prems n(1) by auto
    have "?A ` insert n seen = ?A ` seen" using al m(1) by auto
    then show ?thesis using ts d True by auto
  next
    case False
    have fresh: "?A n \<notin> ?A ` seen"
    proof
      assume "?A n \<in> ?A ` seen"
      then obtain m where "m \<in> seen" "?A n = ?A m" by blast
      then have "jTable d \<in> ?T ` seen"
        using live_tables [of n m] n(1) Cons.prems(3) d by auto
      with False Cons.prems(4) show False by blast
    qed
    have "set (jTable d # uniq) = ?T ` insert n seen" using Cons.prems(4) d by auto
    then obtain ts where ts: "join_texts defs (jTable d # uniq) ns = Inr ts"
      "joins_resolve (insert key (?A ` insert n seen)) ts"
      "join_alias ` set ts \<union> ?A ` insert n seen = ?A ` (insert n seen \<union> set ns)"
      using Cons.IH [of "insert n seen" "jTable d # uniq"] Cons.prems n(1) by auto
    have al: "join_alias (join_sql d) = ?A n" using d by (simp add: name_alias_def alias_of_def)
    have on: "aliases (join_on (join_sql d)) \<subseteq> insert (?A n) (insert key (?A ` seen))"
      using live_on [OF n(1)] d n(3) by auto
    have "join_alias ` set (join_sql d # ts) \<union> ?A ` seen = ?A ` (seen \<union> set (n # ns))"
      using ts(3) al by auto
    then show ?thesis
      using ts d False fresh live_alias [OF n(1)] on al by (auto simp: insert_commute)
  qed
qed simp

lemma Build_resolves:
  assumes "set (required_joins defs forced f so) \<subseteq> live"
  shows "\<exists>ts. Build k defs forced f so = Some (Inr ts) \<and> joins_resolve {key} ts
    \<and> join_alias ` set ts = joined k defs forced f so"
proof -
  let ?R = "required_joins defs forced f so"
  have names: "set ?R \<subseteq> jName ` set defs" using assms live_defined by blast
  have bound: "\<forall>d \<in> set defs. rank (jName d) < k" using rank_bound by blast
  obtain jr where jr: "require_all k defs ?R NewJoinResolver = Some (Inr jr)"
    "topological defs {} (jr_order jr)" "set (jr_order jr) = {x. needed defs (set ?R) x}"
    using require_all_New [OF ranked_defs names bound] by blast
  have "set (jr_order jr) \<subseteq> live"
    using jr(3) needed_in_closed [of defs "set ?R" _ live] assms live_closed by blast
  then obtain ts where ts: "join_texts defs [] (jr_order jr) = Inr ts" "joins_resolve {key} ts"
    "join_alias ` set ts = name_alias defs ` set (jr_order jr)"
    using texts_resolve [OF jr(2)] by fastforce
  have "{x. needed defs (set ?R) x} = (\<Union>n \<in> set ?R. set (reach k defs n))"
    using needed_reach [OF ranked_defs names, of k] reach_needed [of _ k defs _ "set ?R"] names bound by fastforce
  then have "name_alias defs ` set (jr_order jr) = joined k defs forced f so"
    using jr(3) by (auto simp: joined_def)
  with ts jr(1) show ?thesis by (intro exI [of _ ts]) (simp add: Build_def)
qed

end

section \<open>Orders and cursors\<close>

definition plain_word :: "string \<Rightarrow> bool" where
  "plain_word w \<longleftrightarrow> set w \<inter> set (quote # ''. (),=?'') = {}"

lemma plain_fold: "plain_word w \<Longrightarrow> fold alias_step w (Word v, out) = (Word (rev w @ v), out)"
  by (induction w arbitrary: v) (auto simp: plain_word_def)

lemma plain_text: "plain_word w \<Longrightarrow> w \<noteq> ''SELECT'' \<Longrightarrow> closed_text w \<and> aliases w = {}"
  using word_text [of w] by (simp add: plain_word_def)

lemma qualified_text:
  assumes "plain_word p" and "p \<noteq> []"
  shows "aliases (p @ CHR ''.'' # s) = insert p (aliases s)" "closed_text (p @ CHR ''.'' # s) = closed_text s"
proof -
  have "alias_scan (p @ CHR ''.'' # s) = (fst (alias_scan s), snd (alias_scan s) @ [p])"
    using plain_fold [OF assms(1), of "[]" "[]"] alias_fold_out [of "s @ '' ''" "Word []" "[p]"] assms(2)
    by (simp add: alias_scan_def quote_def)
  then show "aliases (p @ CHR ''.'' # s) = insert p (aliases s)" "closed_text (p @ CHR ''.'' # s) = closed_text s"
    by (simp_all add: aliases_def closed_text_def)
qed

lemma comma_text:
  assumes "closed_text s"
  shows "alias_scan (s @ '','') = alias_scan s"
proof -
  obtain q out where st: "fold alias_step s (Word [], []) = (q, out)" by fastforce
  then have "fst (alias_step CHR 0x20 (q, out)) = Word []"
    using assms by (simp add: closed_text_def alias_scan_def)
  then obtain w where "q = Word w" by (cases q) (auto simp: quote_def split: if_splits)
  then show ?thesis using st by (auto simp: alias_scan_def quote_def)
qed

lemma comma_Join:
  "\<forall>q \<in> set qs. closed_text q \<Longrightarrow> closed_text (strings_Join qs '', '')
     \<and> aliases (strings_Join qs '', '') = (\<Union>q \<in> set qs. aliases q)"
proof (induction qs)
  case (Cons q qs)
  show ?case
  proof (cases qs)
    case (Cons q' qs')
    have "closed_text (q @ '','')" "aliases (q @ '','') = aliases q"
      using comma_text [of q] Cons.prems by (simp_all add: closed_text_def aliases_def)
    then show ?thesis
      using Cons Cons.IH Cons.prems closed_join [of "q @ '',''"] aliases_join [of "q @ '',''"] by simp
  qed (use Cons in simp)
qed simp

lemma plain_ColumnName: "plain_word (ColumnName f)" "ColumnName f \<noteq> ''SELECT''"
  by (cases f; simp add: plain_word_def quote_def)+

lemma plain_direction: "plain_word (OrderDirectionStr d)" "OrderDirectionStr d \<noteq> ''SELECT''"
  by (cases d; simp add: plain_word_def quote_def)+

lemma ToSql_text:
  assumes "plain_word (counterPrefix so)"
  shows "aliases (ToSql so) = (if counterPrefix so \<noteq> [] \<and> ByCount so then {counterPrefix so} else {})"
proof -
  let ?t = "\<lambda>eo. (if counterPrefix so \<noteq> [] \<and> By eo \<in> set count_fields
    then counterPrefix so @ ''.'' @ ColumnName (By eo) else ColumnName (By eo)) @ '' '' @ OrderDirectionStr (Direction eo)"
  have t: "closed_text (?t eo) \<and> aliases (?t eo) =
      (if counterPrefix so \<noteq> [] \<and> By eo \<in> set count_fields then {counterPrefix so} else {})" for eo
  proof -
    note pl = plain_text [OF plain_ColumnName] plain_text [OF plain_direction]
    have "closed_text (ColumnName (By eo) @ '' '' @ OrderDirectionStr (Direction eo))"
      "aliases (ColumnName (By eo) @ '' '' @ OrderDirectionStr (Direction eo)) = {}" using pl by simp_all
    then show ?thesis using qualified_text [OF assms, of "ColumnName (By eo) @ '' '' @ OrderDirectionStr (Direction eo)"] by simp
  qed
  have "aliases (ToSql so) = (\<Union>q \<in> set (map ?t (sequence so)). aliases q)"
    unfolding ToSql_def by (rule comma_Join [THEN conjunct2]) (use t in \<open>unfold set_map, blast\<close>)
  also have "\<dots> = (\<Union>eo \<in> set (sequence so). if counterPrefix so \<noteq> [] \<and> By eo \<in> set count_fields then {counterPrefix so} else {})"
    unfolding set_map UN_simps using t by (intro SUP_cong) blast+
  also have "\<dots> = (if counterPrefix so \<noteq> [] \<and> ByCount so then {counterPrefix so} else {})"
    by (auto simp: ByCount_def order_By_def list_ex_iff split: if_splits)
  finally show ?thesis .
qed

lemma no_dot_ColumnName: "CHR ''.'' \<notin> set (ColumnName f)"
  using plain_ColumnName(1) [of f] by (auto simp: plain_word_def)

lemma no_dot_sub_query: "CHR ''.'' \<notin> set sub \<Longrightarrow> CHR ''.'' \<notin> set (cursor_sub_query sub flds)"
proof (induction sub flds rule: cursor_sub_query.induct)
  case (2 sub f)
  then show ?case using no_dot_ColumnName by (cases "fOrder f") simp_all
qed (use no_dot_ColumnName in simp_all)

lemma no_dot_cursor: "CHR ''.'' \<notin> set query \<Longrightarrow> CHR ''.'' \<notin> set (CreateCursorQuery query flds)"
proof (induction query flds rule: CreateCursorQuery.induct)
  case (1 query flds)
  then show ?case
    using no_dot_sub_query [of "[]" flds] by (subst CreateCursorQuery.simps) (simp add: Let_def)
qed

lemma cursor_aliases: "aliases (CreateCursorQuery [] flds) = {}"
  by (rule no_dot_aliases) (simp add: no_dot_cursor)

section \<open>Resolved queries\<close>

definition part_mentions :: "select_parts \<Rightarrow> string set" where
  "part_mentions qb = (\<Union>s \<in> fst ` (set (where_parts qb) \<union> set (having_parts qb)). aliases s)"

lemma AddFilter_mentions:
  "list_all total_property fps \<Longrightarrow>
   \<exists>qb'. AddFilter fps f qb = Inr qb' \<and> part_mentions qb' = part_mentions qb \<union> (\<Union>fp \<in> set fps. part_aliases f fp)"
proof (induction fps arbitrary: qb)
  case (Cons fp fps)
  obtain q where q: "GetQuery fp f = Inr q" using Cons.prems by (auto simp: total_property_def)
  let ?qb = "if q \<noteq> [] then qb\<lparr>where_parts := where_parts qb @ [(q, GetParameters fp f)]\<rparr> else qb"
  have "part_mentions ?qb = part_mentions qb \<union> aliases q"
    by (cases "q = []") (auto simp: part_mentions_def)
  moreover have "aliases q = part_aliases f fp" using q by (simp add: part_aliases_def)
  ultimately show ?case using Cons.IH [of ?qb] Cons.prems q by (auto simp: Un_assoc)
qed simp

lemma AddCursor_mentions: "part_mentions (AddCursor agg n flds qb) = part_mentions qb"
  using cursor_aliases [of flds]
  by (auto simp: part_mentions_def AddCursor_def getCursorQueryParameters_def Let_def)

lemma total_properties [simp]:
  "total_property (NewNFilterProperty q p n)" "total_property (NewFilterProperty q p)"
  "total_property (NewStateFilterProperty pre st)"
  by (simp_all add: total_property_def GetQuery_def NewNFilterProperty_def NewFilterProperty_def
      NewStateFilterProperty_def)

text \<open>A base query before its joins and conditions: the aliases it mentions itself.\<close>

definition base_query :: "select_stmt \<Rightarrow> bool" where
  "base_query q \<longleftrightarrow> st_joins q = [] \<and> st_parts q = no_parts \<and> st_order q = []"

definition base_mentions :: "select_stmt \<Rightarrow> string set" where
  "base_mentions q = (\<Union>s \<in> set (st_columns q @ st_group q). aliases s)"

definition filter_mentions :: "'f FilterProperty list \<Rightarrow> 'f \<Rightarrow> string set" where
  "filter_mentions fps f = (\<Union>fp \<in> set fps. part_aliases f fp)"

text \<open>
  The outcome of building a statement: no panic, and either the cursor did not decode or there
  is a statement, whose aliases are resolved if and only if the condition holds.
\<close>

fun statement_if :: "bool \<Rightarrow> bool \<Rightarrow> (goerr + select_stmt) go option \<Rightarrow> bool" where
  "statement_if decodes cond (Some (Inr (Inr st))) = (resolved st = cond)"
| "statement_if decodes cond (Some (Inr (Inl e))) = (\<not> decodes)"
| "statement_if decodes cond (Some (Inl panic)) = False"
| "statement_if decodes cond None = False"

definition cursor_decodes :: "(string \<Rightarrow> goerr + Field list) \<Rightarrow> Paginated \<Rightarrow> bool" where
  "cursor_decodes decode page \<longleftrightarrow> (case decode (case PAfter page of None \<Rightarrow> [] | Some a \<Rightarrow> a) of Inl e \<Rightarrow> False | Inr flds \<Rightarrow> True)"

definition order_mentions :: "sql_order \<Rightarrow> string set" where
  "order_mentions so = (if counterPrefix so \<noteq> [] \<and> ByCount so then {counterPrefix so} else {})"

lemma mentions_parts:
  "mentions (q\<lparr>st_joins := js, st_parts := qb, st_order := [o']\<rparr>) =
     base_mentions q \<union> part_mentions qb \<union> aliases o'"
  by (auto simp: mentions_def base_mentions_def part_mentions_def)

context join_set
begin

lemma BuildQuery_statement:
  assumes "dbJoinDefs ob = defs" and "base_query q" and "last_word (st_from q) = key"
    and "list_all total_property (dbFilterProperties ob)" and "set (required_joins defs forced f so) \<subseteq> live"
    and "plain_word (counterPrefix so)"
  shows "statement_if (withCursor \<longrightarrow> cursor_decodes decode page)
    (base_mentions q \<union> filter_mentions (dbFilterProperties ob) f \<union> order_mentions so
       \<subseteq> insert key (joined k defs forced f so))
    (BuildQuery_object k decode ob q f page so withCursor forced)"
proof -
  obtain js where js: "Build k defs forced f so = Some (Inr js)" "joins_resolve {key} js"
    "join_alias ` set js = joined k defs forced f so"
    using Build_resolves [OF assms(5)] by blast
  obtain qb where qb: "AddFilter (dbFilterProperties ob) f no_parts = Inr qb"
    "part_mentions qb = filter_mentions (dbFilterProperties ob) f"
    using AddFilter_mentions [OF assms(4), of f no_parts]
    by (auto simp: part_mentions_def no_parts_def filter_mentions_def)
  have "resolved (q\<lparr>st_joins := js, st_parts := p, st_order := [ToSql so]\<rparr>) \<longleftrightarrow>
      base_mentions q \<union> filter_mentions (dbFilterProperties ob) f \<union> order_mentions so
        \<subseteq> insert key (joined k defs forced f so)" if "part_mentions p = part_mentions qb" for p
    using js(2,3) qb(2) that ToSql_text [OF assms(6)] assms(3)
    by (simp add: resolved_def mentions_parts order_mentions_def)
  then show ?thesis
    using assms(1,2) js(1) qb(1)
    by (auto simp: BuildQuery_object_def base_query_def AddCursor_mentions cursor_decodes_def Let_def split: sum.splits)
qed

end

section \<open>Checking join definitions\<close>

text \<open>The laws of \<open>join_set\<close> are decided by evaluation, for instance with the length of the longest chain as rank.\<close>

fun depth :: "nat \<Rightarrow> 'f JoinDef list \<Rightarrow> string \<Rightarrow> nat" where
  "depth 0 defs n = 0"
| "depth (Suc k) defs n =
     (case find_join defs n of None \<Rightarrow> 0 | Some d \<Rightarrow> foldr max (map (\<lambda>x. Suc (depth k defs x)) (jDependsOn d)) 0)"

definition check_ranks :: "(string \<Rightarrow> nat) \<Rightarrow> nat \<Rightarrow> 'f JoinDef list \<Rightarrow> bool" where
  "check_ranks rank k defs \<longleftrightarrow> list_all (\<lambda>d. rank (jName d) < k \<and> list_all (\<lambda>x. list_ex (\<lambda>e. jName e = x) defs
     \<and> rank x < rank (jName d)) (jDependsOn d)) defs"

definition check_join :: "'f JoinDef list \<Rightarrow> string \<Rightarrow> string list \<Rightarrow> string \<Rightarrow> bool" where
  "check_join defs key live n \<longleftrightarrow> (case find_join defs n of None \<Rightarrow> False | Some d \<Rightarrow>
     alias_of d \<noteq> key \<and> list_all (\<lambda>x. List.member live x) (jDependsOn d)
     \<and> list_all (\<lambda>a. List.member (key # alias_of d # map (name_alias defs) (jDependsOn d)) a)
         (snd (alias_scan (join_on (join_sql d)))))"

fun check_tables :: "(string \<times> string) list \<Rightarrow> bool" where
  "check_tables [] = True"
| "check_tables ((a, t) # xs) = (list_all (\<lambda>(b, u). (a = b) = (t = u)) xs \<and> check_tables xs)"

definition alias_tables :: "'f JoinDef list \<Rightarrow> string list \<Rightarrow> (string \<times> string) list" where
  "alias_tables defs live = map (\<lambda>n. (name_alias defs n, jTable (the (find_join defs n)))) live"

lemma check_tables_pairs:
  "check_tables xs \<Longrightarrow> (a, t) \<in> set xs \<Longrightarrow> (b, u) \<in> set xs \<Longrightarrow> (a = b) = (t = u)"
  by (induction xs rule: check_tables.induct) (auto simp: list_all_iff)

lemma join_set_check:
  assumes "check_ranks rank k defs" and "list_all (check_join defs key live) live" and "check_tables (alias_tables defs live)"
  shows "join_set defs key rank k (set live)"
proof
  have live: "\<exists>d. find_join defs n = Some d \<and> d \<in> set defs \<and> jName d = n \<and> alias_of d \<noteq> key \<and> set (jDependsOn d) \<subseteq> set live
      \<and> set (snd (alias_scan (join_on (join_sql d)))) \<subseteq> set (key # alias_of d # map (name_alias defs) (jDependsOn d))"
    if "n \<in> set live" for n
  proof -
    have n: "check_join defs key live n" using assms(2) that by (simp add: list_all_iff)
    then obtain d where d: "find_join defs n = Some d" by (auto simp: check_join_def split: option.splits)
    with n show ?thesis
      using find_join_name [OF d]
      by (intro exI [of _ d]) (simp add: check_join_def list_all_iff subset_iff)
  qed
  show "ranked defs (rank)"
    unfolding ranked_def
  proof (intro ballI conjI)
    fix d x assume dx: "d \<in> set defs" "x \<in> set (jDependsOn d)"
    then have "list_ex (\<lambda>e. jName e = x) defs \<and> rank x < rank (jName d)"
      using assms(1) unfolding check_ranks_def list_all_iff by blast
    then show "x \<in> jName ` set defs" "rank x < rank (jName d)" by (auto simp: list_ex_iff)
  qed
  show "rank (jName d) < k" if "d \<in> set defs" for d
    using assms(1) that unfolding check_ranks_def list_all_iff by blast
  show "set live \<subseteq> jName ` set defs" using live by blast
  show "deps defs n \<subseteq> set live" "name_alias defs n \<noteq> key" if "n \<in> set live" for n
    using live [OF that] by (auto simp: deps_def name_alias_def)
  show "aliases (join_on (join_sql (the (find_join defs n)))) \<subseteq> {key, name_alias defs n} \<union> name_alias defs ` deps defs n"
    if "n \<in> set live" for n
    using live [OF that] by (auto simp: deps_def name_alias_def aliases_def)
  have pair: "(name_alias defs m = name_alias defs n) = (jTable (the (find_join defs m)) = jTable (the (find_join defs n)))"
    if "m \<in> set live" "n \<in> set live" for m n
    by (rule check_tables_pairs [OF assms(3)]) (simp_all add: alias_tables_def that)
  show "jTable (the (find_join defs m)) = jTable (the (find_join defs n))"
    if "m \<in> set live" "n \<in> set live" "name_alias defs m = name_alias defs n" for m n
    using pair [OF that(1,2)] that(3) by simp
  show "name_alias defs m = name_alias defs n"
    if "m \<in> set live" "n \<in> set live" "jTable (the (find_join defs m)) = jTable (the (find_join defs n))" for m n
    using pair [OF that(1,2)] that(3) by simp
qed

text \<open>The aliases joined for a filter, join by join.\<close>

definition reach_table :: "nat \<Rightarrow> 'f JoinDef list \<Rightarrow> string list list" where
  "reach_table k defs = map (\<lambda>d. map (name_alias defs) (reach k defs (jName d))) defs"

fun active :: "('f \<Rightarrow> sql_order \<Rightarrow> bool) option \<Rightarrow> 'f \<Rightarrow> sql_order \<Rightarrow> bool" where
  "active None f so = True"
| "active (Some c) f so = c f so"

fun joined_by :: "('f \<Rightarrow> sql_order \<Rightarrow> bool) option list \<Rightarrow> string list list \<Rightarrow> 'f \<Rightarrow> sql_order \<Rightarrow> string \<Rightarrow> bool" where
  "joined_by (c # cs) (as # ass) f so a = (active c f so \<and> List.member as a \<or> joined_by cs ass f so a)"
| "joined_by cs ass f so a = False"

lemma joined_by_map:
  "joined_by (map jCondition ds) (map g ds) f so a \<longleftrightarrow> (\<exists>d \<in> set ds. active (jCondition d) f so \<and> a \<in> set (g d))"
  by (induction ds) auto

lemma joined_table:
  "a \<in> joined k defs [] f so \<longleftrightarrow> joined_by (map jCondition defs) (reach_table k defs) f so a"
proof -
  have "set (required_joins defs [] f so) = jName ` {d \<in> set defs. active (jCondition d) f so}"
  proof -
    have "(case c of None \<Rightarrow> True | Some c \<Rightarrow> c f so) = active c f so" for c by (cases c) auto
    then show ?thesis by (simp add: required_joins_def)
  qed
  then show ?thesis by (auto simp: joined_def reach_table_def joined_by_map)
qed

lemma joined_forced:
  "joined k defs forced f so = (\<Union>n \<in> set forced. name_alias defs ` set (reach k defs n)) \<union> joined k defs [] f so"
  by (auto simp: joined_def required_joins_def)

section \<open>The queries of an object\<close>

definition key_object :: "('e, 'f) DbObject \<Rightarrow> bool" where
  "key_object ob \<longleftrightarrow> named ob \<and> plain_word (dbTableKey ob) \<and> CHR ''.'' \<notin> set (dbPrefix ob) \<and> dbForceFrom ob = []
     \<and> plain_word (dbOrderPrefix ob) \<and> list_all total_property (dbFilterProperties ob)"

definition extra_mentions :: "('e, 'f) DbObject \<Rightarrow> 'f \<Rightarrow> sql_order \<Rightarrow> string set" where
  "extra_mentions ob f so = (case dbExtraColumns ob of None \<Rightarrow> {} | Some extra \<Rightarrow> (\<Union>c \<in> set (extra f so). aliases c))"

lemma last_word_from: "CHR 0x20 \<notin> set k \<Longrightarrow> last_word (t @ '' '' @ k) = k"
proof -
  assume "CHR 0x20 \<notin> set k"
  then have "takeWhile (\<lambda>c. c \<noteq> CHR 0x20) (rev k @ CHR 0x20 # rev t) = rev k"
    by (subst takeWhile_append2) auto
  then show ?thesis by (simp add: last_word_def)
qed

lemma plain_no_space: "plain_word w \<Longrightarrow> CHR 0x20 \<notin> set w"
  by (auto simp: plain_word_def)

lemma key_from: "key_object ob \<Longrightarrow> last_word (st_from (fromBuilder ob q)) = dbTableKey ob"
  using last_word_from plain_no_space by (auto simp: fromBuilder_def key_object_def named_def)

lemma attr_aliases:
  assumes "key_object ob" and "CHR ''.'' \<notin> set a"
  shows "aliases (getAttrStr ob a @ s) = insert (dbTableKey ob) (aliases (dbPrefix ob @ ''_'' @ a @ s))"
  using assms by (simp add: getAttrStr_def qualified_text key_object_def named_def)

lemma key_columns:
  assumes "key_object ob"
  shows "aliases (getAttrStr ob ''id'') = {dbTableKey ob}"
    and "aliases (dbTableKey ob @ ''.*'') = {dbTableKey ob}"
    and "aliases (''count(distinct '' @ getAttrStr ob ''id'' @ '')'') = {dbTableKey ob}"
proof -
  have nd: "aliases (dbPrefix ob @ ''_'' @ ''id'' @ s) = {}" if "CHR ''.'' \<notin> set s" for s
    using assms that by (intro no_dot_aliases) (simp add: key_object_def)
  show "aliases (getAttrStr ob ''id'') = {dbTableKey ob}"
    using attr_aliases [OF assms, of "''id''" "[]"] nd [of "[]"] by simp
  have "aliases ''*'' = {}" by code_simp
  then show "aliases (dbTableKey ob @ ''.*'') = {dbTableKey ob}"
    using qualified_text(1) [of "dbTableKey ob" "''*''"] assms by (simp add: key_object_def named_def)
  have "closed_text ''count(distinct''" "aliases ''count(distinct'' = {}" by (code_simp)+
  then show "aliases (''count(distinct '' @ getAttrStr ob ''id'' @ '')'') = {dbTableKey ob}"
    using aliases_join [of "''count(distinct''" "getAttrStr ob ''id'' @ '')''"] attr_aliases [OF assms, of "''id''" "'')''"]
      nd [of "'')''"] by simp
qed

lemma key_base:
  assumes "key_object ob"
  shows "base_query (groupByBuilder ob (fromBuilder ob (getSelectBuilder ob f so)))"
    and "base_mentions (groupByBuilder ob (fromBuilder ob (getSelectBuilder ob f so))) = insert (dbTableKey ob) (extra_mentions ob f so)"
    and "base_query (fromBuilder ob (countSelectBuilder ob))"
    and "base_mentions (fromBuilder ob (countSelectBuilder ob)) = {dbTableKey ob}"
    and "base_query (groupByBuilder ob (fromBuilder ob (Select [getAttrStr ob ''id''])))"
    and "base_mentions (groupByBuilder ob (fromBuilder ob (Select [getAttrStr ob ''id'']))) = {dbTableKey ob}"
  using assms key_columns [OF assms]
  by (auto simp: base_query_def base_mentions_def groupByBuilder_def fromBuilder_def getSelectBuilder_def selectColumns_def
      Select_def countSelectBuilder_def extra_mentions_def key_object_def named_def split: option.splits)

text \<open>
  The list of an object, its cursors, its number and its ids: each query is built without panic
  and each is resolved if and only if its condition holds.
\<close>

definition list_order :: "('e, 'f) DbObject \<Rightarrow> entity_order list \<Rightarrow> sql_order" where
  "list_order ob order = NewOrderWithCounterPrefix order (dbDefaultOrder ob) (dbOrderPrefix ob)"

definition count_order :: "('e, 'f) DbObject \<Rightarrow> sql_order" where
  "count_order ob = NewOrder [] (dbDefaultOrder ob)"

definition list_covered :: "nat \<Rightarrow> ('e, 'f) DbObject \<Rightarrow> 'f \<Rightarrow> entity_order list \<Rightarrow> bool" where
  "list_covered k ob f order \<longleftrightarrow> (let so = list_order ob order in
     extra_mentions ob f so \<union> filter_mentions (dbFilterProperties ob) f \<union> order_mentions so
       \<subseteq> insert (dbTableKey ob) (joined k (dbJoinDefs ob) [] f so))"

definition count_covered :: "nat \<Rightarrow> ('e, 'f) DbObject \<Rightarrow> 'f \<Rightarrow> bool" where
  "count_covered k ob f \<longleftrightarrow>
     filter_mentions (dbFilterProperties ob) f \<subseteq> insert (dbTableKey ob) (joined k (dbJoinDefs ob) [] f (count_order ob))"

lemma with_build_error:
  "statement_if decodes cond (build_error what ob q) = statement_if decodes cond q"
  by (cases "(decodes, cond, q)" rule: statement_if.cases) (auto simp: build_error_def)

context join_set
begin

lemma list_statements:
  assumes "dbJoinDefs ob = defs" and "dbTableKey ob = key" and "key_object ob"
    and "set (required_joins defs [] f (list_order ob order)) \<subseteq> live"
  shows "statement_if (cursor_decodes decode page) (list_covered k ob f order) (Get k decode ob f page order)"
    and "statement_if True (list_covered k ob f order) (GetAllCursors k decode ob f page order)"
proof -
  let ?so = "list_order ob order"
  let ?q = "groupByBuilder ob (fromBuilder ob (getSelectBuilder ob f ?so))"
  have from': "last_word (st_from ?q) = key"
    using key_from [OF assms(3)] assms(2) by (simp add: groupByBuilder_def)
  have "plain_word (counterPrefix ?so)" "list_all total_property (dbFilterProperties ob)"
    using assms(3) by (simp_all add: list_order_def NewOrderWithCounterPrefix_def key_object_def)
  note st = BuildQuery_statement [OF assms(1) key_base(1) [OF assms(3)] from' this(2) assms(4) this(1)]
  have cov: "(base_mentions ?q \<union> filter_mentions (dbFilterProperties ob) f \<union> order_mentions ?so
      \<subseteq> insert key (joined k defs [] f ?so)) = list_covered k ob f order"
    using key_base(2) [OF assms(3)] assms(1,2) by (simp add: list_covered_def Let_def)
  have ok: "named ob" using assms(3) by (simp add: key_object_def)
  show "statement_if (cursor_decodes decode page) (list_covered k ob f order) (Get k decode ob f page order)"
    using st [where withCursor = True] ok unfolding cov
    by (simp add: Get_def list_order_def Let_def guarded_def with_build_error named_def)
  show "statement_if True (list_covered k ob f order) (GetAllCursors k decode ob f page order)"
    using st [where withCursor = False] ok unfolding cov
    by (simp add: GetAllCursors_def list_order_def Let_def guarded_def with_build_error)
qed

lemma count_statements:
  assumes "dbJoinDefs ob = defs" and "dbTableKey ob = key" and "key_object ob"
    and "set (required_joins defs [] f (count_order ob)) \<subseteq> live"
  shows "statement_if True (count_covered k ob f) (Count k decode ob f page)"
    and "statement_if True (count_covered k ob f) (GetAllIds k decode ob f page)"
proof -
  let ?so = "count_order ob"
  have so: "plain_word (counterPrefix ?so)" "order_mentions ?so = {}"
    by (simp_all add: count_order_def NewOrder_def NewOrderWithCounterPrefix_def plain_word_def order_mentions_def)
  have tot: "list_all total_property (dbFilterProperties ob)" and ok: "named ob"
    using assms(3) by (simp_all add: key_object_def)
  have st: "statement_if True (count_covered k ob f) (BuildQuery_object k decode ob q f page ?so False [])"
    if "base_query q" "last_word (st_from q) = key" "base_mentions q = {key}" for q
    using BuildQuery_statement [OF assms(1) that(1,2) tot assms(4) so(1), where withCursor = False] that(3) so(2) assms(1,2)
    by (simp add: count_covered_def)
  show "statement_if True (count_covered k ob f) (Count k decode ob f page)"
    using st [OF key_base(3) [OF assms(3)]] key_from [OF assms(3)] key_base(4) [OF assms(3)] assms(2) ok
    by (simp add: Count_def guarded_def with_build_error count_order_def)
  show "statement_if True (count_covered k ob f) (GetAllIds k decode ob f page)"
    using st [OF key_base(5) [OF assms(3)]] key_from [OF assms(3)] key_base(6) [OF assms(3)] assms(2) ok
    by (simp add: GetAllIds_def guarded_def with_build_error count_order_def groupByBuilder_def)
qed

end

text \<open>All queries of an object, the lists of its attributes included, are resolved.\<close>

definition queries_resolve ::
  "nat \<Rightarrow> (string \<Rightarrow> goerr + Field list) \<Rightarrow> ('e, 'f) DbObject \<Rightarrow> 'f \<Rightarrow> Paginated \<Rightarrow> entity_order list \<Rightarrow> bool" where
  "queries_resolve k decode ob f page order \<longleftrightarrow>
     statement_if (cursor_decodes decode page) True (Get k decode ob f page order)
     \<and> statement_if True True (GetAllCursors k decode ob f page order)
     \<and> statement_if True True (Count k decode ob f page)
     \<and> statement_if True True (GetAllIds k decode ob f page)
     \<and> list_all (\<lambda>attr. statement_if True True (GetAttr k decode ob (atName attr) f page)) (dbAttributes ob)"

definition good_attributes :: "('e, 'f) DbObject \<Rightarrow> bool" where
  "good_attributes ob \<longleftrightarrow> list_all (\<lambda>attr. CHR ''.'' \<notin> set (atName attr)) (dbAttributes ob)"

lemma required_names: "set (required_joins defs [] f so) \<subseteq> set (map jName defs)"
  by (auto simp: required_joins_def)

lemma covered_no_prefix:
  assumes "dbOrderPrefix ob = []"
    and "\<And>so. extra_mentions ob f so \<subseteq> insert (dbTableKey ob) (joined k (dbJoinDefs ob) [] f so)"
    and "\<And>so. filter_mentions (dbFilterProperties ob) f \<subseteq> insert (dbTableKey ob) (joined k (dbJoinDefs ob) [] f so)"
  shows "list_covered k ob f order" "count_covered k ob f"
  using assms
  by (simp_all add: list_covered_def count_covered_def Let_def order_mentions_def list_order_def NewOrderWithCounterPrefix_def)

lemma find_attribute: "attr \<in> set as \<Longrightarrow> \<exists>a \<in> set as. find (\<lambda>x. atName x = atName attr) as = Some a"
  by (induction as) auto

context join_set
begin

lemma attribute_statement:
  assumes "dbJoinDefs ob = defs" and "dbTableKey ob = key" and "key_object ob" and "live = set (map jName defs)"
    and "good_attributes ob" and "attr \<in> set (dbAttributes ob)"
    and "\<And>so. filter_mentions (dbFilterProperties ob) f \<subseteq> insert key (joined k defs [] f so)"
  shows "statement_if True True (GetAttr k decode ob (atName attr) f page)"
proof -
  obtain a where a: "a \<in> set (dbAttributes ob)" "find (\<lambda>x. atName x = atName attr) (dbAttributes ob) = Some a"
    using find_attribute [OF assms(6)] by blast
  let ?q = "fromBuilder ob (Select [getAttrStr ob (atName a)])" and ?so = "NewOrder [] (atOrder a)"
  have so: "plain_word (counterPrefix ?so)" "order_mentions ?so = {}"
    by (simp_all add: NewOrder_def NewOrderWithCounterPrefix_def plain_word_def order_mentions_def)
  have dot: "CHR ''.'' \<notin> set (atName a)" using assms(5) a(1) by (simp add: good_attributes_def list_all_iff)
  then have "aliases (dbPrefix ob @ ''_'' @ atName a) = {}"
    using assms(3) by (intro no_dot_aliases) (simp add: key_object_def)
  then have col: "aliases (getAttrStr ob (atName a)) = {key}"
    using attr_aliases [OF assms(3) dot, of "[]"] assms(2) by simp
  have q: "base_query ?q" "base_mentions ?q = {key}" "last_word (st_from ?q) = key"
    using key_from [OF assms(3)] assms(2) col
    by (simp_all add: base_query_def base_mentions_def fromBuilder_def Select_def)
  have tot: "list_all total_property (dbFilterProperties ob)" and ok: "named ob"
    using assms(3) by (simp_all add: key_object_def)
  have req: "set (required_joins defs [] f ?so) \<subseteq> live" using required_names assms(4) by simp
  have "statement_if True True (BuildQuery_object k decode ob ?q f page ?so False [])"
    using BuildQuery_statement [OF assms(1) q(1,3) tot req so(1), where withCursor = False] q(2) so(2) assms(7) [of ?so]
    by simp
  then show ?thesis using a(2) ok by (simp add: GetAttr_def guarded_def with_build_error)
qed

lemma object_resolves:
  assumes "dbJoinDefs ob = defs" and "dbTableKey ob = key" and "key_object ob" and "live = set (map jName defs)"
    and "good_attributes ob" and "dbOrderPrefix ob = []"
    and "\<And>so. extra_mentions ob f so \<subseteq> insert key (joined k defs [] f so)"
    and "\<And>so. filter_mentions (dbFilterProperties ob) f \<subseteq> insert key (joined k defs [] f so)"
  shows "queries_resolve k decode ob f page order"
proof -
  have cov: "list_covered k ob f order" "count_covered k ob f"
    using covered_no_prefix [OF assms(6), of f k] assms(1,2,7,8) by simp_all
  have req: "set (required_joins defs [] f so) \<subseteq> live" for so using required_names assms(4) by simp
  show ?thesis
    using list_statements [OF assms(1-3) req, where order = order] count_statements [OF assms(1-3) req]
      attribute_statement [OF assms(1-5) _ assms(8)]
    unfolding cov [THEN eqTrueI] queries_resolve_def list_all_iff by blast
qed

end

end
