(* ===== verification/Table_Objects.thy ===== *)
theory Table_Objects
  imports Sql_Aliases Service_Handler Group_User_Handlers Component_Handlers Severity_Handlers Remediation_Handler
begin

text \<open>
  The tables of the SQL layer as objects: properties, filters, joins, attributes and extra columns
  of services, component versions and instances, users, support groups, issue repositories and
  variants, patches, remediations, service issue variants and issue matches (one file each under
  \<open>internal/database/mariadb/\<close>), and the proof that the queries of each are resolved for every
  filter and order.
\<close>

section \<open>Values\<close>

text \<open>\<open>sql.NullInt64\<close> is NULL unless valid; a boolean is a number to the database.\<close>

definition IsValidId :: "id64 \<Rightarrow> bool" where "IsValidId i \<longleftrightarrow> i > 0"

definition null_id :: "id64 \<Rightarrow> fparam" where
  "null_id i = PVal (if IsValidId i then IntV i else NullV)"

definition ValueOrDefault :: "'a option \<Rightarrow> 'a \<Rightarrow> 'a" where
  "ValueOrDefault p d = (case p of None \<Rightarrow> d | Some v \<Rightarrow> v)"

definition bool_value :: "bool \<Rightarrow> fparam" where "bool_value b = PVal (IntV (if b then 1 else 0))"
definition bools :: "bool list \<Rightarrow> fparam list" where "bools = map bool_value"

text \<open>\<open>Json.Value\<close>: a nil map is stored as NULL.\<close>

definition json_value :: "json option \<Rightarrow> fparam" where
  "json_value j = (case j of None \<Rightarrow> PVal NullV | Some v \<Rightarrow> if v = JNull then PVal NullV else PJson v)"

definition InvalidUserType :: int where "InvalidUserType = 0"

text \<open>The columns an order adds to a query.\<close>

definition order_columns :: "(OrderByField \<Rightarrow> string option) \<Rightarrow> sql_order \<Rightarrow> string list" where
  "order_columns column so = concat (map (\<lambda>o'. case column (By o') of None \<Rightarrow> [] | Some c \<Rightarrow> [c]) (sequence so))"

section \<open>Services\<close>

definition serviceProperties :: "Service Property list" where
  "serviceProperties =
    [NewProperty ''service_ccrn'' (\<lambda>e. (PVal (StrV (svcCCRN e)), svcCCRN e \<noteq> [])),
     NewProperty ''service_domain'' (\<lambda>e. (PVal (StrV (svcDomain e)), svcDomain e \<noteq> [])),
     NewProperty ''service_region'' (\<lambda>e. (PVal (StrV (svcRegion e)), svcRegion e \<noteq> [])),
     NewProperty ''service_created_by'' (\<lambda>e. (PVal (IntV (CreatedBy (svcMeta e))), NoUpdate)),
     NewProperty ''service_updated_by'' (\<lambda>e. (PVal (IntV (UpdatedBy (svcMeta e))), UpdatedBy (svcMeta e) \<noteq> 0))]"

definition serviceFilterProperties :: "ServiceFilter FilterProperty list" where
  "serviceFilterProperties =
    [NewFilterProperty ''S.service_ccrn = ?'' (\<lambda>f. ptrs (sfCCRN f)),
     NewFilterProperty ''S.service_domain = ?'' (\<lambda>f. strs (sfDomain f)),
     NewFilterProperty ''S.service_region = ?'' (\<lambda>f. strs (sfRegion f)),
     NewFilterProperty ''S.service_id = ?'' (\<lambda>f. ids (sfId f)),
     NewFilterProperty ''SG.supportgroup_ccrn = ?'' (\<lambda>f. strs (sfSupportGroupCCRN f)),
     NewFilterProperty ''U.user_name = ?'' (\<lambda>f. strs (sfOwnerName f)),
     NewFilterProperty ''IM.issuematch_issue_id = ?'' (\<lambda>f. ids (sfIssueId f)),
     NewFilterProperty ''CI.componentinstance_id = ?'' (\<lambda>f. ids (sfComponentInstanceId f)),
     NewFilterProperty ''IRS.issuerepositoryservice_issue_repository_id = ?'' (\<lambda>f. ids (sfIssueRepositoryId f)),
     NewFilterProperty ''SGS.supportgroupservice_support_group_id = ?'' (\<lambda>f. ids (sfSupportGroupId f)),
     NewFilterProperty ''O.owner_user_id = ?'' (\<lambda>f. ids (sfOwnerId f)),
     NewFilterProperty (like_param ''S.service_ccrn'') (\<lambda>f. strs (sfSearch f)),
     NewStateFilterProperty ''S.service'' sfState]"

definition serviceJoinDefs :: "ServiceFilter JoinDef list" where
  "serviceJoinDefs =
    [\<lparr>jName = ''O'', jType = LeftJoin, jTable = ''Owner O'',
      jOn = ''S.service_id = O.owner_service_id'',
      jDependsOn = [], jCondition = Some (\<lambda>f so. sfOwnerId f \<noteq> [])\<rparr>,
     \<lparr>jName = ''U'', jType = LeftJoin, jTable = ''User U'',
      jOn = ''O.owner_user_id = U.user_id'',
      jDependsOn = [''O''], jCondition = Some (\<lambda>f so. sfOwnerName f \<noteq> [])\<rparr>,
     \<lparr>jName = ''SGS'', jType = LeftJoin, jTable = ''SupportGroupService SGS'',
      jOn = ''S.service_id = SGS.supportgroupservice_service_id'',
      jDependsOn = [], jCondition = Some (\<lambda>f so. sfSupportGroupId f \<noteq> [])\<rparr>,
     \<lparr>jName = ''SG'', jType = LeftJoin, jTable = ''SupportGroup SG'',
      jOn = ''SGS.supportgroupservice_support_group_id = SG.supportgroup_id'',
      jDependsOn = [''SGS''], jCondition = Some (\<lambda>f so. sfSupportGroupCCRN f \<noteq> [])\<rparr>,
     \<lparr>jName = ''CI'', jType = LeftJoin, jTable = ''ComponentInstance CI'',
      jOn = ''S.service_id = CI.componentinstance_service_id'',
      jDependsOn = [], jCondition = Some (\<lambda>f so. sfComponentInstanceId f \<noteq> [])\<rparr>,
     \<lparr>jName = ''IM'', jType = LeftJoin, jTable = ''IssueMatch IM'',
      jOn = ''CI.componentinstance_id = IM.issuematch_component_instance_id'',
      jDependsOn = [''CI''], jCondition = Some (\<lambda>f so. sfIssueId f \<noteq> [])\<rparr>,
     \<lparr>jName = ''IRS'', jType = LeftJoin, jTable = ''IssueRepositoryService IRS'',
      jOn = ''S.service_id = IRS.issuerepositoryservice_service_id'',
      jDependsOn = [], jCondition = Some (\<lambda>f so. sfIssueRepositoryId f \<noteq> [])\<rparr>,
     \<lparr>jName = ''SIC'', jType = LeftJoin, jTable = ''mvServiceIssueCounts SIC'',
      jOn = ''S.service_id = SIC.service_id'',
      jDependsOn = [], jCondition = Some (\<lambda>f so. ByCount so)\<rparr>]"

definition serviceAttributes :: "Attr list" where
  "serviceAttributes =
    [\<lparr>atName = ''ccrn'', atOrder = \<lparr>By = ServiceCcrn, Direction = OrderDirectionAsc\<rparr>\<rparr>,
     \<lparr>atName = ''domain'', atOrder = \<lparr>By = ServiceCcrn, Direction = OrderDirectionAsc\<rparr>\<rparr>,
     \<lparr>atName = ''region'', atOrder = \<lparr>By = ServiceCcrn, Direction = OrderDirectionAsc\<rparr>\<rparr>]"

definition service_count_column :: "OrderByField \<Rightarrow> string option" where
  "service_count_column o' =
     (if o' = CriticalCount then Some ''SIC.critical_count''
      else if o' = HighCount then Some ''SIC.high_count''
      else if o' = MediumCount then Some ''SIC.medium_count''
      else if o' = LowCount then Some ''SIC.low_count''
      else if o' = NoneCount then Some ''SIC.none_count''
      else None)"

definition serviceExtraColumns :: "ServiceFilter \<Rightarrow> sql_order \<Rightarrow> string list" where
  "serviceExtraColumns f so =
     (if sfIssueRepositoryId f \<noteq> [] then [''IRS.*''] else []) @ order_columns service_count_column so"

definition serviceObject :: "(Service, ServiceFilter) DbObject" where
  "serviceObject =
    \<lparr>dbPrefix = ''service'', dbTableName = ''Service'', dbTableKey = ''S'',
     dbDefaultOrder = \<lparr>By = ServiceId, Direction = OrderDirectionAsc\<rparr>, dbOrderPrefix = [],
     dbProperties = serviceProperties, dbFilterProperties = serviceFilterProperties,
     dbJoinDefs = serviceJoinDefs,
     dbAttributes = serviceAttributes,
     dbAggregated = True, dbExtraColumns = Some serviceExtraColumns, dbForceFrom = []\<rparr>"

section \<open>Component versions\<close>

definition componentVersionProperties :: "ComponentVersion Property list" where
  "componentVersionProperties =
    [NewProperty ''componentversion_component_id'' (\<lambda>e. (PVal (IntV (cvComponentId e)), cvComponentId e \<noteq> 0)),
     NewProperty ''componentversion_version'' (\<lambda>e. (PVal (StrV (cvVersion e)), cvVersion e \<noteq> [])),
     NewProperty ''componentversion_tag'' (\<lambda>e. (PVal (StrV (cvTag e)), cvTag e \<noteq> [])),
     NewProperty ''componentversion_repository'' (\<lambda>e. (PVal (StrV (cvRepository e)), cvRepository e \<noteq> [])),
     NewProperty ''componentversion_organization'' (\<lambda>e. (PVal (StrV (cvOrganization e)), cvOrganization e \<noteq> [])),
     NewProperty ''componentversion_created_by'' (\<lambda>e. (PVal (IntV (CreatedBy (cvMeta e))), NoUpdate)),
     NewProperty ''componentversion_updated_by'' (\<lambda>e. (PVal (IntV (UpdatedBy (cvMeta e))), UpdatedBy (cvMeta e) \<noteq> 0)),
     NewProperty ''componentversion_end_of_life'' (\<lambda>e. (bool_value (ValueOrDefault (cvEndOfLife e) False), cvEndOfLife e \<noteq> None))]"

definition componentVersionFilterProperties :: "ComponentVersionFilter FilterProperty list" where
  "componentVersionFilterProperties =
    [NewFilterProperty ''CV.componentversion_id = ?'' (\<lambda>f. ids (vfId f)),
     NewFilterProperty ''CVI.componentversionissue_issue_id = ?'' (\<lambda>f. ids (vfIssueId f)),
     NewFilterProperty ''CV.componentversion_component_id = ?'' (\<lambda>f. ids (vfComponentId f)),
     NewFilterProperty ''CV.componentversion_version = ?'' (\<lambda>f. strs (vfVersion f)),
     NewFilterProperty ''CV.componentversion_tag = ?'' (\<lambda>f. strs (vfTag f)),
     NewFilterProperty ''CV.componentversion_repository = ?'' (\<lambda>f. strs (vfRepository f)),
     NewFilterProperty ''CV.componentversion_organization = ?'' (\<lambda>f. strs (vfOrganization f)),
     NewFilterProperty ''C.component_ccrn = ?'' (\<lambda>f. strs (vfComponentCCRN f)),
     NewFilterProperty ''S.service_ccrn = ?'' (\<lambda>f. strs (vfServiceCCRN f)),
     NewFilterProperty ''CI.componentinstance_service_id = ?'' (\<lambda>f. ids (vfServiceId f)),
     NewFilterProperty ''IV.issuevariant_repository_id = ?'' (\<lambda>f. ids (vfIssueRepositoryId f)),
     NewFilterProperty ''CV.componentversion_end_of_life = ?'' (\<lambda>f. bools (vfEndOfLife f)),
     NewStateFilterProperty ''CV.componentversion'' vfState]"

definition componentVersionJoinDefs :: "ComponentVersionFilter JoinDef list" where
  "componentVersionJoinDefs =
    [\<lparr>jName = ''CVI'', jType = LeftJoin, jTable = ''ComponentVersionIssue CVI'',
      jOn = ''CV.componentversion_id = CVI.componentversionissue_component_version_id'',
      jDependsOn = [], jCondition = Some (\<lambda>f so. vfIssueId f \<noteq> [])\<rparr>,
     \<lparr>jName = ''IV'', jType = LeftJoin, jTable = ''IssueVariant IV'',
      jOn = ''CVI.componentversionissue_issue_id = IV.issuevariant_issue_id'',
      jDependsOn = [''CVI''], jCondition = Some (\<lambda>f so. ByCount so \<or> vfIssueRepositoryId f \<noteq> [])\<rparr>,
     \<lparr>jName = ''C'', jType = LeftJoin, jTable = ''Component C'',
      jOn = ''CV.componentversion_component_id = C.component_id'',
      jDependsOn = [], jCondition = Some (\<lambda>f so. vfComponentCCRN f \<noteq> [])\<rparr>,
     \<lparr>jName = ''CI'', jType = LeftJoin, jTable = ''ComponentInstance CI'',
      jOn = ''CV.componentversion_id = CI.componentinstance_component_version_id'',
      jDependsOn = [], jCondition = Some (\<lambda>f so. vfServiceId f \<noteq> [])\<rparr>,
     \<lparr>jName = ''S'', jType = LeftJoin, jTable = ''Service S'',
      jOn = ''CI.componentinstance_service_id = S.service_id'',
      jDependsOn = [''CI''], jCondition = Some (\<lambda>f so. vfServiceCCRN f \<noteq> [])\<rparr>]"

definition rating_count :: "string \<Rightarrow> string \<Rightarrow> string" where
  "rating_count rating name = ''COUNT(distinct CASE WHEN IV.issuevariant_rating = '' @ [CHR 0x27] @ rating @ [CHR 0x27]
     @ '' THEN IV.issuevariant_issue_id END) as '' @ name"

definition version_count_column :: "OrderByField \<Rightarrow> string option" where
  "version_count_column o' =
     (if o' = CriticalCount then Some (rating_count ''Critical'' ''critical_count'')
      else if o' = HighCount then Some (rating_count ''High'' ''high_count'')
      else if o' = MediumCount then Some (rating_count ''Medium'' ''medium_count'')
      else if o' = LowCount then Some (rating_count ''Low'' ''low_count'')
      else if o' = NoneCount then Some (rating_count ''None'' ''none_count'')
      else None)"

definition componentVersionExtraColumns :: "ComponentVersionFilter \<Rightarrow> sql_order \<Rightarrow> string list" where
  "componentVersionExtraColumns f so = order_columns version_count_column so"

definition componentVersionObject :: "(ComponentVersion, ComponentVersionFilter) DbObject" where
  "componentVersionObject =
    \<lparr>dbPrefix = ''componentversion'', dbTableName = ''ComponentVersion'', dbTableKey = ''CV'',
     dbDefaultOrder = \<lparr>By = ComponentVersionId, Direction = OrderDirectionAsc\<rparr>, dbOrderPrefix = [],
     dbProperties = componentVersionProperties, dbFilterProperties = componentVersionFilterProperties,
     dbJoinDefs = componentVersionJoinDefs,
     dbAttributes = [],
     dbAggregated = True, dbExtraColumns = Some componentVersionExtraColumns, dbForceFrom = []\<rparr>"

section \<open>Component instances\<close>

definition componentInstanceProperties :: "ComponentInstance Property list" where
  "componentInstanceProperties =
    [NewProperty ''componentinstance_ccrn'' (\<lambda>e. (PVal (StrV (ciCCRN e)), ciCCRN e \<noteq> [])),
     NewProperty ''componentinstance_region'' (\<lambda>e. (PVal (StrV (ciRegion e)), ciRegion e \<noteq> [])),
     NewProperty ''componentinstance_cluster'' (\<lambda>e. (PVal (StrV (ciCluster e)), ciCluster e \<noteq> [])),
     NewProperty ''componentinstance_namespace'' (\<lambda>e. (PVal (StrV (ciNamespace e)), ciNamespace e \<noteq> [])),
     NewProperty ''componentinstance_domain'' (\<lambda>e. (PVal (StrV (ciDomain e)), ciDomain e \<noteq> [])),
     NewProperty ''componentinstance_project'' (\<lambda>e. (PVal (StrV (ciProject e)), ciProject e \<noteq> [])),
     NewProperty ''componentinstance_pod'' (\<lambda>e. (PVal (StrV (ciPod e)), ciPod e \<noteq> [])),
     NewProperty ''componentinstance_container'' (\<lambda>e. (PVal (StrV (ciContainer e)), ciContainer e \<noteq> [])),
     NewProperty ''componentinstance_type'' (\<lambda>e. (PVal (StrV (ciType e)), ciType e \<noteq> [])),
     NewProperty ''componentinstance_parent_id'' (\<lambda>e. (null_id (ciParentId e), ciParentId e \<noteq> 0)),
     NewProperty ''componentinstance_context'' (\<lambda>e. (json_value (ciContext e), ciContext e \<noteq> None)),
     NewProperty ''componentinstance_count'' (\<lambda>e. (PVal (IntV (ciCount e)), ciCount e \<noteq> 0)),
     NewProperty ''componentinstance_component_version_id'' (\<lambda>e. (null_id (ciComponentVersionId e), ciComponentVersionId e \<noteq> 0)),
     NewProperty ''componentinstance_service_id'' (\<lambda>e. (PVal (IntV (ciServiceId e)), ciServiceId e \<noteq> 0)),
     NewProperty ''componentinstance_created_by'' (\<lambda>e. (PVal (IntV (CreatedBy (ciMeta e))), NoUpdate)),
     NewProperty ''componentinstance_updated_by'' (\<lambda>e. (PVal (IntV (UpdatedBy (ciMeta e))), UpdatedBy (ciMeta e) \<noteq> 0))]"

definition componentInstanceFilterProperties :: "ComponentInstanceFilter FilterProperty list" where
  "componentInstanceFilterProperties =
    [NewFilterProperty ''CI.componentinstance_id = ?'' (\<lambda>f. ids (nfId f)),
     NewFilterProperty ''CI.componentinstance_ccrn = ?'' (\<lambda>f. strs (nfCCRN f)),
     NewFilterProperty ''CI.componentinstance_region = ?'' (\<lambda>f. strs (nfRegion f)),
     NewFilterProperty ''CI.componentinstance_cluster = ?'' (\<lambda>f. strs (nfCluster f)),
     NewFilterProperty ''CI.componentinstance_namespace = ?'' (\<lambda>f. strs (nfNamespace f)),
     NewFilterProperty ''CI.componentinstance_domain = ?'' (\<lambda>f. strs (nfDomain f)),
     NewFilterProperty ''CI.componentinstance_project = ?'' (\<lambda>f. strs (nfProject f)),
     NewFilterProperty ''CI.componentinstance_pod = ?'' (\<lambda>f. strs (nfPod f)),
     NewFilterProperty ''CI.componentinstance_container = ?'' (\<lambda>f. strs (nfContainer f)),
     NewFilterProperty ''CI.componentinstance_type = ?'' (\<lambda>f. strs (nfType f)),
     NewFilterProperty ''CI.componentinstance_parent_id = ?'' (\<lambda>f. ids (nfParentId f)),
     NewJsonFilterProperty ''CI.componentinstance_context'' nfContext,
     NewFilterProperty ''IM.issuematch_id = ?'' (\<lambda>f. ids (nfIssueMatchId f)),
     NewFilterProperty ''CI.componentinstance_service_id = ?'' (\<lambda>f. ids (nfServiceId f)),
     NewFilterProperty ''S.service_ccrn = ?'' (\<lambda>f. strs (nfServiceCcrn f)),
     NewFilterProperty ''CI.componentinstance_component_version_id = ?'' (\<lambda>f. ids (nfComponentVersionId f)),
     NewFilterProperty ''CV.componentversion_version = ?'' (\<lambda>f. strs (nfComponentVersionVersion f)),
     NewFilterProperty (like_param ''CI.componentinstance_ccrn'') (\<lambda>f. strs (nfSearch f)),
     NewStateFilterProperty ''CI.componentinstance'' nfState]"

definition componentInstanceJoinDefs :: "ComponentInstanceFilter JoinDef list" where
  "componentInstanceJoinDefs =
    [\<lparr>jName = ''IM'', jType = InnerJoin, jTable = ''IssueMatch IM'',
      jOn = ''CI.componentinstance_id = IM.issuematch_component_instance_id'',
      jDependsOn = [], jCondition = Some (\<lambda>f so. nfIssueMatchId f \<noteq> [])\<rparr>,
     \<lparr>jName = ''S'', jType = InnerJoin, jTable = ''Service S'',
      jOn = ''CI.componentinstance_service_id = S.service_id'',
      jDependsOn = [], jCondition = Some (\<lambda>f so. nfServiceCcrn f \<noteq> [])\<rparr>,
     \<lparr>jName = ''CV'', jType = InnerJoin, jTable = ''ComponentVersion CV'',
      jOn = ''CI.componentinstance_component_version_id = CV.componentversion_id'',
      jDependsOn = [], jCondition = Some (\<lambda>f so. nfComponentVersionVersion f \<noteq> [])\<rparr>]"

definition componentInstanceAttributes :: "Attr list" where
  "componentInstanceAttributes =
    [\<lparr>atName = ''ccrn'', atOrder = \<lparr>By = ComponentInstanceCcrn, Direction = OrderDirectionAsc\<rparr>\<rparr>,
     \<lparr>atName = ''region'', atOrder = \<lparr>By = ComponentInstanceCcrn, Direction = OrderDirectionAsc\<rparr>\<rparr>,
     \<lparr>atName = ''cluster'', atOrder = \<lparr>By = ComponentInstanceCcrn, Direction = OrderDirectionAsc\<rparr>\<rparr>,
     \<lparr>atName = ''namespace'', atOrder = \<lparr>By = ComponentInstanceCcrn, Direction = OrderDirectionAsc\<rparr>\<rparr>,
     \<lparr>atName = ''domain'', atOrder = \<lparr>By = ComponentInstanceCcrn, Direction = OrderDirectionAsc\<rparr>\<rparr>,
     \<lparr>atName = ''project'', atOrder = \<lparr>By = ComponentInstanceCcrn, Direction = OrderDirectionAsc\<rparr>\<rparr>,
     \<lparr>atName = ''pod'', atOrder = \<lparr>By = ComponentInstanceCcrn, Direction = OrderDirectionAsc\<rparr>\<rparr>,
     \<lparr>atName = ''container'', atOrder = \<lparr>By = ComponentInstanceCcrn, Direction = OrderDirectionAsc\<rparr>\<rparr>,
     \<lparr>atName = ''type'', atOrder = \<lparr>By = ComponentInstanceCcrn, Direction = OrderDirectionAsc\<rparr>\<rparr>,
     \<lparr>atName = ''parent_id'', atOrder = \<lparr>By = ComponentInstanceCcrn, Direction = OrderDirectionAsc\<rparr>\<rparr>,
     \<lparr>atName = ''context'', atOrder = \<lparr>By = ComponentInstanceCcrn, Direction = OrderDirectionAsc\<rparr>\<rparr>]"

definition componentInstanceObject :: "(ComponentInstance, ComponentInstanceFilter) DbObject" where
  "componentInstanceObject =
    \<lparr>dbPrefix = ''componentinstance'', dbTableName = ''ComponentInstance'', dbTableKey = ''CI'',
     dbDefaultOrder = \<lparr>By = ComponentInstanceId, Direction = OrderDirectionAsc\<rparr>, dbOrderPrefix = [],
     dbProperties = componentInstanceProperties, dbFilterProperties = componentInstanceFilterProperties,
     dbJoinDefs = componentInstanceJoinDefs,
     dbAttributes = componentInstanceAttributes,
     dbAggregated = False, dbExtraColumns = None, dbForceFrom = []\<rparr>"

section \<open>Users\<close>

definition userProperties :: "User Property list" where
  "userProperties =
    [NewProperty ''user_name'' (\<lambda>e. (PVal (StrV (userName e)), userName e \<noteq> [])),
     NewProperty ''user_unique_user_id'' (\<lambda>e. (PVal (StrV (userUniqueUserID e)), userUniqueUserID e \<noteq> [])),
     NewProperty ''user_type'' (\<lambda>e. (PVal (IntV (userType e)), userType e \<noteq> InvalidUserType)),
     NewProperty ''user_email'' (\<lambda>e. (PVal (StrV (userEmail e)), userEmail e \<noteq> [])),
     NewProperty ''user_created_by'' (\<lambda>e. (PVal (IntV (CreatedBy (userMeta e))), NoUpdate)),
     NewProperty ''user_updated_by'' (\<lambda>e. (PVal (IntV (UpdatedBy (userMeta e))), UpdatedBy (userMeta e) \<noteq> 0))]"

definition userFilterProperties :: "UserFilter FilterProperty list" where
  "userFilterProperties =
    [NewFilterProperty ''U.user_id = ?'' (\<lambda>f. ids (ufId f)),
     NewFilterProperty ''U.user_name = ?'' (\<lambda>f. strs (ufName f)),
     NewFilterProperty ''U.user_unique_user_id = ?'' (\<lambda>f. strs (ufUniqueUserID f)),
     NewFilterProperty ''U.user_type = ?'' (\<lambda>f. ids (ufType f)),
     NewFilterProperty ''U.user_email = ?'' (\<lambda>f. strs (ufEmail f)),
     NewFilterProperty ''SGU.supportgroupuser_support_group_id = ?'' (\<lambda>f. ids (ufSupportGroupId f)),
     NewFilterProperty ''O.owner_service_id = ?'' (\<lambda>f. ids (ufServiceId f)),
     NewStateFilterProperty ''U.user'' ufState]"

definition userJoinDefs :: "UserFilter JoinDef list" where
  "userJoinDefs =
    [\<lparr>jName = ''SGU'', jType = LeftJoin, jTable = ''SupportGroupUser SGU'',
      jOn = ''U.user_id = SGU.supportgroupuser_user_id'',
      jDependsOn = [], jCondition = Some (\<lambda>f so. ufSupportGroupId f \<noteq> [])\<rparr>,
     \<lparr>jName = ''O'', jType = LeftJoin, jTable = ''Owner O'',
      jOn = ''U.user_id = O.owner_user_id'',
      jDependsOn = [], jCondition = Some (\<lambda>f so. ufServiceId f \<noteq> [])\<rparr>]"

definition userAttributes :: "Attr list" where
  "userAttributes =
    [\<lparr>atName = ''unique_user_id'', atOrder = \<lparr>By = UserUniqueUserID, Direction = OrderDirectionAsc\<rparr>\<rparr>,
     \<lparr>atName = ''name'', atOrder = \<lparr>By = UserName, Direction = OrderDirectionAsc\<rparr>\<rparr>]"

definition userObject :: "(User, UserFilter) DbObject" where
  "userObject =
    \<lparr>dbPrefix = ''user'', dbTableName = ''User'', dbTableKey = ''U'',
     dbDefaultOrder = \<lparr>By = UserID, Direction = OrderDirectionAsc\<rparr>, dbOrderPrefix = [],
     dbProperties = userProperties, dbFilterProperties = userFilterProperties,
     dbJoinDefs = userJoinDefs,
     dbAttributes = userAttributes,
     dbAggregated = False, dbExtraColumns = None, dbForceFrom = []\<rparr>"

section \<open>Support groups\<close>

definition supportGroupProperties :: "SupportGroup Property list" where
  "supportGroupProperties =
    [NewProperty ''supportgroup_ccrn'' (\<lambda>e. (PVal (StrV (sgCCRN e)), sgCCRN e \<noteq> [])),
     NewProperty ''supportgroup_created_by'' (\<lambda>e. (PVal (IntV (CreatedBy (sgMeta e))), NoUpdate)),
     NewProperty ''supportgroup_updated_by'' (\<lambda>e. (PVal (IntV (UpdatedBy (sgMeta e))), UpdatedBy (sgMeta e) \<noteq> 0))]"

definition supportGroupFilterProperties :: "SupportGroupFilter FilterProperty list" where
  "supportGroupFilterProperties =
    [NewFilterProperty ''SG.supportgroup_id = ?'' (\<lambda>f. ids (gfId f)),
     NewFilterProperty ''SGS.supportgroupservice_service_id = ?'' (\<lambda>f. ids (gfServiceId f)),
     NewFilterProperty ''SG.supportgroup_ccrn = ?'' (\<lambda>f. strs (gfCCRN f)),
     NewFilterProperty ''SGU.supportgroupuser_user_id = ?'' (\<lambda>f. ids (gfUserId f)),
     NewFilterProperty ''IM.issuematch_issue_id = ?'' (\<lambda>f. ids (gfIssueId f)),
     NewStateFilterProperty ''SG.supportgroup'' gfState]"

definition supportGroupJoinDefs :: "SupportGroupFilter JoinDef list" where
  "supportGroupJoinDefs =
    [\<lparr>jName = ''SGS'', jType = InnerJoin, jTable = ''SupportGroupService SGS'',
      jOn = ''SG.supportgroup_id = SGS.supportgroupservice_support_group_id'',
      jDependsOn = [], jCondition = Some (\<lambda>f so. gfServiceId f \<noteq> [])\<rparr>,
     \<lparr>jName = ''CI'', jType = InnerJoin, jTable = ''ComponentInstance CI'',
      jOn = ''SGS.supportgroupservice_service_id = CI.componentinstance_service_id'',
      jDependsOn = [''SGS''], jCondition = Some DependentJoin\<rparr>,
     \<lparr>jName = ''IM'', jType = InnerJoin, jTable = ''IssueMatch IM'',
      jOn = ''CI.componentinstance_id = IM.issuematch_component_instance_id'',
      jDependsOn = [''CI''], jCondition = Some (\<lambda>f so. gfIssueId f \<noteq> [])\<rparr>,
     \<lparr>jName = ''SGU'', jType = InnerJoin, jTable = ''SupportGroupUser SGU'',
      jOn = ''SG.supportgroup_id = SGU.supportgroupuser_support_group_id'',
      jDependsOn = [], jCondition = Some (\<lambda>f so. gfUserId f \<noteq> [])\<rparr>]"

definition supportGroupAttributes :: "Attr list" where
  "supportGroupAttributes =
    [\<lparr>atName = ''ccrn'', atOrder = \<lparr>By = SupportGroupCcrn, Direction = OrderDirectionAsc\<rparr>\<rparr>]"

definition supportGroupObject :: "(SupportGroup, SupportGroupFilter) DbObject" where
  "supportGroupObject =
    \<lparr>dbPrefix = ''supportgroup'', dbTableName = ''SupportGroup'', dbTableKey = ''SG'',
     dbDefaultOrder = \<lparr>By = SupportGroupId, Direction = OrderDirectionAsc\<rparr>, dbOrderPrefix = [],
     dbProperties = supportGroupProperties, dbFilterProperties = supportGroupFilterProperties,
     dbJoinDefs = supportGroupJoinDefs,
     dbAttributes = supportGroupAttributes,
     dbAggregated = False, dbExtraColumns = None, dbForceFrom = []\<rparr>"

section \<open>Issue repositories\<close>

definition issueRepositoryProperties :: "IssueRepository Property list" where
  "issueRepositoryProperties =
    [NewProperty ''issuerepository_name'' (\<lambda>e. (PVal (StrV (irName e)), irName e \<noteq> [])),
     NewProperty ''issuerepository_url'' (\<lambda>e. (PVal (StrV (irUrl e)), irUrl e \<noteq> [])),
     NewProperty ''issuerepository_created_by'' (\<lambda>e. (PVal (IntV (CreatedBy (irMeta e))), NoUpdate)),
     NewProperty ''issuerepository_updated_by'' (\<lambda>e. (PVal (IntV (UpdatedBy (irMeta e))), UpdatedBy (irMeta e) \<noteq> 0))]"

definition issueRepositoryFilterProperties :: "IssueRepositoryFilter FilterProperty list" where
  "issueRepositoryFilterProperties =
    [NewFilterProperty ''IR.issuerepository_name = ?'' (\<lambda>f. strs (yfName f)),
     NewFilterProperty ''IR.issuerepository_id = ?'' (\<lambda>f. ids (yfId f)),
     NewFilterProperty ''S.service_ccrn = ?'' (\<lambda>f. strs (yfServiceCCRN f)),
     NewFilterProperty ''IRS.issuerepositoryservice_service_id = ?'' (\<lambda>f. ids (yfServiceId f)),
     NewStateFilterProperty ''IR.issuerepository'' yfState]"

definition issueRepositoryJoinDefs :: "IssueRepositoryFilter JoinDef list" where
  "issueRepositoryJoinDefs =
    [\<lparr>jName = ''IRS'', jType = LeftJoin, jTable = ''IssueRepositoryService IRS'',
      jOn = ''IR.issuerepository_id = IRS.issuerepositoryservice_issue_repository_id'',
      jDependsOn = [], jCondition = Some (\<lambda>f so. yfServiceId f \<noteq> [])\<rparr>,
     \<lparr>jName = ''S'', jType = LeftJoin, jTable = ''Service S'',
      jOn = ''IRS.issuerepositoryservice_service_id = S.service_id'',
      jDependsOn = [''IRS''], jCondition = Some (\<lambda>f so. yfServiceCCRN f \<noteq> [])\<rparr>]"

definition issueRepositoryObject :: "(IssueRepository, IssueRepositoryFilter) DbObject" where
  "issueRepositoryObject =
    \<lparr>dbPrefix = ''issuerepository'', dbTableName = ''IssueRepository'', dbTableKey = ''IR'',
     dbDefaultOrder = \<lparr>By = IssueRepositoryID, Direction = OrderDirectionAsc\<rparr>, dbOrderPrefix = [],
     dbProperties = issueRepositoryProperties, dbFilterProperties = issueRepositoryFilterProperties,
     dbJoinDefs = issueRepositoryJoinDefs,
     dbAttributes = [],
     dbAggregated = False, dbExtraColumns = None, dbForceFrom = []\<rparr>"

section \<open>Issue variants\<close>

definition issueVariantProperties :: "IssueVariant Property list" where
  "issueVariantProperties =
    [NewProperty ''issuevariant_issue_id'' (\<lambda>e. (PVal (IntV (ivIssueId e)), ivIssueId e \<noteq> 0)),
     NewProperty ''issuevariant_repository_id'' (\<lambda>e. (PVal (IntV (ivIssueRepositoryId e)), ivIssueRepositoryId e \<noteq> 0)),
     NewProperty ''issuevariant_vector'' (\<lambda>e. (PVal (StrV (sevVector (ivSeverity e))), sevVector (ivSeverity e) \<noteq> [] \<or> (sevValue (ivSeverity e) \<noteq> [] \<and> sevVector (ivSeverity e) = []))),
     NewProperty ''issuevariant_rating'' (\<lambda>e. (PVal (StrV (sevValue (ivSeverity e))), sevValue (ivSeverity e) \<noteq> [])),
     NewProperty ''issuevariant_secondary_name'' (\<lambda>e. (PVal (StrV (ivSecondaryName e)), ivSecondaryName e \<noteq> [])),
     NewProperty ''issuevariant_description'' (\<lambda>e. (PVal (StrV (ivDescription e)), ivDescription e \<noteq> [])),
     NewProperty ''issuevariant_external_url'' (\<lambda>e. (PVal (StrV (ivExternalUrl e)), ivExternalUrl e \<noteq> [])),
     NewProperty ''issuevariant_created_by'' (\<lambda>e. (PVal (IntV (CreatedBy (ivMeta e))), NoUpdate)),
     NewProperty ''issuevariant_updated_by'' (\<lambda>e. (PVal (IntV (UpdatedBy (ivMeta e))), UpdatedBy (ivMeta e) \<noteq> 0))]"

definition issueVariantFilterProperties :: "IssueVariantFilter FilterProperty list" where
  "issueVariantFilterProperties =
    [NewFilterProperty ''IV.issuevariant_id = ?'' (\<lambda>f. ids (wfId f)),
     NewFilterProperty ''IV.issuevariant_secondary_name = ?'' (\<lambda>f. strs (wfSecondaryName f)),
     NewFilterProperty ''IV.issuevariant_issue_id = ?'' (\<lambda>f. ids (wfIssueId f)),
     NewFilterProperty ''IV.issuevariant_repository_id = ?'' (\<lambda>f. ids (wfIssueRepositoryId f)),
     NewFilterProperty ''IRS.issuerepositoryservice_service_id = ?'' (\<lambda>f. ids (wfServiceId f)),
     NewFilterProperty ''IM.issuematch_id = ?'' (\<lambda>f. ids (wfIssueMatchId f)),
     NewStateFilterProperty ''IV.issuevariant'' wfState]"

definition issueVariantJoinDefs :: "IssueVariantFilter JoinDef list" where
  "issueVariantJoinDefs =
    [\<lparr>jName = ''IR'', jType = InnerJoin, jTable = ''IssueRepository IR'',
      jOn = ''IV.issuevariant_repository_id = IR.issuerepository_id'',
      jDependsOn = [], jCondition = Some DependentJoin\<rparr>,
     \<lparr>jName = ''IRS'', jType = InnerJoin, jTable = ''IssueRepositoryService IRS'',
      jOn = ''IR.issuerepository_id = IRS.issuerepositoryservice_issue_repository_id'',
      jDependsOn = [''IR''], jCondition = Some (\<lambda>f so. wfServiceId f \<noteq> [])\<rparr>,
     \<lparr>jName = ''I'', jType = InnerJoin, jTable = ''Issue I'',
      jOn = ''IV.issuevariant_issue_id = I.issue_id'',
      jDependsOn = [], jCondition = Some (\<lambda>f so. wfIssueId f \<noteq> [])\<rparr>,
     \<lparr>jName = ''IM'', jType = InnerJoin, jTable = ''IssueMatch IM'',
      jOn = ''I.issue_id = IM.issuematch_issue_id'',
      jDependsOn = [''I''], jCondition = Some (\<lambda>f so. wfIssueMatchId f \<noteq> [])\<rparr>]"

definition issueVariantObject :: "(IssueVariant, IssueVariantFilter) DbObject" where
  "issueVariantObject =
    \<lparr>dbPrefix = ''issuevariant'', dbTableName = ''IssueVariant'', dbTableKey = ''IV'',
     dbDefaultOrder = \<lparr>By = IssueVariantID, Direction = OrderDirectionAsc\<rparr>, dbOrderPrefix = [],
     dbProperties = issueVariantProperties, dbFilterProperties = issueVariantFilterProperties,
     dbJoinDefs = issueVariantJoinDefs,
     dbAttributes = [],
     dbAggregated = False, dbExtraColumns = None, dbForceFrom = []\<rparr>"

section \<open>Patches\<close>

definition patchFilterProperties :: "PatchFilter FilterProperty list" where
  "patchFilterProperties =
    [NewFilterProperty ''P.patch_id = ?'' (\<lambda>f. ids (pfId f)),
     NewFilterProperty ''P.patch_service_id = ?'' (\<lambda>f. ids (pfServiceId f)),
     NewFilterProperty ''P.patch_service_name = ?'' (\<lambda>f. strs (pfServiceName f)),
     NewFilterProperty ''P.patch_component_version_id = ?'' (\<lambda>f. ids (pfComponentVersionId f)),
     NewFilterProperty ''P.patch_component_version_name = ?'' (\<lambda>f. strs (pfComponentVersionName f)),
     NewStateFilterProperty ''P.patch'' pfState]"

definition patchObject :: "(Patch, PatchFilter) DbObject" where
  "patchObject =
    \<lparr>dbPrefix = ''patch'', dbTableName = ''Patch'', dbTableKey = ''P'',
     dbDefaultOrder = \<lparr>By = PatchId, Direction = OrderDirectionAsc\<rparr>, dbOrderPrefix = [],
     dbProperties = [], dbFilterProperties = patchFilterProperties,
     dbJoinDefs = [],
     dbAttributes = [],
     dbAggregated = False, dbExtraColumns = None, dbForceFrom = []\<rparr>"

section \<open>Remediations\<close>

definition remediationProperties :: "Remediation Property list" where
  "remediationProperties =
    [NewProperty ''remediation_description'' (\<lambda>e. (PVal (StrV (remDescription e)), remDescription e \<noteq> [])),
     NewProperty ''remediation_type'' (\<lambda>e. (PVal (StrV (remType e)), remType e \<noteq> [] \<and> remType e \<noteq> RemediationTypeUnknown)),
     NewProperty ''remediation_url'' (\<lambda>e. (PVal (StrV (remURL e)), remURL e \<noteq> [])),
     NewProperty ''remediation_severity'' (\<lambda>e. (PVal (StrV (remSeverity e)), remSeverity e \<noteq> [] \<and> remSeverity e \<noteq> SeverityValuesUnknown)),
     NewProperty ''remediation_remediation_date'' (\<lambda>e. (PVal (TimeV (remRemediationDate e)), remRemediationDate e \<noteq> 0)),
     NewProperty ''remediation_expiration_date'' (\<lambda>e. (PVal (TimeV (remExpirationDate e)), remExpirationDate e \<noteq> 0)),
     NewProperty ''remediation_service'' (\<lambda>e. (PVal (StrV (remService e)), remService e \<noteq> [])),
     NewProperty ''remediation_service_id'' (\<lambda>e. (PVal (IntV (remServiceId e)), remServiceId e \<noteq> 0)),
     NewProperty ''remediation_component'' (\<lambda>e. (PVal (StrV (remComponent e)), remComponent e \<noteq> [])),
     NewProperty ''remediation_component_id'' (\<lambda>e. (null_id (remComponentId e), remComponentId e \<noteq> 0)),
     NewProperty ''remediation_issue'' (\<lambda>e. (PVal (StrV (remIssue e)), remIssue e \<noteq> [])),
     NewProperty ''remediation_issue_id'' (\<lambda>e. (PVal (IntV (remIssueId e)), remIssueId e \<noteq> 0)),
     NewProperty ''remediation_remediated_by'' (\<lambda>e. (PVal (StrV (remRemediatedBy e)), NoUpdate)),
     NewProperty ''remediation_remediated_by_id'' (\<lambda>e. (null_id (remRemediatedById e), NoUpdate)),
     NewProperty ''remediation_created_by'' (\<lambda>e. (PVal (IntV (CreatedBy (remMeta e))), NoUpdate)),
     NewProperty ''remediation_updated_by'' (\<lambda>e. (PVal (IntV (UpdatedBy (remMeta e))), UpdatedBy (remMeta e) \<noteq> 0))]"

definition remediationFilterProperties :: "RemediationFilter FilterProperty list" where
  "remediationFilterProperties =
    [NewFilterProperty ''R.remediation_id = ?'' (\<lambda>f. ids (rfId f)),
     NewFilterProperty ''R.remediation_severity = ?'' (\<lambda>f. strs (rfSeverity f)),
     NewFilterProperty ''R.remediation_type = ?'' (\<lambda>f. strs (rfType f)),
     NewFilterProperty ''R.remediation_url = ?'' (\<lambda>f. strs (rfURL f)),
     NewFilterProperty ''R.remediation_service = ?'' (\<lambda>f. strs (rfService f)),
     NewFilterProperty ''R.remediation_service_id = ?'' (\<lambda>f. ids (rfServiceId f)),
     NewFilterProperty ''R.remediation_component = ?'' (\<lambda>f. strs (rfComponent f)),
     NewFilterProperty ''R.remediation_component_id = ?'' (\<lambda>f. ids (rfComponentId f)),
     NewFilterProperty ''R.remediation_issue = ?'' (\<lambda>f. strs (rfIssue f)),
     NewFilterProperty ''R.remediation_issue_id = ?'' (\<lambda>f. ids (rfIssueId f)),
     NewFilterProperty (like_param ''R.remediation_issue'') (\<lambda>f. strs (rfSearch f)),
     NewStateFilterProperty ''R.remediation'' rfState]"

definition remediationObject :: "(Remediation, RemediationFilter) DbObject" where
  "remediationObject =
    \<lparr>dbPrefix = ''remediation'', dbTableName = ''Remediation'', dbTableKey = ''R'',
     dbDefaultOrder = \<lparr>By = RemediationId, Direction = OrderDirectionAsc\<rparr>, dbOrderPrefix = [],
     dbProperties = remediationProperties, dbFilterProperties = remediationFilterProperties,
     dbJoinDefs = [],
     dbAttributes = [],
     dbAggregated = False, dbExtraColumns = None, dbForceFrom = []\<rparr>"

section \<open>Variants of a service\<close>

record ServiceIssueVariantFilter =
  zfPage :: Paginated
  zfComponentInstanceId :: "id64 list"
  zfIssueId :: "id64 list"
  zfState :: "StateFilterType list"

definition serviceIssueVariantProperties :: "ServiceIssueVariant Property list" where
  "serviceIssueVariantProperties =
    []"

definition serviceIssueVariantFilterProperties :: "ServiceIssueVariantFilter FilterProperty list" where
  "serviceIssueVariantFilterProperties =
    [NewFilterProperty ''CI.componentinstance_id = ?'' (\<lambda>f. ids (zfComponentInstanceId f)),
     NewFilterProperty ''I.issue_id = ?'' (\<lambda>f. ids (zfIssueId f)),
     NewStateFilterProperty ''IV.issuevariant'' zfState]"

definition serviceIssueVariantJoinDefs :: "ServiceIssueVariantFilter JoinDef list" where
  "serviceIssueVariantJoinDefs =
    [\<lparr>jName = ''CV'', jType = InnerJoin, jTable = ''ComponentVersion CV'',
      jOn = ''CI.componentinstance_component_version_id = CV.componentversion_id'',
      jDependsOn = [], jCondition = None\<rparr>,
     \<lparr>jName = ''CVI'', jType = InnerJoin, jTable = ''ComponentVersionIssue CVI'',
      jOn = ''CV.componentversion_id = CVI.componentversionissue_component_version_id'',
      jDependsOn = [''CV''], jCondition = None\<rparr>,
     \<lparr>jName = ''I'', jType = InnerJoin, jTable = ''Issue I'',
      jOn = ''CVI.componentversionissue_issue_id = I.issue_id'',
      jDependsOn = [''CVI''], jCondition = None\<rparr>,
     \<lparr>jName = ''S'', jType = InnerJoin, jTable = ''Service S'',
      jOn = ''CI.componentinstance_service_id = S.service_id'',
      jDependsOn = [], jCondition = None\<rparr>,
     \<lparr>jName = ''IRS'', jType = InnerJoin, jTable = ''IssueRepositoryService IRS'',
      jOn = ''S.service_id = IRS.issuerepositoryservice_service_id'',
      jDependsOn = [''S''], jCondition = None\<rparr>,
     \<lparr>jName = ''IR'', jType = InnerJoin, jTable = ''IssueRepository IR'',
      jOn = ''IRS.issuerepositoryservice_issue_repository_id = IR.issuerepository_id'',
      jDependsOn = [''IRS''], jCondition = None\<rparr>,
     \<lparr>jName = ''IV'', jType = InnerJoin, jTable = ''IssueVariant IV'',
      jOn = ''I.issue_id = IV.issuevariant_issue_id and IR.issuerepository_id = IV.issuevariant_repository_id'',
      jDependsOn = [''I'', ''IR''], jCondition = None\<rparr>]"

definition serviceIssueVariantExtraColumns :: "ServiceIssueVariantFilter \<Rightarrow> sql_order \<Rightarrow> string list" where
  "serviceIssueVariantExtraColumns f so = [''IRS.issuerepositoryservice_priority'', ''IV.*'']"

definition serviceIssueVariantObject :: "(ServiceIssueVariant, ServiceIssueVariantFilter) DbObject" where
  "serviceIssueVariantObject =
    \<lparr>dbPrefix = [], dbTableName = ''ServiceIssueVariant'', dbTableKey = [],
     dbDefaultOrder = \<lparr>By = ServiceIssueVariantID, Direction = OrderDirectionAsc\<rparr>, dbOrderPrefix = [],
     dbProperties = serviceIssueVariantProperties, dbFilterProperties = serviceIssueVariantFilterProperties,
     dbJoinDefs = serviceIssueVariantJoinDefs,
     dbAttributes = [],
     dbAggregated = False, dbExtraColumns = Some serviceIssueVariantExtraColumns, dbForceFrom = ''ComponentInstance CI''\<rparr>"

section \<open>Issue matches\<close>

definition issueMatchProperties :: "IssueMatch Property list" where
  "issueMatchProperties =
    [NewProperty ''issuematch_status'' (\<lambda>e. (PVal (StrV (imStatus e)), imStatus e \<noteq> [] \<and> imStatus e \<noteq> IssueMatchStatusValuesNone)),
     NewProperty ''issuematch_remediation_date'' (\<lambda>e. (PVal (TimeV (imRemediationDate e)), imRemediationDate e \<noteq> 0)),
     NewProperty ''issuematch_target_remediation_date'' (\<lambda>e. (PVal (TimeV (imTargetRemediationDate e)), imTargetRemediationDate e \<noteq> 0)),
     NewProperty ''issuematch_vector'' (\<lambda>e. (PVal (StrV (sevVector (imSeverity e))), sevVector (imSeverity e) \<noteq> [])),
     NewProperty ''issuematch_rating'' (\<lambda>e. (PVal (StrV (sevValue (imSeverity e))), sevValue (imSeverity e) \<noteq> [])),
     NewProperty ''issuematch_user_id'' (\<lambda>e. (PVal (IntV (imUserId e)), imUserId e \<noteq> 0)),
     NewProperty ''issuematch_component_instance_id'' (\<lambda>e. (PVal (IntV (imComponentInstanceId e)), imComponentInstanceId e \<noteq> 0)),
     NewProperty ''issuematch_issue_id'' (\<lambda>e. (PVal (IntV (imIssueId e)), imIssueId e \<noteq> 0)),
     NewProperty ''issuematch_created_by'' (\<lambda>e. (PVal (IntV (CreatedBy (imMeta e))), NoUpdate)),
     NewProperty ''issuematch_updated_by'' (\<lambda>e. (PVal (IntV (UpdatedBy (imMeta e))), UpdatedBy (imMeta e) \<noteq> 0))]"

definition match_column :: "OrderByField \<Rightarrow> string option" where
  "match_column o' =
     (if o' = IssuePrimaryName then Some ''I.issue_primary_name''
      else if o' = ComponentInstanceCcrn then Some ''CI.componentinstance_ccrn''
      else None)"

definition issueMatchExtraColumns :: "IssueMatchFilter \<Rightarrow> sql_order \<Rightarrow> string list" where
  "issueMatchExtraColumns f so = order_columns match_column so"

definition issueMatchObject :: "(IssueMatch, IssueMatchFilter) DbObject" where
  "issueMatchObject =
    \<lparr>dbPrefix = ''issuematch'', dbTableName = ''IssueMatch'', dbTableKey = ''IM'',
     dbDefaultOrder = \<lparr>By = IssueMatchId, Direction = OrderDirectionAsc\<rparr>, dbOrderPrefix = [],
     dbProperties = issueMatchProperties, dbFilterProperties = issueMatchFilterProperties,
     dbJoinDefs = issueMatchJoinDefs,
     dbAttributes = [],
     dbAggregated = False, dbExtraColumns = Some issueMatchExtraColumns, dbForceFrom = []\<rparr>"

section \<open>Aliases of the texts\<close>

definition one_alias :: "string \<Rightarrow> string \<Rightarrow> bool" where
  "one_alias q a \<longleftrightarrow> q \<noteq> [] \<and> alias_scan q = (Word [], [a])"

definition state_prefix :: "string \<Rightarrow> string \<Rightarrow> bool" where
  "state_prefix p a \<longleftrightarrow> alias_scan (p @ ''_deleted_at'') = (Word [], [a])"

lemma one_alias_property:
  "one_alias q a \<Longrightarrow> part_aliases f (NewFilterProperty q p) \<subseteq> J \<longleftrightarrow> p f = [] \<or> a \<in> J"
  by (simp add: one_alias_def FilterProperty_aliases good_condition_def closed_text_def aliases_def)

lemma state_property: "state_prefix pre a \<Longrightarrow> part_aliases f (NewStateFilterProperty pre p) \<subseteq> J \<longleftrightarrow> a \<in> J"
  by (simp add: state_prefix_def StateFilterProperty_aliases closed_text_def aliases_def)

lemma filter_mentions_Cons [simp]:
  "filter_mentions [] f \<subseteq> J" "filter_mentions (fp # fps) f \<subseteq> J \<longleftrightarrow> part_aliases f fp \<subseteq> J \<and> filter_mentions fps f \<subseteq> J"
  by (simp_all add: filter_mentions_def)

lemma no_parameters [simp]: "(ids xs = []) = (xs = [])" "(strs ys = []) = (ys = [])" "(ptrs ps = []) = (ps = [])"
  "(bools bs = []) = (bs = [])"
  by (simp_all add: ids_def strs_def ptrs_def bools_def)

lemma order_columns_mentions:
  "(\<Union>c \<in> set (order_columns column so). aliases c) =
   (\<Union>o' \<in> set (sequence so). case column (By o') of None \<Rightarrow> {} | Some c \<Rightarrow> aliases c)"
proof -
  have "set (order_columns column so) = {c. \<exists>o' \<in> set (sequence so). column (By o') = Some c}"
    by (auto simp: order_columns_def split: option.splits)
  then show ?thesis by (auto split: option.splits) (metis option.inject)+
qed

lemma order_columns_aliases:
  assumes "\<And>o' c. column o' = Some c \<Longrightarrow> o' \<in> set flds \<and> aliases c = {a}" and "\<And>o'. o' \<in> set flds \<Longrightarrow> column o' \<noteq> None"
  shows "(\<Union>c \<in> set (order_columns column so). aliases c) = (if order_By so flds then {a} else {})"
proof -
  have "(case column (By o') of None \<Rightarrow> {} | Some c \<Rightarrow> aliases c) = (if By o' \<in> set flds then {a} else {})" for o' :: entity_order
    using assms(1) [of "By o'"] assms(2) [of "By o'"] by (cases "column (By o')") auto
  then show ?thesis
    by (auto simp: order_columns_mentions order_By_def list_ex_iff split: if_splits)
qed

definition unquoted_keys :: "json list \<Rightarrow> bool" where
  "unquoted_keys js \<longleftrightarrow> list_all (\<lambda>key. quote \<notin> set key) (json_keys js)"

lemma json_property:
  assumes "unquoted_keys (p f)" and "closed_text (''JSON_VALUE('' @ column @ '','')"
    and "aliases (''JSON_VALUE('' @ column @ '','') = {a}" and "a \<in> J"
  shows "part_aliases f (NewJsonFilterProperty column p) \<subseteq> J"
proof -
  define inner where "inner = (\<lambda>j. combineFilterQueries (map (\<lambda>(key, attr). json_condition column key) (SeparateJsonAttributes j)) OP_AND)"
  have c: "closed_text (json_condition column key) \<and> aliases (json_condition column key) = {a}"
    if "j \<in> set (p f)" "(key, attr) \<in> set (SeparateJsonAttributes j)" for j key attr
  proof -
    have "key \<in> set (json_keys (p f))" using that by (force simp: json_keys_def)
    then have "quote \<notin> set key" using assms(1) by (simp add: unquoted_keys_def list_all_iff)
    then show ?thesis using json_condition_text [of key column] assms(2,3) by simp
  qed
  have i: "closed_text (inner j) \<and> aliases (inner j) \<subseteq> {a}" if "j \<in> set (p f)" for j
  proof -
    let ?cs = "map (\<lambda>(key, attr). json_condition column key) (SeparateJsonAttributes j)"
    have "\<forall>q \<in> set ?cs. closed_text q \<and> aliases q = {a}" using c [OF that] by auto
    then show ?thesis using combineFilterQueries_text [of OP_AND ?cs] by (auto simp: inner_def)
  qed
  have "part_aliases f (NewJsonFilterProperty column p) = aliases (combineFilterQueries (map inner (p f)) OP_OR)"
    by (simp add: part_aliases_def GetQuery_def NewJsonFilterProperty_def buildJsonFilterQuery_def inner_def)
  also have "\<dots> = (\<Union>q \<in> set (map inner (p f)). aliases q)"
    by (rule combineFilterQueries_text(2)) (use i in \<open>auto simp: operator_text\<close>)
  also have "\<dots> \<subseteq> {a}" using i by auto
  finally show ?thesis using assms(4) by blast
qed

lemma total_json [simp]: "total_property (NewJsonFilterProperty q p)"
  by (simp add: total_property_def GetQuery_def NewJsonFilterProperty_def)

lemma rating_count_text:
  "aliases (rating_count ''Critical'' ''critical_count'') = {''IV''}" "aliases (rating_count ''High'' ''high_count'') = {''IV''}"
  "aliases (rating_count ''Medium'' ''medium_count'') = {''IV''}" "aliases (rating_count ''Low'' ''low_count'') = {''IV''}"
  "aliases (rating_count ''None'' ''none_count'') = {''IV''}"
  by (code_simp)+

lemma count_texts:
  "aliases ''IRS.*'' = {''IRS''}" "aliases ''SIC.critical_count'' = {''SIC''}" "aliases ''SIC.high_count'' = {''SIC''}"
  "aliases ''SIC.medium_count'' = {''SIC''}" "aliases ''SIC.low_count'' = {''SIC''}" "aliases ''SIC.none_count'' = {''SIC''}"
  "aliases ''I.issue_primary_name'' = {''I''}" "aliases ''CI.componentinstance_ccrn'' = {''CI''}"
  by (code_simp)+

lemma service_extra:
  "extra_mentions serviceObject f so = (if sfIssueRepositoryId f \<noteq> [] then {''IRS''} else {}) \<union> (if ByCount so then {''SIC''} else {})"
proof -
  have "(\<Union>c \<in> set (order_columns service_count_column so). aliases c) = (if ByCount so then {''SIC''} else {})"
    unfolding ByCount_def
    by (rule order_columns_aliases) (auto simp: service_count_column_def count_fields_def count_texts split: if_splits)
  then show ?thesis
    by (simp add: extra_mentions_def serviceObject_def serviceExtraColumns_def count_texts)
qed

lemma version_extra: "extra_mentions componentVersionObject f so = (if ByCount so then {''IV''} else {})"
proof -
  have "(\<Union>c \<in> set (order_columns version_count_column so). aliases c) = (if ByCount so then {''IV''} else {})"
    unfolding ByCount_def
    by (rule order_columns_aliases) (auto simp: version_count_column_def count_fields_def rating_count_text split: if_splits)
  then show ?thesis
    by (simp add: extra_mentions_def componentVersionObject_def componentVersionExtraColumns_def)
qed

lemma match_extra:
  "extra_mentions issueMatchObject f so = (if ByIssuePrimaryName so then {''I''} else {}) \<union> (if ByCiCcrn so then {''CI''} else {})"
proof -
  have "(case match_column o' of None \<Rightarrow> {} | Some c \<Rightarrow> aliases c) =
      (if o' = IssuePrimaryName then {''I''} else if o' = ComponentInstanceCcrn then {''CI''} else {})" for o'
    by (simp add: match_column_def count_texts)
  then show ?thesis
    by (auto simp: extra_mentions_def issueMatchObject_def issueMatchExtraColumns_def order_columns_mentions
        ByIssuePrimaryName_def ByCiCcrn_def order_By_def list_ex_iff split: if_splits)
qed

lemma search_property:
  "part_aliases f (NewNFilterProperty (like_param ''IV.issuevariant_secondary_name'' @ '' OR '' @ like_param ''I.issue_primary_name'') p n) \<subseteq> J
     \<longleftrightarrow> p f = [] \<or> ''IV'' \<in> J \<and> ''I'' \<in> J"
proof -
  have "good_condition (like_param ''IV.issuevariant_secondary_name'' @ '' OR '' @ like_param ''I.issue_primary_name'')"
    "aliases (like_param ''IV.issuevariant_secondary_name'' @ '' OR '' @ like_param ''I.issue_primary_name'') = {''I'', ''IV''}"
    by (code_simp)+
  then show ?thesis by (simp only: NFilterProperty_aliases) auto
qed

lemma context_property:
  assumes "unquoted_keys (nfContext f)"
  shows "part_aliases f (NewJsonFilterProperty ''CI.componentinstance_context'' nfContext) \<subseteq> insert ''CI'' J"
proof (rule json_property [of nfContext f, OF assms])
  show "closed_text (''JSON_VALUE('' @ ''CI.componentinstance_context'' @ '','')"
    "aliases (''JSON_VALUE('' @ ''CI.componentinstance_context'' @ '','') = {''CI''}" by (code_simp)+
qed simp

section \<open>Resolved queries\<close>

lemma services_conditions:
  "one_alias ''S.service_ccrn = ?'' ''S''"
  "one_alias ''S.service_domain = ?'' ''S''"
  "one_alias ''S.service_region = ?'' ''S''"
  "one_alias ''S.service_id = ?'' ''S''"
  "one_alias ''SG.supportgroup_ccrn = ?'' ''SG''"
  "one_alias ''U.user_name = ?'' ''U''"
  "one_alias ''IM.issuematch_issue_id = ?'' ''IM''"
  "one_alias ''CI.componentinstance_id = ?'' ''CI''"
  "one_alias ''IRS.issuerepositoryservice_issue_repository_id = ?'' ''IRS''"
  "one_alias ''SGS.supportgroupservice_support_group_id = ?'' ''SGS''"
  "one_alias ''O.owner_user_id = ?'' ''O''"
  "one_alias (like_param ''S.service_ccrn'') ''S''"
  by (code_simp)+

lemma services_state: "state_prefix ''S.service'' ''S''" by code_simp

interpretation services: join_set serviceJoinDefs "''S''" "depth 4 serviceJoinDefs" 4 "set (map jName serviceJoinDefs)"
  by (rule join_set_check) (code_simp+)

lemma services_joined:
  "a \<in> joined 4 serviceJoinDefs [] f so \<longleftrightarrow> joined_by (map jCondition serviceJoinDefs)
    [[''O''], [''U'', ''O''], [''SGS''], [''SG'', ''SGS''], [''CI''], [''IM'', ''CI''], [''IRS''], [''SIC'']] f so a"
proof -
  have "reach_table 4 serviceJoinDefs = [[''O''], [''U'', ''O''], [''SGS''], [''SG'', ''SGS''], [''CI''], [''IM'', ''CI''], [''IRS''], [''SIC'']]"
    by code_simp
  then show ?thesis by (simp only: joined_table)
qed

lemma services_resolve: "queries_resolve 4 decode serviceObject f page order"
proof (rule services.object_resolves)
  show "key_object serviceObject"
    by (simp add: key_object_def named_def serviceObject_def plain_word_def quote_def serviceFilterProperties_def)
  show "extra_mentions serviceObject f so \<subseteq> insert ''S'' (joined 4 serviceJoinDefs [] f so)" for so
    by (simp add: service_extra services_joined) (auto simp: serviceJoinDefs_def)
  show "filter_mentions (dbFilterProperties serviceObject) f \<subseteq> insert ''S'' (joined 4 serviceJoinDefs [] f so)" for so
    by (simp add: serviceObject_def serviceFilterProperties_def services_conditions [THEN one_alias_property] services_state [THEN state_property] services_joined) (auto simp: serviceJoinDefs_def)
qed (simp_all add: serviceObject_def good_attributes_def serviceAttributes_def)

lemma versions_conditions:
  "one_alias ''CV.componentversion_id = ?'' ''CV''"
  "one_alias ''CVI.componentversionissue_issue_id = ?'' ''CVI''"
  "one_alias ''CV.componentversion_component_id = ?'' ''CV''"
  "one_alias ''CV.componentversion_version = ?'' ''CV''"
  "one_alias ''CV.componentversion_tag = ?'' ''CV''"
  "one_alias ''CV.componentversion_repository = ?'' ''CV''"
  "one_alias ''CV.componentversion_organization = ?'' ''CV''"
  "one_alias ''C.component_ccrn = ?'' ''C''"
  "one_alias ''S.service_ccrn = ?'' ''S''"
  "one_alias ''CI.componentinstance_service_id = ?'' ''CI''"
  "one_alias ''IV.issuevariant_repository_id = ?'' ''IV''"
  "one_alias ''CV.componentversion_end_of_life = ?'' ''CV''"
  by (code_simp)+

lemma versions_state: "state_prefix ''CV.componentversion'' ''CV''" by code_simp

interpretation versions: join_set componentVersionJoinDefs "''CV''" "depth 4 componentVersionJoinDefs" 4 "set (map jName componentVersionJoinDefs)"
  by (rule join_set_check) (code_simp+)

lemma versions_joined:
  "a \<in> joined 4 componentVersionJoinDefs [] f so \<longleftrightarrow> joined_by (map jCondition componentVersionJoinDefs)
    [[''CVI''], [''IV'', ''CVI''], [''C''], [''CI''], [''S'', ''CI'']] f so a"
proof -
  have "reach_table 4 componentVersionJoinDefs = [[''CVI''], [''IV'', ''CVI''], [''C''], [''CI''], [''S'', ''CI'']]"
    by code_simp
  then show ?thesis by (simp only: joined_table)
qed

lemma versions_resolve: "queries_resolve 4 decode componentVersionObject f page order"
proof (rule versions.object_resolves)
  show "key_object componentVersionObject"
    by (simp add: key_object_def named_def componentVersionObject_def plain_word_def quote_def componentVersionFilterProperties_def)
  show "extra_mentions componentVersionObject f so \<subseteq> insert ''CV'' (joined 4 componentVersionJoinDefs [] f so)" for so
    by (simp add: version_extra versions_joined) (auto simp: componentVersionJoinDefs_def)
  show "filter_mentions (dbFilterProperties componentVersionObject) f \<subseteq> insert ''CV'' (joined 4 componentVersionJoinDefs [] f so)" for so
    by (simp add: componentVersionObject_def componentVersionFilterProperties_def versions_conditions [THEN one_alias_property] versions_state [THEN state_property] versions_joined) (auto simp: componentVersionJoinDefs_def)
qed (simp_all add: componentVersionObject_def good_attributes_def)

lemma instances_conditions:
  "one_alias ''CI.componentinstance_id = ?'' ''CI''"
  "one_alias ''CI.componentinstance_ccrn = ?'' ''CI''"
  "one_alias ''CI.componentinstance_region = ?'' ''CI''"
  "one_alias ''CI.componentinstance_cluster = ?'' ''CI''"
  "one_alias ''CI.componentinstance_namespace = ?'' ''CI''"
  "one_alias ''CI.componentinstance_domain = ?'' ''CI''"
  "one_alias ''CI.componentinstance_project = ?'' ''CI''"
  "one_alias ''CI.componentinstance_pod = ?'' ''CI''"
  "one_alias ''CI.componentinstance_container = ?'' ''CI''"
  "one_alias ''CI.componentinstance_type = ?'' ''CI''"
  "one_alias ''CI.componentinstance_parent_id = ?'' ''CI''"
  "one_alias ''IM.issuematch_id = ?'' ''IM''"
  "one_alias ''CI.componentinstance_service_id = ?'' ''CI''"
  "one_alias ''S.service_ccrn = ?'' ''S''"
  "one_alias ''CI.componentinstance_component_version_id = ?'' ''CI''"
  "one_alias ''CV.componentversion_version = ?'' ''CV''"
  "one_alias (like_param ''CI.componentinstance_ccrn'') ''CI''"
  by (code_simp)+

lemma instances_state: "state_prefix ''CI.componentinstance'' ''CI''" by code_simp

interpretation instances: join_set componentInstanceJoinDefs "''CI''" "depth 4 componentInstanceJoinDefs" 4 "set (map jName componentInstanceJoinDefs)"
  by (rule join_set_check) (code_simp+)

lemma instances_joined:
  "a \<in> joined 4 componentInstanceJoinDefs [] f so \<longleftrightarrow> joined_by (map jCondition componentInstanceJoinDefs)
    [[''IM''], [''S''], [''CV'']] f so a"
proof -
  have "reach_table 4 componentInstanceJoinDefs = [[''IM''], [''S''], [''CV'']]"
    by code_simp
  then show ?thesis by (simp only: joined_table)
qed

lemma instances_resolve:
  assumes "unquoted_keys (nfContext f)"
  shows "queries_resolve 4 decode componentInstanceObject f page order"
proof (rule instances.object_resolves)
  show "key_object componentInstanceObject"
    by (simp add: key_object_def named_def componentInstanceObject_def plain_word_def quote_def componentInstanceFilterProperties_def)
  show "extra_mentions componentInstanceObject f so \<subseteq> insert ''CI'' (joined 4 componentInstanceJoinDefs [] f so)" for so
    by (simp add: extra_mentions_def componentInstanceObject_def)
  show "filter_mentions (dbFilterProperties componentInstanceObject) f \<subseteq> insert ''CI'' (joined 4 componentInstanceJoinDefs [] f so)" for so
    by (simp add: componentInstanceObject_def componentInstanceFilterProperties_def instances_conditions [THEN one_alias_property] context_property [OF assms] instances_state [THEN state_property] instances_joined) (auto simp: componentInstanceJoinDefs_def)
qed (simp_all add: componentInstanceObject_def good_attributes_def componentInstanceAttributes_def)

lemma users_conditions:
  "one_alias ''U.user_id = ?'' ''U''"
  "one_alias ''U.user_name = ?'' ''U''"
  "one_alias ''U.user_unique_user_id = ?'' ''U''"
  "one_alias ''U.user_type = ?'' ''U''"
  "one_alias ''U.user_email = ?'' ''U''"
  "one_alias ''SGU.supportgroupuser_support_group_id = ?'' ''SGU''"
  "one_alias ''O.owner_service_id = ?'' ''O''"
  by (code_simp)+

lemma users_state: "state_prefix ''U.user'' ''U''" by code_simp

interpretation users: join_set userJoinDefs "''U''" "depth 4 userJoinDefs" 4 "set (map jName userJoinDefs)"
  by (rule join_set_check) (code_simp+)

lemma users_joined:
  "a \<in> joined 4 userJoinDefs [] f so \<longleftrightarrow> joined_by (map jCondition userJoinDefs)
    [[''SGU''], [''O'']] f so a"
proof -
  have "reach_table 4 userJoinDefs = [[''SGU''], [''O'']]"
    by code_simp
  then show ?thesis by (simp only: joined_table)
qed

lemma users_resolve: "queries_resolve 4 decode userObject f page order"
proof (rule users.object_resolves)
  show "key_object userObject"
    by (simp add: key_object_def named_def userObject_def plain_word_def quote_def userFilterProperties_def)
  show "extra_mentions userObject f so \<subseteq> insert ''U'' (joined 4 userJoinDefs [] f so)" for so
    by (simp add: extra_mentions_def userObject_def)
  show "filter_mentions (dbFilterProperties userObject) f \<subseteq> insert ''U'' (joined 4 userJoinDefs [] f so)" for so
    by (simp add: userObject_def userFilterProperties_def users_conditions [THEN one_alias_property] users_state [THEN state_property] users_joined) (auto simp: userJoinDefs_def)
qed (simp_all add: userObject_def good_attributes_def userAttributes_def)

lemma groups_conditions:
  "one_alias ''SG.supportgroup_id = ?'' ''SG''"
  "one_alias ''SGS.supportgroupservice_service_id = ?'' ''SGS''"
  "one_alias ''SG.supportgroup_ccrn = ?'' ''SG''"
  "one_alias ''SGU.supportgroupuser_user_id = ?'' ''SGU''"
  "one_alias ''IM.issuematch_issue_id = ?'' ''IM''"
  by (code_simp)+

lemma groups_state: "state_prefix ''SG.supportgroup'' ''SG''" by code_simp

interpretation groups: join_set supportGroupJoinDefs "''SG''" "depth 4 supportGroupJoinDefs" 4 "set (map jName supportGroupJoinDefs)"
  by (rule join_set_check) (code_simp+)

lemma groups_joined:
  "a \<in> joined 4 supportGroupJoinDefs [] f so \<longleftrightarrow> joined_by (map jCondition supportGroupJoinDefs)
    [[''SGS''], [''CI'', ''SGS''], [''IM'', ''CI'', ''SGS''], [''SGU'']] f so a"
proof -
  have "reach_table 4 supportGroupJoinDefs = [[''SGS''], [''CI'', ''SGS''], [''IM'', ''CI'', ''SGS''], [''SGU'']]"
    by code_simp
  then show ?thesis by (simp only: joined_table)
qed

lemma groups_resolve: "queries_resolve 4 decode supportGroupObject f page order"
proof (rule groups.object_resolves)
  show "key_object supportGroupObject"
    by (simp add: key_object_def named_def supportGroupObject_def plain_word_def quote_def supportGroupFilterProperties_def)
  show "extra_mentions supportGroupObject f so \<subseteq> insert ''SG'' (joined 4 supportGroupJoinDefs [] f so)" for so
    by (simp add: extra_mentions_def supportGroupObject_def)
  show "filter_mentions (dbFilterProperties supportGroupObject) f \<subseteq> insert ''SG'' (joined 4 supportGroupJoinDefs [] f so)" for so
    by (simp add: supportGroupObject_def supportGroupFilterProperties_def groups_conditions [THEN one_alias_property] groups_state [THEN state_property] groups_joined) (auto simp: supportGroupJoinDefs_def)
qed (simp_all add: supportGroupObject_def good_attributes_def supportGroupAttributes_def)

lemma repositories_conditions:
  "one_alias ''IR.issuerepository_name = ?'' ''IR''"
  "one_alias ''IR.issuerepository_id = ?'' ''IR''"
  "one_alias ''S.service_ccrn = ?'' ''S''"
  "one_alias ''IRS.issuerepositoryservice_service_id = ?'' ''IRS''"
  by (code_simp)+

lemma repositories_state: "state_prefix ''IR.issuerepository'' ''IR''" by code_simp

interpretation repositories: join_set issueRepositoryJoinDefs "''IR''" "depth 4 issueRepositoryJoinDefs" 4 "set (map jName issueRepositoryJoinDefs)"
  by (rule join_set_check) (code_simp+)

lemma repositories_joined:
  "a \<in> joined 4 issueRepositoryJoinDefs [] f so \<longleftrightarrow> joined_by (map jCondition issueRepositoryJoinDefs)
    [[''IRS''], [''S'', ''IRS'']] f so a"
proof -
  have "reach_table 4 issueRepositoryJoinDefs = [[''IRS''], [''S'', ''IRS'']]"
    by code_simp
  then show ?thesis by (simp only: joined_table)
qed

lemma repositories_resolve: "queries_resolve 4 decode issueRepositoryObject f page order"
proof (rule repositories.object_resolves)
  show "key_object issueRepositoryObject"
    by (simp add: key_object_def named_def issueRepositoryObject_def plain_word_def quote_def issueRepositoryFilterProperties_def)
  show "extra_mentions issueRepositoryObject f so \<subseteq> insert ''IR'' (joined 4 issueRepositoryJoinDefs [] f so)" for so
    by (simp add: extra_mentions_def issueRepositoryObject_def)
  show "filter_mentions (dbFilterProperties issueRepositoryObject) f \<subseteq> insert ''IR'' (joined 4 issueRepositoryJoinDefs [] f so)" for so
    by (simp add: issueRepositoryObject_def issueRepositoryFilterProperties_def repositories_conditions [THEN one_alias_property] repositories_state [THEN state_property] repositories_joined) (auto simp: issueRepositoryJoinDefs_def)
qed (simp_all add: issueRepositoryObject_def good_attributes_def)

lemma variants_conditions:
  "one_alias ''IV.issuevariant_id = ?'' ''IV''"
  "one_alias ''IV.issuevariant_secondary_name = ?'' ''IV''"
  "one_alias ''IV.issuevariant_issue_id = ?'' ''IV''"
  "one_alias ''IV.issuevariant_repository_id = ?'' ''IV''"
  "one_alias ''IRS.issuerepositoryservice_service_id = ?'' ''IRS''"
  "one_alias ''IM.issuematch_id = ?'' ''IM''"
  by (code_simp)+

lemma variants_state: "state_prefix ''IV.issuevariant'' ''IV''" by code_simp

interpretation variants: join_set issueVariantJoinDefs "''IV''" "depth 4 issueVariantJoinDefs" 4 "set (map jName issueVariantJoinDefs)"
  by (rule join_set_check) (code_simp+)

lemma variants_joined:
  "a \<in> joined 4 issueVariantJoinDefs [] f so \<longleftrightarrow> joined_by (map jCondition issueVariantJoinDefs)
    [[''IR''], [''IRS'', ''IR''], [''I''], [''IM'', ''I'']] f so a"
proof -
  have "reach_table 4 issueVariantJoinDefs = [[''IR''], [''IRS'', ''IR''], [''I''], [''IM'', ''I'']]"
    by code_simp
  then show ?thesis by (simp only: joined_table)
qed

lemma variants_resolve: "queries_resolve 4 decode issueVariantObject f page order"
proof (rule variants.object_resolves)
  show "key_object issueVariantObject"
    by (simp add: key_object_def named_def issueVariantObject_def plain_word_def quote_def issueVariantFilterProperties_def)
  show "extra_mentions issueVariantObject f so \<subseteq> insert ''IV'' (joined 4 issueVariantJoinDefs [] f so)" for so
    by (simp add: extra_mentions_def issueVariantObject_def)
  show "filter_mentions (dbFilterProperties issueVariantObject) f \<subseteq> insert ''IV'' (joined 4 issueVariantJoinDefs [] f so)" for so
    by (simp add: issueVariantObject_def issueVariantFilterProperties_def variants_conditions [THEN one_alias_property] variants_state [THEN state_property] variants_joined) (auto simp: issueVariantJoinDefs_def)
qed (simp_all add: issueVariantObject_def good_attributes_def)

lemma patches_conditions:
  "one_alias ''P.patch_id = ?'' ''P''"
  "one_alias ''P.patch_service_id = ?'' ''P''"
  "one_alias ''P.patch_service_name = ?'' ''P''"
  "one_alias ''P.patch_component_version_id = ?'' ''P''"
  "one_alias ''P.patch_component_version_name = ?'' ''P''"
  by (code_simp)+

lemma patches_state: "state_prefix ''P.patch'' ''P''" by code_simp

interpretation patches: join_set "[] :: PatchFilter JoinDef list" "''P''" "depth 4 ([] :: PatchFilter JoinDef list)" 4
  "set (map jName ([] :: PatchFilter JoinDef list))"
  by (rule join_set_check) (code_simp+)

lemma patches_resolve: "queries_resolve 4 decode patchObject f page order"
proof (rule patches.object_resolves)
  show "key_object patchObject"
    by (simp add: key_object_def named_def patchObject_def plain_word_def quote_def patchFilterProperties_def)
  show "extra_mentions patchObject f so \<subseteq> insert ''P'' (joined 4 [] [] f so)" for so
    by (simp add: extra_mentions_def patchObject_def)
  show "filter_mentions (dbFilterProperties patchObject) f \<subseteq> insert ''P'' (joined 4 [] [] f so)" for so
    by (simp add: patchObject_def patchFilterProperties_def patches_conditions [THEN one_alias_property] patches_state [THEN state_property])
qed (simp_all add: patchObject_def good_attributes_def)

lemma remediations_conditions:
  "one_alias ''R.remediation_id = ?'' ''R''"
  "one_alias ''R.remediation_severity = ?'' ''R''"
  "one_alias ''R.remediation_type = ?'' ''R''"
  "one_alias ''R.remediation_url = ?'' ''R''"
  "one_alias ''R.remediation_service = ?'' ''R''"
  "one_alias ''R.remediation_service_id = ?'' ''R''"
  "one_alias ''R.remediation_component = ?'' ''R''"
  "one_alias ''R.remediation_component_id = ?'' ''R''"
  "one_alias ''R.remediation_issue = ?'' ''R''"
  "one_alias ''R.remediation_issue_id = ?'' ''R''"
  "one_alias (like_param ''R.remediation_issue'') ''R''"
  by (code_simp)+

lemma remediations_state: "state_prefix ''R.remediation'' ''R''" by code_simp

interpretation remediations: join_set "[] :: RemediationFilter JoinDef list" "''R''" "depth 4 ([] :: RemediationFilter JoinDef list)" 4
  "set (map jName ([] :: RemediationFilter JoinDef list))"
  by (rule join_set_check) (code_simp+)

lemma remediations_resolve: "queries_resolve 4 decode remediationObject f page order"
proof (rule remediations.object_resolves)
  show "key_object remediationObject"
    by (simp add: key_object_def named_def remediationObject_def plain_word_def quote_def remediationFilterProperties_def)
  show "extra_mentions remediationObject f so \<subseteq> insert ''R'' (joined 4 [] [] f so)" for so
    by (simp add: extra_mentions_def remediationObject_def)
  show "filter_mentions (dbFilterProperties remediationObject) f \<subseteq> insert ''R'' (joined 4 [] [] f so)" for so
    by (simp add: remediationObject_def remediationFilterProperties_def remediations_conditions [THEN one_alias_property] remediations_state [THEN state_property])
qed (simp_all add: remediationObject_def good_attributes_def)

lemma matches_conditions:
  "one_alias ''IM.issuematch_id = ?'' ''IM''"
  "one_alias ''IM.issuematch_issue_id = ?'' ''IM''"
  "one_alias ''IM.issuematch_component_instance_id = ?'' ''IM''"
  "one_alias ''S.service_ccrn = ?'' ''S''"
  "one_alias ''CI.componentinstance_service_id = ?'' ''CI''"
  "one_alias ''IM.issuematch_rating = ?'' ''IM''"
  "one_alias ''IM.issuematch_status = ?'' ''IM''"
  "one_alias ''SG.supportgroup_ccrn = ?'' ''SG''"
  "one_alias ''I.issue_primary_name = ?'' ''I''"
  "one_alias ''C.component_ccrn = ?'' ''C''"
  "one_alias ''I.issue_type = ?'' ''I''"
  "one_alias ''U.user_name = ?'' ''U''"
  "one_alias ''U.user_unique_user_id = ?'' ''U''"
  by (code_simp)+

lemma matches_state: "state_prefix ''IM.issuematch'' ''IM''" by code_simp

interpretation matches: join_set issueMatchJoinDefs "''IM''" "depth 4 issueMatchJoinDefs" 4 "set (map jName issueMatchJoinDefs)"
  by (rule join_set_check) (code_simp+)

lemma matches_joined:
  "a \<in> joined 4 issueMatchJoinDefs [] f so \<longleftrightarrow> joined_by (map jCondition issueMatchJoinDefs)
    [[''I''], [''IV'', ''I''], [''CI''], [''CV'', ''CI''], [''C'', ''CV'', ''CI''], [''S'', ''CI''], [''SGS'', ''S'', ''CI''], [''SG'', ''SGS'', ''S'', ''CI''], [''O'', ''CI''], [''U'', ''O'', ''CI'']] f so a"
proof -
  have "reach_table 4 issueMatchJoinDefs = [[''I''], [''IV'', ''I''], [''CI''], [''CV'', ''CI''], [''C'', ''CV'', ''CI''], [''S'', ''CI''], [''SGS'', ''S'', ''CI''], [''SG'', ''SGS'', ''S'', ''CI''], [''O'', ''CI''], [''U'', ''O'', ''CI'']]"
    by code_simp
  then show ?thesis by (simp only: joined_table)
qed

lemma matches_resolve: "queries_resolve 4 decode issueMatchObject f page order"
proof (rule matches.object_resolves)
  show "key_object issueMatchObject"
    by (simp add: key_object_def named_def issueMatchObject_def plain_word_def quote_def issueMatchFilterProperties_def)
  show "extra_mentions issueMatchObject f so \<subseteq> insert ''IM'' (joined 4 issueMatchJoinDefs [] f so)" for so
    by (simp add: match_extra matches_joined) (auto simp: issueMatchJoinDefs_def)
  show "filter_mentions (dbFilterProperties issueMatchObject) f \<subseteq> insert ''IM'' (joined 4 issueMatchJoinDefs [] f so)" for so
    by (simp only: issueMatchObject_def DbObject.simps issueMatchFilterProperties_def filter_mentions_Cons search_property,
       simp add: issueMatchObject_def issueMatchFilterProperties_def matches_conditions [THEN one_alias_property] matches_state [THEN state_property] matches_joined) (auto simp: issueMatchJoinDefs_def)
qed (simp_all add: issueMatchObject_def good_attributes_def)

section \<open>Service issue variants\<close>

text \<open>This object selects from another table than its own and serves lists only.\<close>

interpretation service_variants: join_set serviceIssueVariantJoinDefs "''CI''" "depth 4 serviceIssueVariantJoinDefs" 4
  "set (map jName serviceIssueVariantJoinDefs)"
  by (rule join_set_check) (code_simp+)

lemma service_variants_joined:
  "joined 4 serviceIssueVariantJoinDefs [] f so = {''CV'', ''CVI'', ''I'', ''S'', ''IRS'', ''IR'', ''IV''}"
proof -
  have "reach_table 4 serviceIssueVariantJoinDefs =
      [[''CV''], [''CVI'', ''CV''], [''I'', ''CVI'', ''CV''], [''S''], [''IRS'', ''S''], [''IR'', ''IRS'', ''S''],
       [''IV'', ''I'', ''CVI'', ''CV'', ''IR'', ''IRS'', ''S'']]"
    by code_simp
  then show ?thesis
    unfolding set_eq_iff joined_table by (simp only:) (auto simp: serviceIssueVariantJoinDefs_def)
qed

lemma service_variant_texts:
  "one_alias ''CI.componentinstance_id = ?'' ''CI''" "one_alias ''I.issue_id = ?'' ''I''" "state_prefix ''IV.issuevariant'' ''IV''"
  "aliases ''IRS.issuerepositoryservice_priority'' = {''IRS''}" "aliases ''IV.*'' = {''IV''}"
  by (code_simp)+

lemma service_variants_resolve:
  "statement_if (cursor_decodes decode page) True (Get 4 decode serviceIssueVariantObject f page order)"
proof -
  let ?ob = "serviceIssueVariantObject" and ?so = "list_order serviceIssueVariantObject order"
  let ?q = "groupByBuilder ?ob (fromBuilder ?ob (getSelectBuilder ?ob f ?so))"
  have q: "base_query ?q" "base_mentions ?q = {''IRS'', ''IV''}" "last_word (st_from ?q) = ''CI''" "order_mentions ?so = {}"
    by (auto simp: serviceIssueVariantObject_def base_query_def base_mentions_def groupByBuilder_def fromBuilder_def
        getSelectBuilder_def selectColumns_def Select_def serviceIssueVariantExtraColumns_def service_variant_texts(4,5)
        last_word_def order_mentions_def list_order_def NewOrderWithCounterPrefix_def)
  have fm: "filter_mentions (dbFilterProperties ?ob) f
      \<subseteq> insert ''CI'' (joined 4 serviceIssueVariantJoinDefs [] f ?so)"
    by (simp add: serviceIssueVariantObject_def serviceIssueVariantFilterProperties_def service_variants_joined
        service_variant_texts(1,2) [THEN one_alias_property] service_variant_texts(3) [THEN state_property])
  have "dbJoinDefs ?ob = serviceIssueVariantJoinDefs" "list_all total_property (dbFilterProperties ?ob)"
    "plain_word (counterPrefix ?so)"
    by (simp_all add: serviceIssueVariantObject_def serviceIssueVariantFilterProperties_def list_order_def
        NewOrderWithCounterPrefix_def plain_word_def)
  from service_variants.BuildQuery_statement [OF this(1) q(1,3) this(2) required_names [where f = f] this(3), where withCursor = True]
  have "statement_if (cursor_decodes decode page) True (BuildQuery_object 4 decode ?ob ?q f page ?so True [])"
    using q(2,4) fm by (simp add: service_variants_joined)
  then show ?thesis
    by (simp add: Get_def list_order_def Let_def guarded_def with_build_error)
      (simp add: serviceIssueVariantObject_def)
qed

section \<open>Aggregated lists of services\<close>

definition service_aggregations :: AggregationDef where
  "service_aggregations =
     \<lparr>adAggregations =
        [\<lparr>agTable = ''IssueMatchCounts'', agTableKey = ''IMC'',
          agColumns = [''COUNT(IM.issuematch_id) AS service_agg_issue_matches''], agForcedJoins = [''IM'']\<rparr>,
         \<lparr>agTable = ''ComponentInstanceCounts'', agTableKey = ''CIC'',
          agColumns = [''SUM(CI.componentinstance_count) AS service_agg_component_instances''], agForcedJoins = [''CI'']\<rparr>],
      adFrom = ''ComponentInstanceCounts CIC'',
      adJoins = [''JOIN IssueMatchCounts IMC on CIC.service_id = IMC.service_id''], adOrderByPrefix = ''IMC''\<rparr>"

definition GetServicesWithAggregations where
  "GetServicesWithAggregations fuel decode f page order =
     GetWithAggregations fuel decode serviceObject service_aggregations f page order"

lemma service_aggregation_texts:
  "aliases ''COUNT(IM.issuematch_id) AS service_agg_issue_matches'' = {''IM''}"
  "aliases ''SUM(CI.componentinstance_count) AS service_agg_component_instances'' = {''CI''}"
  by (code_simp)+

lemma service_forced:
  "insert ''IM'' (insert ''CI'' (joined 4 serviceJoinDefs [] f so)) \<subseteq> joined 4 serviceJoinDefs [''IM''] f so"
  "insert ''CI'' (joined 4 serviceJoinDefs [] f so) \<subseteq> joined 4 serviceJoinDefs [''CI''] f so"
proof -
  have "name_alias serviceJoinDefs ` set (reach 4 serviceJoinDefs ''IM'') = {''IM'', ''CI''}"
    "name_alias serviceJoinDefs ` set (reach 4 serviceJoinDefs ''CI'') = {''CI''}" by (code_simp)+
  then show "insert ''IM'' (insert ''CI'' (joined 4 serviceJoinDefs [] f so)) \<subseteq> joined 4 serviceJoinDefs [''IM''] f so"
    "insert ''CI'' (joined 4 serviceJoinDefs [] f so) \<subseteq> joined 4 serviceJoinDefs [''CI''] f so"
    by (simp_all add: joined_forced [of 4 serviceJoinDefs "[''IM'']"] joined_forced [of 4 serviceJoinDefs "[''CI'']"])
qed

lemma services_key: "key_object serviceObject"
  by (simp add: key_object_def named_def serviceObject_def plain_word_def quote_def serviceFilterProperties_def)

lemma services_covered:
  "extra_mentions serviceObject f so \<union> filter_mentions (dbFilterProperties serviceObject) f
     \<subseteq> insert ''S'' (joined 4 serviceJoinDefs [] f so)"
proof -
  have "extra_mentions serviceObject f so \<subseteq> insert ''S'' (joined 4 serviceJoinDefs [] f so)"
    by (simp add: service_extra services_joined) (auto simp: serviceJoinDefs_def)
  moreover have "filter_mentions (dbFilterProperties serviceObject) f \<subseteq> insert ''S'' (joined 4 serviceJoinDefs [] f so)"
    by (simp add: serviceObject_def serviceFilterProperties_def services_conditions [THEN one_alias_property]
        services_state [THEN state_property] services_joined) (auto simp: serviceJoinDefs_def)
  ultimately show ?thesis by blast
qed

lemma service_aggregation_statement:
  assumes "\<forall>c \<in> set cols. aliases c \<subseteq> joined 4 serviceJoinDefs forced f so" and "counterPrefix so = []"
    and "set forced \<subseteq> set (map jName serviceJoinDefs)"
    and that: "q = groupByBuilder serviceObject (fromBuilder serviceObject (getSelectBuilder serviceObject f so))"
  shows "statement_if (cursor_decodes decode page) True
    (BuildQuery_object 4 decode serviceObject (q\<lparr>st_columns := st_columns q @ cols\<rparr>) f page so True forced)"
proof -
  let ?q = "q\<lparr>st_columns := st_columns q @ cols\<rparr>" and ?J = "insert ''S'' (joined 4 serviceJoinDefs forced f so)"
  have ob: "dbJoinDefs serviceObject = serviceJoinDefs" "dbTableKey serviceObject = ''S''" by (simp_all add: serviceObject_def)
  have q: "base_query ?q" "last_word (st_from ?q) = ''S''"
    using key_base(1) [OF services_key] key_from [OF services_key] that ob(2)
    by (simp_all add: base_query_def groupByBuilder_def split: if_splits)
  have "base_mentions ?q = base_mentions q \<union> (\<Union>c \<in> set cols. aliases c)" by (auto simp: base_mentions_def)
  then have "base_mentions ?q \<subseteq> ?J"
    using key_base(2) [OF services_key, of f so] services_covered [of f so] assms(1) that ob(2) joined_forced [of 4 serviceJoinDefs forced f so]
    by auto
  moreover have "filter_mentions (dbFilterProperties serviceObject) f \<subseteq> ?J"
    using services_covered [of f so] joined_forced [of 4 serviceJoinDefs forced f so] by auto
  ultimately have cov: "(base_mentions ?q \<union> filter_mentions (dbFilterProperties serviceObject) f \<union> order_mentions so \<subseteq> ?J) = True"
    using assms(2) by (simp add: order_mentions_def)
  have req: "set (required_joins serviceJoinDefs forced f so) \<subseteq> set (map jName serviceJoinDefs)"
    using assms(3) by (auto simp: required_joins_def)
  have "list_all total_property (dbFilterProperties serviceObject)" "plain_word (counterPrefix so)"
    using services_key assms(2) by (simp_all add: key_object_def plain_word_def)
  from services.BuildQuery_statement [OF ob(1) q this(1) req this(2), where withCursor = True and decode = decode and page = page]
  show ?thesis unfolding cov by simp
qed

lemma statement_if_cases:
  assumes "statement_if decodes True r"
  obtains st where "r = Some (Inr (Inr st))" "resolved st" | e where "r = Some (Inr (Inl e))" "\<not> decodes"
  using assms by (cases "(decodes, True, r)" rule: statement_if.cases) auto

lemma service_aggregations_resolve:
  "\<exists>x. GetServicesWithAggregations 4 decode f page order = Some (Inr x)
     \<and> (case x of Inl e \<Rightarrow> \<not> cursor_decodes decode page
        | Inr w \<Rightarrow> map fst (ws_queries w) = [''IssueMatchCounts'', ''ComponentInstanceCounts'']
            \<and> list_all resolved (map snd (ws_queries w)))"
proof -
  let ?so = "NewOrder order (dbDefaultOrder serviceObject)"
  let ?q = "groupByBuilder serviceObject (fromBuilder serviceObject (getSelectBuilder serviceObject f ?so))"
  let ?b = "\<lambda>agg. BuildQuery_object 4 decode serviceObject (?q\<lparr>st_columns := st_columns ?q @ agColumns agg\<rparr>) f page ?so True (agForcedJoins agg)"
  have so: "counterPrefix ?so = []" by (simp add: NewOrder_def NewOrderWithCounterPrefix_def)
  have names: "set [''IM''] \<subseteq> set (map jName serviceJoinDefs)" "set [''CI''] \<subseteq> set (map jName serviceJoinDefs)"
    by (simp_all add: serviceJoinDefs_def)
  obtain a1 a2 where aggs: "adAggregations service_aggregations = [a1, a2]" "agTable a1 = ''IssueMatchCounts''"
    "agTable a2 = ''ComponentInstanceCounts''" "agForcedJoins a1 = [''IM'']" "agForcedJoins a2 = [''CI'']"
    "\<forall>c \<in> set (agColumns a1). aliases c = {''IM''}" "\<forall>c \<in> set (agColumns a2). aliases c = {''CI''}"
    by (simp add: service_aggregations_def service_aggregation_texts)
  have "statement_if (cursor_decodes decode page) True (?b a1)"
    unfolding aggs(4) by (rule service_aggregation_statement [OF _ so names(1) refl]) (use aggs(6) service_forced in auto)
  then consider (err) e where "?b a1 = Some (Inr (Inl e))" "\<not> cursor_decodes decode page"
    | (ok) st where "?b a1 = Some (Inr (Inr st))" "resolved st" by (rule statement_if_cases) auto
  note c1 = this
  have "statement_if (cursor_decodes decode page) True (?b a2)"
    unfolding aggs(5) by (rule service_aggregation_statement [OF _ so names(2) refl]) (use aggs(7) service_forced in auto)
  then consider (err) e where "?b a2 = Some (Inr (Inl e))" "\<not> cursor_decodes decode page"
    | (ok) st where "?b a2 = Some (Inr (Inr st))" "resolved st" by (rule statement_if_cases) auto
  note c2 = this
  have guard: "dbTableName serviceObject \<noteq> [] \<and> (dbTableKey serviceObject \<noteq> [] \<longrightarrow> dbPrefix serviceObject \<noteq> [])"
    by (simp add: serviceObject_def)
  show ?thesis
    using c1
  proof cases
    case err
    then show ?thesis
      using guard aggs(1) by (simp add: GetServicesWithAggregations_def GetWithAggregations_def Let_def guarded_def)
  next
    case ok
    show ?thesis
      using c2 ok guard aggs(1-3) by cases
        (simp_all add: GetServicesWithAggregations_def GetWithAggregations_def Let_def guarded_def)
  qed
qed

section \<open>All tables\<close>

text \<open>
  C3. For every filter, page and order, the queries of every table but components and issues
  (lists, cursors, numbers, ids and attributes) are built without panic, every join they contain
  declares a new alias and refers only to tables joined before it, and every column they mention
  in conditions, columns and orders belongs to a joined table; of JSON filters it is assumed
  that no key contains a quote.
\<close>

theorem table_queries_resolve:
  "queries_resolve 4 decode serviceObject sf page order
   \<and> queries_resolve 4 decode componentVersionObject vf page order
   \<and> (unquoted_keys (nfContext nf) \<longrightarrow> queries_resolve 4 decode componentInstanceObject nf page order)
   \<and> queries_resolve 4 decode userObject uf page order
   \<and> queries_resolve 4 decode supportGroupObject gf page order
   \<and> queries_resolve 4 decode issueRepositoryObject yf page order
   \<and> queries_resolve 4 decode issueVariantObject wf' page order
   \<and> queries_resolve 4 decode patchObject pf page order
   \<and> queries_resolve 4 decode remediationObject rf page order
   \<and> queries_resolve 4 decode issueMatchObject mf page order
   \<and> statement_if (cursor_decodes decode page) True (Get 4 decode serviceIssueVariantObject zf page order)"
  using services_resolve versions_resolve instances_resolve users_resolve groups_resolve repositories_resolve
    variants_resolve patches_resolve remediations_resolve matches_resolve service_variants_resolve
  by simp

theorem table_queries_resolve_witness:
  "\<exists>nf. nfContext nf \<noteq> [] \<and> queries_resolve 4 (\<lambda>s. Inr []) componentInstanceObject nf \<lparr>First = None, PAfter = None\<rparr> []"
proof (intro exI conjI)
  let ?nf = "no_instance_filter\<lparr>nfContext := [JObj [(''timeout_nbd'', JStr ''1'')]]\<rparr>"
  have "unquoted_keys (nfContext ?nf)" by (simp add: unquoted_keys_def json_keys_def SeparateJsonAttributes_def quote_def)
  then show "queries_resolve 4 (\<lambda>s. Inr []) componentInstanceObject ?nf \<lparr>First = None, PAfter = None\<rparr> []"
    using table_queries_resolve [where nf = ?nf] by blast
qed simp

end
