(* ===== verification/Issue_Object.thy ===== *)
theory Issue_Object
  imports Table_Objects Issue_Handlers
begin

text \<open>
  The two tables with conditional joins: components (\<open>internal/database/mariadb/component.go\<close>) and
  issues (\<open>issue.go\<close>), and exactly when their queries are resolved.
\<close>

section \<open>Components\<close>

definition needSingleComponentByServiceVulnerabilityCounts :: "ComponentFilter \<Rightarrow> sql_order \<Rightarrow> bool" where
  "needSingleComponentByServiceVulnerabilityCounts f so \<longleftrightarrow> ByCount so \<and> cfServiceCCRN f \<noteq> []"

definition componentProperties :: "Component Property list" where
  "componentProperties =
    [NewProperty ''component_ccrn'' (\<lambda>e. (PVal (StrV (compCCRN e)), compCCRN e \<noteq> [])),
     NewProperty ''component_repository'' (\<lambda>e. (PVal (StrV (compRepository e)), compRepository e \<noteq> [])),
     NewProperty ''component_organization'' (\<lambda>e. (PVal (StrV (compOrganization e)), compOrganization e \<noteq> [])),
     NewProperty ''component_url'' (\<lambda>e. (PVal (StrV (compUrl e)), compUrl e \<noteq> [])),
     NewProperty ''component_type'' (\<lambda>e. (PVal (StrV (compType e)), compType e \<noteq> [])),
     NewProperty ''component_created_by'' (\<lambda>e. (PVal (IntV (CreatedBy (compMeta e))), NoUpdate)),
     NewProperty ''component_updated_by'' (\<lambda>e. (PVal (IntV (UpdatedBy (compMeta e))), UpdatedBy (compMeta e) \<noteq> 0))]"

definition componentFilterProperties :: "ComponentFilter FilterProperty list" where
  "componentFilterProperties =
    [NewFilterProperty ''C.component_ccrn = ?'' (\<lambda>f. strs (cfCCRN f)),
     NewFilterProperty ''C.component_repository = ?'' (\<lambda>f. ptrs (cfRepository f)),
     NewFilterProperty ''C.component_organization = ?'' (\<lambda>f. strs (cfOrganization f)),
     NewFilterProperty ''C.component_id = ?'' (\<lambda>f. ids (cfId f)),
     NewFilterProperty ''CV.componentversion_id = ?'' (\<lambda>f. ids (cfComponentVersionId f)),
     NewFilterProperty ''S.service_ccrn = ?'' (\<lambda>f. ptrs (cfServiceCCRN f)),
     NewStateFilterProperty ''C.component'' cfState]"

definition componentJoinDefs :: "ComponentFilter JoinDef list" where
  "componentJoinDefs =
    [\<lparr>jName = ''CV'', jType = LeftJoin, jTable = ''ComponentVersion CV'',
      jOn = ''C.component_id = CV.componentversion_component_id'',
      jDependsOn = [], jCondition = Some (\<lambda>f so. cfComponentVersionId f \<noteq> [])\<rparr>,
     \<lparr>jName = ''CI'', jType = LeftJoin, jTable = ''ComponentInstance CI'',
      jOn = ''CV.componentversion_id = CI.componentinstance_component_version_id'',
      jDependsOn = [''CV''], jCondition = Some DependentJoin\<rparr>,
     \<lparr>jName = ''S'', jType = LeftJoin, jTable = ''Service S'',
      jOn = ''CI.componentinstance_service_id = S.service_id'',
      jDependsOn = [''CI''], jCondition = Some (\<lambda>f so. \<not> cfUseMvComponentService f \<and> cfServiceCCRN f \<noteq> [])\<rparr>,
     \<lparr>jName = ''mvSCBSVC'', jType = LeftJoin, jTable = ''mvSingleComponentByServiceVulnerabilityCounts CVR'',
      jOn = ''C.component_id = CVR.component_id AND CVR.service_id = S.service_id'',
      jDependsOn = [''S''], jCondition = Some (\<lambda>f so. \<not> cfUseMvComponentService f \<and> needSingleComponentByServiceVulnerabilityCounts f so)\<rparr>,
     \<lparr>jName = ''mvACBSVC'', jType = LeftJoin, jTable = ''mvAllComponentsByServiceVulnerabilityCounts CVR'',
      jOn = ''S.service_id = CVR.service_id'',
      jDependsOn = [''S''], jCondition = Some (\<lambda>f so. False)\<rparr>,
     \<lparr>jName = ''MCS'', jType = InnerJoin, jTable = ''mvComponentService MCS'',
      jOn = ''C.component_id = MCS.component_id'',
      jDependsOn = [], jCondition = Some (\<lambda>f so. cfUseMvComponentService f \<and> cfServiceCCRN f \<noteq> [])\<rparr>,
     \<lparr>jName = ''S via MCS'', jType = InnerJoin, jTable = ''Service S'',
      jOn = ''MCS.service_id = S.service_id'',
      jDependsOn = [''MCS''], jCondition = Some (\<lambda>f so. cfUseMvComponentService f \<and> cfServiceCCRN f \<noteq> [])\<rparr>,
     \<lparr>jName = ''mvSCBSVC via MCS'', jType = LeftJoin, jTable = ''mvSingleComponentByServiceVulnerabilityCounts CVR'',
      jOn = ''C.component_id = CVR.component_id AND MCS.service_id = CVR.service_id'',
      jDependsOn = [''MCS''], jCondition = Some (\<lambda>f so. cfUseMvComponentService f \<and> needSingleComponentByServiceVulnerabilityCounts f so)\<rparr>]"

definition componentAttributes :: "Attr list" where
  "componentAttributes =
    [\<lparr>atName = ''ccrn'', atOrder = \<lparr>By = ComponentCcrn, Direction = OrderDirectionAsc\<rparr>\<rparr>]"

definition component_count_column :: "OrderByField \<Rightarrow> string option" where
  "component_count_column o' =
     (if o' = CriticalCount then Some ''CVR.critical_count''
      else if o' = HighCount then Some ''CVR.high_count''
      else if o' = MediumCount then Some ''CVR.medium_count''
      else if o' = LowCount then Some ''CVR.low_count''
      else if o' = NoneCount then Some ''CVR.none_count''
      else None)"

definition componentExtraColumns :: "ComponentFilter \<Rightarrow> sql_order \<Rightarrow> string list" where
  "componentExtraColumns f so = order_columns component_count_column so"

definition componentObject :: "(Component, ComponentFilter) DbObject" where
  "componentObject =
    \<lparr>dbPrefix = ''component'', dbTableName = ''Component'', dbTableKey = ''C'',
     dbDefaultOrder = \<lparr>By = ComponentId, Direction = OrderDirectionAsc\<rparr>, dbOrderPrefix = ''CVR'',
     dbProperties = componentProperties, dbFilterProperties = componentFilterProperties,
     dbJoinDefs = componentJoinDefs,
     dbAttributes = componentAttributes,
     dbAggregated = False, dbExtraColumns = Some componentExtraColumns, dbForceFrom = []\<rparr>"

section \<open>Issues\<close>

definition IssueStatusAll :: int where "IssueStatusAll = 0"
definition IssueStatusOpen :: int where "IssueStatusOpen = 1"
definition IssueStatusRemediated :: int where "IssueStatusRemediated = 2"

fun as_bool :: "fparam \<Rightarrow> bool option" where
  "as_bool (PVal (IntV n)) = Some (n \<noteq> 0)"
| "as_bool _ = None"

fun as_status :: "fparam \<Rightarrow> int option" where
  "as_status (PVal (IntV n)) = Some n"
| "as_status _ = None"

text \<open>Deleted matches are left out when the table of matches is joined.\<close>

definition live_matches_query :: "bool list \<Rightarrow> string go" where
  "live_matches_query vals = Inr (if vals \<noteq> [] \<and> hd vals then ''IM.issuematch_deleted_at IS NULL'' else [])"

definition live_matches_param :: "IssueFilter \<Rightarrow> fparam list" where
  "live_matches_param f =
     (if ifHasIssueMatches f \<or> ifIssueMatchStatus f \<noteq> [] \<or> ifIssueMatchId f \<noteq> [] \<or> ifIssueMatchSeverity f \<noteq> []
      then bools [True] else [])"

definition issue_status_query :: "int list \<Rightarrow> string go" where
  "issue_status_query ss =
     (if length ss \<noteq> 1 then Inl (ExplicitPanic (''Unexpected number of elements for IssueStatus: '' @ FormatInt (int (length ss))))
      else if hd ss = IssueStatusOpen then Inr ''R.remediation_id IS NULL''
      else if hd ss = IssueStatusRemediated then Inr ''R.remediation_id IS NOT NULL''
      else Inr [])"

definition component_matches_query :: string where
  "component_matches_query = ''IM.issuematch_component_instance_id IN (SELECT ci.componentinstance_id FROM ComponentInstance ci JOIN ComponentVersion cv ON ci.componentinstance_component_version_id = cv.componentversion_id WHERE cv.componentversion_component_id = ?)''"

definition issueProperties :: "Issue Property list" where
  "issueProperties =
    [NewProperty ''issue_primary_name'' (\<lambda>e. (PVal (StrV (isPrimaryName e)), isPrimaryName e \<noteq> [])),
     NewProperty ''issue_type'' (\<lambda>e. (PVal (StrV (isType e)), isType e \<noteq> [])),
     NewProperty ''issue_description'' (\<lambda>e. (PVal (StrV (isDescription e)), isDescription e \<noteq> [])),
     NewProperty ''issue_created_by'' (\<lambda>e. (PVal (IntV (CreatedBy (isMeta e))), NoUpdate)),
     NewProperty ''issue_updated_by'' (\<lambda>e. (PVal (IntV (UpdatedBy (isMeta e))), UpdatedBy (isMeta e) \<noteq> 0))]"

definition issueFilterProperties :: "IssueFilter FilterProperty list" where
  "issueFilterProperties =
    [NewFilterProperty ''S.service_ccrn = ?'' (\<lambda>f. strs (ifServiceCCRN f)),
     NewFilterProperty ''CI.componentinstance_service_id = ?'' (\<lambda>f. ids (ifServiceId f)),
     NewFilterProperty ''I.issue_id = ?'' (\<lambda>f. ids (ifId f)),
     NewFilterProperty ''IM.issuematch_status = ?'' (\<lambda>f. strs (ifIssueMatchStatus f)),
     NewFilterProperty ''IM.issuematch_rating = ?'' (\<lambda>f. strs (ifIssueMatchSeverity f)),
     NewCustomFilterProperty (WrapBuilder as_bool live_matches_query) live_matches_param,
     NewFilterProperty ''MVL.max_severity = ?'' (\<lambda>f. strs (ifMvSeverity f)),
     NewFilterProperty ''IM.issuematch_id = ?'' (\<lambda>f. ids (ifIssueMatchId f)),
     NewFilterProperty ''CVI.componentversionissue_component_version_id = ?'' (\<lambda>f. ids (ifComponentVersionId f)),
     NewFilterProperty ''IV.issuevariant_id = ?'' (\<lambda>f. ids (ifIssueVariantId f)),
     NewFilterProperty ''I.issue_type = ?'' (\<lambda>f. strs (ifType f)),
     NewFilterProperty ''I.issue_primary_name = ?'' (\<lambda>f. ptrs (ifPrimaryName f)),
     NewFilterProperty ''IV.issuevariant_repository_id = ?'' (\<lambda>f. ids (ifIssueRepositoryId f)),
     NewFilterProperty ''SG.supportgroup_ccrn = ?'' (\<lambda>f. strs (ifSupportGroupCCRN f)),
     NewFilterProperty ''CV.componentversion_component_id = ?'' (\<lambda>f. ids (ifComponentId f)),
     NewFilterProperty component_matches_query (\<lambda>f. ids (if ifHasIssueMatches f then ifComponentId f else [])),
     NewNFilterProperty (like_param ''IV.issuevariant_secondary_name'' @ '' OR '' @ like_param ''I.issue_primary_name'')
       (\<lambda>f. strs (ifSearch f)) 2,
     NewStateFilterProperty ''I.issue'' ifState,
     NewCustomFilterProperty (WrapBuilder as_status issue_status_query) (\<lambda>f. [PVal (IntV (ifStatus f))])]"

definition issueJoinDefs :: "IssueFilter JoinDef list" where
  "issueJoinDefs =
    [\<lparr>jName = ''IM_RJ'', jType = RightJoin, jTable = ''IssueMatch IM'',
      jOn = ''I.issue_id = IM.issuematch_issue_id'',
      jDependsOn = [], jCondition = Some (\<lambda>f so. ifHasIssueMatches f)\<rparr>,
     \<lparr>jName = ''IM_LJ'', jType = LeftJoin, jTable = ''IssueMatch IM'',
      jOn = ''I.issue_id = IM.issuematch_issue_id'',
      jDependsOn = [], jCondition = Some (\<lambda>f so. ifIssueMatchStatus f \<noteq> [] \<or> ifIssueMatchId f \<noteq> [] \<or> ifIssueMatchSeverity f \<noteq> [])\<rparr>,
     \<lparr>jName = ''CI with IM_RJ'', jType = LeftJoin, jTable = ''ComponentInstance CI'',
      jOn = ''IM.issuematch_component_instance_id = CI.componentinstance_id'',
      jDependsOn = [''IM_RJ''], jCondition = Some DependentJoin\<rparr>,
     \<lparr>jName = ''CI with IM_LJ'', jType = LeftJoin, jTable = ''ComponentInstance CI'',
      jOn = ''IM.issuematch_component_instance_id = CI.componentinstance_id'',
      jDependsOn = [''IM_LJ''], jCondition = Some (\<lambda>f so. ifServiceId f \<noteq> [] \<and> \<not> ifUseMvVulnerabilityList f)\<rparr>,
     \<lparr>jName = ''CV with IM_RJ'', jType = LeftJoin, jTable = ''ComponentVersion CV'',
      jOn = ''CI.componentinstance_component_version_id = CV.componentversion_id'',
      jDependsOn = [''CI with IM_RJ''], jCondition = Some (\<lambda>f so. ifAllServices f)\<rparr>,
     \<lparr>jName = ''CV with IM_LJ'', jType = LeftJoin, jTable = ''ComponentVersion CV'',
      jOn = ''CI.componentinstance_component_version_id = CV.componentversion_id'',
      jDependsOn = [''CI with IM_LJ''], jCondition = Some (\<lambda>f so. ifServiceCCRN f \<noteq> [] \<and> \<not> ifUseMvVulnerabilityList f \<and> \<not> ifHasIssueMatches f)\<rparr>,
     \<lparr>jName = ''S with IM_RJ'', jType = LeftJoin, jTable = ''Service S'',
      jOn = ''CI.componentinstance_service_id = S.service_id'',
      jDependsOn = [''CI with IM_RJ''], jCondition = Some (\<lambda>f so. ifHasIssueMatches f \<and> ifServiceCCRN f \<noteq> [] \<or> ifAllServices f)\<rparr>,
     \<lparr>jName = ''S with IM_LJ'', jType = LeftJoin, jTable = ''Service S'',
      jOn = ''CI.componentinstance_service_id = S.service_id'',
      jDependsOn = [''CI with IM_LJ''], jCondition = Some (\<lambda>f so. ifServiceCCRN f \<noteq> [] \<and> \<not> ifUseMvVulnerabilityList f \<and> \<not> ifHasIssueMatches f)\<rparr>,
     \<lparr>jName = ''SGS'', jType = LeftJoin, jTable = ''SupportGroupService SGS'',
      jOn = ''CI.componentinstance_service_id = SGS.supportgroupservice_service_id'',
      jDependsOn = [''CI with IM_LJ''], jCondition = Some DependentJoin\<rparr>,
     \<lparr>jName = ''SG'', jType = LeftJoin, jTable = ''SupportGroup SG'',
      jOn = ''SGS.supportgroupservice_support_group_id = SG.supportgroup_id'',
      jDependsOn = [''SGS''], jCondition = Some (\<lambda>f so. ifSupportGroupCCRN f \<noteq> [] \<and> \<not> ifUseMvVulnerabilityList f)\<rparr>,
     \<lparr>jName = ''IV'', jType = LeftJoin, jTable = ''IssueVariant IV'',
      jOn = ''I.issue_id = IV.issuevariant_issue_id'',
      jDependsOn = [], jCondition = Some (\<lambda>f so. ifIssueVariantId f \<noteq> [] \<or> ifIssueRepositoryId f \<noteq> [] \<or> ifSearch f \<noteq> [] \<or> ByRating so)\<rparr>,
     \<lparr>jName = ''CVI'', jType = LeftJoin, jTable = ''ComponentVersionIssue CVI'',
      jOn = ''I.issue_id = CVI.componentversionissue_issue_id'',
      jDependsOn = [], jCondition = Some (\<lambda>f so. ifComponentVersionId f \<noteq> [] \<or> ifComponentId f \<noteq> [])\<rparr>,
     \<lparr>jName = ''CV using CVI'', jType = LeftJoin, jTable = ''ComponentVersion CV'',
      jOn = ''CVI.componentversionissue_component_version_id = CV.componentversion_id'',
      jDependsOn = [''CVI''], jCondition = Some (\<lambda>f so. let noConflictingServicePath = ifServiceCCRN f = [] \<or> ifHasIssueMatches f in ifComponentId f \<noteq> [] \<and> noConflictingServicePath \<and> ifSupportGroupCCRN f = [] \<and> \<not> ifAllServices f)\<rparr>,
     \<lparr>jName = ''R has S and C'', jType = LeftJoin, jTable = ''Remediation R'',
      jOn = ''I.issue_id = R.remediation_issue_id AND R.remediation_deleted_at IS NULL AND (R.remediation_expiration_date IS NULL OR R.remediation_expiration_date >= CURDATE()) AND CI.componentinstance_service_id = R.remediation_service_id AND CV.componentversion_component_id = R.remediation_component_id'',
      jDependsOn = [''CI with IM_LJ'', ''CV using CVI''], jCondition = Some (\<lambda>f so. let hasService = ifServiceCCRN f \<noteq> [] \<or> ifServiceId f \<noteq> [] in let hasComponent = ifComponentId f \<noteq> [] in (ifStatus f = IssueStatusOpen \<or> ifStatus f = IssueStatusRemediated) \<and> hasService \<and> hasComponent)\<rparr>,
     \<lparr>jName = ''R has S'', jType = LeftJoin, jTable = ''Remediation R'',
      jOn = ''I.issue_id = R.remediation_issue_id AND R.remediation_deleted_at IS NULL AND (R.remediation_expiration_date IS NULL OR R.remediation_expiration_date >= CURDATE()) AND CI.componentinstance_service_id = R.remediation_service_id'',
      jDependsOn = [''CI with IM_LJ''], jCondition = Some (\<lambda>f so. let hasService = ifServiceCCRN f \<noteq> [] \<or> ifServiceId f \<noteq> [] in let hasComponent = ifComponentId f \<noteq> [] in (ifStatus f = IssueStatusOpen \<or> ifStatus f = IssueStatusRemediated) \<and> hasService \<and> \<not> hasComponent)\<rparr>,
     \<lparr>jName = ''R has C'', jType = LeftJoin, jTable = ''Remediation R'',
      jOn = ''I.issue_id = R.remediation_issue_id AND R.remediation_deleted_at IS NULL AND (R.remediation_expiration_date IS NULL OR R.remediation_expiration_date >= CURDATE()) AND CV.componentversion_component_id = R.remediation_component_id'',
      jDependsOn = [''CV using CVI''], jCondition = Some (\<lambda>f so. let hasService = ifServiceCCRN f \<noteq> [] \<or> ifServiceId f \<noteq> [] in let hasComponent = ifComponentId f \<noteq> [] in (ifStatus f = IssueStatusOpen \<or> ifStatus f = IssueStatusRemediated) \<and> \<not> hasService \<and> hasComponent)\<rparr>,
     \<lparr>jName = ''R'', jType = LeftJoin, jTable = ''Remediation R'',
      jOn = ''I.issue_id = R.remediation_issue_id AND R.remediation_deleted_at IS NULL AND (R.remediation_expiration_date IS NULL OR R.remediation_expiration_date >= CURDATE())'',
      jDependsOn = [], jCondition = Some (\<lambda>f so. let hasService = ifServiceCCRN f \<noteq> [] \<or> ifServiceId f \<noteq> [] in let hasComponent = ifComponentId f \<noteq> [] in (ifStatus f = IssueStatusOpen \<or> ifStatus f = IssueStatusRemediated) \<and> \<not> hasService \<and> \<not> hasComponent)\<rparr>,
     \<lparr>jName = ''MVL'', jType = InnerJoin, jTable = ''(SELECT issue_id AS mvl_issue_id, max_severity, earliest_remediation_date, source_url FROM mvVulnerabilityList) MVL'',
      jOn = ''I.issue_id = MVL.mvl_issue_id'',
      jDependsOn = [], jCondition = Some (\<lambda>f so. ifUseMvVulnerabilityList f)\<rparr>,
     \<lparr>jName = ''MVS'', jType = InnerJoin, jTable = ''(SELECT issue_id AS mvs_issue_id, service_id AS mvs_service_id FROM mvVulnerabilityService) MVS'',
      jOn = ''I.issue_id = MVS.mvs_issue_id'',
      jDependsOn = [''MVL''], jCondition = Some (\<lambda>f so. ifUseMvVulnerabilityList f \<and> (ifServiceCCRN f \<noteq> [] \<or> ifServiceId f \<noteq> [] \<or> ifSupportGroupCCRN f \<noteq> []))\<rparr>,
     \<lparr>jName = ''S with MVS'', jType = InnerJoin, jTable = ''Service S'',
      jOn = ''MVS.mvs_service_id = S.service_id'',
      jDependsOn = [''MVS''], jCondition = Some (\<lambda>f so. ifUseMvVulnerabilityList f \<and> ifServiceCCRN f \<noteq> [])\<rparr>,
     \<lparr>jName = ''SGS with MVS'', jType = InnerJoin, jTable = ''SupportGroupService SGS'',
      jOn = ''MVS.mvs_service_id = SGS.supportgroupservice_service_id'',
      jDependsOn = [''MVS''], jCondition = Some (\<lambda>f so. ifUseMvVulnerabilityList f \<and> ifSupportGroupCCRN f \<noteq> [])\<rparr>,
     \<lparr>jName = ''SG with MVS'', jType = InnerJoin, jTable = ''SupportGroup SG'',
      jOn = ''SGS.supportgroupservice_support_group_id = SG.supportgroup_id'',
      jDependsOn = [''SGS with MVS''], jCondition = Some (\<lambda>f so. ifUseMvVulnerabilityList f \<and> ifSupportGroupCCRN f \<noteq> [])\<rparr>]"

definition issueAttributes :: "Attr list" where
  "issueAttributes =
    [\<lparr>atName = ''primary_name'', atOrder = \<lparr>By = IssuePrimaryName, Direction = OrderDirectionAsc\<rparr>\<rparr>]"

definition far_future :: string where
  "far_future = ''CAST('' @ [CHR 0x27] @ ''9999-12-31 23:59:59'' @ [CHR 0x27] @ '' AS DATETIME)) AS issue_earliest_target_remediation_date''"

definition issue_column :: "IssueFilter \<Rightarrow> OrderByField \<Rightarrow> string option" where
  "issue_column f o' =
     (if o' = IssueVariantRating then Some ''MAX(CAST(IV.issuevariant_rating AS UNSIGNED)) AS issuevariant_rating_num''
      else if o' = IssueEarliestTargetRemediationDate
      then Some (if ifUseMvVulnerabilityList f then ''COALESCE(MVL.earliest_remediation_date, '' @ far_future
                 else ''COALESCE(MIN(IM.issuematch_target_remediation_date), '' @ far_future)
      else None)"

definition issueExtraColumns :: "IssueFilter \<Rightarrow> sql_order \<Rightarrow> string list" where
  "issueExtraColumns f so = order_columns (issue_column f) so"

definition issueObject :: "(Issue, IssueFilter) DbObject" where
  "issueObject =
    \<lparr>dbPrefix = ''issue'', dbTableName = ''Issue'', dbTableKey = ''I'',
     dbDefaultOrder = \<lparr>By = IssueId, Direction = OrderDirectionAsc\<rparr>, dbOrderPrefix = [],
     dbProperties = issueProperties, dbFilterProperties = issueFilterProperties,
     dbJoinDefs = issueJoinDefs,
     dbAttributes = issueAttributes,
     dbAggregated = True, dbExtraColumns = Some issueExtraColumns, dbForceFrom = []\<rparr>"

section \<open>Queries of components\<close>

definition component_live :: "string list" where
  "component_live = [''CV'', ''CI'', ''S'', ''mvSCBSVC'', ''MCS'', ''S via MCS'', ''mvSCBSVC via MCS'']"

lemma component_texts:
  "one_alias ''C.component_ccrn = ?'' ''C''" "one_alias ''C.component_repository = ?'' ''C''"
  "one_alias ''C.component_organization = ?'' ''C''" "one_alias ''C.component_id = ?'' ''C''"
  "one_alias ''CV.componentversion_id = ?'' ''CV''" "one_alias ''S.service_ccrn = ?'' ''S''"
  "state_prefix ''C.component'' ''C''"
  by (code_simp)+

interpretation components: join_set componentJoinDefs "''C''" "depth 4 componentJoinDefs" 4 "set component_live"
  by (rule join_set_check) (code_simp+)

lemma components_required: "set (required_joins componentJoinDefs [] f so) \<subseteq> set component_live"
  by (auto simp: required_joins_def componentJoinDefs_def component_live_def DependentJoin_def)

lemma components_joined:
  "a \<in> joined 4 componentJoinDefs [] f so \<longleftrightarrow>
     cfComponentVersionId f \<noteq> [] \<and> a = ''CV''
     \<or> cfServiceCCRN f \<noteq> [] \<and> (if cfUseMvComponentService f then a \<in> {''MCS'', ''S''} else a \<in> {''S'', ''CI'', ''CV''})
     \<or> cfServiceCCRN f \<noteq> [] \<and> ByCount so \<and> a = ''CVR''"
proof -
  have "reach_table 4 componentJoinDefs =
      [[''CV''], [''CI'', ''CV''], [''S'', ''CI'', ''CV''], [''CVR'', ''S'', ''CI'', ''CV''], [''CVR'', ''S'', ''CI'', ''CV''],
       [''MCS''], [''S'', ''MCS''], [''CVR'', ''MCS'']]"
    by code_simp
  then show ?thesis
    unfolding joined_table
    by (simp only:) (auto simp: componentJoinDefs_def DependentJoin_def needSingleComponentByServiceVulnerabilityCounts_def)
qed

lemma component_columns: "aliases ''CVR.critical_count'' = {''CVR''}" "aliases ''CVR.high_count'' = {''CVR''}"
  "aliases ''CVR.medium_count'' = {''CVR''}" "aliases ''CVR.low_count'' = {''CVR''}" "aliases ''CVR.none_count'' = {''CVR''}"
  by (code_simp)+

lemma component_extra: "extra_mentions componentObject f so = (if ByCount so then {''CVR''} else {})"
proof -
  have "(\<Union>c \<in> set (order_columns component_count_column so). aliases c) = (if ByCount so then {''CVR''} else {})"
    unfolding ByCount_def
    by (rule order_columns_aliases) (auto simp: component_count_column_def count_fields_def component_columns split: if_splits)
  then show ?thesis by (simp add: extra_mentions_def componentObject_def componentExtraColumns_def)
qed

lemma component_filter:
  "filter_mentions (dbFilterProperties componentObject) f \<subseteq> insert ''C'' (joined 4 componentJoinDefs [] f so)"
  by (simp add: componentObject_def componentFilterProperties_def component_texts(1-6) [THEN one_alias_property]
      component_texts(7) [THEN state_property] components_joined)

definition ordered_by_count :: "entity_order list \<Rightarrow> bool" where
  "ordered_by_count order \<longleftrightarrow> list_ex (\<lambda>o'. List.member count_fields (By o')) order"

lemma component_order:
  "ByCount (list_order componentObject order) = ordered_by_count order"
  "order_mentions (list_order componentObject order) = (if ordered_by_count order then {''CVR''} else {})"
proof -
  show "ByCount (list_order componentObject order) = ordered_by_count order"
    by (auto simp: ByCount_def order_By_def list_order_def NewOrderWithCounterPrefix_def ordered_by_count_def list_ex_iff
        componentObject_def count_fields_def)
  then show "order_mentions (list_order componentObject order) = (if ordered_by_count order then {''CVR''} else {})"
    by (simp add: order_mentions_def list_order_def NewOrderWithCounterPrefix_def componentObject_def)
qed

text \<open>
  C8. The list of components and its cursors are resolved exactly when the list is not ordered by
  counts or is filtered by services: the view with the counts is joined for a service filter only
  (the join for all services has a condition that is never true), its columns are selected
  for every order by counts. Number and ids are always resolved.
\<close>

theorem component_queries_resolve:
  "statement_if (cursor_decodes decode page) (ordered_by_count order \<longrightarrow> cfServiceCCRN f \<noteq> []) (Get 4 decode componentObject f page order)
   \<and> statement_if True (ordered_by_count order \<longrightarrow> cfServiceCCRN f \<noteq> []) (GetAllCursors 4 decode componentObject f page order)
   \<and> statement_if True True (Count 4 decode componentObject f page)
   \<and> statement_if True True (GetAllIds 4 decode componentObject f page)"
proof -
  let ?ob = componentObject
  have ob: "dbJoinDefs ?ob = componentJoinDefs" "dbTableKey ?ob = ''C''" "key_object ?ob"
    by (simp_all add: key_object_def named_def componentObject_def plain_word_def quote_def componentFilterProperties_def)
  have "list_covered 4 ?ob f order = (ordered_by_count order \<longrightarrow> cfServiceCCRN f \<noteq> [])"
    using component_filter [of f]
    by (auto simp: list_covered_def Let_def component_extra component_order ob(1,2) components_joined)
  moreover have "count_covered 4 ?ob f = True"
    using component_filter [of f] by (simp add: count_covered_def ob(1,2))
  ultimately show ?thesis
    using components.list_statements [OF ob components_required, where f = f and decode = decode and page = page and order = order]
      components.count_statements [OF ob components_required, where f = f and decode = decode and page = page] by simp
qed

theorem component_queries_resolve_witness:
  "\<not> statement_if True True (Get 4 (\<lambda>s. Inr []) componentObject no_component_filter \<lparr>First = None, PAfter = None\<rparr>
      [\<lparr>By = CriticalCount, Direction = OrderDirectionDesc\<rparr>])"
proof -
  let ?order = "[\<lparr>By = CriticalCount, Direction = OrderDirectionDesc\<rparr>]"
  have "statement_if (cursor_decodes (\<lambda>s. Inr []) \<lparr>First = None, PAfter = None\<rparr>)
      (ordered_by_count ?order \<longrightarrow> cfServiceCCRN no_component_filter \<noteq> [])
      (Get 4 (\<lambda>s. Inr []) componentObject no_component_filter \<lparr>First = None, PAfter = None\<rparr> ?order)"
    using component_queries_resolve by blast
  then have "statement_if True False (Get 4 (\<lambda>s. Inr []) componentObject no_component_filter \<lparr>First = None, PAfter = None\<rparr> ?order)"
    by (simp add: cursor_decodes_def ordered_by_count_def count_fields_def no_component_filter_def)
  then show ?thesis
    by (cases "(True, False, Get 4 (\<lambda>s. Inr []) componentObject no_component_filter \<lparr>First = None, PAfter = None\<rparr> ?order)"
        rule: statement_if.cases) auto
qed

section \<open>Queries of issues\<close>

definition issue_rank :: "string \<Rightarrow> nat" where
  "issue_rank n =
     (if n \<in> {''CI with IM_RJ'', ''CI with IM_LJ'', ''CV using CVI'', ''MVS''} then 1
      else if n \<in> {''CV with IM_RJ'', ''CV with IM_LJ'', ''S with IM_RJ'', ''S with IM_LJ'', ''SGS'', ''R has S and C'',
        ''R has S'', ''R has C'', ''S with MVS'', ''SGS with MVS''} then 2
      else if n \<in> {''SG'', ''SG with MVS''} then 3 else 0)"

lemma issue_ranks: "check_ranks issue_rank 4 issueJoinDefs"
  by (simp add: check_ranks_def issueJoinDefs_def issue_rank_def)

lemma issue_names: "check_tables (alias_tables issueJoinDefs (map jName issueJoinDefs))"
  by code_simp

lemma issue_conditions_on: "list_all (check_join issueJoinDefs ''I'' (map jName issueJoinDefs)) (map jName issueJoinDefs)"
  by code_simp

interpretation issues: join_set issueJoinDefs "''I''" issue_rank 4 "set (map jName issueJoinDefs)"
  by (rule join_set_check [OF issue_ranks issue_conditions_on issue_names])

lemma issues_joined:
  "a \<in> joined 4 issueJoinDefs [] f so \<longleftrightarrow> joined_by (map jCondition issueJoinDefs)
      [[''IM''],
       [''IM''],
       [''CI'', ''IM''],
       [''CI'', ''IM''],
       [''CV'', ''CI'', ''IM''],
       [''CV'', ''CI'', ''IM''],
       [''S'', ''CI'', ''IM''],
       [''S'', ''CI'', ''IM''],
       [''SGS'', ''CI'', ''IM''],
       [''SG'', ''SGS'', ''CI'', ''IM''],
       [''IV''],
       [''CVI''],
       [''CV'', ''CVI''],
       [''R'', ''CI'', ''IM'', ''CV'', ''CVI''],
       [''R'', ''CI'', ''IM''],
       [''R'', ''CV'', ''CVI''],
       [''R''],
       [''MVL''],
       [''MVS'', ''MVL''],
       [''S'', ''MVS'', ''MVL''],
       [''SGS'', ''MVS'', ''MVL''],
       [''SG'', ''SGS'', ''MVS'', ''MVL'']] f so a"
proof -
  have "reach_table 4 issueJoinDefs =
      [[''IM''],
       [''IM''],
       [''CI'', ''IM''],
       [''CI'', ''IM''],
       [''CV'', ''CI'', ''IM''],
       [''CV'', ''CI'', ''IM''],
       [''S'', ''CI'', ''IM''],
       [''S'', ''CI'', ''IM''],
       [''SGS'', ''CI'', ''IM''],
       [''SG'', ''SGS'', ''CI'', ''IM''],
       [''IV''],
       [''CVI''],
       [''CV'', ''CVI''],
       [''R'', ''CI'', ''IM'', ''CV'', ''CVI''],
       [''R'', ''CI'', ''IM''],
       [''R'', ''CV'', ''CVI''],
       [''R''],
       [''MVL''],
       [''MVS'', ''MVL''],
       [''S'', ''MVS'', ''MVL''],
       [''SGS'', ''MVS'', ''MVL''],
       [''SG'', ''SGS'', ''MVS'', ''MVL'']]"
    by code_simp
  then show ?thesis by (simp only: joined_table)
qed

definition filters_status :: "IssueFilter \<Rightarrow> bool" where
  "filters_status f \<longleftrightarrow> ifStatus f = IssueStatusOpen \<or> ifStatus f = IssueStatusRemediated"

definition filters_matches :: "IssueFilter \<Rightarrow> bool" where
  "filters_matches f \<longleftrightarrow> ifIssueMatchStatus f \<noteq> [] \<or> ifIssueMatchId f \<noteq> [] \<or> ifIssueMatchSeverity f \<noteq> []"

lemma issue_tables:
  "''S'' \<in> joined 4 issueJoinDefs [] f so \<longleftrightarrow> ifAllServices f \<or> ifServiceCCRN f \<noteq> []"
  "''SG'' \<in> joined 4 issueJoinDefs [] f so \<longleftrightarrow> ifSupportGroupCCRN f \<noteq> []"
  "''IV'' \<in> joined 4 issueJoinDefs [] f so \<longleftrightarrow>
     ifIssueVariantId f \<noteq> [] \<or> ifIssueRepositoryId f \<noteq> [] \<or> ifSearch f \<noteq> [] \<or> ByRating so"
  "''CVI'' \<in> joined 4 issueJoinDefs [] f so \<longleftrightarrow> ifComponentVersionId f \<noteq> [] \<or> ifComponentId f \<noteq> []"
  "''R'' \<in> joined 4 issueJoinDefs [] f so \<longleftrightarrow> filters_status f"
  "''MVL'' \<in> joined 4 issueJoinDefs [] f so \<longleftrightarrow> ifUseMvVulnerabilityList f"
  by (simp_all add: issues_joined) (auto simp: issueJoinDefs_def DependentJoin_def filters_status_def Let_def)

lemma issue_instances_joined:
  "''CI'' \<in> joined 4 issueJoinDefs [] f so \<longleftrightarrow> ifAllServices f \<or> ifHasIssueMatches f \<and> ifServiceCCRN f \<noteq> []
     \<or> \<not> ifUseMvVulnerabilityList f \<and> (ifServiceId f \<noteq> [] \<or> ifServiceCCRN f \<noteq> [] \<or> ifSupportGroupCCRN f \<noteq> [])
     \<or> filters_status f \<and> (ifServiceCCRN f \<noteq> [] \<or> ifServiceId f \<noteq> [])"
  unfolding issues_joined filters_status_def
  by (simp add: issueJoinDefs_def DependentJoin_def Let_def; satx)

lemma issue_matches_joined:
  "''IM'' \<in> joined 4 issueJoinDefs [] f so \<longleftrightarrow> ifHasIssueMatches f \<or> filters_matches f
     \<or> ''CI'' \<in> joined 4 issueJoinDefs [] f so"
  unfolding issues_joined filters_matches_def
  by (simp add: issueJoinDefs_def DependentJoin_def Let_def; satx)

lemma issue_versions_joined:
  "''CV'' \<in> joined 4 issueJoinDefs [] f so \<longleftrightarrow> ifAllServices f
     \<or> ifServiceCCRN f \<noteq> [] \<and> \<not> ifUseMvVulnerabilityList f \<and> \<not> ifHasIssueMatches f
     \<or> ifComponentId f \<noteq> [] \<and> (filters_status f
         \<or> ifSupportGroupCCRN f = [] \<and> (ifServiceCCRN f = [] \<or> ifHasIssueMatches f))"
  unfolding issues_joined filters_status_def
  by (simp add: issueJoinDefs_def DependentJoin_def Let_def; satx)

lemmas issue_match_tables = issue_matches_joined issue_instances_joined issue_versions_joined

lemma issue_texts:
  "one_alias ''S.service_ccrn = ?'' ''S''" "one_alias ''CI.componentinstance_service_id = ?'' ''CI''"
  "one_alias ''I.issue_id = ?'' ''I''" "one_alias ''IM.issuematch_status = ?'' ''IM''"
  "one_alias ''IM.issuematch_rating = ?'' ''IM''" "one_alias ''MVL.max_severity = ?'' ''MVL''"
  "one_alias ''IM.issuematch_id = ?'' ''IM''" "one_alias ''CVI.componentversionissue_component_version_id = ?'' ''CVI''"
  "one_alias ''IV.issuevariant_id = ?'' ''IV''" "one_alias ''I.issue_type = ?'' ''I''"
  "one_alias ''I.issue_primary_name = ?'' ''I''" "one_alias ''IV.issuevariant_repository_id = ?'' ''IV''"
  "one_alias ''SG.supportgroup_ccrn = ?'' ''SG''" "one_alias ''CV.componentversion_component_id = ?'' ''CV''"
  "one_alias component_matches_query ''IM''"
  by (code_simp)+

lemma issue_state: "state_prefix ''I.issue'' ''I''" by code_simp

lemma issue_custom_texts:
  "aliases ''IM.issuematch_deleted_at IS NULL'' = {''IM''}" "aliases ''R.remediation_id IS NULL'' = {''R''}"
  "aliases ''R.remediation_id IS NOT NULL'' = {''R''}"
  by (code_simp)+

lemma live_matches_property:
  "part_aliases f (NewCustomFilterProperty (WrapBuilder as_bool live_matches_query) live_matches_param) \<subseteq> J
     \<longleftrightarrow> (ifHasIssueMatches f \<or> filters_matches f \<longrightarrow> ''IM'' \<in> J)"
proof -
  have "WrapBuilder as_bool live_matches_query (live_matches_param f) =
      Inr (if ifHasIssueMatches f \<or> filters_matches f then ''IM.issuematch_deleted_at IS NULL'' else [])"
    by (cases "ifHasIssueMatches f \<or> filters_matches f")
      (auto simp: WrapBuilder_def live_matches_param_def live_matches_query_def bools_def bool_value_def filters_matches_def)
  from CustomFilterProperty_aliases [of "WrapBuilder as_bool live_matches_query" live_matches_param f, OF this] show ?thesis by (auto simp: issue_custom_texts)
qed

lemma status_property:
  "part_aliases f (NewCustomFilterProperty (WrapBuilder as_status issue_status_query) (\<lambda>f. [PVal (IntV (ifStatus f))])) \<subseteq> J
     \<longleftrightarrow> (filters_status f \<longrightarrow> ''R'' \<in> J)"
proof -
  have "WrapBuilder as_status issue_status_query [PVal (IntV (ifStatus f))] =
      Inr (if ifStatus f = IssueStatusOpen then ''R.remediation_id IS NULL''
           else if ifStatus f = IssueStatusRemediated then ''R.remediation_id IS NOT NULL'' else [])"
    by (simp add: WrapBuilder_def issue_status_query_def)
  from CustomFilterProperty_aliases [of "WrapBuilder as_status issue_status_query" "\<lambda>f. [PVal (IntV (ifStatus f))]" f, OF this] show ?thesis
    by (simp add: issue_custom_texts filters_status_def)
qed

lemma issue_key: "key_object issueObject"
proof -
  have "total_property (NewCustomFilterProperty (WrapBuilder as_bool live_matches_query) live_matches_param)"
    "total_property (NewCustomFilterProperty (WrapBuilder as_status issue_status_query) (\<lambda>f. [PVal (IntV (ifStatus f))]))"
    by (auto simp: total_custom WrapBuilder_def live_matches_param_def live_matches_query_def bools_def bool_value_def
        issue_status_query_def)
  then show ?thesis
    by (simp add: key_object_def named_def issueObject_def plain_word_def quote_def issueFilterProperties_def)
qed

lemma guarded_empty: "(if b then xs else []) = [] \<longleftrightarrow> \<not> b \<or> xs = []"
  by simp

lemma issue_filter:
  "filter_mentions (dbFilterProperties issueObject) f \<subseteq> J \<longleftrightarrow> ''I'' \<in> J
     \<and> (ifServiceCCRN f \<noteq> [] \<longrightarrow> ''S'' \<in> J) \<and> (ifServiceId f \<noteq> [] \<longrightarrow> ''CI'' \<in> J)
     \<and> (ifHasIssueMatches f \<or> filters_matches f \<longrightarrow> ''IM'' \<in> J) \<and> (ifMvSeverity f \<noteq> [] \<longrightarrow> ''MVL'' \<in> J)
     \<and> (ifComponentVersionId f \<noteq> [] \<longrightarrow> ''CVI'' \<in> J)
     \<and> (ifIssueVariantId f \<noteq> [] \<or> ifIssueRepositoryId f \<noteq> [] \<or> ifSearch f \<noteq> [] \<longrightarrow> ''IV'' \<in> J)
     \<and> (ifSupportGroupCCRN f \<noteq> [] \<longrightarrow> ''SG'' \<in> J) \<and> (ifComponentId f \<noteq> [] \<longrightarrow> ''CV'' \<in> J)
     \<and> (filters_status f \<longrightarrow> ''R'' \<in> J)"
  unfolding issueObject_def DbObject.simps issueFilterProperties_def filter_mentions_Cons search_property
    live_matches_property status_property issue_texts [THEN one_alias_property] issue_state [THEN state_property] no_parameters filters_matches_def
    guarded_empty filter_mentions_Cons(1) [THEN eqTrueI]
  by satx

lemma issue_columns:
  "aliases ''MAX(CAST(IV.issuevariant_rating AS UNSIGNED)) AS issuevariant_rating_num'' = {''IV''}"
  "aliases (''COALESCE(MVL.earliest_remediation_date, '' @ far_future) = {''MVL''}"
  "aliases (''COALESCE(MIN(IM.issuematch_target_remediation_date), '' @ far_future) = {''IM''}"
  by (code_simp)+

definition ByEarliest :: "sql_order \<Rightarrow> bool" where
  "ByEarliest so = order_By so [IssueEarliestTargetRemediationDate]"

lemma issue_extra:
  "extra_mentions issueObject f so = (if ByRating so then {''IV''} else {})
     \<union> (if ByEarliest so then {if ifUseMvVulnerabilityList f then ''MVL'' else ''IM''} else {})"
proof -
  have "(case issue_column f o' of None \<Rightarrow> {} | Some c \<Rightarrow> aliases c) =
      (if o' = IssueVariantRating then {''IV''} else if o' = IssueEarliestTargetRemediationDate
       then {if ifUseMvVulnerabilityList f then ''MVL'' else ''IM''} else {})" for o'
    unfolding issue_column_def using issue_columns by (cases "ifUseMvVulnerabilityList f") auto
  then show ?thesis
    by (auto simp: extra_mentions_def issueObject_def issueExtraColumns_def order_columns_mentions
        ByRating_def ByEarliest_def order_By_def list_ex_iff split: if_splits)
qed

text \<open>The columns of these tables can be filtered on without their table being joined.\<close>

definition issue_filter_joined :: "IssueFilter \<Rightarrow> bool" where
  "issue_filter_joined f \<longleftrightarrow>
     (ifMvSeverity f \<noteq> [] \<longrightarrow> ifUseMvVulnerabilityList f)
     \<and> (ifServiceId f \<noteq> [] \<longrightarrow> \<not> ifUseMvVulnerabilityList f \<or> filters_status f \<or> ifAllServices f
          \<or> ifHasIssueMatches f \<and> ifServiceCCRN f \<noteq> [])
     \<and> (ifComponentId f \<noteq> [] \<longrightarrow> ifAllServices f \<or> filters_status f
          \<or> ifServiceCCRN f \<noteq> [] \<and> \<not> ifUseMvVulnerabilityList f \<and> \<not> ifHasIssueMatches f
          \<or> ifSupportGroupCCRN f = [] \<and> (ifServiceCCRN f = [] \<or> ifHasIssueMatches f))"

definition issue_order_joined :: "IssueFilter \<Rightarrow> entity_order list \<Rightarrow> bool" where
  "issue_order_joined f order \<longleftrightarrow>
     (list_ex (\<lambda>o'. By o' = IssueEarliestTargetRemediationDate) order \<longrightarrow>
        ifUseMvVulnerabilityList f \<or> ifHasIssueMatches f \<or> filters_matches f \<or> ifAllServices f
        \<or> ifServiceId f \<noteq> [] \<or> ifServiceCCRN f \<noteq> [] \<or> ifSupportGroupCCRN f \<noteq> [])"

lemma issue_orders:
  "ByEarliest (list_order issueObject order) = list_ex (\<lambda>o'. By o' = IssueEarliestTargetRemediationDate) order"
  "order_mentions (list_order issueObject order) = {}"
  by (auto simp: ByEarliest_def order_By_def list_order_def NewOrderWithCounterPrefix_def list_ex_iff issueObject_def order_mentions_def)

text \<open>
  C4. The list of issues is resolved exactly when the filter is joined and the order is: a
  severity of the view needs the view; a service id needs the live tables, a status or all
  services; a component needs the version table, which is not joined for a filter by support
  groups (unless a status or all services are asked for), nor for a service filter over the view
  or without it; and the order by the earliest date needs the view or the table of matches.
\<close>

theorem issue_queries_resolve:
  "statement_if (cursor_decodes decode page) (issue_filter_joined f \<and> issue_order_joined f order) (Get 4 decode issueObject f page order)
   \<and> statement_if True (issue_filter_joined f \<and> issue_order_joined f order) (GetAllCursors 4 decode issueObject f page order)
   \<and> statement_if True (issue_filter_joined f) (Count 4 decode issueObject f page)"
proof -
  have ob: "dbJoinDefs issueObject = issueJoinDefs" "dbTableKey issueObject = ''I''" by (simp_all add: issueObject_def)
  have filt: "filter_mentions (dbFilterProperties issueObject) f \<subseteq> insert ''I'' (joined 4 issueJoinDefs [] f so) \<longleftrightarrow> issue_filter_joined f" for so
    unfolding issue_filter insert_iff issue_tables issue_match_tables issue_filter_joined_def by auto
  have "list_covered 4 issueObject f order \<longleftrightarrow> issue_filter_joined f \<and> issue_order_joined f order"
    unfolding list_covered_def Let_def ob issue_orders issue_extra Un_subset_iff filt
    by (auto simp: issue_tables issue_match_tables issue_order_joined_def split: if_splits)
  moreover have "count_covered 4 issueObject f = issue_filter_joined f"
    unfolding count_covered_def ob by (rule filt)
  ultimately show ?thesis
    using issues.list_statements [OF ob issue_key required_names, where f = f and decode = decode and page = page and order = order]
      issues.count_statements [OF ob issue_key required_names, where f = f and decode = decode and page = page] by simp
qed

end
