(* ===== verification/Sql_Database.thy ===== *)
theory Sql_Database
  imports Issue_Object
begin

text \<open>
  The methods of \<open>SqlDatabase\<close> on the tables (\<open>internal/database/mariadb/*.go\<close>), each the generic
  operation on the table's object, and what they do to the rows. The server is a parameter: \<open>row_laws\<close>
  states what INSERT and UPDATE of one row do, \<open>unique_link\<close> how a table with a primary key over two ids
  refuses a second row; both hold for the store of rows at the end of the theory.
\<close>


section \<open>Services\<close>

definition SqlCountServices where
  "SqlCountServices decode f = Count 4 decode serviceObject f (sfPage f)"

definition SqlGetServices where
  "SqlGetServices decode f order = Get 4 decode serviceObject f (sfPage f) order"

definition SqlGetAllServiceCursors where
  "SqlGetAllServiceCursors decode f order = GetAllCursors 4 decode serviceObject f (sfPage f) order"

definition SqlCreateService where
  "SqlCreateService ex item = Create ex (\<lambda>i e. e\<lparr>svcId := i\<rparr>) serviceObject item"

definition SqlUpdateService where
  "SqlUpdateService ex item = Update ex svcId serviceObject item"

definition SqlDeleteService where
  "SqlDeleteService ex i user = Delete ex serviceObject i user"

definition SqlAddOwnerToService where
  "SqlAddOwnerToService ex serviceId user = AssociateId ex ''Owner'' ''owner'' ''service'' serviceId ''user'' user"

definition SqlRemoveOwnerFromService where
  "SqlRemoveOwnerFromService ex serviceId user = DissociateId ex ''Owner'' ''owner'' ''service'' serviceId ''user'' user"

definition SqlAddIssueRepositoryToService where
  "SqlAddIssueRepositoryToService ex serviceId issueRepositoryId priority = AssociateIdWithVal ex ''IssueRepositoryService'' ''issuerepositoryservice'' ''service'' serviceId ''issue_repository'' issueRepositoryId ''priority'' priority"

definition SqlRemoveIssueRepositoryFromService where
  "SqlRemoveIssueRepositoryFromService ex serviceId issueRepositoryId = DissociateId ex ''IssueRepositoryService'' ''issuerepositoryservice'' ''service'' serviceId ''issue_repository'' issueRepositoryId"

definition SqlGetServiceCcrns where
  "SqlGetServiceCcrns decode f = GetAttr 4 decode serviceObject ''ccrn'' f (sfPage f)"

definition SqlGetServiceDomains where
  "SqlGetServiceDomains decode f = GetAttr 4 decode serviceObject ''domain'' f (sfPage f)"

definition SqlGetServiceRegions where
  "SqlGetServiceRegions decode f = GetAttr 4 decode serviceObject ''region'' f (sfPage f)"

section \<open>Component versions\<close>

definition SqlGetAllComponentVersionCursors where
  "SqlGetAllComponentVersionCursors decode f order = GetAllCursors 4 decode componentVersionObject f (vfPage f) order"

definition SqlGetComponentVersions where
  "SqlGetComponentVersions decode f order = Get 4 decode componentVersionObject f (vfPage f) order"

definition SqlCountComponentVersions where
  "SqlCountComponentVersions decode f = Count 4 decode componentVersionObject f (vfPage f)"

definition SqlCreateComponentVersion where
  "SqlCreateComponentVersion ex item = Create ex (\<lambda>i e. e\<lparr>cvId := i\<rparr>) componentVersionObject item"

definition SqlUpdateComponentVersion where
  "SqlUpdateComponentVersion ex item = Update ex cvId componentVersionObject item"

definition SqlDeleteComponentVersion where
  "SqlDeleteComponentVersion ex i user = Delete ex componentVersionObject i user"

section \<open>Component instances\<close>

definition SqlGetComponentInstances where
  "SqlGetComponentInstances decode f order = Get 4 decode componentInstanceObject f (nfPage f) order"

definition SqlGetAllComponentInstanceCursors where
  "SqlGetAllComponentInstanceCursors decode f order = GetAllCursors 4 decode componentInstanceObject f (nfPage f) order"

definition SqlCountComponentInstances where
  "SqlCountComponentInstances decode f = Count 4 decode componentInstanceObject f (nfPage f)"

definition SqlCreateComponentInstance where
  "SqlCreateComponentInstance ex item = Create ex (\<lambda>i e. e\<lparr>ciId := i\<rparr>) componentInstanceObject item"

definition SqlUpdateComponentInstance where
  "SqlUpdateComponentInstance ex item = Update ex ciId componentInstanceObject item"

definition SqlDeleteComponentInstance where
  "SqlDeleteComponentInstance ex i user = Delete ex componentInstanceObject i user"

definition SqlGetCcrn where
  "SqlGetCcrn decode f = GetAttr 4 decode componentInstanceObject ''ccrn'' f (nfPage f)"

definition SqlGetRegion where
  "SqlGetRegion decode f = GetAttr 4 decode componentInstanceObject ''region'' f (nfPage f)"

definition SqlGetCluster where
  "SqlGetCluster decode f = GetAttr 4 decode componentInstanceObject ''cluster'' f (nfPage f)"

definition SqlGetNamespace where
  "SqlGetNamespace decode f = GetAttr 4 decode componentInstanceObject ''namespace'' f (nfPage f)"

definition SqlGetDomain where
  "SqlGetDomain decode f = GetAttr 4 decode componentInstanceObject ''domain'' f (nfPage f)"

definition SqlGetProject where
  "SqlGetProject decode f = GetAttr 4 decode componentInstanceObject ''project'' f (nfPage f)"

definition SqlGetPod where
  "SqlGetPod decode f = GetAttr 4 decode componentInstanceObject ''pod'' f (nfPage f)"

definition SqlGetContainer where
  "SqlGetContainer decode f = GetAttr 4 decode componentInstanceObject ''container'' f (nfPage f)"

definition SqlGetType where
  "SqlGetType decode f = GetAttr 4 decode componentInstanceObject ''type'' f (nfPage f)"

definition SqlGetComponentInstanceParent where
  "SqlGetComponentInstanceParent decode f = GetAttr 4 decode componentInstanceObject ''parent_id'' f (nfPage f)"

definition SqlGetContext where
  "SqlGetContext decode f = GetAttr 4 decode componentInstanceObject ''context'' f (nfPage f)"

section \<open>Users\<close>

definition SqlGetAllUserIds where
  "SqlGetAllUserIds decode f = GetAllIds 4 decode userObject f (ufPage f)"

definition SqlGetAllUserCursors where
  "SqlGetAllUserCursors decode f order = GetAllCursors 4 decode userObject f (ufPage f) order"

definition SqlGetUsers where
  "SqlGetUsers decode f order = Get 4 decode userObject f (ufPage f) order"

definition SqlCountUsers where
  "SqlCountUsers decode f = Count 4 decode userObject f (ufPage f)"

definition SqlCreateUser where
  "SqlCreateUser ex item = Create ex (\<lambda>i e. e\<lparr>userId := i\<rparr>) userObject item"

definition SqlUpdateUser where
  "SqlUpdateUser ex item = Update ex userId userObject item"

definition SqlDeleteUser where
  "SqlDeleteUser ex i user = Delete ex userObject i user"

definition SqlGetUserNames where
  "SqlGetUserNames decode f = GetAttr 4 decode userObject ''name'' f (ufPage f)"

definition SqlGetUniqueUserIDs where
  "SqlGetUniqueUserIDs decode f = GetAttr 4 decode userObject ''unique_user_id'' f (ufPage f)"

section \<open>Support groups\<close>

definition SqlGetAllSupportGroupCursors where
  "SqlGetAllSupportGroupCursors decode f order = GetAllCursors 4 decode supportGroupObject f (gfPage f) order"

definition SqlGetSupportGroups where
  "SqlGetSupportGroups decode f order = Get 4 decode supportGroupObject f (gfPage f) order"

definition SqlCountSupportGroups where
  "SqlCountSupportGroups decode f = Count 4 decode supportGroupObject f (gfPage f)"

definition SqlCreateSupportGroup where
  "SqlCreateSupportGroup ex item = Create ex (\<lambda>i e. e\<lparr>sgId := i\<rparr>) supportGroupObject item"

definition SqlUpdateSupportGroup where
  "SqlUpdateSupportGroup ex item = Update ex sgId supportGroupObject item"

definition SqlDeleteSupportGroup where
  "SqlDeleteSupportGroup ex i user = Delete ex supportGroupObject i user"

definition SqlAddServiceToSupportGroup where
  "SqlAddServiceToSupportGroup ex supportGroupId serviceId = AssociateId ex ''SupportGroupService'' ''supportgroupservice'' ''service'' serviceId ''support_group'' supportGroupId"

definition SqlRemoveServiceFromSupportGroup where
  "SqlRemoveServiceFromSupportGroup ex supportGroupId serviceId = DissociateId ex ''SupportGroupService'' ''supportgroupservice'' ''service'' serviceId ''support_group'' supportGroupId"

definition SqlAddUserToSupportGroup where
  "SqlAddUserToSupportGroup ex supportGroupId user = AssociateId ex ''SupportGroupUser'' ''supportgroupuser'' ''user'' user ''support_group'' supportGroupId"

definition SqlRemoveUserFromSupportGroup where
  "SqlRemoveUserFromSupportGroup ex supportGroupId user = DissociateId ex ''SupportGroupUser'' ''supportgroupuser'' ''user'' user ''support_group'' supportGroupId"

definition SqlGetSupportGroupCcrns where
  "SqlGetSupportGroupCcrns decode f = GetAttr 4 decode supportGroupObject ''ccrn'' f (gfPage f)"

section \<open>Issue repositories\<close>

definition SqlCountIssueRepositories where
  "SqlCountIssueRepositories decode f = Count 4 decode issueRepositoryObject f (yfPage f)"

definition SqlGetAllIssueRepositoryCursors where
  "SqlGetAllIssueRepositoryCursors decode f order = GetAllCursors 4 decode issueRepositoryObject f (yfPage f) order"

definition SqlGetIssueRepositories where
  "SqlGetIssueRepositories decode f order = Get 4 decode issueRepositoryObject f (yfPage f) order"

definition SqlCreateIssueRepository where
  "SqlCreateIssueRepository ex item = Create ex (\<lambda>i e. e\<lparr>irId := i\<rparr>) issueRepositoryObject item"

definition SqlUpdateIssueRepository where
  "SqlUpdateIssueRepository ex item = Update ex irId issueRepositoryObject item"

definition SqlDeleteIssueRepository where
  "SqlDeleteIssueRepository ex i user = Delete ex issueRepositoryObject i user"

section \<open>Issue variants\<close>

definition SqlGetAllIssueVariantCursors where
  "SqlGetAllIssueVariantCursors decode f order = GetAllCursors 4 decode issueVariantObject f (wfPage f) order"

definition SqlGetIssueVariants where
  "SqlGetIssueVariants decode f order = Get 4 decode issueVariantObject f (wfPage f) order"

definition SqlCountIssueVariants where
  "SqlCountIssueVariants decode f = Count 4 decode issueVariantObject f (wfPage f)"

definition SqlCreateIssueVariant where
  "SqlCreateIssueVariant ex item = Create ex (\<lambda>i e. e\<lparr>ivId := i\<rparr>) issueVariantObject item"

definition SqlUpdateIssueVariant where
  "SqlUpdateIssueVariant ex item = Update ex ivId issueVariantObject item"

definition SqlDeleteIssueVariant where
  "SqlDeleteIssueVariant ex i user = Delete ex issueVariantObject i user"

section \<open>Patches\<close>

definition SqlGetPatches where
  "SqlGetPatches decode f order = Get 4 decode patchObject f (pfPage f) order"

definition SqlCountPatches where
  "SqlCountPatches decode f = Count 4 decode patchObject f (pfPage f)"

definition SqlGetAllPatchCursors where
  "SqlGetAllPatchCursors decode f order = GetAllCursors 4 decode patchObject f (pfPage f) order"

section \<open>Remediations\<close>

definition SqlGetRemediations where
  "SqlGetRemediations decode f order = Get 4 decode remediationObject f (rfPage f) order"

definition SqlCountRemediations where
  "SqlCountRemediations decode f = Count 4 decode remediationObject f (rfPage f)"

definition SqlGetAllRemediationCursors where
  "SqlGetAllRemediationCursors decode f order = GetAllCursors 4 decode remediationObject f (rfPage f) order"

definition SqlCreateRemediation where
  "SqlCreateRemediation ex item = Create ex (\<lambda>i e. e\<lparr>remId := i\<rparr>) remediationObject item"

definition SqlUpdateRemediation where
  "SqlUpdateRemediation ex item = Update ex remId remediationObject item"

definition SqlDeleteRemediation where
  "SqlDeleteRemediation ex i user = Delete ex remediationObject i user"

section \<open>Variants of a service\<close>

definition SqlGetServiceIssueVariants where
  "SqlGetServiceIssueVariants decode f order = Get 4 decode serviceIssueVariantObject f (zfPage f) order"

section \<open>Components\<close>

definition SqlGetAllComponentCursors where
  "SqlGetAllComponentCursors decode f order = GetAllCursors 4 decode componentObject f (cfPage f) order"

definition SqlGetComponents where
  "SqlGetComponents decode f order = Get 4 decode componentObject f (cfPage f) order"

definition SqlCountComponents where
  "SqlCountComponents decode f = Count 4 decode componentObject f (cfPage f)"

definition SqlCreateComponent where
  "SqlCreateComponent ex item = Create ex (\<lambda>i e. e\<lparr>compId := i\<rparr>) componentObject item"

definition SqlUpdateComponent where
  "SqlUpdateComponent ex item = Update ex compId componentObject item"

definition SqlDeleteComponent where
  "SqlDeleteComponent ex i user = Delete ex componentObject i user"

definition SqlGetComponentCcrns where
  "SqlGetComponentCcrns decode f = GetAttr 4 decode componentObject ''ccrn'' f (cfPage f)"

section \<open>Issues\<close>

definition SqlCountIssues where
  "SqlCountIssues decode f = Count 4 decode issueObject f (ifPage f)"

definition SqlGetAllIssueCursors where
  "SqlGetAllIssueCursors decode f order = GetAllCursors 4 decode issueObject f (ifPage f) order"

definition SqlGetIssues where
  "SqlGetIssues decode f order = Get 4 decode issueObject f (ifPage f) order"

definition SqlCreateIssue where
  "SqlCreateIssue ex item = Create ex (\<lambda>i e. e\<lparr>isId := i\<rparr>) issueObject item"

definition SqlUpdateIssue where
  "SqlUpdateIssue ex item = Update ex isId issueObject item"

definition SqlDeleteIssue where
  "SqlDeleteIssue ex i user = Delete ex issueObject i user"

definition SqlAddComponentVersionToIssue where
  "SqlAddComponentVersionToIssue ex issueId componentVersionId = AssociateId ex ''ComponentVersionIssue'' ''componentversionissue'' ''issue'' issueId ''component_version'' componentVersionId"

definition SqlRemoveComponentVersionFromIssue where
  "SqlRemoveComponentVersionFromIssue ex issueId componentVersionId = DissociateId ex ''ComponentVersionIssue'' ''componentversionissue'' ''issue'' issueId ''component_version'' componentVersionId"

definition SqlRemoveAllIssuesFromComponentVersion where
  "SqlRemoveAllIssuesFromComponentVersion ex componentVersionId = DissociateAllIds ex ''ComponentVersionIssue'' ''componentversionissue'' ''component_version'' componentVersionId"

definition SqlGetIssueNames where
  "SqlGetIssueNames decode f = GetAttr 4 decode issueObject ''primary_name'' f (ifPage f)"

section \<open>Issue matches\<close>

definition SqlGetAllIssueMatchIds where
  "SqlGetAllIssueMatchIds decode f = GetAllIds 4 decode issueMatchObject f \<lparr>First = imfFirst f, PAfter = imfAfter f\<rparr>"

definition SqlGetAllIssueMatchCursors where
  "SqlGetAllIssueMatchCursors decode f order = GetAllCursors 4 decode issueMatchObject f \<lparr>First = imfFirst f, PAfter = imfAfter f\<rparr> order"

definition SqlGetIssueMatches where
  "SqlGetIssueMatches decode f order = Get 4 decode issueMatchObject f \<lparr>First = imfFirst f, PAfter = imfAfter f\<rparr> order"

definition SqlCountIssueMatches where
  "SqlCountIssueMatches decode f = Count 4 decode issueMatchObject f \<lparr>First = imfFirst f, PAfter = imfAfter f\<rparr>"

definition SqlCreateIssueMatch where
  "SqlCreateIssueMatch ex item = Create ex (\<lambda>i e. e\<lparr>imId := i\<rparr>) issueMatchObject item"

definition SqlUpdateIssueMatch where
  "SqlUpdateIssueMatch ex item = Update ex imId issueMatchObject item"

definition SqlDeleteIssueMatch where
  "SqlDeleteIssueMatch ex i user = Delete ex issueMatchObject i user"


section \<open>Rows\<close>

type_synonym row = "string \<rightharpoonup> fparam"

text \<open>
  How a state of the server is read: its rows, the AUTO_INCREMENT column of a table, the columns it fills in
  on insertion and by itself on update (\<open>ON UPDATE CURRENT_TIMESTAMP\<close>), and the value of an expression.
\<close>

record 'd row_view =
  rv_rows :: "'d \<Rightarrow> string \<Rightarrow> row list"
  rv_key :: "string \<Rightarrow> string"
  rv_default :: "'d \<Rightarrow> string \<Rightarrow> row"
  rv_touch :: "'d \<Rightarrow> string \<Rightarrow> row"
  rv_expr :: "'d \<Rightarrow> string \<Rightarrow> fparam"

fun assigned :: "(string \<Rightarrow> fparam) \<Rightarrow> set_value \<Rightarrow> fparam" where
  "assigned ev (SetParam p) = p"
| "assigned ev (SetExpr e) = ev e"

definition updated_row :: "row \<Rightarrow> (string \<Rightarrow> fparam) \<Rightarrow> update_stmt \<Rightarrow> row \<Rightarrow> row" where
  "updated_row touch ev stmt r =
     (if upd_where stmt \<subseteq>\<^sub>m r then r ++ touch ++ (\<lambda>c. map_option (assigned ev) (upd_set stmt c)) else r)"

definition inserted_row :: "row \<Rightarrow> insert_stmt \<Rightarrow> string \<Rightarrow> id64 \<Rightarrow> row" where
  "inserted_row dflt stmt key i = (dflt ++ map_of (zip (ins_columns stmt) (ins_values stmt)))(key \<mapsto> int_param i)"

definition row_laws :: "'d sql_exec \<Rightarrow> 'd row_view \<Rightarrow> bool" where
  "row_laws ex v \<longleftrightarrow>
     (\<forall>stmt d i d'. ex_insert ex stmt d = (Inr i, d') \<longrightarrow>
        rv_rows v d' = (rv_rows v d)(ins_table stmt := rv_rows v d (ins_table stmt) @
          [inserted_row (rv_default v d (ins_table stmt)) stmt (rv_key v (ins_table stmt)) i]) \<and>
        (\<forall>r \<in> set (rv_rows v d (ins_table stmt)). r (rv_key v (ins_table stmt)) \<noteq> Some (int_param i))) \<and>
     (\<forall>stmt d d'. ex_update ex stmt d = (None, d') \<longrightarrow>
        rv_rows v d' = (rv_rows v d)(upd_table stmt :=
          map (updated_row (rv_touch v d (upd_table stmt)) (rv_expr v d) stmt) (rv_rows v d (upd_table stmt)))) \<and>
     (\<forall>d T. rv_key v T \<notin> dom (rv_touch v d T))"

definition find_row :: "'d row_view \<Rightarrow> 'd \<Rightarrow> string \<Rightarrow> id64 \<Rightarrow> row option" where
  "find_row v d T i = find (\<lambda>r. r (rv_key v T) = Some (int_param i)) (rv_rows v d T)"

text \<open>The columns of a table are distinct and its key is none of them.\<close>

definition keyed_columns :: "('e, 'f) DbObject \<Rightarrow> bool" where
  "keyed_columns ob \<longleftrightarrow> dbTableName ob \<noteq> [] \<and> dbPrefix ob \<noteq> [] \<and> distinct (map prName (dbProperties ob)) \<and>
     dbPrefix ob @ ''_id'' \<notin> set (map prName (dbProperties ob))"

lemma getUpdateMap_fold:
  "distinct (map prName ps) \<Longrightarrow>
   fold (\<lambda>v m. case GetUpdateData v e of (val, isUpdatePresent) \<Rightarrow> if isUpdatePresent then m(GetName v \<mapsto> val) else m) ps m0 c =
     (case find (\<lambda>p. prName p = c) ps of
        Some p \<Rightarrow> if snd (prAccess p e) then Some (fst (prAccess p e)) else m0 c
      | None \<Rightarrow> m0 c)"
proof (induction ps arbitrary: m0)
  case (Cons p ps)
  have "find (\<lambda>q. prName q = prName p) ps = None" using Cons.prems by (simp add: find_None_iff) (metis image_eqI)
  then show ?case using Cons
    by (cases "prAccess p e") (auto simp: GetUpdateData_def GetName_def split: option.splits)
qed simp

lemma find_named: "distinct (map prName ps) \<Longrightarrow> p \<in> set ps \<Longrightarrow> find (\<lambda>q. prName q = prName p) ps = Some p"
  by (induction ps) (auto simp: image_iff)

lemma getUpdateMap_property:
  assumes "keyed_columns ob" "p \<in> set (dbProperties ob)"
  shows "getUpdateMap ob e (prName p) = (if snd (prAccess p e) then Some (fst (prAccess p e)) else None)"
  using assms by (simp add: getUpdateMap_def getUpdateMap_fold keyed_columns_def find_named)

lemma getUpdateMap_key: "keyed_columns ob \<Longrightarrow> getUpdateMap ob e (dbPrefix ob @ ''_id'') = None"
  by (auto simp: getUpdateMap_def getUpdateMap_fold keyed_columns_def image_iff split: option.splits dest!: find_Some_iff [THEN iffD1])
    (metis find_Some_iff nth_mem)

lemma inserted_property:
  assumes "keyed_columns ob" "p \<in> set (dbProperties ob)"
  shows "inserted_row dflt (InsertQuery ob e) (dbPrefix ob @ ''_id'') i (prName p) = Some (fst (prAccess p e))"
proof -
  have "map_of (zip (map prName ps) (map (\<lambda>p. fst (prAccess p e)) ps)) (prName p) = Some (fst (prAccess p e))"
    if "distinct (map prName ps)" "p \<in> set ps" for ps
    using that by (induction ps) (auto simp: image_iff)
  moreover have "prName p \<noteq> dbPrefix ob @ ''_id''" using assms by (force simp: keyed_columns_def)
  ultimately show ?thesis
    using assms by (simp add: inserted_row_def InsertQuery_def keyed_columns_def GetName_def [abs_def] GetValue_def [abs_def])
qed

lemma find_row_map:
  assumes "\<And>r. g r k = r k"
  shows "find (\<lambda>r. r k = x) (map g rs) = map_option g (find (\<lambda>r. r k = x) rs)"
  by (induction rs) (auto simp: assms)

lemma find_new_row: "\<forall>r \<in> set rs. \<not> P r \<Longrightarrow> P r' \<Longrightarrow> find P (rs @ [r']) = Some r'"
  by (induction rs) auto

lemma updated_row_key:
  assumes "touch key = None" "upd_set stmt key = None"
  shows "updated_row touch ev stmt r key = r key"
  using assms by (simp add: updated_row_def map_add_def)

lemma updated_other_row:
  assumes "r key = Some (int_param j)" "j \<noteq> i" "upd_where stmt = [key \<mapsto> int_param i]"
  shows "updated_row touch ev stmt r = r"
  using assms by (auto simp: updated_row_def map_le_def int_param_def)

lemma Create_success:
  assumes "row_laws ex v" "Create ex setId ob e d = Inr (Inr e', d1)"
  obtains i where "e' = setId i e" "dbTableName ob \<noteq> []" "dbPrefix ob \<noteq> []"
    "rv_rows v d1 = (rv_rows v d)(dbTableName ob := rv_rows v d (dbTableName ob) @
       [inserted_row (rv_default v d (dbTableName ob)) (InsertQuery ob e) (rv_key v (dbTableName ob)) i])"
    "\<forall>r \<in> set (rv_rows v d (dbTableName ob)). r (rv_key v (dbTableName ob)) \<noteq> Some (int_param i)"
proof -
  from assms(2) obtain i where i: "ex_insert ex (InsertQuery ob e) d = (Inr i, d1)" "e' = setId i e"
      "dbTableName ob \<noteq> []" "dbPrefix ob \<noteq> []"
    by (auto simp: Create_def Let_def split: if_splits prod.splits sum.splits)
  moreover have "ins_table (InsertQuery ob e) = dbTableName ob" by (simp add: InsertQuery_def)
  ultimately show thesis using that [of i] assms(1) unfolding row_laws_def by metis
qed

lemma exec_update_success:
  assumes "row_laws ex v" "exec_update ex (update_query ob sets i) d = (None, d')"
  shows "rv_rows v d' = (rv_rows v d)(dbTableName ob :=
    map (updated_row (rv_touch v d (dbTableName ob)) (rv_expr v d) (update_query ob sets i)) (rv_rows v d (dbTableName ob)))"
proof -
  from assms(2) have "ex_update ex (update_query ob sets i) d = (None, d')"
    by (auto simp: exec_update_def split: if_splits prod.splits)
  with assms(1) show ?thesis unfolding row_laws_def by (metis (no_types, lifting) update_query_def update_stmt.select_convs(1))
qed

text \<open>An update of one row: that row is changed, every other row of every table stays.\<close>

lemma exec_update_rows:
  assumes "row_laws ex v" "rv_key v (dbTableName ob) = dbPrefix ob @ ''_id''" "sets (dbPrefix ob @ ''_id'') = None"
    and "exec_update ex (update_query ob sets i) d = (None, d')"
  shows "find_row v d' (dbTableName ob) i =
      map_option (\<lambda>r. r ++ rv_touch v d (dbTableName ob) ++ (\<lambda>c. map_option (assigned (rv_expr v d)) (sets c)))
        (find_row v d (dbTableName ob) i)"
    and "(T, j) \<noteq> (dbTableName ob, i) \<Longrightarrow> find_row v d' T j = find_row v d T j"
proof -
  let ?T = "dbTableName ob" and ?k = "dbPrefix ob @ ''_id''"
  let ?u = "updated_row (rv_touch v d ?T) (rv_expr v d) (update_query ob sets i)"
  have rows: "rv_rows v d' = (rv_rows v d)(?T := map ?u (rv_rows v d ?T))" by (rule exec_update_success [OF assms(1,4)])
  have "rv_touch v d ?T ?k = None" using assms(1,2) unfolding row_laws_def by (metis domIff)
  then have key: "?u r ?k = r ?k" for r by (rule updated_row_key) (simp add: update_query_def assms(3))
  have found: "find_row v d' ?T j = map_option ?u (find_row v d ?T j)" for j
    using find_row_map [of ?u ?k, OF key] by (simp add: find_row_def rows assms(2))
  have at: "r ?k = Some (int_param j)" if "find_row v d ?T j = Some r" for r j
    using that by (auto simp: find_row_def assms(2) find_Some_iff)
  show "find_row v d' ?T i = map_option (\<lambda>r. r ++ rv_touch v d ?T ++ (\<lambda>c. map_option (assigned (rv_expr v d)) (sets c))) (find_row v d ?T i)"
    using at [of i] by (cases "find_row v d ?T i") (auto simp: found updated_row_def update_query_def map_le_def)
  show "find_row v d' T j = find_row v d T j" if "(T, j) \<noteq> (?T, i)"
  proof (cases "T = ?T")
    case True
    with that have "j \<noteq> i" by simp
    then have "?u r = r" if "find_row v d ?T j = Some r" for r
      using updated_other_row [of r ?k j i] at [OF that] by (simp add: update_query_def)
    then show ?thesis using found [of j] True by (cases "find_row v d ?T j") auto
  qed (simp add: find_row_def rows)
qed

section \<open>Creation and update of a row\<close>

lemma merged_row:
  assumes "row_laws ex v" and "keyed_columns ob" and "rv_key v (dbTableName ob) = dbPrefix ob @ ''_id''"
    and "\<forall>p \<in> set (dbProperties ob). prName p \<notin> dom (rv_touch v d1 (dbTableName ob))"
    and "Create ex setId ob e d = Inr (Inr e1, d1)" and "\<forall>i e. getId (setId i e) = i"
    and "getId e2 = getId e1" and "Update ex getId ob e2 d1 = Inr (None, d2)"
  shows "\<exists>i r. e1 = setId i e \<and> find_row v d2 (dbTableName ob) i = Some r \<and>
      (\<forall>p \<in> set (dbProperties ob).
         r (prName p) = Some (fst (prAccess p (if snd (prAccess p e2) then e2 else e)))) \<and>
      (\<forall>T j. (T, j) \<noteq> (dbTableName ob, i) \<longrightarrow> find_row v d2 T j = find_row v d1 T j)"
proof -
  let ?T = "dbTableName ob"
  from Create_success [OF assms(1,5)] obtain i where i: "e1 = setId i e" "?T \<noteq> []" "dbPrefix ob \<noteq> []"
      "rv_rows v d1 = (rv_rows v d)(?T := rv_rows v d ?T @ [inserted_row (rv_default v d ?T) (InsertQuery ob e) (rv_key v ?T) i])"
      "\<forall>r \<in> set (rv_rows v d ?T). r (rv_key v ?T) \<noteq> Some (int_param i)" by metis
  let ?r = "inserted_row (rv_default v d ?T) (InsertQuery ob e) (rv_key v ?T) i"
  let ?sets = "\<lambda>c. map_option SetParam (getUpdateMap ob e2 c)"
  have created: "find_row v d1 ?T i = Some ?r"
    using find_new_row [OF i(5), of ?r] i(4) by (simp add: find_row_def inserted_row_def)
  have "getId e2 = i" using assms(6,7) i(1) by simp
  with assms(8) i(2,3) have upd: "exec_update ex (update_query ob ?sets i) d1 = (None, d2)" by (simp add: Update_def)
  have nokey: "?sets (dbPrefix ob @ ''_id'') = None" by (simp add: getUpdateMap_key [OF assms(2)])
  note changed = exec_update_rows [OF assms(1,3) nokey upd]
  let ?r2 = "?r ++ rv_touch v d1 ?T ++ (\<lambda>c. map_option (assigned (rv_expr v d1)) (?sets c))"
  have "?r2 (prName p) = Some (fst (prAccess p (if snd (prAccess p e2) then e2 else e)))" if p: "p \<in> set (dbProperties ob)" for p
  proof -
    have "rv_touch v d1 ?T (prName p) = None" using assms(4) p by blast
    then show ?thesis
      using inserted_property [OF assms(2) p, of "rv_default v d ?T" e i] assms(3)
      by (simp add: map_add_def getUpdateMap_property [OF assms(2) p] split: option.split)
  qed
  then show ?thesis using i(1) created changed by (metis (no_types, lifting) option.map(2))
qed

text \<open>
  C7. A created row that is then updated has in each column of its table the new value where the
  update carries one and the created value where it does not, and no other row of any table changes.
\<close>

theorem update_merges_row:
  assumes "row_laws ex v" and "keyed_columns ob" and "rv_key v (dbTableName ob) = dbPrefix ob @ ''_id''"
    and "\<forall>p \<in> set (dbProperties ob). prName p \<notin> dom (rv_touch v d1 (dbTableName ob))"
    and "Create ex setId ob e d = Inr (Inr e1, d1)" and "\<forall>i e. getId (setId i e) = i"
    and "getId e2 = getId e1" and "Update ex getId ob e2 d1 = Inr (None, d2)"
  shows "\<exists>i r. e1 = setId i e \<and> find_row v d2 (dbTableName ob) i = Some r \<and>
      (\<forall>p \<in> set (dbProperties ob).
         r (prName p) = Some (fst (prAccess p (if snd (prAccess p e2) then e2 else e)))) \<and>
      (\<forall>T j. (T, j) \<noteq> (dbTableName ob, i) \<longrightarrow> find_row v d2 T j = find_row v d1 T j)"
  by (rule merged_row [OF assms])

section \<open>A store of rows\<close>

text \<open>
  The laws hold for a store that keeps the rows of a table as a list, numbers them from a counter, and
  keeps the pairs of a link table distinct.
\<close>

record row_store =
  tab_rows :: "string \<Rightarrow> row list"
  tab_next :: id64

definition table_key :: "string \<Rightarrow> string" where
  "table_key T = (case map_of
     [(''Service'', ''service''), (''ComponentVersion'', ''componentversion''), (''ComponentInstance'', ''componentinstance''),
      (''User'', ''user''), (''SupportGroup'', ''supportgroup''), (''IssueRepository'', ''issuerepository''),
      (''IssueVariant'', ''issuevariant''), (''Patch'', ''patch''), (''Remediation'', ''remediation''),
      (''IssueMatch'', ''issuematch''), (''Component'', ''component''), (''Issue'', ''issue'')] T of
     Some p \<Rightarrow> p @ ''_id'' | None \<Rightarrow> ''row_id'')"

text \<open>The columns of a table whose values together identify a row, if it is a link table.\<close>

definition link_columns :: "string \<Rightarrow> string list" where
  "link_columns T = (case map_of
     [(''Owner'', [''owner_service_id'', ''owner_user_id'']),
      (''SupportGroupService'', [''supportgroupservice_service_id'', ''supportgroupservice_support_group_id'']),
      (''SupportGroupUser'', [''supportgroupuser_user_id'', ''supportgroupuser_support_group_id'']),
      (''IssueRepositoryService'', [''issuerepositoryservice_service_id'', ''issuerepositoryservice_issue_repository_id'']),
      (''ComponentVersionIssue'', [''componentversionissue_issue_id'', ''componentversionissue_component_version_id''])] T of
     Some cs \<Rightarrow> cs | None \<Rightarrow> [])"

definition linked_already :: "insert_stmt \<Rightarrow> row list \<Rightarrow> bool" where
  "linked_already stmt rs \<longleftrightarrow> link_columns (ins_table stmt) \<noteq> [] \<and>
     (\<exists>r \<in> set rs. \<forall>c \<in> set (link_columns (ins_table stmt)). r c = map_of (zip (ins_columns stmt) (ins_values stmt)) c)"

definition key_taken :: "string \<Rightarrow> id64 \<Rightarrow> row list \<Rightarrow> bool" where
  "key_taken key i rs \<longleftrightarrow> (\<exists>r \<in> set rs. r key = Some (int_param i))"

definition store_insert :: "insert_stmt \<Rightarrow> row_store \<Rightarrow> (goerr + id64) \<times> row_store" where
  "store_insert stmt d =
     (let T = ins_table stmt; rs = tab_rows d T; key = table_key T; i = tab_next d
      in if linked_already stmt rs \<or> key_taken key i rs then (Inl (ErrVal ''mysql'' ''Error 1062 (23000): Duplicate entry''), d)
         else (Inr i, \<lparr>tab_rows = (tab_rows d)(T := rs @ [inserted_row Map.empty stmt key i]), tab_next = i + 1\<rparr>))"

definition store_update :: "update_stmt \<Rightarrow> row_store \<Rightarrow> goerr option \<times> row_store" where
  "store_update stmt d =
     (None, d\<lparr>tab_rows := (tab_rows d)(upd_table stmt :=
        map (updated_row Map.empty (\<lambda>e. int_param 0) stmt) (tab_rows d (upd_table stmt)))\<rparr>)"

definition store_delete :: "delete_stmt \<Rightarrow> row_store \<Rightarrow> goerr option \<times> row_store" where
  "store_delete stmt d =
     (None, d\<lparr>tab_rows := (tab_rows d)(del_table stmt := filter (\<lambda>r. \<not> del_where stmt \<subseteq>\<^sub>m r) (tab_rows d (del_table stmt)))\<rparr>)"

definition store_exec :: "row_store sql_exec" where
  "store_exec = \<lparr>ex_insert = store_insert, ex_update = store_update, ex_delete = store_delete,
     ex_number = (\<lambda>e. if has_prefix ''Error 1062'' (error_text e) then Some 1062 else None)\<rparr>"

definition store_view :: "row_store row_view" where
  "store_view = \<lparr>rv_rows = tab_rows, rv_key = table_key, rv_default = (\<lambda>d T. Map.empty), rv_touch = (\<lambda>d T. Map.empty),
     rv_expr = (\<lambda>d e. int_param 0)\<rparr>"

lemma store_laws: "row_laws store_exec store_view"
  by (auto simp: row_laws_def store_exec_def store_view_def store_insert_def store_update_def Let_def key_taken_def
      split: if_splits)

lemma tables_keyed:
  "keyed_columns serviceObject" "keyed_columns componentVersionObject" "keyed_columns componentInstanceObject"
  "keyed_columns userObject" "keyed_columns supportGroupObject" "keyed_columns issueRepositoryObject"
  "keyed_columns issueVariantObject" "keyed_columns patchObject" "keyed_columns remediationObject"
  "keyed_columns issueMatchObject" "keyed_columns componentObject" "keyed_columns issueObject"
  by (simp_all add: keyed_columns_def NewProperty_def serviceObject_def serviceProperties_def componentVersionObject_def
      componentVersionProperties_def componentInstanceObject_def componentInstanceProperties_def userObject_def userProperties_def
      supportGroupObject_def supportGroupProperties_def issueRepositoryObject_def issueRepositoryProperties_def
      issueVariantObject_def issueVariantProperties_def patchObject_def remediationObject_def
      remediationProperties_def issueMatchObject_def issueMatchProperties_def componentObject_def componentProperties_def
      issueObject_def issueProperties_def)


definition plain_service :: "string \<Rightarrow> string \<Rightarrow> string \<Rightarrow> id64 \<Rightarrow> id64 \<Rightarrow> Service" where
  "plain_service ccrn domain reg user i =
     \<lparr>svcMeta = zero_metadata\<lparr>CreatedBy := user, UpdatedBy := user\<rparr>, svcId = i, svcCCRN = ccrn, svcDomain = domain, svcRegion = reg,
      svcSupportGroupId = 0, svcOwners = [], svcPriority = 0,
      svcIRS = \<lparr>irsMeta = zero_metadata, irsServiceId = 0, irsIssueRepositoryId = 0, irsPriority = 0\<rparr>\<rparr>"

definition set_service_id :: "id64 \<Rightarrow> Service \<Rightarrow> Service" where "set_service_id i s = s\<lparr>svcId := i\<rparr>"

definition empty_store :: row_store where "empty_store = \<lparr>tab_rows = (\<lambda>T. []), tab_next = 1\<rparr>"

definition stored_service :: "Service \<Rightarrow> row_store" where
  "stored_service s = \<lparr>tab_rows = (tab_rows empty_store)(''Service'' := [inserted_row Map.empty (InsertQuery serviceObject s) ''service_id'' 1]),
     tab_next = 2\<rparr>"

lemma service_key: "table_key ''Service'' = ''service_id''" "link_columns ''Service'' = []"
  by (simp_all add: table_key_def link_columns_def)

lemma create_stored_service:
  "Create store_exec set_service_id serviceObject s empty_store = Inr (Inr (set_service_id 1 s), stored_service s)"
proof -
  have T: "ins_table (InsertQuery serviceObject s) = ''Service''" by (simp add: InsertQuery_def serviceObject_def)
  have "store_insert (InsertQuery serviceObject s) empty_store = (Inr 1, stored_service s)"
    by (simp add: store_insert_def Let_def T linked_already_def key_taken_def empty_store_def service_key stored_service_def)
  then show ?thesis by (simp add: Create_def serviceObject_def store_exec_def)
qed

theorem update_merges_row_witness:
  "\<exists>r d2. Update store_exec svcId serviceObject (plain_service [] [] ''eu'' 7 1) (stored_service (plain_service ''a'' ''b'' ''us'' 5 0)) = Inr (None, d2) \<and>
     find_row store_view d2 ''Service'' 1 = Some r \<and> r ''service_ccrn'' = Some (PVal (StrV ''a'')) \<and>
     r ''service_region'' = Some (PVal (StrV ''eu'')) \<and> r ''service_created_by'' = Some (int_param 5) \<and>
     r ''service_updated_by'' = Some (int_param 7)"
proof -
  let ?e = "plain_service ''a'' ''b'' ''us'' 5 0" and ?e2 = "plain_service [] [] ''eu'' 7 1"
  have names: "dbTableName serviceObject = ''Service''" "dbPrefix serviceObject = ''service''" by (simp_all add: serviceObject_def)
  have "getUpdateMap serviceObject ?e2 ''service_region'' \<noteq> None"
    by (simp add: getUpdateMap_def serviceObject_def serviceProperties_def NewProperty_def GetUpdateData_def GetName_def plain_service_def NoUpdate_def)
  then have some: "(\<lambda>c. map_option SetParam (getUpdateMap serviceObject ?e2 c)) \<noteq> Map.empty" by (metis option.map_disc_iff)
  then obtain d2 where d2: "Update store_exec svcId serviceObject ?e2 (stored_service ?e) = Inr (None, d2)"
    by (simp add: Update_def names exec_update_def update_query_def store_exec_def store_update_def)
  have "\<exists>i r. set_service_id 1 ?e = set_service_id i ?e \<and> find_row store_view d2 (dbTableName serviceObject) i = Some r \<and>
      (\<forall>p \<in> set (dbProperties serviceObject).
         r (prName p) = Some (fst (prAccess p (if snd (prAccess p ?e2) then ?e2 else ?e)))) \<and>
      (\<forall>T j. (T, j) \<noteq> (dbTableName serviceObject, i) \<longrightarrow> find_row store_view d2 T j = find_row store_view (stored_service ?e) T j)"
    by (rule update_merges_row [OF store_laws tables_keyed(1) _ _ create_stored_service _ _ d2])
      (simp_all add: names store_view_def service_key set_service_id_def plain_service_def)
  then obtain i r where r: "set_service_id 1 ?e = set_service_id i ?e" "find_row store_view d2 ''Service'' i = Some r"
      "\<forall>p \<in> set (dbProperties serviceObject). r (prName p) = Some (fst (prAccess p (if snd (prAccess p ?e2) then ?e2 else ?e)))"
    unfolding names by blast
  have "svcId (set_service_id 1 ?e) = svcId (set_service_id i ?e)" using r(1) by simp
  then have "i = 1" by (simp add: set_service_id_def)
  moreover have "r ''service_ccrn'' = Some (PVal (StrV ''a'')) \<and> r ''service_region'' = Some (PVal (StrV ''eu'')) \<and>
      r ''service_created_by'' = Some (int_param 5) \<and> r ''service_updated_by'' = Some (int_param 7)"
    using r(3) by (simp add: serviceObject_def serviceProperties_def NewProperty_def plain_service_def NoUpdate_def int_param_def zero_metadata_def)
  ultimately show ?thesis using d2 r(2) by metis
qed

section \<open>Deleted rows\<close>

text \<open>
  A deletion keeps the row: it sets the time of deletion and the user who deleted it, leaves every
  other column that the server does not set by itself, and changes no other row.
\<close>

theorem Delete_keeps_row:
  assumes "row_laws ex v" and "rv_key v (dbTableName ob) = dbPrefix ob @ ''_id''" and "Delete ex ob i user d = Inr (None, d')"
  shows "find_row v d' (dbTableName ob) i = map_option (\<lambda>r c.
        if c = dbPrefix ob @ ''_deleted_at'' then Some (rv_expr v d ''NOW()'')
        else if c = dbPrefix ob @ ''_updated_by'' then Some (int_param user)
        else (r ++ rv_touch v d (dbTableName ob)) c) (find_row v d (dbTableName ob) i) \<and>
      (\<forall>T j. (T, j) \<noteq> (dbTableName ob, i) \<longrightarrow> find_row v d' T j = find_row v d T j)"
proof -
  let ?sets = "[dbPrefix ob @ ''_deleted_at'' \<mapsto> SetExpr ''NOW()'', dbPrefix ob @ ''_updated_by'' \<mapsto> SetParam (int_param user)]"
  have upd: "exec_update ex (update_query ob ?sets i) d = (None, d')"
    using assms(3) by (auto simp: Delete_def split: if_splits)
  have "?sets (dbPrefix ob @ ''_id'') = None" by simp
  note changed = exec_update_rows [OF assms(1,2) this upd]
  have "(r ++ rv_touch v d (dbTableName ob) ++ (\<lambda>c. map_option (assigned (rv_expr v d)) (?sets c))) =
      (\<lambda>c. if c = dbPrefix ob @ ''_deleted_at'' then Some (rv_expr v d ''NOW()'')
        else if c = dbPrefix ob @ ''_updated_by'' then Some (int_param user)
        else (r ++ rv_touch v d (dbTableName ob)) c)" for r
    by (rule ext) (simp add: map_add_def [of "r ++ rv_touch v d (dbTableName ob)"])
  then show ?thesis using changed by simp
qed

theorem Delete_keeps_row_witness:
  "\<exists>r d'. Delete store_exec serviceObject 1 9 (stored_service (plain_service ''a'' ''b'' ''us'' 5 0)) = Inr (None, d') \<and>
     find_row store_view d' ''Service'' 1 = Some r \<and> r ''service_ccrn'' = Some (PVal (StrV ''a'')) \<and>
     r ''service_updated_by'' = Some (int_param 9) \<and> r ''service_deleted_at'' \<noteq> None"
proof -
  let ?d = "stored_service (plain_service ''a'' ''b'' ''us'' 5 0)"
  have names: "dbTableName serviceObject = ''Service''" "dbPrefix serviceObject = ''service''" by (simp_all add: serviceObject_def)
  obtain d' where d': "Delete store_exec serviceObject 1 9 ?d = Inr (None, d')"
    by (simp add: Delete_def names exec_update_def update_query_def store_exec_def store_update_def)
  obtain r where r: "find_row store_view ?d ''Service'' 1 = Some r" "r ''service_ccrn'' = Some (PVal (StrV ''a''))"
    by (simp add: find_row_def store_view_def stored_service_def service_key inserted_row_def InsertQuery_def serviceObject_def
        serviceProperties_def NewProperty_def GetName_def GetValue_def plain_service_def)
  show ?thesis
    using Delete_keeps_row [OF store_laws _ d'] d' r by (simp add: names store_view_def service_key)
qed

section \<open>Links\<close>

text \<open>A table whose primary key is a pair of ids refuses a second row for it with number 1062 and changes nothing.\<close>

definition unique_link :: "'d sql_exec \<Rightarrow> insert_stmt \<Rightarrow> 'd \<Rightarrow> bool" where
  "unique_link ex stmt d \<longleftrightarrow> (\<exists>e. ex_insert ex stmt d = (Inl e, d) \<and> ex_number ex e = Some ErrCodeDuplicateEntry)"

definition version_link_stmt :: "id64 \<Rightarrow> id64 \<Rightarrow> insert_stmt" where
  "version_link_stmt i v =
     \<lparr>ins_table = ''ComponentVersionIssue'',
      ins_columns = [''componentversionissue_issue_id'', ''componentversionissue_component_version_id''],
      ins_values = [int_param i, int_param v]\<rparr>"

lemma exec_link_existing: "unique_link ex stmt d \<Longrightarrow> exec_link ex stmt d = (None, d)"
  by (auto simp: unique_link_def exec_link_def)

text \<open>
  C15. Adding a component version to an issue that has it already is not reported as a duplicate: the
  statement's refusal counts as success, the event of a new link is pushed again, so its handlers
  run again, and the issue is returned. The handler's answer for duplicates is
  never given.
\<close>

theorem existing_version_announced_again:
  assumes "isdb_add_version db = (\<lambda>d i v. SqlAddComponentVersionToIssue ex i v d)"
    and "unique_link ex (version_link_stmt i v) (as_db s)"
  shows "AddComponentVersionToIssue env db cd i v s =
      wrapH (issue_error ''issueHandler.AddComponentVersionToIssue'' i) (GetIssue env db cd i)
        (s\<lparr>as_events := as_events s @ [AddComponentVersionToIssueEvent i v]\<rparr>)"
  using exec_link_existing [OF assms(2)]
  by (simp add: AddComponentVersionToIssue_def Let_def handler_defs assms(1) SqlAddComponentVersionToIssue_def AssociateId_def
      version_link_stmt_def)

definition linked_store :: row_store where
  "linked_store = \<lparr>tab_rows = (\<lambda>T. if T = ''ComponentVersionIssue''
     then [inserted_row Map.empty (version_link_stmt 1 2) ''row_id'' 1] else []), tab_next = 2\<rparr>"

theorem existing_version_announced_again_witness:
  "\<forall>db cd. AddComponentVersionToIssue example_env (db\<lparr>isdb_add_version := (\<lambda>d i v. SqlAddComponentVersionToIssue store_exec i v d)\<rparr>)
       cd 1 2 (example_app linked_store []) =
     wrapH (issue_error ''issueHandler.AddComponentVersionToIssue'' 1)
       (GetIssue example_env (db\<lparr>isdb_add_version := (\<lambda>d i v. SqlAddComponentVersionToIssue store_exec i v d)\<rparr>) cd 1)
       ((example_app linked_store [])\<lparr>as_events := [AddComponentVersionToIssueEvent 1 2]\<rparr>)"
proof -
  have "store_insert (version_link_stmt 1 2) linked_store = (Inl (ErrVal ''mysql'' ''Error 1062 (23000): Duplicate entry''), linked_store)"
    by (simp add: store_insert_def Let_def linked_already_def link_columns_def version_link_stmt_def linked_store_def inserted_row_def)
  then have "unique_link store_exec (version_link_stmt 1 2) (as_db (example_app linked_store []))"
    by (simp add: unique_link_def store_exec_def has_prefix_def ErrCodeDuplicateEntry_def)
  then show ?thesis by (subst existing_version_announced_again [of _ store_exec 1 2]) simp_all
qed

end
