(* ===== verification/Row_Types.thy ===== *)
theory Row_Types
  imports Sql_Database
begin

text \<open>
  Rows as Go values (\<open>internal/database/mariadb/entity.go\<close>): the row structs, their conversions from
  and to entities, and the functions \<open>RowToData\<close> of the tables, which turn a row of a result into an entity
  and its cursor. A nullable value (\<open>sql.NullString\<close> and the like) is an option. Columns that a query does
  not select are absent from the row; a column holds a value of the type of its field or NULL.
\<close>

section \<open>Nullable values\<close>

fun GetInt64Value :: "int option \<Rightarrow> int" where
  "GetInt64Value (Some n) = n" | "GetInt64Value None = -1"

fun GetBoolValue :: "bool option \<Rightarrow> bool" where
  "GetBoolValue (Some b) = b" | "GetBoolValue None = False"

fun GetInt16Value :: "int option \<Rightarrow> int" where
  "GetInt16Value (Some n) = n" | "GetInt16Value None = -1"

fun GetStringValue :: "string option \<Rightarrow> string" where
  "GetStringValue (Some s) = s" | "GetStringValue None = []"

text \<open>\<open>time.Unix(0, 0)\<close>, in nanoseconds after the zero time.\<close>

definition unix_epoch :: gotime where "unix_epoch = 62135596800 * 10 ^ 9"

fun GetTimeValue :: "gotime option \<Rightarrow> gotime" where
  "GetTimeValue (Some t) = t" | "GetTimeValue None = unix_epoch"

fun GetUserTypeValue :: "int option \<Rightarrow> int" where
  "GetUserTypeValue (Some n) = n" | "GetUserTypeValue None = InvalidUserType"

text \<open>The field \<open>String\<close> of a nullable string, read without looking at \<open>Valid\<close>: empty for NULL.\<close>

definition raw_string :: "string option \<Rightarrow> string" where
  "raw_string s = (case s of None \<Rightarrow> [] | Some x \<Rightarrow> x)"

lemma raw_string_value: "raw_string s = GetStringValue s" by (cases s) (simp_all add: raw_string_def)

definition col_int :: "row \<Rightarrow> string \<Rightarrow> int option" where
  "col_int r c = (case r c of Some (PVal (IntV n)) \<Rightarrow> Some n | _ \<Rightarrow> None)"

definition col_bool :: "row \<Rightarrow> string \<Rightarrow> bool option" where
  "col_bool r c = map_option (\<lambda>n. n \<noteq> 0) (col_int r c)"

definition col_str :: "row \<Rightarrow> string \<Rightarrow> string option" where
  "col_str r c = (case r c of Some (PVal (StrV s)) \<Rightarrow> Some s | _ \<Rightarrow> None)"

definition col_time :: "row \<Rightarrow> string \<Rightarrow> gotime option" where
  "col_time r c = (case r c of Some (PVal (TimeV t)) \<Rightarrow> Some t | _ \<Rightarrow> None)"

text \<open>A JSON column is read as its text.\<close>

definition col_json :: "(json \<Rightarrow> string) \<Rightarrow> row \<Rightarrow> string \<Rightarrow> string option" where
  "col_json txt r c = (case r c of Some (PJson j) \<Rightarrow> Some (txt j) | _ \<Rightarrow> None)"

lemmas column_defs = col_int_def col_bool_def col_str_def col_time_def col_json_def

section \<open>Types of issues and instances\<close>

definition IssueTypeVulnerability :: string where "IssueTypeVulnerability = ''Vulnerability''"
definition IssueTypePolicyViolation :: string where "IssueTypePolicyViolation = ''PolicyViolation''"
definition IssueTypeSecurityEvent :: string where "IssueTypeSecurityEvent = ''SecurityEvent''"

definition NewIssueType :: "string \<Rightarrow> string" where
  "NewIssueType s =
     (if s = IssueTypeVulnerability then IssueTypeVulnerability
      else if s = IssueTypePolicyViolation then IssueTypePolicyViolation
      else if s = IssueTypeSecurityEvent then IssueTypeSecurityEvent
      else IssueTypeVulnerability)"

definition AllComponentInstanceType :: "string list" where
  "AllComponentInstanceType =
     [''Unknown'', ''Project'', ''Server'', ''SecurityGroup'', ''SecurityGroupRule'', ''DnsZone'', ''FloatingIp'', ''RbacPolicy'',
      ''User'', ''Container'', ''RecordSet'', ''ProjectConfiguration'']"

definition NewComponentInstanceType :: "string \<Rightarrow> string" where
  "NewComponentInstanceType s = (if s \<in> set AllComponentInstanceType then s else ''Unknown'')"

section \<open>Counts and aggregations\<close>

record RatingCount =
  RatingCount_Critical :: "int option"
  RatingCount_High :: "int option"
  RatingCount_Medium :: "int option"
  RatingCount_Low :: "int option"
  RatingCount_None :: "int option"

definition scan_RatingCount :: "row \<Rightarrow> RatingCount" where
  "scan_RatingCount r =
    \<lparr>RatingCount_Critical = col_int r ''critical_count'', RatingCount_High = col_int r ''high_count'',
     RatingCount_Medium = col_int r ''medium_count'', RatingCount_Low = col_int r ''low_count'',
     RatingCount_None = col_int r ''none_count''\<rparr>"

definition AsIssueSeverityCounts :: "RatingCount \<Rightarrow> IssueSeverityCounts" where
  "AsIssueSeverityCounts r =
    (let critical = GetInt64Value (RatingCount_Critical r); high = GetInt64Value (RatingCount_High r);
         medium = GetInt64Value (RatingCount_Medium r); low = GetInt64Value (RatingCount_Low r);
         none = GetInt64Value (RatingCount_None r)
     in \<lparr>iscCritical = critical, iscHigh = high, iscMedium = medium, iscLow = low, iscNone = none,
         iscTotal = critical + high + medium + low + none\<rparr>)"

section \<open>Issues\<close>

record IssueRow =
  IssueRow_Id :: "int option"
  IssueRow_Type :: "string option"
  IssueRow_PrimaryName :: "string option"
  IssueRow_Description :: "string option"
  IssueRow_CreatedAt :: "gotime option"
  IssueRow_CreatedBy :: "int option"
  IssueRow_DeletedAt :: "gotime option"
  IssueRow_UpdatedAt :: "gotime option"
  IssueRow_UpdatedBy :: "int option"

definition scan_IssueRow :: "row \<Rightarrow> IssueRow" where
  "scan_IssueRow r =
    \<lparr>IssueRow_Id = col_int r ''issue_id'', IssueRow_Type = col_str r ''issue_type'',
     IssueRow_PrimaryName = col_str r ''issue_primary_name'', IssueRow_Description = col_str r ''issue_description'',
     IssueRow_CreatedAt = col_time r ''issue_created_at'', IssueRow_CreatedBy = col_int r ''issue_created_by'',
     IssueRow_DeletedAt = col_time r ''issue_deleted_at'', IssueRow_UpdatedAt = col_time r ''issue_updated_at'',
     IssueRow_UpdatedBy = col_int r ''issue_updated_by''\<rparr>"

definition AsIssue :: "IssueRow \<Rightarrow> Issue" where
  "AsIssue r =
    \<lparr>isMeta = \<lparr>CreatedAt = GetTimeValue (IssueRow_CreatedAt r), CreatedBy = GetInt64Value (IssueRow_CreatedBy r), UpdatedAt = GetTimeValue (IssueRow_UpdatedAt r), UpdatedBy = GetInt64Value (IssueRow_UpdatedBy r), DeletedAt = GetTimeValue (IssueRow_DeletedAt r)\<rparr>,
     isId = GetInt64Value (IssueRow_Id r), isType = NewIssueType (GetStringValue (IssueRow_Type r)),
     isPrimaryName = GetStringValue (IssueRow_PrimaryName r), isDescription = GetStringValue (IssueRow_Description r)\<rparr>"

definition FromIssue :: "Issue \<Rightarrow> IssueRow" where
  "FromIssue e =
    \<lparr>IssueRow_Id = Some (isId e), IssueRow_Type = Some (isType e), IssueRow_PrimaryName = Some (isPrimaryName e),
     IssueRow_Description = Some (isDescription e), IssueRow_CreatedAt = Some (CreatedAt (isMeta e)),
     IssueRow_CreatedBy = Some (CreatedBy (isMeta e)), IssueRow_DeletedAt = Some (DeletedAt (isMeta e)),
     IssueRow_UpdatedAt = Some (UpdatedAt (isMeta e)), IssueRow_UpdatedBy = Some (UpdatedBy (isMeta e))\<rparr>"

record IssueAggregationsRow =
  IssueAggregationsRow_IssueMatches :: "int option"
  IssueAggregationsRow_AffectedServices :: "int option"
  IssueAggregationsRow_ComponentVersions :: "int option"
  IssueAggregationsRow_AffectedComponentInstances :: "int option"
  IssueAggregationsRow_EarliestTargetRemediationDate :: "gotime option"
  IssueAggregationsRow_EarliestDiscoveryDate :: "gotime option"

definition scan_IssueAggregationsRow :: "row \<Rightarrow> IssueAggregationsRow" where
  "scan_IssueAggregationsRow r =
    \<lparr>IssueAggregationsRow_IssueMatches = col_int r ''agg_issue_matches'',
     IssueAggregationsRow_AffectedServices = col_int r ''agg_affected_services'',
     IssueAggregationsRow_ComponentVersions = col_int r ''agg_component_versions'',
     IssueAggregationsRow_AffectedComponentInstances = col_int r ''agg_affected_component_instances'',
     IssueAggregationsRow_EarliestTargetRemediationDate = col_time r ''agg_earliest_target_remediation_date'',
     IssueAggregationsRow_EarliestDiscoveryDate = col_time r ''agg_earliest_discovery_date''\<rparr>"

record IssueAggregations =
  IssueMatches :: int
  AffectedServices :: int
  AffectedComponentInstances :: int
  ComponentVersions :: int
  EarliestTargetRemediationDate :: gotime
  EarliestDiscoveryDate :: gotime

record GetIssuesByRow =
  GetIssuesByRow_IssueAggregationsRow :: IssueAggregationsRow
  GetIssuesByRow_IssueRow :: IssueRow

definition scan_GetIssuesByRow :: "row \<Rightarrow> GetIssuesByRow" where
  "scan_GetIssuesByRow r =
    \<lparr>GetIssuesByRow_IssueAggregationsRow = scan_IssueAggregationsRow r, GetIssuesByRow_IssueRow = scan_IssueRow r\<rparr>"

definition AsIssueWithAggregations :: "GetIssuesByRow \<Rightarrow> IssueAggregations \<times> Issue" where
  "AsIssueWithAggregations r =
    (let a = GetIssuesByRow_IssueAggregationsRow r
     in (\<lparr>IssueMatches = max 0 (GetInt64Value (IssueAggregationsRow_IssueMatches a)),
          AffectedServices = max 0 (GetInt64Value (IssueAggregationsRow_AffectedServices a)),
          AffectedComponentInstances = max 0 (GetInt64Value (IssueAggregationsRow_AffectedComponentInstances a)),
          ComponentVersions = max 0 (GetInt64Value (IssueAggregationsRow_ComponentVersions a)),
          EarliestTargetRemediationDate = GetTimeValue (IssueAggregationsRow_EarliestTargetRemediationDate a),
          EarliestDiscoveryDate = GetTimeValue (IssueAggregationsRow_EarliestDiscoveryDate a)\<rparr>,
         AsIssue (GetIssuesByRow_IssueRow r)))"

section \<open>Issue matches\<close>

record IssueMatchRow =
  IssueMatchRow_Id :: "int option"
  IssueMatchRow_Status :: "string option"
  IssueMatchRow_Vector :: "string option"
  IssueMatchRow_Rating :: "string option"
  IssueMatchRow_UserId :: "int option"
  IssueMatchRow_ComponentInstanceId :: "int option"
  IssueMatchRow_IssueId :: "int option"
  IssueMatchRow_RemediationDate :: "gotime option"
  IssueMatchRow_TargetRemediationDate :: "gotime option"
  IssueMatchRow_CreatedAt :: "gotime option"
  IssueMatchRow_CreatedBy :: "int option"
  IssueMatchRow_DeletedAt :: "gotime option"
  IssueMatchRow_UpdatedAt :: "gotime option"
  IssueMatchRow_UpdatedBy :: "int option"

definition scan_IssueMatchRow :: "row \<Rightarrow> IssueMatchRow" where
  "scan_IssueMatchRow r =
    \<lparr>IssueMatchRow_Id = col_int r ''issuematch_id'', IssueMatchRow_Status = col_str r ''issuematch_status'',
     IssueMatchRow_Vector = col_str r ''issuematch_vector'', IssueMatchRow_Rating = col_str r ''issuematch_rating'',
     IssueMatchRow_UserId = col_int r ''issuematch_user_id'',
     IssueMatchRow_ComponentInstanceId = col_int r ''issuematch_component_instance_id'',
     IssueMatchRow_IssueId = col_int r ''issuematch_issue_id'',
     IssueMatchRow_RemediationDate = col_time r ''issuematch_remediation_date'',
     IssueMatchRow_TargetRemediationDate = col_time r ''issuematch_target_remediation_date'',
     IssueMatchRow_CreatedAt = col_time r ''issuematch_created_at'',
     IssueMatchRow_CreatedBy = col_int r ''issuematch_created_by'',
     IssueMatchRow_DeletedAt = col_time r ''issuematch_deleted_at'',
     IssueMatchRow_UpdatedAt = col_time r ''issuematch_updated_at'',
     IssueMatchRow_UpdatedBy = col_int r ''issuematch_updated_by''\<rparr>"

text \<open>The severity of a row: from its rating when it has no vector.\<close>

definition row_severity :: "(string \<Rightarrow> (string \<times> rat \<times> cvss_version) option) \<Rightarrow> string option \<Rightarrow> string option \<Rightarrow> severity" where
  "row_severity cvss vector rating =
     (if raw_string vector = [] then NewSeverityFromRating (raw_string rating) else NewSeverity cvss (GetStringValue vector))"

definition AsIssueMatch :: "(string \<Rightarrow> (string \<times> rat \<times> cvss_version) option) \<Rightarrow> IssueMatchRow \<Rightarrow> IssueMatch" where
  "AsIssueMatch cvss r =
    \<lparr>imMeta = \<lparr>CreatedAt = GetTimeValue (IssueMatchRow_CreatedAt r), CreatedBy = GetInt64Value (IssueMatchRow_CreatedBy r), UpdatedAt = GetTimeValue (IssueMatchRow_UpdatedAt r), UpdatedBy = GetInt64Value (IssueMatchRow_UpdatedBy r), DeletedAt = GetTimeValue (IssueMatchRow_DeletedAt r)\<rparr>,
     imId = GetInt64Value (IssueMatchRow_Id r),
     imStatus = NewIssueMatchStatusValue (GetStringValue (IssueMatchRow_Status r)),
     imUserId = GetInt64Value (IssueMatchRow_UserId r),
     imSeverity = row_severity cvss (IssueMatchRow_Vector r) (IssueMatchRow_Rating r), imComponentInstance = None,
     imComponentInstanceId = GetInt64Value (IssueMatchRow_ComponentInstanceId r), imIssue = None,
     imIssueId = GetInt64Value (IssueMatchRow_IssueId r),
     imRemediationDate = GetTimeValue (IssueMatchRow_RemediationDate r),
     imTargetRemediationDate = GetTimeValue (IssueMatchRow_TargetRemediationDate r)\<rparr>"

definition FromIssueMatch :: "IssueMatch \<Rightarrow> IssueMatchRow" where
  "FromIssueMatch e =
    \<lparr>IssueMatchRow_Id = Some (imId e), IssueMatchRow_Status = Some (imStatus e),
     IssueMatchRow_Vector = Some (sevVector (imSeverity e)), IssueMatchRow_Rating = Some (sevValue (imSeverity e)),
     IssueMatchRow_UserId = Some (imUserId e), IssueMatchRow_ComponentInstanceId = Some (imComponentInstanceId e),
     IssueMatchRow_IssueId = Some (imIssueId e), IssueMatchRow_RemediationDate = Some (imRemediationDate e),
     IssueMatchRow_TargetRemediationDate = Some (imTargetRemediationDate e),
     IssueMatchRow_CreatedAt = Some (CreatedAt (imMeta e)), IssueMatchRow_CreatedBy = Some (CreatedBy (imMeta e)),
     IssueMatchRow_DeletedAt = Some (DeletedAt (imMeta e)), IssueMatchRow_UpdatedAt = Some (UpdatedAt (imMeta e)),
     IssueMatchRow_UpdatedBy = Some (UpdatedBy (imMeta e))\<rparr>"

section \<open>Issue repositories and variants\<close>

record BaseIssueRepositoryRow =
  BaseIssueRepositoryRow_Id :: "int option"
  BaseIssueRepositoryRow_Name :: "string option"
  BaseIssueRepositoryRow_Url :: "string option"
  BaseIssueRepositoryRow_CreatedAt :: "gotime option"
  BaseIssueRepositoryRow_CreatedBy :: "int option"
  BaseIssueRepositoryRow_DeletedAt :: "gotime option"
  BaseIssueRepositoryRow_UpdatedAt :: "gotime option"
  BaseIssueRepositoryRow_UpdatedBy :: "int option"

definition scan_BaseIssueRepositoryRow :: "row \<Rightarrow> BaseIssueRepositoryRow" where
  "scan_BaseIssueRepositoryRow r =
    \<lparr>BaseIssueRepositoryRow_Id = col_int r ''issuerepository_id'',
     BaseIssueRepositoryRow_Name = col_str r ''issuerepository_name'',
     BaseIssueRepositoryRow_Url = col_str r ''issuerepository_url'',
     BaseIssueRepositoryRow_CreatedAt = col_time r ''issuerepository_created_at'',
     BaseIssueRepositoryRow_CreatedBy = col_int r ''issuerepository_created_by'',
     BaseIssueRepositoryRow_DeletedAt = col_time r ''issuerepository_deleted_at'',
     BaseIssueRepositoryRow_UpdatedAt = col_time r ''issuerepository_updated_at'',
     BaseIssueRepositoryRow_UpdatedBy = col_int r ''issuerepository_updated_by''\<rparr>"

record IssueRepositoryServiceRow =
  IssueRepositoryServiceRow_IssueRepositoryId :: "int option"
  IssueRepositoryServiceRow_ServiceId :: "int option"
  IssueRepositoryServiceRow_Priority :: "int option"
  IssueRepositoryServiceRow_CreatedAt :: "gotime option"
  IssueRepositoryServiceRow_DeletedAt :: "gotime option"
  IssueRepositoryServiceRow_UpdatedAt :: "gotime option"

definition scan_IssueRepositoryServiceRow :: "row \<Rightarrow> IssueRepositoryServiceRow" where
  "scan_IssueRepositoryServiceRow r =
    \<lparr>IssueRepositoryServiceRow_IssueRepositoryId = col_int r ''issuerepositoryservice_issue_repository_id'',
     IssueRepositoryServiceRow_ServiceId = col_int r ''issuerepositoryservice_service_id'',
     IssueRepositoryServiceRow_Priority = col_int r ''issuerepositoryservice_priority'',
     IssueRepositoryServiceRow_CreatedAt = col_time r ''issuerepositoryservice_created_at'',
     IssueRepositoryServiceRow_DeletedAt = col_time r ''issuerepositoryservice_deleted_at'',
     IssueRepositoryServiceRow_UpdatedAt = col_time r ''issuerepositoryservice_updated_at''\<rparr>"

record IssueRepositoryRow =
  IssueRepositoryRow_BaseIssueRepositoryRow :: BaseIssueRepositoryRow
  IssueRepositoryRow_IssueRepositoryServiceRow :: IssueRepositoryServiceRow

definition scan_IssueRepositoryRow :: "row \<Rightarrow> IssueRepositoryRow" where
  "scan_IssueRepositoryRow r =
    \<lparr>IssueRepositoryRow_BaseIssueRepositoryRow = scan_BaseIssueRepositoryRow r,
     IssueRepositoryRow_IssueRepositoryServiceRow = scan_IssueRepositoryServiceRow r\<rparr>"

definition no_irs :: IssueRepositoryService where
  "no_irs = \<lparr>irsMeta = zero_metadata, irsServiceId = 0, irsIssueRepositoryId = 0, irsPriority = 0\<rparr>"

definition row_irs :: "IssueRepositoryServiceRow \<Rightarrow> IssueRepositoryService" where
  "row_irs r =
    \<lparr>irsMeta = zero_metadata, irsServiceId = GetInt64Value (IssueRepositoryServiceRow_ServiceId r),
     irsIssueRepositoryId = GetInt64Value (IssueRepositoryServiceRow_IssueRepositoryId r),
     irsPriority = GetInt64Value (IssueRepositoryServiceRow_Priority r)\<rparr>"

definition AsBaseIssueRepository :: "BaseIssueRepositoryRow \<Rightarrow> IssueRepository" where
  "AsBaseIssueRepository r =
    \<lparr>irMeta = \<lparr>CreatedAt = GetTimeValue (BaseIssueRepositoryRow_CreatedAt r), CreatedBy = GetInt64Value (BaseIssueRepositoryRow_CreatedBy r), UpdatedAt = GetTimeValue (BaseIssueRepositoryRow_UpdatedAt r), UpdatedBy = GetInt64Value (BaseIssueRepositoryRow_UpdatedBy r), DeletedAt = GetTimeValue (BaseIssueRepositoryRow_DeletedAt r)\<rparr>,
     irId = GetInt64Value (BaseIssueRepositoryRow_Id r), irName = GetStringValue (BaseIssueRepositoryRow_Name r),
     irUrl = GetStringValue (BaseIssueRepositoryRow_Url r), irIRS = no_irs\<rparr>"

definition AsIssueRepository :: "IssueRepositoryRow \<Rightarrow> IssueRepository" where
  "AsIssueRepository r =
    (AsBaseIssueRepository (IssueRepositoryRow_BaseIssueRepositoryRow r))
      \<lparr>irIRS := row_irs (IssueRepositoryRow_IssueRepositoryServiceRow r)\<rparr>"

definition FromIssueRepository :: "IssueRepository \<Rightarrow> IssueRepositoryRow" where
  "FromIssueRepository e =
    \<lparr>IssueRepositoryRow_BaseIssueRepositoryRow =
       \<lparr>BaseIssueRepositoryRow_Id = Some (irId e), BaseIssueRepositoryRow_Name = Some (irName e),
        BaseIssueRepositoryRow_Url = Some (irUrl e), BaseIssueRepositoryRow_CreatedAt = Some (CreatedAt (irMeta e)),
        BaseIssueRepositoryRow_CreatedBy = Some (CreatedBy (irMeta e)), BaseIssueRepositoryRow_DeletedAt = Some (DeletedAt (irMeta e)),
        BaseIssueRepositoryRow_UpdatedAt = Some (UpdatedAt (irMeta e)), BaseIssueRepositoryRow_UpdatedBy = Some (UpdatedBy (irMeta e))\<rparr>,
     IssueRepositoryRow_IssueRepositoryServiceRow =
       \<lparr>IssueRepositoryServiceRow_IssueRepositoryId = Some (irsIssueRepositoryId (irIRS e)),
        IssueRepositoryServiceRow_ServiceId = Some (irsServiceId (irIRS e)), IssueRepositoryServiceRow_Priority = Some (irsPriority (irIRS e)),
        IssueRepositoryServiceRow_CreatedAt = None, IssueRepositoryServiceRow_DeletedAt = None, IssueRepositoryServiceRow_UpdatedAt = None\<rparr>\<rparr>"

record IssueVariantRow =
  IssueVariantRow_Id :: "int option"
  IssueVariantRow_IssueId :: "int option"
  IssueVariantRow_IssueRepositoryId :: "int option"
  IssueVariantRow_SecondaryName :: "string option"
  IssueVariantRow_Vector :: "string option"
  IssueVariantRow_Rating :: "string option"
  IssueVariantRow_RatingNumerical :: "int option"
  IssueVariantRow_EarliestTargetRemediation :: "gotime option"
  IssueVariantRow_Description :: "string option"
  IssueVariantRow_ExternalUrl :: "string option"
  IssueVariantRow_CreatedAt :: "gotime option"
  IssueVariantRow_CreatedBy :: "int option"
  IssueVariantRow_DeletedAt :: "gotime option"
  IssueVariantRow_UpdatedAt :: "gotime option"
  IssueVariantRow_UpdatedBy :: "int option"

definition scan_IssueVariantRow :: "row \<Rightarrow> IssueVariantRow" where
  "scan_IssueVariantRow r =
    \<lparr>IssueVariantRow_Id = col_int r ''issuevariant_id'',
     IssueVariantRow_IssueId = col_int r ''issuevariant_issue_id'',
     IssueVariantRow_IssueRepositoryId = col_int r ''issuevariant_repository_id'',
     IssueVariantRow_SecondaryName = col_str r ''issuevariant_secondary_name'',
     IssueVariantRow_Vector = col_str r ''issuevariant_vector'',
     IssueVariantRow_Rating = col_str r ''issuevariant_rating'',
     IssueVariantRow_RatingNumerical = col_int r ''issuevariant_rating_num'',
     IssueVariantRow_EarliestTargetRemediation = col_time r ''issue_earliest_target_remediation_date'',
     IssueVariantRow_Description = col_str r ''issuevariant_description'',
     IssueVariantRow_ExternalUrl = col_str r ''issuevariant_external_url'',
     IssueVariantRow_CreatedAt = col_time r ''issuevariant_created_at'',
     IssueVariantRow_CreatedBy = col_int r ''issuevariant_created_by'',
     IssueVariantRow_DeletedAt = col_time r ''issuevariant_deleted_at'',
     IssueVariantRow_UpdatedAt = col_time r ''issuevariant_updated_at'',
     IssueVariantRow_UpdatedBy = col_int r ''issuevariant_updated_by''\<rparr>"

definition no_repository :: IssueRepository where
  "no_repository = \<lparr>irMeta = zero_metadata, irId = 0, irName = [], irUrl = [], irIRS = no_irs\<rparr>"

definition AsIssueVariant :: "(string \<Rightarrow> (string \<times> rat \<times> cvss_version) option) \<Rightarrow> IssueVariantRow \<Rightarrow> IssueVariant" where
  "AsIssueVariant cvss r =
    \<lparr>ivMeta = \<lparr>CreatedAt = GetTimeValue (IssueVariantRow_CreatedAt r), CreatedBy = GetInt64Value (IssueVariantRow_CreatedBy r), UpdatedAt = GetTimeValue (IssueVariantRow_UpdatedAt r), UpdatedBy = GetInt64Value (IssueVariantRow_UpdatedBy r), DeletedAt = GetTimeValue (IssueVariantRow_DeletedAt r)\<rparr>,
     ivId = GetInt64Value (IssueVariantRow_Id r),
     ivIssueRepositoryId = GetInt64Value (IssueVariantRow_IssueRepositoryId r), ivIssueRepository = Some no_repository,
     ivSecondaryName = GetStringValue (IssueVariantRow_SecondaryName r),
     ivIssueId = GetInt64Value (IssueVariantRow_IssueId r), ivIssue = None,
     ivSeverity = row_severity cvss (IssueVariantRow_Vector r) (IssueVariantRow_Rating r),
     ivDescription = GetStringValue (IssueVariantRow_Description r),
     ivExternalUrl = GetStringValue (IssueVariantRow_ExternalUrl r)\<rparr>"

definition FromIssueVariant :: "IssueVariant \<Rightarrow> IssueVariantRow" where
  "FromIssueVariant e =
    \<lparr>IssueVariantRow_Id = Some (ivId e), IssueVariantRow_IssueId = Some (ivIssueId e),
     IssueVariantRow_IssueRepositoryId = Some (ivIssueRepositoryId e),
     IssueVariantRow_SecondaryName = Some (ivSecondaryName e), IssueVariantRow_Vector = Some (sevVector (ivSeverity e)),
     IssueVariantRow_Rating = Some (sevValue (ivSeverity e)), IssueVariantRow_RatingNumerical = None,
     IssueVariantRow_EarliestTargetRemediation = None, IssueVariantRow_Description = Some (ivDescription e),
     IssueVariantRow_ExternalUrl = Some (ivExternalUrl e), IssueVariantRow_CreatedAt = Some (CreatedAt (ivMeta e)),
     IssueVariantRow_CreatedBy = Some (CreatedBy (ivMeta e)), IssueVariantRow_DeletedAt = Some (DeletedAt (ivMeta e)),
     IssueVariantRow_UpdatedAt = Some (UpdatedAt (ivMeta e)), IssueVariantRow_UpdatedBy = Some (UpdatedBy (ivMeta e))\<rparr>"

record IssueVariantWithRepository =
  IssueVariantWithRepository_IssueRepositoryRow :: IssueRepositoryRow
  IssueVariantWithRepository_IssueVariantRow :: IssueVariantRow

definition scan_IssueVariantWithRepository :: "row \<Rightarrow> IssueVariantWithRepository" where
  "scan_IssueVariantWithRepository r =
    \<lparr>IssueVariantWithRepository_IssueRepositoryRow = scan_IssueRepositoryRow r,
     IssueVariantWithRepository_IssueVariantRow = scan_IssueVariantRow r\<rparr>"

definition AsIssueVariantEntry :: "(string \<Rightarrow> (string \<times> rat \<times> cvss_version) option) \<Rightarrow> IssueVariantWithRepository \<Rightarrow> IssueVariant" where
  "AsIssueVariantEntry cvss r =
    (AsIssueVariant cvss (IssueVariantWithRepository_IssueVariantRow r))
      \<lparr>ivIssueRepository := Some (AsIssueRepository (IssueVariantWithRepository_IssueRepositoryRow r))\<rparr>"

record ServiceIssueVariantRow =
  ServiceIssueVariantRow_IssueRepositoryRow :: IssueRepositoryRow
  ServiceIssueVariantRow_IssueVariantRow :: IssueVariantRow

definition scan_ServiceIssueVariantRow :: "row \<Rightarrow> ServiceIssueVariantRow" where
  "scan_ServiceIssueVariantRow r =
    \<lparr>ServiceIssueVariantRow_IssueRepositoryRow = scan_IssueRepositoryRow r,
     ServiceIssueVariantRow_IssueVariantRow = scan_IssueVariantRow r\<rparr>"

text \<open>The id of the repository is that of the service's link, the external URL is left out.\<close>

definition AsServiceIssueVariantEntry :: "(string \<Rightarrow> (string \<times> rat \<times> cvss_version) option) \<Rightarrow> ServiceIssueVariantRow \<Rightarrow> ServiceIssueVariant" where
  "AsServiceIssueVariantEntry cvss r =
    (let irr = ServiceIssueVariantRow_IssueRepositoryRow r; link = IssueRepositoryRow_IssueRepositoryServiceRow irr
     in \<lparr>sivVariant = (AsIssueVariant cvss (ServiceIssueVariantRow_IssueVariantRow r))
            \<lparr>ivIssueRepositoryId := GetInt64Value (IssueRepositoryServiceRow_IssueRepositoryId link),
             ivIssueRepository := Some (AsIssueRepository irr), ivExternalUrl := []\<rparr>,
         sivServiceId = GetInt64Value (IssueRepositoryServiceRow_ServiceId link),
         sivPriority = GetInt64Value (IssueRepositoryServiceRow_Priority link)\<rparr>)"

section \<open>Components, versions and instances\<close>

record ComponentRow =
  ComponentRow_Id :: "int option"
  ComponentRow_CCRN :: "string option"
  ComponentRow_Repository :: "string option"
  ComponentRow_Organization :: "string option"
  ComponentRow_Url :: "string option"
  ComponentRow_Type :: "string option"
  ComponentRow_CreatedAt :: "gotime option"
  ComponentRow_CreatedBy :: "int option"
  ComponentRow_DeletedAt :: "gotime option"
  ComponentRow_UpdatedAt :: "gotime option"
  ComponentRow_UpdatedBy :: "int option"

definition scan_ComponentRow :: "row \<Rightarrow> ComponentRow" where
  "scan_ComponentRow r =
    \<lparr>ComponentRow_Id = col_int r ''component_id'', ComponentRow_CCRN = col_str r ''component_ccrn'',
     ComponentRow_Repository = col_str r ''component_repository'',
     ComponentRow_Organization = col_str r ''component_organization'', ComponentRow_Url = col_str r ''component_url'',
     ComponentRow_Type = col_str r ''component_type'', ComponentRow_CreatedAt = col_time r ''component_created_at'',
     ComponentRow_CreatedBy = col_int r ''component_created_by'',
     ComponentRow_DeletedAt = col_time r ''component_deleted_at'',
     ComponentRow_UpdatedAt = col_time r ''component_updated_at'',
     ComponentRow_UpdatedBy = col_int r ''component_updated_by''\<rparr>"

definition AsComponent :: "ComponentRow \<Rightarrow> Component" where
  "AsComponent r =
    \<lparr>compMeta = \<lparr>CreatedAt = GetTimeValue (ComponentRow_CreatedAt r), CreatedBy = GetInt64Value (ComponentRow_CreatedBy r), UpdatedAt = GetTimeValue (ComponentRow_UpdatedAt r), UpdatedBy = GetInt64Value (ComponentRow_UpdatedBy r), DeletedAt = GetTimeValue (ComponentRow_DeletedAt r)\<rparr>,
     compId = GetInt64Value (ComponentRow_Id r), compCCRN = GetStringValue (ComponentRow_CCRN r),
     compType = GetStringValue (ComponentRow_Type r), compRepository = GetStringValue (ComponentRow_Repository r),
     compOrganization = GetStringValue (ComponentRow_Organization r), compUrl = GetStringValue (ComponentRow_Url r)\<rparr>"

definition FromComponent :: "Component \<Rightarrow> ComponentRow" where
  "FromComponent e =
    \<lparr>ComponentRow_Id = Some (compId e), ComponentRow_CCRN = Some (compCCRN e),
     ComponentRow_Repository = Some (compRepository e), ComponentRow_Organization = Some (compOrganization e),
     ComponentRow_Url = Some (compUrl e), ComponentRow_Type = Some (compType e),
     ComponentRow_CreatedAt = Some (CreatedAt (compMeta e)), ComponentRow_CreatedBy = Some (CreatedBy (compMeta e)),
     ComponentRow_DeletedAt = Some (DeletedAt (compMeta e)), ComponentRow_UpdatedAt = Some (UpdatedAt (compMeta e)),
     ComponentRow_UpdatedBy = Some (UpdatedBy (compMeta e))\<rparr>"

record ComponentVersionRow =
  ComponentVersionRow_Id :: "int option"
  ComponentVersionRow_Version :: "string option"
  ComponentVersionRow_Tag :: "string option"
  ComponentVersionRow_Repository :: "string option"
  ComponentVersionRow_Organization :: "string option"
  ComponentVersionRow_ComponentId :: "int option"
  ComponentVersionRow_CreatedAt :: "gotime option"
  ComponentVersionRow_CreatedBy :: "int option"
  ComponentVersionRow_DeletedAt :: "gotime option"
  ComponentVersionRow_UpdatedAt :: "gotime option"
  ComponentVersionRow_UpdatedBy :: "int option"
  ComponentVersionRow_EndOfLife :: "bool option"

definition scan_ComponentVersionRow :: "row \<Rightarrow> ComponentVersionRow" where
  "scan_ComponentVersionRow r =
    \<lparr>ComponentVersionRow_Id = col_int r ''componentversion_id'',
     ComponentVersionRow_Version = col_str r ''componentversion_version'',
     ComponentVersionRow_Tag = col_str r ''componentversion_tag'',
     ComponentVersionRow_Repository = col_str r ''componentversion_repository'',
     ComponentVersionRow_Organization = col_str r ''componentversion_organization'',
     ComponentVersionRow_ComponentId = col_int r ''componentversion_component_id'',
     ComponentVersionRow_CreatedAt = col_time r ''componentversion_created_at'',
     ComponentVersionRow_CreatedBy = col_int r ''componentversion_created_by'',
     ComponentVersionRow_DeletedAt = col_time r ''componentversion_deleted_at'',
     ComponentVersionRow_UpdatedAt = col_time r ''componentversion_updated_at'',
     ComponentVersionRow_UpdatedBy = col_int r ''componentversion_updated_by'',
     ComponentVersionRow_EndOfLife = col_bool r ''componentversion_end_of_life''\<rparr>"

definition AsComponentVersion :: "ComponentVersionRow \<Rightarrow> ComponentVersion" where
  "AsComponentVersion r =
    \<lparr>cvMeta = \<lparr>CreatedAt = GetTimeValue (ComponentVersionRow_CreatedAt r), CreatedBy = GetInt64Value (ComponentVersionRow_CreatedBy r), UpdatedAt = GetTimeValue (ComponentVersionRow_UpdatedAt r), UpdatedBy = GetInt64Value (ComponentVersionRow_UpdatedBy r), DeletedAt = GetTimeValue (ComponentVersionRow_DeletedAt r)\<rparr>,
     cvId = GetInt64Value (ComponentVersionRow_Id r), cvVersion = GetStringValue (ComponentVersionRow_Version r),
     cvComponentId = GetInt64Value (ComponentVersionRow_ComponentId r),
     cvTag = GetStringValue (ComponentVersionRow_Tag r),
     cvRepository = GetStringValue (ComponentVersionRow_Repository r),
     cvOrganization = GetStringValue (ComponentVersionRow_Organization r),
     cvEndOfLife = Some (GetBoolValue (ComponentVersionRow_EndOfLife r))\<rparr>"

definition FromComponentVersion :: "ComponentVersion \<Rightarrow> ComponentVersionRow" where
  "FromComponentVersion e =
    \<lparr>ComponentVersionRow_Id = Some (cvId e), ComponentVersionRow_Version = Some (cvVersion e),
     ComponentVersionRow_Tag = Some (cvTag e), ComponentVersionRow_Repository = Some (cvRepository e),
     ComponentVersionRow_Organization = Some (cvOrganization e),
     ComponentVersionRow_ComponentId = Some (cvComponentId e),
     ComponentVersionRow_CreatedAt = Some (CreatedAt (cvMeta e)),
     ComponentVersionRow_CreatedBy = Some (CreatedBy (cvMeta e)),
     ComponentVersionRow_DeletedAt = Some (DeletedAt (cvMeta e)),
     ComponentVersionRow_UpdatedAt = Some (UpdatedAt (cvMeta e)),
     ComponentVersionRow_UpdatedBy = Some (UpdatedBy (cvMeta e)),
     ComponentVersionRow_EndOfLife = Some (case cvEndOfLife e of None \<Rightarrow> False | Some b \<Rightarrow> b)\<rparr>"

record ComponentInstanceRow =
  ComponentInstanceRow_Id :: "int option"
  ComponentInstanceRow_CCRN :: "string option"
  ComponentInstanceRow_Region :: "string option"
  ComponentInstanceRow_Cluster :: "string option"
  ComponentInstanceRow_Namespace :: "string option"
  ComponentInstanceRow_Domain :: "string option"
  ComponentInstanceRow_Project :: "string option"
  ComponentInstanceRow_Pod :: "string option"
  ComponentInstanceRow_Container :: "string option"
  ComponentInstanceRow_Type :: "string option"
  ComponentInstanceRow_ParentId :: "int option"
  ComponentInstanceRow_Context :: "string option"
  ComponentInstanceRow_Count :: "int option"
  ComponentInstanceRow_ComponentVersionId :: "int option"
  ComponentInstanceRow_ServiceId :: "int option"
  ComponentInstanceRow_CreatedAt :: "gotime option"
  ComponentInstanceRow_CreatedBy :: "int option"
  ComponentInstanceRow_DeletedAt :: "gotime option"
  ComponentInstanceRow_UpdatedAt :: "gotime option"
  ComponentInstanceRow_UpdatedBy :: "int option"

definition scan_ComponentInstanceRow :: "(json \<Rightarrow> string) \<Rightarrow> row \<Rightarrow> ComponentInstanceRow" where
  "scan_ComponentInstanceRow txt r =
    \<lparr>ComponentInstanceRow_Id = col_int r ''componentinstance_id'',
     ComponentInstanceRow_CCRN = col_str r ''componentinstance_ccrn'',
     ComponentInstanceRow_Region = col_str r ''componentinstance_region'',
     ComponentInstanceRow_Cluster = col_str r ''componentinstance_cluster'',
     ComponentInstanceRow_Namespace = col_str r ''componentinstance_namespace'',
     ComponentInstanceRow_Domain = col_str r ''componentinstance_domain'',
     ComponentInstanceRow_Project = col_str r ''componentinstance_project'',
     ComponentInstanceRow_Pod = col_str r ''componentinstance_pod'',
     ComponentInstanceRow_Container = col_str r ''componentinstance_container'',
     ComponentInstanceRow_Type = col_str r ''componentinstance_type'',
     ComponentInstanceRow_ParentId = col_int r ''componentinstance_parent_id'',
     ComponentInstanceRow_Context = col_json txt r ''componentinstance_context'',
     ComponentInstanceRow_Count = col_int r ''componentinstance_count'',
     ComponentInstanceRow_ComponentVersionId = col_int r ''componentinstance_component_version_id'',
     ComponentInstanceRow_ServiceId = col_int r ''componentinstance_service_id'',
     ComponentInstanceRow_CreatedAt = col_time r ''componentinstance_created_at'',
     ComponentInstanceRow_CreatedBy = col_int r ''componentinstance_created_by'',
     ComponentInstanceRow_DeletedAt = col_time r ''componentinstance_deleted_at'',
     ComponentInstanceRow_UpdatedAt = col_time r ''componentinstance_updated_at'',
     ComponentInstanceRow_UpdatedBy = col_int r ''componentinstance_updated_by''\<rparr>"

definition AsComponentInstance :: "(string \<Rightarrow> json option) \<Rightarrow> ComponentInstanceRow \<Rightarrow> ComponentInstance" where
  "AsComponentInstance unjson r =
    \<lparr>ciMeta = \<lparr>CreatedAt = GetTimeValue (ComponentInstanceRow_CreatedAt r), CreatedBy = GetInt64Value (ComponentInstanceRow_CreatedBy r), UpdatedAt = GetTimeValue (ComponentInstanceRow_UpdatedAt r), UpdatedBy = GetInt64Value (ComponentInstanceRow_UpdatedBy r), DeletedAt = GetTimeValue (ComponentInstanceRow_DeletedAt r)\<rparr>,
     ciId = GetInt64Value (ComponentInstanceRow_Id r), ciCCRN = GetStringValue (ComponentInstanceRow_CCRN r),
     ciRegion = GetStringValue (ComponentInstanceRow_Region r),
     ciCluster = GetStringValue (ComponentInstanceRow_Cluster r),
     ciNamespace = GetStringValue (ComponentInstanceRow_Namespace r),
     ciDomain = GetStringValue (ComponentInstanceRow_Domain r),
     ciProject = GetStringValue (ComponentInstanceRow_Project r), ciPod = GetStringValue (ComponentInstanceRow_Pod r),
     ciContainer = GetStringValue (ComponentInstanceRow_Container r),
     ciType = NewComponentInstanceType (GetStringValue (ComponentInstanceRow_Type r)),
     ciParentId = GetInt64Value (ComponentInstanceRow_ParentId r),
     ciContext = unjson (raw_string (ComponentInstanceRow_Context r)),
     ciCount = GetInt16Value (ComponentInstanceRow_Count r),
     ciComponentVersionId = GetInt64Value (ComponentInstanceRow_ComponentVersionId r),
     ciServiceId = GetInt64Value (ComponentInstanceRow_ServiceId r)\<rparr>"

definition FromComponentInstance :: "(json \<Rightarrow> string) \<Rightarrow> ComponentInstance \<Rightarrow> ComponentInstanceRow" where
  "FromComponentInstance txt e =
    \<lparr>ComponentInstanceRow_Id = Some (ciId e), ComponentInstanceRow_CCRN = Some (ciCCRN e),
     ComponentInstanceRow_Region = Some (ciRegion e), ComponentInstanceRow_Cluster = Some (ciCluster e),
     ComponentInstanceRow_Namespace = Some (ciNamespace e), ComponentInstanceRow_Domain = Some (ciDomain e),
     ComponentInstanceRow_Project = Some (ciProject e), ComponentInstanceRow_Pod = Some (ciPod e),
     ComponentInstanceRow_Container = Some (ciContainer e), ComponentInstanceRow_Type = Some (ciType e),
     ComponentInstanceRow_ParentId = (if ciParentId e > 0 then Some (ciParentId e) else None),
     ComponentInstanceRow_Context = Some (case ciContext e of None \<Rightarrow> [] | Some j \<Rightarrow> txt j),
     ComponentInstanceRow_Count = Some (ciCount e),
     ComponentInstanceRow_ComponentVersionId = (if ciComponentVersionId e > 0 then Some (ciComponentVersionId e) else None),
     ComponentInstanceRow_ServiceId = Some (ciServiceId e),
     ComponentInstanceRow_CreatedAt = Some (CreatedAt (ciMeta e)),
     ComponentInstanceRow_CreatedBy = Some (CreatedBy (ciMeta e)),
     ComponentInstanceRow_DeletedAt = Some (DeletedAt (ciMeta e)),
     ComponentInstanceRow_UpdatedAt = Some (UpdatedAt (ciMeta e)),
     ComponentInstanceRow_UpdatedBy = Some (UpdatedBy (ciMeta e))\<rparr>"

section \<open>Services, support groups and users\<close>

record BaseServiceRow =
  BaseServiceRow_Id :: "int option"
  BaseServiceRow_CCRN :: "string option"
  BaseServiceRow_Domain :: "string option"
  BaseServiceRow_Region :: "string option"
  BaseServiceRow_CreatedAt :: "gotime option"
  BaseServiceRow_CreatedBy :: "int option"
  BaseServiceRow_DeletedAt :: "gotime option"
  BaseServiceRow_UpdatedAt :: "gotime option"
  BaseServiceRow_UpdatedBy :: "int option"

definition scan_BaseServiceRow :: "row \<Rightarrow> BaseServiceRow" where
  "scan_BaseServiceRow r =
    \<lparr>BaseServiceRow_Id = col_int r ''service_id'', BaseServiceRow_CCRN = col_str r ''service_ccrn'',
     BaseServiceRow_Domain = col_str r ''service_domain'', BaseServiceRow_Region = col_str r ''service_region'',
     BaseServiceRow_CreatedAt = col_time r ''service_created_at'',
     BaseServiceRow_CreatedBy = col_int r ''service_created_by'',
     BaseServiceRow_DeletedAt = col_time r ''service_deleted_at'',
     BaseServiceRow_UpdatedAt = col_time r ''service_updated_at'',
     BaseServiceRow_UpdatedBy = col_int r ''service_updated_by''\<rparr>"

definition AsBaseService :: "BaseServiceRow \<Rightarrow> Service" where
  "AsBaseService r =
    \<lparr>svcMeta = \<lparr>CreatedAt = GetTimeValue (BaseServiceRow_CreatedAt r), CreatedBy = GetInt64Value (BaseServiceRow_CreatedBy r), UpdatedAt = GetTimeValue (BaseServiceRow_UpdatedAt r), UpdatedBy = GetInt64Value (BaseServiceRow_UpdatedBy r), DeletedAt = GetTimeValue (BaseServiceRow_DeletedAt r)\<rparr>,
     svcId = GetInt64Value (BaseServiceRow_Id r), svcCCRN = GetStringValue (BaseServiceRow_CCRN r),
     svcDomain = GetStringValue (BaseServiceRow_Domain r), svcRegion = GetStringValue (BaseServiceRow_Region r),
     svcSupportGroupId = 0, svcOwners = [], svcPriority = 0, svcIRS = no_irs\<rparr>"

record ServiceRow =
  ServiceRow_BaseServiceRow :: BaseServiceRow
  ServiceRow_IssueRepositoryServiceRow :: IssueRepositoryServiceRow

definition scan_ServiceRow :: "row \<Rightarrow> ServiceRow" where
  "scan_ServiceRow r =
    \<lparr>ServiceRow_BaseServiceRow = scan_BaseServiceRow r,
     ServiceRow_IssueRepositoryServiceRow = scan_IssueRepositoryServiceRow r\<rparr>"

definition AsService :: "ServiceRow \<Rightarrow> Service" where
  "AsService r = (AsBaseService (ServiceRow_BaseServiceRow r))\<lparr>svcIRS := row_irs (ServiceRow_IssueRepositoryServiceRow r)\<rparr>"

definition FromService :: "Service \<Rightarrow> ServiceRow" where
  "FromService e =
    \<lparr>ServiceRow_BaseServiceRow =
       \<lparr>BaseServiceRow_Id = Some (svcId e), BaseServiceRow_CCRN = Some (svcCCRN e), BaseServiceRow_Domain = Some (svcDomain e),
        BaseServiceRow_Region = Some (svcRegion e), BaseServiceRow_CreatedAt = Some (CreatedAt (svcMeta e)),
        BaseServiceRow_CreatedBy = Some (CreatedBy (svcMeta e)), BaseServiceRow_DeletedAt = Some (DeletedAt (svcMeta e)),
        BaseServiceRow_UpdatedAt = Some (UpdatedAt (svcMeta e)), BaseServiceRow_UpdatedBy = Some (UpdatedBy (svcMeta e))\<rparr>,
     ServiceRow_IssueRepositoryServiceRow =
       \<lparr>IssueRepositoryServiceRow_IssueRepositoryId = None, IssueRepositoryServiceRow_ServiceId = None,
        IssueRepositoryServiceRow_Priority = None, IssueRepositoryServiceRow_CreatedAt = None,
        IssueRepositoryServiceRow_DeletedAt = None, IssueRepositoryServiceRow_UpdatedAt = None\<rparr>\<rparr>"

record ServiceAggregationsRow =
  ServiceAggregationsRow_ComponentInstances :: "int option"
  ServiceAggregationsRow_IssueMatches :: "int option"

definition scan_ServiceAggregationsRow :: "row \<Rightarrow> ServiceAggregationsRow" where
  "scan_ServiceAggregationsRow r =
    \<lparr>ServiceAggregationsRow_ComponentInstances = col_int r ''service_agg_component_instances'',
     ServiceAggregationsRow_IssueMatches = col_int r ''service_agg_issue_matches''\<rparr>"

record ServiceAggregations =
  saComponentInstances :: int
  saIssueMatches :: int

definition AsServiceAggregations :: "ServiceAggregationsRow \<Rightarrow> ServiceAggregations" where
  "AsServiceAggregations r =
    \<lparr>saComponentInstances = max 0 (GetInt64Value (ServiceAggregationsRow_ComponentInstances r)),
     saIssueMatches = max 0 (GetInt64Value (ServiceAggregationsRow_IssueMatches r))\<rparr>"

record GetServicesByRow =
  GetServicesByRow_ServiceAggregationsRow :: ServiceAggregationsRow
  GetServicesByRow_ServiceRow :: ServiceRow

definition scan_GetServicesByRow :: "row \<Rightarrow> GetServicesByRow" where
  "scan_GetServicesByRow r =
    \<lparr>GetServicesByRow_ServiceAggregationsRow = scan_ServiceAggregationsRow r,
     GetServicesByRow_ServiceRow = scan_ServiceRow r\<rparr>"

definition AsServiceWithAggregations :: "GetServicesByRow \<Rightarrow> ServiceAggregations \<times> Service" where
  "AsServiceWithAggregations r =
    (AsServiceAggregations (GetServicesByRow_ServiceAggregationsRow r), AsService (GetServicesByRow_ServiceRow r))"

record SupportGroupRow =
  SupportGroupRow_Id :: "int option"
  SupportGroupRow_CCRN :: "string option"
  SupportGroupRow_CreatedAt :: "gotime option"
  SupportGroupRow_CreatedBy :: "int option"
  SupportGroupRow_DeletedAt :: "gotime option"
  SupportGroupRow_UpdatedAt :: "gotime option"
  SupportGroupRow_UpdatedBy :: "int option"

definition scan_SupportGroupRow :: "row \<Rightarrow> SupportGroupRow" where
  "scan_SupportGroupRow r =
    \<lparr>SupportGroupRow_Id = col_int r ''supportgroup_id'', SupportGroupRow_CCRN = col_str r ''supportgroup_ccrn'',
     SupportGroupRow_CreatedAt = col_time r ''supportgroup_created_at'',
     SupportGroupRow_CreatedBy = col_int r ''supportgroup_created_by'',
     SupportGroupRow_DeletedAt = col_time r ''supportgroup_deleted_at'',
     SupportGroupRow_UpdatedAt = col_time r ''supportgroup_updated_at'',
     SupportGroupRow_UpdatedBy = col_int r ''supportgroup_updated_by''\<rparr>"

definition AsSupportGroup :: "SupportGroupRow \<Rightarrow> SupportGroup" where
  "AsSupportGroup r =
    \<lparr>sgMeta = \<lparr>CreatedAt = GetTimeValue (SupportGroupRow_CreatedAt r), CreatedBy = GetInt64Value (SupportGroupRow_CreatedBy r), UpdatedAt = GetTimeValue (SupportGroupRow_UpdatedAt r), UpdatedBy = GetInt64Value (SupportGroupRow_UpdatedBy r), DeletedAt = GetTimeValue (SupportGroupRow_DeletedAt r)\<rparr>,
     sgId = GetInt64Value (SupportGroupRow_Id r), sgCCRN = GetStringValue (SupportGroupRow_CCRN r)\<rparr>"

definition FromSupportGroup :: "SupportGroup \<Rightarrow> SupportGroupRow" where
  "FromSupportGroup e =
    \<lparr>SupportGroupRow_Id = Some (sgId e), SupportGroupRow_CCRN = Some (sgCCRN e),
     SupportGroupRow_CreatedAt = Some (CreatedAt (sgMeta e)), SupportGroupRow_CreatedBy = Some (CreatedBy (sgMeta e)),
     SupportGroupRow_DeletedAt = Some (DeletedAt (sgMeta e)), SupportGroupRow_UpdatedAt = Some (UpdatedAt (sgMeta e)),
     SupportGroupRow_UpdatedBy = Some (UpdatedBy (sgMeta e))\<rparr>"

record UserRow =
  UserRow_Id :: "int option"
  UserRow_Name :: "string option"
  UserRow_UniqueUserID :: "string option"
  UserRow_Type :: "int option"
  UserRow_CreatedAt :: "gotime option"
  UserRow_CreatedBy :: "int option"
  UserRow_DeletedAt :: "gotime option"
  UserRow_UpdatedAt :: "gotime option"
  UserRow_UpdatedBy :: "int option"
  UserRow_Email :: "string option"

definition scan_UserRow :: "row \<Rightarrow> UserRow" where
  "scan_UserRow r =
    \<lparr>UserRow_Id = col_int r ''user_id'', UserRow_Name = col_str r ''user_name'',
     UserRow_UniqueUserID = col_str r ''user_unique_user_id'', UserRow_Type = col_int r ''user_type'',
     UserRow_CreatedAt = col_time r ''user_created_at'', UserRow_CreatedBy = col_int r ''user_created_by'',
     UserRow_DeletedAt = col_time r ''user_deleted_at'', UserRow_UpdatedAt = col_time r ''user_updated_at'',
     UserRow_UpdatedBy = col_int r ''user_updated_by'', UserRow_Email = col_str r ''user_email''\<rparr>"

definition AsUser :: "UserRow \<Rightarrow> User" where
  "AsUser r =
    \<lparr>userMeta = \<lparr>CreatedAt = GetTimeValue (UserRow_CreatedAt r), CreatedBy = GetInt64Value (UserRow_CreatedBy r), UpdatedAt = GetTimeValue (UserRow_UpdatedAt r), UpdatedBy = GetInt64Value (UserRow_UpdatedBy r), DeletedAt = GetTimeValue (UserRow_DeletedAt r)\<rparr>,
     userId = GetInt64Value (UserRow_Id r), userName = GetStringValue (UserRow_Name r),
     userUniqueUserID = GetStringValue (UserRow_UniqueUserID r), userType = GetUserTypeValue (UserRow_Type r),
     userEmail = GetStringValue (UserRow_Email r)\<rparr>"

definition FromUser :: "User \<Rightarrow> UserRow" where
  "FromUser e =
    \<lparr>UserRow_Id = Some (userId e), UserRow_Name = Some (userName e), UserRow_UniqueUserID = Some (userUniqueUserID e),
     UserRow_Type = Some (userType e), UserRow_CreatedAt = Some (CreatedAt (userMeta e)),
     UserRow_CreatedBy = Some (CreatedBy (userMeta e)), UserRow_DeletedAt = Some (DeletedAt (userMeta e)),
     UserRow_UpdatedAt = Some (UpdatedAt (userMeta e)), UserRow_UpdatedBy = Some (UpdatedBy (userMeta e)),
     UserRow_Email = Some (userEmail e)\<rparr>"

section \<open>Remediations and patches\<close>

record RemediationRow =
  RemediationRow_Id :: "int option"
  RemediationRow_Type :: "string option"
  RemediationRow_URL :: "string option"
  RemediationRow_Description :: "string option"
  RemediationRow_RemediationDate :: "gotime option"
  RemediationRow_ExpirationDate :: "gotime option"
  RemediationRow_Severity :: "string option"
  RemediationRow_RemediatedBy :: "string option"
  RemediationRow_RemediatedById :: "int option"
  RemediationRow_Service :: "string option"
  RemediationRow_ServiceId :: "int option"
  RemediationRow_Component :: "string option"
  RemediationRow_ComponentId :: "int option"
  RemediationRow_Issue :: "string option"
  RemediationRow_IssueId :: "int option"
  RemediationRow_CreatedAt :: "gotime option"
  RemediationRow_CreatedBy :: "int option"
  RemediationRow_DeletedAt :: "gotime option"
  RemediationRow_UpdatedAt :: "gotime option"
  RemediationRow_UpdatedBy :: "int option"

definition scan_RemediationRow :: "row \<Rightarrow> RemediationRow" where
  "scan_RemediationRow r =
    \<lparr>RemediationRow_Id = col_int r ''remediation_id'', RemediationRow_Type = col_str r ''remediation_type'',
     RemediationRow_URL = col_str r ''remediation_url'',
     RemediationRow_Description = col_str r ''remediation_description'',
     RemediationRow_RemediationDate = col_time r ''remediation_remediation_date'',
     RemediationRow_ExpirationDate = col_time r ''remediation_expiration_date'',
     RemediationRow_Severity = col_str r ''remediation_severity'',
     RemediationRow_RemediatedBy = col_str r ''remediation_remediated_by'',
     RemediationRow_RemediatedById = col_int r ''remediation_remediated_by_id'',
     RemediationRow_Service = col_str r ''remediation_service'',
     RemediationRow_ServiceId = col_int r ''remediation_service_id'',
     RemediationRow_Component = col_str r ''remediation_component'',
     RemediationRow_ComponentId = col_int r ''remediation_component_id'',
     RemediationRow_Issue = col_str r ''remediation_issue'',
     RemediationRow_IssueId = col_int r ''remediation_issue_id'',
     RemediationRow_CreatedAt = col_time r ''remediation_created_at'',
     RemediationRow_CreatedBy = col_int r ''remediation_created_by'',
     RemediationRow_DeletedAt = col_time r ''remediation_deleted_at'',
     RemediationRow_UpdatedAt = col_time r ''remediation_updated_at'',
     RemediationRow_UpdatedBy = col_int r ''remediation_updated_by''\<rparr>"

definition AsRemediation :: "RemediationRow \<Rightarrow> Remediation" where
  "AsRemediation r =
    \<lparr>remMeta = \<lparr>CreatedAt = GetTimeValue (RemediationRow_CreatedAt r), CreatedBy = GetInt64Value (RemediationRow_CreatedBy r), UpdatedAt = GetTimeValue (RemediationRow_UpdatedAt r), UpdatedBy = GetInt64Value (RemediationRow_UpdatedBy r), DeletedAt = GetTimeValue (RemediationRow_DeletedAt r)\<rparr>,
     remId = GetInt64Value (RemediationRow_Id r), remType = NewRemediationType (GetStringValue (RemediationRow_Type r)),
     remURL = GetStringValue (RemediationRow_URL r), remDescription = GetStringValue (RemediationRow_Description r),
     remRemediationDate = GetTimeValue (RemediationRow_RemediationDate r),
     remExpirationDate = GetTimeValue (RemediationRow_ExpirationDate r),
     remSeverity = NewSeverityValues (GetStringValue (RemediationRow_Severity r)),
     remService = GetStringValue (RemediationRow_Service r), remServiceId = GetInt64Value (RemediationRow_ServiceId r),
     remComponent = GetStringValue (RemediationRow_Component r),
     remComponentId = GetInt64Value (RemediationRow_ComponentId r), remIssue = GetStringValue (RemediationRow_Issue r),
     remIssueId = GetInt64Value (RemediationRow_IssueId r),
     remRemediatedBy = GetStringValue (RemediationRow_RemediatedBy r),
     remRemediatedById = GetInt64Value (RemediationRow_RemediatedById r)\<rparr>"

definition FromRemediation :: "Remediation \<Rightarrow> RemediationRow" where
  "FromRemediation e =
    \<lparr>RemediationRow_Id = Some (remId e), RemediationRow_Type = Some (remType e),
     RemediationRow_URL = (if remURL e \<noteq> [] then Some (remURL e) else None),
     RemediationRow_Description = Some (remDescription e), RemediationRow_RemediationDate = Some (remRemediationDate e),
     RemediationRow_ExpirationDate = Some (remExpirationDate e), RemediationRow_Severity = Some (remSeverity e),
     RemediationRow_RemediatedBy = Some (remRemediatedBy e),
     RemediationRow_RemediatedById = (if IsValidId (remRemediatedById e) then Some (remRemediatedById e) else None),
     RemediationRow_Service = Some (remService e), RemediationRow_ServiceId = Some (remServiceId e),
     RemediationRow_Component = Some (remComponent e),
     RemediationRow_ComponentId = (if IsValidId (remComponentId e) then Some (remComponentId e) else None),
     RemediationRow_Issue = Some (remIssue e), RemediationRow_IssueId = Some (remIssueId e),
     RemediationRow_CreatedAt = Some (CreatedAt (remMeta e)), RemediationRow_CreatedBy = Some (CreatedBy (remMeta e)),
     RemediationRow_DeletedAt = Some (DeletedAt (remMeta e)), RemediationRow_UpdatedAt = Some (UpdatedAt (remMeta e)),
     RemediationRow_UpdatedBy = Some (UpdatedBy (remMeta e))\<rparr>"

record PatchRow =
  PatchRow_Id :: "int option"
  PatchRow_ServiceId :: "int option"
  PatchRow_ServiceName :: "string option"
  PatchRow_ComponentVersionId :: "int option"
  PatchRow_ComponentVersionName :: "string option"
  PatchRow_CreatedAt :: "gotime option"
  PatchRow_CreatedBy :: "int option"
  PatchRow_DeletedAt :: "gotime option"
  PatchRow_UpdatedAt :: "gotime option"
  PatchRow_UpdatedBy :: "int option"

definition scan_PatchRow :: "row \<Rightarrow> PatchRow" where
  "scan_PatchRow r =
    \<lparr>PatchRow_Id = col_int r ''patch_id'', PatchRow_ServiceId = col_int r ''patch_service_id'',
     PatchRow_ServiceName = col_str r ''patch_service_name'',
     PatchRow_ComponentVersionId = col_int r ''patch_component_version_id'',
     PatchRow_ComponentVersionName = col_str r ''patch_component_version_name'',
     PatchRow_CreatedAt = col_time r ''patch_created_at'', PatchRow_CreatedBy = col_int r ''patch_created_by'',
     PatchRow_DeletedAt = col_time r ''patch_deleted_at'', PatchRow_UpdatedAt = col_time r ''patch_updated_at'',
     PatchRow_UpdatedBy = col_int r ''patch_updated_by''\<rparr>"

definition AsPatch :: "PatchRow \<Rightarrow> Patch" where
  "AsPatch r =
    \<lparr>patchMeta = \<lparr>CreatedAt = GetTimeValue (PatchRow_CreatedAt r), CreatedBy = GetInt64Value (PatchRow_CreatedBy r), UpdatedAt = GetTimeValue (PatchRow_UpdatedAt r), UpdatedBy = GetInt64Value (PatchRow_UpdatedBy r), DeletedAt = GetTimeValue (PatchRow_DeletedAt r)\<rparr>,
     patchId = GetInt64Value (PatchRow_Id r), patchServiceId = GetInt64Value (PatchRow_ServiceId r),
     patchServiceName = GetStringValue (PatchRow_ServiceName r),
     patchComponentVersionId = GetInt64Value (PatchRow_ComponentVersionId r),
     patchComponentVersionName = GetStringValue (PatchRow_ComponentVersionName r)\<rparr>"

definition FromPatch :: "Patch \<Rightarrow> PatchRow" where
  "FromPatch e =
    \<lparr>PatchRow_Id = Some (patchId e), PatchRow_ServiceId = Some (patchServiceId e),
     PatchRow_ServiceName = Some (patchServiceName e), PatchRow_ComponentVersionId = Some (patchComponentVersionId e),
     PatchRow_ComponentVersionName = Some (patchComponentVersionName e),
     PatchRow_CreatedAt = Some (CreatedAt (patchMeta e)), PatchRow_CreatedBy = Some (CreatedBy (patchMeta e)),
     PatchRow_DeletedAt = Some (DeletedAt (patchMeta e)), PatchRow_UpdatedAt = Some (UpdatedAt (patchMeta e)),
     PatchRow_UpdatedBy = Some (UpdatedBy (patchMeta e))\<rparr>"

section \<open>Scanner runs\<close>

record ScannerRun =
  srMeta :: metadata
  srRunID :: id64
  srUUID :: string
  srTag :: string
  srStartRun :: gotime
  srEndRun :: gotime
  srCompleted :: bool

record ScannerRunRow =
  ScannerRunRow_RunID :: "int option"
  ScannerRunRow_UUID :: "string option"
  ScannerRunRow_Tag :: "string option"
  ScannerRunRow_StartRun :: "gotime option"
  ScannerRunRow_EndRun :: "gotime option"
  ScannerRunRow_IsCompleted :: "bool option"
  ScannerRunRow_CreatedAt :: "gotime option"
  ScannerRunRow_CreatedBy :: "int option"
  ScannerRunRow_DeletedAt :: "gotime option"
  ScannerRunRow_UpdatedAt :: "gotime option"
  ScannerRunRow_UpdatedBy :: "int option"

definition scan_ScannerRunRow :: "row \<Rightarrow> ScannerRunRow" where
  "scan_ScannerRunRow r =
    \<lparr>ScannerRunRow_RunID = col_int r ''scannerrun_run_id'', ScannerRunRow_UUID = col_str r ''scannerrun_uuid'',
     ScannerRunRow_Tag = col_str r ''scannerrun_tag'', ScannerRunRow_StartRun = col_time r ''scannerrun_start_run'',
     ScannerRunRow_EndRun = col_time r ''scannerrun_end_run'',
     ScannerRunRow_IsCompleted = col_bool r ''scannerrun_is_completed'',
     ScannerRunRow_CreatedAt = col_time r ''scannerrun_created_at'',
     ScannerRunRow_CreatedBy = col_int r ''scannerrun_created_by'',
     ScannerRunRow_DeletedAt = col_time r ''scannerrun_deleted_at'',
     ScannerRunRow_UpdatedAt = col_time r ''scannerrun_updated_at'',
     ScannerRunRow_UpdatedBy = col_int r ''scannerrun_updated_by''\<rparr>"

definition AsScannerRun :: "ScannerRunRow \<Rightarrow> ScannerRun" where
  "AsScannerRun r =
    \<lparr>srMeta = \<lparr>CreatedAt = GetTimeValue (ScannerRunRow_CreatedAt r), CreatedBy = GetInt64Value (ScannerRunRow_CreatedBy r), UpdatedAt = GetTimeValue (ScannerRunRow_UpdatedAt r), UpdatedBy = GetInt64Value (ScannerRunRow_UpdatedBy r), DeletedAt = GetTimeValue (ScannerRunRow_DeletedAt r)\<rparr>,
     srRunID = GetInt64Value (ScannerRunRow_RunID r), srUUID = GetStringValue (ScannerRunRow_UUID r),
     srTag = GetStringValue (ScannerRunRow_Tag r), srStartRun = GetTimeValue (ScannerRunRow_StartRun r),
     srEndRun = GetTimeValue (ScannerRunRow_EndRun r), srCompleted = GetBoolValue (ScannerRunRow_IsCompleted r)\<rparr>"

definition FromScannerRun :: "ScannerRun \<Rightarrow> ScannerRunRow" where
  "FromScannerRun e =
    \<lparr>ScannerRunRow_RunID = Some (srRunID e), ScannerRunRow_UUID = Some (srUUID e), ScannerRunRow_Tag = Some (srTag e),
     ScannerRunRow_StartRun = Some (srStartRun e), ScannerRunRow_EndRun = Some (srEndRun e),
     ScannerRunRow_IsCompleted = Some (srCompleted e), ScannerRunRow_CreatedAt = Some (CreatedAt (srMeta e)),
     ScannerRunRow_CreatedBy = Some (CreatedBy (srMeta e)), ScannerRunRow_DeletedAt = Some (DeletedAt (srMeta e)),
     ScannerRunRow_UpdatedAt = Some (UpdatedAt (srMeta e)), ScannerRunRow_UpdatedBy = Some (UpdatedBy (srMeta e))\<rparr>"
section \<open>Entities and cursors of rows\<close>

text \<open>A struct of a joined table is filled in when one of its columns is in the row.\<close>

definition RatingCount_columns :: "string list" where
  "RatingCount_columns = [''critical_count'', ''high_count'', ''medium_count'', ''low_count'', ''none_count'']"

definition IssueRow_columns :: "string list" where
  "IssueRow_columns = [''issue_id'', ''issue_type'', ''issue_primary_name'', ''issue_description'', ''issue_created_at'',
     ''issue_created_by'', ''issue_deleted_at'', ''issue_updated_at'', ''issue_updated_by'']"

definition ComponentInstanceRow_columns :: "string list" where
  "ComponentInstanceRow_columns = [''componentinstance_id'', ''componentinstance_ccrn'', ''componentinstance_region'', ''componentinstance_cluster'',
     ''componentinstance_namespace'', ''componentinstance_domain'', ''componentinstance_project'',
     ''componentinstance_pod'', ''componentinstance_container'', ''componentinstance_type'',
     ''componentinstance_parent_id'', ''componentinstance_context'', ''componentinstance_count'',
     ''componentinstance_component_version_id'', ''componentinstance_service_id'', ''componentinstance_created_at'',
     ''componentinstance_created_by'', ''componentinstance_deleted_at'', ''componentinstance_updated_at'',
     ''componentinstance_updated_by'']"

definition IssueVariantRow_columns :: "string list" where
  "IssueVariantRow_columns = [''issuevariant_id'', ''issuevariant_issue_id'', ''issuevariant_repository_id'', ''issuevariant_secondary_name'',
     ''issuevariant_vector'', ''issuevariant_rating'', ''issuevariant_rating_num'',
     ''issue_earliest_target_remediation_date'', ''issuevariant_description'', ''issuevariant_external_url'',
     ''issuevariant_created_at'', ''issuevariant_created_by'', ''issuevariant_deleted_at'', ''issuevariant_updated_at'',
     ''issuevariant_updated_by'']"

definition present :: "row \<Rightarrow> string list \<Rightarrow> bool" where
  "present r cs \<longleftrightarrow> list_ex (\<lambda>c. r c \<noteq> None) cs"

definition row_counts :: "row \<Rightarrow> IssueSeverityCounts" where
  "row_counts r =
     (if present r RatingCount_columns then AsIssueSeverityCounts (scan_RatingCount r)
      else \<lparr>iscCritical = 0, iscHigh = 0, iscMedium = 0, iscLow = 0, iscNone = 0, iscTotal = 0\<rparr>)"

definition serviceRowToData :: "(Field list \<Rightarrow> string) \<Rightarrow> row \<Rightarrow> entity_order list \<Rightarrow> Service \<times> string" where
  "serviceRowToData enc r order =
     (let s = AsBaseService (scan_BaseServiceRow r) in (s, enc (WithService order s (row_counts r))))"

definition serviceRowToAggregatedData ::
  "(Field list \<Rightarrow> string) \<Rightarrow> row \<Rightarrow> entity_order list \<Rightarrow> Service \<times> ServiceAggregations \<times> string" where
  "serviceRowToAggregatedData enc r order =
     (let s = AsBaseService (scan_BaseServiceRow r)
      in (s, AsServiceAggregations (scan_ServiceAggregationsRow r), enc (WithService order s (row_counts r))))"

definition componentRowToData :: "(Field list \<Rightarrow> string) \<Rightarrow> row \<Rightarrow> entity_order list \<Rightarrow> Component \<times> string" where
  "componentRowToData enc r order =
     (let c = AsComponent (scan_ComponentRow r) in (c, enc (WithComponent order c (row_counts r))))"

definition componentVersionRowToData :: "(Field list \<Rightarrow> string) \<Rightarrow> row \<Rightarrow> entity_order list \<Rightarrow> ComponentVersion \<times> string" where
  "componentVersionRowToData enc r order =
     (let cv = AsComponentVersion (scan_ComponentVersionRow r) in (cv, enc (WithComponentVersion order cv (row_counts r))))"

definition componentInstanceRowToData ::
  "(json \<Rightarrow> string) \<times> (string \<Rightarrow> json option) \<Rightarrow> (Field list \<Rightarrow> string) \<Rightarrow> row \<Rightarrow> entity_order list \<Rightarrow> ComponentInstance \<times> string" where
  "componentInstanceRowToData js enc r order =
     (let ci = AsComponentInstance (snd js) (scan_ComponentInstanceRow (fst js) r) in (ci, enc (WithComponentInstance order ci)))"

definition issueRowToData :: "(Field list \<Rightarrow> string) \<Rightarrow> row \<Rightarrow> entity_order list \<Rightarrow> Issue \<times> string" where
  "issueRowToData enc r order =
     (let issue = AsIssue (scan_IssueRow r); v = scan_IssueVariantRow r;
          ivRating = (if present r IssueVariantRow_columns then (case IssueVariantRow_RatingNumerical v of None \<Rightarrow> 0 | Some n \<Rightarrow> n) else 0);
          earliest = (if present r IssueVariantRow_columns then IssueVariantRow_EarliestTargetRemediation v else None)
      in (issue, enc (WithIssue order issue ivRating earliest)))"

definition issueRowToAggregatedData ::
  "(Field list \<Rightarrow> string) \<Rightarrow> row \<Rightarrow> entity_order list \<Rightarrow> Issue \<times> IssueAggregations \<times> string" where
  "issueRowToAggregatedData enc r order =
     (let (agg, issue) = AsIssueWithAggregations (scan_GetIssuesByRow r)
      in (issue, agg, snd (issueRowToData enc r order)))"

definition issueMatchRowToData ::
  "(string \<Rightarrow> (string \<times> rat \<times> cvss_version) option) \<Rightarrow> (json \<Rightarrow> string) \<times> (string \<Rightarrow> json option) \<Rightarrow> (Field list \<Rightarrow> string)
   \<Rightarrow> row \<Rightarrow> entity_order list \<Rightarrow> IssueMatch \<times> string" where
  "issueMatchRowToData cvss js enc r order =
     (let im = (AsIssueMatch cvss (scan_IssueMatchRow r))
            \<lparr>imIssue := (if present r IssueRow_columns then Some (AsIssue (scan_IssueRow r)) else None),
             imComponentInstance := (if present r ComponentInstanceRow_columns
               then Some (AsComponentInstance (snd js) (scan_ComponentInstanceRow (fst js) r)) else None)\<rparr>
      in (im, enc (WithIssueMatch order im)))"

definition issueRepositoryRowToData :: "(Field list \<Rightarrow> string) \<Rightarrow> row \<Rightarrow> entity_order list \<Rightarrow> IssueRepository \<times> string" where
  "issueRepositoryRowToData enc r order =
     (let ir = AsBaseIssueRepository (scan_BaseIssueRepositoryRow r) in (ir, enc (WithIssueRepository order ir)))"

definition issueVariantRowToData ::
  "(string \<Rightarrow> (string \<times> rat \<times> cvss_version) option) \<Rightarrow> (Field list \<Rightarrow> string) \<Rightarrow> row \<Rightarrow> entity_order list \<Rightarrow> IssueVariant \<times> string" where
  "issueVariantRowToData cvss enc r order =
     (let iv = AsIssueVariant cvss (scan_IssueVariantRow r) in (iv, enc (WithIssueVariant order iv)))"

definition serviceIssueVariantRowToData ::
  "(string \<Rightarrow> (string \<times> rat \<times> cvss_version) option) \<Rightarrow> (Field list \<Rightarrow> string) \<Rightarrow> row \<Rightarrow> entity_order list
   \<Rightarrow> ServiceIssueVariant \<times> string" where
  "serviceIssueVariantRowToData cvss enc r order =
     (let siv = AsServiceIssueVariantEntry cvss
            \<lparr>ServiceIssueVariantRow_IssueRepositoryRow =
               \<lparr>IssueRepositoryRow_BaseIssueRepositoryRow = scan_BaseIssueRepositoryRow Map.empty,
                IssueRepositoryRow_IssueRepositoryServiceRow = scan_IssueRepositoryServiceRow r\<rparr>,
             ServiceIssueVariantRow_IssueVariantRow = scan_IssueVariantRow r\<rparr>
      in (siv, enc (WithServiceIssueVariant order siv)))"

definition remediationRowToData :: "(Field list \<Rightarrow> string) \<Rightarrow> row \<Rightarrow> entity_order list \<Rightarrow> Remediation \<times> string" where
  "remediationRowToData enc r order =
     (let e = AsRemediation (scan_RemediationRow r) in (e, enc (WithRemediation order e)))"

definition patchRowToData :: "(Field list \<Rightarrow> string) \<Rightarrow> row \<Rightarrow> entity_order list \<Rightarrow> Patch \<times> string" where
  "patchRowToData enc r order = (let p = AsPatch (scan_PatchRow r) in (p, enc (WithPatch order p)))"

definition supportGroupRowToData :: "(Field list \<Rightarrow> string) \<Rightarrow> row \<Rightarrow> entity_order list \<Rightarrow> SupportGroup \<times> string" where
  "supportGroupRowToData enc r order =
     (let sg = AsSupportGroup (scan_SupportGroupRow r) in (sg, enc (WithSupportGroup order sg)))"

definition userRowToData :: "(Field list \<Rightarrow> string) \<Rightarrow> row \<Rightarrow> entity_order list \<Rightarrow> User \<times> string" where
  "userRowToData enc r order = (let u = AsUser (scan_UserRow r) in (u, enc (WithUser order u)))"

section \<open>Created rows read back\<close>

lemma created_row:
  assumes "row_laws ex v" "keyed_columns ob" "rv_key v (dbTableName ob) = dbPrefix ob @ ''_id''"
    and "Create ex setId ob e d = Inr (Inr e1, d1)"
  obtains i r where "e1 = setId i e" "find_row v d1 (dbTableName ob) i = Some r" "r (dbPrefix ob @ ''_id'') = Some (int_param i)"
    "\<forall>p \<in> set (dbProperties ob). r (prName p) = Some (fst (prAccess p e))"
proof -
  let ?T = "dbTableName ob"
  from Create_success [OF assms(1,4)] obtain i where i: "e1 = setId i e"
      "rv_rows v d1 = (rv_rows v d)(?T := rv_rows v d ?T @ [inserted_row (rv_default v d ?T) (InsertQuery ob e) (rv_key v ?T) i])"
      "\<forall>r \<in> set (rv_rows v d ?T). r (rv_key v ?T) \<noteq> Some (int_param i)" by metis
  let ?r = "inserted_row (rv_default v d ?T) (InsertQuery ob e) (rv_key v ?T) i"
  have "find_row v d1 ?T i = Some ?r"
    using find_new_row [OF i(3), of ?r] i(2) by (simp add: find_row_def inserted_row_def)
  moreover have "?r (dbPrefix ob @ ''_id'') = Some (int_param i)" by (simp add: assms(3) inserted_row_def)
  moreover have "\<forall>p \<in> set (dbProperties ob). ?r (prName p) = Some (fst (prAccess p e))"
    using inserted_property [OF assms(2)] assms(3) by simp
  ultimately show thesis using that i(1) by blast
qed

text \<open>The times of a row are the server's.\<close>

definition stored_meta :: "string \<Rightarrow> row \<Rightarrow> metadata \<Rightarrow> metadata" where
  "stored_meta prefix r m =
     m\<lparr>CreatedAt := GetTimeValue (col_time r (prefix @ ''_created_at'')),
       UpdatedAt := GetTimeValue (col_time r (prefix @ ''_updated_at'')),
       DeletedAt := GetTimeValue (col_time r (prefix @ ''_deleted_at''))\<rparr>"

definition valid_or_unset :: "id64 \<Rightarrow> id64" where
  "valid_or_unset i = (if IsValidId i then i else -1)"

definition created_reads ::
  "'d sql_exec \<Rightarrow> 'd row_view \<Rightarrow> ('e, 'f) DbObject \<Rightarrow> (row \<Rightarrow> 'e) \<Rightarrow> (id64 \<Rightarrow> row \<Rightarrow> 'e \<Rightarrow> 'e) \<Rightarrow> bool" where
  "created_reads ex v ob readf stored \<longleftrightarrow>
     (\<forall>setId e d e1 d1. Create ex setId ob e d = Inr (Inr e1, d1) \<longrightarrow>
        (\<exists>i r. e1 = setId i e \<and> find_row v d1 (dbTableName ob) i = Some r \<and> readf r = stored i r e))"

lemma created_readsI:
  assumes "row_laws ex v" "keyed_columns ob" "rv_key v (dbTableName ob) = dbPrefix ob @ ''_id''"
    and "\<And>i r e. r (dbPrefix ob @ ''_id'') = Some (int_param i) \<Longrightarrow>
      \<forall>p \<in> set (dbProperties ob). r (prName p) = Some (fst (prAccess p e)) \<Longrightarrow> readf r = stored i r e"
  shows "created_reads ex v ob readf stored"
  unfolding created_reads_def using created_row [OF assms(1-3)] assms(4) by metis

lemmas value_defs = int_param_def null_id_def bool_value_def json_value_def ValueOrDefault_def

definition read_service :: "id64 \<Rightarrow> row \<Rightarrow> Service \<Rightarrow> Service" where
  "read_service i r e = e\<lparr>svcMeta := stored_meta ''service'' r (svcMeta e), svcId := i, svcSupportGroupId := 0, svcOwners := [],
     svcPriority := 0, svcIRS := no_irs\<rparr>"

lemma service_row_reads:
  "r ''service_id'' = Some (int_param i) \<Longrightarrow> \<forall>p \<in> set serviceProperties. r (prName p) = Some (fst (prAccess p e)) \<Longrightarrow>
   fst (serviceRowToData enc r order) = read_service i r e"
  by (cases e; cases "svcMeta e")
    (simp add: serviceRowToData_def Let_def read_service_def AsBaseService_def scan_BaseServiceRow_def column_defs serviceProperties_def
      NewProperty_def value_defs stored_meta_def)

definition read_component :: "id64 \<Rightarrow> row \<Rightarrow> Component \<Rightarrow> Component" where
  "read_component i r e = e\<lparr>compMeta := stored_meta ''component'' r (compMeta e), compId := i\<rparr>"

lemma component_row_reads:
  "r ''component_id'' = Some (int_param i) \<Longrightarrow> \<forall>p \<in> set componentProperties. r (prName p) = Some (fst (prAccess p e)) \<Longrightarrow>
   fst (componentRowToData enc r order) = read_component i r e"
  by (cases e; cases "compMeta e")
    (simp add: componentRowToData_def Let_def read_component_def AsComponent_def scan_ComponentRow_def column_defs
      componentProperties_def NewProperty_def value_defs stored_meta_def)

definition read_version :: "id64 \<Rightarrow> row \<Rightarrow> ComponentVersion \<Rightarrow> ComponentVersion" where
  "read_version i r e = e\<lparr>cvMeta := stored_meta ''componentversion'' r (cvMeta e), cvId := i,
     cvEndOfLife := Some (ValueOrDefault (cvEndOfLife e) False)\<rparr>"

lemma version_row_reads:
  "r ''componentversion_id'' = Some (int_param i) \<Longrightarrow>
   \<forall>p \<in> set componentVersionProperties. r (prName p) = Some (fst (prAccess p e)) \<Longrightarrow>
   fst (componentVersionRowToData enc r order) = read_version i r e"
  by (cases e; cases "cvMeta e"; cases "cvEndOfLife e")
    (auto simp: componentVersionRowToData_def Let_def read_version_def AsComponentVersion_def scan_ComponentVersionRow_def column_defs
      componentVersionProperties_def NewProperty_def value_defs stored_meta_def)

definition read_instance :: "(json \<Rightarrow> string) \<times> (string \<Rightarrow> json option) \<Rightarrow> id64 \<Rightarrow> row \<Rightarrow> ComponentInstance \<Rightarrow> ComponentInstance" where
  "read_instance js i r e = e\<lparr>ciMeta := stored_meta ''componentinstance'' r (ciMeta e), ciId := i,
     ciType := NewComponentInstanceType (ciType e), ciParentId := valid_or_unset (ciParentId e),
     ciContext := (case ciContext e of None \<Rightarrow> snd js [] | Some j \<Rightarrow> snd js (if j = JNull then [] else fst js j)),
     ciComponentVersionId := valid_or_unset (ciComponentVersionId e)\<rparr>"

lemma instance_row_reads:
  "r ''componentinstance_id'' = Some (int_param i) \<Longrightarrow>
   \<forall>p \<in> set componentInstanceProperties. r (prName p) = Some (fst (prAccess p e)) \<Longrightarrow>
   fst (componentInstanceRowToData js enc r order) = read_instance js i r e"
  by (cases e; cases "ciMeta e"; cases "ciContext e")
    (auto simp: componentInstanceRowToData_def Let_def read_instance_def AsComponentInstance_def scan_ComponentInstanceRow_def column_defs
      componentInstanceProperties_def NewProperty_def value_defs stored_meta_def valid_or_unset_def raw_string_def)

definition read_issue :: "id64 \<Rightarrow> row \<Rightarrow> Issue \<Rightarrow> Issue" where
  "read_issue i r e = e\<lparr>isMeta := stored_meta ''issue'' r (isMeta e), isId := i, isType := NewIssueType (isType e)\<rparr>"

lemma issue_row_reads:
  "r ''issue_id'' = Some (int_param i) \<Longrightarrow> \<forall>p \<in> set issueProperties. r (prName p) = Some (fst (prAccess p e)) \<Longrightarrow>
   fst (issueRowToData enc r order) = read_issue i r e"
  by (cases e; cases "isMeta e")
    (simp add: issueRowToData_def Let_def read_issue_def AsIssue_def scan_IssueRow_def column_defs
      issueProperties_def NewProperty_def value_defs stored_meta_def)

definition read_repository :: "id64 \<Rightarrow> row \<Rightarrow> IssueRepository \<Rightarrow> IssueRepository" where
  "read_repository i r e = e\<lparr>irMeta := stored_meta ''issuerepository'' r (irMeta e), irId := i, irIRS := no_irs\<rparr>"

lemma repository_row_reads:
  "r ''issuerepository_id'' = Some (int_param i) \<Longrightarrow>
   \<forall>p \<in> set issueRepositoryProperties. r (prName p) = Some (fst (prAccess p e)) \<Longrightarrow>
   fst (issueRepositoryRowToData enc r order) = read_repository i r e"
  by (cases e; cases "irMeta e")
    (simp add: issueRepositoryRowToData_def Let_def read_repository_def AsBaseIssueRepository_def scan_BaseIssueRepositoryRow_def column_defs
      issueRepositoryProperties_def NewProperty_def value_defs stored_meta_def)

text \<open>A severity is stored as its vector and its value and derived again on reading.\<close>

definition read_severity :: "(string \<Rightarrow> (string \<times> rat \<times> cvss_version) option) \<Rightarrow> severity \<Rightarrow> severity" where
  "read_severity cvss s = (if sevVector s = [] then NewSeverityFromRating (sevValue s) else NewSeverity cvss (sevVector s))"

definition read_variant ::
  "(string \<Rightarrow> (string \<times> rat \<times> cvss_version) option) \<Rightarrow> id64 \<Rightarrow> row \<Rightarrow> IssueVariant \<Rightarrow> IssueVariant" where
  "read_variant cvss i r e = e\<lparr>ivMeta := stored_meta ''issuevariant'' r (ivMeta e), ivId := i, ivIssueRepository := Some no_repository,
     ivIssue := None, ivSeverity := read_severity cvss (ivSeverity e)\<rparr>"

lemma variant_row_reads:
  "r ''issuevariant_id'' = Some (int_param i) \<Longrightarrow>
   \<forall>p \<in> set issueVariantProperties. r (prName p) = Some (fst (prAccess p e)) \<Longrightarrow>
   fst (issueVariantRowToData cvss enc r order) = read_variant cvss i r e"
  by (cases e; cases "ivMeta e")
    (simp add: issueVariantRowToData_def Let_def read_variant_def AsIssueVariant_def scan_IssueVariantRow_def column_defs
      issueVariantProperties_def NewProperty_def value_defs stored_meta_def row_severity_def raw_string_def read_severity_def)

definition read_match ::
  "(string \<Rightarrow> (string \<times> rat \<times> cvss_version) option) \<Rightarrow> id64 \<Rightarrow> row \<Rightarrow> IssueMatch \<Rightarrow> IssueMatch" where
  "read_match cvss i r e = e\<lparr>imMeta := stored_meta ''issuematch'' r (imMeta e), imId := i, imStatus := NewIssueMatchStatusValue (imStatus e),
     imSeverity := read_severity cvss (imSeverity e), imComponentInstance := None, imIssue := None\<rparr>"

lemma match_row_reads:
  "r ''issuematch_id'' = Some (int_param i) \<Longrightarrow>
   \<forall>p \<in> set issueMatchProperties. r (prName p) = Some (fst (prAccess p e)) \<Longrightarrow>
   AsIssueMatch cvss (scan_IssueMatchRow r) = read_match cvss i r e"
  by (cases e; cases "imMeta e")
    (simp add: read_match_def AsIssueMatch_def scan_IssueMatchRow_def column_defs
      issueMatchProperties_def NewProperty_def value_defs stored_meta_def row_severity_def raw_string_def read_severity_def)

definition read_group :: "id64 \<Rightarrow> row \<Rightarrow> SupportGroup \<Rightarrow> SupportGroup" where
  "read_group i r e = e\<lparr>sgMeta := stored_meta ''supportgroup'' r (sgMeta e), sgId := i\<rparr>"

lemma group_row_reads:
  "r ''supportgroup_id'' = Some (int_param i) \<Longrightarrow>
   \<forall>p \<in> set supportGroupProperties. r (prName p) = Some (fst (prAccess p e)) \<Longrightarrow>
   fst (supportGroupRowToData enc r order) = read_group i r e"
  by (cases e; cases "sgMeta e")
    (simp add: supportGroupRowToData_def Let_def read_group_def AsSupportGroup_def scan_SupportGroupRow_def column_defs
      supportGroupProperties_def NewProperty_def value_defs stored_meta_def)

definition read_user :: "id64 \<Rightarrow> row \<Rightarrow> User \<Rightarrow> User" where
  "read_user i r e = e\<lparr>userMeta := stored_meta ''user'' r (userMeta e), userId := i\<rparr>"

lemma user_row_reads:
  "r ''user_id'' = Some (int_param i) \<Longrightarrow> \<forall>p \<in> set userProperties. r (prName p) = Some (fst (prAccess p e)) \<Longrightarrow>
   fst (userRowToData enc r order) = read_user i r e"
  by (cases e; cases "userMeta e")
    (simp add: userRowToData_def Let_def read_user_def AsUser_def scan_UserRow_def column_defs
      userProperties_def NewProperty_def value_defs stored_meta_def)

definition read_remediation :: "id64 \<Rightarrow> row \<Rightarrow> Remediation \<Rightarrow> Remediation" where
  "read_remediation i r e = e\<lparr>remMeta := stored_meta ''remediation'' r (remMeta e), remId := i, remType := NewRemediationType (remType e),
     remSeverity := NewSeverityValues (remSeverity e), remComponentId := valid_or_unset (remComponentId e),
     remRemediatedById := valid_or_unset (remRemediatedById e)\<rparr>"

lemma remediation_row_reads:
  "r ''remediation_id'' = Some (int_param i) \<Longrightarrow>
   \<forall>p \<in> set remediationProperties. r (prName p) = Some (fst (prAccess p e)) \<Longrightarrow>
   fst (remediationRowToData enc r order) = read_remediation i r e"
  by (cases e; cases "remMeta e")
    (simp add: remediationRowToData_def Let_def read_remediation_def AsRemediation_def scan_RemediationRow_def column_defs
      remediationProperties_def NewProperty_def value_defs stored_meta_def valid_or_unset_def)

text \<open>
  C17. An entity that is created is read back from its row as it was given, with the id of the row and the
  times of the server, up to what its table does not keep: an unknown type, status or severity becomes
  the default, an id that is not positive is stored as NULL and read as -1, an unset end of life is false, a
  severity is derived again from its vector or, without one, its value, and relations are not read.
\<close>

theorem created_rows_read_back:
  assumes "row_laws ex v" and "rv_key v = table_key"
  shows "created_reads ex v serviceObject (\<lambda>r. fst (serviceRowToData enc r order)) read_service \<and>
    created_reads ex v componentObject (\<lambda>r. fst (componentRowToData enc r order)) read_component \<and>
    created_reads ex v componentVersionObject (\<lambda>r. fst (componentVersionRowToData enc r order)) read_version \<and>
    created_reads ex v componentInstanceObject (\<lambda>r. fst (componentInstanceRowToData js enc r order)) (read_instance js) \<and>
    created_reads ex v issueObject (\<lambda>r. fst (issueRowToData enc r order)) read_issue \<and>
    created_reads ex v issueRepositoryObject (\<lambda>r. fst (issueRepositoryRowToData enc r order)) read_repository \<and>
    created_reads ex v issueVariantObject (\<lambda>r. fst (issueVariantRowToData cvss enc r order)) (read_variant cvss) \<and>
    created_reads ex v issueMatchObject (\<lambda>r. AsIssueMatch cvss (scan_IssueMatchRow r)) (read_match cvss) \<and>
    created_reads ex v supportGroupObject (\<lambda>r. fst (supportGroupRowToData enc r order)) read_group \<and>
    created_reads ex v userObject (\<lambda>r. fst (userRowToData enc r order)) read_user \<and>
    created_reads ex v remediationObject (\<lambda>r. fst (remediationRowToData enc r order)) read_remediation"
proof (intro conjI)
  show "created_reads ex v serviceObject (\<lambda>r. fst (serviceRowToData enc r order)) read_service"
    by (rule created_readsI [OF assms(1) tables_keyed(1)]) (simp_all add: assms(2) table_key_def serviceObject_def service_row_reads)
  show "created_reads ex v componentObject (\<lambda>r. fst (componentRowToData enc r order)) read_component"
    by (rule created_readsI [OF assms(1) tables_keyed(11)]) (simp_all add: assms(2) table_key_def componentObject_def component_row_reads)
  show "created_reads ex v componentVersionObject (\<lambda>r. fst (componentVersionRowToData enc r order)) read_version"
    by (rule created_readsI [OF assms(1) tables_keyed(2)]) (simp_all add: assms(2) table_key_def componentVersionObject_def version_row_reads)
  show "created_reads ex v componentInstanceObject (\<lambda>r. fst (componentInstanceRowToData js enc r order)) (read_instance js)"
    by (rule created_readsI [OF assms(1) tables_keyed(3)]) (simp_all add: assms(2) table_key_def componentInstanceObject_def instance_row_reads)
  show "created_reads ex v issueObject (\<lambda>r. fst (issueRowToData enc r order)) read_issue"
    by (rule created_readsI [OF assms(1) tables_keyed(12)]) (simp_all add: assms(2) table_key_def issueObject_def issue_row_reads)
  show "created_reads ex v issueRepositoryObject (\<lambda>r. fst (issueRepositoryRowToData enc r order)) read_repository"
    by (rule created_readsI [OF assms(1) tables_keyed(6)]) (simp_all add: assms(2) table_key_def issueRepositoryObject_def repository_row_reads)
  show "created_reads ex v issueVariantObject (\<lambda>r. fst (issueVariantRowToData cvss enc r order)) (read_variant cvss)"
    by (rule created_readsI [OF assms(1) tables_keyed(7)]) (simp_all add: assms(2) table_key_def issueVariantObject_def variant_row_reads)
  show "created_reads ex v issueMatchObject (\<lambda>r. AsIssueMatch cvss (scan_IssueMatchRow r)) (read_match cvss)"
    by (rule created_readsI [OF assms(1) tables_keyed(10)]) (simp_all add: assms(2) table_key_def issueMatchObject_def match_row_reads)
  show "created_reads ex v supportGroupObject (\<lambda>r. fst (supportGroupRowToData enc r order)) read_group"
    by (rule created_readsI [OF assms(1) tables_keyed(5)]) (simp_all add: assms(2) table_key_def supportGroupObject_def group_row_reads)
  show "created_reads ex v userObject (\<lambda>r. fst (userRowToData enc r order)) read_user"
    by (rule created_readsI [OF assms(1) tables_keyed(4)]) (simp_all add: assms(2) table_key_def userObject_def user_row_reads)
  show "created_reads ex v remediationObject (\<lambda>r. fst (remediationRowToData enc r order)) read_remediation"
    by (rule created_readsI [OF assms(1) tables_keyed(9)]) (simp_all add: assms(2) table_key_def remediationObject_def remediation_row_reads)
qed

theorem created_rows_read_back_witness:
  "\<exists>i r. find_row store_view (stored_service (plain_service ''a'' ''b'' ''us'' 5 0)) ''Service'' i = Some r \<and>
     svcId (fst (serviceRowToData (\<lambda>fs. []) r [])) = i \<and> svcCCRN (fst (serviceRowToData (\<lambda>fs. []) r [])) = ''a'' \<and>
     CreatedBy (svcMeta (fst (serviceRowToData (\<lambda>fs. []) r []))) = 5"
proof -
  let ?e = "plain_service ''a'' ''b'' ''us'' 5 0"
  have "created_reads store_exec store_view serviceObject (\<lambda>r. fst (serviceRowToData (\<lambda>fs. []) r [])) read_service"
    using created_rows_read_back [OF store_laws, of "\<lambda>fs. []" "[]" "(\<lambda>j. [], \<lambda>s. None)" "\<lambda>s. None"]
    by (simp add: store_view_def)
  then have "\<exists>i r. set_service_id 1 ?e = set_service_id i ?e \<and> find_row store_view (stored_service ?e) (dbTableName serviceObject) i = Some r \<and>
      fst (serviceRowToData (\<lambda>fs. []) r []) = read_service i r ?e"
    unfolding created_reads_def using create_stored_service by blast
  then obtain i r where r: "find_row store_view (stored_service ?e) ''Service'' i = Some r"
      "fst (serviceRowToData (\<lambda>fs. []) r []) = read_service i r ?e"
    by (auto simp: serviceObject_def)
  have fields: "svcId (read_service i r ?e) = i \<and> svcCCRN (read_service i r ?e) = ''a'' \<and> CreatedBy (svcMeta (read_service i r ?e)) = 5"
    by (simp add: read_service_def stored_meta_def plain_service_def zero_metadata_def)
  show ?thesis by (intro exI [of _ i] exI [of _ r]) (simp only: r fields simp_thms)
qed

section \<open>Dates of remediations\<close>

text \<open>
  A remediation without an expiration date is stored with the zero time, not with NULL, and read back it
  is open: it conflicts with every later remediation of its type and component. A row whose expiration
  date is NULL, which the joins of issues take for a remediation in force, is read with the date
  of 1970 and conflicts with none.
\<close>

theorem null_expiration_is_expired:
  assumes "unix_epoch < now" and "remType r = remType e" and "NewRemediationType (remType e) = remType e"
    and "remComponentId r = remComponentId e" and "remComponentId e > 0" and "remExpirationDate e = 0"
    and "row ''remediation_id'' = Some (int_param i)"
    and "\<forall>p \<in> set remediationProperties. row (prName p) = Some (fst (prAccess p e))"
  shows "row ''remediation_expiration_date'' = Some (PVal (TimeV 0)) \<and>
    conflicts now r (fst (remediationRowToData enc row order)) \<and>
    \<not> conflicts now r (fst (remediationRowToData enc (row(''remediation_expiration_date'' \<mapsto> PVal NullV)) order))"
proof (intro conjI)
  show "row ''remediation_expiration_date'' = Some (PVal (TimeV 0))"
    using assms(6,8) by (simp add: remediationProperties_def NewProperty_def)
  show "conflicts now r (fst (remediationRowToData enc row order))"
    using assms(2-6) by (simp add: remediation_row_reads [OF assms(7,8)] read_remediation_def conflicts_def IsZero_def valid_or_unset_def IsValidId_def)
  have "remExpirationDate (fst (remediationRowToData enc (row(''remediation_expiration_date'' \<mapsto> PVal NullV)) order)) = unix_epoch"
    by (simp add: remediationRowToData_def Let_def AsRemediation_def scan_RemediationRow_def column_defs)
  then show "\<not> conflicts now r (fst (remediationRowToData enc (row(''remediation_expiration_date'' \<mapsto> PVal NullV)) order))"
    using assms(1) by (simp add: conflicts_def Let_def IsZero_def unix_epoch_def)
qed

definition example_row :: "Remediation \<Rightarrow> row" where
  "example_row e = inserted_row Map.empty (InsertQuery remediationObject e) ''remediation_id'' 1"

theorem null_expiration_is_expired_witness:
  "(let e = (example_remediation 1 ''false_positive'' [] 0)\<lparr>remComponentId := 4\<rparr>; row = example_row e; now = unix_epoch + 1
    in row ''remediation_expiration_date'' = Some (PVal (TimeV 0)) \<and>
       conflicts now e (fst (remediationRowToData (\<lambda>fs. []) row [])) \<and>
       \<not> conflicts now e (fst (remediationRowToData (\<lambda>fs. []) (row(''remediation_expiration_date'' \<mapsto> PVal NullV)) [])))"
proof -
  let ?e = "(example_remediation 1 ''false_positive'' [] 0)\<lparr>remComponentId := 4\<rparr>"
  have "\<forall>p \<in> set remediationProperties. example_row ?e (prName p) = Some (fst (prAccess p ?e))"
    using inserted_property [OF tables_keyed(9)] by (simp add: example_row_def remediationObject_def)
  then show ?thesis unfolding Let_def
    by (intro null_expiration_is_expired [of "unix_epoch + 1" ?e ?e "example_row ?e" 1])
      (simp_all add: example_remediation_def NewRemediationType_def remediation_type_defs example_row_def inserted_row_def)
qed
end
