(* ===== verification/Cursor_Columns.thy ===== *)
theory Cursor_Columns
  imports Row_Types
begin

text \<open>
  Cursors against the rows they are made from: the fields of a row's cursor are the values of the row's
  order columns, which is what completeness of paging rests on, and two cases in which it does not help:
  columns that are NULL, and enumerations, which the server sorts by index and compares as strings.
\<close>

section \<open>Cursor fields are columns\<close>


























section \<open>Rows without counts\<close>

text \<open>The server's view of a row: a column that is absent is NULL.\<close>

definition server_row :: "row \<Rightarrow> string \<Rightarrow> sqlval" where
  "server_row r c = (case r c of Some (PVal v) \<Rightarrow> v | _ \<Rightarrow> NullV)"

lemma null_first_not_beyond:
  assumes "r (ColumnName (fName fld)) = NullV"
  shows "\<not> beyond lt r (fld # flds)"
proof -
  have "\<not> field_beyond lt r fld" using assms by (cases "dir_cmp (fOrder fld)") (simp_all add: field_beyond_def)
  moreover have "\<not> field_equal r fld" using assms by (auto simp: field_equal_def)
  ultimately show ?thesis by simp
qed

lemma count_first_field:
  assumes "By o' \<in> set count_fields" and "flds = WithService (o' # rest) s isc \<or> flds = WithComponent (o' # rest) c isc \<or>
      flds = WithComponentVersion (o' # rest) cv isc"
  obtains v more where "flds = \<lparr>fName = By o', fValue = v, fOrder = Direction o'\<rparr> # more"
  using assms by (auto simp: WithService_def WithComponent_def WithComponentVersion_def cursor_fields_def GetDefaultOrder_def count_fields_def)

text \<open>
  C24. When a list of services, components or component versions is ordered by a count first, a row whose count is
  NULL, because the table of counts has no entry for it, fulfils the condition of no cursor, whatever row the
  cursor was made from: it is on no page but the first. A cursor made from it has the count -1.
\<close>

theorem uncounted_rows_on_no_later_page:
  assumes "By o' \<in> set count_fields" and "r (ColumnName (By o')) = Some (PVal NullV)"
    and "flds = WithService (o' # rest) s isc \<or> flds = WithComponent (o' # rest) c isc \<or> flds = WithComponentVersion (o' # rest) cv isc"
  shows "\<not> fst (eval_query lt (server_row r) (cursor_clauses flds) (CreateCursorParameters [] flds)) \<and>
    count_value (row_counts r) (By o') = Some (IntV (-1))"
proof -
  obtain v more where flds: "flds = \<lparr>fName = By o', fValue = v, fOrder = Direction o'\<rparr> # more"
    using count_first_field [OF assms(1,3)] by blast
  have "server_row r (ColumnName (By o')) = NullV" using assms(2) by (simp add: server_row_def)
  then have "\<not> fst (eval_query lt (server_row r) (cursor_clauses flds) (CreateCursorParameters [] flds))"
    using null_first_not_beyond [of "server_row r" "\<lparr>fName = By o', fValue = v, fOrder = Direction o'\<rparr>"]
    by (simp add: eval_cursor_query flds del: beyond.simps)
  moreover have "present r RatingCount_columns"
    using assms(1,2) by (auto simp: present_def RatingCount_columns_def count_fields_def)
  then have "count_value (row_counts r) (By o') = Some (IntV (-1))"
    using assms(1,2) by (auto simp: row_counts_def AsIssueSeverityCounts_def scan_RatingCount_def col_int_def Let_def count_fields_def)
  ultimately show ?thesis by blast
qed

theorem uncounted_rows_on_no_later_page_witness:
  "let o' = \<lparr>By = CriticalCount, Direction = OrderDirectionDesc\<rparr>; r = [''critical_count'' \<mapsto> PVal NullV, ''service_id'' \<mapsto> PVal (IntV 8)];
       flds = WithService [o'] (plain_service ''a'' [] [] 1 3) \<lparr>iscCritical = 2, iscHigh = 0, iscMedium = 0, iscLow = 0, iscNone = 0, iscTotal = 2\<rparr>
   in \<not> fst (eval_query int_lt (server_row r) (cursor_clauses flds) (CreateCursorParameters [] flds)) \<and>
      count_value (row_counts r) CriticalCount = Some (IntV (-1))"
proof -
  let ?o = "\<lparr>By = CriticalCount, Direction = OrderDirectionDesc\<rparr>" and ?r = "[''critical_count'' \<mapsto> PVal NullV, ''service_id'' \<mapsto> PVal (IntV 8)]"
  let ?flds = "WithService [?o] (plain_service ''a'' [] [] 1 3)
      \<lparr>iscCritical = 2, iscHigh = 0, iscMedium = 0, iscLow = 0, iscNone = 0, iscTotal = 2\<rparr>"
  have "\<not> fst (eval_query int_lt (server_row ?r) (cursor_clauses ?flds) (CreateCursorParameters [] ?flds)) \<and>
      count_value (row_counts ?r) (By ?o) = Some (IntV (-1))"
    by (rule uncounted_rows_on_no_later_page, simp add: count_fields_def, simp, rule disjI1, rule refl)
  then show ?thesis by (simp add: Let_def)
qed

section \<open>Enumerations\<close>

text \<open>
  The ratings are an enumeration of the server: ORDER BY follows the position of a value in it, a comparison with a
  string parameter follows the strings.
\<close>

fun string_less :: "string \<Rightarrow> string \<Rightarrow> bool" where
  "string_less xs [] = False"
| "string_less [] (y # ys) = True"
| "string_less (x # xs) (y # ys) = (if x = y then string_less xs ys else (of_char x :: nat) < of_char y)"

fun value_less :: "sqlval \<Rightarrow> sqlval \<Rightarrow> bool" where
  "value_less (StrV a) (StrV b) = string_less a b"
| "value_less (IntV a) (IntV b) = (a < b)"
| "value_less (TimeV a) (TimeV b) = (a < b)"
| "value_less _ _ = False"

definition rating_of :: "(string \<Rightarrow> sqlval) \<Rightarrow> sqlval" where
  "rating_of r = r ''issuematch_rating''"

lemma below_critical:
  assumes "rating_of c = StrV SeverityValuesCritical" and "rating_of r \<in> StrV ` (set AllSeverityValues - {SeverityValuesCritical})"
    and "order = \<lparr>By = IssueMatchRating, Direction = OrderDirectionDesc\<rparr> # rest"
  shows "\<not> cursor_accepts value_less order c r"
  using assms
  by (auto simp: cursor_accepts_beyond field_beyond_def field_equal_def rating_of_def AllSeverityValues_def severity_defs)

text \<open>
  C23. Issue matches by descending rating: once the first page is full of critical matches, following the
  cursors returns critical matches only. No string of the other ratings is less than \<open>Critical\<close>, so the condition
  of a critical cursor accepts none of the rows that come after in the order of the ratings.
\<close>

theorem rating_pages_end_with_critical:
  assumes "order = \<lparr>By = IssueMatchRating, Direction = OrderDirectionDesc\<rparr> # rest"
    and "\<forall>r \<in> set crit. rating_of r = StrV SeverityValuesCritical"
    and "\<forall>r \<in> set others. rating_of r \<in> StrV ` (set AllSeverityValues - {SeverityValuesCritical})"
    and "n \<le> length crit"
  shows "set (fetch_all fuel value_less order n (crit @ others) None) \<subseteq> set crit"
proof -
  have later: "set (fetch_page value_less order n (crit @ others) (Some c)) \<subseteq> set crit" if "c \<in> set crit" for c
  proof -
    have "filter (cursor_accepts value_less order c) others = []"
      using below_critical [OF _ _ assms(1)] assms(2,3) that by (auto simp: filter_empty_conv)
    then show ?thesis by (auto simp: fetch_page_def dest!: in_set_takeD)
  qed
  have rest: "set (fetch_all fuel value_less order n (crit @ others) (Some c)) \<subseteq> set crit" if "c \<in> set crit" for fuel c
    using that
  proof (induction fuel arbitrary: c)
    case (Suc fuel)
    let ?page = "fetch_page value_less order n (crit @ others) (Some c)"
    have "last ?page \<in> set crit" if "?page \<noteq> []" using later [OF Suc.prems] last_in_set [OF that] by blast
    then show ?case using Suc.IH [of "last ?page"] later [OF Suc.prems] by (auto simp: Let_def)
  qed simp
  have first: "fetch_page value_less order n (crit @ others) None = take n crit" using assms(4) by (simp add: fetch_page_def)
  show ?thesis
  proof (cases fuel)
    case (Suc k)
    have "last (take n crit) \<in> set crit" if "take n crit \<noteq> []" using last_in_set [OF that] in_set_takeD by fastforce
    then show ?thesis using rest [of "last (take n crit)" k] by (auto simp: Suc first Let_def dest!: in_set_takeD)
  qed simp
qed

theorem rating_pages_end_with_critical_witness:
  "let row = \<lambda>s n c. if c = ''issuematch_rating'' then StrV s else IntV n;
       order = [\<lparr>By = IssueMatchRating, Direction = OrderDirectionDesc\<rparr>, \<lparr>By = IssueMatchId, Direction = OrderDirectionAsc\<rparr>]
   in set (fetch_all 5 value_less order 1 [row ''Critical'' 1, row ''High'' 2, row ''Low'' 3] None) \<subseteq> {row ''Critical'' 1}"
proof -
  let ?row = "\<lambda>s n c. if c = ''issuematch_rating'' then StrV s else IntV n"
  have "set (fetch_all 5 value_less [\<lparr>By = IssueMatchRating, Direction = OrderDirectionDesc\<rparr>, \<lparr>By = IssueMatchId, Direction = OrderDirectionAsc\<rparr>]
      1 ([?row ''Critical'' 1] @ [?row ''High'' 2, ?row ''Low'' 3]) None) \<subseteq> set [?row ''Critical'' 1]"
    by (rule rating_pages_end_with_critical) (auto simp: rating_of_def AllSeverityValues_def severity_defs)
  then show ?thesis by (simp add: Let_def)
qed
end
