(* ===== verification/Graphql_Model.thy ===== *)
theory Graphql_Model
  imports Scanner_Runs Row_Types
begin

text \<open>
  The GraphQL models (\<open>internal/api/graphql/graph/model\<close>): inputs of mutations and their conversion to
  entities, entities as nodes of answers, orders, page information and severities. The types of inputs and
  nodes are those of the schema (\<open>graph/schema\<close>); a nullable field is an option, a field of a node
  that is always set is its value, and fields that have a resolver of their own stay unset and are left out.
  The values of an enumeration are strings.
\<close>

section \<open>Inputs\<close>

text \<open>\<open>lo.FromPtr\<close>: the value of a pointer, or the zero value of its type.\<close>

definition FromPtr :: "string option \<Rightarrow> string" where
  "FromPtr p = (case p of None \<Rightarrow> [] | Some s \<Rightarrow> s)"

lemma FromPtr_simps [simp]: "FromPtr None = []" "FromPtr (Some s) = s" by (simp_all add: FromPtr_def)

record UserInput =
  uiUniqueUserId :: "string option"
  uiType :: "string option"
  uiName :: "string option"
  uiEmail :: "string option"

record SupportGroupInput =
  giCcrn :: "string option"

record ServiceInput =
  siCcrn :: "string option"
  siDomain :: "string option"
  siRegion :: "string option"

record ComponentInput =
  coCcrn :: "string option"
  coRepository :: "string option"
  coOrganization :: "string option"
  coUrl :: "string option"
  coType :: "string option"

record ComponentVersionInput =
  vnVersion :: "string option"
  vnComponentId :: "string option"
  vnTag :: "string option"
  vnRepository :: "string option"
  vnOrganization :: "string option"
  vnEndOfLife :: "bool option"

record ComponentInstanceInput =
  niCcrn :: "string option"
  niCount :: "int option"
  niComponentVersionId :: "string option"
  niServiceId :: "string option"
  niRegion :: "string option"
  niCluster :: "string option"
  niNamespace :: "string option"
  niDomain :: "string option"
  niProject :: "string option"
  niPod :: "string option"
  niContainer :: "string option"
  niType :: "string option"
  niContext :: json
  niUuid :: "string option"
  niParentId :: "string option"

record IssueInput =
  iiPrimaryName :: "string option"
  iiDescription :: "string option"
  iiUuid :: "string option"
  iiType :: "string option"

record IssueMatchInput =
  miStatus :: "string option"
  miRemediationDate :: "string option"
  miDiscoveryDate :: "string option"
  miTargetRemediationDate :: "string option"
  miIssueId :: "string option"
  miComponentInstanceId :: "string option"
  miUserId :: "string option"

record IssueRepositoryInput =
  riName :: "string option"
  riUrl :: "string option"

record SeverityInput =
  yiVector :: "string option"
  yiRating :: "string option"

record IssueVariantInput =
  wiSecondaryName :: "string option"
  wiDescription :: "string option"
  wiIssueRepositoryId :: "string option"
  wiExternalUrl :: "string option"
  wiIssueId :: "string option"
  wiSeverity :: "SeverityInput option"

record RemediationInput =
  reType :: "string option"
  reUrl :: "string option"
  reDescription :: "string option"
  reSeverity :: "string option"
  reRemediationDate :: "string option"
  reRemediatedBy :: "string option"
  reService :: "string option"
  reImage :: "string option"
  reVulnerability :: "string option"
  reExpirationDate :: "string option"

record ScannerRunInput =
  srunUuid :: "string option"
  srunTag :: "string option"

record SIEMAlertInput =
  saName :: "string option"
  saDescription :: "string option"
  saSeverity :: "string option"
  saUrl :: "string option"
  saService :: "string option"
  saSupportGroup :: "string option"
  saRegion :: "string option"
  saCluster :: "string option"
  saNamespace :: "string option"
  saPod :: "string option"
  saContainer :: "string option"
  saSource :: "string option"

section \<open>Enumerations\<close>

definition SeverityValue :: "string \<Rightarrow> string \<times> goerr option" where
  "SeverityValue s =
     (if s \<in> {SeverityValuesNone, SeverityValuesLow, SeverityValuesMedium, SeverityValuesHigh, SeverityValuesCritical}
      then (s, None)
      else (SeverityValuesNone, Some (ErrVal ''fmt'' (''invalid SeverityValues provided: '' @ s))))"

definition IssueMatchStatusValue :: "string \<Rightarrow> string" where
  "IssueMatchStatusValue s =
     (if s = IssueMatchStatusValuesFalsePositive then IssueMatchStatusValuesFalsePositive
      else if s = IssueMatchStatusValuesRiskAccepted then IssueMatchStatusValuesRiskAccepted
      else if s = IssueMatchStatusValuesMitigated then IssueMatchStatusValuesMitigated
      else IssueMatchStatusValuesNew)"

definition ComponentTypeValues :: "string list" where
  "ComponentTypeValues = [''containerImage'', ''virtualMachineImage'', ''repository'']"

definition ComponentTypeValue :: "string \<Rightarrow> string \<times> goerr option" where
  "ComponentTypeValue s =
     (if s \<in> set ComponentTypeValues then (s, None)
      else (''unknown'', Some (ErrVal ''fmt'' (''invalid ComponentTypeValues provided: '' @ s))))"

definition ComponentInstanceTypes :: "string list" where
  "ComponentInstanceTypes =
     [''Unknown'', ''Project'', ''Server'', ''SecurityGroup'', ''SecurityGroupRule'', ''DnsZone'', ''FloatingIp'',
      ''RbacPolicy'', ''User'', ''Container'', ''RecordSet'', ''ProjectConfiguration'']"

definition ComponentInstanceType :: "string \<Rightarrow> string \<times> goerr option" where
  "ComponentInstanceType s =
     (if s \<in> set ComponentInstanceTypes then (s, None)
      else (''unknown'', Some (ErrVal ''fmt'' (''invalid ComponentInstanceType provided: '' @ s))))"

definition IssueTypes :: "string list" where
  "IssueTypes = [''Vulnerability'', ''PolicyViolation'', ''SecurityEvent'']"

definition AllSeverityValuesOrdered :: "string list" where
  "AllSeverityValuesOrdered =
     [SeverityValuesCritical, SeverityValuesHigh, SeverityValuesMedium, SeverityValuesLow, SeverityValuesNone]"

definition AllIssueTypesOrdered :: "string list" where
  "AllIssueTypesOrdered = [IssueTypePolicyViolation, IssueTypeSecurityEvent, IssueTypeVulnerability]"

definition AllIssueMatchStatusValuesOrdered :: "string list" where
  "AllIssueMatchStatusValuesOrdered =
     [IssueMatchStatusValuesNew, IssueMatchStatusValuesRiskAccepted, IssueMatchStatusValuesFalsePositive,
      IssueMatchStatusValuesMitigated]"

definition AllComponentInstanceTypesOrdered :: "string list" where
  "AllComponentInstanceTypesOrdered =
     [''Unknown'', ''Project'', ''Server'', ''SecurityGroup'', ''DnsZone'', ''FloatingIp'', ''RbacPolicy'', ''User'',
      ''Container'', ''RecordSet'', ''SecurityGroupRule'', ''ProjectConfiguration'']"

datatype VulnerabilityStatus = StatusOpen | StatusRemediated | StatusAll

definition NewIssueStatus :: "VulnerabilityStatus option \<Rightarrow> int" where
  "NewIssueStatus status =
     (case status of
        None \<Rightarrow> IssueStatusAll
      | Some StatusOpen \<Rightarrow> IssueStatusOpen
      | Some StatusRemediated \<Rightarrow> IssueStatusRemediated
      | Some StatusAll \<Rightarrow> IssueStatusAll)"

datatype StateFilter = StateFilterActive | StateFilterDeleted

fun state_filter_type :: "StateFilter \<Rightarrow> StateFilterType" where
  "state_filter_type StateFilterDeleted = Deleted"
| "state_filter_type StateFilterActive = Active"

definition GetStateFilterType :: "StateFilter list \<Rightarrow> StateFilterType list" where
  "GetStateFilterType sf = (if sf \<noteq> [] then map state_filter_type sf else [Active])"

section \<open>Orders\<close>

datatype OrderDirectionInput = OrderAsc | OrderDesc

text \<open>Both parts of an order are nullable in the schema and dereferenced as they are.\<close>

record 'f OrderByInput =
  obBy :: "'f option"
  obDirection :: "OrderDirectionInput option"

fun ToOrderDirectionEntity :: "OrderDirectionInput option \<Rightarrow> OrderDirection go" where
  "ToOrderDirectionEntity None = Inl NilDereference"
| "ToOrderDirectionEntity (Some OrderDesc) = Inr OrderDirectionDesc"
| "ToOrderDirectionEntity (Some OrderAsc) = Inr OrderDirectionAsc"

text \<open>The zero value of \<open>entity.OrderByField\<close>, which a field without a case keeps.\<close>

definition zero_order_field :: OrderByField where
  "zero_order_field = ComponentInstanceCcrn"

definition to_order :: "('f \<Rightarrow> OrderByField) \<Rightarrow> 'f OrderByInput \<Rightarrow> entity_order go" where
  "to_order field o' =
     (case obBy o' of
        None \<Rightarrow> Inl NilDereference
      | Some f \<Rightarrow> bindR (ToOrderDirectionEntity (obDirection o')) (\<lambda>dir. Inr \<lparr>By = field f, Direction = dir\<rparr>))"

datatype SupportGroupOrderByField = SupportGroupOrderByFieldCcrn

definition SupportGroupOrder :: "SupportGroupOrderByField OrderByInput \<Rightarrow> entity_order go" where
  "SupportGroupOrder = to_order (\<lambda>f. case f of SupportGroupOrderByFieldCcrn \<Rightarrow> SupportGroupCcrn)"

datatype ComponentVersionOrderByField = ComponentVersionOrderByFieldSeverity | ComponentVersionOrderByFieldRepository

definition ComponentVersionOrder :: "ComponentVersionOrderByField OrderByInput \<Rightarrow> entity_order go" where
  "ComponentVersionOrder = to_order (\<lambda>f. case f of
       ComponentVersionOrderByFieldRepository \<Rightarrow> ComponentVersionRepository
     | _ \<Rightarrow> zero_order_field)"

datatype IssueOrderByField = IssueOrderByFieldSeverity | IssueOrderByFieldPrimaryName

definition IssueOrder :: "IssueOrderByField OrderByInput \<Rightarrow> entity_order go" where
  "IssueOrder = to_order (\<lambda>f. case f of
       IssueOrderByFieldPrimaryName \<Rightarrow> IssuePrimaryName
     | IssueOrderByFieldSeverity \<Rightarrow> IssueVariantRating)"

datatype ComponentInstanceOrderByField =
    ComponentInstanceOrderByFieldCcrn
  | ComponentInstanceOrderByFieldRegion
  | ComponentInstanceOrderByFieldNamespace
  | ComponentInstanceOrderByFieldCluster
  | ComponentInstanceOrderByFieldDomain
  | ComponentInstanceOrderByFieldProject
  | ComponentInstanceOrderByFieldPod
  | ComponentInstanceOrderByFieldContainer
  | ComponentInstanceOrderByFieldType

definition ComponentInstanceOrder :: "ComponentInstanceOrderByField OrderByInput \<Rightarrow> entity_order go" where
  "ComponentInstanceOrder = to_order (\<lambda>f. case f of
       ComponentInstanceOrderByFieldCcrn \<Rightarrow> ComponentInstanceCcrn
     | ComponentInstanceOrderByFieldRegion \<Rightarrow> ComponentInstanceRegion
     | ComponentInstanceOrderByFieldCluster \<Rightarrow> ComponentInstanceCluster
     | ComponentInstanceOrderByFieldNamespace \<Rightarrow> ComponentInstanceNamespace
     | ComponentInstanceOrderByFieldDomain \<Rightarrow> ComponentInstanceDomain
     | ComponentInstanceOrderByFieldProject \<Rightarrow> ComponentInstanceProject
     | ComponentInstanceOrderByFieldPod \<Rightarrow> ComponentInstancePod
     | ComponentInstanceOrderByFieldContainer \<Rightarrow> ComponentInstanceContainer
     | ComponentInstanceOrderByFieldType \<Rightarrow> ComponentInstanceTypeOrder)"

datatype IssueMatchOrderByField =
    IssueMatchOrderByFieldPrimaryName
  | IssueMatchOrderByFieldTargetRemediationDate
  | IssueMatchOrderByFieldComponentInstanceCcrn
  | IssueMatchOrderByFieldSeverity

definition IssueMatchOrder :: "IssueMatchOrderByField OrderByInput \<Rightarrow> entity_order go" where
  "IssueMatchOrder = to_order (\<lambda>f. case f of
       IssueMatchOrderByFieldPrimaryName \<Rightarrow> IssuePrimaryName
     | IssueMatchOrderByFieldComponentInstanceCcrn \<Rightarrow> ComponentInstanceCcrn
     | IssueMatchOrderByFieldTargetRemediationDate \<Rightarrow> IssueMatchTargetRemediationDate
     | IssueMatchOrderByFieldSeverity \<Rightarrow> IssueMatchRating)"

datatype ServiceOrderByField = ServiceOrderByFieldCcrn | ServiceOrderByFieldSeverity

definition ServiceOrder :: "ServiceOrderByField OrderByInput \<Rightarrow> entity_order go" where
  "ServiceOrder = to_order (\<lambda>f. case f of ServiceOrderByFieldCcrn \<Rightarrow> ServiceCcrn | _ \<Rightarrow> zero_order_field)"

datatype RemediationOrderByField =
    RemediationOrderByFieldVulnerability
  | RemediationOrderByFieldSeverity
  | RemediationOrderByFieldExpirationDate

definition RemediationOrder :: "RemediationOrderByField OrderByInput \<Rightarrow> entity_order go" where
  "RemediationOrder = to_order (\<lambda>f. case f of
       RemediationOrderByFieldVulnerability \<Rightarrow> RemediationIssue
     | RemediationOrderByFieldSeverity \<Rightarrow> RemediationSeverity
     | RemediationOrderByFieldExpirationDate \<Rightarrow> RemediationExpirationDate)"

section \<open>Entities of inputs\<close>

text \<open>
  Times are parsed and printed by functions that are arguments: \<open>time.Parse\<close> and \<open>Format\<close> with the layout
  RFC 3339, and \<open>String\<close>. A time that does not parse is the zero time, an id that does not parse is 0.
\<close>

record time_text =
  tt_Parse :: "string \<Rightarrow> gotime option"
  tt_Format :: "gotime \<Rightarrow> string"
  tt_String :: "gotime \<Rightarrow> string"

definition parsed_time :: "time_text \<Rightarrow> string option \<Rightarrow> gotime" where
  "parsed_time tt p = (case tt_Parse tt (FromPtr p) of None \<Rightarrow> 0 | Some t \<Rightarrow> t)"

text \<open>
  The value of \<open>strconv.ParseInt(s, 10, 64)\<close> when its error is ignored: 0 for a syntax error, the nearest bound
  for a number out of range.
\<close>

definition ParseInt_value :: "string \<Rightarrow> int" where
  "ParseInt_value s =
     (case ParseInt s of
        Some i \<Rightarrow> i
      | None \<Rightarrow>
          if parse_nat (if take 1 s = ''-'' \<or> take 1 s = ''+'' then drop 1 s else s) = None then 0
          else if take 1 s = ''-'' then - (2 ^ 63) else 2 ^ 63 - 1)"

definition parsed_id :: "string option \<Rightarrow> id64" where
  "parsed_id p = ParseInt_value (FromPtr p)"

text \<open>The conversion to \<open>int16\<close>, which wraps around.\<close>

definition to_int16 :: "int \<Rightarrow> int" where
  "to_int16 n = (n + 2 ^ 15) mod 2 ^ 16 - 2 ^ 15"

definition HumanUserType :: int where "HumanUserType = 1"
definition TechnicalUserType :: int where "TechnicalUserType = 2"
definition MailingListUserType :: int where "MailingListUserType = 3"

definition GetUserTypeFromString :: "string \<Rightarrow> int" where
  "GetUserTypeFromString uts =
     (if uts = ''user'' then HumanUserType
      else if uts = ''technical'' then TechnicalUserType
      else if uts = ''mail_list'' then MailingListUserType
      else InvalidUserType)"

definition NewUserEntity :: "UserInput \<Rightarrow> User" where
  "NewUserEntity user =
     \<lparr>userMeta = zero_metadata, userId = 0, userName = FromPtr (uiName user),
      userUniqueUserID = FromPtr (uiUniqueUserId user), userType = GetUserTypeFromString (FromPtr (uiType user)),
      userEmail = FromPtr (uiEmail user)\<rparr>"

definition NewSupportGroupEntity :: "SupportGroupInput \<Rightarrow> SupportGroup" where
  "NewSupportGroupEntity supportGroup = \<lparr>sgMeta = zero_metadata, sgId = 0, sgCCRN = FromPtr (giCcrn supportGroup)\<rparr>"

definition NewServiceEntity :: "ServiceInput \<Rightarrow> Service" where
  "NewServiceEntity service =
     \<lparr>svcMeta = zero_metadata, svcId = 0, svcCCRN = FromPtr (siCcrn service), svcDomain = FromPtr (siDomain service),
      svcRegion = FromPtr (siRegion service), svcSupportGroupId = 0, svcOwners = [], svcPriority = 0,
      svcIRS = \<lparr>irsMeta = zero_metadata, irsServiceId = 0, irsIssueRepositoryId = 0, irsPriority = 0\<rparr>\<rparr>"

definition NewComponentEntity :: "ComponentInput \<Rightarrow> Component" where
  "NewComponentEntity component =
     (let componentType = (case coType component of
            None \<Rightarrow> []
          | Some ty \<Rightarrow> if ty \<in> set ComponentTypeValues then ty else [])
      in \<lparr>compMeta = zero_metadata, compId = 0, compCCRN = FromPtr (coCcrn component), compType = componentType,
          compRepository = FromPtr (coRepository component), compOrganization = FromPtr (coOrganization component),
          compUrl = FromPtr (coUrl component)\<rparr>)"

definition NewComponentVersionEntity :: "ComponentVersionInput \<Rightarrow> ComponentVersion" where
  "NewComponentVersionEntity componentVersion =
     (let componentId = (case ParseInt (FromPtr (vnComponentId componentVersion)) of None \<Rightarrow> 0 | Some i \<Rightarrow> i)
      in \<lparr>cvMeta = zero_metadata, cvId = 0, cvVersion = FromPtr (vnVersion componentVersion), cvComponentId = componentId,
          cvTag = FromPtr (vnTag componentVersion), cvRepository = FromPtr (vnRepository componentVersion),
          cvOrganization = FromPtr (vnOrganization componentVersion), cvEndOfLife = vnEndOfLife componentVersion\<rparr>)"

text \<open>The context is never a nil pointer: without one in the input it points to a nil map, which is \<open>JNull\<close>.\<close>

definition NewComponentInstanceEntity :: "ComponentInstanceInput \<Rightarrow> ComponentInstance" where
  "NewComponentInstanceEntity componentInstance =
     (let parentId = (case niParentId componentInstance of
            None \<Rightarrow> 0
          | Some p \<Rightarrow> if p = [] then 0 else ParseInt_value p);
          ciType' = (case niType componentInstance of
            None \<Rightarrow> []
          | Some ty \<Rightarrow> if ty \<in> set ComponentInstanceTypes then ty else [])
      in \<lparr>ciMeta = zero_metadata, ciId = 0, ciCCRN = FromPtr (niCcrn componentInstance),
          ciRegion = FromPtr (niRegion componentInstance), ciCluster = FromPtr (niCluster componentInstance),
          ciNamespace = FromPtr (niNamespace componentInstance), ciDomain = FromPtr (niDomain componentInstance),
          ciProject = FromPtr (niProject componentInstance), ciPod = FromPtr (niPod componentInstance),
          ciContainer = FromPtr (niContainer componentInstance), ciType = NewComponentInstanceType ciType',
          ciParentId = parentId, ciContext = Some (niContext componentInstance),
          ciCount = to_int16 (case niCount componentInstance of None \<Rightarrow> 0 | Some n \<Rightarrow> n),
          ciComponentVersionId = parsed_id (niComponentVersionId componentInstance),
          ciServiceId = parsed_id (niServiceId componentInstance)\<rparr>)"

definition NewIssueEntity :: "IssueInput \<Rightarrow> Issue" where
  "NewIssueEntity issue =
     (let issueType = (case iiType issue of
            None \<Rightarrow> []
          | Some ty \<Rightarrow> if ty \<in> set IssueTypes then ty else [])
      in \<lparr>isMeta = zero_metadata, isId = 0, isType = NewIssueType issueType,
          isPrimaryName = FromPtr (iiPrimaryName issue), isDescription = FromPtr (iiDescription issue)\<rparr>)"

definition zero_severity :: severity where
  "zero_severity = \<lparr>sevValue = [], sevScore = 0, sevVector = [], sevExternalUrl = []\<rparr>"

definition NewIssueMatchEntity :: "time_text \<Rightarrow> IssueMatchInput \<Rightarrow> IssueMatch" where
  "NewIssueMatchEntity tt im =
     (let status = (case miStatus im of
            None \<Rightarrow> IssueMatchStatusValuesNone
          | Some st \<Rightarrow> NewIssueMatchStatusValue st)
      in \<lparr>imMeta = zero_metadata\<lparr>CreatedAt := parsed_time tt (miDiscoveryDate im)\<rparr>, imId = 0, imStatus = status,
          imUserId = parsed_id (miUserId im), imSeverity = zero_severity, imComponentInstance = None,
          imComponentInstanceId = parsed_id (miComponentInstanceId im), imIssue = None,
          imIssueId = parsed_id (miIssueId im), imRemediationDate = parsed_time tt (miRemediationDate im),
          imTargetRemediationDate = parsed_time tt (miTargetRemediationDate im)\<rparr>)"

definition NewIssueRepositoryEntity :: "IssueRepositoryInput \<Rightarrow> IssueRepository" where
  "NewIssueRepositoryEntity repo =
     \<lparr>irMeta = zero_metadata, irId = 0, irName = FromPtr (riName repo), irUrl = FromPtr (riUrl repo),
      irIRS = \<lparr>irsMeta = zero_metadata, irsServiceId = 0, irsIssueRepositoryId = 0, irsPriority = 0\<rparr>\<rparr>"

type_synonym cvss_decoder = "string \<Rightarrow> (string \<times> rat \<times> cvss_version) option"

definition NewSeverityEntity :: "cvss_decoder \<Rightarrow> SeverityInput option \<Rightarrow> severity" where
  "NewSeverityEntity cvss severity =
     (case severity of
        None \<Rightarrow> zero_severity
      | Some y \<Rightarrow>
          (case (yiVector y, yiRating y) of
             (None, None) \<Rightarrow> zero_severity
           | (None, Some rating) \<Rightarrow> NewSeverityFromRating rating
           | (Some vec, Some rating) \<Rightarrow> if vec = [] then NewSeverityFromRating rating else NewSeverity cvss vec
           | (Some vec, None) \<Rightarrow> NewSeverity cvss vec))"

definition NewIssueVariantEntity :: "cvss_decoder \<Rightarrow> IssueVariantInput \<Rightarrow> IssueVariant" where
  "NewIssueVariantEntity cvss issueVariant =
     \<lparr>ivMeta = zero_metadata, ivId = 0, ivIssueRepositoryId = parsed_id (wiIssueRepositoryId issueVariant),
      ivIssueRepository = None, ivSecondaryName = FromPtr (wiSecondaryName issueVariant),
      ivIssueId = parsed_id (wiIssueId issueVariant), ivIssue = None,
      ivSeverity = NewSeverityEntity cvss (wiSeverity issueVariant),
      ivDescription = FromPtr (wiDescription issueVariant), ivExternalUrl = FromPtr (wiExternalUrl issueVariant)\<rparr>"

definition NewRemediationEntity :: "time_text \<Rightarrow> RemediationInput \<Rightarrow> Remediation" where
  "NewRemediationEntity tt r =
     \<lparr>remMeta = zero_metadata, remId = 0, remType = NewRemediationType (FromPtr (reType r)), remURL = FromPtr (reUrl r),
      remDescription = FromPtr (reDescription r), remRemediationDate = parsed_time tt (reRemediationDate r),
      remExpirationDate = parsed_time tt (reExpirationDate r), remSeverity = NewSeverityValues (FromPtr (reSeverity r)),
      remService = FromPtr (reService r), remServiceId = 0, remComponent = FromPtr (reImage r), remComponentId = 0,
      remIssue = FromPtr (reVulnerability r), remIssueId = 0, remRemediatedBy = FromPtr (reRemediatedBy r),
      remRemediatedById = 0\<rparr>"

text \<open>The two readings of the clock may differ.\<close>

definition NewScannerRunEntity :: "gotime \<Rightarrow> gotime \<Rightarrow> ScannerRunInput \<Rightarrow> ScannerRun" where
  "NewScannerRunEntity now1 now2 sr =
     \<lparr>srMeta = zero_metadata, srRunID = -1, srUUID = FromPtr (srunUuid sr), srTag = FromPtr (srunTag sr),
      srStartRun = now1, srEndRun = now2, srCompleted = False\<rparr>"

section \<open>Nodes of answers\<close>

record MetadataNode =
  mdCreatedAt :: string
  mdCreatedBy :: string
  mdDeletedAt :: string
  mdUpdatedAt :: string
  mdUpdatedBy :: string

definition getModelMetadata :: "time_text \<Rightarrow> metadata \<Rightarrow> MetadataNode" where
  "getModelMetadata tt em =
     \<lparr>mdCreatedAt = tt_String tt (CreatedAt em), mdCreatedBy = FormatInt (CreatedBy em),
      mdDeletedAt = tt_String tt (DeletedAt em), mdUpdatedAt = tt_String tt (UpdatedAt em),
      mdUpdatedBy = FormatInt (UpdatedBy em)\<rparr>"

record PageNode =
  pnAfter :: "string option"
  pnIsCurrent :: bool
  pnPageNumber :: "int option"
  pnPageCount :: "int option"

definition NewPage :: "Page option \<Rightarrow> PageNode option" where
  "NewPage p = (case p of
      None \<Rightarrow> None
    | Some p \<Rightarrow> Some \<lparr>pnAfter = After p, pnIsCurrent = IsCurrent p, pnPageNumber = PageNumber p, pnPageCount = PageCount p\<rparr>)"

record PageInfoNode =
  inHasNextPage :: bool
  inHasPreviousPage :: bool
  inIsValidPage :: bool
  inPageNumber :: "int option"
  inNextPageAfter :: "string option"
  inPages :: "PageNode option list"

definition NewPageInfo :: "PageInfo option \<Rightarrow> PageInfoNode option" where
  "NewPageInfo p = (case p of
      None \<Rightarrow> None
    | Some p \<Rightarrow> Some \<lparr>inHasNextPage = HasNextPage p, inHasPreviousPage = HasPreviousPage p, inIsValidPage = IsValidPage p,
        inPageNumber = PIPageNumber p, inNextPageAfter = NextPageAfter p, inPages = map (\<lambda>page. NewPage (Some page)) (Pages p)\<rparr>)"

text \<open>
  The metrics of a CVSS are what the library reports about the vector; they are a function of it. A severity is shown
  without its CVSS when that is the zero value, which it is exactly when it has no vector.
\<close>

record 'm SeverityNode =
  snValue :: string
  snScore :: rat
  snCvss :: "(string \<times> string \<times> 'm) option"

definition NewSeverityNode :: "(string \<Rightarrow> 'm) \<Rightarrow> severity \<Rightarrow> 'm SeverityNode" where
  "NewSeverityNode metrics sev =
     (let severity = fst (SeverityValue (sevValue sev))
      in if severity = ''unknown'' \<or> sevVector sev = [] \<and> sevExternalUrl sev = []
         then \<lparr>snValue = severity, snScore = sevScore sev, snCvss = None\<rparr>
         else \<lparr>snValue = severity, snScore = sevScore sev,
               snCvss = Some (sevVector sev, sevExternalUrl sev, metrics (sevVector sev))\<rparr>)"

record SeverityCounts =
  cnCritical :: int
  cnHigh :: int
  cnMedium :: int
  cnLow :: int
  cnNone :: int
  cnTotal :: int

definition NewSeverityCounts :: "IssueSeverityCounts \<Rightarrow> SeverityCounts" where
  "NewSeverityCounts counts =
     \<lparr>cnCritical = iscCritical counts, cnHigh = iscHigh counts, cnMedium = iscMedium counts, cnLow = iscLow counts,
      cnNone = iscNone counts, cnTotal = iscTotal counts\<rparr>"

record UserNode =
  unId :: string
  unUniqueUserId :: string
  unName :: string
  unType :: int
  unEmail :: string
  unMetadata :: MetadataNode

definition NewUser :: "time_text \<Rightarrow> User \<Rightarrow> UserNode" where
  "NewUser tt user =
     \<lparr>unId = FormatInt (userId user), unUniqueUserId = userUniqueUserID user, unName = userName user,
      unType = userType user, unEmail = userEmail user, unMetadata = getModelMetadata tt (userMeta user)\<rparr>"

record SupportGroupNode =
  gnId :: string
  gnCcrn :: string
  gnMetadata :: MetadataNode

definition NewSupportGroup :: "time_text \<Rightarrow> SupportGroup \<Rightarrow> SupportGroupNode" where
  "NewSupportGroup tt supportGroup =
     \<lparr>gnId = FormatInt (sgId supportGroup), gnCcrn = sgCCRN supportGroup,
      gnMetadata = getModelMetadata tt (sgMeta supportGroup)\<rparr>"

record ServiceNode =
  vnodeId :: string
  vnodeCcrn :: string
  vnodeDomain :: string
  vnodeRegion :: string
  vnodeObjectMetadata :: "(int \<times> int) option"
  vnodeMetadata :: MetadataNode

definition NewService :: "time_text \<Rightarrow> Service \<Rightarrow> ServiceNode" where
  "NewService tt s =
     \<lparr>vnodeId = FormatInt (svcId s), vnodeCcrn = svcCCRN s, vnodeDomain = svcDomain s, vnodeRegion = svcRegion s,
      vnodeObjectMetadata = None, vnodeMetadata = getModelMetadata tt (svcMeta s)\<rparr>"

text \<open>The numbers of issue matches and component instances; both 0 without aggregations.\<close>

definition NewServiceWithAggregations :: "time_text \<Rightarrow> Service \<times> ServiceAggregations option \<Rightarrow> ServiceNode" where
  "NewServiceWithAggregations tt r =
     (NewService tt (fst r))
       \<lparr>vnodeObjectMetadata := Some (case snd r of
            None \<Rightarrow> (0, 0)
          | Some a \<Rightarrow> (saIssueMatches a, saComponentInstances a))\<rparr>"

record ComponentNode =
  cnodeId :: string
  cnodeCcrn :: string
  cnodeRepository :: string
  cnodeOrganization :: string
  cnodeUrl :: string
  cnodeType :: string
  cnodeMetadata :: MetadataNode

definition NewComponent :: "time_text \<Rightarrow> Component \<Rightarrow> ComponentNode" where
  "NewComponent tt component =
     \<lparr>cnodeId = FormatInt (compId component), cnodeCcrn = compCCRN component, cnodeRepository = compRepository component,
      cnodeOrganization = compOrganization component, cnodeUrl = compUrl component,
      cnodeType = fst (ComponentTypeValue (compType component)), cnodeMetadata = getModelMetadata tt (compMeta component)\<rparr>"

record ComponentVersionNode =
  bnodeId :: string
  bnodeVersion :: string
  bnodeComponentId :: string
  bnodeRepository :: string
  bnodeOrganization :: string
  bnodeTag :: string
  bnodeMetadata :: MetadataNode
  bnodeEndOfLife :: "bool option"

definition NewComponentVersion :: "time_text \<Rightarrow> ComponentVersion \<Rightarrow> ComponentVersionNode" where
  "NewComponentVersion tt componentVersion =
     \<lparr>bnodeId = FormatInt (cvId componentVersion), bnodeVersion = cvVersion componentVersion,
      bnodeComponentId = FormatInt (cvComponentId componentVersion), bnodeRepository = cvRepository componentVersion,
      bnodeOrganization = cvOrganization componentVersion, bnodeTag = cvTag componentVersion,
      bnodeMetadata = getModelMetadata tt (cvMeta componentVersion), bnodeEndOfLife = cvEndOfLife componentVersion\<rparr>"

record ComponentInstanceNode =
  dnodeId :: string
  dnodeCcrn :: string
  dnodeRegion :: string
  dnodeCluster :: string
  dnodeNamespace :: string
  dnodeDomain :: string
  dnodeProject :: string
  dnodePod :: string
  dnodeContainer :: string
  dnodeType :: string
  dnodeParentId :: "string option"
  dnodeContext :: json
  dnodeCount :: int
  dnodeComponentVersionId :: string
  dnodeServiceId :: string
  dnodeMetadata :: MetadataNode

text \<open>\<open>ConvertJsonPointerToValue\<close>: an empty map for a nil pointer.\<close>

definition ConvertJsonPointerToValue :: "json option \<Rightarrow> json" where
  "ConvertJsonPointerToValue jsonVar = (case jsonVar of None \<Rightarrow> JObj [] | Some j \<Rightarrow> j)"

definition NewComponentInstance :: "time_text \<Rightarrow> ComponentInstance \<Rightarrow> ComponentInstanceNode" where
  "NewComponentInstance tt componentInstance =
     \<lparr>dnodeId = FormatInt (ciId componentInstance), dnodeCcrn = ciCCRN componentInstance,
      dnodeRegion = ciRegion componentInstance, dnodeCluster = ciCluster componentInstance,
      dnodeNamespace = ciNamespace componentInstance, dnodeDomain = ciDomain componentInstance,
      dnodeProject = ciProject componentInstance, dnodePod = ciPod componentInstance,
      dnodeContainer = ciContainer componentInstance, dnodeType = ciType componentInstance,
      dnodeParentId = (if ciParentId componentInstance = -1 then None else Some (FormatInt (ciParentId componentInstance))),
      dnodeContext = ConvertJsonPointerToValue (ciContext componentInstance), dnodeCount = ciCount componentInstance,
      dnodeComponentVersionId = FormatInt (ciComponentVersionId componentInstance),
      dnodeServiceId = FormatInt (ciServiceId componentInstance), dnodeMetadata = getModelMetadata tt (ciMeta componentInstance)\<rparr>"

record IssueMetadataNode =
  jmServiceCount :: int
  jmIssueMatchCount :: int
  jmComponentInstanceCount :: int
  jmComponentVersionCount :: int
  jmEarliestDiscoveryDate :: string
  jmEarliestTargetRemediationDate :: string

record IssueNode =
  jnodeId :: string
  jnodePrimaryName :: string
  jnodeType :: string
  jnodeDescription :: string
  jnodeLastModified :: string
  jnodeObjectMetadata :: "IssueMetadataNode option"
  jnodeMetadata :: MetadataNode

definition NewIssue :: "time_text \<Rightarrow> Issue \<Rightarrow> IssueNode" where
  "NewIssue tt issue =
     \<lparr>jnodeId = FormatInt (isId issue), jnodePrimaryName = isPrimaryName issue, jnodeType = isType issue,
      jnodeDescription = isDescription issue, jnodeLastModified = tt_String tt (UpdatedAt (isMeta issue)),
      jnodeObjectMetadata = None, jnodeMetadata = getModelMetadata tt (isMeta issue)\<rparr>"

definition NewIssueWithAggregations :: "time_text \<Rightarrow> Issue \<times> IssueAggregations option \<Rightarrow> IssueNode" where
  "NewIssueWithAggregations tt r =
     (NewIssue tt (fst r))
       \<lparr>jnodeObjectMetadata := Some (case snd r of
            None \<Rightarrow> \<lparr>jmServiceCount = 0, jmIssueMatchCount = 0, jmComponentInstanceCount = 0, jmComponentVersionCount = 0,
                      jmEarliestDiscoveryDate = [], jmEarliestTargetRemediationDate = []\<rparr>
          | Some a \<Rightarrow> \<lparr>jmServiceCount = AffectedServices a, jmIssueMatchCount = IssueMatches a,
                      jmComponentInstanceCount = AffectedComponentInstances a,
                      jmComponentVersionCount = ComponentVersions a,
                      jmEarliestDiscoveryDate = tt_String tt (EarliestDiscoveryDate a),
                      jmEarliestTargetRemediationDate = tt_String tt (EarliestTargetRemediationDate a)\<rparr>)\<rparr>"

record ImageNode =
  imgId :: string
  imgImageRegistryUrl :: string
  imgRepository :: string

definition NewImage :: "Component \<Rightarrow> ImageNode" where
  "NewImage component =
     \<lparr>imgId = FormatInt (compId component), imgImageRegistryUrl = compUrl component, imgRepository = compRepository component\<rparr>"

record ImageVersionNode =
  imvId :: string
  imvTag :: string
  imvVersion :: string
  imvRepository :: string
  imvMetadata :: MetadataNode
  imvEndOfLife :: "bool option"

definition NewImageVersion :: "time_text \<Rightarrow> ComponentVersion \<Rightarrow> ImageVersionNode" where
  "NewImageVersion tt componentVersion =
     \<lparr>imvId = FormatInt (cvId componentVersion), imvTag = cvTag componentVersion, imvVersion = cvVersion componentVersion,
      imvRepository = cvRepository componentVersion, imvMetadata = getModelMetadata tt (cvMeta componentVersion),
      imvEndOfLife = cvEndOfLife componentVersion\<rparr>"

record VulnerabilityNode =
  vulId :: string
  vulName :: string
  vulDescription :: string

definition NewVulnerability :: "Issue \<Rightarrow> VulnerabilityNode" where
  "NewVulnerability issue =
     \<lparr>vulId = FormatInt (isId issue), vulName = isPrimaryName issue, vulDescription = isDescription issue\<rparr>"

record 'm IssueMatchNode =
  mnodeId :: string
  mnodeStatus :: string
  mnodeRemediationDate :: string
  mnodeDiscoveryDate :: string
  mnodeTargetRemediationDate :: string
  mnodeSeverity :: "'m SeverityNode"
  mnodeIssueId :: string
  mnodeComponentInstanceId :: string
  mnodeUserId :: string
  mnodeMetadata :: MetadataNode

definition NewIssueMatch :: "time_text \<Rightarrow> (string \<Rightarrow> 'm) \<Rightarrow> IssueMatch \<Rightarrow> 'm IssueMatchNode" where
  "NewIssueMatch tt metrics im =
     \<lparr>mnodeId = FormatInt (imId im), mnodeStatus = IssueMatchStatusValue (imStatus im),
      mnodeRemediationDate = tt_Format tt (imRemediationDate im), mnodeDiscoveryDate = tt_Format tt (CreatedAt (imMeta im)),
      mnodeTargetRemediationDate = tt_Format tt (imTargetRemediationDate im),
      mnodeSeverity = NewSeverityNode metrics (imSeverity im), mnodeIssueId = FormatInt (imIssueId im),
      mnodeComponentInstanceId = FormatInt (imComponentInstanceId im), mnodeUserId = FormatInt (imUserId im),
      mnodeMetadata = getModelMetadata tt (imMeta im)\<rparr>"

record IssueRepositoryNode =
  rnodeId :: string
  rnodeName :: string
  rnodeUrl :: string
  rnodeMetadata :: "MetadataNode option"

definition NewIssueRepository :: "time_text \<Rightarrow> IssueRepository \<Rightarrow> IssueRepositoryNode" where
  "NewIssueRepository tt repo =
     \<lparr>rnodeId = FormatInt (irId repo), rnodeName = irName repo, rnodeUrl = irUrl repo,
      rnodeMetadata = Some (getModelMetadata tt (irMeta repo))\<rparr>"

record 'm IssueVariantNode =
  wnodeId :: string
  wnodeSecondaryName :: string
  wnodeDescription :: string
  wnodeExternalUrl :: string
  wnodeSeverity :: "'m SeverityNode"
  wnodeIssueId :: string
  wnodeIssueRepositoryId :: string
  wnodeIssueRepository :: IssueRepositoryNode
  wnodeMetadata :: MetadataNode

text \<open>Without a repository in the entity the node points to an empty one.\<close>

definition NewIssueVariant :: "time_text \<Rightarrow> (string \<Rightarrow> 'm) \<Rightarrow> IssueVariant \<Rightarrow> 'm IssueVariantNode" where
  "NewIssueVariant tt metrics issueVariant =
     (let repo = (case ivIssueRepository issueVariant of
            None \<Rightarrow> \<lparr>rnodeId = [], rnodeName = [], rnodeUrl = [], rnodeMetadata = None\<rparr>
          | Some ir \<Rightarrow> NewIssueRepository tt ir)
      in \<lparr>wnodeId = FormatInt (ivId issueVariant), wnodeSecondaryName = ivSecondaryName issueVariant,
          wnodeDescription = ivDescription issueVariant, wnodeExternalUrl = ivExternalUrl issueVariant,
          wnodeSeverity = NewSeverityNode metrics (ivSeverity issueVariant), wnodeIssueId = FormatInt (ivIssueId issueVariant),
          wnodeIssueRepositoryId = FormatInt (ivIssueRepositoryId issueVariant), wnodeIssueRepository = repo,
          wnodeMetadata = getModelMetadata tt (ivMeta issueVariant)\<rparr>)"

definition NewIssueVariantEdge ::
  "time_text \<Rightarrow> (string \<Rightarrow> 'm) \<Rightarrow> IssueVariant \<Rightarrow> 'm IssueVariantNode \<times> string \<times> MetadataNode" where
  "NewIssueVariantEdge tt metrics issueVariant =
     (let iv = NewIssueVariant tt metrics issueVariant in (iv, wnodeId iv, getModelMetadata tt (ivMeta issueVariant)))"

record RemediationNode =
  xnodeId :: string
  xnodeDescription :: string
  xnodeSeverity :: string
  xnodeType :: string
  xnodeUrl :: string
  xnodeService :: string
  xnodeServiceId :: string
  xnodeImage :: string
  xnodeImageId :: string
  xnodeVulnerability :: string
  xnodeVulnerabilityId :: string
  xnodeRemediationDate :: string
  xnodeExpirationDate :: string
  xnodeRemediatedBy :: string
  xnodeMetadata :: MetadataNode

definition NewRemediation :: "time_text \<Rightarrow> Remediation \<Rightarrow> RemediationNode" where
  "NewRemediation tt r =
     \<lparr>xnodeId = FormatInt (remId r), xnodeDescription = remDescription r, xnodeSeverity = remSeverity r,
      xnodeType = remType r, xnodeUrl = remURL r, xnodeService = remService r, xnodeServiceId = FormatInt (remServiceId r),
      xnodeImage = remComponent r, xnodeImageId = FormatInt (remComponentId r), xnodeVulnerability = remIssue r,
      xnodeVulnerabilityId = FormatInt (remIssueId r), xnodeRemediationDate = tt_Format tt (remRemediationDate r),
      xnodeExpirationDate = tt_Format tt (remExpirationDate r), xnodeRemediatedBy = remRemediatedBy r,
      xnodeMetadata = getModelMetadata tt (remMeta r)\<rparr>"

record PatchNode =
  pnodeId :: string
  pnodeServiceId :: string
  pnodeServiceName :: string
  pnodeComponentVersionId :: string
  pnodeComponentVersionName :: string
  pnodeMetadata :: MetadataNode

definition NewPatch :: "time_text \<Rightarrow> Patch \<Rightarrow> PatchNode" where
  "NewPatch tt p =
     \<lparr>pnodeId = FormatInt (patchId p), pnodeServiceId = FormatInt (patchServiceId p), pnodeServiceName = patchServiceName p,
      pnodeComponentVersionId = FormatInt (patchComponentVersionId p), pnodeComponentVersionName = patchComponentVersionName p,
      pnodeMetadata = getModelMetadata tt (patchMeta p)\<rparr>"

record ScannerRunNode =
  snodeId :: string
  snodeUuid :: string
  snodeTag :: string
  snodeCompleted :: bool
  snodeStartRun :: string
  snodeEndRun :: string

definition NewScannerRun :: "time_text \<Rightarrow> ScannerRun \<Rightarrow> ScannerRunNode" where
  "NewScannerRun tt sr =
     \<lparr>snodeId = FormatInt (srRunID sr), snodeUuid = srUUID sr, snodeTag = srTag sr, snodeCompleted = srCompleted sr,
      snodeStartRun = tt_Format tt (srStartRun sr), snodeEndRun = tt_Format tt (srEndRun sr)\<rparr>"

section \<open>Names of instances\<close>

record Ccrn =
  ccRegion :: string
  ccCluster :: string
  ccNamespace :: string
  ccDomain :: string
  ccProject :: string

text \<open>The first match of the pattern \<open>k=([^,]+)\<close>, in the order of positions.\<close>

fun getCcrnVal :: "string \<Rightarrow> string \<Rightarrow> string" where
  "getCcrnVal [] k = []"
| "getCcrnVal (c # cs) k =
     (let rest = drop (length k + 1) (c # cs)
      in if take (length k + 1) (c # cs) = k @ ''='' \<and> rest \<noteq> [] \<and> hd rest \<noteq> CHR '',''
         then takeWhile (\<lambda>x. x \<noteq> CHR '','') rest
         else getCcrnVal cs k)"

definition ParseCcrn :: "string \<Rightarrow> Ccrn" where
  "ParseCcrn rawCcrn =
     \<lparr>ccRegion = getCcrnVal rawCcrn ''region'', ccCluster = getCcrnVal rawCcrn ''cluster'',
      ccNamespace = getCcrnVal rawCcrn ''namespace'', ccDomain = getCcrnVal rawCcrn ''domain'',
      ccProject = getCcrnVal rawCcrn ''project''\<rparr>"

end
