(* ===== verification/Graphql_Mutations.thy ===== *)
theory Graphql_Mutations
  imports Graphql_Model Group_User_Handlers Component_Handlers Issue_Handlers Severity_Handlers
begin

text \<open>
  The mutations of the GraphQL interface (\<open>resolver/mutation.go\<close>, \<open>resolver/mutation_helpers.go\<close>). A mutation
  parses the ids it is given, turns its input into an entity, calls the application and turns the
  entity it gets back into a node; every error is replaced by one of the mutation's own. The
  application (\<open>app.Heureka\<close>) is a record of the operations that the mutations call.
\<close>

section \<open>The application\<close>

record ('d, 'z, 'g) UserHandler =
  ah_ListUsers :: "UserFilter \<Rightarrow> ListOptions \<Rightarrow> ('d, 'z, 'g, User entity_list) handler"
  ah_CreateUser :: "User \<Rightarrow> ('d, 'z, 'g, User) handler"
  ah_UpdateUser :: "User \<Rightarrow> ('d, 'z, 'g, User) handler"
  ah_DeleteUser :: "id64 \<Rightarrow> ('d, 'z, 'g, unit) handler"
  ah_ListUniqueUserIDs :: "UserFilter \<Rightarrow> ('d, 'z, 'g, string list) handler"

record ('d, 'z, 'g) SupportGroupHandler =
  ah_ListSupportGroups :: "SupportGroupFilter \<Rightarrow> ListOptions \<Rightarrow> ('d, 'z, 'g, SupportGroup entity_list) handler"
  ah_CreateSupportGroup :: "SupportGroup \<Rightarrow> ('d, 'z, 'g, SupportGroup) handler"
  ah_UpdateSupportGroup :: "SupportGroup \<Rightarrow> ('d, 'z, 'g, SupportGroup) handler"
  ah_DeleteSupportGroup :: "id64 \<Rightarrow> ('d, 'z, 'g, unit) handler"
  ah_AddServiceToSupportGroup :: "id64 \<Rightarrow> id64 \<Rightarrow> ('d, 'z, 'g, SupportGroup) handler"
  ah_RemoveServiceFromSupportGroup :: "id64 \<Rightarrow> id64 \<Rightarrow> ('d, 'z, 'g, SupportGroup) handler"
  ah_AddUserToSupportGroup :: "id64 \<Rightarrow> id64 \<Rightarrow> ('d, 'z, 'g, SupportGroup) handler"
  ah_RemoveUserFromSupportGroup :: "id64 \<Rightarrow> id64 \<Rightarrow> ('d, 'z, 'g, SupportGroup) handler"

record ('d, 'z, 'g) ServiceHandler =
  ah_ListServices :: "ServiceFilter \<Rightarrow> ListOptions option \<Rightarrow> ('d, 'z, 'g, Service entity_list) handler"
  ah_CreateService :: "Service \<Rightarrow> ('d, 'z, 'g, Service) handler"
  ah_UpdateService :: "Service \<Rightarrow> ('d, 'z, 'g, Service) handler"
  ah_DeleteService :: "id64 \<Rightarrow> ('d, 'z, 'g, unit) handler"
  ah_AddOwnerToService :: "id64 \<Rightarrow> id64 \<Rightarrow> ('d, 'z, 'g, Service) handler"
  ah_RemoveOwnerFromService :: "id64 \<Rightarrow> id64 \<Rightarrow> ('d, 'z, 'g, Service) handler"
  ah_AddIssueRepositoryToService :: "id64 \<Rightarrow> id64 \<Rightarrow> int \<Rightarrow> ('d, 'z, 'g, Service) handler"
  ah_RemoveIssueRepositoryFromService :: "id64 \<Rightarrow> id64 \<Rightarrow> ('d, 'z, 'g, Service) handler"

record ('d, 'z, 'g) ComponentHandlers =
  ah_ListComponents :: "ComponentFilter \<Rightarrow> ListOptions option \<Rightarrow> ('d, 'z, 'g, Component entity_list) handler"
  ah_CreateComponent :: "Component \<Rightarrow> ('d, 'z, 'g, Component) handler"
  ah_UpdateComponent :: "Component \<Rightarrow> ('d, 'z, 'g, Component) handler"
  ah_DeleteComponent :: "id64 \<Rightarrow> ('d, 'z, 'g, unit) handler"
  ah_CreateComponentVersion :: "ComponentVersion \<Rightarrow> ('d, 'z, 'g, ComponentVersion) handler"
  ah_UpdateComponentVersion :: "ComponentVersion \<Rightarrow> ('d, 'z, 'g, ComponentVersion) handler"
  ah_DeleteComponentVersion :: "id64 \<Rightarrow> ('d, 'z, 'g, unit) handler"
  ah_ListComponentInstances :: "ComponentInstanceFilter \<Rightarrow> ListOptions \<Rightarrow> ('d, 'z, 'g, ComponentInstance entity_list) handler"
  ah_CreateComponentInstance :: "ComponentInstance option \<Rightarrow> string option \<Rightarrow> ('d, 'z, 'g, ComponentInstance) handler"
  ah_UpdateComponentInstance :: "ComponentInstance option \<Rightarrow> string option \<Rightarrow> ('d, 'z, 'g, ComponentInstance) handler"
  ah_DeleteComponentInstance :: "id64 \<Rightarrow> ('d, 'z, 'g, unit) handler"

record ('d, 'z, 'g) IssueHandler =
  ah_ListIssues :: "IssueFilter \<Rightarrow> IssueListOptions option \<Rightarrow> ('d, 'z, 'g, IssueList) handler"
  ah_GetIssue :: "id64 \<Rightarrow> ('d, 'z, 'g, Issue) handler"
  ah_CreateIssue :: "Issue \<Rightarrow> ('d, 'z, 'g, Issue) handler"
  ah_UpdateIssue :: "Issue \<Rightarrow> ('d, 'z, 'g, Issue) handler"
  ah_DeleteIssue :: "id64 \<Rightarrow> ('d, 'z, 'g, unit) handler"
  ah_AddComponentVersionToIssue :: "id64 \<Rightarrow> id64 \<Rightarrow> ('d, 'z, 'g, Issue) handler"
  ah_RemoveComponentVersionFromIssue :: "id64 \<Rightarrow> id64 \<Rightarrow> ('d, 'z, 'g, Issue) handler"

record ('d, 'z, 'g) VariantHandlers =
  ah_ListIssueRepositories :: "IssueRepositoryFilter \<Rightarrow> ListOptions \<Rightarrow> ('d, 'z, 'g, IssueRepository entity_list) handler"
  ah_CreateIssueRepository :: "IssueRepository \<Rightarrow> ('d, 'z, 'g, IssueRepository) handler"
  ah_UpdateIssueRepository :: "IssueRepository \<Rightarrow> ('d, 'z, 'g, IssueRepository) handler"
  ah_DeleteIssueRepository :: "id64 \<Rightarrow> ('d, 'z, 'g, unit) handler"
  ah_ListIssueVariants :: "IssueVariantFilter \<Rightarrow> ListOptions \<Rightarrow> ('d, 'z, 'g, IssueVariant entity_list) handler"
  ah_CreateIssueVariant :: "IssueVariant \<Rightarrow> ('d, 'z, 'g, IssueVariant) handler"
  ah_UpdateIssueVariant :: "IssueVariant \<Rightarrow> ('d, 'z, 'g, IssueVariant) handler"
  ah_DeleteIssueVariant :: "id64 \<Rightarrow> ('d, 'z, 'g, unit) handler"
  ah_CreateIssueMatch :: "IssueMatch \<Rightarrow> ('d, 'z, 'g, IssueMatch) handler"
  ah_UpdateIssueMatch :: "IssueMatch \<Rightarrow> ('d, 'z, 'g, IssueMatch) handler"
  ah_DeleteIssueMatch :: "id64 \<Rightarrow> ('d, 'z, 'g, unit) handler"

record ('d, 'z, 'g) RemediationHandlers =
  ah_CreateRemediation :: "Remediation \<Rightarrow> ('d, 'z, 'g, Remediation) handler"
  ah_UpdateRemediation :: "Remediation \<Rightarrow> ('d, 'z, 'g, Remediation) handler"
  ah_DeleteRemediation :: "id64 \<Rightarrow> ('d, 'z, 'g, unit) handler"
  ah_CreateScannerRun :: "ScannerRun \<Rightarrow> ('d, 'z, 'g, bool) handler"
  ah_CompleteScannerRun :: "string \<Rightarrow> ('d, 'z, 'g, bool) handler"
  ah_FailScannerRun :: "string \<Rightarrow> string \<Rightarrow> ('d, 'z, 'g, bool) handler"

record ('d, 'z, 'g) Heureka =
  hk_user :: "('d, 'z, 'g) UserHandler"
  hk_group :: "('d, 'z, 'g) SupportGroupHandler"
  hk_service :: "('d, 'z, 'g) ServiceHandler"
  hk_component :: "('d, 'z, 'g) ComponentHandlers"
  hk_issue :: "('d, 'z, 'g) IssueHandler"
  hk_variant :: "('d, 'z, 'g) VariantHandlers"
  hk_remediation :: "('d, 'z, 'g) RemediationHandlers"

section \<open>What mutations share\<close>

text \<open>A \<open>ResolverError\<close> prints as its resolver and its message.\<close>

definition NewResolverError :: "string \<Rightarrow> string \<Rightarrow> goerr" where
  "NewResolverError resolver msg = ErrVal ''ResolverError'' (resolver @ '': '' @ msg)"

definition resolverH :: "string \<Rightarrow> string \<Rightarrow> ('d, 'z, 'g, 'a) handler \<Rightarrow> ('d, 'z, 'g, 'a) handler" where
  "resolverH resolver msg m = wrapH (\<lambda>_. NewResolverError resolver msg) m"

definition idH :: "string \<Rightarrow> string \<Rightarrow> string \<Rightarrow> ('d, 'z, 'g, id64) handler" where
  "idH resolver msg i = resolverH resolver msg (liftH (ParseCursor (Some i)))"

text \<open>\<open>result, err := m\<close> where the error is looked at and the mutation goes on; a panic passes.\<close>

definition attemptH :: "('d, 'z, 'g, 'a) handler \<Rightarrow> ('d, 'z, 'g, goerr + 'a) handler" where
  "attemptH m s = (case m s of
      (Inl (Failed e), s') \<Rightarrow> (Inr (Inl e), s')
    | (Inl (Panicked p), s') \<Rightarrow> (Inl (Panicked p), s')
    | (Inr x, s') \<Rightarrow> (Inr (Inr x), s'))"

text \<open>The call of the application and the node of its answer.\<close>

definition answerH ::
  "string \<Rightarrow> string \<Rightarrow> ('e \<Rightarrow> 'n) \<Rightarrow> ('d, 'z, 'g, 'e) handler \<Rightarrow> ('d, 'z, 'g, 'n) handler" where
  "answerH resolver msg node m = bindH (resolverH resolver msg m) (\<lambda>x. returnH (node x))"

definition deleteH :: "string \<Rightarrow> string \<Rightarrow> string \<Rightarrow> (id64 \<Rightarrow> ('d, 'z, 'g, unit) handler) \<Rightarrow> ('d, 'z, 'g, string) handler" where
  "deleteH resolver msg i delete =
     bindH (idH resolver msg i) (\<lambda>idInt. bindH (resolverH resolver msg (delete idInt)) (\<lambda>_. returnH i))"

text \<open>A mutation of a relation between two entities.\<close>

definition relateH ::
  "string \<Rightarrow> string \<Rightarrow> ('e \<Rightarrow> 'n) \<Rightarrow> string \<Rightarrow> string \<Rightarrow> (id64 \<Rightarrow> id64 \<Rightarrow> ('d, 'z, 'g, 'e) handler) \<Rightarrow> ('d, 'z, 'g, 'n) handler" where
  "relateH resolver msg node i j change =
     bindH (idH resolver msg i) (\<lambda>iInt. bindH (idH resolver msg j) (\<lambda>jInt. answerH resolver msg node (change iInt jInt)))"

lemmas mutation_defs = resolverH_def idH_def answerH_def deleteH_def relateH_def

section \<open>Mutations of one entity\<close>

definition Mutation_CreateUser ::
  "time_text \<Rightarrow> ('d, 'z, 'g) Heureka \<Rightarrow> UserInput \<Rightarrow> ('d, 'z, 'g, UserNode) handler" where
  "Mutation_CreateUser tt app input =
     answerH ''CreateUserMutationResolver'' ''Internal Error - when creating user'' (NewUser tt)
       (ah_CreateUser (hk_user app) (NewUserEntity input))"

definition Mutation_UpdateUser ::
  "time_text \<Rightarrow> ('d, 'z, 'g) Heureka \<Rightarrow> string \<Rightarrow> UserInput \<Rightarrow> ('d, 'z, 'g, UserNode) handler" where
  "Mutation_UpdateUser tt app i input =
     (let resolver = ''UpdateUserMutationResolver''; msg = ''Internal Error - when updating user''
      in bindH (idH resolver msg i) (\<lambda>idInt.
         answerH resolver msg (NewUser tt) (ah_UpdateUser (hk_user app) ((NewUserEntity input)\<lparr>userId := idInt\<rparr>))))"

definition Mutation_DeleteUser ::
  "('d, 'z, 'g) Heureka \<Rightarrow> string \<Rightarrow> ('d, 'z, 'g, string) handler" where
  "Mutation_DeleteUser app i =
     deleteH ''DeleteUserMutationResolver'' ''Internal Error - when deleting user'' i (ah_DeleteUser (hk_user app))"

definition Mutation_CreateSupportGroup ::
  "time_text \<Rightarrow> ('d, 'z, 'g) Heureka \<Rightarrow> SupportGroupInput \<Rightarrow> ('d, 'z, 'g, SupportGroupNode) handler" where
  "Mutation_CreateSupportGroup tt app input =
     answerH ''CreateSupportGroupMutationResolver'' ''Internal Error - when creating supportGroup'' (NewSupportGroup tt)
       (ah_CreateSupportGroup (hk_group app) (NewSupportGroupEntity input))"

definition Mutation_UpdateSupportGroup ::
  "time_text \<Rightarrow> ('d, 'z, 'g) Heureka \<Rightarrow> string \<Rightarrow> SupportGroupInput \<Rightarrow> ('d, 'z, 'g, SupportGroupNode) handler" where
  "Mutation_UpdateSupportGroup tt app i input =
     (let resolver = ''UpdateSupportGroupMutationResolver''; msg = ''Internal Error - when updating supportGroup''
      in bindH (idH resolver msg i) (\<lambda>idInt.
         answerH resolver msg (NewSupportGroup tt) (ah_UpdateSupportGroup (hk_group app) ((NewSupportGroupEntity input)\<lparr>sgId := idInt\<rparr>))))"

definition Mutation_DeleteSupportGroup ::
  "('d, 'z, 'g) Heureka \<Rightarrow> string \<Rightarrow> ('d, 'z, 'g, string) handler" where
  "Mutation_DeleteSupportGroup app i =
     deleteH ''DeleteSupportGroupMutationResolver'' ''Internal Error - when deleting supportGroup'' i (ah_DeleteSupportGroup (hk_group app))"

definition Mutation_CreateComponent ::
  "time_text \<Rightarrow> ('d, 'z, 'g) Heureka \<Rightarrow> ComponentInput \<Rightarrow> ('d, 'z, 'g, ComponentNode) handler" where
  "Mutation_CreateComponent tt app input =
     answerH ''CreateComponentMutationResolver'' ''Internal Error - when creating component'' (NewComponent tt)
       (ah_CreateComponent (hk_component app) (NewComponentEntity input))"

definition Mutation_UpdateComponent ::
  "time_text \<Rightarrow> ('d, 'z, 'g) Heureka \<Rightarrow> string \<Rightarrow> ComponentInput \<Rightarrow> ('d, 'z, 'g, ComponentNode) handler" where
  "Mutation_UpdateComponent tt app i input =
     (let resolver = ''UpdateComponentMutationResolver''; msg = ''Internal Error - when updating component''
      in bindH (idH resolver msg i) (\<lambda>idInt.
         answerH resolver msg (NewComponent tt) (ah_UpdateComponent (hk_component app) ((NewComponentEntity input)\<lparr>compId := idInt\<rparr>))))"

definition Mutation_DeleteComponent ::
  "('d, 'z, 'g) Heureka \<Rightarrow> string \<Rightarrow> ('d, 'z, 'g, string) handler" where
  "Mutation_DeleteComponent app i =
     deleteH ''DeleteComponentMutationResolver'' ''Internal Error - when deleting component'' i (ah_DeleteComponent (hk_component app))"

definition Mutation_CreateComponentVersion ::
  "time_text \<Rightarrow> ('d, 'z, 'g) Heureka \<Rightarrow> ComponentVersionInput \<Rightarrow> ('d, 'z, 'g, ComponentVersionNode) handler" where
  "Mutation_CreateComponentVersion tt app input =
     answerH ''CreateComponentVersionMutationResolver'' ''Internal Error - when creating componentVersion'' (NewComponentVersion tt)
       (ah_CreateComponentVersion (hk_component app) (NewComponentVersionEntity input))"

definition Mutation_UpdateComponentVersion ::
  "time_text \<Rightarrow> ('d, 'z, 'g) Heureka \<Rightarrow> string \<Rightarrow> ComponentVersionInput \<Rightarrow> ('d, 'z, 'g, ComponentVersionNode) handler" where
  "Mutation_UpdateComponentVersion tt app i input =
     (let resolver = ''UpdateComponentVersionMutationResolver''; msg = ''Internal Error - when updating componentVersion''
      in bindH (idH resolver msg i) (\<lambda>idInt.
         answerH resolver msg (NewComponentVersion tt) (ah_UpdateComponentVersion (hk_component app) ((NewComponentVersionEntity input)\<lparr>cvId := idInt\<rparr>))))"

definition Mutation_DeleteComponentVersion ::
  "('d, 'z, 'g) Heureka \<Rightarrow> string \<Rightarrow> ('d, 'z, 'g, string) handler" where
  "Mutation_DeleteComponentVersion app i =
     deleteH ''DeleteComponentVersionMutationResolver'' ''Internal Error - when deleting componentVersion'' i (ah_DeleteComponentVersion (hk_component app))"

definition Mutation_CreateService ::
  "time_text \<Rightarrow> ('d, 'z, 'g) Heureka \<Rightarrow> ServiceInput \<Rightarrow> ('d, 'z, 'g, ServiceNode) handler" where
  "Mutation_CreateService tt app input =
     answerH ''CreateServiceMutationResolver'' ''Internal Error - when creating service'' (NewService tt)
       (ah_CreateService (hk_service app) (NewServiceEntity input))"

definition Mutation_UpdateService ::
  "time_text \<Rightarrow> ('d, 'z, 'g) Heureka \<Rightarrow> string \<Rightarrow> ServiceInput \<Rightarrow> ('d, 'z, 'g, ServiceNode) handler" where
  "Mutation_UpdateService tt app i input =
     (let resolver = ''UpdateServiceMutationResolver''; msg = ''Internal Error - when updating service''
      in bindH (idH resolver msg i) (\<lambda>idInt.
         answerH resolver msg (NewService tt) (ah_UpdateService (hk_service app) ((NewServiceEntity input)\<lparr>svcId := idInt\<rparr>))))"

definition Mutation_DeleteService ::
  "('d, 'z, 'g) Heureka \<Rightarrow> string \<Rightarrow> ('d, 'z, 'g, string) handler" where
  "Mutation_DeleteService app i =
     deleteH ''DeleteServiceMutationResolver'' ''Internal Error - when deleting service'' i (ah_DeleteService (hk_service app))"

definition Mutation_CreateIssueRepository ::
  "time_text \<Rightarrow> ('d, 'z, 'g) Heureka \<Rightarrow> IssueRepositoryInput \<Rightarrow> ('d, 'z, 'g, IssueRepositoryNode) handler" where
  "Mutation_CreateIssueRepository tt app input =
     answerH ''CreateIssueRepositoryMutationResolver'' ''Internal Error - when creating issueRepository'' (NewIssueRepository tt)
       (ah_CreateIssueRepository (hk_variant app) (NewIssueRepositoryEntity input))"

definition Mutation_UpdateIssueRepository ::
  "time_text \<Rightarrow> ('d, 'z, 'g) Heureka \<Rightarrow> string \<Rightarrow> IssueRepositoryInput \<Rightarrow> ('d, 'z, 'g, IssueRepositoryNode) handler" where
  "Mutation_UpdateIssueRepository tt app i input =
     (let resolver = ''UpdateIssueRepositoryMutationResolver''; msg = ''Internal Error - when updating issueRepository''
      in bindH (idH resolver msg i) (\<lambda>idInt.
         answerH resolver msg (NewIssueRepository tt) (ah_UpdateIssueRepository (hk_variant app) ((NewIssueRepositoryEntity input)\<lparr>irId := idInt\<rparr>))))"

definition Mutation_DeleteIssueRepository ::
  "('d, 'z, 'g) Heureka \<Rightarrow> string \<Rightarrow> ('d, 'z, 'g, string) handler" where
  "Mutation_DeleteIssueRepository app i =
     deleteH ''DeleteIssueRepositoryMutationResolver'' ''Internal Error - when deleting issueRepository'' i (ah_DeleteIssueRepository (hk_variant app))"

definition Mutation_CreateIssue ::
  "time_text \<Rightarrow> ('d, 'z, 'g) Heureka \<Rightarrow> IssueInput \<Rightarrow> ('d, 'z, 'g, IssueNode) handler" where
  "Mutation_CreateIssue tt app input =
     answerH ''CreateIssueMutationResolver'' ''Internal Error - when creating issue'' (NewIssue tt)
       (ah_CreateIssue (hk_issue app) (NewIssueEntity input))"

definition Mutation_UpdateIssue ::
  "time_text \<Rightarrow> ('d, 'z, 'g) Heureka \<Rightarrow> string \<Rightarrow> IssueInput \<Rightarrow> ('d, 'z, 'g, IssueNode) handler" where
  "Mutation_UpdateIssue tt app i input =
     (let resolver = ''UpdateIssueMutationResolver''; msg = ''Internal Error - when updating issue''
      in bindH (idH resolver msg i) (\<lambda>idInt.
         answerH resolver msg (NewIssue tt) (ah_UpdateIssue (hk_issue app) ((NewIssueEntity input)\<lparr>isId := idInt\<rparr>))))"

definition Mutation_DeleteIssue ::
  "('d, 'z, 'g) Heureka \<Rightarrow> string \<Rightarrow> ('d, 'z, 'g, string) handler" where
  "Mutation_DeleteIssue app i =
     deleteH ''DeleteIssueMutationResolver'' ''Internal Error - when deleting issue'' i (ah_DeleteIssue (hk_issue app))"

definition Mutation_CreateIssueVariant ::
  "time_text \<Rightarrow> cvss_decoder \<Rightarrow> (string \<Rightarrow> 'm) \<Rightarrow> ('d, 'z, 'g) Heureka \<Rightarrow> IssueVariantInput \<Rightarrow> ('d, 'z, 'g, 'm IssueVariantNode) handler" where
  "Mutation_CreateIssueVariant tt cvss metrics app input =
     answerH ''CreateIssueVariantMutationResolver'' ''Internal Error - when creating issueVariant'' (NewIssueVariant tt metrics)
       (ah_CreateIssueVariant (hk_variant app) (NewIssueVariantEntity cvss input))"

definition Mutation_UpdateIssueVariant ::
  "time_text \<Rightarrow> cvss_decoder \<Rightarrow> (string \<Rightarrow> 'm) \<Rightarrow> ('d, 'z, 'g) Heureka \<Rightarrow> string \<Rightarrow> IssueVariantInput \<Rightarrow> ('d, 'z, 'g, 'm IssueVariantNode) handler" where
  "Mutation_UpdateIssueVariant tt cvss metrics app i input =
     (let resolver = ''UpdateIssueVariantMutationResolver''; msg = ''Internal Error - when updating issueVariant''
      in bindH (idH resolver msg i) (\<lambda>idInt.
         answerH resolver msg (NewIssueVariant tt metrics) (ah_UpdateIssueVariant (hk_variant app) ((NewIssueVariantEntity cvss input)\<lparr>ivId := idInt\<rparr>))))"

definition Mutation_DeleteIssueVariant ::
  "('d, 'z, 'g) Heureka \<Rightarrow> string \<Rightarrow> ('d, 'z, 'g, string) handler" where
  "Mutation_DeleteIssueVariant app i =
     deleteH ''DeleteIssueVariantMutationResolver'' ''Internal Error - when deleting issueVariant'' i (ah_DeleteIssueVariant (hk_variant app))"

definition Mutation_CreateIssueMatch ::
  "time_text \<Rightarrow> (string \<Rightarrow> 'm) \<Rightarrow> ('d, 'z, 'g) Heureka \<Rightarrow> IssueMatchInput \<Rightarrow> ('d, 'z, 'g, 'm IssueMatchNode) handler" where
  "Mutation_CreateIssueMatch tt metrics app input =
     answerH ''CreateIssueMatchMutationResolver'' ''Internal Error - when creating issueMatch'' (NewIssueMatch tt metrics)
       (ah_CreateIssueMatch (hk_variant app) (NewIssueMatchEntity tt input))"

definition Mutation_UpdateIssueMatch ::
  "time_text \<Rightarrow> (string \<Rightarrow> 'm) \<Rightarrow> ('d, 'z, 'g) Heureka \<Rightarrow> string \<Rightarrow> IssueMatchInput \<Rightarrow> ('d, 'z, 'g, 'm IssueMatchNode) handler" where
  "Mutation_UpdateIssueMatch tt metrics app i input =
     (let resolver = ''UpdateIssueMatchMutationResolver''; msg = ''Internal Error - when updating issueMatch''
      in bindH (idH resolver msg i) (\<lambda>idInt.
         answerH resolver msg (NewIssueMatch tt metrics) (ah_UpdateIssueMatch (hk_variant app) ((NewIssueMatchEntity tt input)\<lparr>imId := idInt\<rparr>))))"

definition Mutation_DeleteIssueMatch ::
  "('d, 'z, 'g) Heureka \<Rightarrow> string \<Rightarrow> ('d, 'z, 'g, string) handler" where
  "Mutation_DeleteIssueMatch app i =
     deleteH ''DeleteIssueMatchMutationResolver'' ''Internal Error - when deleting issueMatch'' i (ah_DeleteIssueMatch (hk_variant app))"

definition Mutation_CreateComponentInstance ::
  "time_text \<Rightarrow> ('d, 'z, 'g) Heureka \<Rightarrow> ComponentInstanceInput \<Rightarrow> ('d, 'z, 'g, ComponentInstanceNode) handler" where
  "Mutation_CreateComponentInstance tt app input =
     answerH ''CreateComponentInstanceMutationResolver'' ''Internal Error - when creating componentInstance'' (NewComponentInstance tt)
       (ah_CreateComponentInstance (hk_component app) (Some (NewComponentInstanceEntity input)) (niUuid input))"

definition Mutation_UpdateComponentInstance ::
  "time_text \<Rightarrow> ('d, 'z, 'g) Heureka \<Rightarrow> string \<Rightarrow> ComponentInstanceInput \<Rightarrow> ('d, 'z, 'g, ComponentInstanceNode) handler" where
  "Mutation_UpdateComponentInstance tt app i input =
     (let resolver = ''UpdateComponentInstanceMutationResolver''; msg = ''Internal Error - when updating componentInstance''
      in bindH (idH resolver msg i) (\<lambda>idInt.
         answerH resolver msg (NewComponentInstance tt) (ah_UpdateComponentInstance (hk_component app) (Some ((NewComponentInstanceEntity input)\<lparr>ciId := idInt\<rparr>)) (niUuid input))))"

definition Mutation_DeleteComponentInstance ::
  "('d, 'z, 'g) Heureka \<Rightarrow> string \<Rightarrow> ('d, 'z, 'g, string) handler" where
  "Mutation_DeleteComponentInstance app i =
     deleteH ''DeleteComponentInstanceMutationResolver'' ''Internal Error - when deleting componentInstance'' i (ah_DeleteComponentInstance (hk_component app))"

definition Mutation_AddServiceToSupportGroup ::
  "time_text \<Rightarrow> ('d, 'z, 'g) Heureka \<Rightarrow> string \<Rightarrow> string \<Rightarrow> ('d, 'z, 'g, SupportGroupNode) handler" where
  "Mutation_AddServiceToSupportGroup tt app i j =
     relateH ''AddServiceToSupportGroupMutationResolver'' ''Internal Error - when adding service to supportGroup'' (NewSupportGroup tt) i j
       (ah_AddServiceToSupportGroup (hk_group app))"

definition Mutation_RemoveServiceFromSupportGroup ::
  "time_text \<Rightarrow> ('d, 'z, 'g) Heureka \<Rightarrow> string \<Rightarrow> string \<Rightarrow> ('d, 'z, 'g, SupportGroupNode) handler" where
  "Mutation_RemoveServiceFromSupportGroup tt app i j =
     relateH ''RemoveServiceFromSupportGroupMutationResolver'' ''Internal Error - when removing service from supportGroup'' (NewSupportGroup tt) i j
       (ah_RemoveServiceFromSupportGroup (hk_group app))"

definition Mutation_AddUserToSupportGroup ::
  "time_text \<Rightarrow> ('d, 'z, 'g) Heureka \<Rightarrow> string \<Rightarrow> string \<Rightarrow> ('d, 'z, 'g, SupportGroupNode) handler" where
  "Mutation_AddUserToSupportGroup tt app i j =
     relateH ''AddUserToSupportGroupMutationResolver'' ''Internal Error - when adding user to supportGroup'' (NewSupportGroup tt) i j
       (ah_AddUserToSupportGroup (hk_group app))"

definition Mutation_RemoveUserFromSupportGroup ::
  "time_text \<Rightarrow> ('d, 'z, 'g) Heureka \<Rightarrow> string \<Rightarrow> string \<Rightarrow> ('d, 'z, 'g, SupportGroupNode) handler" where
  "Mutation_RemoveUserFromSupportGroup tt app i j =
     relateH ''RemoveUserFromSupportGroupMutationResolver'' ''Internal Error - when removing user from supportGroup'' (NewSupportGroup tt) i j
       (ah_RemoveUserFromSupportGroup (hk_group app))"

definition Mutation_AddOwnerToService ::
  "time_text \<Rightarrow> ('d, 'z, 'g) Heureka \<Rightarrow> string \<Rightarrow> string \<Rightarrow> ('d, 'z, 'g, ServiceNode) handler" where
  "Mutation_AddOwnerToService tt app i j =
     relateH ''AddOwnerToServiceMutationResolver'' ''Internal Error - when adding owner to service'' (NewService tt) i j
       (ah_AddOwnerToService (hk_service app))"

definition Mutation_RemoveOwnerFromService ::
  "time_text \<Rightarrow> ('d, 'z, 'g) Heureka \<Rightarrow> string \<Rightarrow> string \<Rightarrow> ('d, 'z, 'g, ServiceNode) handler" where
  "Mutation_RemoveOwnerFromService tt app i j =
     relateH ''RemoveOwnerFromServiceMutationResolver'' ''Internal Error - when removing owner from service'' (NewService tt) i j
       (ah_RemoveOwnerFromService (hk_service app))"

definition Mutation_RemoveIssueRepositoryFromService ::
  "time_text \<Rightarrow> ('d, 'z, 'g) Heureka \<Rightarrow> string \<Rightarrow> string \<Rightarrow> ('d, 'z, 'g, ServiceNode) handler" where
  "Mutation_RemoveIssueRepositoryFromService tt app i j =
     relateH ''RemoveIssueRepositoryFromServiceMutationResolver'' ''Internal Error - when removing IssueRepository from service'' (NewService tt) i j
       (ah_RemoveIssueRepositoryFromService (hk_service app))"

definition Mutation_AddComponentVersionToIssue ::
  "time_text \<Rightarrow> ('d, 'z, 'g) Heureka \<Rightarrow> string \<Rightarrow> string \<Rightarrow> ('d, 'z, 'g, IssueNode) handler" where
  "Mutation_AddComponentVersionToIssue tt app i j =
     relateH ''AddComponentVersionToIssueMutationResolver'' ''Internal Error - when adding componentVersion to issue'' (NewIssue tt) i j
       (ah_AddComponentVersionToIssue (hk_issue app))"

definition Mutation_RemoveComponentVersionFromIssue ::
  "time_text \<Rightarrow> ('d, 'z, 'g) Heureka \<Rightarrow> string \<Rightarrow> string \<Rightarrow> ('d, 'z, 'g, IssueNode) handler" where
  "Mutation_RemoveComponentVersionFromIssue tt app i j =
     relateH ''RemoveComponentVersionFromIssueMutationResolver'' ''Internal Error - when removing componentVersion from issue'' (NewIssue tt) i j
       (ah_RemoveComponentVersionFromIssue (hk_issue app))"

definition Mutation_AddIssueRepositoryToService ::
  "time_text \<Rightarrow> ('d, 'z, 'g) Heureka \<Rightarrow> string \<Rightarrow> string \<Rightarrow> int \<Rightarrow> ('d, 'z, 'g, ServiceNode) handler" where
  "Mutation_AddIssueRepositoryToService tt app i j priority =
     relateH ''AddIssueRepositoryToServiceMutationResolver'' ''Internal Error - when adding IssueRepository to service'' (NewService tt) i j
       (\<lambda>iInt jInt. ah_AddIssueRepositoryToService (hk_service app) iInt jInt priority)"

section \<open>Scanner runs\<close>

definition Mutation_CreateScannerRun ::
  "gotime \<Rightarrow> gotime \<Rightarrow> ('d, 'z, 'g) Heureka \<Rightarrow> ScannerRunInput \<Rightarrow> ('d, 'z, 'g, bool) handler" where
  "Mutation_CreateScannerRun now1 now2 app input =
     answerH ''CreateScannerRunMutationResolver'' ''Internal Error - when creating scannerRun'' (\<lambda>_. True)
       (ah_CreateScannerRun (hk_remediation app) (NewScannerRunEntity now1 now2 input))"

definition Mutation_CompleteScannerRun :: "('d, 'z, 'g) Heureka \<Rightarrow> string \<Rightarrow> ('d, 'z, 'g, bool) handler" where
  "Mutation_CompleteScannerRun app uuid =
     answerH ''CompleteScannerRunMutationResolver'' ''Internal Error - when completing scannerRun'' (\<lambda>_. True)
       (ah_CompleteScannerRun (hk_remediation app) uuid)"

definition Mutation_FailScannerRun :: "('d, 'z, 'g) Heureka \<Rightarrow> string \<Rightarrow> string \<Rightarrow> ('d, 'z, 'g, bool) handler" where
  "Mutation_FailScannerRun app uuid message =
     answerH ''FailScannerRunMutationResolver'' ''Internal Error - when failing scannerRun'' (\<lambda>_. True)
       (ah_FailScannerRun (hk_remediation app) uuid message)"

section \<open>Remediations\<close>

text \<open>
  The service, the issue and the component of a remediation are looked up by their names; each name must select
  exactly one row. A name that is nil is passed on as a nil pointer in the filter.
\<close>

definition one_element :: "string \<Rightarrow> string \<Rightarrow> ('e \<Rightarrow> id64) \<Rightarrow> (string \<times> 'e) list \<Rightarrow> ('d, 'z, 'g, id64) handler" where
  "one_element resolver msg key rows =
     (case rows of [r] \<Rightarrow> returnH (key (snd r)) | _ \<Rightarrow> failH (NewResolverError resolver msg))"

definition service_of_name ::
  "string \<Rightarrow> string \<Rightarrow> ('d, 'z, 'g) Heureka \<Rightarrow> string option \<Rightarrow> ('d, 'z, 'g, id64) handler" where
  "service_of_name resolver msg app name =
     bindH (resolverH resolver msg (ah_ListServices (hk_service app) (no_service_filter\<lparr>sfCCRN := [name]\<rparr>) None)) (\<lambda>l.
       one_element resolver msg svcId (elElements l))"

definition issue_of_name ::
  "string \<Rightarrow> string \<Rightarrow> ('d, 'z, 'g) Heureka \<Rightarrow> string option \<Rightarrow> ('d, 'z, 'g, id64) handler" where
  "issue_of_name resolver msg app name =
     bindH (resolverH resolver msg (ah_ListIssues (hk_issue app) (no_issue_filter\<lparr>ifPrimaryName := [name]\<rparr>) None)) (\<lambda>l.
       one_element resolver msg isId (ilElements l))"

text \<open>
  The remediation's time is the current one, printed and parsed again, when the input has none. The answer is made of
  the entity that was passed to the application, which fills it in and returns it.
\<close>

definition Mutation_CreateRemediation ::
  "time_text \<Rightarrow> gotime \<Rightarrow> ('d, 'z, 'g) Heureka \<Rightarrow> RemediationInput \<Rightarrow> ('d, 'z, 'g, RemediationNode) handler" where
  "Mutation_CreateRemediation tt now app input0 =
     (let resolver = ''CreateRemediationMutationResolver'';
          not_found = (\<lambda>what. ''Internal Error - when creating remediation - '' @ what @ '' id not found'');
          input = (if reRemediationDate input0 = None then input0\<lparr>reRemediationDate := Some (tt_Format tt now)\<rparr> else input0);
          r0 = NewRemediationEntity tt input;
          components = (\<lambda>f. resolverH resolver (not_found ''component'') (ah_ListComponents (hk_component app) f None))
      in bindH (service_of_name resolver (not_found ''service'') app (reService input)) (\<lambda>sid.
         bindH (issue_of_name resolver (not_found ''issue'') app (reVulnerability input)) (\<lambda>iid.
         bindH (components (no_component_filter\<lparr>cfRepository := [reImage input], cfServiceCCRN := [reService input]\<rparr>)) (\<lambda>scoped.
         bindH (if elElements scoped = [] then components (no_component_filter\<lparr>cfRepository := [reImage input]\<rparr>) else returnH scoped) (\<lambda>found.
         bindH (one_element resolver (not_found ''component'') compId (elElements found)) (\<lambda>cid.
         bindH (case reRemediatedBy input of
             None \<Rightarrow> returnH (remRemediatedBy r0)
           | Some u \<Rightarrow>
               bindH (resolverH resolver (not_found ''user'')
                 (ah_ListUniqueUserIDs (hk_user app) (no_user_filter\<lparr>ufUniqueUserID := [u]\<rparr>))) (\<lambda>ids.
               if ids = [] then
                 bindH (resolverH resolver (not_found ''user'') (ah_CreateUser (hk_user app) (NewUserEntity
                   \<lparr>uiUniqueUserId = Some u, uiType = None, uiName = None, uiEmail = None\<rparr>))) (\<lambda>user. returnH (userUniqueUserID user))
               else returnH u)) (\<lambda>by'.
         let r = r0\<lparr>remServiceId := sid, remIssueId := iid, remComponentId := cid, remRemediatedBy := by'\<rparr>
         in bindH (resolverH resolver ''Internal Error - when creating remediation'' (ah_CreateRemediation (hk_remediation app) r)) (\<lambda>created.
            returnH (NewRemediation tt created)))))))))"

definition Mutation_UpdateRemediation ::
  "time_text \<Rightarrow> ('d, 'z, 'g) Heureka \<Rightarrow> string \<Rightarrow> RemediationInput \<Rightarrow> ('d, 'z, 'g, RemediationNode) handler" where
  "Mutation_UpdateRemediation tt app i input =
     (let resolver = ''UpdateRemediationMutationResolver''; msg = ''Internal Error - when updating remediation'';
          not_found = (\<lambda>what. msg @ '' - '' @ what @ '' id not found'')
      in bindH (idH resolver msg i) (\<lambda>idInt.
         let r0 = (NewRemediationEntity tt input)\<lparr>remId := idInt\<rparr>
         in bindH (if reService input = None then returnH 0
                   else service_of_name resolver (not_found ''service'') app (reService input)) (\<lambda>sid.
            bindH (if reImage input = None then returnH 0
                   else bindH (resolverH resolver (not_found ''component'') (ah_ListComponents (hk_component app)
                            (no_component_filter\<lparr>cfRepository := [reImage input]\<rparr>) None)) (\<lambda>l.
                          one_element resolver (not_found ''component'') compId (elElements l))) (\<lambda>cid.
            bindH (if reVulnerability input = None then returnH 0
                   else issue_of_name resolver (not_found ''issue'') app (reVulnerability input)) (\<lambda>iid.
              answerH resolver msg (NewRemediation tt) (ah_UpdateRemediation (hk_remediation app)
                (r0\<lparr>remServiceId := sid, remComponentId := cid, remIssueId := iid\<rparr>)))))))"

text \<open>An id that does not parse is reported under a name without \<open>Mutation\<close>.\<close>

definition Mutation_DeleteRemediation :: "('d, 'z, 'g) Heureka \<Rightarrow> string \<Rightarrow> ('d, 'z, 'g, string) handler" where
  "Mutation_DeleteRemediation app i =
     bindH (idH ''DeleteRemediationResolver'' ''Internal Error - when deleting remediation'' i) (\<lambda>idInt.
     bindH (resolverH ''DeleteRemediationMutationResolver'' ''Internal Error - when deleting remediation''
       (ah_DeleteRemediation (hk_remediation app) idInt)) (\<lambda>_. returnH i))"

section \<open>SIEM alerts\<close>

definition given :: "string option \<Rightarrow> bool" where
  "given p \<longleftrightarrow> p \<noteq> None \<and> p \<noteq> Some []"

definition siem_error :: "string \<Rightarrow> goerr" where
  "siem_error msg = NewResolverError ''CreateSIEMAlertMutationResolver'' msg"

text \<open>
  Find or create: a row of the name is taken; without one it is created, and when the creation fails, for a row
  that someone else has created in the meantime, the name is looked up again.
\<close>

definition find_or_create ::
  "string \<Rightarrow> ('d, 'z, 'g, (string \<times> 'e) list) handler \<Rightarrow> ('d, 'z, 'g, 'e) handler \<Rightarrow> ('d, 'z, 'g, 'e) handler" where
  "find_or_create msg lookup create =
     bindH (attemptH create) (\<lambda>new. case new of
       Inr x \<Rightarrow> returnH x
     | Inl _ \<Rightarrow> bindH (attemptH lookup) (\<lambda>again. case again of
         Inr (r # _) \<Rightarrow> returnH (snd r)
       | _ \<Rightarrow> failH (siem_error msg)))"

definition getOrCreateService ::
  "('d, 'z, 'g) Heureka \<Rightarrow> string option \<Rightarrow> ('d, 'z, 'g, Service option) handler" where
  "getOrCreateService app inputService =
     (if \<not> given inputService then returnH None
      else
        let rows = bindH (ah_ListServices (hk_service app) (no_service_filter\<lparr>sfCCRN := [inputService]\<rparr>) (Some NewListOptions))
                     (\<lambda>l. returnH (elElements l))
        in bindH (wrapH (\<lambda>_. siem_error ''Internal Error - when listing services'') rows) (\<lambda>s. case s of
             r # _ \<Rightarrow> returnH (Some (snd r))
           | [] \<Rightarrow> bindH (find_or_create ''Internal Error - when creating service'' rows
               (ah_CreateService (hk_service app) (NewServiceEntity \<lparr>siCcrn = inputService, siDomain = None, siRegion = None\<rparr>)))
               (\<lambda>svc. returnH (Some svc))))"

definition getOrCreateSupportGroup ::
  "('d, 'z, 'g) Heureka \<Rightarrow> string option \<Rightarrow> ('d, 'z, 'g, SupportGroup option) handler" where
  "getOrCreateSupportGroup app inputSupportGroup =
     (if \<not> given inputSupportGroup then returnH None
      else
        let rows = bindH (ah_ListSupportGroups (hk_group app) (no_group_filter\<lparr>gfCCRN := [FromPtr inputSupportGroup]\<rparr>) NewListOptions)
                     (\<lambda>l. returnH (elElements l))
        in bindH (wrapH (\<lambda>_. siem_error ''Internal Error - when listing support groups'') rows) (\<lambda>s. case s of
             r # _ \<Rightarrow> returnH (Some (snd r))
           | [] \<Rightarrow> bindH (find_or_create ''Internal Error - when creating support group'' rows
               (ah_CreateSupportGroup (hk_group app) (NewSupportGroupEntity \<lparr>giCcrn = inputSupportGroup\<rparr>)))
               (\<lambda>sg. returnH (Some sg))))"

definition buildCCRN :: "SIEMAlertInput \<Rightarrow> string" where
  "buildCCRN input =
     strings_Join (map FromPtr (filter given
       [saService input, saRegion input, saCluster input, saNamespace input, saPod input, saContainer input])) ''/''"

definition no_instance_input :: ComponentInstanceInput where
  "no_instance_input =
     \<lparr>niCcrn = None, niCount = None, niComponentVersionId = None, niServiceId = None, niRegion = None, niCluster = None,
      niNamespace = None, niDomain = None, niProject = None, niPod = None, niContainer = None, niType = None,
      niContext = JNull, niUuid = None, niParentId = None\<rparr>"

definition getOrCreateComponentInstance ::
  "('d, 'z, 'g) Heureka \<Rightarrow> string \<Rightarrow> Service option \<Rightarrow> SIEMAlertInput \<Rightarrow> ('d, 'z, 'g, ComponentInstance option) handler" where
  "getOrCreateComponentInstance app ccrn svc input =
     (case svc of
        None \<Rightarrow> returnH None
      | Some s \<Rightarrow>
        if ccrn = [] then returnH None
        else
          let ciInput = no_instance_input\<lparr>niCcrn := Some ccrn, niServiceId := Some (FormatInt (svcId s)), niRegion := saRegion input,
                niCluster := saCluster input, niNamespace := saNamespace input, niPod := saPod input, niContainer := saContainer input\<rparr>;
              rows = bindH (ah_ListComponentInstances (hk_component app) (no_instance_filter\<lparr>nfCCRN := [ccrn]\<rparr>) NewListOptions)
                       (\<lambda>l. returnH (elElements l))
          in bindH (find_or_create ''Internal Error - when creating componentInstance'' rows
               (ah_CreateComponentInstance (hk_component app) (Some (NewComponentInstanceEntity ciInput)) None))
               (\<lambda>ci. returnH (Some ci)))"

text \<open>
  An existing variant is looked for only when both the name and the address are given. Without one, the issue of the
  name is created or looked up, the repository of the source is looked up or created, and a variant is created.
\<close>

definition find_variant ::
  "('d, 'z, 'g) Heureka \<Rightarrow> SIEMAlertInput \<Rightarrow> ('d, 'z, 'g, IssueVariant option) handler" where
  "find_variant app input =
     (if given (saUrl input) \<and> given (saName input) then
        bindH (attemptH (ah_ListIssueVariants (hk_variant app) (no_variant_filter\<lparr>wfSecondaryName := [FromPtr (saName input)]\<rparr>) NewListOptions))
          (\<lambda>ivs. returnH (case ivs of
             Inl _ \<Rightarrow> None
           | Inr l \<Rightarrow> map_option snd (find (\<lambda>v. ivExternalUrl (snd v) = FromPtr (saUrl input)) (elElements l))))
      else returnH None)"

definition siem_issue :: "('d, 'z, 'g) Heureka \<Rightarrow> SIEMAlertInput \<Rightarrow> ('d, 'z, 'g, Issue) handler" where
  "siem_issue app input =
     find_or_create ''Internal Error - when creating issue''
       (bindH (ah_ListIssues (hk_issue app) (no_issue_filter\<lparr>ifPrimaryName := [saName input]\<rparr>) (Some new_issue_options))
          (\<lambda>l. returnH (ilElements l)))
       (ah_CreateIssue (hk_issue app)
          \<lparr>isMeta = zero_metadata, isId = 0, isType = IssueTypeSecurityEvent, isPrimaryName = FromPtr (saName input),
           isDescription = FromPtr (saDescription input)\<rparr>)"

definition siem_repository :: "('d, 'z, 'g) Heureka \<Rightarrow> SIEMAlertInput \<Rightarrow> ('d, 'z, 'g, id64) handler" where
  "siem_repository app input =
     (let siemRepoName = (if given (saSource input) then FromPtr (saSource input) else ''heureka-siem'')
      in bindH (attemptH (ah_ListIssueRepositories (hk_variant app) (no_repository_filter\<lparr>yfName := [siemRepoName]\<rparr>) NewListOptions)) (\<lambda>repositories.
         case map_sum id elElements repositories of
           Inr (r # _) \<Rightarrow> returnH (irId (snd r))
         | _ \<Rightarrow> bindH (wrapH (\<lambda>_. siem_error ''Internal Error - failed to init SIEM repository'')
                   (ah_CreateIssueRepository (hk_variant app) (NewIssueRepositoryEntity \<lparr>riName = Some siemRepoName, riUrl = None\<rparr>)))
                 (\<lambda>r. returnH (irId r))))"

definition getOrCreateIssueAndVariant ::
  "('d, 'z, 'g) Heureka \<Rightarrow> SIEMAlertInput \<Rightarrow> ('d, 'z, 'g, Issue \<times> IssueVariant) handler" where
  "getOrCreateIssueAndVariant app input =
     bindH (find_variant app input) (\<lambda>found. case found of
       Some iv \<Rightarrow>
         bindH (wrapH (\<lambda>_. siem_error ''Internal Error - when resolving issue'') (ah_GetIssue (hk_issue app) (ivIssueId iv)))
           (\<lambda>issue. returnH (issue, iv))
     | None \<Rightarrow>
         if \<not> given (saName input) then failH (siem_error ''Invalid Input - name or url required'')
         else
           bindH (siem_issue app input) (\<lambda>issue.
           bindH (siem_repository app input) (\<lambda>repoId.
           let iv = \<lparr>ivMeta = zero_metadata, ivId = 0, ivIssueRepositoryId = repoId, ivIssueRepository = None,
                 ivSecondaryName = FromPtr (saName input), ivIssueId = isId issue, ivIssue = None,
                 ivSeverity = (case saSeverity input of None \<Rightarrow> zero_severity | Some sev \<Rightarrow> NewSeverityFromRating sev),
                 ivDescription = FromPtr (saDescription input), ivExternalUrl = FromPtr (saUrl input)\<rparr>
           in bindH (wrapH (\<lambda>_. siem_error ''Internal Error - when creating issueVariant'') (ah_CreateIssueVariant (hk_variant app) iv))
                (\<lambda>new. returnH (issue, new)))))"

definition SystemUserId :: id64 where "SystemUserId = 1"

text \<open>The match is assigned to the first user that the list returns, and to the system user when there is none.\<close>

definition createIssueMatchIfCI ::
  "gotime \<Rightarrow> gotime \<Rightarrow> ('d, 'z, 'g) Heureka \<Rightarrow> ComponentInstance option \<Rightarrow> Issue \<Rightarrow> ('d, 'z, 'g, unit) handler" where
  "createIssueMatchIfCI now1 now2 app ci issue =
     (case ci of
        None \<Rightarrow> returnH ()
      | Some c \<Rightarrow>
        bindH (attemptH (ah_ListUsers (hk_user app) no_user_filter NewListOptions)) (\<lambda>users.
        let assigned = (case map_sum id elElements users of Inr (u # _) \<Rightarrow> userId (snd u) | _ \<Rightarrow> SystemUserId);
            im = \<lparr>imMeta = zero_metadata, imId = 0, imStatus = IssueMatchStatusValuesNew, imUserId = assigned,
              imSeverity = zero_severity, imComponentInstance = None, imComponentInstanceId = ciId c, imIssue = None,
              imIssueId = isId issue, imRemediationDate = now1, imTargetRemediationDate = now2\<rparr>
        in bindH (wrapH (\<lambda>_. siem_error ''Internal Error - when creating issue match'') (ah_CreateIssueMatch (hk_variant app) im))
             (\<lambda>_. returnH ())))"

record SIEMAlert =
  alName :: "string option"
  alDescription :: "string option"
  alSeverity :: "string option"
  alUrl :: "string option"
  alService :: "string option"
  alSupportGroup :: "string option"
  alRegion :: "string option"
  alCluster :: "string option"
  alNamespace :: "string option"
  alPod :: "string option"
  alContainer :: "string option"
  alSource :: "string option"

text \<open>A value of the row when it is not empty, else the value of the request.\<close>

definition or_given :: "string \<Rightarrow> string option \<Rightarrow> string option" where
  "or_given v p = (if v \<noteq> [] then Some v else p)"

definition siem_answer ::
  "SIEMAlertInput \<Rightarrow> Service option \<Rightarrow> SupportGroup option \<Rightarrow> ComponentInstance option \<Rightarrow> Issue \<Rightarrow> IssueVariant \<Rightarrow> SIEMAlert" where
  "siem_answer input svc sg ci issue iv =
     (let field = (\<lambda>g p. case ci of None \<Rightarrow> p | Some c \<Rightarrow> or_given (g c) p)
      in \<lparr>alName = Some (isPrimaryName issue), alDescription = or_given (ivDescription iv) (saDescription input),
          alSeverity = or_given (sevValue (ivSeverity iv)) (saSeverity input), alUrl = or_given (ivExternalUrl iv) (saUrl input),
          alService = (case svc of None \<Rightarrow> saService input | Some s \<Rightarrow> Some (svcCCRN s)),
          alSupportGroup = (case sg of None \<Rightarrow> saSupportGroup input | Some g \<Rightarrow> Some (sgCCRN g)),
          alRegion = field ciRegion (saRegion input), alCluster = field ciCluster (saCluster input),
          alNamespace = field ciNamespace (saNamespace input), alPod = field ciPod (saPod input),
          alContainer = field ciContainer (saContainer input), alSource = saSource input\<rparr>)"

definition Mutation_CreateSIEMAlert ::
  "gotime \<Rightarrow> gotime \<Rightarrow> ('d, 'z, 'g) Heureka \<Rightarrow> SIEMAlertInput \<Rightarrow> ('d, 'z, 'g, SIEMAlert) handler" where
  "Mutation_CreateSIEMAlert now1 now2 app input =
     (if \<not> list_all given [saService input, saRegion input, saCluster input, saNamespace input, saPod input, saContainer input]
      then failH (siem_error ''Invalid Input - service, region, cluster, namespace, pod, and container are all required'')
      else
        bindH (getOrCreateService app (saService input)) (\<lambda>svc.
        bindH (getOrCreateSupportGroup app (saSupportGroup input)) (\<lambda>sg.
        bindH (case (svc, sg) of
            (Some s, Some g) \<Rightarrow>
              bindH (wrapH (\<lambda>_. siem_error ''Internal Error - when adding service to supportGroup'')
                (ah_AddServiceToSupportGroup (hk_group app) (svcId s) (sgId g))) (\<lambda>_. returnH ())
          | _ \<Rightarrow> returnH ()) (\<lambda>_.
        bindH (getOrCreateComponentInstance app (buildCCRN input) svc input) (\<lambda>ci.
        bindH (getOrCreateIssueAndVariant app input) (\<lambda>(issue, iv).
        bindH (createIssueMatchIfCI now1 now2 app ci issue) (\<lambda>_.
          returnH (siem_answer input svc sg ci issue iv))))))))"
end
