(* ===== verification/Graphql_Updates.thy ===== *)
theory Graphql_Updates
  imports Graphql_Mutations
begin

text \<open>
  The updates of the GraphQL interface down to the rows: which columns an input writes, and
  that the entities of inputs fit their columns. The application's operation is the handler, its database the table's object over a server of SQL statements.
\<close>

section \<open>Columns of an input\<close>

text \<open>The columns that are given a value, with the parameter they are set to.\<close>

definition assigns :: "(string \<times> fparam option) list \<Rightarrow> string \<rightharpoonup> fparam" where
  "assigns xs = map_of (List.map_filter (\<lambda>(c, v). map_option (Pair c) v) xs)"

lemma assigns_simps [simp]:
  "assigns [] = Map.empty"
  "assigns ((c, v) # xs) = (case v of None \<Rightarrow> assigns xs | Some p \<Rightarrow> (assigns xs)(c \<mapsto> p))"
  by (simp_all add: assigns_def map_filter_simps fun_upd_def split: option.split)

text \<open>A text is written when it is given and not empty, an id when it is given and parses to another number than 0.\<close>

definition text_value :: "string option \<Rightarrow> fparam option" where
  "text_value p = (if given p then Some (PVal (StrV (FromPtr p))) else None)"

definition some_id :: "(id64 \<Rightarrow> fparam) \<Rightarrow> id64 \<Rightarrow> fparam option" where
  "some_id f i = (if i \<noteq> 0 then Some (f i) else None)"

definition choice_value :: "string list \<Rightarrow> string option \<Rightarrow> fparam option" where
  "choice_value vs p = (case p of None \<Rightarrow> None | Some x \<Rightarrow> if x \<in> set vs \<and> x \<noteq> [] then Some (PVal (StrV x)) else None)"

definition updater :: "string \<Rightarrow> id64 \<Rightarrow> string \<times> fparam option" where
  "updater prefix u = (prefix @ ''_updated_by'', some_id int_param u)"

lemma FromPtr_given: "FromPtr p = [] \<longleftrightarrow> \<not> given p"
  by (cases p) (auto simp: given_def)

lemmas column_simps = getUpdateMap_def NewProperty_def GetUpdateData_def GetName_def NoUpdate_def zero_metadata_def FromPtr_given
  text_value_def some_id_def choice_value_def updater_def int_param_def

lemma user_input_columns:
  "getUpdateMap userObject ((NewUserEntity input)\<lparr>userMeta := zero_metadata\<lparr>UpdatedBy := u\<rparr>, userId := i\<rparr>) =
   assigns [updater ''user'' u, (''user_email'', text_value (uiEmail input)),
     (''user_type'', if GetUserTypeFromString (FromPtr (uiType input)) = InvalidUserType then None
                     else Some (int_param (GetUserTypeFromString (FromPtr (uiType input))))),
     (''user_unique_user_id'', text_value (uiUniqueUserId input)), (''user_name'', text_value (uiName input))]"
  by (simp add: userObject_def userProperties_def NewUserEntity_def column_simps)

lemma group_input_columns:
  "getUpdateMap supportGroupObject ((NewSupportGroupEntity input)\<lparr>sgMeta := zero_metadata\<lparr>UpdatedBy := u\<rparr>, sgId := i\<rparr>) =
   assigns [updater ''supportgroup'' u, (''supportgroup_ccrn'', text_value (giCcrn input))]"
  by (simp add: supportGroupObject_def supportGroupProperties_def NewSupportGroupEntity_def column_simps)

lemma service_input_columns:
  "getUpdateMap serviceObject ((NewServiceEntity input)\<lparr>svcMeta := zero_metadata\<lparr>UpdatedBy := u\<rparr>, svcId := i\<rparr>) =
   assigns [updater ''service'' u, (''service_region'', text_value (siRegion input)),
     (''service_domain'', text_value (siDomain input)), (''service_ccrn'', text_value (siCcrn input))]"
  by (simp add: serviceObject_def serviceProperties_def NewServiceEntity_def column_simps)

lemma component_input_columns:
  "getUpdateMap componentObject ((NewComponentEntity input)\<lparr>compMeta := zero_metadata\<lparr>UpdatedBy := u\<rparr>, compId := i\<rparr>) =
   assigns [updater ''component'' u, (''component_type'', choice_value ComponentTypeValues (coType input)),
     (''component_url'', text_value (coUrl input)), (''component_organization'', text_value (coOrganization input)),
     (''component_repository'', text_value (coRepository input)), (''component_ccrn'', text_value (coCcrn input))]"
  by (simp add: componentObject_def componentProperties_def NewComponentEntity_def column_simps split: option.split)

lemma repository_input_columns:
  "getUpdateMap issueRepositoryObject ((NewIssueRepositoryEntity input)\<lparr>irMeta := zero_metadata\<lparr>UpdatedBy := u\<rparr>, irId := i\<rparr>) =
   assigns [updater ''issuerepository'' u, (''issuerepository_url'', text_value (riUrl input)),
     (''issuerepository_name'', text_value (riName input))]"
  by (simp add: issueRepositoryObject_def issueRepositoryProperties_def NewIssueRepositoryEntity_def column_simps)

text \<open>
  An update of a user, a support group, a service, a component or an issue repository, as the resolver
  builds it from the input and the handler completes it with the updating user, writes exactly the columns whose
  fields are given and not empty (types among those of their enumeration) and the updater's, and no
  others: an empty text cannot be written, and what is not sent is kept.
\<close>

theorem update_columns:
  "getUpdateMap userObject ((NewUserEntity u_input)\<lparr>userMeta := zero_metadata\<lparr>UpdatedBy := u\<rparr>, userId := i\<rparr>) =
     assigns [updater ''user'' u, (''user_email'', text_value (uiEmail u_input)),
       (''user_type'', if GetUserTypeFromString (FromPtr (uiType u_input)) = InvalidUserType then None
                       else Some (int_param (GetUserTypeFromString (FromPtr (uiType u_input))))),
       (''user_unique_user_id'', text_value (uiUniqueUserId u_input)), (''user_name'', text_value (uiName u_input))] \<and>
   getUpdateMap supportGroupObject ((NewSupportGroupEntity g_input)\<lparr>sgMeta := zero_metadata\<lparr>UpdatedBy := u\<rparr>, sgId := i\<rparr>) =
     assigns [updater ''supportgroup'' u, (''supportgroup_ccrn'', text_value (giCcrn g_input))] \<and>
   getUpdateMap serviceObject ((NewServiceEntity s_input)\<lparr>svcMeta := zero_metadata\<lparr>UpdatedBy := u\<rparr>, svcId := i\<rparr>) =
     assigns [updater ''service'' u, (''service_region'', text_value (siRegion s_input)),
       (''service_domain'', text_value (siDomain s_input)), (''service_ccrn'', text_value (siCcrn s_input))] \<and>
   getUpdateMap componentObject ((NewComponentEntity c_input)\<lparr>compMeta := zero_metadata\<lparr>UpdatedBy := u\<rparr>, compId := i\<rparr>) =
     assigns [updater ''component'' u, (''component_type'', choice_value ComponentTypeValues (coType c_input)),
       (''component_url'', text_value (coUrl c_input)), (''component_organization'', text_value (coOrganization c_input)),
       (''component_repository'', text_value (coRepository c_input)), (''component_ccrn'', text_value (coCcrn c_input))] \<and>
   getUpdateMap issueRepositoryObject ((NewIssueRepositoryEntity r_input)\<lparr>irMeta := zero_metadata\<lparr>UpdatedBy := u\<rparr>, irId := i\<rparr>) =
     assigns [updater ''issuerepository'' u, (''issuerepository_url'', text_value (riUrl r_input)),
       (''issuerepository_name'', text_value (riName r_input))]"
  by (intro conjI user_input_columns group_input_columns service_input_columns component_input_columns repository_input_columns)

section \<open>The row of an issue\<close>

lemma updated_properties:
  assumes "row_laws ex v" "keyed_columns ob" "rv_key v (dbTableName ob) = dbPrefix ob @ ''_id''"
    and "\<forall>p \<in> set (dbProperties ob). prName p \<notin> dom (rv_touch v d (dbTableName ob))"
    and "Update ex getId ob e d = Inr (None, d')" "find_row v d (dbTableName ob) (getId e) = Some r"
  shows "\<exists>r'. find_row v d' (dbTableName ob) (getId e) = Some r' \<and>
    (\<forall>p \<in> set (dbProperties ob). r' (prName p) = (if snd (prAccess p e) then Some (fst (prAccess p e)) else r (prName p)))"
proof -
  let ?sets = "\<lambda>c. map_option SetParam (getUpdateMap ob e c)"
  have upd: "exec_update ex (update_query ob ?sets (getId e)) d = (None, d')"
    using assms(2,5) by (auto simp: Update_def keyed_columns_def split: if_splits)
  have nokey: "?sets (dbPrefix ob @ ''_id'') = None" by (simp add: getUpdateMap_key [OF assms(2)])
  have touched: "rv_touch v d (dbTableName ob) (prName p) = None" if "p \<in> set (dbProperties ob)" for p
    using assms(4) that by blast
  show ?thesis
    using exec_update_rows(1) [OF assms(1,3) nokey upd] assms(6)
    by (simp add: map_add_def getUpdateMap_property [OF assms(2)] touched split: option.split)
qed

text \<open>A handler that succeeds, step by step.\<close>

lemma handler_success:
  "bindH m f s = (Inr x, t) \<longleftrightarrow> (\<exists>y s'. m s = (Inr y, s') \<and> f y s' = (Inr x, t))"
  "wrapH w m s = (Inr x', t) \<longleftrightarrow> m s = (Inr x', t)"
  "current_user env s = (Inr u, t) \<longleftrightarrow> GetCurrentUserId (ae_ctx env) (ae_users env (as_db s)) = Inr u \<and> t = s"
  "execH q s = (Inr v, t) \<longleftrightarrow> (\<exists>d. q (as_db s) = (None, d) \<and> t = s\<lparr>as_db := d\<rparr>)"
  "pushH ev s = (Inr v, t) \<longleftrightarrow> t = s\<lparr>as_events := as_events s @ [ev]\<rparr>"
  "returnH z s = (Inr z', t) \<longleftrightarrow> z' = z \<and> t = s" "failH g s \<noteq> (Inr z'', t)" "liftH (Inr k) s = (Inr k', t) \<longleftrightarrow> k' = k \<and> t = s"
  by (auto simp: handler_defs current_user_def split: prod.splits sum.splits fault.splits option.splits)

lemma reads_db: "only_reads m \<Longrightarrow> m s = (r, t) \<Longrightarrow> as_db t = as_db s"
  by (metis extends_state_def only_reads_def snd_conv)

lemma UpdateIssue_stores:
  assumes "UpdateIssue env db cd e s = (Inr x, t)"
  shows "\<exists>u. ed_update db (as_db s) (e\<lparr>isMeta := (isMeta e)\<lparr>UpdatedBy := u\<rparr>\<rparr>) = (None, as_db t)"
proof -
  let ?rest = "bindH (wrapH (issue_error ''issueHandler.UpdateIssue'' (isId e))
        (ListIssues env db cd (no_issue_filter\<lparr>ifId := [isId e]\<rparr>) (Some new_issue_options))) (\<lambda>l. case ilElements l of
          [r] \<Rightarrow> bindH (pushH (OtherEvent ''UpdateIssue'')) (\<lambda>_. returnH (snd r))
        | _ \<Rightarrow> failH (AppErr (E [OpArg ''issueHandler.UpdateIssue'', StrArg ''Issue'', StrArg (FormatInt (isId e)), CodeArg Internal,
              StrArg ''unexpected number of issues found after update''])))"
  obtain u d s' where "ed_update db (as_db s) (e\<lparr>isMeta := (isMeta e)\<lparr>UpdatedBy := u\<rparr>\<rparr>) = (None, d)"
    and rest: "?rest s' = (Inr x, t)" and "as_db s' = d"
    using assms unfolding UpdateIssue_def Let_def handler_success(1) [of "wrapH _ (current_user env)"]
      handler_success(1) [of "wrapH _ (execH _)"] handler_success(2,3,4) by auto
  moreover have "as_db t = as_db s'"
    by (rule reads_db [of ?rest, OF _ rest]) (intro reading allI)
  ultimately show ?thesis by auto
qed

lemma Mutation_UpdateIssue_stores:
  assumes "Mutation_UpdateIssue tt app i input s = (Inr node, t)" "ParseCursor (Some i) = Inr n"
    and "ah_UpdateIssue (hk_issue app) = UpdateIssue env db cd"
  shows "\<exists>u. ed_update db (as_db s) ((NewIssueEntity input)\<lparr>isMeta := zero_metadata\<lparr>UpdatedBy := u\<rparr>, isId := n\<rparr>) = (None, as_db t)"
proof -
  obtain x where "UpdateIssue env db cd ((NewIssueEntity input)\<lparr>isId := n\<rparr>) s = (Inr x, t)"
    using assms by (auto simp: Mutation_UpdateIssue_def mutation_defs Let_def handler_success)
  from UpdateIssue_stores [OF this] show ?thesis
    by (auto simp: NewIssueEntity_def Let_def intro!: exI)
qed

text \<open>
  C6. The type of an issue cannot be left as it is: an update through the interface that does not send the type,
  and succeeds, stores the type Vulnerability, whatever the row had, while a name or a description
  that is not sent is kept.
\<close>

theorem unsent_type_is_reset:
  assumes "row_laws ex v" and "rv_key v ''Issue'' = ''issue_id''"
    and "\<forall>p \<in> set issueProperties. prName p \<notin> dom (rv_touch v (as_db s) ''Issue'')"
    and "\<forall>e. SqlUpdateIssue ex e (as_db s) = Inr (ed_update db (as_db s) e)"
    and "ah_UpdateIssue (hk_issue app) = UpdateIssue env db cd"
    and "ParseCursor (Some i) = Inr n" and "find_row v (as_db s) ''Issue'' n = Some r"
    and "iiType input = None" and "iiPrimaryName input = None" and "iiDescription input = None"
    and "Mutation_UpdateIssue tt app i input s = (Inr node, t)"
  shows "\<exists>r'. find_row v (as_db t) ''Issue'' n = Some r' \<and> r' ''issue_type'' = Some (PVal (StrV IssueTypeVulnerability)) \<and>
    r' ''issue_primary_name'' = r ''issue_primary_name'' \<and> r' ''issue_description'' = r ''issue_description''"
proof -
  obtain u where "ed_update db (as_db s) ((NewIssueEntity input)\<lparr>isMeta := zero_metadata\<lparr>UpdatedBy := u\<rparr>, isId := n\<rparr>) = (None, as_db t)"
    using Mutation_UpdateIssue_stores [OF assms(11,6,5)] by blast
  then have upd: "Update ex isId issueObject ((NewIssueEntity input)\<lparr>isMeta := zero_metadata\<lparr>UpdatedBy := u\<rparr>, isId := n\<rparr>) (as_db s) =
      Inr (None, as_db t)"
    using assms(4) by (simp add: SqlUpdateIssue_def)
  have names: "dbTableName issueObject = ''Issue''" "dbPrefix issueObject = ''issue''" "dbProperties issueObject = issueProperties"
    by (simp_all add: issueObject_def)
  from updated_properties [OF assms(1) tables_keyed(12) _ _ upd] show ?thesis
    using assms(2,3,7-10)
    by (auto simp: names issueProperties_def NewProperty_def NewIssueEntity_def NewIssueType_def IssueTypeVulnerability_def
        IssueTypePolicyViolation_def IssueTypeSecurityEvent_def)
qed

section \<open>Examples\<close>

text \<open>A table of issues with a policy violation, and the application over it.\<close>

definition violation_row :: row where
  "violation_row = [''issue_id'' \<mapsto> int_param 1, ''issue_type'' \<mapsto> PVal (StrV IssueTypePolicyViolation),
     ''issue_primary_name'' \<mapsto> PVal (StrV ''P-1''), ''issue_description'' \<mapsto> PVal (StrV ''open port'')]"

definition violation_store :: row_store where
  "violation_store = \<lparr>tab_rows = (tab_rows empty_store)(''Issue'' := [violation_row]), tab_next = 2\<rparr>"

definition violation :: Issue where
  "violation = \<lparr>isMeta = zero_metadata, isId = 1, isType = IssueTypePolicyViolation, isPrimaryName = ''P-1'', isDescription = ''open port''\<rparr>"

definition issues_over :: "row_store issue_db \<Rightarrow> row_store issue_db" where
  "issues_over db = db\<lparr>ed_update := (\<lambda>d e. projr (SqlUpdateIssue store_exec e d)), ed_get := (\<lambda>d f order. Inr [(''c'', violation)])\<rparr>"

definition no_type_input :: IssueInput where
  "no_type_input = \<lparr>iiPrimaryName = None, iiDescription = None, iiUuid = None, iiType = None\<rparr>"

lemma update_violation:
  assumes "isType e \<noteq> []"
  shows "\<exists>d2. SqlUpdateIssue store_exec e d = Inr (None, d2)"
proof -
  have "getUpdateMap issueObject e ''issue_type'' \<noteq> None"
    using assms by (simp add: getUpdateMap_def issueObject_def issueProperties_def NewProperty_def GetUpdateData_def GetName_def NoUpdate_def)
  then have "(\<lambda>c. map_option SetParam (getUpdateMap issueObject e c)) \<noteq> Map.empty" by (metis option.map_disc_iff)
  then show ?thesis
    by (simp add: SqlUpdateIssue_def Update_def issueObject_def exec_update_def update_query_def store_exec_def store_update_def)
qed

lemma UpdateIssue_runs:
  assumes "SqlUpdateIssue store_exec (e\<lparr>isMeta := (isMeta e)\<lparr>UpdatedBy := 1\<rparr>\<rparr>) (as_db s) = Inr (None, d2)"
  shows "\<exists>t. UpdateIssue example_env (issues_over db) cd e s = (Inr violation, t)"
proof -
  let ?s = "s\<lparr>as_db := d2\<rparr>"
  have "ListIssues example_env (issues_over db) cd f (Some new_issue_options) ?s =
      (Inr \<lparr>ilTotalCount = None, ilPageInfo = None, ilElements = [(''c'', violation)], ilTypeCounts = None\<rparr>,
       ?s\<lparr>as_events := as_events ?s @ [OtherEvent ''ListIssues'']\<rparr>)" for f
    by (simp add: ListIssues_def Let_def ensureIssueListOptions_def new_issue_options_def run_cached issues_over_def)
      (simp add: handler_defs)
  then show ?thesis
    using assms by (simp add: UpdateIssue_def Let_def run_user example_env_user) (simp add: handler_defs issues_over_def)
qed

lemma parsed_one: "ParseCursor (Some ''1'') = Inr 1"
proof -
  have "ParseInt ''1'' = Some 1" by code_simp
  then show ?thesis by (simp add: ParseCursor_def)
qed

lemma update_no_type:
  assumes "ah_UpdateIssue (hk_issue app) = UpdateIssue example_env (issues_over db) cd"
  shows "\<exists>node t. Mutation_UpdateIssue tt app ''1'' no_type_input s = (Inr node, t)"
proof -
  let ?e = "(NewIssueEntity no_type_input)\<lparr>isId := 1\<rparr>"
  have "isType (?e\<lparr>isMeta := (isMeta ?e)\<lparr>UpdatedBy := 1\<rparr>\<rparr>) \<noteq> []" by code_simp
  from update_violation [OF this, of "as_db s"] obtain d2 where
    "SqlUpdateIssue store_exec (?e\<lparr>isMeta := (isMeta ?e)\<lparr>UpdatedBy := 1\<rparr>\<rparr>) (as_db s) = Inr (None, d2)" by blast
  from UpdateIssue_runs [OF this, of db cd] obtain t where "UpdateIssue example_env (issues_over db) cd ?e s = (Inr violation, t)" by blast
  then show ?thesis
    using parsed_one assms by (auto simp: Mutation_UpdateIssue_def mutation_defs Let_def handler_success)
qed

theorem unsent_type_is_reset_witness:
  "\<forall>app0 db cd tt. let app = app0\<lparr>hk_issue := (hk_issue app0)\<lparr>ah_UpdateIssue := UpdateIssue example_env (issues_over db) cd\<rparr>\<rparr>
     in \<exists>node t r'. Mutation_UpdateIssue tt app ''1'' no_type_input (example_app violation_store []) = (Inr node, t) \<and>
       find_row store_view (as_db t) ''Issue'' 1 = Some r' \<and> r' ''issue_type'' = Some (PVal (StrV IssueTypeVulnerability)) \<and>
       r' ''issue_primary_name'' = Some (PVal (StrV ''P-1''))"
  unfolding Let_def
proof (intro allI)
  fix app0 :: "(row_store, tuple_state, unit) Heureka" and db cd tt
  let ?app = "app0\<lparr>hk_issue := (hk_issue app0)\<lparr>ah_UpdateIssue := UpdateIssue example_env (issues_over db) cd\<rparr>\<rparr>"
  let ?s = "example_app violation_store []"
  have op: "ah_UpdateIssue (hk_issue ?app) = UpdateIssue example_env (issues_over db) cd" by simp
  obtain node t where run: "Mutation_UpdateIssue tt ?app ''1'' no_type_input ?s = (Inr node, t)"
    using update_no_type [OF op] by blast
  have sql: "\<forall>e. SqlUpdateIssue store_exec e (as_db ?s) = Inr (ed_update (issues_over db) (as_db ?s) e)"
    by (simp add: issues_over_def SqlUpdateIssue_def Update_def issueObject_def)
  have row: "find_row store_view (as_db ?s) ''Issue'' 1 = Some violation_row"
    by (simp add: find_row_def store_view_def table_key_def violation_store_def violation_row_def)
  have view: "rv_key store_view ''Issue'' = ''issue_id''" "\<forall>p \<in> set issueProperties. prName p \<notin> dom (rv_touch store_view (as_db ?s) ''Issue'')"
    by (simp_all add: store_view_def table_key_def)
  have input: "iiType no_type_input = None" "iiPrimaryName no_type_input = None" "iiDescription no_type_input = None"
    by (simp_all add: no_type_input_def)
  from unsent_type_is_reset [OF store_laws view sql op parsed_one row input run] run
  show "\<exists>node t r'. Mutation_UpdateIssue tt ?app ''1'' no_type_input ?s = (Inr node, t) \<and>
       find_row store_view (as_db t) ''Issue'' 1 = Some r' \<and> r' ''issue_type'' = Some (PVal (StrV IssueTypeVulnerability)) \<and>
       r' ''issue_primary_name'' = Some (PVal (StrV ''P-1''))"
    by (auto simp: violation_row_def)
qed

section \<open>Types of the entities of inputs\<close>




lemma ParseInt_in_int64: "ParseInt s = Some i \<Longrightarrow> in_int64 i"
  by (auto simp: ParseInt_def Let_def split: list.splits option.splits if_splits)

lemma ParseInt_value_in_int64 [simp]: "in_int64 (ParseInt_value s)"
  by (auto simp: ParseInt_value_def in_int64_def [of 0] in_int64_def [of "- 9223372036854775808"]
      in_int64_def [of 9223372036854775807]
      split: option.split dest: ParseInt_in_int64)



end
