(* ===== verification/Graphql_Alerts.thy ===== *)
theory Graphql_Alerts
  imports Graphql_Mutations Access_Control
begin

text \<open>
  What the mutations do as a whole: an error of theirs is one of their own, and an alert of a SIEM
  (\<open>CreateSIEMAlert\<close>) links the service and the support group it finds or creates.
\<close>

section \<open>Errors\<close>

text \<open>Every error that a mutation returns carries one of its names; panics pass.\<close>

definition own_errors :: "string set \<Rightarrow> ('d, 'z, 'g, 'a) handler \<Rightarrow> bool" where
  "own_errors names m \<longleftrightarrow>
     (\<forall>s e s'. m s = (Inl (Failed e), s') \<longrightarrow> (\<exists>name \<in> names. \<exists>msg. e = NewResolverError name msg))"

named_theorems own_intros

lemma own_basic [own_intros]:
  "own_errors names (returnH x)"
  "name \<in> names \<Longrightarrow> own_errors names (failH (NewResolverError name msg))"
  "name \<in> names \<Longrightarrow> own_errors names (wrapH (\<lambda>_. NewResolverError name msg) m)"
  by (auto simp: own_errors_def handler_defs split: prod.splits sum.splits fault.splits)

lemma own_bind [own_intros]:
  assumes "own_errors names m" "\<And>x. own_errors names (f x)"
  shows "own_errors names (bindH m f)"
  using assms unfolding own_errors_def bindH_def by (auto split: prod.splits sum.splits) blast+

lemma own_if [own_intros]:
  "own_errors names m \<Longrightarrow> own_errors names n \<Longrightarrow> own_errors names (if b then m else n)" by simp

lemma own_option [own_intros]:
  "own_errors names m \<Longrightarrow> (\<And>x. own_errors names (f x)) \<Longrightarrow> own_errors names (case v of None \<Rightarrow> m | Some x \<Rightarrow> f x)"
  by (cases v) simp_all

lemma own_list [own_intros]:
  "own_errors names m \<Longrightarrow> (\<And>x xs. own_errors names (f x xs)) \<Longrightarrow> own_errors names (case v of [] \<Rightarrow> m | x # xs \<Rightarrow> f x xs)"
  by (cases v) simp_all

lemma own_sum [own_intros]:
  "(\<And>x. own_errors names (f x)) \<Longrightarrow> (\<And>y. own_errors names (g y)) \<Longrightarrow> own_errors names (case v of Inl x \<Rightarrow> f x | Inr y \<Rightarrow> g y)"
  by (cases v) simp_all

lemma own_pair [own_intros]:
  "(\<And>x y. own_errors names (f x y)) \<Longrightarrow> own_errors names (case v of (x, y) \<Rightarrow> f x y)"
  by (cases v) simp

lemma own_attempt [own_intros]: "own_errors names (attemptH m)"
  by (auto simp: own_errors_def attemptH_def split: prod.splits sum.splits fault.splits)

lemma own_parts [own_intros]:
  "name \<in> names \<Longrightarrow> own_errors names (resolverH name msg m)"
  "name \<in> names \<Longrightarrow> own_errors names (idH name msg i)"
  "name \<in> names \<Longrightarrow> own_errors names (answerH name msg node k)"
  "name \<in> names \<Longrightarrow> own_errors names (deleteH name msg i del)"
  "name \<in> names \<Longrightarrow> own_errors names (relateH name msg node i j change)"
  "name \<in> names \<Longrightarrow> own_errors names (one_element name msg key rows)"
  unfolding mutation_defs one_element_def by (intro own_intros; assumption)+

lemma own_lookups [own_intros]:
  "name \<in> names \<Longrightarrow> own_errors names (service_of_name name msg app nm)"
  "name \<in> names \<Longrightarrow> own_errors names (issue_of_name name msg app nm)"
  unfolding service_of_name_def issue_of_name_def by (intro own_intros; assumption)+


lemma own_alert_parts [own_intros]:
  "own_errors {''CreateSIEMAlertMutationResolver''} (find_or_create msg lookup new)"
  "own_errors {''CreateSIEMAlertMutationResolver''} (getOrCreateService app p)"
  "own_errors {''CreateSIEMAlertMutationResolver''} (getOrCreateSupportGroup app p)"
  "own_errors {''CreateSIEMAlertMutationResolver''} (getOrCreateComponentInstance app ccrn svc input)"
  "own_errors {''CreateSIEMAlertMutationResolver''} (find_variant app input)"
  "own_errors {''CreateSIEMAlertMutationResolver''} (siem_issue app input)"
  "own_errors {''CreateSIEMAlertMutationResolver''} (siem_repository app input)"
  "own_errors {''CreateSIEMAlertMutationResolver''} (getOrCreateIssueAndVariant app input)"
  "own_errors {''CreateSIEMAlertMutationResolver''} (createIssueMatchIfCI now1 now2 app ci issue)"
  unfolding find_or_create_def getOrCreateService_def getOrCreateSupportGroup_def getOrCreateComponentInstance_def find_variant_def
    siem_issue_def siem_repository_def getOrCreateIssueAndVariant_def createIssueMatchIfCI_def siem_error_def Let_def
  by (intro own_intros; simp)+


section \<open>Alerts\<close>

text \<open>Handlers that only append to the events of the state.\<close>

definition adds_events :: "('d, 'z, 'g, 'a) handler \<Rightarrow> bool" where
  "adds_events m \<longleftrightarrow> (\<forall>s. set (as_events s) \<subseteq> set (as_events (snd (m s))))"

named_theorems adds_intros

lemma adds_eventsD: "adds_events m \<Longrightarrow> m s = (r, t) \<Longrightarrow> e \<in> set (as_events s) \<Longrightarrow> e \<in> set (as_events t)"
  by (auto simp: adds_events_def dest!: spec [of _ s])

lemma adds_basic [adds_intros]:
  "adds_events (returnH x)" "adds_events (failH e)"
  "adds_events m \<Longrightarrow> adds_events (wrapH w m)" "adds_events m \<Longrightarrow> adds_events (attemptH m)"
  by (auto simp: adds_events_def [of "returnH x"] adds_events_def [of "failH e"] adds_events_def [of "wrapH w m"]
      adds_events_def [of "attemptH m"] returnH_def failH_def wrapH_def attemptH_def dest: adds_eventsD
      split: prod.splits sum.splits fault.splits)

lemma adds_bind [adds_intros]:
  assumes "adds_events m" "\<And>x. adds_events (f x)"
  shows "adds_events (bindH m f)"
  using adds_eventsD [OF assms(1)] adds_eventsD [OF assms(2)]
  by (auto simp: adds_events_def bindH_def split: prod.splits sum.splits) (metis prod.collapse)

lemma adds_cases [adds_intros]:
  "adds_events m \<Longrightarrow> adds_events n \<Longrightarrow> adds_events (if b then m else n)"
  "adds_events m \<Longrightarrow> (\<And>x. adds_events (f x)) \<Longrightarrow> adds_events (case v of None \<Rightarrow> m | Some x \<Rightarrow> f x)"
  "adds_events k \<Longrightarrow> (\<And>x xs. adds_events (g x xs)) \<Longrightarrow> adds_events (case l of [] \<Rightarrow> k | x # xs \<Rightarrow> g x xs)"
  "(\<And>x. adds_events (h x)) \<Longrightarrow> (\<And>y. adds_events (i y)) \<Longrightarrow> adds_events (case u of Inl x \<Rightarrow> h x | Inr y \<Rightarrow> i y)"
  "(\<And>x y. adds_events (j x y)) \<Longrightarrow> adds_events (case p of (x, y) \<Rightarrow> j x y)"
  by (auto split: option.split list.split sum.split prod.split)

text \<open>The operations that an alert calls after it has linked the service and the support group.\<close>

definition later_calls_add_events :: "('d, 'z, 'g) Heureka \<Rightarrow> bool" where
  "later_calls_add_events app \<longleftrightarrow>
     (\<forall>x o'. adds_events (ah_ListComponentInstances (hk_component app) x o')) \<and>
     (\<forall>x o'. adds_events (ah_CreateComponentInstance (hk_component app) x o')) \<and>
     (\<forall>x o'. adds_events (ah_ListIssueVariants (hk_variant app) x o')) \<and>
     (\<forall>x. adds_events (ah_CreateIssueVariant (hk_variant app) x)) \<and>
     (\<forall>x o'. adds_events (ah_ListIssueRepositories (hk_variant app) x o')) \<and>
     (\<forall>x. adds_events (ah_CreateIssueRepository (hk_variant app) x)) \<and>
     (\<forall>x. adds_events (ah_CreateIssueMatch (hk_variant app) x)) \<and>
     (\<forall>x o'. adds_events (ah_ListIssues (hk_issue app) x o')) \<and>
     (\<forall>x. adds_events (ah_CreateIssue (hk_issue app) x)) \<and>
     (\<forall>x. adds_events (ah_GetIssue (hk_issue app) x)) \<and>
     (\<forall>x o'. adds_events (ah_ListUsers (hk_user app) x o'))"

lemma later_parts_add_events:
  assumes "later_calls_add_events app"
  shows "adds_events (getOrCreateComponentInstance app ccrn svc input)" "adds_events (getOrCreateIssueAndVariant app input)"
    "adds_events (createIssueMatchIfCI now1 now2 app ci issue)"
  using assms
  unfolding later_calls_add_events_def getOrCreateComponentInstance_def getOrCreateIssueAndVariant_def createIssueMatchIfCI_def
    find_or_create_def find_variant_def siem_issue_def siem_repository_def siem_error_def Let_def
  by (intro adds_intros; simp)+

lemma link_handled:
  "handle_event az (SubscribeAuthzHandlers []) (AddServiceToSupportGroupEvent g v) z =
     snd (az_AddRelationBulk az z [relation TypeSupportGroup g RelSupportGroup TypeService v])"
  by (simp add: handle_event_subscribed, simp add: authz_handlers_def OnAddServiceToSupportGroup_def)

lemma link_pushed:
  assumes "gdb_add_service db (as_db s) i v = (None, d)"
  shows "AddServiceToSupportGroupEvent i v \<in> set (as_events (snd (AddServiceToSupportGroup env db i v s)))"
proof -
  let ?t = "s\<lparr>as_db := d, as_events := as_events s @ [AddServiceToSupportGroupEvent i v]\<rparr>"
  have "only_reads (GetSupportGroup env db i)" by (rule reading)
  then have "extends_state ?t (snd (GetSupportGroup env db i ?t))" by (simp add: only_reads_def)
  moreover have "AddServiceToSupportGroup env db i v s = GetSupportGroup env db i ?t"
    using assms by (simp add: AddServiceToSupportGroup_def relate_group_def handler_defs execH_def)
  ultimately show ?thesis by (auto simp: extends_state_def)
qed

text \<open>
  C2. \<open>CreateSIEMAlert\<close> calls \<open>AddServiceToSupportGroup\<close> with the id of the service first, where the operation
  expects the support group. An alert for service n and support group m asks the database to link service m to
  group n, and the event makes the group n related to the service m in the authorization store: members of
  another group gain access to another service, or the link fails where no such rows exist.
\<close>

theorem siem_alert_swaps_ids:
  assumes "list_all given [saService input, saRegion input, saCluster input, saNamespace input, saPod input, saContainer input]"
    and "getOrCreateService app (saService input) s = (Inr (Some svc), s1)"
    and "getOrCreateSupportGroup app (saSupportGroup input) s1 = (Inr (Some sg), s2)"
    and "ah_AddServiceToSupportGroup (hk_group app) = AddServiceToSupportGroup env db"
    and "gdb_add_service db (as_db s2) (svcId svc) (sgId sg) = (None, d)"
    and "later_calls_add_events app"
  shows "AddServiceToSupportGroupEvent (svcId svc) (sgId sg) \<in> set (as_events (snd (Mutation_CreateSIEMAlert now1 now2 app input s)))
    \<and> (TypeSupportGroup @ '':'' @ FormatInt (svcId svc), RelSupportGroup, TypeService @ '':'' @ FormatInt (sgId sg)) \<in>
        set (ts_tuples (handle_event (Authz tuple_store) (SubscribeAuthzHandlers []) (AddServiceToSupportGroupEvent (svcId svc) (sgId sg)) z))"
proof
  let ?e = "AddServiceToSupportGroupEvent (svcId svc) (sgId sg)"
  obtain r s3 where link: "AddServiceToSupportGroup env db (svcId svc) (sgId sg) s2 = (r, s3)" by fastforce
  then have pushed: "?e \<in> set (as_events s3)" using link_pushed [OF assms(5)] by (metis snd_conv)
  let ?rest = "bindH (getOrCreateComponentInstance app (buildCCRN input) (Some svc) input) (\<lambda>ci.
        bindH (getOrCreateIssueAndVariant app input) (\<lambda>(issue, iv).
        bindH (createIssueMatchIfCI now1 now2 app ci issue) (\<lambda>_.
          returnH (siem_answer input (Some svc) (Some sg) ci issue iv))))"
  have "adds_events ?rest" using later_parts_add_events [OF assms(6)] by (intro adds_intros) auto
  then have rest: "?e \<in> set (as_events (snd (?rest s3)))" using pushed by (auto simp: adds_events_def)
  have "snd (Mutation_CreateSIEMAlert now1 now2 app input s) = (case r of Inl _ \<Rightarrow> s3 | Inr _ \<Rightarrow> snd (?rest s3))"
    using assms(1-4) link
    by (auto simp: Mutation_CreateSIEMAlert_def bindH_def wrapH_def returnH_def split: sum.split fault.split)
  then show "?e \<in> set (as_events (snd (Mutation_CreateSIEMAlert now1 now2 app input s)))"
    using pushed rest by (cases r) simp_all
  show "(TypeSupportGroup @ '':'' @ FormatInt (svcId svc), RelSupportGroup, TypeService @ '':'' @ FormatInt (sgId sg)) \<in>
        set (ts_tuples (handle_event (Authz tuple_store) (SubscribeAuthzHandlers []) ?e z))"
    unfolding link_handled using AddRelationBulk_store [of z] by (simp add: Authz_def ts_present_def tuple_of_relation)
qed

section \<open>Examples\<close>

text \<open>An application that knows one service and one support group and refuses everything else.\<close>

definition refused :: goerr where "refused = ErrVal ''test'' ''refused''"

definition example_heureka :: "((id64 \<times> id64) list, tuple_state, unit) Heureka" where
  "example_heureka =
     \<lparr>hk_user =
       \<lparr>ah_ListUsers = (\<lambda>_ _. failH refused), ah_CreateUser = (\<lambda>_. failH refused),
        ah_UpdateUser = (\<lambda>_. failH refused), ah_DeleteUser = (\<lambda>_. failH refused),
        ah_ListUniqueUserIDs = (\<lambda>_. failH refused)\<rparr>,
      hk_group =
       \<lparr>ah_ListSupportGroups = (\<lambda>_ _. returnH \<lparr>elTotalCount = None, elPageInfo = None,
         elElements = [(''c'', \<lparr>sgMeta = zero_metadata, sgId = 3, sgCCRN = ''team''\<rparr>)]\<rparr>),
        ah_CreateSupportGroup = (\<lambda>_. failH refused), ah_UpdateSupportGroup = (\<lambda>_. failH refused),
        ah_DeleteSupportGroup = (\<lambda>_. failH refused),
        ah_AddServiceToSupportGroup = AddServiceToSupportGroup example_env members_db,
        ah_RemoveServiceFromSupportGroup = (\<lambda>_ _. failH refused),
        ah_AddUserToSupportGroup = (\<lambda>_ _. failH refused), ah_RemoveUserFromSupportGroup = (\<lambda>_ _. failH refused)\<rparr>,
      hk_service =
       \<lparr>ah_ListServices = (\<lambda>_ _. returnH \<lparr>elTotalCount = None, elPageInfo = None,
         elElements = [(''c'', plain_service ''app'' [] [] 0 7)]\<rparr>),
        ah_CreateService = (\<lambda>_. failH refused), ah_UpdateService = (\<lambda>_. failH refused),
        ah_DeleteService = (\<lambda>_. failH refused), ah_AddOwnerToService = (\<lambda>_ _. failH refused),
        ah_RemoveOwnerFromService = (\<lambda>_ _. failH refused),
        ah_AddIssueRepositoryToService = (\<lambda>_ _ _. failH refused),
        ah_RemoveIssueRepositoryFromService = (\<lambda>_ _. failH refused)\<rparr>,
      hk_component =
       \<lparr>ah_ListComponents = (\<lambda>_ _. failH refused), ah_CreateComponent = (\<lambda>_. failH refused),
        ah_UpdateComponent = (\<lambda>_. failH refused), ah_DeleteComponent = (\<lambda>_. failH refused),
        ah_CreateComponentVersion = (\<lambda>_. failH refused), ah_UpdateComponentVersion = (\<lambda>_. failH refused),
        ah_DeleteComponentVersion = (\<lambda>_. failH refused), ah_ListComponentInstances = (\<lambda>_ _. failH refused),
        ah_CreateComponentInstance = (\<lambda>_ _. failH refused), ah_UpdateComponentInstance = (\<lambda>_ _. failH refused),
        ah_DeleteComponentInstance = (\<lambda>_. failH refused)\<rparr>,
      hk_issue =
       \<lparr>ah_ListIssues = (\<lambda>_ _. failH refused), ah_GetIssue = (\<lambda>_. failH refused),
        ah_CreateIssue = (\<lambda>_. failH refused), ah_UpdateIssue = (\<lambda>_. failH refused),
        ah_DeleteIssue = (\<lambda>_. failH refused), ah_AddComponentVersionToIssue = (\<lambda>_ _. failH refused),
        ah_RemoveComponentVersionFromIssue = (\<lambda>_ _. failH refused)\<rparr>,
      hk_variant =
       \<lparr>ah_ListIssueRepositories = (\<lambda>_ _. failH refused), ah_CreateIssueRepository = (\<lambda>_. failH refused),
        ah_UpdateIssueRepository = (\<lambda>_. failH refused), ah_DeleteIssueRepository = (\<lambda>_. failH refused),
        ah_ListIssueVariants = (\<lambda>_ _. failH refused), ah_CreateIssueVariant = (\<lambda>_. failH refused),
        ah_UpdateIssueVariant = (\<lambda>_. failH refused), ah_DeleteIssueVariant = (\<lambda>_. failH refused),
        ah_CreateIssueMatch = (\<lambda>_. failH refused), ah_UpdateIssueMatch = (\<lambda>_. failH refused),
        ah_DeleteIssueMatch = (\<lambda>_. failH refused)\<rparr>,
      hk_remediation =
       \<lparr>ah_CreateRemediation = (\<lambda>_. failH refused), ah_UpdateRemediation = (\<lambda>_. failH refused),
        ah_DeleteRemediation = (\<lambda>_. failH refused), ah_CreateScannerRun = (\<lambda>_. failH refused),
        ah_CompleteScannerRun = (\<lambda>_. failH refused), ah_FailScannerRun = (\<lambda>_ _. failH refused)\<rparr>\<rparr>"

definition example_alert :: SIEMAlertInput where
  "example_alert =
     \<lparr>saName = Some ''login'', saDescription = None, saSeverity = None, saUrl = None, saService = Some ''app'',
      saSupportGroup = Some ''team'', saRegion = Some ''r'', saCluster = Some ''c'', saNamespace = Some ''n'',
      saPod = Some ''p'', saContainer = Some ''k'', saSource = None\<rparr>"

theorem siem_alert_swaps_ids_witness:
  "AddServiceToSupportGroupEvent 7 3 \<in> set (as_events (snd (Mutation_CreateSIEMAlert 0 0 example_heureka example_alert (example_app [] []))))
    \<and> (''support_group:7'', ''support_group'', ''service:3'') \<in>
        set (ts_tuples (handle_event (Authz tuple_store) (SubscribeAuthzHandlers []) (AddServiceToSupportGroupEvent 7 3) \<lparr>ts_tuples = [], ts_page = 50\<rparr>))"
proof -
  let ?s = "example_app [] [] :: ((id64 \<times> id64) list, tuple_state, unit) app_state"
  let ?svc = "plain_service ''app'' [] [] 0 7" and ?sg = "\<lparr>sgMeta = zero_metadata, sgId = 3, sgCCRN = ''team''\<rparr>"
  have svc: "getOrCreateService example_heureka (saService example_alert) ?s = (Inr (Some ?svc), ?s)"
    by (simp add: getOrCreateService_def example_heureka_def example_alert_def given_def handler_defs Let_def)
  have sg: "getOrCreateSupportGroup example_heureka (saSupportGroup example_alert) ?s = (Inr (Some ?sg), ?s)"
    by (simp add: getOrCreateSupportGroup_def example_heureka_def example_alert_def given_def handler_defs Let_def)
  have op: "ah_AddServiceToSupportGroup (hk_group example_heureka) = AddServiceToSupportGroup example_env members_db"
    by (simp add: example_heureka_def)
  have db: "gdb_add_service members_db (as_db ?s) (svcId ?svc) (sgId ?sg) = (None, [])" by (simp add: members_db_def)
  have later: "later_calls_add_events example_heureka"
    by (simp add: later_calls_add_events_def example_heureka_def adds_basic)
  have all_given: "list_all given [saService example_alert, saRegion example_alert, saCluster example_alert, saNamespace example_alert,
      saPod example_alert, saContainer example_alert]"
    by (simp add: example_alert_def given_def)
  have "svcId ?svc = 7" "sgId ?sg = 3" "FormatInt 7 = ''7''" "FormatInt 3 = ''3''" by (simp_all add: plain_service_def) code_simp+
  then show ?thesis
    using siem_alert_swaps_ids [OF all_given svc sg op db later, of 0 0 "\<lparr>ts_tuples = [], ts_page = 50\<rparr>"]
    by (simp add: type_defs rel_defs)
qed

end
