(* ===== verification/Graphql_Queries.thy ===== *)
theory Graphql_Queries
  imports Graphql_Mutations
begin

text \<open>
  The queries of the GraphQL interface (\<open>graph/baseResolver\<close>): a base resolver turns the id of the parent node,
  the filter and the order of a request into those of the application, calls it, and turns the
  list it gets into a connection. Also the errors that clients see (\<open>custom_errors.go\<close>). The operations of
  the application are a record; lists of services and issues pair each row with its aggregations.
  Lists of filters hold no null entries.
\<close>

section \<open>Errors that clients see\<close>

datatype gq_value = GqText string | GqFields "string \<Rightarrow> field_value option"

record GraphQLError =
  gqMessage :: string
  gqExtensions :: "string \<rightharpoonup> gq_value"

definition ErrorCodeBadRequest :: string where "ErrorCodeBadRequest = ''BAD_REQUEST''"
definition ErrorCodeNotFound :: string where "ErrorCodeNotFound = ''NOT_FOUND''"
definition ErrorCodeInternal :: string where "ErrorCodeInternal = ''INTERNAL''"
definition ErrorCodeUnauthenticated :: string where "ErrorCodeUnauthenticated = ''UNAUTHENTICATED''"
definition ErrorCodeForbidden :: string where "ErrorCodeForbidden = ''FORBIDDEN''"
definition ErrorCodeConflict :: string where "ErrorCodeConflict = ''CONFLICT''"

definition NewGraphQLError :: "string \<Rightarrow> string \<Rightarrow> GraphQLError" where
  "NewGraphQLError message code = \<lparr>gqMessage = message, gqExtensions = [''code'' \<mapsto> GqText code]\<rparr>"

definition appErrorCodeToGraphQL :: "Code \<Rightarrow> string" where
  "appErrorCodeToGraphQL code =
     (if code = InvalidArgument then ErrorCodeBadRequest
      else if code = NotFound then ErrorCodeNotFound
      else if code = AlreadyExists then ErrorCodeConflict
      else if code = PermissionDenied then ErrorCodeForbidden
      else if code = Unauthenticated then ErrorCodeUnauthenticated
      else if code = ResourceExhausted then ErrorCodeBadRequest
      else if code = FailedPrecondition then ErrorCodeBadRequest
      else ErrorCodeInternal)"

text \<open>\<open>strings.ToLower\<close> on the names of entities, which are ASCII.\<close>

definition lower_char :: "char \<Rightarrow> char" where
  "lower_char c = (if 65 \<le> (of_char c :: nat) \<and> (of_char c :: nat) \<le> 90 then char_of ((of_char c :: nat) + 32) else c)"

definition sanitizeErrorMessage :: "app_error \<Rightarrow> string" where
  "sanitizeErrorMessage a =
     (if eCode a = Internal then ''An internal server error occurred''
      else if eCode a = NotFound then
        (if eEntity a \<noteq> [] then
           (if eID a \<noteq> [] then eEntity a @ '' with ID '' @ eID a @ '' not found'' else eEntity a @ '' not found'')
         else ''Resource not found'')
      else if eCode a = AlreadyExists then
        (if eEntity a \<noteq> [] then
           eEntity a @ '' already exists'' @ (if eMessage a \<noteq> [] then '': '' @ eMessage a else [])
         else ''Resource already exists'')
      else if eCode a = InvalidArgument then
        (if eMessage a \<noteq> [] then eMessage a
         else if eEntity a \<noteq> [] then ''Invalid '' @ map lower_char (eEntity a)
         else ''Invalid input'')
      else if eCode a = PermissionDenied then ''Permission denied''
      else if eCode a = Unauthenticated then ''Authentication required''
      else if eMessage a \<noteq> [] then eMessage a
      else app_error_text a)"

text \<open>\<open>errors.As\<close> with an application error as target.\<close>

fun as_app_error :: "goerr \<Rightarrow> app_error option" where
  "as_app_error (ErrVal t m) = None"
| "as_app_error (WrapErr p e) = as_app_error e"
| "as_app_error (AppErr a) = Some a"

definition gq_extension :: "string \<Rightarrow> bool \<Rightarrow> gq_value \<Rightarrow> (string \<rightharpoonup> gq_value) \<Rightarrow> string \<rightharpoonup> gq_value" where
  "gq_extension key shown v ext = (if shown then ext(key \<mapsto> v) else ext)"

definition ToGraphQLError :: "goerr option \<Rightarrow> GraphQLError option" where
  "ToGraphQLError err = (case err of
     None \<Rightarrow> None
   | Some e \<Rightarrow> Some (case as_app_error e of
       None \<Rightarrow> NewGraphQLError ''An unexpected error occurred'' ErrorCodeInternal
     | Some a \<Rightarrow>
        let ext1 = [''code'' \<mapsto> GqText (appErrorCodeToGraphQL (eCode a))];
            ext2 = gq_extension ''entity'' (eEntity a \<noteq> []) (GqText (eEntity a)) ext1;
            ext3 = gq_extension ''id'' (eID a \<noteq> []) (GqText (eID a)) ext2;
            ext4 = gq_extension ''operation'' (eOp a \<noteq> [] \<and> eCode a = Internal) (GqText (eOp a)) ext3;
            ext5 = gq_extension ''fields'' (eCode a \<noteq> Internal \<and> eFields a \<noteq> Map.empty) (GqFields (eFields a)) ext4
        in \<lparr>gqMessage = sanitizeErrorMessage a, gqExtensions = ext5\<rparr>))"

text \<open>As errors of resolvers: here one counts with its message only, which is its \<open>Error()\<close>.\<close>

definition gql_error :: "goerr \<Rightarrow> goerr" where
  "gql_error e = ErrVal ''GraphQLError'' (case ToGraphQLError (Some e) of None \<Rightarrow> [] | Some g \<Rightarrow> gqMessage g)"

definition gql_invalid :: "string \<Rightarrow> string \<Rightarrow> string \<Rightarrow> goerr" where
  "gql_invalid opn entity msg = gql_error (AppErr (E [OpArg opn, StrArg entity, CodeArg InvalidArgument, StrArg msg]))"

definition gql_internal :: "string \<Rightarrow> string \<Rightarrow> string \<Rightarrow> goerr" where
  "gql_internal opn entity msg = gql_error (AppErr (E [OpArg opn, StrArg entity, CodeArg Internal, StrArg msg]))"

text \<open>\<open>NewResolverError(name, err.Error())\<close>.\<close>

definition told :: "string \<Rightarrow> goerr \<Rightarrow> goerr" where
  "told resolver e = NewResolverError resolver (error_text e)"

section \<open>What resolvers share\<close>

definition GetPreloadString :: "string \<Rightarrow> string \<Rightarrow> string" where
  "GetPreloadString prefix name = (if prefix \<noteq> [] then prefix @ ''.'' @ name else name)"

text \<open>The fields that a request selects; the library collects the fields of a selection.\<close>

datatype collected = Collected string "collected list"

fun GetNestedPreloads :: "collected list \<Rightarrow> string \<Rightarrow> string list" where
  "GetNestedPreloads [] prefix = []"
| "GetNestedPreloads (Collected name selections # fs) prefix =
     GetPreloadString prefix name # GetNestedPreloads selections (GetPreloadString prefix name) @ GetNestedPreloads fs prefix"

definition GetListOptions :: "string list \<Rightarrow> ListOptions" where
  "GetListOptions requested =
     \<lparr>ShowTotalCount = (''totalCount'' \<in> set requested), ShowPageInfo = (''pageInfo'' \<in> set requested),
      IncludeAggregations = (''edges.node.objectMetadata'' \<in> set requested), loOrder = []\<rparr>"

definition GetIssueListOptions :: "string list \<Rightarrow> IssueListOptions" where
  "GetIssueListOptions requested =
     \<lparr>ShowTotalCount = (''totalCount'' \<in> set requested), ShowPageInfo = (''pageInfo'' \<in> set requested),
      IncludeAggregations = (''edges.node.objectMetadata'' \<in> set requested), loOrder = [],
      ShowIssueTypeCounts = (''issueTypeCounts'' \<in> set requested)\<rparr>"

definition containsField :: "string list \<Rightarrow> string \<Rightarrow> bool" where
  "containsField requestedFields field \<longleftrightarrow>
     (\<exists>rf \<in> set requestedFields. rf = field \<or> length field < length rf \<and> take (length field + 1) rf = field @ ''.'')"

text \<open>The node above a field: the id of the parent node unless it is nil, its name, and the ids of its children.\<close>

datatype NodeName = IssueVariantNodeName | IssueRepositoryNodeName | ComponentNodeName | ComponentInstanceNodeName
  | ComponentVersionNodeName | ServiceNodeName | SupportGroupNodeName | UserNodeName | IssueNodeName | IssueMatchNodeName
  | VulnerabilityNodeName | ImageNodeName | ImageVersionNodeName

record NodeParent =
  npParent :: "string option"
  npName :: NodeName
  npChildIds :: "id64 list"

definition parent_id :: "goerr \<Rightarrow> NodeParent \<Rightarrow> ('d, 'z, 'g, id64) handler" where
  "parent_id err p =
     (case npParent p of
        None \<Rightarrow> goH (Inl NilDereference)
      | Some i \<Rightarrow> wrapH (\<lambda>_. err) (liftH (ParseCursor (Some i))))"

text \<open>The id of the parent when it is of one of the kinds.\<close>

definition with_parent ::
  "goerr \<Rightarrow> NodeParent option \<Rightarrow> ((NodeName \<Rightarrow> id64 list) \<Rightarrow> ('d, 'z, 'g, 'a) handler) \<Rightarrow> ('d, 'z, 'g, 'a) handler" where
  "with_parent err parent k =
     (case parent of
        None \<Rightarrow> k (\<lambda>_. [])
      | Some p \<Rightarrow> bindH (parent_id err p) (\<lambda>pid. k (\<lambda>n. if n = npName p then [pid] else [])))"

fun ConvertStrToIntSlice :: "string list \<Rightarrow> goerr + id64 list" where
  "ConvertStrToIntSlice [] = Inr []"
| "ConvertStrToIntSlice (x # xs) =
     (case ParseInt x of
        None \<Rightarrow> Inl (ErrVal ''strconv'' (''strconv.ParseInt: parsing '' @ x @ '': invalid syntax''))
      | Some i \<Rightarrow> bindR (ConvertStrToIntSlice xs) (\<lambda>is. Inr (i # is)))"

definition ConvertIntToStrSlice :: "id64 list \<Rightarrow> string list" where
  "ConvertIntToStrSlice = map FormatInt"

definition parsed_ids :: "(goerr \<Rightarrow> goerr) \<Rightarrow> string list \<Rightarrow> ('d, 'z, 'g, id64 list) handler" where
  "parsed_ids w xs = wrapH w (liftH (ConvertStrToIntSlice xs))"

fun orders_of :: "('o \<Rightarrow> entity_order list go) \<Rightarrow> 'o list \<Rightarrow> entity_order list go" where
  "orders_of f [] = Inr []"
| "orders_of f (o' # os) = bindR (f o') (\<lambda>xs. bindR (orders_of f os) (\<lambda>ys. Inr (xs @ ys)))"

definition one_order :: "('o \<Rightarrow> entity_order go) \<Rightarrow> 'o \<Rightarrow> entity_order list go" where
  "one_order f o' = bindR (f o') (\<lambda>x. Inr [x])"

definition count_orders :: "OrderDirection \<Rightarrow> entity_order list" where
  "count_orders dir = map (\<lambda>f. \<lparr>By = f, Direction = dir\<rparr>) [CriticalCount, HighCount, MediumCount, LowCount, NoneCount]"

record ('n, 'x) Connection =
  lnTotalCount :: int
  lnEdges :: "('n \<times> string) list"
  lnPageInfo :: "PageInfoNode option"
  lnCounts :: 'x

definition connection_with :: "('e \<Rightarrow> 'n) \<Rightarrow> 'x \<Rightarrow> 'e entity_list \<Rightarrow> ('n, 'x) Connection" where
  "connection_with node x l =
     \<lparr>lnTotalCount = (case elTotalCount l of None \<Rightarrow> 0 | Some n \<Rightarrow> n), lnEdges = map (\<lambda>r. (node (snd r), fst r)) (elElements l),
      lnPageInfo = NewPageInfo (elPageInfo l), lnCounts = x\<rparr>"

definition connection :: "('e \<Rightarrow> 'n) \<Rightarrow> 'e entity_list \<Rightarrow> ('n, unit) Connection" where
  "connection node = connection_with node ()"

definition paged :: "int option \<Rightarrow> string option \<Rightarrow> Paginated" where
  "paged first after = \<lparr>First = first, PAfter = after\<rparr>"

text \<open>A list that becomes a connection, and the one child of a node.\<close>

definition listed :: "(goerr \<Rightarrow> goerr) \<Rightarrow> ('e \<Rightarrow> 'n) \<Rightarrow> ('d, 'z, 'g, 'e entity_list) handler \<Rightarrow> ('d, 'z, 'g, ('n, unit) Connection) handler" where
  "listed w node m = bindH (wrapH w m) (\<lambda>l. returnH (connection node l))"

definition one_child ::
  "goerr \<Rightarrow> goerr \<Rightarrow> (goerr \<Rightarrow> goerr) \<Rightarrow> ('e \<Rightarrow> 'n) \<Rightarrow> (id64 list \<Rightarrow> ('d, 'z, 'g, 'e list) handler) \<Rightarrow> NodeParent option
   \<Rightarrow> ('d, 'z, 'g, 'n option) handler" where
  "one_child no_parent multiple w node lst parent =
     (case parent of
        None \<Rightarrow> failH no_parent
      | Some p \<Rightarrow> bindH (wrapH w (lst (npChildIds p))) (\<lambda>rows. case rows of
          [] \<Rightarrow> returnH None
        | [r] \<Rightarrow> returnH (Some (node r))
        | _ \<Rightarrow> failH multiple))"

definition rows_of :: "('d, 'z, 'g, 'e entity_list) handler \<Rightarrow> ('d, 'z, 'g, 'e list) handler" where
  "rows_of m = bindH m (\<lambda>l. returnH (map snd (elElements l)))"

text \<open>The values of a filter.\<close>

record FilterItem =
  fiDisplayName :: string
  fiValues :: "string list"

definition filter_item :: "(goerr \<Rightarrow> goerr) \<Rightarrow> string \<Rightarrow> ('d, 'z, 'g, string list) handler \<Rightarrow> ('d, 'z, 'g, FilterItem) handler" where
  "filter_item w display m = bindH (wrapH w m) (\<lambda>names. returnH \<lparr>fiDisplayName = display, fiValues = names\<rparr>)"

section \<open>Inputs of queries\<close>

text \<open>
  The filters of the schema. A missing filter is an empty one; where the code tells a missing list from an
  empty one, the list is an option.
\<close>

record ServiceFilterInput =
  qsServiceCcrn :: "string list option"
  qsDomain :: "string list"
  qsRegion :: "string list"
  qsUserName :: "string list"
  qsSupportGroupCcrn :: "string list"
  qsSearch :: "string list"
  qsState :: "StateFilter list"

record SupportGroupFilterInput =
  qgSupportGroupCcrn :: "string list"
  qgUserIds :: "string list"
  qgState :: "StateFilter list"

record UserFilterInput =
  quUserName :: "string list"
  quUniqueUserID :: "string list"
  quState :: "StateFilter list"

record ComponentFilterInput =
  qcComponentCcrn :: "string list"
  qcRepository :: "string list"
  qcServiceCcrn :: "string list"
  qcState :: "StateFilter list"

record ComponentVersionFilterInput =
  qvComponentID :: "string list"
  qvComponentCcrn :: "string list"
  qvIssueRepositoryID :: "string list"
  qvVersion :: "string list"
  qvServiceID :: "string list"
  qvServiceCcrn :: "string list"
  qvState :: "StateFilter list"
  qvRepository :: "string list"
  qvEndOfLife :: "bool list"

record ComponentInstanceFilterInput =
  qnComponentVersionDigest :: "string list"
  qnServiceCcrn :: "string list"
  qnCcrn :: "string list"
  qnRegion :: "string list"
  qnCluster :: "string list"
  qnNamespace :: "string list"
  qnDomain :: "string list"
  qnProject :: "string list"
  qnPod :: "string list"
  qnContainer :: "string list"
  qnType :: "string list"
  qnContext :: "json list"
  qnSearch :: "string list"
  qnState :: "StateFilter list"
  qnParentID :: "string list"

record IssueFilterInput =
  qiServiceCcrn :: "string list"
  qiSupportGroupCcrn :: "string list"
  qiPrimaryName :: "string list"
  qiIssueMatchStatus :: "string list"
  qiIssueType :: "string list"
  qiState :: "StateFilter list"
  qiIssueRepositoryID :: "string list"
  qiComponentVersionID :: "string list"
  qiSearch :: "string list"
  qiAllServices :: "bool option"

record IssueMatchFilterInput =
  qmID :: "string list"
  qmSearch :: "string list"
  qmPrimaryName :: "string list"
  qmComponentCcrn :: "string list"
  qmComponentInstanceID :: "string list option"
  qmIssueType :: "string list"
  qmStatus :: "string list"
  qmSeverity :: "string list"
  qmServiceCcrn :: "string list"
  qmSupportGroupCcrn :: "string list"
  qmState :: "StateFilter list"
  qmServiceOwnerUsername :: "string list"
  qmServiceOwnerUniqueUserID :: "string list"

record IssueRepositoryFilterInput =
  qyServiceCcrn :: "string list"
  qyName :: "string list"
  qyState :: "StateFilter list"

record IssueVariantFilterInput =
  qwSecondaryName :: "string list"
  qwState :: "StateFilter list"

record RemediationFilterInput =
  qrType :: "string list"
  qrURL :: "string list"
  qrService :: "string list"
  qrImage :: "string list"
  qrVulnerability :: "string list"
  qrState :: "StateFilter list"
  qrSearch :: "string list"

record PatchFilterInput =
  qpID :: "string list"
  qpServiceID :: "string list"
  qpServiceName :: "string list"
  qpComponentVersionID :: "string list"
  qpComponentVersionName :: "string list"
  qpState :: "StateFilter list"

definition no_service_input :: ServiceFilterInput where
  "no_service_input = \<lparr>qsServiceCcrn = None, qsDomain = [], qsRegion = [], qsUserName = [], qsSupportGroupCcrn = [],
     qsSearch = [], qsState = []\<rparr>"

definition no_component_input :: ComponentFilterInput where
  "no_component_input = \<lparr>qcComponentCcrn = [], qcRepository = [], qcServiceCcrn = [], qcState = []\<rparr>"

definition no_version_input :: ComponentVersionFilterInput where
  "no_version_input = \<lparr>qvComponentID = [], qvComponentCcrn = [], qvIssueRepositoryID = [], qvVersion = [], qvServiceID = [],
     qvServiceCcrn = [], qvState = [], qvRepository = [], qvEndOfLife = []\<rparr>"

definition no_instance_filter_input :: ComponentInstanceFilterInput where
  "no_instance_filter_input = \<lparr>qnComponentVersionDigest = [], qnServiceCcrn = [], qnCcrn = [], qnRegion = [], qnCluster = [],
     qnNamespace = [], qnDomain = [], qnProject = [], qnPod = [], qnContainer = [], qnType = [], qnContext = [],
     qnSearch = [], qnState = [], qnParentID = []\<rparr>"

definition no_issue_input :: IssueFilterInput where
  "no_issue_input = \<lparr>qiServiceCcrn = [], qiSupportGroupCcrn = [], qiPrimaryName = [], qiIssueMatchStatus = [], qiIssueType = [],
     qiState = [], qiIssueRepositoryID = [], qiComponentVersionID = [], qiSearch = [], qiAllServices = None\<rparr>"

definition no_match_input :: IssueMatchFilterInput where
  "no_match_input = \<lparr>qmID = [], qmSearch = [], qmPrimaryName = [], qmComponentCcrn = [], qmComponentInstanceID = None,
     qmIssueType = [], qmStatus = [], qmSeverity = [], qmServiceCcrn = [], qmSupportGroupCcrn = [], qmState = [],
     qmServiceOwnerUsername = [], qmServiceOwnerUniqueUserID = []\<rparr>"

definition or_empty :: "'f \<Rightarrow> 'f option \<Rightarrow> 'f" where
  "or_empty e f = (case f of None \<Rightarrow> e | Some x \<Rightarrow> x)"

section \<open>The operations that queries call\<close>

type_synonym ('d, 'z, 'g, 'f, 'e) lister = "'f \<Rightarrow> ListOptions \<Rightarrow> ('d, 'z, 'g, 'e) handler"
type_synonym ('d, 'z, 'g, 'k, 'e) batch = "'k \<Rightarrow> ('d, 'z, 'g, (id64 \<times> 'e) list) handler"

record VulnerabilityAggregate =
  vaMaxSeverity :: string
  vaEarliestRemediationDate :: "gotime option"
  vaSourceURL :: string

record VulnerabilityResult =
  vrIssueID :: id64
  vrPrimaryName :: string
  vrDescription :: string
  vrMaxSeverity :: string
  vrEarliestRemediationDate :: "gotime option"
  vrSourceURL :: string

text \<open>A list of issues pairs each issue with its aggregations and the whole with the counts of its types.\<close>

record ('d, 'z, 'g) Queries =
  qh_ListIssues :: "IssueFilter \<Rightarrow> IssueListOptions
    \<Rightarrow> ('d, 'z, 'g, (Issue \<times> IssueAggregations option) entity_list \<times> IssueTypeCounts option) handler"
  qh_ListIssueNames :: "('d, 'z, 'g, IssueFilter, string list) lister"
  qh_GetIssueSeverityCounts :: "IssueFilter \<Rightarrow> ('d, 'z, 'g, IssueSeverityCounts) handler"
  qh_ListIssueMatches :: "('d, 'z, 'g, IssueMatchFilter, IssueMatch entity_list) lister"
  qh_ListIssueVariants :: "('d, 'z, 'g, IssueVariantFilter, IssueVariant entity_list) lister"
  qh_ListEffectiveIssueVariants :: "('d, 'z, 'g, IssueVariantFilter, IssueVariant entity_list) lister"
  qh_ListIssueRepositories :: "('d, 'z, 'g, IssueRepositoryFilter, IssueRepository entity_list) lister"
  qh_ListServices :: "('d, 'z, 'g, ServiceFilter, (Service \<times> ServiceAggregations option) entity_list) lister"
  qh_ListServiceCcrns :: "('d, 'z, 'g, ServiceFilter, string list) lister"
  qh_ListServiceDomains :: "('d, 'z, 'g, ServiceFilter, string list) lister"
  qh_ListServiceRegions :: "('d, 'z, 'g, ServiceFilter, string list) lister"
  qh_ListSupportGroups :: "('d, 'z, 'g, SupportGroupFilter, SupportGroup entity_list) lister"
  qh_ListSupportGroupCcrns :: "('d, 'z, 'g, SupportGroupFilter, string list) lister"
  qh_ListUsers :: "('d, 'z, 'g, UserFilter, User entity_list) lister"
  qh_ListUserNames :: "('d, 'z, 'g, UserFilter, string list) lister"
  qh_ListUniqueUserIDs :: "('d, 'z, 'g, UserFilter, string list) lister"
  qh_ListUserNamesAndIds :: "('d, 'z, 'g, UserFilter, string list \<times> string list) lister"
  qh_ListComponents :: "('d, 'z, 'g, ComponentFilter, Component entity_list) lister"
  qh_ListComponentCcrns :: "('d, 'z, 'g, ComponentFilter, string list) lister"
  qh_GetComponentVulnerabilityCounts :: "ComponentFilter \<Rightarrow> ('d, 'z, 'g, IssueSeverityCounts list) handler"
  qh_ListComponentVersions :: "('d, 'z, 'g, ComponentVersionFilter, ComponentVersion entity_list) lister"
  qh_ListComponentInstances :: "('d, 'z, 'g, ComponentInstanceFilter, ComponentInstance entity_list) lister"
  qh_ListInstanceAttribute :: "string \<Rightarrow> ('d, 'z, 'g, ComponentInstanceFilter, string list) lister"
  qh_ListRemediations :: "('d, 'z, 'g, RemediationFilter, Remediation entity_list) lister"
  qh_ListPatches :: "('d, 'z, 'g, PatchFilter, Patch entity_list) lister"
  qh_ListOwnersByServiceIDs :: "('d, 'z, 'g, id64 list, User list) batch"
  qh_ListSupportGroupsByServiceIDs :: "('d, 'z, 'g, id64 list, SupportGroup list) batch"
  qh_ListIssueCountsByServiceIDs :: "('d, 'z, 'g, id64 list, IssueSeverityCounts) batch"
  qh_GetVulnerabilityAggregatesByIssueIDs :: "('d, 'z, 'g, id64 list, VulnerabilityAggregate) batch"
  qh_GetServicesByIssueIDs :: "('d, 'z, 'g, id64 list, Service list) batch"
  qh_GetSupportGroupsByIssueIDs :: "('d, 'z, 'g, id64 list, SupportGroup list) batch"
  qh_GetVersionsByComponentIDs :: "('d, 'z, 'g, id64 list \<times> string list, ComponentVersion list) batch"
  qh_GetIssueCountsByComponentIDs :: "('d, 'z, 'g, id64 list \<times> string list, IssueSeverityCounts) batch"
  qh_GetVulnerabilitiesByComponentIDs :: "('d, 'z, 'g, id64 list, VulnerabilityResult list) batch"
  qh_GetVulnerabilityCountsByComponentIDs :: "('d, 'z, 'g, id64 list, int) batch"

section \<open>One child of a node\<close>

definition no_parent :: "string \<Rightarrow> goerr" where
  "no_parent nm = NewResolverError nm ''Bad Request - No parent provided''"

definition not_single :: "string \<Rightarrow> string \<Rightarrow> goerr" where
  "not_single nm what = NewResolverError nm (''Internal Error - found multiple '' @ what)"

definition SingleServiceBaseResolver ::
  "time_text \<Rightarrow> ('d, 'z, 'g) Queries \<Rightarrow> NodeParent option \<Rightarrow> ('d, 'z, 'g, ServiceNode option) handler" where
  "SingleServiceBaseResolver tt app =
     (let nm = ''SingleServiceBaseResolver''
      in one_child (no_parent nm) (not_single nm ''services'') (told nm) (\<lambda>r. NewService tt (fst r))
           (\<lambda>is. rows_of (qh_ListServices app (no_service_filter\<lparr>sfId := is\<rparr>) NewListOptions)))"

definition SingleUserBaseResolver ::
  "time_text \<Rightarrow> ('d, 'z, 'g) Queries \<Rightarrow> NodeParent option \<Rightarrow> ('d, 'z, 'g, UserNode option) handler" where
  "SingleUserBaseResolver tt app =
     (let nm = ''SingleUserBaseResolver''
      in one_child (no_parent nm) (not_single nm ''users'') (told nm) (NewUser tt)
           (\<lambda>is. rows_of (qh_ListUsers app (no_user_filter\<lparr>ufId := is\<rparr>) NewListOptions)))"

definition SingleComponentBaseResolver ::
  "time_text \<Rightarrow> ('d, 'z, 'g) Queries \<Rightarrow> NodeParent option \<Rightarrow> ('d, 'z, 'g, ComponentNode option) handler" where
  "SingleComponentBaseResolver tt app =
     (let nm = ''SingleComponentBaseResolver''
      in one_child (no_parent nm) (not_single nm ''components'') (told nm) (NewComponent tt)
           (\<lambda>is. rows_of (qh_ListComponents app (no_component_filter\<lparr>cfId := is\<rparr>) NewListOptions)))"

definition SingleComponentVersionBaseResolver ::
  "time_text \<Rightarrow> ('d, 'z, 'g) Queries \<Rightarrow> NodeParent option \<Rightarrow> ('d, 'z, 'g, ComponentVersionNode option) handler" where
  "SingleComponentVersionBaseResolver tt app =
     (let nm = ''SingleComponentVersionBaseResolver''
      in one_child (no_parent nm) (not_single nm ''component versions'') (told nm) (NewComponentVersion tt)
           (\<lambda>is. rows_of (qh_ListComponentVersions app (no_version_filter\<lparr>vfId := is\<rparr>) NewListOptions)))"

definition SingleComponentInstanceBaseResolver ::
  "time_text \<Rightarrow> ('d, 'z, 'g) Queries \<Rightarrow> NodeParent option \<Rightarrow> ('d, 'z, 'g, ComponentInstanceNode option) handler" where
  "SingleComponentInstanceBaseResolver tt app =
     (let nm = ''SingleComponentInstanceBaseResolver''
      in one_child (gql_invalid nm ''ComponentInstance'' ''No parent provided'')
           (gql_internal nm ''ComponentInstance'' ''found multiple component instances'') gql_error (NewComponentInstance tt)
           (\<lambda>is. rows_of (qh_ListComponentInstances app (no_instance_filter\<lparr>nfId := is\<rparr>) NewListOptions)))"

definition SingleIssueBaseResolver ::
  "time_text \<Rightarrow> ('d, 'z, 'g) Queries \<Rightarrow> NodeParent option \<Rightarrow> ('d, 'z, 'g, IssueNode option) handler" where
  "SingleIssueBaseResolver tt app =
     (let nm = ''SingleIssueBaseResolver''
      in one_child (gql_invalid nm ''Issue'' ''No parent provided'') (gql_internal nm ''Issue'' ''found multiple issues'') gql_error
           (NewIssueWithAggregations tt)
           (\<lambda>is. rows_of (bindH (qh_ListIssues app (no_issue_filter\<lparr>ifId := is\<rparr>) new_issue_options) (\<lambda>l. returnH (fst l)))))"

definition SingleIssueMatchBaseResolver ::
  "time_text \<Rightarrow> (string \<Rightarrow> 'm) \<Rightarrow> ('d, 'z, 'g) Queries \<Rightarrow> NodeParent option \<Rightarrow> ('d, 'z, 'g, 'm IssueMatchNode option) handler" where
  "SingleIssueMatchBaseResolver tt metrics app =
     (let nm = ''SingleIssueMatchBaseResolver''
      in one_child (no_parent nm) (not_single nm ''IssueMatches'') (told nm) (NewIssueMatch tt metrics)
           (\<lambda>is. rows_of (qh_ListIssueMatches app (no_match_filter\<lparr>imfId := is\<rparr>) NewListOptions)))"

definition SingleIssueRepositoryBaseResolver ::
  "time_text \<Rightarrow> ('d, 'z, 'g) Queries \<Rightarrow> NodeParent option \<Rightarrow> ('d, 'z, 'g, IssueRepositoryNode option) handler" where
  "SingleIssueRepositoryBaseResolver tt app =
     (let nm = ''SingleIssueRepositoryBaseResolver''
      in one_child (no_parent nm) (not_single nm ''issue repositories'') (told nm) (NewIssueRepository tt)
           (\<lambda>is. rows_of (qh_ListIssueRepositories app (no_repository_filter\<lparr>yfId := is\<rparr>) NewListOptions)))"

definition SingleIssueVariantBaseResolver ::
  "time_text \<Rightarrow> (string \<Rightarrow> 'm) \<Rightarrow> ('d, 'z, 'g) Queries \<Rightarrow> NodeParent option \<Rightarrow> ('d, 'z, 'g, 'm IssueVariantNode option) handler" where
  "SingleIssueVariantBaseResolver tt metrics app =
     (let nm = ''SingleIssueVariantBaseResolver''
      in one_child (no_parent nm) (not_single nm ''variants'') (told nm) (NewIssueVariant tt metrics)
           (\<lambda>is. rows_of (qh_ListIssueVariants app (no_variant_filter\<lparr>wfId := is\<rparr>) NewListOptions)))"

section \<open>Lists\<close>

definition bad_parent :: "string \<Rightarrow> goerr" where
  "bad_parent nm = NewResolverError nm ''Bad Request - Error while parsing propagated ID''"

definition ComponentBaseResolver ::
  "time_text \<Rightarrow> ('d, 'z, 'g) Queries \<Rightarrow> string list \<Rightarrow> ComponentFilterInput option \<Rightarrow> int option \<Rightarrow> string option
   \<Rightarrow> ('d, 'z, 'g, (ComponentNode, unit) Connection) handler" where
  "ComponentBaseResolver tt app requested flt first after =
     (let f = or_empty no_component_input flt
      in listed (told ''ComponentBaseResolver'') (NewComponent tt)
           (qh_ListComponents app
              (no_component_filter\<lparr>cfPage := paged first after, cfCCRN := qcComponentCcrn f,
                 cfState := GetStateFilterType (qcState f)\<rparr>) (GetListOptions requested)))"

definition count_or_field_orders :: "OrderByField \<Rightarrow> 'f \<Rightarrow> ('f OrderByInput \<Rightarrow> entity_order go) \<Rightarrow> 'f OrderByInput \<Rightarrow> entity_order list go" where
  "count_or_field_orders key severity to_entity o' =
     (case obBy o' of
        None \<Rightarrow> Inl NilDereference
      | Some f \<Rightarrow>
          if f = severity
          then bindR (ToOrderDirectionEntity (obDirection o')) (\<lambda>dir. Inr (count_orders dir @ [\<lparr>By = key, Direction = dir\<rparr>]))
          else one_order to_entity o')"

definition ComponentVersionBaseResolver ::
  "time_text \<Rightarrow> ('d, 'z, 'g) Queries \<Rightarrow> string list \<Rightarrow> ComponentVersionFilterInput option \<Rightarrow> int option \<Rightarrow> string option
   \<Rightarrow> ComponentVersionOrderByField OrderByInput list \<Rightarrow> NodeParent option
   \<Rightarrow> ('d, 'z, 'g, (ComponentVersionNode, unit) Connection) handler" where
  "ComponentVersionBaseResolver tt app requested flt first after orderBy parent =
     (let nm = ''ComponentVersionBaseResolver'';
          bad = (\<lambda>what (_ :: goerr). NewResolverError nm (''Bad Request - Error while parsing filter '' @ what));
          f = or_empty no_version_input flt
      in with_parent (bad_parent nm) parent (\<lambda>under.
           bindH (if parent = None then parsed_ids (bad ''component ID'') (qvComponentID f)
                  else returnH (under ComponentNodeName @ under ImageNodeName)) (\<lambda>componentId.
           bindH (parsed_ids (bad ''service ID'') (qvServiceID f)) (\<lambda>serviceIds.
           bindH (parsed_ids (bad ''issue repository ID'') (qvIssueRepositoryID f)) (\<lambda>repositoryIds.
           bindH (goH (orders_of (count_or_field_orders ComponentVersionId ComponentVersionOrderByFieldSeverity ComponentVersionOrder)
             orderBy)) (\<lambda>orders.
           listed (told nm) (NewComponentVersion tt)
             (qh_ListComponentVersions app
                (no_version_filter\<lparr>vfPage := paged first after, vfIssueId := under IssueNodeName,
                   vfComponentCCRN := qvComponentCcrn f, vfComponentId := componentId, vfIssueRepositoryId := repositoryIds,
                   vfVersion := qvVersion f, vfServiceId := serviceIds, vfServiceCCRN := qvServiceCcrn f,
                   vfState := GetStateFilterType (qvState f), vfEndOfLife := qvEndOfLife f\<rparr>)
                ((GetListOptions requested)\<lparr>loOrder := orders\<rparr>))))))))"

definition instance_filter :: "ComponentInstanceFilterInput \<Rightarrow> ComponentInstanceFilter" where
  "instance_filter f =
     no_instance_filter\<lparr>nfCCRN := qnCcrn f, nfRegion := qnRegion f, nfCluster := qnCluster f, nfNamespace := qnNamespace f,
       nfDomain := qnDomain f, nfProject := qnProject f, nfPod := qnPod f, nfContainer := qnContainer f, nfType := qnType f,
       nfSearch := qnSearch f, nfState := GetStateFilterType (qnState f)\<rparr>"

definition ComponentInstanceBaseResolver ::
  "time_text \<Rightarrow> ('d, 'z, 'g) Queries \<Rightarrow> string list \<Rightarrow> ComponentInstanceFilterInput option \<Rightarrow> int option \<Rightarrow> string option
   \<Rightarrow> ComponentInstanceOrderByField OrderByInput list \<Rightarrow> NodeParent option
   \<Rightarrow> ('d, 'z, 'g, (ComponentInstanceNode, unit) Connection) handler" where
  "ComponentInstanceBaseResolver tt app requested flt first after orderBy parent =
     (let bad = gql_invalid ''ComponentInstanceBaseResolver'' ''ComponentInstance'';
          f = or_empty no_instance_filter_input flt
      in with_parent (bad ''Error while parsing propagated ID'') parent (\<lambda>under.
           bindH (parsed_ids (\<lambda>_. bad ''Invalid ParentID filter'') (qnParentID f)) (\<lambda>parentIds.
           bindH (goH (orders_of (one_order ComponentInstanceOrder) orderBy)) (\<lambda>orders.
           listed gql_error (NewComponentInstance tt)
             (qh_ListComponentInstances app
                ((instance_filter f)\<lparr>nfPage := paged first after, nfIssueMatchId := under IssueMatchNodeName,
                   nfServiceId := under ServiceNodeName, nfServiceCcrn := qnServiceCcrn f,
                   nfComponentVersionId := under ComponentVersionNodeName,
                   nfComponentVersionVersion := qnComponentVersionDigest f, nfParentId := parentIds\<rparr>)
                ((GetListOptions requested)\<lparr>loOrder := orders\<rparr>))))))"

definition IssueMatchBaseResolver ::
  "time_text \<Rightarrow> (string \<Rightarrow> 'm) \<Rightarrow> ('d, 'z, 'g) Queries \<Rightarrow> string list \<Rightarrow> IssueMatchFilterInput option \<Rightarrow> int option
   \<Rightarrow> string option \<Rightarrow> IssueMatchOrderByField OrderByInput list \<Rightarrow> NodeParent option
   \<Rightarrow> ('d, 'z, 'g, ('m IssueMatchNode, unit) Connection) handler" where
  "IssueMatchBaseResolver tt metrics app requested flt first after orderBy parent =
     (let nm = ''IssueMatchBaseResolver'';
          bad = (\<lambda>what (_ :: goerr). NewResolverError nm
            (''Bad Request - unable to parse filter, the value of the filter '' @ what @ '' is invalid''));
          f = or_empty no_match_input flt
      in with_parent (NewResolverError nm ''Bad Request - Error while parsing parent ID'') parent (\<lambda>under.
           bindH (parsed_ids (bad ''ID'') (qmID f)) (\<lambda>imIds.
           bindH (case qmComponentInstanceID f of
                    None \<Rightarrow> returnH (under ComponentInstanceNodeName)
                  | Some is \<Rightarrow> parsed_ids (bad ''ComponentInstanceId'') is) (\<lambda>instanceIds.
           bindH (goH (orders_of (one_order IssueMatchOrder) orderBy)) (\<lambda>orders.
           listed (told nm) (NewIssueMatch tt metrics)
             (qh_ListIssueMatches app
                \<lparr>imfFirst = first, imfAfter = after, imfId = imIds, imfServiceCCRN = qmServiceCcrn f,
                 imfSeverityValue = qmSeverity f, imfStatus = qmStatus f,
                 imfIssueId = under IssueNodeName @ under VulnerabilityNodeName, imfComponentInstanceId = instanceIds,
                 imfServiceId = under ServiceNodeName, imfSupportGroupCCRN = qmSupportGroupCcrn f, imfSearch = qmSearch f,
                 imfComponentCCRN = qmComponentCcrn f, imfPrimaryName = qmPrimaryName f, imfIssueType = qmIssueType f,
                 imfState = GetStateFilterType (qmState f), imfServiceOwnerUsername = qmServiceOwnerUsername f,
                 imfServiceOwnerUniqueUserId = qmServiceOwnerUniqueUserID f\<rparr>
                ((GetListOptions requested)\<lparr>loOrder := orders\<rparr>)))))))"

definition no_repository_input :: IssueRepositoryFilterInput where
  "no_repository_input = \<lparr>qyServiceCcrn = [], qyName = [], qyState = []\<rparr>"

text \<open>The priority of a repository is shown on its edge when it is asked for.\<close>

definition IssueRepositoryBaseResolver ::
  "time_text \<Rightarrow> ('d, 'z, 'g) Queries \<Rightarrow> string list \<Rightarrow> IssueRepositoryFilterInput option \<Rightarrow> int option \<Rightarrow> string option
   \<Rightarrow> NodeParent option \<Rightarrow> ('d, 'z, 'g, (IssueRepositoryNode \<times> int option, unit) Connection) handler" where
  "IssueRepositoryBaseResolver tt app requested flt first after parent =
     (let nm = ''IssueRepositoryBaseResolver''; f = or_empty no_repository_input flt
      in with_parent (bad_parent nm) parent (\<lambda>under.
           listed (told nm)
             (\<lambda>r. (NewIssueRepository tt r,
                   if ''edges.priority'' \<in> set requested then Some (irsPriority (irIRS r)) else None))
             (qh_ListIssueRepositories app
                (no_repository_filter\<lparr>yfPage := paged first after, yfServiceId := under ServiceNodeName, yfName := qyName f,
                   yfServiceCCRN := qyServiceCcrn f, yfState := GetStateFilterType (qyState f)\<rparr>)
                (GetListOptions requested))))"

definition no_variant_input :: IssueVariantFilterInput where
  "no_variant_input = \<lparr>qwSecondaryName = [], qwState = []\<rparr>"

definition IssueVariantBaseResolver ::
  "time_text \<Rightarrow> (string \<Rightarrow> 'm) \<Rightarrow> ('d, 'z, 'g) Queries \<Rightarrow> string list \<Rightarrow> IssueVariantFilterInput option \<Rightarrow> int option
   \<Rightarrow> string option \<Rightarrow> NodeParent option \<Rightarrow> ('d, 'z, 'g, ('m IssueVariantNode, unit) Connection) handler" where
  "IssueVariantBaseResolver tt metrics app requested flt first after parent =
     (let nm = ''IssueVariantBaseResolver''; f = or_empty no_variant_input flt
      in with_parent (bad_parent nm) parent (\<lambda>under.
           listed (told nm) (NewIssueVariant tt metrics)
             (qh_ListIssueVariants app
                (no_variant_filter\<lparr>wfPage := paged first after, wfSecondaryName := qwSecondaryName f,
                   wfIssueId := under IssueNodeName @ under VulnerabilityNodeName,
                   wfIssueRepositoryId := under IssueRepositoryNodeName, wfState := GetStateFilterType (qwState f)\<rparr>)
                (GetListOptions requested))))"

definition EffectiveIssueVariantBaseResolver ::
  "time_text \<Rightarrow> (string \<Rightarrow> 'm) \<Rightarrow> ('d, 'z, 'g) Queries \<Rightarrow> string list \<Rightarrow> IssueVariantFilterInput option \<Rightarrow> int option
   \<Rightarrow> string option \<Rightarrow> NodeParent option \<Rightarrow> ('d, 'z, 'g, ('m IssueVariantNode, unit) Connection) handler" where
  "EffectiveIssueVariantBaseResolver tt metrics app requested flt first after parent =
     (let nm = ''EffectiveIssueVariantBaseResolver''; f = or_empty no_variant_input flt
      in with_parent (bad_parent nm) parent (\<lambda>under.
           listed (told nm) (NewIssueVariant tt metrics)
             (qh_ListEffectiveIssueVariants app
                (no_variant_filter\<lparr>wfPage := paged first after, wfIssueMatchId := under IssueMatchNodeName,
                   wfState := GetStateFilterType (qwState f)\<rparr>)
                (GetListOptions requested))))"

definition no_group_input :: SupportGroupFilterInput where
  "no_group_input = \<lparr>qgSupportGroupCcrn = [], qgUserIds = [], qgState = []\<rparr>"

definition SupportGroupBaseResolver ::
  "time_text \<Rightarrow> ('d, 'z, 'g) Queries \<Rightarrow> string list \<Rightarrow> SupportGroupFilterInput option \<Rightarrow> int option \<Rightarrow> string option
   \<Rightarrow> SupportGroupOrderByField OrderByInput list \<Rightarrow> NodeParent option
   \<Rightarrow> ('d, 'z, 'g, (SupportGroupNode, unit) Connection) handler" where
  "SupportGroupBaseResolver tt app requested flt first after orderBy parent =
     (let nm = ''SupportGroupBaseResolver''; f = or_empty no_group_input flt
      in with_parent (bad_parent nm) parent (\<lambda>under.
           bindH (goH (orders_of (one_order SupportGroupOrder) orderBy)) (\<lambda>orders.
           listed (told nm) (NewSupportGroup tt)
             (qh_ListSupportGroups app
                (no_group_filter\<lparr>gfPage := paged first after, gfServiceId := under ServiceNodeName,
                   gfUserId := under UserNodeName, gfIssueId := under VulnerabilityNodeName,
                   gfCCRN := qgSupportGroupCcrn f, gfState := GetStateFilterType (qgState f)\<rparr>)
                ((GetListOptions requested)\<lparr>loOrder := orders\<rparr>)))))"

definition no_user_input :: UserFilterInput where
  "no_user_input = \<lparr>quUserName = [], quUniqueUserID = [], quState = []\<rparr>"

definition user_query :: "UserFilterInput \<Rightarrow> UserFilter" where
  "user_query f =
     no_user_filter\<lparr>ufName := quUserName f, ufUniqueUserID := quUniqueUserID f, ufState := GetStateFilterType (quState f)\<rparr>"

definition UserBaseResolver ::
  "time_text \<Rightarrow> ('d, 'z, 'g) Queries \<Rightarrow> string list \<Rightarrow> UserFilterInput option \<Rightarrow> int option \<Rightarrow> string option
   \<Rightarrow> NodeParent option \<Rightarrow> ('d, 'z, 'g, (UserNode, unit) Connection) handler" where
  "UserBaseResolver tt app requested flt first after parent =
     (let nm = ''UserBaseResolver''
      in with_parent (bad_parent nm) parent (\<lambda>under.
           listed (told nm) (NewUser tt)
             (qh_ListUsers app
                ((user_query (or_empty no_user_input flt))\<lparr>ufPage := paged first after,
                   ufSupportGroupId := under SupportGroupNodeName, ufServiceId := under ServiceNodeName\<rparr>)
                (GetListOptions requested))))"

definition no_remediation_input :: RemediationFilterInput where
  "no_remediation_input = \<lparr>qrType = [], qrURL = [], qrService = [], qrImage = [], qrVulnerability = [], qrState = [],
     qrSearch = []\<rparr>"

text \<open>Every order is followed by one of the id.\<close>

definition remediation_orders :: "RemediationOrderByField OrderByInput \<Rightarrow> entity_order list go" where
  "remediation_orders o' = bindR (RemediationOrder o') (\<lambda>x. Inr [x, \<lparr>By = RemediationId, Direction = Direction x\<rparr>])"

definition RemediationBaseResolver ::
  "time_text \<Rightarrow> ('d, 'z, 'g) Queries \<Rightarrow> string list \<Rightarrow> RemediationFilterInput option \<Rightarrow> int option \<Rightarrow> string option
   \<Rightarrow> RemediationOrderByField OrderByInput list \<Rightarrow> NodeParent option
   \<Rightarrow> ('d, 'z, 'g, (RemediationNode, unit) Connection) handler" where
  "RemediationBaseResolver tt app requested flt first after orderBy parent =
     (let f = or_empty no_remediation_input flt
      in with_parent (gql_invalid ''RemediationBaseResolver'' ''Remediation'' ''Error while parsing propagated ID'') parent (\<lambda>under.
           bindH (goH (orders_of remediation_orders orderBy)) (\<lambda>orders.
           listed gql_error (NewRemediation tt)
             (qh_ListRemediations app
                (empty_filter\<lparr>rfPage := paged first after, rfService := qrService f, rfServiceId := under ServiceNodeName,
                   rfComponent := qrImage f, rfIssue := qrVulnerability f, rfType := qrType f, rfURL := qrURL f,
                   rfState := GetStateFilterType (qrState f), rfSearch := qrSearch f\<rparr>)
                ((GetListOptions requested)\<lparr>loOrder := orders\<rparr>)))))"

definition no_patch_input :: PatchFilterInput where
  "no_patch_input = \<lparr>qpID = [], qpServiceID = [], qpServiceName = [], qpComponentVersionID = [], qpComponentVersionName = [],
     qpState = []\<rparr>"

definition PatchBaseResolver ::
  "time_text \<Rightarrow> ('d, 'z, 'g) Queries \<Rightarrow> string list \<Rightarrow> PatchFilterInput option \<Rightarrow> int option \<Rightarrow> string option
   \<Rightarrow> ('d, 'z, 'g, (PatchNode, unit) Connection) handler" where
  "PatchBaseResolver tt app requested flt first after =
     (let bad = (\<lambda>what (_ :: goerr). NewResolverError ''PatchBaseResolver'' (''Bad Request - Error while parsing filter '' @ what));
          f = or_empty no_patch_input flt
      in bindH (parsed_ids (bad ''ID'') (qpID f)) (\<lambda>is.
         bindH (parsed_ids (bad ''Service ID'') (qpServiceID f)) (\<lambda>serviceIds.
         bindH (parsed_ids (bad ''ComponentVersion ID'') (qpComponentVersionID f)) (\<lambda>versionIds.
         listed gql_error (NewPatch tt)
           (qh_ListPatches app
              \<lparr>pfPage = paged first after, pfId = is, pfServiceId = serviceIds, pfServiceName = qpServiceName f,
               pfComponentVersionId = versionIds, pfComponentVersionName = qpComponentVersionName f,
               pfState = GetStateFilterType (qpState f)\<rparr>
              (GetListOptions requested))))))"

section \<open>Values of filters\<close>

definition SupportGroupCcrnBaseResolver ::
  "('d, 'z, 'g) Queries \<Rightarrow> string list \<Rightarrow> SupportGroupFilterInput option \<Rightarrow> ('d, 'z, 'g, FilterItem) handler" where
  "SupportGroupCcrnBaseResolver app requested flt =
     (let nm = ''SupportGroupCcrnBaseResolver''; f = or_empty no_group_input flt
      in bindH (parsed_ids (\<lambda>_. NewResolverError nm (''Bad Request - unable to parse '' @ [CHR 0x27] @ ''UserIds'' @ [CHR 0x27])) (qgUserIds f)) (\<lambda>is.
         filter_item (told nm) ''Support Group''
           (qh_ListSupportGroupCcrns app
              (no_group_filter\<lparr>gfUserId := is, gfCCRN := qgSupportGroupCcrn f, gfState := GetStateFilterType (qgState f)\<rparr>)
              (GetListOptions requested))))"

definition ServiceFilterBaseResolver ::
  "('d, 'z, 'g, ServiceFilter, string list) lister \<Rightarrow> string \<Rightarrow> string list \<Rightarrow> ServiceFilterInput option
   \<Rightarrow> ('d, 'z, 'g, FilterItem) handler" where
  "ServiceFilterBaseResolver appCall display requested flt =
     (let f = or_empty no_service_input flt
      in filter_item (told ''ServiceFilterBaseResolver'') display
           (appCall
              (no_service_filter\<lparr>sfSupportGroupCCRN := qsSupportGroupCcrn f,
                 sfCCRN := map Some (or_empty [] (qsServiceCcrn f)), sfDomain := qsDomain f, sfRegion := qsRegion f,
                 sfOwnerName := qsUserName f, sfState := GetStateFilterType (qsState f)\<rparr>)
              (GetListOptions requested)))"

definition ServiceCcrnBaseResolver ::
  "('d, 'z, 'g) Queries \<Rightarrow> string list \<Rightarrow> ServiceFilterInput option \<Rightarrow> ('d, 'z, 'g, FilterItem) handler" where
  "ServiceCcrnBaseResolver app = ServiceFilterBaseResolver (qh_ListServiceCcrns app) ''Service''"

definition ServiceDomainBaseResolver ::
  "('d, 'z, 'g) Queries \<Rightarrow> string list \<Rightarrow> ServiceFilterInput option \<Rightarrow> ('d, 'z, 'g, FilterItem) handler" where
  "ServiceDomainBaseResolver app = ServiceFilterBaseResolver (qh_ListServiceDomains app) ''Domain''"

definition ServiceRegionBaseResolver ::
  "('d, 'z, 'g) Queries \<Rightarrow> string list \<Rightarrow> ServiceFilterInput option \<Rightarrow> ('d, 'z, 'g, FilterItem) handler" where
  "ServiceRegionBaseResolver app = ServiceFilterBaseResolver (qh_ListServiceRegions app) ''Region''"

text \<open>The application gets no state of the components that are listed.\<close>

definition ComponentCcrnBaseResolver ::
  "('d, 'z, 'g) Queries \<Rightarrow> string list \<Rightarrow> ComponentFilterInput option \<Rightarrow> ('d, 'z, 'g, FilterItem) handler" where
  "ComponentCcrnBaseResolver app requested flt =
     filter_item (told ''ComponentCcrnBaseReolver'') ''Pod''
       (qh_ListComponentCcrns app (no_component_filter\<lparr>cfCCRN := qcComponentCcrn (or_empty no_component_input flt)\<rparr>)
          (GetListOptions requested))"

definition UserNameBaseResolver ::
  "('d, 'z, 'g) Queries \<Rightarrow> string list \<Rightarrow> UserFilterInput option \<Rightarrow> ('d, 'z, 'g, FilterItem) handler" where
  "UserNameBaseResolver app requested flt =
     filter_item (told ''UserNameBaseResolver'') ''User Name''
       (qh_ListUserNames app (user_query (or_empty no_user_input flt)) (GetListOptions requested))"

definition UniqueUserIDBaseResolver ::
  "('d, 'z, 'g) Queries \<Rightarrow> string list \<Rightarrow> UserFilterInput option \<Rightarrow> ('d, 'z, 'g, FilterItem) handler" where
  "UniqueUserIDBaseResolver app requested flt =
     filter_item (told ''UniqueUserIDBaseResolver'') ''Unique User ID''
       (qh_ListUniqueUserIDs app (user_query (or_empty no_user_input flt)) (GetListOptions requested))"

text \<open>The names and the ids are lists of their own; there is an item for each id.\<close>

fun name_items :: "string list \<Rightarrow> string list \<Rightarrow> (string \<times> string) list go" where
  "name_items names [] = Inr []"
| "name_items [] (i # is) = Inl IndexOutOfRange"
| "name_items (n # names) (i # is) = bindR (name_items names is) (\<lambda>items. Inr ((n @ '' ('' @ i @ '')'', i) # items))"

definition UserNameWithIdBaseResolver ::
  "('d, 'z, 'g) Queries \<Rightarrow> string list \<Rightarrow> UserFilterInput option \<Rightarrow> ('d, 'z, 'g, string \<times> (string \<times> string) list) handler" where
  "UserNameWithIdBaseResolver app requested flt =
     bindH (wrapH (told ''UserNameWithIdBaseResolver'')
       (qh_ListUserNamesAndIds app (user_query (or_empty no_user_input flt)) (GetListOptions requested))) (\<lambda>(names, is).
     bindH (goH (name_items names is)) (\<lambda>items. returnH (''User'', items)))"

definition ComponentInstanceFilterBaseResolver ::
  "('d, 'z, 'g, ComponentInstanceFilter, string list) lister \<Rightarrow> string \<Rightarrow> string list \<Rightarrow> ComponentInstanceFilterInput option
   \<Rightarrow> ('d, 'z, 'g, FilterItem) handler" where
  "ComponentInstanceFilterBaseResolver appCall display requested flt =
     filter_item gql_error display
       (appCall (instance_filter (or_empty no_instance_filter_input flt)) (GetListOptions requested))"

text \<open>The resolvers of the attributes of instances: the operation that lists the attribute and the name that is shown.\<close>

definition instance_attributes :: "(string \<times> string \<times> string) list" where
  "instance_attributes =
     [(''CcrnBaseResolver'', ''ListCcrns'', ''CCRN''), (''RegionBaseResolver'', ''ListRegions'', ''Region''),
      (''ClusterBaseResolver'', ''ListClusters'', ''Cluster''), (''NamespaceBaseResolver'', ''ListNamespaces'', ''Namespace''),
      (''DomainBaseResolver'', ''ListDomains'', ''Domain''), (''ProjectBaseResolver'', ''ListProjects'', ''Project''),
      (''PodBaseResolver'', ''ListPods'', ''Pod''), (''ContainerBaseResolver'', ''ListContainers'', ''Container''),
      (''TypeBaseResolver'', ''ListTypes'', ''Component Instance Type''), (''ParentBaseResolver'', ''ListParents'', ''parentId'')]"

definition instance_attribute_resolver ::
  "('d, 'z, 'g) Queries \<Rightarrow> string \<times> string \<Rightarrow> string list \<Rightarrow> ComponentInstanceFilterInput option
   \<Rightarrow> ('d, 'z, 'g, FilterItem) handler" where
  "instance_attribute_resolver app r = ComponentInstanceFilterBaseResolver (qh_ListInstanceAttribute app (fst r)) (snd r)"

text \<open>
  \<open>unjson\<close> is the decoder of JSON objects; it gives None for anything else, \<open>null\<close> included. The result of decoding is
  dereferenced.
\<close>

fun decoded_contexts :: "(string \<Rightarrow> json option) \<Rightarrow> string list \<Rightarrow> json list go" where
  "decoded_contexts unjson [] = Inr []"
| "decoded_contexts unjson (t # ts) = (case unjson t of
     None \<Rightarrow> Inl NilDereference
   | Some j \<Rightarrow> bindR (decoded_contexts unjson ts) (\<lambda>js. Inr (j # js)))"

definition ContextBaseResolver ::
  "(string \<Rightarrow> json option) \<Rightarrow> ('d, 'z, 'g) Queries \<Rightarrow> string list \<Rightarrow> ComponentInstanceFilterInput option
   \<Rightarrow> ('d, 'z, 'g, string \<times> json list) handler" where
  "ContextBaseResolver unjson app requested flt =
     (let f = or_empty no_instance_filter_input flt
      in bindH (wrapH gql_error (qh_ListInstanceAttribute app ''ListContexts'' ((instance_filter f)\<lparr>nfContext := qnContext f\<rparr>)
           (GetListOptions requested))) (\<lambda>names.
         bindH (goH (decoded_contexts unjson names)) (\<lambda>js. returnH (''Context'', js))))"

end
