(* ===== verification/Graphql_Batches.thy ===== *)
theory Graphql_Batches
  imports Graphql_Queries
begin

text \<open>
  The base resolvers that count issues or load the fields of all nodes of a list at once: issues, services,
  vulnerabilities, images and their versions (\<open>graph/baseResolver\<close>). The batch calls of a list run concurrently in the code and one after the other
  here; each fills a map of its own. A batch call that succeeds returns a map, which is not nil.
\<close>

section \<open>Issues\<close>

definition IssueBaseResolver ::
  "time_text \<Rightarrow> ('d, 'z, 'g) Queries \<Rightarrow> string list \<Rightarrow> IssueFilterInput option \<Rightarrow> int option \<Rightarrow> string option
   \<Rightarrow> IssueOrderByField OrderByInput list \<Rightarrow> NodeParent option
   \<Rightarrow> ('d, 'z, 'g, (IssueNode, int \<times> int \<times> int) Connection) handler" where
  "IssueBaseResolver tt app requested flt first after orderBy parent =
     (let f = or_empty no_issue_input flt
      in with_parent (gql_invalid ''IssueBaseResolver'' ''Issue'' ''Error while parsing propagated ID'') parent (\<lambda>under.
           bindH (parsed_ids (\<lambda>_. NewResolverError ''IssueBaseResolver''
               ''Bad Request - unable to parse filter, the value of the filter IssueRepositoryId is invalid'')
             (qiIssueRepositoryID f)) (\<lambda>irId.
           bindH (goH (orders_of (\<lambda>o'. bindR (IssueOrder o') (\<lambda>x. Inr (
               if obBy o' = Some IssueOrderByFieldSeverity then [x, \<lparr>By = IssueId, Direction = Direction x\<rparr>] else [x])))
             orderBy)) (\<lambda>orders.
           bindH (wrapH gql_error (qh_ListIssues app
             (no_issue_filter\<lparr>ifPage := paged first after, ifPrimaryName := map Some (qiPrimaryName f),
                ifServiceCCRN := qiServiceCcrn f, ifSupportGroupCCRN := qiSupportGroupCcrn f, ifType := qiIssueType f,
                ifComponentVersionId := under ComponentVersionNodeName, ifIssueRepositoryId := irId, ifSearch := qiSearch f,
                ifState := GetStateFilterType (qiState f)\<rparr>)
             ((GetIssueListOptions requested)\<lparr>loOrder := orders\<rparr>))) (\<lambda>(l, counts).
           returnH (connection_with (NewIssueWithAggregations tt)
             (case counts of
                None \<Rightarrow> (0, 0, 0)
              | Some c \<Rightarrow> (VulnerabilityCount c, PolicyViolationCount c, SecurityEventCount c)) l))))))"

definition IssueNameBaseResolver ::
  "('d, 'z, 'g) Queries \<Rightarrow> string list \<Rightarrow> IssueFilterInput option \<Rightarrow> ('d, 'z, 'g, FilterItem) handler" where
  "IssueNameBaseResolver app requested flt =
     (let f = or_empty no_issue_input flt
      in bindH (parsed_ids (\<lambda>_. NewResolverError ''IssueBaseResolver''
             ''Bad Request - unable to parse filter, the value of the filter IssueRepositoryId is invalid'')
           (qiIssueRepositoryID f)) (\<lambda>irId.
         filter_item gql_error ''Issue Name''
           (qh_ListIssueNames app
              (no_issue_filter\<lparr>ifPrimaryName := map Some (qiPrimaryName f), ifServiceCCRN := qiServiceCcrn f,
                 ifSupportGroupCCRN := qiSupportGroupCcrn f, ifType := qiIssueType f, ifIssueRepositoryId := irId,
                 ifSearch := qiSearch f, ifState := GetStateFilterType (qiState f)\<rparr>)
              (GetListOptions requested))))"

text \<open>
  The parent of counts may come without a node: the lists of vulnerabilities do that, under a name that asks for no
  id. The nil pointer that another name would put into the filter then does not occur.
\<close>

definition counts_parent_id :: "string \<Rightarrow> NodeParent option \<Rightarrow> ('d, 'z, 'g, id64 list) handler" where
  "counts_parent_id nm parent =
     (case Option.bind parent npParent of
        None \<Rightarrow> returnH []
      | Some i \<Rightarrow> bindH (wrapH (\<lambda>_. gql_invalid nm ''Issue'' ''Error while parsing propagated ID'')
          (liftH (ParseCursor (Some i)))) (\<lambda>pid. returnH [pid]))"

definition IssueCountsBaseResolver ::
  "('d, 'z, 'g) Queries \<Rightarrow> IssueFilterInput option \<Rightarrow> NodeParent option \<Rightarrow> ('d, 'z, 'g, SeverityCounts) handler" where
  "IssueCountsBaseResolver app flt parent =
     (let f = or_empty no_issue_input flt
      in bindH (parsed_ids gql_error (qiIssueRepositoryID f)) (\<lambda>irIds.
         bindH (parsed_ids gql_error (qiComponentVersionID f)) (\<lambda>cvIds.
         bindH (counts_parent_id ''IssueCountsBaseResolver'' parent) (\<lambda>pid.
         bindH (wrapH gql_error (qh_GetIssueSeverityCounts app
           (no_issue_filter\<lparr>ifPrimaryName := map Some (qiPrimaryName f), ifServiceCCRN := qiServiceCcrn f,
              ifAllServices := (qiAllServices f = Some True), ifSupportGroupCCRN := qiSupportGroupCcrn f,
              ifType := qiIssueType f,
              ifComponentVersionId :=
                (case parent of
                   None \<Rightarrow> cvIds
                 | Some p \<Rightarrow> if npName p = ComponentVersionNodeName \<or> npName p = ImageVersionNodeName then pid else cvIds),
              ifIssueRepositoryId := irIds,
              ifServiceId :=
                (case parent of None \<Rightarrow> [] | Some p \<Rightarrow> if npName p = ServiceNodeName then pid else []),
              ifSearch := qiSearch f,
              ifUnique :=
                (case parent of None \<Rightarrow> False | Some p \<Rightarrow> npName p = VulnerabilityNodeName \<and> qiSupportGroupCcrn f = []),
              ifState := GetStateFilterType (qiState f)\<rparr>)))
           (\<lambda>counts. returnH (NewSeverityCounts counts))))))"

section \<open>Services\<close>

text \<open>A call that loads a field of all nodes, when the field is asked for. A failure is logged.\<close>

definition preload :: "bool \<Rightarrow> ('d, 'z, 'g, 'm) handler \<Rightarrow> ('d, 'z, 'g, 'm option) handler" where
  "preload wanted m =
     (if wanted then bindH (attemptH m) (\<lambda>r. returnH (case r of Inl _ \<Rightarrow> None | Inr x \<Rightarrow> Some x)) else returnH None)"

definition at_id :: "'e \<Rightarrow> (id64 \<times> 'e) list \<Rightarrow> id64 \<Rightarrow> 'e" where
  "at_id zero m i = (case map_of m i of None \<Rightarrow> zero | Some x \<Rightarrow> x)"

text \<open>A connection of all loaded entities; the cursor of an edge is the id.\<close>

definition whole :: "('e \<Rightarrow> 'n) \<Rightarrow> ('e \<Rightarrow> id64) \<Rightarrow> 'x \<Rightarrow> 'e list \<Rightarrow> ('n, 'x) Connection" where
  "whole node key x es =
     \<lparr>lnTotalCount = int (length es), lnEdges = map (\<lambda>e. (node e, FormatInt (key e))) es, lnPageInfo = None, lnCounts = x\<rparr>"

definition no_counts :: IssueSeverityCounts where
  "no_counts = \<lparr>iscCritical = 0, iscHigh = 0, iscMedium = 0, iscLow = 0, iscNone = 0, iscTotal = 0\<rparr>"

record ServiceItem =
  svNode :: ServiceNode
  svPriority :: "int option"
  svOwners :: "(UserNode, unit) Connection option"
  svSupportGroups :: "(SupportGroupNode, unit) Connection option"
  svIssueCounts :: "SeverityCounts option"

definition service_item :: "ServiceNode \<Rightarrow> ServiceItem" where
  "service_item n = \<lparr>svNode = n, svPriority = None, svOwners = None, svSupportGroups = None, svIssueCounts = None\<rparr>"

definition service_edge :: "time_text \<Rightarrow> string list \<Rightarrow> Service \<times> ServiceAggregations option \<Rightarrow> ServiceItem" where
  "service_edge tt requested r =
     (service_item (NewServiceWithAggregations tt r))
       \<lparr>svPriority := (if ''edges.priority'' \<in> set requested then Some (irsPriority (svcIRS (fst r))) else None)\<rparr>"

definition attach_to_service ::
  "time_text \<Rightarrow> (id64 \<times> User list) list option \<Rightarrow> (id64 \<times> SupportGroup list) list option
   \<Rightarrow> (id64 \<times> IssueSeverityCounts) list option \<Rightarrow> ServiceItem \<Rightarrow> ServiceItem" where
  "attach_to_service tt owners groups counts item =
     (case ParseInt (vnodeId (svNode item)) of
        None \<Rightarrow> item
      | Some i \<Rightarrow> item
          \<lparr>svOwners := map_option (\<lambda>m. whole (NewUser tt) userId () (at_id [] m i)) owners,
           svSupportGroups := map_option (\<lambda>m. whole (NewSupportGroup tt) sgId () (at_id [] m i)) groups,
           svIssueCounts := map_option (\<lambda>m. NewSeverityCounts (at_id no_counts m i)) counts\<rparr>)"

definition preload_services ::
  "time_text \<Rightarrow> ('d, 'z, 'g) Queries \<Rightarrow> string list \<Rightarrow> (ServiceItem \<times> string) list \<Rightarrow> ('d, 'z, 'g, (ServiceItem \<times> string) list) handler" where
  "preload_services tt app requested edges =
     (let needOwners = ''edges.node.owners'' \<in> set requested;
          needSupportGroups = ''edges.node.supportGroups'' \<in> set requested;
          needIssueCounts = ''edges.node.issueCounts'' \<in> set requested;
          serviceIDs = List.map_filter (\<lambda>e. ParseInt (vnodeId (svNode (fst e)))) edges
      in if (needOwners \<or> needSupportGroups \<or> needIssueCounts) \<and> edges \<noteq> []
         then bindH (preload needOwners (qh_ListOwnersByServiceIDs app serviceIDs)) (\<lambda>owners.
              bindH (preload needSupportGroups (qh_ListSupportGroupsByServiceIDs app serviceIDs)) (\<lambda>groups.
              bindH (preload needIssueCounts (qh_ListIssueCountsByServiceIDs app serviceIDs)) (\<lambda>counts.
              returnH (map (\<lambda>(item, c). (attach_to_service tt owners groups counts item, c)) edges))))
         else returnH edges)"

definition service_counts_filter :: "ServiceFilterInput \<Rightarrow> IssueFilterInput" where
  "service_counts_filter f =
     (case qsServiceCcrn f of
        None \<Rightarrow> no_issue_input\<lparr>qiSupportGroupCcrn := qsSupportGroupCcrn f, qiAllServices := Some True\<rparr>
      | Some ccrns \<Rightarrow> no_issue_input\<lparr>qiSupportGroupCcrn := qsSupportGroupCcrn f, qiServiceCcrn := ccrns\<rparr>)"

text \<open>Counts that are part of a list: an error is told under the name of the list.\<close>

definition asked_counts :: "string \<Rightarrow> bool \<Rightarrow> ('d, 'z, 'g, 'c) handler \<Rightarrow> ('d, 'z, 'g, 'c option) handler" where
  "asked_counts nm asked m = (if asked then bindH (wrapH (told nm) m) (\<lambda>c. returnH (Some c)) else returnH None)"

definition ServiceBaseResolver ::
  "time_text \<Rightarrow> ('d, 'z, 'g) Queries \<Rightarrow> string list \<Rightarrow> ServiceFilterInput option \<Rightarrow> int option \<Rightarrow> string option
   \<Rightarrow> ServiceOrderByField OrderByInput list \<Rightarrow> NodeParent option
   \<Rightarrow> ('d, 'z, 'g, (ServiceItem, SeverityCounts option) Connection) handler" where
  "ServiceBaseResolver tt app requested flt first after orderBy parent =
     (let nm = ''ServiceBaseResolver''; f = or_empty no_service_input flt
      in with_parent (bad_parent nm) parent (\<lambda>under.
         bindH (goH (orders_of (count_or_field_orders ServiceId ServiceOrderByFieldSeverity ServiceOrder) orderBy)) (\<lambda>orders.
         bindH (wrapH (told nm) (qh_ListServices app
           (no_service_filter\<lparr>sfPage := paged first after, sfSupportGroupCCRN := qsSupportGroupCcrn f,
              sfCCRN := map Some (or_empty [] (qsServiceCcrn f)), sfDomain := qsDomain f, sfRegion := qsRegion f,
              sfOwnerName := qsUserName f, sfOwnerId := under UserNodeName, sfIssueId := under VulnerabilityNodeName,
              sfIssueRepositoryId := under IssueRepositoryNodeName, sfSupportGroupId := under SupportGroupNodeName,
              sfSearch := qsSearch f, sfState := GetStateFilterType (qsState f)\<rparr>)
           ((GetListOptions requested)\<lparr>loOrder := orders\<rparr>))) (\<lambda>l.
         bindH (preload_services tt app requested (lnEdges (connection (service_edge tt requested) l))) (\<lambda>edges.
         bindH (asked_counts nm (''issueCounts'' \<in> set requested)
           (IssueCountsBaseResolver app (Some (service_counts_filter f)) None)) (\<lambda>counts.
         returnH ((connection_with (service_edge tt requested) counts l)\<lparr>lnEdges := edges\<rparr>)))))))"

section \<open>Vulnerabilities\<close>

record VulnerabilityFilterInput =
  qxSeverity :: "string list"
  qxService :: "string list"
  qxSupportGroup :: "string list"
  qxRegion :: "string list"
  qxName :: "string list"
  qxSearch :: "string list"
  qxStatus :: "VulnerabilityStatus option"

definition no_vulnerability_input :: VulnerabilityFilterInput where
  "no_vulnerability_input = \<lparr>qxSeverity = [], qxService = [], qxSupportGroup = [], qxRegion = [], qxName = [], qxSearch = [],
     qxStatus = None\<rparr>"

type_synonym services = "(ServiceItem, SeverityCounts option) Connection"

record VulnerabilityItem =
  vuNode :: VulnerabilityNode
  vuSeverity :: "string option"
  vuSourceURL :: "string option"
  vuDate :: "string option"
  vuServices :: "services option"
  vuSupportGroups :: "(SupportGroupNode, unit) Connection option"

type_synonym vulnerabilities = "(VulnerabilityItem, SeverityCounts option) Connection"

definition vulnerability_item :: "VulnerabilityNode \<Rightarrow> VulnerabilityItem" where
  "vulnerability_item n = \<lparr>vuNode = n, vuSeverity = None, vuSourceURL = None, vuDate = None, vuServices = None,
     vuSupportGroups = None\<rparr>"

definition known_severity :: "string \<Rightarrow> string option" where
  "known_severity s = (if s = [] then None else case SeverityValue s of (v, None) \<Rightarrow> Some v | (_, Some _) \<Rightarrow> None)"

definition non_empty :: "string \<Rightarrow> string option" where
  "non_empty s = (if s = [] then None else Some s)"

text \<open>What one issue gets: a field that was not asked for stays unset, as does one without a value.\<close>

definition attach_to_vulnerability ::
  "time_text \<Rightarrow> string list \<Rightarrow> (id64 \<times> VulnerabilityAggregate) list \<Rightarrow> (id64 \<times> Service list) list option
   \<Rightarrow> (id64 \<times> SupportGroup list) list option \<Rightarrow> id64 \<Rightarrow> VulnerabilityItem \<Rightarrow> VulnerabilityItem" where
  "attach_to_vulnerability tt requested aggregates services groups i item =
     (let given = (\<lambda>field g. if containsField requested field then Option.bind (map_of aggregates i) g else None)
      in item
          \<lparr>vuSeverity := given ''edges.node.severity'' (\<lambda>a. known_severity (vaMaxSeverity a)),
           vuSourceURL := given ''edges.node.sourceUrl'' (\<lambda>a. non_empty (vaSourceURL a)),
           vuDate := given ''edges.node.earliestTargetRemediationDate''
             (\<lambda>a. map_option (tt_Format tt) (vaEarliestRemediationDate a)),
           vuServices := map_option (\<lambda>m. whole (\<lambda>s. service_item (NewService tt s)) svcId None (at_id [] m i)) services,
           vuSupportGroups := map_option (\<lambda>m. whole (NewSupportGroup tt) sgId () (at_id [] m i)) groups\<rparr>)"

text \<open>The node of an id is that of the last edge with the id.\<close>

fun attach_vulnerabilities ::
  "(id64 \<Rightarrow> VulnerabilityItem \<Rightarrow> VulnerabilityItem) \<Rightarrow> (VulnerabilityItem \<times> string) list \<Rightarrow> (VulnerabilityItem \<times> string) list" where
  "attach_vulnerabilities attach [] = []"
| "attach_vulnerabilities attach ((item, c) # edges) =
     ((case ParseInt (vulId (vuNode item)) of
         None \<Rightarrow> item
       | Some i \<Rightarrow>
           if Some i \<in> set (map (\<lambda>e. ParseInt (vulId (vuNode (fst e)))) edges) then item else attach i item), c)
     # attach_vulnerabilities attach edges"

text \<open>All batch calls are made; the failure of one leaves every node as it is.\<close>

definition demand :: "bool \<Rightarrow> ('d, 'z, 'g, 'm) handler \<Rightarrow> ('d, 'z, 'g, goerr + 'm option) handler" where
  "demand wanted m =
     (if wanted then bindH (attemptH m) (\<lambda>r. returnH (case r of Inl e \<Rightarrow> Inl e | Inr x \<Rightarrow> Inr (Some x))) else returnH (Inr None))"

definition batchPreloadVulnerabilities ::
  "time_text \<Rightarrow> ('d, 'z, 'g) Queries \<Rightarrow> string list \<Rightarrow> id64 list \<Rightarrow> (VulnerabilityItem \<times> string) list
   \<Rightarrow> ('d, 'z, 'g, (VulnerabilityItem \<times> string) list) handler" where
  "batchPreloadVulnerabilities tt app requested issueIDs edges =
     (let needAggregates = containsField requested ''edges.node.severity'' \<or> containsField requested ''edges.node.sourceUrl''
            \<or> containsField requested ''edges.node.earliestTargetRemediationDate'';
          needServices = containsField requested ''edges.node.services'';
          needSupportGroups = containsField requested ''edges.node.supportGroups''
      in if \<not> needAggregates \<and> \<not> needServices \<and> \<not> needSupportGroups then returnH edges
         else bindH (demand needAggregates (qh_GetVulnerabilityAggregatesByIssueIDs app issueIDs)) (\<lambda>r1.
              bindH (demand needServices (qh_GetServicesByIssueIDs app issueIDs)) (\<lambda>r2.
              bindH (demand needSupportGroups (qh_GetSupportGroupsByIssueIDs app issueIDs)) (\<lambda>r3.
              returnH (case (r1, r2, r3) of
                  (Inr aggregates, Inr services, Inr groups) \<Rightarrow>
                    attach_vulnerabilities (attach_to_vulnerability tt requested (or_empty [] aggregates) services groups) edges
                | _ \<Rightarrow> edges)))))"

definition vulnerability_orders :: "entity_order list" where
  "vulnerability_orders =
     [\<lparr>By = IssueVariantRating, Direction = OrderDirectionDesc\<rparr>,
      \<lparr>By = IssueEarliestTargetRemediationDate, Direction = OrderDirectionAsc\<rparr>,
      \<lparr>By = IssuePrimaryName, Direction = OrderDirectionAsc\<rparr>]"

text \<open>Below an image or a version the matches are joined; a list of its own reads the materialized view.\<close>

definition vulnerability_filter ::
  "VulnerabilityFilterInput \<Rightarrow> Paginated \<Rightarrow> bool \<Rightarrow> (NodeName \<Rightarrow> id64 list) \<Rightarrow> IssueFilter" where
  "vulnerability_filter f page nested parents =
     (let f0 = no_issue_filter\<lparr>ifPage := page, ifPrimaryName := map Some (qxName f), ifServiceCCRN := qxService f,
                 ifSupportGroupCCRN := qxSupportGroup f, ifType := [IssueTypeVulnerability], ifSearch := qxSearch f,
                 ifStatus := NewIssueStatus (qxStatus f)\<rparr>
      in if nested
         then f0\<lparr>ifHasIssueMatches := True, ifComponentId := parents ImageNodeName, ifComponentVersionId := parents ImageVersionNodeName,
                 ifIssueMatchStatus := [IssueMatchStatusValuesNew], ifIssueMatchSeverity := qxSeverity f\<rparr>
         else f0\<lparr>ifMvSeverity := qxSeverity f, ifUseMvVulnerabilityList := True\<rparr>)"

definition vulnerability_counts_filter :: "VulnerabilityFilterInput \<Rightarrow> id64 list \<Rightarrow> IssueFilterInput" where
  "vulnerability_counts_filter f versions =
     no_issue_input\<lparr>qiServiceCcrn := qxService f, qiSupportGroupCcrn := qxSupportGroup f,
       qiIssueMatchStatus := [IssueMatchStatusValuesNew], qiIssueType := [IssueTypeVulnerability],
       qiComponentVersionID := ConvertIntToStrSlice versions, qiSearch := qxSearch f, qiAllServices := Some True\<rparr>"

definition VulnerabilityBaseResolver ::
  "time_text \<Rightarrow> ('d, 'z, 'g) Queries \<Rightarrow> string list \<Rightarrow> VulnerabilityFilterInput option \<Rightarrow> int option \<Rightarrow> string option
   \<Rightarrow> NodeParent option \<Rightarrow> ('d, 'z, 'g, vulnerabilities) handler" where
  "VulnerabilityBaseResolver tt app requested flt first after parent =
     (let nm = ''VulnerabilityBaseResolver''; f = or_empty no_vulnerability_input flt
      in with_parent (bad_parent nm) parent (\<lambda>under.
         let ef = vulnerability_filter f (paged first after) (parent \<noteq> None) under in
         bindH (wrapH (told nm) (qh_ListIssues app ef
           ((GetIssueListOptions requested)\<lparr>loOrder := vulnerability_orders\<rparr>))) (\<lambda>(l, _).
         let c = connection_with (\<lambda>r. vulnerability_item (NewVulnerability (fst r))) None l;
             issueIDs = List.map_filter (\<lambda>e. ParseInt (vulId (vuNode (fst e)))) (lnEdges c) in
         bindH (if issueIDs = [] then returnH (lnEdges c)
                else batchPreloadVulnerabilities tt app requested issueIDs (lnEdges c)) (\<lambda>edges.
         bindH (asked_counts nm (''counts'' \<in> set requested)
           (IssueCountsBaseResolver app (Some (vulnerability_counts_filter f (ifComponentVersionId ef)))
             (Some \<lparr>npParent = None, npName = VulnerabilityNodeName, npChildIds = []\<rparr>))) (\<lambda>counts.
         returnH (c\<lparr>lnEdges := edges, lnCounts := counts\<rparr>))))))"

section \<open>Images\<close>

record ImageFilterInput =
  qzService :: "string list"
  qzRepository :: "string list"

definition no_image_input :: ImageFilterInput where
  "no_image_input = \<lparr>qzService = [], qzRepository = []\<rparr>"

record ImageItem =
  imNode :: ImageNode
  imVersions :: "(ComponentVersionNode, unit) Connection option"
  imVulnerabilityCounts :: "SeverityCounts option"
  imVulnerabilities :: "vulnerabilities option"

definition image_item :: "ImageNode \<Rightarrow> ImageItem" where
  "image_item n = \<lparr>imNode = n, imVersions = None, imVulnerabilityCounts = None, imVulnerabilities = None\<rparr>"

definition image_orders :: "string list \<Rightarrow> entity_order list" where
  "image_orders services =
     (if services \<noteq> [] then count_orders OrderDirectionDesc else []) @
     [\<lparr>By = ComponentRepository, Direction = OrderDirectionAsc\<rparr>]"

text \<open>The vulnerabilities that are loaded with an image.\<close>

definition loaded_vulnerability :: "time_text \<Rightarrow> VulnerabilityResult \<Rightarrow> VulnerabilityItem" where
  "loaded_vulnerability tt r =
     (vulnerability_item \<lparr>vulId = FormatInt (vrIssueID r), vulName = vrPrimaryName r, vulDescription = vrDescription r\<rparr>)
       \<lparr>vuSeverity := known_severity (vrMaxSeverity r), vuSourceURL := non_empty (vrSourceURL r),
        vuDate := map_option (tt_Format tt) (vrEarliestRemediationDate r)\<rparr>"

definition attach_to_image ::
  "time_text \<Rightarrow> (id64 \<times> ComponentVersion list) list option \<Rightarrow> (id64 \<times> IssueSeverityCounts) list option
   \<Rightarrow> (id64 \<times> VulnerabilityResult list) list option \<Rightarrow> (id64 \<times> int) list option \<Rightarrow> ImageItem \<Rightarrow> ImageItem" where
  "attach_to_image tt versions counts vulns vulnCounts item =
     (case ParseInt (imgId (imNode item)) of
        None \<Rightarrow> item
      | Some i \<Rightarrow> item
          \<lparr>imVersions := map_option (\<lambda>m. whole (NewComponentVersion tt) cvId () (at_id [] m i)) versions,
           imVulnerabilityCounts := map_option (\<lambda>m. NewSeverityCounts (at_id no_counts m i)) counts,
           imVulnerabilities := map_option (\<lambda>m.
             let c = whole (loaded_vulnerability tt) vrIssueID None (at_id [] m i)
             in c\<lparr>lnTotalCount := at_id (lnTotalCount c) (or_empty [] vulnCounts) i\<rparr>) vulns\<rparr>)"

definition preload_images ::
  "time_text \<Rightarrow> ('d, 'z, 'g) Queries \<Rightarrow> string list \<Rightarrow> string list \<Rightarrow> (ImageItem \<times> string) list
   \<Rightarrow> ('d, 'z, 'g, (ImageItem \<times> string) list) handler" where
  "preload_images tt app requested services edges =
     (let needVersions = ''edges.node.versions'' \<in> set requested;
          needVulnCounts = ''edges.node.vulnerabilityCounts'' \<in> set requested;
          needVulnerabilities = containsField requested ''edges.node.vulnerabilities'';
          componentIDs = List.map_filter (\<lambda>e. ParseInt (imgId (imNode (fst e)))) edges
      in if (needVersions \<or> needVulnCounts \<or> needVulnerabilities) \<and> edges \<noteq> []
         then bindH (preload needVersions (qh_GetVersionsByComponentIDs app (componentIDs, services))) (\<lambda>versions.
              bindH (preload needVulnCounts (qh_GetIssueCountsByComponentIDs app (componentIDs, services))) (\<lambda>counts.
              bindH (preload needVulnerabilities (qh_GetVulnerabilitiesByComponentIDs app componentIDs)) (\<lambda>vulns.
              bindH (preload needVulnerabilities (qh_GetVulnerabilityCountsByComponentIDs app componentIDs)) (\<lambda>vulnCounts.
              returnH (map (\<lambda>(item, c). (attach_to_image tt versions counts vulns vulnCounts item, c)) edges)))))
         else returnH edges)"

definition sum_counts :: "IssueSeverityCounts list \<Rightarrow> SeverityCounts" where
  "sum_counts cs =
     \<lparr>cnCritical = sum_list (map iscCritical cs), cnHigh = sum_list (map iscHigh cs), cnMedium = sum_list (map iscMedium cs),
      cnLow = sum_list (map iscLow cs), cnNone = sum_list (map iscNone cs), cnTotal = sum_list (map iscTotal cs)\<rparr>"

definition ImageBaseResolver ::
  "time_text \<Rightarrow> ('d, 'z, 'g) Queries \<Rightarrow> string list \<Rightarrow> ImageFilterInput option \<Rightarrow> int option \<Rightarrow> string option
   \<Rightarrow> ('d, 'z, 'g, (ImageItem, SeverityCounts option) Connection) handler" where
  "ImageBaseResolver tt app requested flt first after =
     (let nm = ''ImageBaseResolver''; f = or_empty no_image_input flt
      in bindH (wrapH (told nm) (qh_ListComponents app
           (no_component_filter\<lparr>cfPage := paged first after, cfRepository := map Some (qzRepository f),
              cfServiceCCRN := map Some (qzService f), cfUseMvComponentService := True\<rparr>)
           ((GetListOptions requested)\<lparr>loOrder := image_orders (qzService f)\<rparr>))) (\<lambda>l.
         bindH (preload_images tt app requested (qzService f) (lnEdges (connection (\<lambda>c. image_item (NewImage c)) l))) (\<lambda>edges.
         bindH (asked_counts nm (''counts'' \<in> set requested)
           (bindH (qh_GetComponentVulnerabilityCounts app
              (no_component_filter\<lparr>cfRepository := map Some (qzRepository f), cfServiceCCRN := map Some (qzService f)\<rparr>))
            (\<lambda>cs. returnH (sum_counts cs)))) (\<lambda>counts.
         returnH ((connection_with (\<lambda>c. image_item (NewImage c)) counts l)\<lparr>lnEdges := edges\<rparr>)))))"

text \<open>The counts of one image.\<close>

definition ComponentIssueCountsBaseResolver ::
  "('d, 'z, 'g) Queries \<Rightarrow> ComponentFilterInput option \<Rightarrow> NodeParent option \<Rightarrow> ('d, 'z, 'g, SeverityCounts) handler" where
  "ComponentIssueCountsBaseResolver app flt parent =
     (let f = or_empty no_component_input flt
      in bindH (counts_parent_id ''ComponentIssueCountsBaseResolver'' parent) (\<lambda>pid.
         bindH (wrapH gql_error (qh_GetComponentVulnerabilityCounts app
           (no_component_filter\<lparr>cfServiceCCRN := map Some (qcServiceCcrn f),
              cfId := (case parent of None \<Rightarrow> [] | Some p \<Rightarrow> if npName p = ImageNodeName then pid else [])\<rparr>)))
           (\<lambda>cs. returnH (sum_counts cs))))"

record ImageVersionFilterInput =
  qzvImage :: "string list"
  qzvVersion :: "string list"
  qzvService :: "string list"
  qzvState :: "StateFilter list"
  qzvEndOfLife :: "bool list"

definition no_image_version_input :: ImageVersionFilterInput where
  "no_image_version_input = \<lparr>qzvImage = [], qzvVersion = [], qzvService = [], qzvState = [], qzvEndOfLife = []\<rparr>"

definition ImageVersionBaseResolver ::
  "time_text \<Rightarrow> ('d, 'z, 'g) Queries \<Rightarrow> string list \<Rightarrow> ImageVersionFilterInput option \<Rightarrow> int option \<Rightarrow> string option
   \<Rightarrow> NodeParent option \<Rightarrow> ('d, 'z, 'g, (ImageVersionNode, SeverityCounts option) Connection) handler" where
  "ImageVersionBaseResolver tt app requested flt first after parent =
     (let nm = ''ImageVersionBaseResolver''; f = or_empty no_image_version_input flt
      in with_parent (bad_parent nm) parent (\<lambda>under.
         bindH (wrapH (told nm) (qh_ListComponentVersions app
           (no_version_filter\<lparr>vfPage := paged first after, vfComponentCCRN := qzvImage f, vfComponentId := under ImageNodeName,
              vfVersion := qzvVersion f, vfServiceCCRN := qzvService f, vfState := GetStateFilterType (qzvState f),
              vfEndOfLife := qzvEndOfLife f\<rparr>)
           ((GetListOptions requested)\<lparr>loOrder := count_orders OrderDirectionDesc @
              [\<lparr>By = ComponentVersionRepository, Direction = OrderDirectionAsc\<rparr>]\<rparr>))) (\<lambda>l.
         bindH (asked_counts nm (''counts'' \<in> set requested)
           (bindH (qh_GetIssueSeverityCounts app
              (no_issue_filter\<lparr>ifServiceCCRN := qzvService f,
                 ifComponentVersionId := map (\<lambda>r. cvId (snd r)) (elElements l)\<rparr>))
            (\<lambda>c. returnH (NewSeverityCounts c)))) (\<lambda>counts.
         returnH (connection_with (NewImageVersion tt) counts l)))))"

end
