(* ===== verification/Graphql_Fields.thy ===== *)
theory Graphql_Fields
  imports Graphql_Batches
begin

text \<open>
  The resolvers of the fields of nodes (\<open>graph/resolver\<close>): they answer from what a list loaded or ask the base
  resolvers with their node as parent. What is shown of the queries is here too: failed loading, agreement of loaded and asked
  fields, what a parent restricts and where it does not, and what errors tell.
\<close>

section \<open>Fields that use what was loaded\<close>

text \<open>
  A loaded connection is the answer unless the request pages on: cut to the first entries, without its page information
  where \<open>page\<close> is None. A negative number of entries is out of the range of a slice.
\<close>

definition truncated :: "PageInfoNode option \<Rightarrow> int option \<Rightarrow> ('n, 'x) Connection \<Rightarrow> ('n, 'x) Connection go" where
  "truncated page first c =
     (case first of
        None \<Rightarrow> Inr c
      | Some n \<Rightarrow>
          if int (length (lnEdges c)) > n
          then (if n < 0 then Inl IndexOutOfRange else Inr (c\<lparr>lnEdges := take (nat n) (lnEdges c), lnPageInfo := page\<rparr>))
          else Inr c)"

definition child_of :: "string \<Rightarrow> NodeName \<Rightarrow> NodeParent option" where
  "child_of i n = Some \<lparr>npParent = Some i, npName = n, npChildIds = []\<rparr>"

definition Service_Owners ::
  "time_text \<Rightarrow> ('d, 'z, 'g) Queries \<Rightarrow> string list \<Rightarrow> ServiceItem \<Rightarrow> UserFilterInput option \<Rightarrow> int option \<Rightarrow> string option
   \<Rightarrow> ('d, 'z, 'g, (UserNode, unit) Connection) handler" where
  "Service_Owners tt app requested obj flt first after =
     (let ask = UserBaseResolver tt app requested flt first after (child_of (vnodeId (svNode obj)) ServiceNodeName)
      in case svOwners obj of
           Some c \<Rightarrow> if flt = None \<and> first = None \<and> after = None then returnH c else ask
         | None \<Rightarrow> ask)"

definition Service_SupportGroups ::
  "time_text \<Rightarrow> ('d, 'z, 'g) Queries \<Rightarrow> string list \<Rightarrow> ServiceItem \<Rightarrow> SupportGroupFilterInput option \<Rightarrow> int option
   \<Rightarrow> string option \<Rightarrow> SupportGroupOrderByField OrderByInput list \<Rightarrow> ('d, 'z, 'g, (SupportGroupNode, unit) Connection) handler" where
  "Service_SupportGroups tt app requested obj flt first after orderBy =
     (let ask = SupportGroupBaseResolver tt app requested flt first after orderBy
            (child_of (vnodeId (svNode obj)) ServiceNodeName)
      in case svSupportGroups obj of
           Some c \<Rightarrow> if flt = None \<and> first = None \<and> after = None \<and> orderBy = [] then returnH c else ask
         | None \<Rightarrow> ask)"

definition Service_IssueCounts ::
  "('d, 'z, 'g) Queries \<Rightarrow> ServiceItem \<Rightarrow> IssueFilterInput option \<Rightarrow> ('d, 'z, 'g, SeverityCounts) handler" where
  "Service_IssueCounts app obj flt =
     (let ask = IssueCountsBaseResolver app flt (child_of (vnodeId (svNode obj)) ServiceNodeName)
      in case svIssueCounts obj of Some c \<Rightarrow> if flt = None then returnH c else ask | None \<Rightarrow> ask)"

text \<open>The first match by an order, of which a field is shown.\<close>

definition first_match ::
  "time_text \<Rightarrow> (string \<Rightarrow> 'm) \<Rightarrow> ('d, 'z, 'g) Queries \<Rightarrow> string list \<Rightarrow> IssueMatchOrderByField \<Rightarrow> OrderDirectionInput
   \<Rightarrow> ('m IssueMatchNode \<Rightarrow> 'a) \<Rightarrow> VulnerabilityItem \<Rightarrow> ('d, 'z, 'g, 'a option) handler" where
  "first_match tt metrics app requested by dir field obj =
     bindH (IssueMatchBaseResolver tt metrics app requested None (Some 1) None
       [\<lparr>obBy = Some by, obDirection = Some dir\<rparr>] (child_of (vulId (vuNode obj)) VulnerabilityNodeName)) (\<lambda>c.
     returnH (case lnEdges c of [] \<Rightarrow> None | e # _ \<Rightarrow> Some (field (fst e))))"

definition Vulnerability_Severity ::
  "time_text \<Rightarrow> (string \<Rightarrow> 'm) \<Rightarrow> ('d, 'z, 'g) Queries \<Rightarrow> string list \<Rightarrow> VulnerabilityItem \<Rightarrow> ('d, 'z, 'g, string option) handler" where
  "Vulnerability_Severity tt metrics app requested obj =
     (case vuSeverity obj of
        Some v \<Rightarrow> returnH (Some v)
      | None \<Rightarrow> first_match tt metrics app requested IssueMatchOrderByFieldSeverity OrderDesc (\<lambda>n. snValue (mnodeSeverity n)) obj)"

definition Vulnerability_EarliestTargetRemediationDate ::
  "time_text \<Rightarrow> (string \<Rightarrow> 'm) \<Rightarrow> ('d, 'z, 'g) Queries \<Rightarrow> string list \<Rightarrow> VulnerabilityItem \<Rightarrow> ('d, 'z, 'g, string option) handler" where
  "Vulnerability_EarliestTargetRemediationDate tt metrics app requested obj =
     (case vuDate obj of
        Some d \<Rightarrow> returnH (Some d)
      | None \<Rightarrow> first_match tt metrics app requested IssueMatchOrderByFieldTargetRemediationDate OrderAsc mnodeTargetRemediationDate obj)"

definition Vulnerability_SourceURL ::
  "time_text \<Rightarrow> (string \<Rightarrow> 'm) \<Rightarrow> ('d, 'z, 'g) Queries \<Rightarrow> string list \<Rightarrow> VulnerabilityItem \<Rightarrow> ('d, 'z, 'g, string option) handler" where
  "Vulnerability_SourceURL tt metrics app requested obj =
     (case vuSourceURL obj of
        Some u \<Rightarrow> returnH (Some u)
      | None \<Rightarrow> bindH (IssueVariantBaseResolver tt metrics app requested None (Some 1) None
            (child_of (vulId (vuNode obj)) IssueNodeName)) (\<lambda>c.
          returnH (case lnEdges c of [] \<Rightarrow> None | e # _ \<Rightarrow> Some (wnodeExternalUrl (fst e)))))"

definition ascending :: "'f \<Rightarrow> 'f OrderByInput list" where
  "ascending f = [\<lparr>obBy = Some f, obDirection = Some OrderAsc\<rparr>]"

definition Vulnerability_Services ::
  "time_text \<Rightarrow> ('d, 'z, 'g) Queries \<Rightarrow> string list \<Rightarrow> VulnerabilityItem \<Rightarrow> int option \<Rightarrow> string option \<Rightarrow> ('d, 'z, 'g, services) handler" where
  "Vulnerability_Services tt app requested obj first after =
     (let ask = ServiceBaseResolver tt app requested None first after (ascending ServiceOrderByFieldCcrn)
            (child_of (vulId (vuNode obj)) VulnerabilityNodeName)
      in case vuServices obj of
           Some c \<Rightarrow> if after = None then goH (truncated None first c) else ask
         | None \<Rightarrow> ask)"

definition Vulnerability_SupportGroups ::
  "time_text \<Rightarrow> ('d, 'z, 'g) Queries \<Rightarrow> string list \<Rightarrow> VulnerabilityItem \<Rightarrow> int option \<Rightarrow> string option
   \<Rightarrow> ('d, 'z, 'g, (SupportGroupNode, unit) Connection) handler" where
  "Vulnerability_SupportGroups tt app requested obj first after =
     (let ask = SupportGroupBaseResolver tt app requested None first after (ascending SupportGroupOrderByFieldCcrn)
            (child_of (vulId (vuNode obj)) VulnerabilityNodeName)
      in case vuSupportGroups obj of
           Some c \<Rightarrow> if after = None then goH (truncated None first c) else ask
         | None \<Rightarrow> ask)"

text \<open>
  The fields of an image use the filter of the whole query, which is an argument here. It is dereferenced when
  something has to be asked for.
\<close>

definition query_filter :: "'f option \<Rightarrow> ('f \<Rightarrow> ('d, 'z, 'g, 'a) handler) \<Rightarrow> ('d, 'z, 'g, 'a) handler" where
  "query_filter topf k = (case topf of None \<Rightarrow> goH (Inl NilDereference) | Some f \<Rightarrow> k f)"

definition Image_Versions ::
  "time_text \<Rightarrow> ('d, 'z, 'g) Queries \<Rightarrow> string list \<Rightarrow> ImageFilterInput option \<Rightarrow> ImageItem \<Rightarrow> int option \<Rightarrow> string option
   \<Rightarrow> ('d, 'z, 'g, (ComponentVersionNode, unit) Connection) handler" where
  "Image_Versions tt app requested topf obj first after =
     (let ask = query_filter topf (\<lambda>f.
            ComponentVersionBaseResolver tt app requested
              (Some (no_version_input\<lparr>qvServiceCcrn := qzService f, qvRepository := qzRepository f\<rparr>)) first after
              [\<lparr>obBy = Some ComponentVersionOrderByFieldSeverity, obDirection = Some OrderDesc\<rparr>,
               \<lparr>obBy = Some ComponentVersionOrderByFieldRepository, obDirection = Some OrderAsc\<rparr>]
              (child_of (imgId (imNode obj)) ImageNodeName))
      in case imVersions obj of
           Some c \<Rightarrow> if after = None then goH (truncated None first c) else ask
         | None \<Rightarrow> ask)"

definition Image_VulnerabilityCounts ::
  "('d, 'z, 'g) Queries \<Rightarrow> ImageFilterInput option \<Rightarrow> ImageItem \<Rightarrow> ('d, 'z, 'g, SeverityCounts) handler" where
  "Image_VulnerabilityCounts app topf obj =
     (case imVulnerabilityCounts obj of
        Some c \<Rightarrow> returnH c
      | None \<Rightarrow> query_filter topf (\<lambda>f.
          ComponentIssueCountsBaseResolver app
            (Some (no_component_input\<lparr>qcServiceCcrn := qzService f, qcRepository := qzRepository f\<rparr>))
            (child_of (imgId (imNode obj)) ImageNodeName)))"

definition narrows :: "VulnerabilityFilterInput option \<Rightarrow> bool" where
  "narrows flt = (case flt of
     None \<Rightarrow> False
   | Some f \<Rightarrow> qxSeverity f \<noteq> [] \<or> qxName f \<noteq> [] \<or> qxStatus f \<noteq> None \<or> qxSearch f \<noteq> [])"

definition for_services :: "string list \<Rightarrow> VulnerabilityFilterInput option \<Rightarrow> VulnerabilityFilterInput" where
  "for_services services flt =
     (let f = or_empty no_vulnerability_input flt in f\<lparr>qxService := qxService f @ services\<rparr>)"

definition Image_Vulnerabilities ::
  "time_text \<Rightarrow> ('d, 'z, 'g) Queries \<Rightarrow> string list \<Rightarrow> ImageFilterInput option \<Rightarrow> ImageItem \<Rightarrow> int option \<Rightarrow> string option
   \<Rightarrow> VulnerabilityFilterInput option \<Rightarrow> ('d, 'z, 'g, vulnerabilities) handler" where
  "Image_Vulnerabilities tt app requested topf obj first after flt =
     (let ask = query_filter topf (\<lambda>f.
            VulnerabilityBaseResolver tt app requested (Some (for_services (qzService f) flt)) first after
              (child_of (imgId (imNode obj)) ImageNodeName))
      in case imVulnerabilities obj of
           Some c \<Rightarrow> if after = None \<and> \<not> narrows flt then goH (truncated (lnPageInfo c) first c) else ask
         | None \<Rightarrow> ask)"

definition ImageVersion_Occurences ::
  "time_text \<Rightarrow> ('d, 'z, 'g) Queries \<Rightarrow> string list \<Rightarrow> ImageVersionFilterInput option \<Rightarrow> ImageVersionNode \<Rightarrow> int option
   \<Rightarrow> string option \<Rightarrow> ('d, 'z, 'g, (ComponentInstanceNode, unit) Connection) handler" where
  "ImageVersion_Occurences tt app requested topf obj first after =
     (let f = or_empty no_image_version_input topf
      in ComponentInstanceBaseResolver tt app requested
           (Some (no_instance_filter_input\<lparr>qnServiceCcrn := qzvService f, qnComponentVersionDigest := qzvVersion f\<rparr>))
           first after [] (child_of (imvId obj) ComponentVersionNodeName))"

definition ImageVersion_Vulnerabilities ::
  "time_text \<Rightarrow> ('d, 'z, 'g) Queries \<Rightarrow> string list \<Rightarrow> ImageVersionFilterInput option \<Rightarrow> ImageVersionNode \<Rightarrow> int option
   \<Rightarrow> string option \<Rightarrow> VulnerabilityFilterInput option \<Rightarrow> ('d, 'z, 'g, vulnerabilities) handler" where
  "ImageVersion_Vulnerabilities tt app requested topf obj first after flt =
     VulnerabilityBaseResolver tt app requested
       (Some (for_services (qzvService (or_empty no_image_version_input topf)) flt)) first after
       (child_of (imvId obj) ImageVersionNodeName)"

definition ImageVersion_VulnerabilityCounts ::
  "('d, 'z, 'g) Queries \<Rightarrow> ImageVersionFilterInput option \<Rightarrow> ImageVersionNode \<Rightarrow> ('d, 'z, 'g, SeverityCounts) handler" where
  "ImageVersion_VulnerabilityCounts app topf obj =
     IssueCountsBaseResolver app
       (Some (no_issue_input\<lparr>qiServiceCcrn := qzvService (or_empty no_image_version_input topf),
                qiComponentVersionID := [imvId obj]\<rparr>))
       (child_of (imvId obj) ImageVersionNodeName)"

text \<open>The query for images reads the service of its filter before anything else, to put it into the context.\<close>

definition Query_Images ::
  "time_text \<Rightarrow> ('d, 'z, 'g) Queries \<Rightarrow> string list \<Rightarrow> ImageFilterInput option \<Rightarrow> int option \<Rightarrow> string option
   \<Rightarrow> ('d, 'z, 'g, (ImageItem, SeverityCounts option) Connection) handler" where
  "Query_Images tt app requested flt first after =
     query_filter flt (\<lambda>f. ImageBaseResolver tt app requested (Some f) first after)"

section \<open>Fields of the other nodes\<close>

text \<open>A field that leads to one node parses the id that its own node holds; the error is that of the parser.\<close>

definition child_ids :: "string \<Rightarrow> (id64 list \<Rightarrow> ('d, 'z, 'g, 'a) handler) \<Rightarrow> ('d, 'z, 'g, 'a) handler" where
  "child_ids i k = bindH (liftH (ConvertStrToIntSlice [i])) k"

definition Service_IssueRepositories ::
  "time_text \<Rightarrow> ('d, 'z, 'g) Queries \<Rightarrow> string list \<Rightarrow> ServiceNode \<Rightarrow> IssueRepositoryFilterInput option \<Rightarrow> int option
   \<Rightarrow> string option \<Rightarrow> ('d, 'z, 'g, (IssueRepositoryNode \<times> int option, unit) Connection) handler" where
  "Service_IssueRepositories tt app requested obj flt first after =
     IssueRepositoryBaseResolver tt app requested flt first after (child_of (vnodeId obj) ServiceNodeName)"

definition Service_ComponentInstances ::
  "time_text \<Rightarrow> ('d, 'z, 'g) Queries \<Rightarrow> string list \<Rightarrow> ServiceNode \<Rightarrow> ComponentInstanceFilterInput option \<Rightarrow> int option
   \<Rightarrow> string option \<Rightarrow> ComponentInstanceOrderByField OrderByInput list \<Rightarrow> ('d, 'z, 'g, (ComponentInstanceNode, unit) Connection) handler" where
  "Service_ComponentInstances tt app requested obj flt first after orderBy =
     ComponentInstanceBaseResolver tt app requested flt first after orderBy (child_of (vnodeId obj) ServiceNodeName)"

definition Service_IssueMatches ::
  "time_text \<Rightarrow> (string \<Rightarrow> 'm) \<Rightarrow> ('d, 'z, 'g) Queries \<Rightarrow> string list \<Rightarrow> ServiceNode \<Rightarrow> IssueMatchFilterInput option \<Rightarrow> int option
   \<Rightarrow> string option \<Rightarrow> IssueMatchOrderByField OrderByInput list \<Rightarrow> ('d, 'z, 'g, ('m IssueMatchNode, unit) Connection) handler" where
  "Service_IssueMatches tt metrics app requested obj flt first after orderBy =
     IssueMatchBaseResolver tt metrics app requested flt first after orderBy (child_of (vnodeId obj) ServiceNodeName)"

definition Service_Remediations ::
  "time_text \<Rightarrow> ('d, 'z, 'g) Queries \<Rightarrow> string list \<Rightarrow> ServiceNode \<Rightarrow> RemediationFilterInput option \<Rightarrow> int option
   \<Rightarrow> string option \<Rightarrow> RemediationOrderByField OrderByInput list \<Rightarrow> ('d, 'z, 'g, (RemediationNode, unit) Connection) handler" where
  "Service_Remediations tt app requested obj flt first after orderBy =
     RemediationBaseResolver tt app requested flt first after orderBy (child_of (vnodeId obj) ServiceNodeName)"

definition Component_ComponentVersions ::
  "time_text \<Rightarrow> ('d, 'z, 'g) Queries \<Rightarrow> string list \<Rightarrow> ComponentNode \<Rightarrow> ComponentVersionFilterInput option \<Rightarrow> int option
   \<Rightarrow> string option \<Rightarrow> ComponentVersionOrderByField OrderByInput list \<Rightarrow> ('d, 'z, 'g, (ComponentVersionNode, unit) Connection) handler" where
  "Component_ComponentVersions tt app requested obj flt first after orderBy =
     ComponentVersionBaseResolver tt app requested flt first after orderBy (child_of (cnodeId obj) ComponentNodeName)"

definition ComponentVersion_Component :: "time_text \<Rightarrow> ('d, 'z, 'g) Queries \<Rightarrow> ComponentVersionNode \<Rightarrow> ('d, 'z, 'g, ComponentNode option) handler" where
  "ComponentVersion_Component tt app obj =
     child_ids (bnodeComponentId obj) (\<lambda>is. SingleComponentBaseResolver tt app (Some \<lparr>npParent = Some (bnodeId obj), npName = IssueMatchNodeName, npChildIds = is\<rparr>))"

definition ComponentVersion_Issues ::
  "time_text \<Rightarrow> ('d, 'z, 'g) Queries \<Rightarrow> string list \<Rightarrow> ComponentVersionNode \<Rightarrow> IssueFilterInput option \<Rightarrow> int option
   \<Rightarrow> string option \<Rightarrow> IssueOrderByField OrderByInput list \<Rightarrow> ('d, 'z, 'g, (IssueNode, int \<times> int \<times> int) Connection) handler" where
  "ComponentVersion_Issues tt app requested obj flt first after orderBy =
     IssueBaseResolver tt app requested flt first after orderBy (child_of (bnodeId obj) ComponentVersionNodeName)"

definition ComponentVersion_ComponentInstances ::
  "time_text \<Rightarrow> ('d, 'z, 'g) Queries \<Rightarrow> string list \<Rightarrow> ComponentVersionNode \<Rightarrow> ComponentInstanceFilterInput option \<Rightarrow> int option
   \<Rightarrow> string option \<Rightarrow> ComponentInstanceOrderByField OrderByInput list \<Rightarrow> ('d, 'z, 'g, (ComponentInstanceNode, unit) Connection) handler" where
  "ComponentVersion_ComponentInstances tt app requested obj flt first after orderBy =
     ComponentInstanceBaseResolver tt app requested flt first after orderBy (child_of (bnodeId obj) ComponentVersionNodeName)"

definition ComponentVersion_IssueCounts ::
  "('d, 'z, 'g) Queries \<Rightarrow> ComponentVersionNode \<Rightarrow> IssueFilterInput option \<Rightarrow> ('d, 'z, 'g, SeverityCounts) handler" where
  "ComponentVersion_IssueCounts app obj flt = IssueCountsBaseResolver app flt (child_of (bnodeId obj) ComponentVersionNodeName)"

definition ComponentInstance_ComponentVersion :: "time_text \<Rightarrow> ('d, 'z, 'g) Queries \<Rightarrow> ComponentInstanceNode \<Rightarrow> ('d, 'z, 'g, ComponentVersionNode option) handler" where
  "ComponentInstance_ComponentVersion tt app obj =
     child_ids (dnodeComponentVersionId obj) (\<lambda>is. SingleComponentVersionBaseResolver tt app (Some \<lparr>npParent = Some (dnodeId obj), npName = ComponentInstanceNodeName, npChildIds = is\<rparr>))"

definition ComponentInstance_IssueMatches ::
  "time_text \<Rightarrow> (string \<Rightarrow> 'm) \<Rightarrow> ('d, 'z, 'g) Queries \<Rightarrow> string list \<Rightarrow> ComponentInstanceNode
   \<Rightarrow> IssueMatchFilterInput option \<Rightarrow> int option \<Rightarrow> string option \<Rightarrow> ('d, 'z, 'g, ('m IssueMatchNode, unit) Connection) handler" where
  "ComponentInstance_IssueMatches tt metrics app requested obj flt first after =
     IssueMatchBaseResolver tt metrics app requested flt first after [] (child_of (dnodeId obj) ComponentInstanceNodeName)"

definition ComponentInstance_Service :: "time_text \<Rightarrow> ('d, 'z, 'g) Queries \<Rightarrow> ComponentInstanceNode \<Rightarrow> ('d, 'z, 'g, ServiceNode option) handler" where
  "ComponentInstance_Service tt app obj =
     child_ids (dnodeServiceId obj) (\<lambda>is. SingleServiceBaseResolver tt app (Some \<lparr>npParent = Some (dnodeId obj), npName = ComponentInstanceNodeName, npChildIds = is\<rparr>))"

definition Issue_IssueVariants ::
  "time_text \<Rightarrow> (string \<Rightarrow> 'm) \<Rightarrow> ('d, 'z, 'g) Queries \<Rightarrow> string list \<Rightarrow> IssueNode \<Rightarrow> IssueVariantFilterInput option \<Rightarrow> int option
   \<Rightarrow> string option \<Rightarrow> ('d, 'z, 'g, ('m IssueVariantNode, unit) Connection) handler" where
  "Issue_IssueVariants tt metrics app requested obj flt first after =
     IssueVariantBaseResolver tt metrics app requested flt first after (child_of (jnodeId obj) IssueNodeName)"

text \<open>The order that the request asks for is not passed on.\<close>

definition Issue_IssueMatches ::
  "time_text \<Rightarrow> (string \<Rightarrow> 'm) \<Rightarrow> ('d, 'z, 'g) Queries \<Rightarrow> string list \<Rightarrow> IssueNode \<Rightarrow> IssueMatchFilterInput option \<Rightarrow> int option
   \<Rightarrow> string option \<Rightarrow> IssueMatchOrderByField OrderByInput list \<Rightarrow> ('d, 'z, 'g, ('m IssueMatchNode, unit) Connection) handler" where
  "Issue_IssueMatches tt metrics app requested obj flt first after orderBy =
     IssueMatchBaseResolver tt metrics app requested flt first after [] (child_of (jnodeId obj) IssueNodeName)"

definition Issue_ComponentVersions ::
  "time_text \<Rightarrow> ('d, 'z, 'g) Queries \<Rightarrow> string list \<Rightarrow> IssueNode \<Rightarrow> ComponentVersionFilterInput option \<Rightarrow> int option
   \<Rightarrow> string option \<Rightarrow> ComponentVersionOrderByField OrderByInput list \<Rightarrow> ('d, 'z, 'g, (ComponentVersionNode, unit) Connection) handler" where
  "Issue_ComponentVersions tt app requested obj flt first after orderBy =
     ComponentVersionBaseResolver tt app requested flt first after orderBy (child_of (jnodeId obj) IssueNodeName)"

definition IssueMatch_EffectiveIssueVariants ::
  "time_text \<Rightarrow> (string \<Rightarrow> 'm) \<Rightarrow> ('d, 'z, 'g) Queries \<Rightarrow> string list \<Rightarrow> 'm IssueMatchNode \<Rightarrow> IssueVariantFilterInput option \<Rightarrow> int option
   \<Rightarrow> string option \<Rightarrow> ('d, 'z, 'g, ('m IssueVariantNode, unit) Connection) handler" where
  "IssueMatch_EffectiveIssueVariants tt metrics app requested obj flt first after =
     EffectiveIssueVariantBaseResolver tt metrics app requested flt first after (child_of (mnodeId obj) IssueMatchNodeName)"

definition IssueMatch_Issue :: "time_text \<Rightarrow> ('d, 'z, 'g) Queries \<Rightarrow> 'm IssueMatchNode \<Rightarrow> ('d, 'z, 'g, IssueNode option) handler" where
  "IssueMatch_Issue tt app obj =
     child_ids (mnodeIssueId obj) (\<lambda>is. SingleIssueBaseResolver tt app (Some \<lparr>npParent = Some (mnodeId obj), npName = IssueMatchNodeName, npChildIds = is\<rparr>))"

definition IssueMatch_ComponentInstance :: "time_text \<Rightarrow> ('d, 'z, 'g) Queries \<Rightarrow> 'm IssueMatchNode \<Rightarrow> ('d, 'z, 'g, ComponentInstanceNode option) handler" where
  "IssueMatch_ComponentInstance tt app obj =
     child_ids (mnodeComponentInstanceId obj) (\<lambda>is. SingleComponentInstanceBaseResolver tt app (Some \<lparr>npParent = Some (mnodeId obj), npName = IssueMatchNodeName, npChildIds = is\<rparr>))"

definition IssueRepository_IssueVariants ::
  "time_text \<Rightarrow> (string \<Rightarrow> 'm) \<Rightarrow> ('d, 'z, 'g) Queries \<Rightarrow> string list \<Rightarrow> IssueRepositoryNode \<Rightarrow> IssueVariantFilterInput option \<Rightarrow> int option
   \<Rightarrow> string option \<Rightarrow> ('d, 'z, 'g, ('m IssueVariantNode, unit) Connection) handler" where
  "IssueRepository_IssueVariants tt metrics app requested obj flt first after =
     IssueVariantBaseResolver tt metrics app requested flt first after (child_of (rnodeId obj) IssueRepositoryNodeName)"

definition IssueRepository_Services ::
  "time_text \<Rightarrow> ('d, 'z, 'g) Queries \<Rightarrow> string list \<Rightarrow> IssueRepositoryNode \<Rightarrow> ServiceFilterInput option \<Rightarrow> int option
   \<Rightarrow> string option \<Rightarrow> ServiceOrderByField OrderByInput list \<Rightarrow> ('d, 'z, 'g, services) handler" where
  "IssueRepository_Services tt app requested obj flt first after orderBy =
     ServiceBaseResolver tt app requested flt first after orderBy (child_of (rnodeId obj) IssueRepositoryNodeName)"

definition IssueVariant_IssueRepository :: "time_text \<Rightarrow> ('d, 'z, 'g) Queries \<Rightarrow> 'm IssueVariantNode \<Rightarrow> ('d, 'z, 'g, IssueRepositoryNode option) handler" where
  "IssueVariant_IssueRepository tt app obj =
     child_ids (wnodeIssueRepositoryId obj) (\<lambda>is. SingleIssueRepositoryBaseResolver tt app (Some \<lparr>npParent = Some (wnodeId obj), npName = IssueVariantNodeName, npChildIds = is\<rparr>))"

definition IssueVariant_Issue :: "time_text \<Rightarrow> ('d, 'z, 'g) Queries \<Rightarrow> 'm IssueVariantNode \<Rightarrow> ('d, 'z, 'g, IssueNode option) handler" where
  "IssueVariant_Issue tt app obj =
     child_ids (wnodeIssueId obj) (\<lambda>is. SingleIssueBaseResolver tt app (Some \<lparr>npParent = Some (wnodeId obj), npName = IssueVariantNodeName, npChildIds = is\<rparr>))"

definition SupportGroup_Users ::
  "time_text \<Rightarrow> ('d, 'z, 'g) Queries \<Rightarrow> string list \<Rightarrow> SupportGroupNode \<Rightarrow> UserFilterInput option \<Rightarrow> int option
   \<Rightarrow> string option \<Rightarrow> ('d, 'z, 'g, (UserNode, unit) Connection) handler" where
  "SupportGroup_Users tt app requested obj flt first after =
     UserBaseResolver tt app requested flt first after (child_of (gnId obj) SupportGroupNodeName)"

definition SupportGroup_Services ::
  "time_text \<Rightarrow> ('d, 'z, 'g) Queries \<Rightarrow> string list \<Rightarrow> SupportGroupNode \<Rightarrow> ServiceFilterInput option \<Rightarrow> int option
   \<Rightarrow> string option \<Rightarrow> ServiceOrderByField OrderByInput list \<Rightarrow> ('d, 'z, 'g, services) handler" where
  "SupportGroup_Services tt app requested obj flt first after orderBy =
     ServiceBaseResolver tt app requested flt first after orderBy (child_of (gnId obj) SupportGroupNodeName)"

definition User_SupportGroups ::
  "time_text \<Rightarrow> ('d, 'z, 'g) Queries \<Rightarrow> string list \<Rightarrow> UserNode \<Rightarrow> SupportGroupFilterInput option \<Rightarrow> int option
   \<Rightarrow> string option \<Rightarrow> SupportGroupOrderByField OrderByInput list \<Rightarrow> ('d, 'z, 'g, (SupportGroupNode, unit) Connection) handler" where
  "User_SupportGroups tt app requested obj flt first after orderBy =
     SupportGroupBaseResolver tt app requested flt first after orderBy (child_of (unId obj) UserNodeName)"

definition User_Services ::
  "time_text \<Rightarrow> ('d, 'z, 'g) Queries \<Rightarrow> string list \<Rightarrow> UserNode \<Rightarrow> ServiceFilterInput option \<Rightarrow> int option
   \<Rightarrow> string option \<Rightarrow> ServiceOrderByField OrderByInput list \<Rightarrow> ('d, 'z, 'g, services) handler" where
  "User_Services tt app requested obj flt first after orderBy =
     ServiceBaseResolver tt app requested flt first after orderBy (child_of (unId obj) UserNodeName)"

section \<open>Failures of batch calls\<close>

definition panic_free :: "('d, 'z, 'g, 'a) handler \<Rightarrow> bool" where
  "panic_free m \<longleftrightarrow> (\<forall>s p. fst (m s) \<noteq> Inl (Panicked p))"


lemma attach_keeps_service [simp]: "svNode (attach_to_service tt os gs cs item) = svNode item"
  by (simp add: attach_to_service_def split: option.split)

lemma attach_nothing [simp]:
  "svOwners item = None \<Longrightarrow> svOwners (attach_to_service tt None gs cs item) = None"
  "svSupportGroups item = None \<Longrightarrow> svSupportGroups (attach_to_service tt os None cs item) = None"
  "svIssueCounts item = None \<Longrightarrow> svIssueCounts (attach_to_service tt os gs None item) = None"
  by (simp_all add: attach_to_service_def split: option.split)


text \<open>Either all that was asked for is attached to the vulnerabilities or nothing.\<close>

lemma demand_failed:
  "wanted \<Longrightarrow> m s = (Inl (Failed e), t) \<Longrightarrow> demand wanted m s = (Inr (Inl e), t)"
  by (simp add: demand_def attemptH_def bindH_def returnH_def)

section \<open>Loaded fields and fields asked for\<close>

lemma with_child:
  assumes "ParseInt i = Some p"
  shows "with_parent err (child_of i n) k = k (\<lambda>n'. if n' = n then [p] else [])"
  using assms by (auto simp: with_parent_def child_of_def parent_id_def ParseCursor_def wrapH_def liftH_def bindH_def fun_eq_iff)




section \<open>What a parent and a filter leave out\<close>


text \<open>
  C10. The counts of a list of image versions without a version are not zero: they are those of all issues of the
  services that were asked for, whatever images or versions the filter names. A list without versions asks for the counts with no
  version ids, which restrict nothing.
\<close>

theorem no_versions_count_all_issues:
  assumes "''counts'' \<in> set requested"
    and "\<And>g o'. qh_ListComponentVersions app g o' s = (Inr l, t)" and "elElements l = []"
    and "qh_GetIssueSeverityCounts app (no_issue_filter\<lparr>ifServiceCCRN := qzvService f\<rparr>) t = (Inr counts, u)"
  shows "\<exists>c. ImageVersionBaseResolver tt app requested (Some f) first after None s = (Inr c, u) \<and>
    lnEdges c = [] \<and> lnCounts c = Some (NewSeverityCounts counts)"
proof -
  have "no_issue_filter\<lparr>ifServiceCCRN := qzvService f, ifComponentVersionId := []\<rparr> = no_issue_filter\<lparr>ifServiceCCRN := qzvService f\<rparr>"
    by (simp add: no_issue_filter_def)
  then show ?thesis
    using assms by (simp add: ImageVersionBaseResolver_def with_parent_def or_empty_def asked_counts_def Let_def bindH_def wrapH_def
        returnH_def connection_with_def)
qed

text \<open>The counts below an image do not depend on the image.\<close>

lemma image_counts_ignore_image:
  "vulnerability_counts_filter f (ifComponentVersionId (vulnerability_filter f page True (\<lambda>n. if n = ImageNodeName then is else [])))
   = vulnerability_counts_filter f []"
  by (simp add: vulnerability_filter_def no_issue_filter_def Let_def)

lemma issue_counts_ignore_matches:
  "IssueCountsBaseResolver app (Some (f\<lparr>qiIssueMatchStatus := xs\<rparr>)) parent = IssueCountsBaseResolver app (Some f) parent"
  by (simp add: IssueCountsBaseResolver_def or_empty_def cong: option.case_cong)

lemma issues_ignore_match_status:
  "IssueBaseResolver tt app requested (Some (f\<lparr>qiIssueMatchStatus := xs\<rparr>)) first after ord parent =
   IssueBaseResolver tt app requested (Some f) first after ord parent"
  by (simp add: IssueBaseResolver_def or_empty_def)

lemma region_ignored:
  "VulnerabilityBaseResolver tt app requested (Some (f\<lparr>qxRegion := xs\<rparr>)) first after parent =
   VulnerabilityBaseResolver tt app requested (Some f) first after parent"
  by (simp add: VulnerabilityBaseResolver_def vulnerability_filter_def vulnerability_counts_filter_def or_empty_def Let_def cong: if_cong)

section \<open>Panics of queries\<close>

lemma images_need_a_filter: "fst (Query_Images tt app requested None first after s) = Inl (Panicked NilDereference)"
  by (simp add: Query_Images_def query_filter_def goH_def)

lemma negative_page_panics: "n < 0 \<Longrightarrow> truncated page (Some n) c = Inl IndexOutOfRange"
  by (simp add: truncated_def)

lemma decoded_contexts_panics: "(\<exists>x \<in> set ts. unjson x = None) \<Longrightarrow> decoded_contexts unjson ts = Inl NilDereference"
proof (induction ts)
  case (Cons x ts)
  then show ?case by (cases "unjson x") auto
qed simp

lemma context_that_does_not_decode_panics:
  assumes "\<And>g o'. qh_ListInstanceAttribute app ''ListContexts'' g o' s = (Inr names, t)" and "\<exists>x \<in> set names. unjson x = None"
  shows "ContextBaseResolver unjson app requested flt s = (Inl (Panicked NilDereference), t)"
  using assms by (simp add: ContextBaseResolver_def Let_def bindH_def wrapH_def goH_def decoded_contexts_panics)

section \<open>What errors tell\<close>

text \<open>
  What a client is told of an internal error does not depend on its message, its cause or its fields: two
  internal errors of the same operation on the same entity are the same error for the client, however they are wrapped,
  and errors that are none of the application are all the same. The error of a list resolver that quotes the text
  is the opposite: it tells two errors apart as soon as their texts differ.
\<close>

theorem internal_errors_look_alike:
  "as_app_error e = Some a \<and> as_app_error e' = Some a' \<and> eCode a = Internal \<and> eCode a' = Internal \<and>
     eOp a = eOp a' \<and> eEntity a = eEntity a' \<and> eID a = eID a'
   \<or> as_app_error e = None \<and> as_app_error e' = None
   \<Longrightarrow> ToGraphQLError (Some e) = ToGraphQLError (Some e') \<and>
      (told nm e = told nm e' \<longleftrightarrow> error_text e = error_text e')"
  by (auto simp: ToGraphQLError_def told_def NewResolverError_def sanitizeErrorMessage_def gq_extension_def Let_def)

lemma bind_return: "bindH (returnH x) k = k x"
  by (simp add: bindH_def returnH_def fun_eq_iff)

lemma counts_below:
  "ParseInt i = Some p \<Longrightarrow> counts_parent_id nm (Some \<lparr>npParent = Some i, npName = n, npChildIds = is\<rparr>) = returnH [p]"
  by (simp add: counts_parent_id_def ParseCursor_def handler_defs fun_eq_iff)

text \<open>
  C14. The fields of a service ask for what belongs to the service only: two applications that answer alike whenever
  the id of the service is in the filter give the same owners, support groups, repositories, instances,
  matches, remediations and counts below it, whatever filter, page and order the request adds.
\<close>

theorem service_fields_stay_below_service:
  assumes "ParseInt (vnodeId (svNode obj)) = Some i"
    and "\<And>f. ufServiceId f = [i] \<Longrightarrow> qh_ListUsers app f = qh_ListUsers app' f"
    and "\<And>f. gfServiceId f = [i] \<Longrightarrow> qh_ListSupportGroups app f = qh_ListSupportGroups app' f"
    and "\<And>f. yfServiceId f = [i] \<Longrightarrow> qh_ListIssueRepositories app f = qh_ListIssueRepositories app' f"
    and "\<And>f. nfServiceId f = [i] \<Longrightarrow> qh_ListComponentInstances app f = qh_ListComponentInstances app' f"
    and "\<And>f. imfServiceId f = [i] \<Longrightarrow> qh_ListIssueMatches app f = qh_ListIssueMatches app' f"
    and "\<And>f. rfServiceId f = [i] \<Longrightarrow> qh_ListRemediations app f = qh_ListRemediations app' f"
    and "\<And>f. ifServiceId f = [i] \<Longrightarrow> qh_GetIssueSeverityCounts app f = qh_GetIssueSeverityCounts app' f"
  shows "Service_Owners tt app requested obj fu first after = Service_Owners tt app' requested obj fu first after \<and>
    Service_SupportGroups tt app requested obj fg first after og = Service_SupportGroups tt app' requested obj fg first after og \<and>
    Service_IssueRepositories tt app requested (svNode obj) fr first after =
      Service_IssueRepositories tt app' requested (svNode obj) fr first after \<and>
    Service_ComponentInstances tt app requested (svNode obj) fi first after oi =
      Service_ComponentInstances tt app' requested (svNode obj) fi first after oi \<and>
    Service_IssueMatches tt metrics app requested (svNode obj) fm first after om =
      Service_IssueMatches tt metrics app' requested (svNode obj) fm first after om \<and>
    Service_Remediations tt app requested (svNode obj) fx first after ox =
      Service_Remediations tt app' requested (svNode obj) fx first after ox \<and>
    Service_IssueCounts app obj fc = Service_IssueCounts app' obj fc"
proof (intro conjI)
  note child = with_child [OF assms(1)]
  show "Service_Owners tt app requested obj fu first after = Service_Owners tt app' requested obj fu first after"
    by (simp add: Service_Owners_def UserBaseResolver_def child assms(2) Let_def)
  show "Service_SupportGroups tt app requested obj fg first after og = Service_SupportGroups tt app' requested obj fg first after og"
    by (simp add: Service_SupportGroups_def SupportGroupBaseResolver_def child assms(3) Let_def)
  show "Service_IssueRepositories tt app requested (svNode obj) fr first after =
      Service_IssueRepositories tt app' requested (svNode obj) fr first after"
    by (simp add: Service_IssueRepositories_def IssueRepositoryBaseResolver_def child assms(4) Let_def)
  show "Service_ComponentInstances tt app requested (svNode obj) fi first after oi =
      Service_ComponentInstances tt app' requested (svNode obj) fi first after oi"
    by (simp add: Service_ComponentInstances_def ComponentInstanceBaseResolver_def child assms(5) Let_def)
  show "Service_IssueMatches tt metrics app requested (svNode obj) fm first after om =
      Service_IssueMatches tt metrics app' requested (svNode obj) fm first after om"
    by (simp add: Service_IssueMatches_def IssueMatchBaseResolver_def child assms(6) Let_def)
  show "Service_Remediations tt app requested (svNode obj) fx first after ox =
      Service_Remediations tt app' requested (svNode obj) fx first after ox"
    by (simp add: Service_Remediations_def RemediationBaseResolver_def child assms(7) Let_def)
  show "Service_IssueCounts app obj fc = Service_IssueCounts app' obj fc"
    by (simp add: counts_below [OF assms(1)] assms(8) Service_IssueCounts_def IssueCountsBaseResolver_def child_of_def bind_return Let_def cong: option.case_cong)
qed

section \<open>Examples\<close>

text \<open>An application none of whose operations succeeds; the examples replace the operations they are about.\<close>

definition down :: "('d, 'z, 'g, 'a) handler" where
  "down = failH (ErrVal ''app'' ''unavailable'')"

definition unavailable :: "('d, 'z, 'g) Queries" where
  "unavailable =
    \<lparr>qh_ListIssues = (\<lambda>_ _. down), qh_ListIssueNames = (\<lambda>_ _. down),
     qh_GetIssueSeverityCounts = (\<lambda>_. down), qh_ListIssueMatches = (\<lambda>_ _. down),
     qh_ListIssueVariants = (\<lambda>_ _. down), qh_ListEffectiveIssueVariants = (\<lambda>_ _. down),
     qh_ListIssueRepositories = (\<lambda>_ _. down), qh_ListServices = (\<lambda>_ _. down),
     qh_ListServiceCcrns = (\<lambda>_ _. down), qh_ListServiceDomains = (\<lambda>_ _. down),
     qh_ListServiceRegions = (\<lambda>_ _. down), qh_ListSupportGroups = (\<lambda>_ _. down),
     qh_ListSupportGroupCcrns = (\<lambda>_ _. down), qh_ListUsers = (\<lambda>_ _. down),
     qh_ListUserNames = (\<lambda>_ _. down), qh_ListUniqueUserIDs = (\<lambda>_ _. down),
     qh_ListUserNamesAndIds = (\<lambda>_ _. down), qh_ListComponents = (\<lambda>_ _. down),
     qh_ListComponentCcrns = (\<lambda>_ _. down), qh_GetComponentVulnerabilityCounts = (\<lambda>_. down),
     qh_ListComponentVersions = (\<lambda>_ _. down), qh_ListComponentInstances = (\<lambda>_ _. down),
     qh_ListInstanceAttribute = (\<lambda>_ _ _. down), qh_ListRemediations = (\<lambda>_ _. down),
     qh_ListPatches = (\<lambda>_ _. down), qh_ListOwnersByServiceIDs = (\<lambda>_. down),
     qh_ListSupportGroupsByServiceIDs = (\<lambda>_. down), qh_ListIssueCountsByServiceIDs = (\<lambda>_. down),
     qh_GetVulnerabilityAggregatesByIssueIDs = (\<lambda>_. down), qh_GetServicesByIssueIDs = (\<lambda>_. down),
     qh_GetSupportGroupsByIssueIDs = (\<lambda>_. down), qh_GetVersionsByComponentIDs = (\<lambda>_. down),
     qh_GetIssueCountsByComponentIDs = (\<lambda>_. down), qh_GetVulnerabilitiesByComponentIDs = (\<lambda>_. down),
     qh_GetVulnerabilityCountsByComponentIDs = (\<lambda>_. down)\<rparr>"

lemma panic_free_down [simp]: "panic_free down"
  by (simp add: panic_free_def down_def failH_def)

lemma ParseInt_examples [simp]: "ParseInt ''1'' = Some 1" "ParseInt ''2'' = Some 2" "ParseInt ''7'' = Some 7"
  by code_simp+

definition example_node :: ServiceNode where
  "example_node = \<lparr>vnodeId = ''1'', vnodeCcrn = ''web'', vnodeDomain = [], vnodeRegion = [], vnodeObjectMetadata = None,
     vnodeMetadata = \<lparr>mdCreatedAt = [], mdCreatedBy = [], mdDeletedAt = [], mdUpdatedAt = [], mdUpdatedBy = []\<rparr>\<rparr>"

definition example_owner :: User where
  "example_owner = \<lparr>userMeta = zero_metadata, userId = 5, userName = ''ann'', userUniqueUserID = ''I5'', userType = 1,
     userEmail = []\<rparr>"


definition owned_by :: "id64 \<Rightarrow> User list" where
  "owned_by i = (if i = 1 then [example_owner] else [])"

definition owner_list :: "id64 \<Rightarrow> User entity_list" where
  "owner_list i = \<lparr>elTotalCount = None, elPageInfo = None, elElements = map (\<lambda>u. (''c'', u)) (owned_by i)\<rparr>"




definition no_versions_app :: "IssueSeverityCounts \<Rightarrow> ('d, 'z, 'g) Queries" where
  "no_versions_app c = unavailable
     \<lparr>qh_ListComponentVersions := (\<lambda>_ _. returnH \<lparr>elTotalCount = None, elPageInfo = None, elElements = []\<rparr>),
      qh_GetIssueSeverityCounts := (\<lambda>f. returnH (if ifComponentVersionId f = [] then c else no_counts))\<rparr>"

lemma no_versions_count_all_issues_witness:
  "\<forall>tt s. \<exists>c. ImageVersionBaseResolver tt (no_versions_app (no_counts\<lparr>iscTotal := 4\<rparr>)) [''counts'']
       (Some (no_image_version_input\<lparr>qzvImage := [''absent'']\<rparr>)) None None None s = (Inr c, s)
     \<and> lnEdges c = [] \<and> map_option cnTotal (lnCounts c) = Some 4"
proof (intro allI)
  fix tt :: time_text and s :: "('d, 'z, 'g) app_state"
  let ?app = "no_versions_app (no_counts\<lparr>iscTotal := 4\<rparr>) :: ('d, 'z, 'g) Queries"
  have "\<exists>c. ImageVersionBaseResolver tt ?app [''counts''] (Some (no_image_version_input\<lparr>qzvImage := [''absent'']\<rparr>)) None None None s
      = (Inr c, s) \<and> lnEdges c = [] \<and> lnCounts c = Some (NewSeverityCounts (no_counts\<lparr>iscTotal := 4\<rparr>))"
    by (rule no_versions_count_all_issues
        [where l = "\<lparr>elTotalCount = None, elPageInfo = None, elElements = []\<rparr>" and t = s])
       (simp_all add: no_versions_app_def unavailable_def returnH_def no_issue_filter_def)
  then show "\<exists>c. ImageVersionBaseResolver tt ?app [''counts''] (Some (no_image_version_input\<lparr>qzvImage := [''absent'']\<rparr>)) None None None s
      = (Inr c, s) \<and> lnEdges c = [] \<and> map_option cnTotal (lnCounts c) = Some 4"
    by (auto simp: NewSeverityCounts_def)
qed

lemma internal_errors_look_alike_witness:
  "ToGraphQLError (Some (AppErr (AppError Internal ''Service'' [] ''op'' ''password=x'' None Map.empty))) =
     ToGraphQLError (Some (WrapErr ''ctx: '' (AppErr (AppError Internal ''Service'' [] ''op'' ''timeout'' None Map.empty)))) \<and>
   (told ''r'' (AppErr (AppError Internal ''Service'' [] ''op'' ''password=x'' None Map.empty)) =
     told ''r'' (WrapErr ''ctx: '' (AppErr (AppError Internal ''Service'' [] ''op'' ''timeout'' None Map.empty))) \<longleftrightarrow>
    error_text (AppErr (AppError Internal ''Service'' [] ''op'' ''password=x'' None Map.empty)) =
     error_text (WrapErr ''ctx: '' (AppErr (AppError Internal ''Service'' [] ''op'' ''timeout'' None Map.empty))))"
  by (rule internal_errors_look_alike [of _ "AppError Internal ''Service'' [] ''op'' ''password=x'' None Map.empty" _
        "AppError Internal ''Service'' [] ''op'' ''timeout'' None Map.empty"]) simp

definition other_users_app :: "('d, 'z, 'g) Queries" where
  "other_users_app = unavailable
     \<lparr>qh_ListUsers := (\<lambda>f _. if ufServiceId f = [1] then down else returnH (owner_list 1))\<rparr>"

lemma service_fields_stay_below_service_witness:
  "\<forall>tt. Service_Owners tt (unavailable :: ('d, 'z, 'g) Queries) [] (service_item example_node) None None None =
       Service_Owners tt other_users_app [] (service_item example_node) None None None"
proof
  fix tt :: time_text
  let ?a = "unavailable :: ('d, 'z, 'g) Queries" and ?b = "other_users_app :: ('d, 'z, 'g) Queries"
  have "Service_Owners tt ?a [] (service_item example_node) None None None =
        Service_Owners tt ?b [] (service_item example_node) None None None \<and>
      Service_SupportGroups tt ?a [] (service_item example_node) None None None [] =
        Service_SupportGroups tt ?b [] (service_item example_node) None None None [] \<and>
      Service_IssueRepositories tt ?a [] (svNode (service_item example_node)) None None None =
        Service_IssueRepositories tt ?b [] (svNode (service_item example_node)) None None None \<and>
      Service_ComponentInstances tt ?a [] (svNode (service_item example_node)) None None None [] =
        Service_ComponentInstances tt ?b [] (svNode (service_item example_node)) None None None [] \<and>
      Service_IssueMatches tt (\<lambda>_. ()) ?a [] (svNode (service_item example_node)) None None None [] =
        Service_IssueMatches tt (\<lambda>_. ()) ?b [] (svNode (service_item example_node)) None None None [] \<and>
      Service_Remediations tt ?a [] (svNode (service_item example_node)) None None None [] =
        Service_Remediations tt ?b [] (svNode (service_item example_node)) None None None [] \<and>
      Service_IssueCounts ?a (service_item example_node) None =
        Service_IssueCounts ?b (service_item example_node) None"
    by (rule service_fields_stay_below_service [where i = 1])
       (simp_all add: other_users_app_def unavailable_def service_item_def example_node_def)
  then show "Service_Owners tt ?a [] (service_item example_node) None None None =
      Service_Owners tt ?b [] (service_item example_node) None None None" by (rule conjunct1)
qed

end
