(* ===== verification/Batch_Queries.thy ===== *)
theory Batch_Queries
  imports Graphql_Fields
begin

text \<open>
  The statements of the database that are not built by the generic object
  (\<open>internal/database/mariadb\<close>): the counts of severities from the tables that are refreshed in the background
  (\<open>mv_vulnerabilities.go\<close>) and the batch queries of services, images and vulnerabilities
  (\<open>service_batch.go\<close>, \<open>image_batch.go\<close>, \<open>vulnerability_batch.go\<close>). The server, the scanning of a row and the
  library that turns the parts of a SELECT into its text are parameters. What is shown: how rows become the maps of
  the batches, and which filters ask a table of counts for a column it does not have.
\<close>

section \<open>The server\<close>

text \<open>The parts of a SELECT given to the query builder.\<close>

datatype sq_where = SqEq string "sqlval list" | SqText string

record sq_select =
  sqColumns :: "string list"
  sqFrom :: string
  sqJoins :: "string list"
  sqWheres :: "sq_where list"
  sqGroupBy :: "string list"
  sqOrderBy :: "string list"

text \<open>
  A statement is refused when it is prepared or executed; otherwise its rows arrive one after the other, each scanned
  or not, and the iteration may end with an error.
\<close>

record sql_server =
  sv_ToSql :: "sq_select \<Rightarrow> goerr + (string \<times> sqlval list)"
  sv_Preparex :: "string \<Rightarrow> goerr option"
  sv_Queryx :: "string \<Rightarrow> sqlval list \<Rightarrow> goerr + ((goerr + row) list \<times> goerr option)"

fun scan_rows :: "(goerr \<Rightarrow> goerr) \<Rightarrow> (row \<Rightarrow> 'm \<Rightarrow> 'm) \<Rightarrow> (goerr + row) list \<Rightarrow> 'm \<Rightarrow> goerr + 'm" where
  "scan_rows on_scan step [] m = Inr m"
| "scan_rows on_scan step (Inl e # rs) m = Inl (on_scan e)"
| "scan_rows on_scan step (Inr r # rs) m = scan_rows on_scan step rs (step r m)"

definition read_result ::
  "(goerr \<Rightarrow> goerr) \<Rightarrow> (goerr \<Rightarrow> goerr) \<Rightarrow> (goerr \<Rightarrow> goerr) \<Rightarrow> (row \<Rightarrow> 'm \<Rightarrow> 'm) \<Rightarrow> 'm
   \<Rightarrow> goerr + ((goerr + row) list \<times> goerr option) \<Rightarrow> goerr + 'm" where
  "read_result on_query on_scan on_rows step m res =
     (case res of
        Inl e \<Rightarrow> Inl (on_query e)
      | Inr (rs, err) \<Rightarrow>
          (case scan_rows on_scan step rs m of
             Inl e \<Rightarrow> Inl e
           | Inr m' \<Rightarrow> (case err of None \<Rightarrow> Inr m' | Some e \<Rightarrow> Inl (on_rows e))))"

definition sql_error :: "string \<Rightarrow> goerr" where
  "sql_error msg = ErrVal ''fmt'' msg"

definition performListScan :: "sql_server \<Rightarrow> string \<Rightarrow> sqlval list \<Rightarrow> (row \<Rightarrow> 'e) \<Rightarrow> goerr + 'e list" where
  "performListScan srv stmt params entry =
     read_result (\<lambda>_. sql_error ''Error while performing Query from prepared Statement'')
       (\<lambda>_. sql_error ''Error while scanning struct'')
       (\<lambda>_. sql_error ''Error while iterating over result rows'')
       (\<lambda>r l. l @ [entry r]) [] (sv_Queryx srv stmt params)"

text \<open>A line of a statement, behind a line break and some tabs.\<close>

definition sql_line :: "nat \<Rightarrow> string \<Rightarrow> string" where
  "sql_line n s = CHR 0x0A # replicate n (CHR 0x09) @ s"

section \<open>Counts of severities\<close>

definition getCountTable :: "IssueFilter \<Rightarrow> string" where
  "getCountTable f =
     (if ifAllServices f \<and> ifUnique f then ''mvCountIssueRatingsUniqueService''
      else if ifAllServices f
      then if ifSupportGroupCCRN f \<noteq> [] then ''mvCountIssueRatingsService''
           else ''mvCountIssueRatingsServiceWithoutSupportGroup''
      else if ifSupportGroupCCRN f \<noteq> [] \<and> ifServiceCCRN f = [] \<and> ifServiceId f = []
      then ''mvCountIssueRatingsSupportGroup''
      else if ifComponentVersionId f \<noteq> [] then ''mvCountIssueRatingsComponentVersion''
      else if ifServiceCCRN f \<noteq> [] \<or> ifServiceId f \<noteq> [] then ''mvCountIssueRatingsServiceId''
      else ''mvCountIssueRatingsOther'')"

text \<open>The columns of the tables of counts that tell rows apart (\<open>migrations/20260311144708_init.up.sql\<close>).\<close>

definition count_table_columns :: "string \<Rightarrow> string list" where
  "count_table_columns t =
     (if t = ''mvCountIssueRatingsService'' \<or> t = ''mvCountIssueRatingsSupportGroup'' then [''supportgroup_ccrn'']
      else if t = ''mvCountIssueRatingsComponentVersion'' then [''component_version_id'', ''service_id'', ''service_ccrn'']
      else if t = ''mvCountIssueRatingsServiceId'' then [''service_id'', ''service_ccrn'']
      else if t \<in> set [''mvCountIssueRatingsUniqueService'', ''mvCountIssueRatingsServiceWithoutSupportGroup'',
        ''mvCountIssueRatingsOther''] then [''id'']
      else [])"

text \<open>The columns a filter is compared with, and the values.\<close>

definition count_conditions :: "IssueFilter \<Rightarrow> (string \<times> sqlval list) list" where
  "count_conditions f =
     (if ifServiceId f \<noteq> [] then [(''service_id'', map IntV (ifServiceId f))] else [])
     @ (if ifServiceCCRN f \<noteq> [] then [(''service_ccrn'', map StrV (ifServiceCCRN f))] else [])
     @ (if ifComponentVersionId f \<noteq> [] then [(''component_version_id'', map IntV (ifComponentVersionId f))] else [])
     @ (if ifSupportGroupCCRN f \<noteq> [] \<and> ifServiceId f = [] \<and> ifServiceCCRN f = []
        then [(''supportgroup_ccrn'', map StrV (ifSupportGroupCCRN f))] else [])"

definition count_text :: "string \<Rightarrow> (string \<times> sqlval list) list \<Rightarrow> string" where
  "count_text table conds =
     (let query = sql_line 2 (''SELECT CIR.critical_count, CIR.high_count, CIR.medium_count, CIR.low_count, CIR.none_count FROM ''
            @ table @ '' AS CIR'') @ sql_line 1 [];
          filterStr = combineFilterQueries (map (\<lambda>(c, vs). buildFilterQuery vs (''CIR.'' @ c @ '' = ?'') OP_OR) conds) OP_AND
      in if filterStr \<noteq> [] then query @ '' WHERE '' @ filterStr else query)"

definition count_parameters :: "(string \<times> sqlval list) list \<Rightarrow> sqlval list" where
  "count_parameters conds = fold (\<lambda>(c, vs) ps. buildQueryParameters ps vs) conds []"

definition add_counts :: "IssueSeverityCounts \<Rightarrow> IssueSeverityCounts \<Rightarrow> IssueSeverityCounts" where
  "add_counts c t =
     \<lparr>iscCritical = iscCritical t + iscCritical c, iscHigh = iscHigh t + iscHigh c, iscMedium = iscMedium t + iscMedium c,
      iscLow = iscLow t + iscLow c, iscNone = iscNone t + iscNone c, iscTotal = iscTotal t + iscTotal c\<rparr>"

text \<open>The page that the filter gets by default is not read.\<close>

definition CountIssueRatings :: "sql_server \<Rightarrow> IssueFilter \<Rightarrow> goerr + IssueSeverityCounts" where
  "CountIssueRatings srv f =
     (let conds = count_conditions f; query = count_text (getCountTable f) conds
      in case sv_Preparex srv query of
           Some e \<Rightarrow> Inl (sql_error ''Error while creating prepared statement.'')
         | None \<Rightarrow>
             (case performListScan srv query (count_parameters conds) (\<lambda>r. AsIssueSeverityCounts (scan_RatingCount r)) of
                Inl e \<Rightarrow> Inl e
              | Inr counts \<Rightarrow> Inr (fold add_counts counts no_counts)))"

section \<open>Maps of rows by id\<close>

definition set_at :: "id64 \<Rightarrow> 'v \<Rightarrow> (id64 \<times> 'v) list \<Rightarrow> (id64 \<times> 'v) list" where
  "set_at k v m = AList.update k v m"

definition append_at :: "id64 \<Rightarrow> 'v \<Rightarrow> (id64 \<times> 'v list) list \<Rightarrow> (id64 \<times> 'v list) list" where
  "append_at k v m = set_at k (at_id [] m k @ [v]) m"

text \<open>A row without id is left out, or collected under the value that stands for NULL.\<close>

definition if_valid :: "int option \<Rightarrow> (int \<Rightarrow> 'm \<Rightarrow> 'm) \<Rightarrow> 'm \<Rightarrow> 'm" where
  "if_valid i f m = (case i of None \<Rightarrow> m | Some n \<Rightarrow> f n m)"

section \<open>Batch queries of services\<close>

text \<open>A statement with one placeholder for each id; none is sent without ids.\<close>

definition prepared_batch ::
  "sql_server \<Rightarrow> string \<Rightarrow> (string \<Rightarrow> string) \<Rightarrow> (row \<Rightarrow> (id64 \<times> 'v) list \<Rightarrow> (id64 \<times> 'v) list) \<Rightarrow> id64 list
   \<Rightarrow> goerr + (id64 \<times> 'v) list" where
  "prepared_batch srv nm text_of step serviceIDs =
     (if serviceIDs = [] then Inr []
      else
        let placeholders = map (\<lambda>_. ''?'') serviceIDs; query = text_of (strings_Join placeholders '','')
        in case sv_Preparex srv query of
             Some e \<Rightarrow> Inl (WrapErr (nm @ '': error preparing statement: '') e)
           | None \<Rightarrow>
               read_result (WrapErr (nm @ '': error executing query: '')) (WrapErr (nm @ '': error scanning row: ''))
                 (WrapErr (nm @ '': row iteration error: '')) step [] (sv_Queryx srv query (map IntV serviceIDs)))"

definition owners_text :: "string \<Rightarrow> string" where
  "owners_text placeholders =
     sql_line 2 ''SELECT U.user_id, U.user_name, U.user_unique_user_id, U.user_type, U.user_email,''
     @ sql_line 2 ''       U.user_created_at, U.user_created_by, U.user_deleted_at, U.user_updated_at, U.user_updated_by,''
     @ sql_line 2 ''       O.owner_service_id''
     @ sql_line 2 ''FROM Owner O''
     @ sql_line 2 ''JOIN User U ON O.owner_user_id = U.user_id''
     @ sql_line 2 (''WHERE O.owner_service_id IN ('' @ placeholders @ '')'')
     @ sql_line 2 ''  AND O.owner_deleted_at IS NULL''
     @ sql_line 2 ''  AND U.user_deleted_at IS NULL''
     @ sql_line 2 ''ORDER BY O.owner_service_id, U.user_id''
     @ sql_line 1 []"

text \<open>The row of an owner has the fields of a user, and the id of the service.\<close>

definition owner_of_row :: "row \<Rightarrow> User" where
  "owner_of_row r = AsUser (scan_UserRow r)"

definition SqlGetOwnersByServiceIDs :: "sql_server \<Rightarrow> id64 list \<Rightarrow> goerr + (id64 \<times> User list) list" where
  "SqlGetOwnersByServiceIDs srv =
     prepared_batch srv ''GetOwnersByServiceIDs'' owners_text
       (\<lambda>r. append_at (GetInt64Value (col_int r ''owner_service_id'')) (owner_of_row r))"

definition service_groups_text :: "string \<Rightarrow> string" where
  "service_groups_text placeholders =
     sql_line 2 ''SELECT SG.supportgroup_id, SG.supportgroup_ccrn,''
     @ sql_line 2 ''       SG.supportgroup_created_at, SG.supportgroup_created_by,''
     @ sql_line 2 ''       SG.supportgroup_deleted_at, SG.supportgroup_updated_at, SG.supportgroup_updated_by,''
     @ sql_line 2 ''       SGS.supportgroupservice_service_id''
     @ sql_line 2 ''FROM SupportGroupService SGS''
     @ sql_line 2 ''JOIN SupportGroup SG ON SGS.supportgroupservice_support_group_id = SG.supportgroup_id''
     @ sql_line 2 (''WHERE SGS.supportgroupservice_service_id IN ('' @ placeholders @ '')'')
     @ sql_line 2 ''  AND SGS.supportgroupservice_deleted_at IS NULL''
     @ sql_line 2 ''  AND SG.supportgroup_deleted_at IS NULL''
     @ sql_line 2 ''ORDER BY SGS.supportgroupservice_service_id, SG.supportgroup_id''
     @ sql_line 1 []"

definition group_of_row :: "row \<Rightarrow> SupportGroup" where
  "group_of_row r = AsSupportGroup (scan_SupportGroupRow r)"

definition SqlGetSupportGroupsByServiceIDs :: "sql_server \<Rightarrow> id64 list \<Rightarrow> goerr + (id64 \<times> SupportGroup list) list" where
  "SqlGetSupportGroupsByServiceIDs srv =
     prepared_batch srv ''GetSupportGroupsByServiceIDs'' service_groups_text
       (\<lambda>r. append_at (GetInt64Value (col_int r ''supportgroupservice_service_id'')) (group_of_row r))"

definition service_counts_text :: "string \<Rightarrow> string" where
  "service_counts_text placeholders =
     sql_line 2 ''SELECT service_id, critical_count, high_count, medium_count, low_count, none_count''
     @ sql_line 2 ''FROM mvServiceIssueCounts''
     @ sql_line 2 (''WHERE service_id IN ('' @ placeholders @ '')'')
     @ sql_line 1 []"

text \<open>The five counts of a row are those of \<open>RatingCount\<close>; the id is no nullable value, a row with NULL is not scanned.\<close>

definition counts_of_row :: "row \<Rightarrow> IssueSeverityCounts" where
  "counts_of_row r = AsIssueSeverityCounts (scan_RatingCount r)"

definition plain_int :: "row \<Rightarrow> string \<Rightarrow> int" where
  "plain_int r c = (case col_int r c of None \<Rightarrow> 0 | Some n \<Rightarrow> n)"

definition SqlGetIssueCountsByServiceIDs :: "sql_server \<Rightarrow> id64 list \<Rightarrow> goerr + (id64 \<times> IssueSeverityCounts) list" where
  "SqlGetIssueCountsByServiceIDs srv =
     prepared_batch srv ''GetIssueCountsByServiceIDs'' service_counts_text
       (\<lambda>r. set_at (plain_int r ''service_id'') (counts_of_row r))"

section \<open>Batch queries of images\<close>

text \<open>A statement of the query builder; the texts of the errors differ from file to file.\<close>

record batch_errors =
  beBuild :: string
  beQuery :: string
  beScan :: string
  beRows :: string

definition built_batch ::
  "sql_server \<Rightarrow> batch_errors \<Rightarrow> (id64 list \<Rightarrow> sq_select) \<Rightarrow> (row \<Rightarrow> (id64 \<times> 'v) list \<Rightarrow> (id64 \<times> 'v) list) \<Rightarrow> id64 list
   \<Rightarrow> goerr + (id64 \<times> 'v) list" where
  "built_batch srv errs select step keys =
     (if keys = [] then Inr []
      else case sv_ToSql srv (select keys) of
             Inl e \<Rightarrow> Inl (WrapErr (beBuild errs) e)
           | Inr (sqlStr, params) \<Rightarrow>
               read_result (WrapErr (beQuery errs)) (WrapErr (beScan errs)) (WrapErr (beRows errs)) step [] (sv_Queryx srv sqlStr params))"

definition image_errors :: "string \<Rightarrow> batch_errors" where
  "image_errors nm =
     \<lparr>beBuild = nm @ '': failed to build query: '', beQuery = nm @ '': error executing query: '',
      beScan = nm @ '': error scanning row: '', beRows = nm @ '': row iteration error: ''\<rparr>"

definition in_ids :: "string \<Rightarrow> id64 list \<Rightarrow> sq_where" where
  "in_ids c keys = SqEq c (map IntV keys)"

text \<open>The joins and conditions that a list of CCRNs adds, when one of them is not nil.\<close>

definition for_ccrns :: "string list \<Rightarrow> string list \<Rightarrow> string option list \<Rightarrow> sq_select \<Rightarrow> sq_select" where
  "for_ccrns joins conds serviceCCRN q =
     (let nonNilCCRNs = List.map_filter id serviceCCRN
      in if nonNilCCRNs = [] then q
         else q\<lparr>sqJoins := sqJoins q @ joins,
                sqWheres := sqWheres q @ SqEq ''S.service_ccrn'' (map StrV nonNilCCRNs) # map SqText conds\<rparr>)"

definition versions_select :: "string option list \<Rightarrow> id64 list \<Rightarrow> sq_select" where
  "versions_select serviceCCRN componentIDs =
     (for_ccrns
        [''ComponentInstance CI ON CV.componentversion_id = CI.componentinstance_component_version_id'',
         ''Service S ON CI.componentinstance_service_id = S.service_id'']
        [''CI.componentinstance_deleted_at IS NULL'', ''S.service_deleted_at IS NULL''] serviceCCRN
        \<lparr>sqColumns =
           [''CV.componentversion_id'', ''CV.componentversion_component_id'', ''CV.componentversion_version'',
            ''CV.componentversion_tag'', ''CV.componentversion_repository'', ''CV.componentversion_organization'',
            ''CV.componentversion_created_at'', ''CV.componentversion_created_by'', ''CV.componentversion_deleted_at'',
            ''CV.componentversion_updated_at'', ''CV.componentversion_updated_by'', ''CV.componentversion_end_of_life''],
         sqFrom = ''ComponentVersion CV'', sqJoins = [],
         sqWheres = [in_ids ''CV.componentversion_component_id'' componentIDs, SqText ''CV.componentversion_deleted_at IS NULL''],
         sqGroupBy = [], sqOrderBy = []\<rparr>)
      \<lparr>sqGroupBy := [''CV.componentversion_id''],
       sqOrderBy := [''CV.componentversion_component_id'', ''CV.componentversion_version DESC'']\<rparr>"

text \<open>Unlike the row of a list, the row of a batch keeps an end of life that is NULL as nil.\<close>

definition version_of_row :: "row \<Rightarrow> ComponentVersion" where
  "version_of_row r =
     \<lparr>cvMeta = \<lparr>CreatedAt = GetTimeValue (col_time r ''componentversion_created_at''),
        CreatedBy = GetInt64Value (col_int r ''componentversion_created_by''),
        UpdatedAt = GetTimeValue (col_time r ''componentversion_updated_at''),
        UpdatedBy = GetInt64Value (col_int r ''componentversion_updated_by''),
        DeletedAt = GetTimeValue (col_time r ''componentversion_deleted_at'')\<rparr>,
      cvId = GetInt64Value (col_int r ''componentversion_id''),
      cvVersion = GetStringValue (col_str r ''componentversion_version''),
      cvComponentId = GetInt64Value (col_int r ''componentversion_component_id''),
      cvTag = GetStringValue (col_str r ''componentversion_tag''),
      cvRepository = GetStringValue (col_str r ''componentversion_repository''),
      cvOrganization = GetStringValue (col_str r ''componentversion_organization''),
      cvEndOfLife = col_bool r ''componentversion_end_of_life''\<rparr>"

definition SqlGetVersionsByComponentIDs ::
  "sql_server \<Rightarrow> id64 list \<Rightarrow> string option list \<Rightarrow> goerr + (id64 \<times> ComponentVersion list) list" where
  "SqlGetVersionsByComponentIDs srv componentIDs serviceCCRN =
     built_batch srv (image_errors ''GetVersionsByComponentIDs'') (versions_select serviceCCRN)
       (\<lambda>r. append_at (GetInt64Value (col_int r ''componentversion_component_id'')) (version_of_row r)) componentIDs"

definition component_counts_select :: "string option list \<Rightarrow> id64 list \<Rightarrow> sq_select" where
  "component_counts_select serviceCCRN componentIDs =
     (for_ccrns [''Service S ON CVR.service_id = S.service_id''] [] serviceCCRN
        \<lparr>sqColumns =
           [''CVR.component_id'', ''SUM(CVR.critical_count) as critical_count'', ''SUM(CVR.high_count) as high_count'',
            ''SUM(CVR.medium_count) as medium_count'', ''SUM(CVR.low_count) as low_count'', ''SUM(CVR.none_count) as none_count''],
         sqFrom = ''mvSingleComponentByServiceVulnerabilityCounts CVR'', sqJoins = [],
         sqWheres = [in_ids ''CVR.component_id'' componentIDs], sqGroupBy = [], sqOrderBy = []\<rparr>)
      \<lparr>sqGroupBy := [''CVR.component_id'']\<rparr>"

definition SqlGetIssueCountsByComponentIDs ::
  "sql_server \<Rightarrow> id64 list \<Rightarrow> string option list \<Rightarrow> goerr + (id64 \<times> IssueSeverityCounts) list" where
  "SqlGetIssueCountsByComponentIDs srv componentIDs serviceCCRN =
     built_batch srv (image_errors ''GetIssueCountsByComponentIDs'') (component_counts_select serviceCCRN)
       (\<lambda>r. set_at (plain_int r ''component_id'') (counts_of_row r)) componentIDs"

definition sql_quoted :: "string \<Rightarrow> string" where
  "sql_quoted s = CHR 0x27 # s @ [CHR 0x27]"

definition vulnerabilities_select :: "id64 list \<Rightarrow> sq_select" where
  "vulnerabilities_select componentIDs =
     \<lparr>sqColumns =
        [''CV.componentversion_component_id'', ''I.issue_id'', ''I.issue_primary_name'', ''I.issue_description'',
         ''MVL.max_severity'', ''MVL.earliest_remediation_date'', ''MVL.source_url''],
      sqFrom = ''ComponentVersionIssue CVI'',
      sqJoins =
        [''ComponentVersion CV ON CVI.componentversionissue_component_version_id = CV.componentversion_id'',
         ''Issue I ON CVI.componentversionissue_issue_id = I.issue_id'',
         ''mvVulnerabilityList MVL ON I.issue_id = MVL.issue_id''],
      sqWheres =
        [in_ids ''CV.componentversion_component_id'' componentIDs, SqText ''CVI.componentversionissue_deleted_at IS NULL'',
         SqText ''CV.componentversion_deleted_at IS NULL'', SqText ''I.issue_deleted_at IS NULL''],
      sqGroupBy = [''CV.componentversion_component_id'', ''I.issue_id''],
      sqOrderBy =
        [''CV.componentversion_component_id'',
         ''FIELD(MVL.max_severity, '' @ strings_Join (map sql_quoted [''Critical'', ''High'', ''Medium'', ''Low'', ''None'']) '',''
           @ '') ASC'',
         ''I.issue_primary_name ASC'']\<rparr>"

definition vulnerability_of_row :: "id64 \<Rightarrow> row \<Rightarrow> VulnerabilityResult" where
  "vulnerability_of_row issueID r =
     \<lparr>vrIssueID = issueID, vrPrimaryName = GetStringValue (col_str r ''issue_primary_name''),
      vrDescription = GetStringValue (col_str r ''issue_description''),
      vrMaxSeverity = GetStringValue (col_str r ''max_severity''),
      vrEarliestRemediationDate = col_time r ''earliest_remediation_date'',
      vrSourceURL = raw_string (col_str r ''source_url'')\<rparr>"

definition SqlGetVulnerabilitiesByComponentIDs ::
  "sql_server \<Rightarrow> id64 list \<Rightarrow> goerr + (id64 \<times> VulnerabilityResult list) list" where
  "SqlGetVulnerabilitiesByComponentIDs srv =
     built_batch srv (image_errors ''GetVulnerabilitiesByComponentIDs'') vulnerabilities_select
       (\<lambda>r. if_valid (col_int r ''componentversion_component_id'') (\<lambda>componentID.
            if_valid (col_int r ''issue_id'') (\<lambda>issueID. append_at componentID (vulnerability_of_row issueID r))))"

definition vulnerability_counts_select :: "id64 list \<Rightarrow> sq_select" where
  "vulnerability_counts_select componentIDs =
     \<lparr>sqColumns = [''CV.componentversion_component_id'', ''COUNT(DISTINCT CVI.componentversionissue_issue_id) as vuln_count''],
      sqFrom = ''ComponentVersionIssue CVI'',
      sqJoins =
        [''ComponentVersion CV ON CVI.componentversionissue_component_version_id = CV.componentversion_id'',
         ''mvVulnerabilityList MVL ON CVI.componentversionissue_issue_id = MVL.issue_id''],
      sqWheres =
        [in_ids ''CV.componentversion_component_id'' componentIDs, SqText ''CVI.componentversionissue_deleted_at IS NULL'',
         SqText ''CV.componentversion_deleted_at IS NULL''],
      sqGroupBy = [''CV.componentversion_component_id''], sqOrderBy = []\<rparr>"

definition SqlGetVulnerabilityCountsByComponentIDs :: "sql_server \<Rightarrow> id64 list \<Rightarrow> goerr + (id64 \<times> int) list" where
  "SqlGetVulnerabilityCountsByComponentIDs srv =
     built_batch srv (image_errors ''GetVulnerabilityCountsByComponentIDs'') vulnerability_counts_select
       (\<lambda>r. if_valid (col_int r ''componentversion_component_id'')
            (\<lambda>componentID. set_at componentID (GetInt64Value (col_int r ''vuln_count''))))"

section \<open>Batch queries of vulnerabilities\<close>

definition plain_errors :: batch_errors where
  "plain_errors =
     \<lparr>beBuild = ''failed to build query: '', beQuery = ''failed to execute query: '', beScan = ''failed to scan row: '',
      beRows = ''error iterating rows: ''\<rparr>"

text \<open>A select from the matches of issues, one row for each issue.\<close>

definition of_matches :: "string \<Rightarrow> id64 list \<Rightarrow> sq_select" where
  "of_matches column issueIDs =
     \<lparr>sqColumns = [''IM.issuematch_issue_id'', column], sqFrom = ''IssueMatch IM'', sqJoins = [],
      sqWheres = [in_ids ''IM.issuematch_issue_id'' issueIDs, SqText ''IM.issuematch_deleted_at IS NULL''],
      sqGroupBy = [''IM.issuematch_issue_id''], sqOrderBy = []\<rparr>"

text \<open>An issue gets a value when neither its id nor the value is NULL.\<close>

definition valid_value ::
  "string \<Rightarrow> (row \<Rightarrow> 'v option) \<Rightarrow> row \<Rightarrow> (id64 \<times> 'v) list \<Rightarrow> (id64 \<times> 'v) list" where
  "valid_value key v r = if_valid (col_int r key) (\<lambda>issueID m. case v r of None \<Rightarrow> m | Some x \<Rightarrow> set_at issueID x m)"

definition SqlGetMaxSeverityByIssueIDs :: "sql_server \<Rightarrow> id64 list \<Rightarrow> goerr + (id64 \<times> string) list" where
  "SqlGetMaxSeverityByIssueIDs srv =
     built_batch srv plain_errors (of_matches ''MAX(IM.issuematch_rating) as max_severity'')
       (valid_value ''issuematch_issue_id'' (\<lambda>r. col_str r ''max_severity''))"

definition SqlGetEarliestRemediationByIssueIDs :: "sql_server \<Rightarrow> id64 list \<Rightarrow> goerr + (id64 \<times> gotime) list" where
  "SqlGetEarliestRemediationByIssueIDs srv =
     built_batch srv plain_errors (of_matches ''MIN(IM.issuematch_target_remediation_date) as earliest_date'')
       (valid_value ''issuematch_issue_id'' (\<lambda>r. col_time r ''earliest_date''))"

definition source_urls_select :: "id64 list \<Rightarrow> sq_select" where
  "source_urls_select issueIDs =
     \<lparr>sqColumns = [''IV.issuevariant_issue_id'', ''MIN(IV.issuevariant_external_url) as source_url''],
      sqFrom = ''IssueVariant IV'', sqJoins = [],
      sqWheres = [in_ids ''IV.issuevariant_issue_id'' issueIDs, SqText ''IV.issuevariant_deleted_at IS NULL'',
        SqText (''IV.issuevariant_external_url != '' @ sql_quoted [])],
      sqGroupBy = [''IV.issuevariant_issue_id''], sqOrderBy = []\<rparr>"

definition SqlGetSourceURLsByIssueIDs :: "sql_server \<Rightarrow> id64 list \<Rightarrow> goerr + (id64 \<times> string) list" where
  "SqlGetSourceURLsByIssueIDs srv =
     built_batch srv plain_errors source_urls_select (valid_value ''issuevariant_issue_id'' (\<lambda>r. col_str r ''source_url''))"

text \<open>The way from the matches of an issue to the services they lie in.\<close>

definition service_joins :: "string list" where
  "service_joins =
     [''ComponentInstance CI ON IM.issuematch_component_instance_id = CI.componentinstance_id'',
      ''Service S ON CI.componentinstance_service_id = S.service_id'']"

definition service_wheres :: "id64 list \<Rightarrow> sq_where list" where
  "service_wheres issueIDs =
     [in_ids ''IM.issuematch_issue_id'' issueIDs, SqText ''IM.issuematch_deleted_at IS NULL'',
      SqText ''CI.componentinstance_deleted_at IS NULL'', SqText ''S.service_deleted_at IS NULL'']"

definition issue_services_select :: "id64 list \<Rightarrow> sq_select" where
  "issue_services_select issueIDs =
     \<lparr>sqColumns =
        [''IM.issuematch_issue_id'', ''S.service_id'', ''S.service_ccrn'', ''S.service_domain'', ''S.service_region'',
         ''S.service_created_at'', ''S.service_created_by'', ''S.service_deleted_at'', ''S.service_updated_at'', ''S.service_updated_by''],
      sqFrom = ''IssueMatch IM'', sqJoins = service_joins, sqWheres = service_wheres issueIDs,
      sqGroupBy = [''IM.issuematch_issue_id'', ''S.service_id''], sqOrderBy = [''S.service_ccrn ASC'']\<rparr>"

definition service_of_row :: "row \<Rightarrow> Service" where
  "service_of_row r = AsBaseService (scan_BaseServiceRow r)"

definition SqlGetServicesByIssueIDs :: "sql_server \<Rightarrow> id64 list \<Rightarrow> goerr + (id64 \<times> Service list) list" where
  "SqlGetServicesByIssueIDs srv =
     built_batch srv plain_errors issue_services_select
       (\<lambda>r. if_valid (col_int r ''issuematch_issue_id'') (\<lambda>issueID. append_at issueID (service_of_row r)))"

definition issue_groups_select :: "id64 list \<Rightarrow> sq_select" where
  "issue_groups_select issueIDs =
     \<lparr>sqColumns =
        [''IM.issuematch_issue_id'', ''SG.supportgroup_id'', ''SG.supportgroup_ccrn'', ''SG.supportgroup_created_at'',
         ''SG.supportgroup_created_by'', ''SG.supportgroup_deleted_at'', ''SG.supportgroup_updated_at'', ''SG.supportgroup_updated_by''],
      sqFrom = ''IssueMatch IM'',
      sqJoins = service_joins @
        [''SupportGroupService SGS ON S.service_id = SGS.supportgroupservice_service_id'',
         ''SupportGroup SG ON SGS.supportgroupservice_support_group_id = SG.supportgroup_id''],
      sqWheres = service_wheres issueIDs @
        [SqText ''SGS.supportgroupservice_deleted_at IS NULL'', SqText ''SG.supportgroup_deleted_at IS NULL''],
      sqGroupBy = [''IM.issuematch_issue_id'', ''SG.supportgroup_id''], sqOrderBy = [''SG.supportgroup_ccrn ASC'']\<rparr>"

definition SqlGetSupportGroupsByIssueIDs :: "sql_server \<Rightarrow> id64 list \<Rightarrow> goerr + (id64 \<times> SupportGroup list) list" where
  "SqlGetSupportGroupsByIssueIDs srv =
     built_batch srv plain_errors issue_groups_select
       (\<lambda>r. if_valid (col_int r ''issuematch_issue_id'') (\<lambda>issueID. append_at issueID (group_of_row r)))"

definition aggregates_select :: "id64 list \<Rightarrow> sq_select" where
  "aggregates_select issueIDs =
     \<lparr>sqColumns = [''MVL.issue_id'', ''MVL.max_severity'', ''MVL.earliest_remediation_date'', ''MVL.source_url''],
      sqFrom = ''mvVulnerabilityList MVL'', sqJoins = [], sqWheres = [in_ids ''MVL.issue_id'' issueIDs],
      sqGroupBy = [], sqOrderBy = []\<rparr>"

definition aggregate_of_row :: "row \<Rightarrow> VulnerabilityAggregate" where
  "aggregate_of_row r =
     \<lparr>vaMaxSeverity = raw_string (col_str r ''max_severity''),
      vaEarliestRemediationDate = col_time r ''earliest_remediation_date'', vaSourceURL = raw_string (col_str r ''source_url'')\<rparr>"

definition aggregate_errors :: batch_errors where
  "aggregate_errors =
     (let nm = ''GetVulnerabilityAggregatesByIssueIDs''
      in \<lparr>beBuild = nm @ '': failed to build query: '', beQuery = nm @ '': error executing query: '',
          beScan = nm @ '': error scanning row: '', beRows = nm @ '': error iterating rows: ''\<rparr>)"

definition SqlGetVulnerabilityAggregatesByIssueIDs :: "sql_server \<Rightarrow> id64 list \<Rightarrow> goerr + (id64 \<times> VulnerabilityAggregate) list" where
  "SqlGetVulnerabilityAggregatesByIssueIDs srv =
     built_batch srv aggregate_errors aggregates_select (\<lambda>r. set_at (plain_int r ''issue_id'') (aggregate_of_row r))"

section \<open>Rows as maps\<close>

lemma at_set [simp]: "at_id z (set_at k v m) i = (if i = k then v else at_id z m i)"
  by (simp add: at_id_def set_at_def update_conv')

lemma at_append [simp]: "at_id [] (append_at k v m) i = (if i = k then at_id [] m i @ [v] else at_id [] m i)"
  by (simp add: append_at_def)

lemma at_nil [simp]: "at_id z [] i = z"
  by (simp add: at_id_def)

lemma scan_rows_value:
  "scan_rows w step rs m = Inr m' \<longleftrightarrow> (\<exists>rows. rs = map Inr rows \<and> m' = fold step rows m)"
proof (induction w step rs m rule: scan_rows.induct)
  case (3 w step r rs m)
  then show ?case by (auto simp: Cons_eq_map_conv)
qed auto

lemma scan_rows_all [simp]: "scan_rows w step (map Inr rows) m = Inr (fold step rows m)"
  by (simp add: scan_rows_value)

lemma read_result_value:
  "read_result w w' w'' step m res = Inr m' \<longleftrightarrow>
     (\<exists>rows. res = Inr (map Inr rows, None) \<and> m' = fold step rows m)"
  by (auto simp: read_result_def scan_rows_value split: sum.splits option.splits)

lemma fold_if_valid:
  "at_id [] (fold (\<lambda>r. if_valid (key r) (\<lambda>i. append_at i (val r))) rows m) j =
     at_id [] m j @ map val (filter (\<lambda>r. key r = Some j) rows)"
  by (induction rows arbitrary: m) (auto simp: if_valid_def split: option.split)

lemma valued: "GetInt64Value v = i \<and> v \<noteq> None \<longleftrightarrow> v = Some i"
  by (cases v) auto

lemma fold_append:
  "(\<And>r. r \<in> set rows \<Longrightarrow> key r \<noteq> None) \<Longrightarrow>
   at_id [] (fold (\<lambda>r. append_at (GetInt64Value (key r)) (val r)) rows m) j =
     at_id [] m j @ map val (filter (\<lambda>r. key r = Some j) rows)"
proof (induction rows arbitrary: m)
  case (Cons r rows)
  then obtain i where "key r = Some i" by fastforce
  with Cons show ?case by simp
qed simp

text \<open>
  What IN means: the rows of a statement with ids are those among \<open>R\<close>, the joined rows in the order of
  the statement, whose column has one of the ids.
\<close>

definition with_ids :: "string \<Rightarrow> id64 list \<Rightarrow> row list \<Rightarrow> row list" where
  "with_ids key xs R = filter (\<lambda>r. \<exists>i \<in> set xs. col_int r key = Some i) R"

definition answers_prepared :: "sql_server \<Rightarrow> (string \<Rightarrow> string) \<Rightarrow> string \<Rightarrow> row list \<Rightarrow> bool" where
  "answers_prepared srv text_of key R \<longleftrightarrow>
     (\<forall>xs. xs \<noteq> [] \<longrightarrow>
        (let query = text_of (strings_Join (map (\<lambda>_. ''?'') xs) '','')
         in sv_Preparex srv query = None \<and>
            sv_Queryx srv query (map IntV xs) = Inr (map Inr (with_ids key xs R), None)))"

definition answers_built :: "sql_server \<Rightarrow> (id64 list \<Rightarrow> sq_select) \<Rightarrow> string \<Rightarrow> row list \<Rightarrow> bool" where
  "answers_built srv select key R \<longleftrightarrow>
     (\<forall>xs. xs \<noteq> [] \<longrightarrow>
        (\<exists>query params. sv_ToSql srv (select xs) = Inr (query, params) \<and>
           sv_Queryx srv query params = Inr (map Inr (with_ids key xs R), None)))"

lemma filter_with_ids:
  "filter (\<lambda>r. col_int r key = Some j) (with_ids key xs R) =
     (if j \<in> set xs then filter (\<lambda>r. col_int r key = Some j) R else [])"
  by (auto simp: with_ids_def filter_empty_conv intro: filter_cong)

lemma with_ids_valid: "r \<in> set (with_ids key xs R) \<Longrightarrow> col_int r key \<noteq> None"
  by (auto simp: with_ids_def)

lemma prepared_batch_value:
  "answers_prepared srv text_of key R \<Longrightarrow>
   prepared_batch srv nm text_of step xs = Inr (fold step (if xs = [] then [] else with_ids key xs R) [])"
  by (simp add: prepared_batch_def answers_prepared_def read_result_value Let_def)

lemma built_batch_value:
  assumes "answers_built srv select key R"
  shows "built_batch srv errs select step xs = Inr (fold step (if xs = [] then [] else with_ids key xs R) [])"
proof (cases "xs = []")
  case False
  with assms obtain query params where "sv_ToSql srv (select xs) = Inr (query, params)"
    "sv_Queryx srv query params = Inr (map Inr (with_ids key xs R), None)"
    unfolding answers_built_def by blast
  with False show ?thesis by (simp add: built_batch_def read_result_value)
qed (simp add: built_batch_def)

text \<open>
  C11. One statement for many ids answers like one for each: the batch queries succeed, each asked id gets the entities
  of exactly its rows in the order of the statement, and no other id gets any.
\<close>

theorem batches_answer_for_each_id:
  assumes "answers_prepared srv owners_text ''owner_service_id'' R1"
    and "answers_built srv (versions_select ccrns) ''componentversion_component_id'' R2"
    and "answers_built srv issue_services_select ''issuematch_issue_id'' R3"
  shows "\<exists>owners versions services.
     SqlGetOwnersByServiceIDs srv xs = Inr owners \<and> SqlGetVersionsByComponentIDs srv xs ccrns = Inr versions \<and>
     SqlGetServicesByIssueIDs srv xs = Inr services \<and>
     (\<forall>i. at_id [] owners i =
            (if i \<in> set xs then map owner_of_row (filter (\<lambda>r. col_int r ''owner_service_id'' = Some i) R1) else [])) \<and>
     (\<forall>i. at_id [] versions i =
            (if i \<in> set xs then map version_of_row (filter (\<lambda>r. col_int r ''componentversion_component_id'' = Some i) R2) else [])) \<and>
     (\<forall>i. at_id [] services i =
            (if i \<in> set xs then map service_of_row (filter (\<lambda>r. col_int r ''issuematch_issue_id'' = Some i) R3) else []))"
  unfolding SqlGetOwnersByServiceIDs_def SqlGetVersionsByComponentIDs_def SqlGetServicesByIssueIDs_def
    prepared_batch_value [OF assms(1)] built_batch_value [OF assms(2)] built_batch_value [OF assms(3)]
  by (simp add: fold_append with_ids_valid fold_if_valid filter_with_ids)

section \<open>Columns of the counts\<close>

text \<open>
  The filters whose counts can be read: those that compare only columns of the table the counts are taken
  from. The counts over all services have no column for a service or a version, and the unique ones none for a support
  group; the counts of a support group have none for a version.
\<close>

theorem counts_columns_exist:
  "(\<forall>(c, vs) \<in> set (count_conditions f). c \<in> set (count_table_columns (getCountTable f))) \<longleftrightarrow>
   (if ifAllServices f
    then ifServiceId f = [] \<and> ifServiceCCRN f = [] \<and> ifComponentVersionId f = [] \<and>
      \<not> (ifUnique f \<and> ifSupportGroupCCRN f \<noteq> [])
    else ifSupportGroupCCRN f \<noteq> [] \<and> ifServiceId f = [] \<and> ifServiceCCRN f = [] \<longrightarrow> ifComponentVersionId f = [])"
  by (auto simp: count_conditions_def count_table_columns_def getCountTable_def)

text \<open>A server refuses to prepare a statement that names a column its table does not have.\<close>

definition refuses_unknown_columns :: "sql_server \<Rightarrow> bool" where
  "refuses_unknown_columns srv \<longleftrightarrow>
     (\<forall>f. (\<exists>(c, vs) \<in> set (count_conditions f). c \<notin> set (count_table_columns (getCountTable f))) \<longrightarrow>
        sv_Preparex srv (count_text (getCountTable f) (count_conditions f)) \<noteq> None)"

lemma service_of_all_refused:
  assumes "refuses_unknown_columns srv" and "ifAllServices f" and "ifServiceCCRN f \<noteq> []"
  shows "CountIssueRatings srv f = Inl (sql_error ''Error while creating prepared statement.'')"
proof -
  have "(''service_ccrn'', map StrV (ifServiceCCRN f)) \<in> set (count_conditions f)"
    using assms(3) by (simp add: count_conditions_def)
  moreover have "''service_ccrn'' \<notin> set (count_table_columns (getCountTable f))"
    using assms(2) by (simp add: count_table_columns_def getCountTable_def)
  ultimately have "sv_Preparex srv (count_text (getCountTable f) (count_conditions f)) \<noteq> None"
    using assms(1) unfolding refuses_unknown_columns_def by blast
  then show ?thesis by (auto simp: CountIssueRatings_def Let_def)
qed

definition fails :: "('d, 'z, 'g, 'a) handler \<Rightarrow> bool" where
  "fails m \<longleftrightarrow> (\<forall>s. \<exists>e t. m s = (Inl e, t))"

lemma fails_first:
  assumes "fails m"
  shows "fails (bindH m k)"
  unfolding fails_def
proof
  fix s
  from assms obtain e t where "m s = (Inl e, t)" unfolding fails_def by blast
  then show "\<exists>e t. bindH m k s = (Inl e, t)" by (simp add: bindH_def)
qed

lemma fails_next: "(\<And>x. fails (k x)) \<Longrightarrow> fails (bindH m k)"
  by (auto simp: fails_def bindH_def split: prod.splits sum.splits)

lemma fails_next_pair: "(\<And>x y. fails (k x y)) \<Longrightarrow> fails (bindH m (\<lambda>(x, y). k x y))"
  by (rule fails_next) (simp split: prod.split)

lemma fails_wrapped:
  assumes "fails m"
  shows "fails (wrapH w m)"
  unfolding fails_def
proof
  fix s
  from assms obtain e t where "m s = (Inl e, t)" unfolding fails_def by blast
  then show "\<exists>e t. wrapH w m s = (Inl e, t)" by (simp add: wrapH_def split: fault.split)
qed

lemma fails_below: "(\<And>f. fails (h f)) \<Longrightarrow> fails (with_parent err parent h)"
  by (auto simp: with_parent_def fails_next split: option.split)

lemmas fails_rules = fails_first fails_next fails_wrapped fails_below

lemma counts_of_all_fail:
  assumes "\<And>d. refuses_unknown_columns (srv d)" and "ae_cache env = None"
    and "isdb_ratings db = (\<lambda>d. CountIssueRatings (srv d))"
    and "qh_GetIssueSeverityCounts app = GetIssueSeverityCounts env db cd"
    and "qiAllServices q = Some True" and "qiServiceCcrn q \<noteq> []"
  shows "fails (IssueCountsBaseResolver app (Some q) parent)"
proof -
  have refused: "fails (qh_GetIssueSeverityCounts app f)" if "ifAllServices f" "ifServiceCCRN f \<noteq> []" for f
    unfolding assms(4) GetIssueSeverityCounts_def cached_disabled [OF assms(2)]
    by (intro fails_rules) (simp add: fails_def readH_def liftH_def assms(3) service_of_all_refused [OF assms(1) that])
  show ?thesis
    unfolding IssueCountsBaseResolver_def Let_def or_empty_def option.case
    by (intro fails_rules refused) (simp_all add: assms(5,6))
qed

text \<open>
  C9. Vulnerabilities of a service cannot be listed with their counts: a list with a filter on services fails
  whenever its counts are asked for, as they are taken over all services from a table without the column that the filter
  names. Without the counts the same list is answered.
\<close>

theorem service_filter_breaks_vulnerability_counts:
  assumes "\<And>d. refuses_unknown_columns (srv d)" and "ae_cache env = None"
    and "isdb_ratings db = (\<lambda>d. CountIssueRatings (srv d))"
    and "qh_GetIssueSeverityCounts app = GetIssueSeverityCounts env db cd"
    and "qxService f \<noteq> []"
  shows "(''counts'' \<in> set requested \<longrightarrow>
      (\<exists>e t. VulnerabilityBaseResolver tt app requested (Some f) first after parent s = (Inl e, t))) \<and>
    (qh_ListIssues app (vulnerability_filter f (paged first after) False (\<lambda>_. []))
        ((GetIssueListOptions [])\<lparr>loOrder := vulnerability_orders\<rparr>) s = (Inr (l, c), t) \<longrightarrow>
      (\<exists>r. VulnerabilityBaseResolver tt app [] (Some f) first after None s = (Inr r, t)))"
proof (intro conjI impI)
  assume "''counts'' \<in> set requested"
  moreover have "fails (IssueCountsBaseResolver app (Some (vulnerability_counts_filter f vs)) p)" for vs p
    by (rule counts_of_all_fail [where srv = srv, OF assms(1-4)])
      (simp_all add: vulnerability_counts_filter_def assms(5))
  ultimately have "fails (VulnerabilityBaseResolver tt app requested (Some f) first after parent)"
    unfolding VulnerabilityBaseResolver_def Let_def or_empty_def option.case asked_counts_def
    by simp
      (rule fails_below, rule fails_next_pair, rule fails_next, rule fails_first, rule fails_first, rule fails_wrapped, simp)
  then show "\<exists>e t. VulnerabilityBaseResolver tt app requested (Some f) first after parent s = (Inl e, t)"
    by (simp add: fails_def)
next
  assume l: "qh_ListIssues app (vulnerability_filter f (paged first after) False (\<lambda>_. []))
        ((GetIssueListOptions [])\<lparr>loOrder := vulnerability_orders\<rparr>) s = (Inr (l, c), t)"
  show "\<exists>r. VulnerabilityBaseResolver tt app [] (Some f) first after None s = (Inr r, t)"
    by (simp add: VulnerabilityBaseResolver_def or_empty_def with_parent_def asked_counts_def
        bind_value l bind_return batchPreloadVulnerabilities_def containsField_def Let_def)
qed

section \<open>Examples\<close>

text \<open>A server that answers statements without parameters only.\<close>

definition plain_server :: sql_server where
  "plain_server =
     \<lparr>sv_ToSql = (\<lambda>_. Inl (sql_error ''no statement'')),
      sv_Preparex = (\<lambda>q. if CHR ''?'' \<in> set q then Some (sql_error ''Unknown column'') else None),
      sv_Queryx = (\<lambda>_ _. Inr ([], None))\<rparr>"

lemma asked_for_parameter:
  "q \<in> set qs \<Longrightarrow> CHR ''?'' \<in> set q \<Longrightarrow> CHR ''?'' \<in> set (combined_form qs opr)"
  by (cases qs) (auto simp: combined_form_def Join_concat)

lemma parameter_in_condition: "vs \<noteq> [] \<Longrightarrow> CHR ''?'' \<in> set (buildFilterQuery vs (''CIR.'' @ c @ '' = ?'') OP_OR)"
  by (cases vs) (auto simp: buildFilterQuery_form intro!: asked_for_parameter [of "''CIR.'' @ c @ '' = ?''"])

lemma parameter_in_counts:
  assumes "(c, vs) \<in> set conds" and "vs \<noteq> []"
  shows "CHR ''?'' \<in> set (count_text table conds)"
proof -
  let ?q = "\<lambda>(c, vs). buildFilterQuery vs (''CIR.'' @ c @ '' = ?'') OP_OR"
  have q: "CHR ''?'' \<in> set (?q (c, vs))"
    using parameter_in_condition [OF assms(2), of c] by simp
  then have "?q (c, vs) \<in> set (filter (\<lambda>q. q \<noteq> []) (map ?q conds))"
    using assms(1) by force
  then have "CHR ''?'' \<in> set (combineFilterQueries (map ?q conds) OP_AND)"
    unfolding combineFilterQueries_form using q by (rule asked_for_parameter)
  then show ?thesis by (auto simp: count_text_def Let_def)
qed

lemma plain_server_refuses: "refuses_unknown_columns plain_server"
  unfolding refuses_unknown_columns_def
proof (intro allI impI)
  fix f
  assume "\<exists>(c, vs) \<in> set (count_conditions f). c \<notin> set (count_table_columns (getCountTable f))"
  then obtain c vs where c: "(c, vs) \<in> set (count_conditions f)" by blast
  then have "vs \<noteq> []" by (auto simp: count_conditions_def split: if_splits)
  from parameter_in_counts [OF c this]
  show "sv_Preparex plain_server (count_text (getCountTable f) (count_conditions f)) \<noteq> None"
    by (simp add: plain_server_def)
qed

definition example_counting ::
  "('d, 'z, 'g) app_env \<Rightarrow> 'd issue_db \<Rightarrow> issue_codecs \<Rightarrow> ('d, 'z, 'g) Queries" where
  "example_counting env db cd =
     unavailable
       \<lparr>qh_ListIssues := (\<lambda>_ _. returnH (\<lparr>elTotalCount = None, elPageInfo = None, elElements = []\<rparr>, None)),
        qh_GetIssueSeverityCounts := GetIssueSeverityCounts env db cd\<rparr>"

lemma service_filter_breaks_vulnerability_counts_witness:
  "\<forall>tt s (env :: ('d, 'z, 'g) app_env) (db :: 'd issue_db) cd.
     let app = example_counting (env\<lparr>ae_cache := None\<rparr>) (db\<lparr>isdb_ratings := (\<lambda>d. CountIssueRatings plain_server)\<rparr>) cd;
         f = no_vulnerability_input\<lparr>qxService := [''web'']\<rparr>
     in (\<exists>e t. VulnerabilityBaseResolver tt app [''counts''] (Some f) None None None s = (Inl e, t)) \<and>
        (\<exists>r. VulnerabilityBaseResolver tt app [] (Some f) None None None s = (Inr r, s))"
proof (intro allI)
  fix tt and s :: "('d, 'z, 'g) app_state" and env :: "('d, 'z, 'g) app_env" and db :: "'d issue_db" and cd
  let ?env = "env\<lparr>ae_cache := None\<rparr>" and ?db = "db\<lparr>isdb_ratings := (\<lambda>d. CountIssueRatings plain_server)\<rparr>"
  let ?app = "example_counting ?env ?db cd" and ?f = "no_vulnerability_input\<lparr>qxService := [''web'']\<rparr>"
  note th = service_filter_breaks_vulnerability_counts [of "\<lambda>_. plain_server" ?env ?db ?app cd ?f, OF plain_server_refuses]
  have "\<exists>e t. VulnerabilityBaseResolver tt ?app [''counts''] (Some ?f) None None None s = (Inl e, t)"
    by (rule th [THEN conjunct1, THEN mp]) (simp_all add: example_counting_def)
  moreover have "\<exists>r. VulnerabilityBaseResolver tt ?app [] (Some ?f) None None None s = (Inr r, s)"
    by (rule th [THEN conjunct2, THEN mp]) (simp_all add: example_counting_def returnH_def)
  ultimately show "let app = ?app; f = ?f
     in (\<exists>e t. VulnerabilityBaseResolver tt app [''counts''] (Some f) None None None s = (Inl e, t)) \<and>
        (\<exists>r. VulnerabilityBaseResolver tt app [] (Some f) None None None s = (Inr r, s))"
    by (simp add: Let_def)
qed

text \<open>A server that holds three tables of joined rows.\<close>

definition example_owners :: "row list" where
  "example_owners =
     [[''owner_service_id'' \<mapsto> PVal (IntV 1), ''user_id'' \<mapsto> PVal (IntV 5), ''user_name'' \<mapsto> PVal (StrV ''ann'')],
      [''owner_service_id'' \<mapsto> PVal (IntV 2), ''user_id'' \<mapsto> PVal (IntV 5), ''user_name'' \<mapsto> PVal (StrV ''ann'')],
      [''owner_service_id'' \<mapsto> PVal (IntV 1), ''user_id'' \<mapsto> PVal (IntV 6), ''user_name'' \<mapsto> PVal (StrV ''bob'')]]"

definition example_versions :: "row list" where
  "example_versions =
     [[''componentversion_component_id'' \<mapsto> PVal (IntV 2), ''componentversion_id'' \<mapsto> PVal (IntV 8)]]"

definition example_matched :: "row list" where
  "example_matched =
     [[''issuematch_issue_id'' \<mapsto> PVal (IntV 1), ''service_id'' \<mapsto> PVal (IntV 3)],
      [''issuematch_issue_id'' \<mapsto> PVal NullV, ''service_id'' \<mapsto> PVal (IntV 4)]]"

definition int_values :: "sqlval list \<Rightarrow> id64 list" where
  "int_values vs = List.map_filter (\<lambda>v. case v of IntV n \<Rightarrow> Some n | _ \<Rightarrow> None) vs"

definition table_server :: sql_server where
  "table_server =
     \<lparr>sv_ToSql = (\<lambda>q. case sqWheres q of SqEq c vs # _ \<Rightarrow> Inr (sqFrom q, vs) | _ \<Rightarrow> Inl (sql_error ''no ids'')),
      sv_Preparex = (\<lambda>_. None),
      sv_Queryx = (\<lambda>q vs. Inr (map Inr
        (if q = ''ComponentVersion CV'' then with_ids ''componentversion_component_id'' (int_values vs) example_versions
         else if q = ''IssueMatch IM'' then with_ids ''issuematch_issue_id'' (int_values vs) example_matched
         else with_ids ''owner_service_id'' (int_values vs) example_owners), None))\<rparr>"

lemma int_values_ids [simp]: "int_values (map IntV xs) = xs"
  by (induction xs) (simp_all add: int_values_def)

lemma table_server_answers:
  "answers_prepared table_server owners_text ''owner_service_id'' example_owners"
  "answers_built table_server (versions_select []) ''componentversion_component_id'' example_versions"
  "answers_built table_server issue_services_select ''issuematch_issue_id'' example_matched"
  by (simp_all add: answers_prepared_def answers_built_def table_server_def owners_text_def sql_line_def versions_select_def
      for_ccrns_def issue_services_select_def service_wheres_def in_ids_def Let_def)

lemma batches_answer_for_each_id_witness:
  "\<exists>owners services. SqlGetOwnersByServiceIDs table_server [1, 7] = Inr owners \<and>
     SqlGetServicesByIssueIDs table_server [1, 7] = Inr services \<and>
     map userName (at_id [] owners 1) = [''ann'', ''bob''] \<and> at_id [] owners 2 = [] \<and> at_id [] owners 7 = [] \<and>
     map svcId (at_id [] services 1) = [3]"
proof -
  from batches_answer_for_each_id [OF table_server_answers, of "[1, 7]"]
  obtain owners services where
    "SqlGetOwnersByServiceIDs table_server [1, 7] = Inr owners" "SqlGetServicesByIssueIDs table_server [1, 7] = Inr services"
    "\<And>i. at_id [] owners i =
       (if i \<in> set [1, 7] then map owner_of_row (filter (\<lambda>r. col_int r ''owner_service_id'' = Some i) example_owners) else [])"
    "\<And>i. at_id [] services i =
       (if i \<in> set [1, 7] then map service_of_row (filter (\<lambda>r. col_int r ''issuematch_issue_id'' = Some i) example_matched) else [])"
    by blast
  then show ?thesis
    by (simp add: example_owners_def example_matched_def owner_of_row_def AsUser_def scan_UserRow_def service_of_row_def
        AsBaseService_def scan_BaseServiceRow_def column_defs)
qed

end
