(* ===== verification/Rate_Limit.thy ===== *)
theory Rate_Limit
  imports Heureka_Base Complex_Main
begin

text \<open>
  The rate limit of the HTTP interface (\<open>internal/api/graphql/middleware/rate_limit.go\<close>): one limiter for every
  address, created at its first request and dropped by a routine that runs every minute once the address
  has been idle for five. The limiter itself is \<open>golang.org/x/time/rate\<close>, a parameter: a record of
  the calls that the code makes, each at a time in nanoseconds. A request is one step, although the
  code calls the limiter after it has released the lock of the map.
\<close>

section \<open>The limiters of the addresses\<close>

record 'l limiter_api =
  li_new :: "rat \<Rightarrow> int \<Rightarrow> 'l"
  li_allow :: "int \<Rightarrow> 'l \<Rightarrow> bool \<times> 'l"
  li_delay :: "int \<Rightarrow> 'l \<Rightarrow> int \<times> 'l"
  li_set_limit :: "int \<Rightarrow> rat \<Rightarrow> 'l \<Rightarrow> 'l"
  li_set_burst :: "int \<Rightarrow> int \<Rightarrow> 'l \<Rightarrow> 'l"

text \<open>\<open>li_delay\<close> is \<open>Reserve\<close>, \<open>Delay\<close> and \<open>Cancel\<close> together.\<close>

record 'l clientLimiter =
  cl_limiter :: 'l
  cl_lastSeen :: int

record 'l IPRateLimiter =
  rl_ips :: "string \<rightharpoonup> 'l clientLimiter"
  rl_rate :: rat
  rl_burst :: int
  rl_stopped :: bool
  rl_staleAfter :: int

definition staleAfter :: int where "staleAfter = 5 * 60 * 10 ^ 9"

definition NewIPRateLimiter :: "rat \<Rightarrow> int \<Rightarrow> 'l IPRateLimiter" where
  "NewIPRateLimiter r b =
     \<lparr>rl_ips = Map.empty, rl_rate = r, rl_burst = b, rl_stopped = False, rl_staleAfter = staleAfter\<rparr>"

definition getLimiter :: "'l limiter_api \<Rightarrow> int \<Rightarrow> string \<Rightarrow> 'l IPRateLimiter \<Rightarrow> 'l \<times> 'l IPRateLimiter" where
  "getLimiter api now ip i =
     (let client = (case rl_ips i ip of
            None \<Rightarrow> \<lparr>cl_limiter = li_new api (rl_rate i) (rl_burst i), cl_lastSeen = now\<rparr>
          | Some c \<Rightarrow> c\<lparr>cl_lastSeen := now\<rparr>)
      in (cl_limiter client, i\<lparr>rl_ips := (rl_ips i)(ip \<mapsto> client)\<rparr>))"

text \<open>The map holds pointers: what a call does to the limiter of an address is seen through it.\<close>

definition put_limiter :: "string \<Rightarrow> 'l \<Rightarrow> 'l IPRateLimiter \<Rightarrow> 'l IPRateLimiter" where
  "put_limiter ip l i = i\<lparr>rl_ips := (rl_ips i)(ip := map_option (\<lambda>c. c\<lparr>cl_limiter := l\<rparr>) (rl_ips i ip))\<rparr>"

datatype http_answer = NextHandler | Abort int "(string \<times> string) list" string

definition RateLimit_Middleware ::
  "'l limiter_api \<Rightarrow> int \<Rightarrow> string \<Rightarrow> 'l IPRateLimiter \<Rightarrow> http_answer \<times> 'l IPRateLimiter" where
  "RateLimit_Middleware api now ip i =
     (let (limiter, i1) = getLimiter api now ip i;
          (ok, limiter1) = li_allow api now limiter
      in if ok then (NextHandler, put_limiter ip limiter1 i1)
         else let (retryAfter, limiter2) = li_delay api now limiter1
           in (Abort 429 [(''Retry-After'', FormatInt (retryAfter div 10 ^ 9 + 1)), (''X-RateLimit-Limit'', FormatInt (rl_burst i)),
                 (''X-RateLimit-Remaining'', ''0'')] ''Too many requests'',
               put_limiter ip limiter2 i1))"

definition RateLimit_cleanup :: "int \<Rightarrow> 'l IPRateLimiter \<Rightarrow> 'l IPRateLimiter" where
  "RateLimit_cleanup now i = i\<lparr>rl_ips := \<lambda>ip. case rl_ips i ip of
       None \<Rightarrow> None
     | Some client \<Rightarrow> if now - cl_lastSeen client > rl_staleAfter i then None else Some client\<rparr>"

definition each_limiter :: "('l \<Rightarrow> 'l) \<Rightarrow> 'l IPRateLimiter \<Rightarrow> 'l IPRateLimiter" where
  "each_limiter f i = i\<lparr>rl_ips := \<lambda>ip. map_option (\<lambda>c. c\<lparr>cl_limiter := f (cl_limiter c)\<rparr>) (rl_ips i ip)\<rparr>"

definition SetRate :: "'l limiter_api \<Rightarrow> int \<Rightarrow> rat \<Rightarrow> 'l IPRateLimiter \<Rightarrow> 'l IPRateLimiter" where
  "SetRate api now r i = each_limiter (li_set_limit api now r) (i\<lparr>rl_rate := r\<rparr>)"

definition SetBurst :: "'l limiter_api \<Rightarrow> int \<Rightarrow> int \<Rightarrow> 'l IPRateLimiter \<Rightarrow> 'l IPRateLimiter" where
  "SetBurst api now b i = each_limiter (li_set_burst api now b) (i\<lparr>rl_burst := b\<rparr>)"

text \<open>\<open>Stop\<close> closes a channel, which panics the second time. Afterwards the routine does not run again.\<close>

definition RateLimit_Stop :: "'l IPRateLimiter \<Rightarrow> 'l IPRateLimiter go" where
  "RateLimit_Stop i = (if rl_stopped i then Inl (ExplicitPanic ''close of closed channel'') else Inr (i\<lparr>rl_stopped := True\<rparr>))"

definition cleanupRoutine_tick :: "int \<Rightarrow> 'l IPRateLimiter \<Rightarrow> 'l IPRateLimiter" where
  "cleanupRoutine_tick now i = (if rl_stopped i then i else RateLimit_cleanup now i)"

section \<open>Runs\<close>

text \<open>A run is a list of events, each with its time; it answers the requests in their order.\<close>

datatype rl_event = Request string | Tick | RateSet rat | BurstSet int

fun rl_run :: "'l limiter_api \<Rightarrow> (int \<times> rl_event) list \<Rightarrow> 'l IPRateLimiter \<Rightarrow> http_answer list" where
  "rl_run api [] i = []"
| "rl_run api ((t, Request ip) # es) i = (case RateLimit_Middleware api t ip i of (a, j) \<Rightarrow> a # rl_run api es j)"
| "rl_run api ((t, Tick) # es) i = rl_run api es (cleanupRoutine_tick t i)"
| "rl_run api ((t, RateSet r) # es) i = rl_run api es (SetRate api t r i)"
| "rl_run api ((t, BurstSet b) # es) i = rl_run api es (SetBurst api t b i)"

text \<open>What the limit promises: every address has a limiter of its own, and keeps it.\<close>

fun kept_run :: "'l limiter_api \<Rightarrow> (int \<times> rl_event) list \<Rightarrow> (string \<Rightarrow> 'l) \<Rightarrow> bool list" where
  "kept_run api [] k = []"
| "kept_run api ((t, Request ip) # es) k = (case li_allow api t (k ip) of (ok, l) \<Rightarrow>
     ok # kept_run api es (k(ip := if ok then l else snd (li_delay api t l))))"
| "kept_run api ((t, Tick) # es) k = kept_run api es k"
| "kept_run api ((t, RateSet r) # es) k = kept_run api es (\<lambda>ip. li_set_limit api t r (k ip))"
| "kept_run api ((t, BurstSet b) # es) k = kept_run api es (\<lambda>ip. li_set_burst api t b (k ip))"

text \<open>
  Times do not decrease, and every rate that is set fills a bucket within the idle time. A change of the burst is left
  out: a limiter that exists is not filled up to a larger one, a new limiter is.
\<close>

fun steady :: "int \<Rightarrow> rat \<Rightarrow> (int \<times> rl_event) list \<Rightarrow> bool" where
  "steady t0 slow [] \<longleftrightarrow> True"
| "steady t0 slow ((t, e) # es) \<longleftrightarrow> t0 \<le> t \<and>
     (case e of RateSet r \<Rightarrow> slow \<le> r | BurstSet _ \<Rightarrow> False | _ \<Rightarrow> True) \<and> steady t slow es"

text \<open>The requests of an address that a run lets through.\<close>

fun admitted :: "string \<Rightarrow> (int \<times> rl_event) list \<Rightarrow> bool list \<Rightarrow> nat" where
  "admitted ip ((t, Request q) # es) (b # bs) = (if q = ip \<and> b then 1 else 0) + admitted ip es bs"
| "admitted ip ((t, Request q) # es) [] = 0"
| "admitted ip ((t, Tick) # es) bs = admitted ip es bs"
| "admitted ip ((t, RateSet r) # es) bs = admitted ip es bs"
| "admitted ip ((t, BurstSet b) # es) bs = admitted ip es bs"
| "admitted ip [] bs = 0"

definition fills_in_time :: "int \<Rightarrow> int \<Rightarrow> rat" where
  "fills_in_time burst idle = of_int burst * 10 ^ 9 / of_int idle"

section \<open>The documented limiter\<close>

text \<open>
  A limiter is a bucket of tokens (\<open>TokensAt\<close>, \<open>Limit\<close> and \<open>Burst\<close> of the package). It is full at first, a request
  takes a token when there is one, and tokens come back at the rate of the limiter up to its burst.
\<close>

definition earned :: "rat \<Rightarrow> int \<Rightarrow> rat" where
  "earned r d = r * of_int d / 10 ^ 9"

locale token_bucket =
  fixes api :: "'l limiter_api" and TokensAt :: "int \<Rightarrow> 'l \<Rightarrow> rat" and Limit :: "'l \<Rightarrow> rat" and Burst :: "'l \<Rightarrow> int"
    and used :: "'l \<Rightarrow> int"
  assumes fresh: "0 \<le> r \<Longrightarrow> TokensAt t (li_new api r b) = of_int b" "Limit (li_new api r b) = r" "Burst (li_new api r b) = b"
      "used (li_new api r b) = 0"
    and refill: "0 \<le> Limit l \<Longrightarrow> used l \<le> t \<Longrightarrow> t \<le> u \<Longrightarrow> TokensAt u l = min (of_int (Burst l)) (TokensAt t l + earned (Limit l) (u - t))"
    and allow: "fst (li_allow api t l) \<longleftrightarrow> 1 \<le> TokensAt t l"
      "used l \<le> t \<Longrightarrow> TokensAt t (snd (li_allow api t l)) = TokensAt t l - (if 1 \<le> TokensAt t l then 1 else 0)"
      "Limit (snd (li_allow api t l)) = Limit l" "Burst (snd (li_allow api t l)) = Burst l"
      "used l \<le> t \<Longrightarrow> used (snd (li_allow api t l)) \<le> t"
    and delay: "used l \<le> t \<Longrightarrow> TokensAt t (snd (li_delay api t l)) = TokensAt t l"
      "Limit (snd (li_delay api t l)) = Limit l" "Burst (snd (li_delay api t l)) = Burst l"
      "used l \<le> t \<Longrightarrow> used (snd (li_delay api t l)) \<le> t"
    and set_limit: "used l \<le> t \<Longrightarrow> TokensAt t (li_set_limit api t r l) = TokensAt t l"
      "Limit (li_set_limit api t r l) = r" "Burst (li_set_limit api t r l) = Burst l"
      "used l \<le> t \<Longrightarrow> used (li_set_limit api t r l) \<le> t"
begin

lemmas bucket_simps = allow delay set_limit fresh

text \<open>Two limiters that answer alike from a time on.\<close>

definition alike :: "int \<Rightarrow> 'l \<Rightarrow> 'l \<Rightarrow> bool" where
  "alike t l m \<longleftrightarrow> used l \<le> t \<and> used m \<le> t \<and> TokensAt t l = TokensAt t m \<and> Limit l = Limit m \<and> Burst l = Burst m"

lemma alike_step:
  assumes "alike t l m"
  shows "fst (li_allow api t l) = fst (li_allow api t m)" "alike t (snd (li_allow api t l)) (snd (li_allow api t m))"
    "alike t (snd (li_delay api t l)) (snd (li_delay api t m))" "alike t (li_set_limit api t r l) (li_set_limit api t r m)"
  using assms by (simp_all add: alike_def bucket_simps)

lemma alike_later: "alike t l m \<Longrightarrow> 0 \<le> Limit m \<Longrightarrow> t \<le> u \<Longrightarrow> alike u l m"
  using refill [of l t u] refill [of m t u] by (auto simp: alike_def)

text \<open>
  The state of the code against the limiters that are kept: a dropped limiter is full, a limiter in the map is like the
  one kept, and has earned its burst back once it has been idle long enough.
\<close>

definition idle_bound :: "int \<Rightarrow> int \<Rightarrow> int \<Rightarrow> rat" where
  "idle_bound burst idle d = min (of_int burst) (earned (fills_in_time burst idle) d)"

definition kept_at :: "int \<Rightarrow> int \<Rightarrow> rat \<Rightarrow> int \<Rightarrow> 'l clientLimiter option \<Rightarrow> 'l \<Rightarrow> bool" where
  "kept_at burst idle r t client m \<longleftrightarrow> used m \<le> t \<and> Limit m = r \<and> Burst m = burst \<and> (case client of
       None \<Rightarrow> TokensAt t m = of_int burst
     | Some c \<Rightarrow> alike t (cl_limiter c) m \<and> cl_lastSeen c \<le> t \<and> idle_bound burst idle (t - cl_lastSeen c) \<le> TokensAt t m)"

definition keeps :: "int \<Rightarrow> 'l IPRateLimiter \<Rightarrow> (string \<Rightarrow> 'l) \<Rightarrow> bool" where
  "keeps t i k \<longleftrightarrow> 0 \<le> t \<and> 0 \<le> rl_burst i \<and> 0 < rl_staleAfter i \<and> fills_in_time (rl_burst i) (rl_staleAfter i) \<le> rl_rate i \<and>
     (\<forall>ip. kept_at (rl_burst i) (rl_staleAfter i) (rl_rate i) t (rl_ips i ip) (k ip))"

lemma fills_nonneg: "0 \<le> b \<Longrightarrow> 0 < idle \<Longrightarrow> 0 \<le> fills_in_time b idle"
  by (simp add: fills_in_time_def)

lemma keeps_rate: "keeps t i k \<Longrightarrow> 0 \<le> rl_rate i"
  using fills_nonneg [of "rl_burst i" "rl_staleAfter i"] by (simp add: keeps_def)

lemma earned_add: "earned r (u - t) + earned r (t - s) = earned r (u - s)"
  by (simp add: earned_def field_simps)

lemma earned_nonneg: "0 \<le> r \<Longrightarrow> 0 \<le> d \<Longrightarrow> 0 \<le> earned r d"
  by (simp add: earned_def)

lemma idle_bound_later:
  assumes "0 \<le> b" "0 < idle" "fills_in_time b idle \<le> r" "t \<le> u" "idle_bound b idle (t - s) \<le> x"
  shows "idle_bound b idle (u - s) \<le> min (of_int b) (x + earned r (u - t))"
proof -
  let ?q = "fills_in_time b idle"
  have q: "0 \<le> ?q" using assms(1,2) by (rule fills_nonneg)
  have "earned ?q (u - t) \<le> earned r (u - t)"
    unfolding earned_def using assms(3,4) by (intro divide_right_mono mult_right_mono) simp_all
  moreover have "0 \<le> earned ?q (u - t)" using q assms(4) by (simp add: earned_nonneg)
  ultimately show ?thesis using assms(5) earned_add [of ?q u t s] by (simp add: idle_bound_def min_def split: if_splits)
qed

lemma tokens_bound: "0 \<le> Limit m \<Longrightarrow> used m \<le> t \<Longrightarrow> TokensAt t m \<le> of_int (Burst m)"
  using refill [of m t t] by (simp add: earned_def)

lemma kept_at_later:
  assumes "kept_at b idle r t c m" "t \<le> u" "0 \<le> b" "0 < idle" "fills_in_time b idle \<le> r"
  shows "kept_at b idle r u c m"
proof -
  have r: "0 \<le> r" using fills_nonneg [OF assms(3,4)] assms(5) by simp
  have tokens: "TokensAt u m = min (of_int b) (TokensAt t m + earned r (u - t))"
    using assms(1,2) r refill [of m t u] by (simp add: kept_at_def)
  show ?thesis
  proof (cases c)
    case None
    then show ?thesis using assms(1,2) tokens earned_nonneg [OF r, of "u - t"] by (simp add: kept_at_def)
  next
    case (Some x)
    then have x: "alike t (cl_limiter x) m" "cl_lastSeen x \<le> t" "idle_bound b idle (t - cl_lastSeen x) \<le> TokensAt t m" "0 \<le> Limit m"
      using assms(1) r by (simp_all add: kept_at_def)
    have "alike u (cl_limiter x) m" by (rule alike_later [OF x(1,4) assms(2)])
    then show ?thesis using Some x assms tokens idle_bound_later [OF assms(3,4,5,2) x(3)] by (simp add: kept_at_def)
  qed
qed

lemma keeps_later: "keeps t i k \<Longrightarrow> t \<le> u \<Longrightarrow> keeps u i k"
  using kept_at_later [of "rl_burst i" "rl_staleAfter i" "rl_rate i" t _ _ u] by (auto simp: keeps_def)

lemma keeps_start:
  assumes "0 \<le> b" "fills_in_time b staleAfter \<le> r"
  shows "keeps 0 (NewIPRateLimiter r b) (\<lambda>_. li_new api r b)"
proof -
  have "0 \<le> r" using fills_nonneg [OF assms(1), of staleAfter] assms(2) by (simp add: staleAfter_def)
  then show ?thesis using assms by (simp add: keeps_def kept_at_def NewIPRateLimiter_def fresh) (simp add: staleAfter_def)
qed

text \<open>A client that is dropped has a full limiter, as a new one would be.\<close>

lemma stale_full:
  assumes "kept_at b idle r t (Some c) m" "idle < t - cl_lastSeen c" "0 \<le> b" "0 < idle" "0 \<le> r"
  shows "TokensAt t m = of_int b"
proof -
  have "(of_int b :: rat) * of_int idle \<le> of_int b * of_int (t - cl_lastSeen c)"
    using assms(2,3) by (intro mult_left_mono) simp_all
  then have "of_int b \<le> earned (fills_in_time b idle) (t - cl_lastSeen c)"
    using assms(4) by (simp add: earned_def fills_in_time_def field_simps)
  then show ?thesis using assms(1,5) tokens_bound [of m t] by (auto simp: kept_at_def idle_bound_def min_def)
qed

lemma keeps_cleanup:
  assumes "keeps t i k"
  shows "keeps t (cleanupRoutine_tick t i) k"
proof -
  have "kept_at (rl_burst i) (rl_staleAfter i) (rl_rate i) t (case rl_ips i ip of None \<Rightarrow> None
      | Some c \<Rightarrow> if t - cl_lastSeen c > rl_staleAfter i then None else Some c) (k ip)" for ip
  proof -
    have k: "kept_at (rl_burst i) (rl_staleAfter i) (rl_rate i) t (rl_ips i ip) (k ip)" using assms by (simp add: keeps_def)
    have "TokensAt t (k ip) = of_int (rl_burst i)" if "rl_ips i ip = Some c" "rl_staleAfter i < t - cl_lastSeen c" for c
      using that k assms keeps_rate [OF assms] by (auto intro!: stale_full simp: keeps_def)
    then show ?thesis using k by (auto simp: kept_at_def split: option.splits)
  qed
  then show ?thesis using assms by (simp add: keeps_def cleanupRoutine_tick_def RateLimit_cleanup_def)
qed

lemma keeps_set_rate:
  assumes "keeps t i k" "fills_in_time (rl_burst i) (rl_staleAfter i) \<le> r"
  shows "keeps t (SetRate api t r i) (\<lambda>ip. li_set_limit api t r (k ip))"
proof -
  have "kept_at (rl_burst i) (rl_staleAfter i) r t (map_option (\<lambda>c. c\<lparr>cl_limiter := li_set_limit api t r (cl_limiter c)\<rparr>) (rl_ips i ip))
      (li_set_limit api t r (k ip))" for ip
  proof -
    have "kept_at (rl_burst i) (rl_staleAfter i) (rl_rate i) t (rl_ips i ip) (k ip)" using assms by (simp add: keeps_def)
    then show ?thesis by (cases "rl_ips i ip") (auto simp: kept_at_def set_limit alike_step)
  qed
  then show ?thesis using assms by (simp add: keeps_def SetRate_def each_limiter_def)
qed

lemma keeps_nonneg:
  assumes "keeps t i k"
  shows "0 \<le> TokensAt t (k ip)"
proof (cases "rl_ips i ip")
  case None
  then show ?thesis using assms by (auto simp: keeps_def kept_at_def dest!: spec [of _ ip])
next
  case (Some c)
  then have c: "cl_lastSeen c \<le> t" "idle_bound (rl_burst i) (rl_staleAfter i) (t - cl_lastSeen c) \<le> TokensAt t (k ip)"
    using assms by (auto simp: keeps_def kept_at_def dest!: spec [of _ ip])
  have "0 \<le> idle_bound (rl_burst i) (rl_staleAfter i) (t - cl_lastSeen c)"
    using c(1) assms by (simp add: keeps_def idle_bound_def earned_nonneg fills_nonneg)
  then show ?thesis using c(2) by simp
qed

text \<open>What a request does to the limiter of its address, and the limiter that it meets.\<close>

definition asked :: "int \<Rightarrow> 'l \<Rightarrow> bool \<times> 'l" where
  "asked t l = (case li_allow api t l of (ok, l1) \<Rightarrow> (ok, if ok then l1 else snd (li_delay api t l1)))"

lemma asked_fields:
  assumes "used l \<le> t"
  shows "fst (asked t l) \<longleftrightarrow> 1 \<le> TokensAt t l"
    "TokensAt t (snd (asked t l)) = TokensAt t l - (if 1 \<le> TokensAt t l then 1 else 0)"
    "Limit (snd (asked t l)) = Limit l" "Burst (snd (asked t l)) = Burst l" "used (snd (asked t l)) \<le> t"
proof -
  define l1 where "l1 = snd (li_allow api t l)"
  have asked: "asked t l = (fst (li_allow api t l), if fst (li_allow api t l) then l1 else snd (li_delay api t l1))"
    by (simp add: asked_def l1_def split: prod.split)
  have l1: "TokensAt t l1 = TokensAt t l - (if 1 \<le> TokensAt t l then 1 else 0)" "Limit l1 = Limit l" "Burst l1 = Burst l" "used l1 \<le> t"
    unfolding l1_def by (rule allow assms)+
  show "fst (asked t l) \<longleftrightarrow> 1 \<le> TokensAt t l" by (simp add: asked allow)
  show "TokensAt t (snd (asked t l)) = TokensAt t l - (if 1 \<le> TokensAt t l then 1 else 0)"
    using l1 by (simp add: asked delay)
  show "Limit (snd (asked t l)) = Limit l" "Burst (snd (asked t l)) = Burst l" "used (snd (asked t l)) \<le> t"
    using l1 by (simp_all add: asked delay)
qed

lemma Middleware_asked:
  "RateLimit_Middleware api t ip i = (case getLimiter api t ip i of (l, i1) \<Rightarrow>
     (if fst (asked t l) then NextHandler else fst (RateLimit_Middleware api t ip i), put_limiter ip (snd (asked t l)) i1))"
  "fst (RateLimit_Middleware api t ip i) = NextHandler \<longleftrightarrow> fst (asked t (fst (getLimiter api t ip i)))"
  by (simp_all add: RateLimit_Middleware_def asked_def Let_def split: prod.splits)

lemma met_limiter:
  assumes "keeps t i k"
  shows "alike t (fst (getLimiter api t ip i)) (k ip)"
proof -
  have k: "kept_at (rl_burst i) (rl_staleAfter i) (rl_rate i) t (rl_ips i ip) (k ip)" using assms by (simp add: keeps_def)
  have "0 \<le> t" using assms by (simp add: keeps_def)
  with k show ?thesis
    by (cases "rl_ips i ip") (auto simp: kept_at_def getLimiter_def alike_def fresh keeps_rate [OF assms])
qed

lemma Middleware_state:
  assumes "j = snd (RateLimit_Middleware api t ip i)"
  shows "rl_ips j = (rl_ips i)(ip \<mapsto> \<lparr>cl_limiter = snd (asked t (fst (getLimiter api t ip i))), cl_lastSeen = t\<rparr>)"
    "rl_burst j = rl_burst i" "rl_rate j = rl_rate i" "rl_staleAfter j = rl_staleAfter i"
  unfolding assms
  by (auto simp: Middleware_asked(1) getLimiter_def put_limiter_def Let_def split: option.splits)

lemma keeps_request:
  assumes "keeps t i k"
  shows "fst (RateLimit_Middleware api t ip i) = NextHandler \<longleftrightarrow> fst (asked t (k ip))"
    "keeps t (snd (RateLimit_Middleware api t ip i)) (k(ip := snd (asked t (k ip))))"
proof -
  let ?l = "fst (getLimiter api t ip i)"
  have met: "alike t ?l (k ip)" by (rule met_limiter [OF assms])
  then show "fst (RateLimit_Middleware api t ip i) = NextHandler \<longleftrightarrow> fst (asked t (k ip))"
    by (simp add: Middleware_asked(2) alike_def asked_fields)
  have "alike t (snd (asked t ?l)) (snd (asked t (k ip)))" using met by (simp add: alike_def asked_fields)
  moreover have "0 \<le> TokensAt t (snd (asked t (k ip)))"
    using met keeps_nonneg [OF assms, of ip] by (auto simp: alike_def asked_fields)
  moreover have "kept_at (rl_burst i) (rl_staleAfter i) (rl_rate i) t (rl_ips i ip) (k ip)" using assms by (simp add: keeps_def)
  ultimately have "kept_at (rl_burst i) (rl_staleAfter i) (rl_rate i) t
      (Some \<lparr>cl_limiter = snd (asked t ?l), cl_lastSeen = t\<rparr>) (snd (asked t (k ip)))"
    by (auto simp: kept_at_def asked_fields idle_bound_def earned_def min_def)
  then show "keeps t (snd (RateLimit_Middleware api t ip i)) (k(ip := snd (asked t (k ip))))"
    using assms by (simp add: keeps_def Middleware_state [OF refl])
qed

lemma kept_request:
  "kept_run api ((t, Request ip) # es) k = fst (asked t (k ip)) # kept_run api es (k(ip := snd (asked t (k ip))))"
  by (simp add: asked_def split: prod.split)

lemma limits_unchanged:
  "rl_burst (snd (RateLimit_Middleware api t ip i)) = rl_burst i" "rl_staleAfter (snd (RateLimit_Middleware api t ip i)) = rl_staleAfter i"
  "rl_burst (cleanupRoutine_tick t i) = rl_burst i" "rl_staleAfter (cleanupRoutine_tick t i) = rl_staleAfter i"
  "rl_burst (SetRate api t r i) = rl_burst i" "rl_staleAfter (SetRate api t r i) = rl_staleAfter i"
  by (simp_all add: Middleware_state [OF refl] cleanupRoutine_tick_def RateLimit_cleanup_def SetRate_def each_limiter_def)

lemma run_keeps:
  "keeps t i k \<Longrightarrow> steady t (fills_in_time (rl_burst i) (rl_staleAfter i)) es \<Longrightarrow>
     map (\<lambda>a. a = NextHandler) (rl_run api es i) = kept_run api es k"
proof (induction es arbitrary: t i k)
  case (Cons e es)
  obtain u x where e: "e = (u, x)" by (cases e)
  have u: "keeps u i k" by (rule keeps_later [OF Cons.prems(1)]) (use Cons.prems(2) e in simp)
  show ?case
  proof (cases x)
    case (Request ip)
    obtain a j where aj: "RateLimit_Middleware api u ip i = (a, j)" by fastforce
    have "map (\<lambda>a. a = NextHandler) (rl_run api es j) = kept_run api es (k(ip := snd (asked u (k ip))))"
      using Cons.IH [OF keeps_request(2) [OF u, of ip]] Cons.prems(2) e limits_unchanged(1,2) [of u ip i] aj Request by (simp add: fun_upd_def)
    then show ?thesis
      using keeps_request(1) [OF u, of ip] unfolding e Request kept_request by (simp add: aj)
  next
    case Tick
    then show ?thesis
      using Cons.IH [OF keeps_cleanup [OF u]] Cons.prems(2) e by (simp add: limits_unchanged)
  next
    case (RateSet r)
    then show ?thesis
      using Cons.IH [OF keeps_set_rate [OF u, of r]] Cons.prems(2) e by (simp add: limits_unchanged)
  next
    case (BurstSet b)
    then show ?thesis using Cons.prems(2) e by simp
  qed
qed simp

text \<open>What a kept limiter lets through: the tokens that it has and those that it earns.\<close>

lemma kept_admits:
  "\<forall>e \<in> set es. fst e \<le> T \<and> (\<forall>r. snd e \<noteq> RateSet r) \<Longrightarrow> steady t slow es \<Longrightarrow> t \<le> T \<Longrightarrow>
     used (k ip) \<le> t \<Longrightarrow> 0 \<le> Limit (k ip) \<Longrightarrow> 0 \<le> TokensAt t (k ip) \<Longrightarrow>
     of_nat (admitted ip es (kept_run api es k)) \<le> TokensAt t (k ip) + earned (Limit (k ip)) (T - t)"
proof (induction es arbitrary: t k)
  case Nil
  then show ?case by (simp add: earned_def)
next
  case (Cons e es)
  obtain u x where e: "e = (u, x)" by (cases e)
  have u: "t \<le> u" "u \<le> T" using Cons.prems(1,2) e by auto
  have lim: "0 \<le> Limit (k ip)" "used (k ip) \<le> t" using Cons.prems by simp_all
  have tokens: "TokensAt u (k ip) = min (of_int (Burst (k ip))) (TokensAt t (k ip) + earned (Limit (k ip)) (u - t))"
    by (rule refill [OF lim u(1)])
  have full: "TokensAt t (k ip) \<le> of_int (Burst (k ip))" by (rule tokens_bound [OF lim])
  have gain: "0 \<le> earned (Limit (k ip)) (u - t)" using lim u by (simp add: earned_nonneg)
  have "TokensAt u (k ip) \<le> TokensAt t (k ip) + earned (Limit (k ip)) (u - t)" unfolding tokens by (rule min.cobounded2)
  then have less: "TokensAt u (k ip) + earned (Limit (k ip)) (T - u) \<le> TokensAt t (k ip) + earned (Limit (k ip)) (T - t)"
    using earned_add [of "Limit (k ip)" T u t] by linarith
  have nonneg: "0 \<le> TokensAt u (k ip)" unfolding tokens using full gain Cons.prems(6) by simp
  show ?case
  proof (cases x)
    case (Request q)
    let ?k = "k(q := snd (asked u (k q)))"
    have "of_nat (admitted ip es (kept_run api es ?k)) \<le> TokensAt u (?k ip) + earned (Limit (?k ip)) (T - u)"
      using Cons.prems u e nonneg by (intro Cons.IH) (auto simp: asked_fields)
    then show ?thesis
      using less lim(2) u(1) unfolding e Request kept_request by (cases "q = ip") (auto simp: asked_fields simp del: kept_run.simps)
  next
    case Tick
    have "of_nat (admitted ip es (kept_run api es k)) \<le> TokensAt u (k ip) + earned (Limit (k ip)) (T - u)"
      using Cons.prems u e nonneg by (intro Cons.IH) auto
    then show ?thesis using less Tick e by simp
  qed (use Cons.prems e in auto)
qed

text \<open>Requests at one time pass as long as there are tokens.\<close>

lemma burst_passes:
  "used (fst (getLimiter api t ip i)) \<le> t \<Longrightarrow> of_nat n \<le> TokensAt t (fst (getLimiter api t ip i)) \<Longrightarrow>
     rl_run api (replicate n (t, Request ip)) i = replicate n NextHandler"
proof (induction n arbitrary: i)
  case (Suc n)
  let ?l = "fst (getLimiter api t ip i)"
  obtain a j where aj: "RateLimit_Middleware api t ip i = (a, j)" by fastforce
  have ok: "fst (asked t ?l)" using Suc.prems by (simp add: asked_fields)
  have next_l: "fst (getLimiter api t ip j) = snd (asked t ?l)"
    using Middleware_state(1) [of j t ip i] aj by (simp add: getLimiter_def Let_def)
  have "rl_run api (replicate n (t, Request ip)) j = replicate n NextHandler"
    using Suc.prems by (intro Suc.IH) (simp_all add: next_l asked_fields)
  then show ?case using Middleware_asked(2) [of t ip i] ok by (simp add: aj)
qed simp

end

section \<open>A bucket\<close>

text \<open>The limiter as its documentation describes it: tokens and the time they were counted, brought up to date when used.\<close>

record bucket =
  bk_limit :: rat
  bk_burst :: int
  bk_tokens :: rat
  bk_last :: int

definition bk_at :: "int \<Rightarrow> bucket \<Rightarrow> rat" where
  "bk_at t l = min (of_int (bk_burst l)) (bk_tokens l + earned (bk_limit l) (max 0 (t - bk_last l)))"

definition bk_moved :: "int \<Rightarrow> rat \<Rightarrow> bucket \<Rightarrow> bucket" where
  "bk_moved t x l = l\<lparr>bk_tokens := x, bk_last := max t (bk_last l)\<rparr>"

definition bucket_api :: "bucket limiter_api" where
  "bucket_api =
     \<lparr>li_new = (\<lambda>r b. \<lparr>bk_limit = r, bk_burst = b, bk_tokens = of_int b, bk_last = 0\<rparr>),
      li_allow = (\<lambda>t l. if 1 \<le> bk_at t l then (True, bk_moved t (bk_at t l - 1) l) else (False, l)),
      li_delay = (\<lambda>t l. (if bk_limit l \<le> 0 then 2 ^ 63 - 1 else \<lceil>(1 - bk_at t l) * 10 ^ 9 / bk_limit l\<rceil>, l)),
      li_set_limit = (\<lambda>t r l. (bk_moved t (bk_at t l) l)\<lparr>bk_limit := r\<rparr>),
      li_set_burst = (\<lambda>t b l. (bk_moved t (bk_at t l) l)\<lparr>bk_burst := b\<rparr>)\<rparr>"

lemma bk_refill:
  assumes "0 \<le> bk_limit l" "bk_last l \<le> t" "t \<le> u"
  shows "bk_at u l = min (of_int (bk_burst l)) (bk_at t l + earned (bk_limit l) (u - t))"
proof -
  let ?r = "bk_limit l"
  have "earned ?r (u - t) + earned ?r (t - bk_last l) = earned ?r (u - bk_last l)" by (simp add: earned_def field_simps)
  moreover have "0 \<le> earned ?r (u - t)" using assms by (simp add: earned_def)
  ultimately show ?thesis using assms(2,3) by (simp add: bk_at_def min_def)
qed

lemma bk_now: "bk_last l \<le> t \<Longrightarrow> bk_at t (bk_moved t x l) = min (of_int (bk_burst l)) x"
  by (simp add: bk_at_def bk_moved_def earned_def)

lemma bk_at_bound: "bk_at t l \<le> of_int (bk_burst l)"
  by (simp add: bk_at_def)

lemma bk_limit_now: "bk_last l \<le> t \<Longrightarrow> bk_at t (bk_moved t x l\<lparr>bk_limit := r\<rparr>) = min (of_int (bk_burst l)) x"
  by (simp add: bk_at_def bk_moved_def earned_def)

interpretation bkt: token_bucket bucket_api bk_at bk_limit bk_burst bk_last
proof
  show "bk_at t (li_new bucket_api r b) = of_int b" if "0 \<le> r" for t r b
    using that by (simp add: bucket_api_def bk_at_def earned_def)
  show "bk_at t (snd (li_allow bucket_api t l)) = bk_at t l - (if 1 \<le> bk_at t l then 1 else 0)" if "bk_last l \<le> t" for l t
    using bk_at_bound [of t l] by (simp add: bucket_api_def bk_now [OF that] min_def)
  show "bk_at t (li_set_limit bucket_api t r l) = bk_at t l" if "bk_last l \<le> t" for l t r
    using bk_at_bound [of t l] by (simp add: bucket_api_def bk_limit_now [OF that] min_def)
  show "bk_at u l = min (of_int (bk_burst l)) (bk_at t l + earned (bk_limit l) (u - t))"
    if "0 \<le> bk_limit l" "bk_last l \<le> t" "t \<le> u" for l t u
    using that by (rule bk_refill)
qed (simp_all add: bucket_api_def bk_moved_def)

section \<open>Properties\<close>

text \<open>
  C5. As long as every rate that is set fills a bucket within the five minutes after which an idle address is dropped (the
  defaults, 100 requests a second and a burst of 100, do so within a second), the limits of addresses are
  those of limiters that are never dropped: whatever requests, cleanups and changes of the rate a
  run consists of, each request is let through exactly when the address's own limiter allows it.
\<close>

theorem rate_limit_refines_kept_limiters:
  assumes "token_bucket api TokensAt Limit Burst used" and "0 \<le> b" and "fills_in_time b staleAfter \<le> r"
    and "steady 0 (fills_in_time b staleAfter) es"
  shows "map (\<lambda>a. a = NextHandler) (rl_run api es (NewIPRateLimiter r b)) = kept_run api es (\<lambda>_. li_new api r b)"
  by (rule token_bucket.run_keeps [OF assms(1) token_bucket.keeps_start [OF assms(1,2,3)]])
    (simp add: NewIPRateLimiter_def assms(4))


text \<open>
  Without that relation between rate and burst the limit is not kept: once the routine has dropped an idle
  address, its next requests pass up to the whole burst, whatever the address had used before and
  however little its rate has earned it since, even nothing.
\<close>

theorem dropped_address_gets_its_burst:
  assumes "token_bucket api TokensAt Limit Burst used" and "0 \<le> rl_rate i" and "0 \<le> rl_burst i" and "0 \<le> t" and "\<not> rl_stopped i"
    and "rl_ips i ip = Some c" and "rl_staleAfter i < t - cl_lastSeen c"
  shows "rl_run api ((t, Tick) # replicate (nat (rl_burst i)) (t, Request ip)) i = replicate (nat (rl_burst i)) NextHandler"
proof -
  let ?j = "cleanupRoutine_tick t i"
  have "fst (getLimiter api t ip ?j) = li_new api (rl_rate i) (rl_burst i)"
    using assms(5-7) by (simp add: cleanupRoutine_tick_def RateLimit_cleanup_def getLimiter_def)
  then have "rl_run api (replicate (nat (rl_burst i)) (t, Request ip)) ?j = replicate (nat (rl_burst i)) NextHandler"
    using assms(2-4) by (intro token_bucket.burst_passes [OF assms(1)]) (simp_all add: token_bucket.fresh [OF assms(1)])
  then show ?thesis by simp
qed

section \<open>Examples\<close>

text \<open>A burst of two at one request a second, and the same with a rate of 0.\<close>

definition example_run :: "(int \<times> rl_event) list" where
  "example_run = [(0, Request ''a''), (0, Request ''a''), (0, Request ''a''), (0, Request ''b''), (400 * 10 ^ 9, Tick), (400 * 10 ^ 9, Request ''a'')]"

lemma example_answers:
  "kept_run bucket_api example_run (\<lambda>_. li_new bucket_api 1 2) = [True, True, False, True, True]"
  by (simp add: example_run_def bucket_api_def bk_at_def bk_moved_def earned_def min_def max_def)

theorem rate_limit_refines_kept_limiters_witness:
  "map (\<lambda>a. a = NextHandler) (rl_run bucket_api example_run (NewIPRateLimiter 1 2)) = [True, True, False, True, True]"
  using rate_limit_refines_kept_limiters [OF bkt.token_bucket_axioms, of 2 1 example_run] example_answers
  by (simp add: fills_in_time_def staleAfter_def example_run_def)


definition used_up :: "bucket IPRateLimiter" where
  "used_up = (NewIPRateLimiter 0 2)\<lparr>rl_ips := [''a'' \<mapsto> \<lparr>cl_limiter = \<lparr>bk_limit = 0, bk_burst = 2, bk_tokens = 0, bk_last = 0\<rparr>, cl_lastSeen = 0\<rparr>]\<rparr>"

theorem dropped_address_gets_its_burst_witness:
  "rl_run bucket_api [(301 * 10 ^ 9, Tick), (301 * 10 ^ 9, Request ''a''), (301 * 10 ^ 9, Request ''a'')] used_up = [NextHandler, NextHandler]
     \<and> rl_run bucket_api [(301 * 10 ^ 9, Request ''a'')] used_up \<noteq> [NextHandler]"
proof
  show "rl_run bucket_api [(301 * 10 ^ 9, Tick), (301 * 10 ^ 9, Request ''a''), (301 * 10 ^ 9, Request ''a'')] used_up = [NextHandler, NextHandler]"
    using dropped_address_gets_its_burst [OF bkt.token_bucket_axioms, of used_up "301 * 10 ^ 9" "''a''"]
    by (simp add: used_up_def NewIPRateLimiter_def staleAfter_def numeral_2_eq_2 del: rl_run.simps)
  show "rl_run bucket_api [(301 * 10 ^ 9, Request ''a'')] used_up \<noteq> [NextHandler]"
    by (simp add: used_up_def NewIPRateLimiter_def RateLimit_Middleware_def getLimiter_def bucket_api_def bk_at_def earned_def)
qed

end
