(* ===== verification/Authentication.thy ===== *)
theory Authentication
  imports Rate_Limit Current_User
begin

text \<open>
  Who a request of the HTTP interface acts for: the context of a request (\<open>access/context\<close>), the methods of
  authentication (\<open>access/auth\<close>), the chain of those that are configured (\<open>access/middleware\<close>), the limit on
  batches and the order of the handlers (\<open>server.go\<close> of \<open>internal/api/graphql\<close>). The JWT library and the
  OIDC verifier are parameters. An error counts with its text only.
\<close>

section \<open>The context of a request\<close>

datatype gin_value = GinStr string | GinBool bool

text \<open>Whether the request's context holds the gin context; the type of the stored context is always right.\<close>

record gin_context =
  gc_headers :: "string \<Rightarrow> string"
  gc_keys :: "string \<rightharpoonup> gin_value"
  gc_stored :: bool

definition UserNameKey :: string where "UserNameKey = ''username''"
definition authenticationRequiredKey :: string where "authenticationRequiredKey = ''authenticationRequired''"

definition ginContextSet :: "gin_context \<Rightarrow> string \<Rightarrow> gin_value \<Rightarrow> gin_context" where
  "ginContextSet c key v = c\<lparr>gc_keys := (gc_keys c)(key \<mapsto> v), gc_stored := True\<rparr>"

definition ginContextGet :: "gin_context \<Rightarrow> string \<Rightarrow> goerr + string" where
  "ginContextGet c key =
     (if \<not> gc_stored c then Inl (ErrVal ''fmt'' ''could not retrieve gin.Context'')
      else case gc_keys c key of
        None \<Rightarrow> Inl (ErrVal ''fmt'' (''could not find key: '' @ [CHR 0x27] @ key @ [CHR 0x27] @ '' in gin.Context''))
      | Some (GinStr x) \<Rightarrow> Inr x
      | Some (GinBool _) \<Rightarrow> Inl (ErrVal ''fmt'' (''invalid key type: '' @ [CHR 0x27] @ ''bool'' @ [CHR 0x27] @ '', should be string'')))"

definition ginContextGetBool :: "gin_context \<Rightarrow> string \<Rightarrow> bool" where
  "ginContextGetBool c key \<longleftrightarrow> gc_stored c \<and> gc_keys c key = Some (GinBool True)"

definition UserNameToContext :: "gin_context \<Rightarrow> string \<Rightarrow> gin_context" where
  "UserNameToContext c username = ginContextSet c UserNameKey (GinStr username)"

definition UserNameFromContext :: "gin_context \<Rightarrow> goerr + string" where
  "UserNameFromContext c = ginContextGet c UserNameKey"

definition SetAuthenticationRequired :: "gin_context \<Rightarrow> gin_context" where
  "SetAuthenticationRequired c = ginContextSet c authenticationRequiredKey (GinBool True)"

definition IsAuthenticationRequired :: "gin_context \<Rightarrow> bool" where
  "IsAuthenticationRequired c = ginContextGetBool c authenticationRequiredKey"

text \<open>What the application reads of the context (\<open>Current_User\<close>).\<close>

definition app_context_of :: "gin_context \<Rightarrow> app_context" where
  "app_context_of c = \<lparr>ctx_authenticationRequired = IsAuthenticationRequired c, ctx_username = UserNameFromContext c\<rparr>"

section \<open>Methods of authentication\<close>

text \<open>\<open>strings.Split\<close> with a separator that is not empty.\<close>

function strings_Split_from :: "string \<Rightarrow> string \<Rightarrow> string \<Rightarrow> string list" where
  "strings_Split_from sep acc [] = [rev acc]"
| "strings_Split_from sep acc (c # cs) =
     (if is_prefix_of sep (c # cs) then rev acc # strings_Split_from sep [] (drop (length sep - 1) cs)
      else strings_Split_from sep (c # acc) cs)"
  by pat_completeness auto
termination by (relation "measure (\<lambda>(sep, acc, cs). length cs)") auto

definition strings_Split :: "string \<Rightarrow> string \<Rightarrow> string list" where
  "strings_Split x sep = strings_Split_from sep [] x"

definition Bearer :: string where "Bearer = ''Bearer ''"

definition getAuthTokenFromHeader :: "string \<Rightarrow> gin_context \<Rightarrow> (string + string) go" where
  "getAuthTokenFromHeader header c =
     (let authHeader = gc_headers c header
      in if authHeader = [] then Inr (Inl ''no authorization header'')
         else if length authHeader < length Bearer + 1 \<or> \<not> strings_Contains authHeader Bearer
         then Inr (Inl ''invalid authorization header'')
         else let parts = strings_Split authHeader Bearer
           in if 1 < length parts then Inr (Inr (parts ! 1)) else Inl IndexOutOfRange)"

definition verifyError :: "string \<Rightarrow> string \<Rightarrow> string" where
  "verifyError methodName e = methodName @ ''('' @ e @ '')''"

datatype signing_method = SigningMethodHMAC | OtherMethod

record jwt_token =
  tk_valid :: bool
  tk_subject :: string
  tk_expires :: "int option"

text \<open>
  The parser of tokens takes the function that gives the key for a signing method. The verifier of ID tokens
  gives the claims of the token, which may fail to decode; of the claims the subject is used.
\<close>

record auth_env =
  au_jwt :: "(signing_method \<Rightarrow> string + string) \<Rightarrow> string \<Rightarrow> string + jwt_token"
  au_oidc :: "string \<Rightarrow> string + (string + string)"
  au_now :: int

datatype auth_method = TokenAuthMethod string | OidcAuthMethod | NoAuthMethod string string

definition tokenAuthHeader :: string where "tokenAuthHeader = ''X-Service-Authorization''"
definition tokenAuthMethodName :: string where "tokenAuthMethodName = ''TokenAuthMethod''"
definition oidcAuthHeader :: string where "oidcAuthHeader = ''Authorization''"
definition oidcAuthMethodName :: string where "oidcAuthMethodName = ''OidcAuthMethod''"

definition token_parse :: "string \<Rightarrow> signing_method \<Rightarrow> string + string" where
  "token_parse secret m = (case m of SigningMethodHMAC \<Rightarrow> Inr secret | OtherMethod \<Rightarrow> Inl ''invalid JWT parse method'')"

definition parseTokenWithClaims :: "auth_env \<Rightarrow> string \<Rightarrow> string \<Rightarrow> string + jwt_token" where
  "parseTokenWithClaims env secret tokenString =
     (case au_jwt env (token_parse secret) tokenString of
        Inl _ \<Rightarrow> Inl (verifyError tokenAuthMethodName ''token parsing error'')
      | Inr token \<Rightarrow> if tk_valid token then Inr token else Inl (verifyError tokenAuthMethodName ''invalid token''))"

definition verifyTokenExpiration :: "auth_env \<Rightarrow> jwt_token \<Rightarrow> string option" where
  "verifyTokenExpiration env tc =
     (case tk_expires tc of
        None \<Rightarrow> Some (verifyError tokenAuthMethodName ''missing ExpiresAt in token claims'')
      | Some t \<Rightarrow> if t < au_now env then Some (verifyError tokenAuthMethodName ''expired token'') else None)"

text \<open>\<open>Verify\<close>: the text of an error or none, and the context, in which a success stores the name.\<close>

definition TokenAuth_Verify :: "auth_env \<Rightarrow> string \<Rightarrow> gin_context \<Rightarrow> (string option \<times> gin_context) go" where
  "TokenAuth_Verify env secret c = bindR (getAuthTokenFromHeader tokenAuthHeader c) (\<lambda>r. Inr (case r of
       Inl e \<Rightarrow> (Some (verifyError tokenAuthMethodName e), c)
     | Inr tokenString \<Rightarrow> (case parseTokenWithClaims env secret tokenString of
         Inl e \<Rightarrow> (Some e, c)
       | Inr claims \<Rightarrow> (case verifyTokenExpiration env claims of
           Some e \<Rightarrow> (Some e, c)
         | None \<Rightarrow> (None, UserNameToContext c (tk_subject claims))))))"

definition OidcAuth_Verify :: "auth_env \<Rightarrow> gin_context \<Rightarrow> (string option \<times> gin_context) go" where
  "OidcAuth_Verify env c = bindR (getAuthTokenFromHeader oidcAuthHeader c) (\<lambda>r. Inr (case r of
       Inl e \<Rightarrow> (Some (verifyError oidcAuthMethodName e), c)
     | Inr rawToken \<Rightarrow> (case au_oidc env rawToken of
         Inl e \<Rightarrow> (Some (verifyError oidcAuthMethodName e), c)
       | Inr (Inl e) \<Rightarrow> (Some (verifyError oidcAuthMethodName (''failed to parse token claims: '' @ e)), c)
       | Inr (Inr sub) \<Rightarrow> (None, UserNameToContext c sub))))"

definition NoAuth_Verify :: "string \<Rightarrow> string \<Rightarrow> gin_context \<Rightarrow> (string option \<times> gin_context) go" where
  "NoAuth_Verify name msg c = Inr (Some (verifyError name (''auth failed: '' @ msg)), c)"

definition Verify :: "auth_env \<Rightarrow> auth_method \<Rightarrow> gin_context \<Rightarrow> (string option \<times> gin_context) go" where
  "Verify env m = (case m of
     TokenAuthMethod secret \<Rightarrow> TokenAuth_Verify env secret
   | OidcAuthMethod \<Rightarrow> OidcAuth_Verify env
   | NoAuthMethod name msg \<Rightarrow> NoAuth_Verify name msg)"

section \<open>The chain of methods\<close>

record auth_config =
  cfg_AuthTokenSecret :: string
  cfg_AuthOidcUrl :: string

definition NewTokenAuthMethod :: "auth_config \<Rightarrow> auth_method option" where
  "NewTokenAuthMethod cfg = (if cfg_AuthTokenSecret cfg \<noteq> [] then Some (TokenAuthMethod (cfg_AuthTokenSecret cfg)) else None)"

text \<open>The provider of the configured address is asked once, here; the argument is its error, if any.\<close>

definition NewOidcAuthMethod :: "auth_config \<Rightarrow> string option \<Rightarrow> auth_method option" where
  "NewOidcAuthMethod cfg provider_error =
     (if cfg_AuthOidcUrl cfg \<noteq> [] then
        (case provider_error of
           Some e \<Rightarrow> Some (NoAuthMethod oidcAuthMethodName (''Could not initialize OIDC provider: '' @ e))
         | None \<Rightarrow> Some OidcAuthMethod)
      else None)"

definition appendInstance :: "auth_method list \<Rightarrow> auth_method option \<Rightarrow> auth_method list" where
  "appendInstance chain am = (case am of None \<Rightarrow> chain | Some m \<Rightarrow> chain @ [m])"

definition NewAuth :: "auth_config \<Rightarrow> string option \<Rightarrow> auth_method list" where
  "NewAuth cfg provider_error = appendInstance (appendInstance [] (NewTokenAuthMethod cfg)) (NewOidcAuthMethod cfg provider_error)"

fun try_methods :: "auth_env \<Rightarrow> auth_method list \<Rightarrow> string \<Rightarrow> gin_context \<Rightarrow> (http_answer \<times> gin_context) go" where
  "try_methods env [] retMsg c = Inr (Abort 401 [] retMsg, c)"
| "try_methods env (m # ms) retMsg c = bindR (Verify env m c) (\<lambda>(err, c'). case err of
       None \<Rightarrow> Inr (NextHandler, c')
     | Some e \<Rightarrow> try_methods env ms ((if retMsg \<noteq> [] then retMsg @ '', '' else retMsg) @ e) c')"

definition Auth_Middleware :: "auth_env \<Rightarrow> auth_method list \<Rightarrow> gin_context \<Rightarrow> (http_answer \<times> gin_context) go" where
  "Auth_Middleware env chain c =
     (if chain \<noteq> [] then try_methods env chain [] (SetAuthenticationRequired c) else Inr (NextHandler, c))"

section \<open>The endpoints\<close>

text \<open>\<open>None\<close> goes on with the operation. What counts are the selections at the top of it.\<close>

definition BatchLimiter_Middleware :: "int \<Rightarrow> 'a list \<Rightarrow> string option" where
  "BatchLimiter_Middleware batchLimit selections =
     (if batchLimit < int (length selections) then Some ''the limit for sending batches has been exceeded'' else None)"

text \<open>The handlers in the order in which \<open>CreateEndpoints\<close> installs them; the counter of queries only logs.\<close>

definition endpoint ::
  "'l limiter_api \<Rightarrow> auth_env \<Rightarrow> auth_method list \<Rightarrow> string \<Rightarrow> gin_context \<Rightarrow> 'l IPRateLimiter
   \<Rightarrow> (http_answer \<times> gin_context) go \<times> 'l IPRateLimiter" where
  "endpoint api env chain ip c i =
     (case RateLimit_Middleware api (au_now env) ip i of
        (NextHandler, i') \<Rightarrow> (Auth_Middleware env chain c, i')
      | (answer, i') \<Rightarrow> (Inr (answer, c), i'))"

section \<open>What is read of a header\<close>

lemma split_nonempty: "strings_Split_from sep acc cs \<noteq> []"
  by (induction sep acc cs rule: strings_Split_from.induct) auto

lemma split_contains:
  "sep \<noteq> [] \<Longrightarrow> strings_Contains cs sep \<Longrightarrow> 1 < length (strings_Split_from sep acc cs)"
proof (induction sep acc cs rule: strings_Split_from.induct)
  case (2 sep acc c cs)
  have "0 < length (strings_Split_from sep [] (drop (length sep - 1) cs))" using split_nonempty by simp
  with 2 show ?case by auto
qed simp

lemma split_plain: "sep \<noteq> [] \<Longrightarrow> \<not> strings_Contains cs sep \<Longrightarrow> strings_Split_from sep acc cs = [rev acc @ cs]"
  by (induction sep acc cs rule: strings_Split_from.induct) auto

lemma header_read: "\<exists>r. getAuthTokenFromHeader header c = Inr r"
  using split_contains [of Bearer "gc_headers c header" "[]"]
  by (simp add: getAuthTokenFromHeader_def Let_def strings_Split_def Bearer_def)

lemma bearer_token:
  assumes "gc_headers c header = Bearer @ token" "token \<noteq> []" "\<not> strings_Contains token Bearer"
  shows "getAuthTokenFromHeader header c = Inr (Inr token)"
proof -
  have "strings_Split (Bearer @ token) Bearer = [[], token]"
    using split_plain [OF _ assms(3)] by (simp add: strings_Split_def Bearer_def)
  moreover have "strings_Contains (Bearer @ token) Bearer" using strings_Contains_middle [of "[]"] by simp
  ultimately show ?thesis using assms(1,2) by (cases token) (simp_all add: getAuthTokenFromHeader_def Bearer_def)
qed

section \<open>Whom a request acts for\<close>

text \<open>The name under which a method accepts a request: a function of its headers.\<close>

definition verified :: "auth_env \<Rightarrow> gin_context \<Rightarrow> auth_method \<Rightarrow> string option" where
  "verified env c m = (case Verify env m c of
     Inr (None, d) \<Rightarrow> (case UserNameFromContext d of Inr n \<Rightarrow> Some n | Inl _ \<Rightarrow> None) | _ \<Rightarrow> None)"

lemma stored_name: "UserNameFromContext (UserNameToContext c n) = Inr n"
  by (simp add: UserNameFromContext_def UserNameToContext_def ginContextGet_def ginContextSet_def)

lemma Verify_cases:
  "(\<exists>n. Verify env m c = Inr (None, UserNameToContext c n) \<and> verified env c m = Some n) \<or>
   (\<exists>e. Verify env m c = Inr (Some e, c) \<and> verified env c m = None)"
proof (cases m)
  case (TokenAuthMethod secret)
  obtain r where "getAuthTokenFromHeader tokenAuthHeader c = Inr r" using header_read by blast
  then show ?thesis
    by (auto simp: TokenAuthMethod Verify_def verified_def TokenAuth_Verify_def stored_name split: sum.split option.split)
next
  case OidcAuthMethod
  obtain r where "getAuthTokenFromHeader oidcAuthHeader c = Inr r" using header_read by blast
  then show ?thesis
    by (auto simp: OidcAuthMethod Verify_def verified_def OidcAuth_Verify_def stored_name split: sum.split)
qed (simp add: Verify_def verified_def NoAuth_Verify_def)

lemma header_only:
  "gc_headers c = gc_headers d \<Longrightarrow> getAuthTokenFromHeader h c = getAuthTokenFromHeader h d"
  by (simp add: getAuthTokenFromHeader_def)

lemma verified_headers:
  assumes "gc_headers c = gc_headers d"
  shows "verified env c = verified env d"
proof
  fix m
  show "verified env c m = verified env d m"
  proof (cases m)
    case (TokenAuthMethod secret)
    obtain r where r: "getAuthTokenFromHeader tokenAuthHeader d = Inr r" using header_read by blast
    then have "getAuthTokenFromHeader tokenAuthHeader c = Inr r" using header_only [OF assms] by simp
    with r TokenAuthMethod show ?thesis
      by (cases r) (auto simp: Verify_def verified_def TokenAuth_Verify_def stored_name split: sum.split option.split)
  next
    case OidcAuthMethod
    obtain r where r: "getAuthTokenFromHeader oidcAuthHeader d = Inr r" using header_read by blast
    then have "getAuthTokenFromHeader oidcAuthHeader c = Inr r" using header_only [OF assms] by simp
    with r OidcAuthMethod show ?thesis
      by (cases r) (auto simp: Verify_def verified_def OidcAuth_Verify_def stored_name split: sum.split)
  qed (simp add: Verify_def verified_def NoAuth_Verify_def)
qed

lemma try_methods_first:
  "case List.map_filter (verified env c) ms of
     n # _ \<Rightarrow> try_methods env ms msg c = Inr (NextHandler, UserNameToContext c n)
   | [] \<Rightarrow> \<exists>text. try_methods env ms msg c = Inr (Abort 401 [] text, c)"
proof (induction ms arbitrary: msg)
  case (Cons m ms)
  from Verify_cases [of env m c] show ?case
  proof (elim disjE exE conjE)
    fix e assume "Verify env m c = Inr (Some e, c)" "verified env c m = None"
    then show ?thesis using Cons [of "(if msg \<noteq> [] then msg @ '', '' else msg) @ e"]
      by (simp only: map_filter_simps option.case try_methods.simps bindR_simps prod.case)
  qed (simp add: map_filter_simps)
qed (simp add: map_filter_simps)

text \<open>
  C16. When methods of authentication are configured, a request reaches the application only if one of them accepts
  it, and then acts for the user whom the first of them names; otherwise it is answered with 401. When
  none is configured, every request passes and acts for the system user. No header makes the chain panic.
\<close>

theorem requests_act_for_verified_user:
  assumes "gc_keys c = Map.empty"
  shows "case Auth_Middleware env chain c of
      Inl p \<Rightarrow> False
    | Inr (answer, d) \<Rightarrow> let names = List.map_filter (verified env c) chain in
        (answer = NextHandler \<longleftrightarrow> chain = [] \<or> names \<noteq> []) \<and>
        (answer = NextHandler \<longrightarrow> GetCurrentUniqueUserId (app_context_of d) =
           Inr (if chain = [] then systemUserUniqueUserId else hd names)) \<and>
        (answer \<noteq> NextHandler \<longrightarrow> (\<exists>text. answer = Abort 401 [] text))"
proof (cases "chain = []")
  case True
  then show ?thesis using assms
    by (simp add: Auth_Middleware_def GetCurrentUniqueUserId_def app_context_of_def IsAuthenticationRequired_def
        ginContextGetBool_def map_filter_simps)
next
  case False
  let ?c = "SetAuthenticationRequired c"
  have "gc_headers c = gc_headers ?c" by (simp add: SetAuthenticationRequired_def ginContextSet_def)
  then have names: "verified env ?c = verified env c" using verified_headers by metis
  have acts: "GetCurrentUniqueUserId (app_context_of (UserNameToContext ?c n)) = Inr n" for n
    by (simp add: GetCurrentUniqueUserId_def app_context_of_def UserNameFromContext_def ginContextGet_def IsAuthenticationRequired_def ginContextGetBool_def
        UserNameToContext_def SetAuthenticationRequired_def ginContextSet_def authenticationRequiredKey_def UserNameKey_def)
  show ?thesis
    using try_methods_first [where env = env and c = ?c and ms = chain and msg = "[]"] False unfolding names
    by (cases "List.map_filter (verified env c) chain") (auto simp: Auth_Middleware_def acts)
qed

section \<open>Examples\<close>

text \<open>A library that takes a token \<open>name\<close> for a valid one of that name, and a verifier that knows nobody.\<close>

definition example_auth :: auth_env where
  "example_auth =
     \<lparr>au_jwt = (\<lambda>key t. case key SigningMethodHMAC of Inl e \<Rightarrow> Inl e
         | Inr k \<Rightarrow> Inr \<lparr>tk_valid = True, tk_subject = t, tk_expires = Some 10\<rparr>),
      au_oidc = (\<lambda>t. Inl ''unknown''), au_now = 5\<rparr>"

definition example_request :: gin_context where
  "example_request = \<lparr>gc_headers = (\<lambda>h. if h = tokenAuthHeader then ''Bearer I42'' else []), gc_keys = Map.empty, gc_stored = False\<rparr>"

lemma example_names:
  "List.map_filter (verified example_auth example_request) [OidcAuthMethod, TokenAuthMethod ''secret''] = [''I42'']"
  by code_simp

theorem requests_act_for_verified_user_witness:
  "case Auth_Middleware example_auth [OidcAuthMethod, TokenAuthMethod ''secret''] example_request of
     Inr (NextHandler, d) \<Rightarrow> GetCurrentUniqueUserId (app_context_of d) = Inr ''I42'' | _ \<Rightarrow> False"
  using requests_act_for_verified_user [of example_request example_auth "[OidcAuthMethod, TokenAuthMethod ''secret'']"]
  unfolding example_names by (auto simp: example_request_def split: sum.splits http_answer.splits)

end
