(* ===== verification/Spec2Isabelle.thy ===== *)
theory Spec2Isabelle
  imports Pagination Join_Resolver Cache Event_Registry Remediation_Handler Authz_Events Issue_Matching Scanner_Runs Autopatch
    Access_Control Default_Repositories Cursor_Columns Graphql_Updates Graphql_Alerts Batch_Queries Authentication
begin

text \<open>
  Heureka, a vulnerability and remediation tracker (Go, \<open>internal/\<close>): a verification development of
  its own logic.

  \<^bold>\<open>The program.\<close> GraphQL resolvers call the application layer (\<open>internal/app\<close>), one handler per entity.
  A list request fills in the default page, reads the rows through the cache
  (\<open>internal/cache\<close>), computes page information from the cursors of all rows, and pushes an event. A
  change is validated, written to the database (\<open>internal/database/mariadb\<close>, which builds SQL
  text from filter, order, join and cursor descriptions), may invalidate cached queries, and
  pushes an event. The event registry (\<open>internal/app/event\<close>) hands events to subscribed handlers in
  worker goroutines; these create issue matches and keep relation tuples for the
  authorization in OpenFGA (\<open>internal/openfga\<close>). Errors are built by \<open>internal/errors\<close>.

  \<^bold>\<open>Theories and the code they model.\<close>

  \<^item> \<open>Heureka_Base\<close>: what all share: panics as values (\<open>go\<close>), decimal conversion of integers, joins
    and searches in strings, the order in which a map is visited.
  \<^item> \<open>App_Errors\<close>: \<open>internal/errors\<close>. The variadic constructor \<open>E\<close> folds \<open>E_step\<close> over its arguments.
  \<^item> \<open>Entities\<close>: \<open>internal/entity\<close>, the structs as records and the parsers of severities and states.
  \<^item> \<open>Pagination\<close>: \<open>internal/app/common/pagination_helpers.go\<close>. The loop of \<open>GetPages\<close> is a fold over its
    local variables (\<open>pages_state\<close>) and refines the division of the cursors into chunks.
  \<^item> \<open>Order_Cursor\<close>: \<open>order.go\<close> and \<open>cursor.go\<close> of \<open>internal/database/mariadb\<close>: orders, the fields of a cursor,
    the text of the cursor condition and its parameters. The condition's meaning is given by an evaluation
    of the alternatives of its text against a row.
  \<^item> \<open>Filter_Query\<close>: the filter parts of \<open>database.go\<close> and \<open>db_object.go\<close>, the JSON attributes of
    \<open>internal/util/json_encode.go\<close> and the filter of \<open>issue_match.go\<close>.
  \<^item> \<open>Join_Resolver\<close>: \<open>JoinDef\<close> and \<open>JoinResolver\<close> of \<open>db_object.go\<close> and the joins of \<open>issue_match.go\<close>.
  \<^item> \<open>Db_Object\<close>: the rest of \<open>db_object.go\<close>: a table is a record of its properties, filters, joins and
    attributes; the statements of creation, update, deletion and links and every query are built from it.
  \<^item> \<open>Sql_Aliases\<close>: which table names the text of a statement mentions (a scanner for names before a point
    outside quotes) and when they are all joined; the locale \<open>join_set\<close> proves it once for a set of joins.
  \<^item> \<open>Table_Objects\<close>, \<open>Issue_Object\<close>: the tables of \<open>internal/database/mariadb\<close>, one group of definitions per
    file, each an instance of \<open>join_set\<close>; issues and components have conditional joins and their own theory.
  \<^item> \<open>Sql_Database\<close>: the methods of \<open>SqlDatabase\<close> (\<open>Sql\<close> before their names) and what they do to
    rows, under the documented behaviour of INSERT and UPDATE (\<open>row_laws\<close>).
  \<^item> \<open>Row_Types\<close>: \<open>entity.go\<close> of \<open>internal/database/mariadb\<close> and the functions \<open>RowToData\<close> of the tables: row
    structs and their columns, entities and cursors of rows.
  \<^item> \<open>Cursor_Columns\<close>: no code of its own: cursors made of rows against the columns they are compared with.
  \<^item> \<open>Cache_Key\<close>, \<open>Cache\<close>: \<open>internal/cache\<close>: key encodings; the stores, invalidation, \<open>CallCached\<close> and the
    limits on background refreshes. The locale \<open>cache_store\<close> is what callers rely on; \<open>gocache\<close> states the
    documented behaviour of the third-party map and gives \<open>cache_store\<close> for the in-memory cache.
  \<^item> \<open>Event_Registry\<close>: \<open>event_registry.go\<close> as a labelled step relation (\<open>reg_step\<close>): pushing, growing the
    channel, drain goroutines, workers between reading \<open>er.ch\<close> and receiving, and cancellation.
  \<^item> \<open>App_Events\<close>: the events with subscribers and their names.
  \<^item> \<open>Authz\<close>, \<open>Authz_Events\<close>: \<open>internal/openfga\<close>, \<open>filter_helpers.go\<close> and the handlers that keep relation tuples.
    The locales \<open>authorization\<close> and \<open>relation_store\<close> state the interface's contract; the former holds
    for \<open>NoAuthz\<close> and for \<open>Authz\<close> over a store of tuples, the latter for \<open>Authz\<close>.
  \<^item> \<open>Current_User\<close>: \<open>internal/app/common/user_id.go\<close>.
  \<^item> \<open>Issue_Matching\<close>: \<open>internal/app/shared\<close> and the handlers that create issue matches, over the locale
    \<open>match_table\<close> of what they need of the database.
  \<^item> \<open>Remediation_Handler\<close>: \<open>internal/app/remediation\<close>, with its use of the cache, the page information,
    the errors and the events of the theories above; locale \<open>remediation_table\<close>.
  \<^item> \<open>Handler_Base\<close>: what the other handlers of \<open>internal/app\<close> share: a handler takes a state (database,
    authorization store, cache, pushed events) to a result or a fault and a new state; cached
    calls, the current user, permission checks, restriction to accessible ids, the end of a list.
    The queries of an entity (\<open>internal/database/interface.go\<close>) are the record \<open>entity_db\<close>.
  \<^item> \<open>Service_Handler\<close>, \<open>Group_User_Handlers\<close>, \<open>Component_Handlers\<close>, \<open>Issue_Handlers\<close>, \<open>Severity_Handlers\<close>: the
    handlers of services; of support groups and users; of components, versions and instances; of
    issues; of issue repositories, variants, severities, matches and patches. The locale \<open>max_by\<close> is the
    documented contract of \<open>lo.MaxBy\<close>.
  \<^item> \<open>Access_Control\<close>: handlers, the events they push and the authorization handlers together.
  \<^item> \<open>Default_Repositories\<close>: \<open>OnServiceCreate\<close> and \<open>OnIssueRepositoryCreate\<close>, over the locale \<open>repository_links\<close>.
  \<^item> \<open>Autopatch\<close>, \<open>Scanner_Runs\<close>: \<open>autopatch.go\<close> and \<open>scanner_run.go\<close> of \<open>internal/database/mariadb\<close> over tables as
    lists, the handler of scanner runs and the resolver that lists them.
  \<^item> \<open>Graphql_Model\<close>, \<open>Graphql_Mutations\<close>: \<open>graph/model\<close> and \<open>resolver/mutation.go\<close> with its helpers, in
    \<open>internal/api/graphql\<close>: inputs, enumerations, entities of inputs, nodes of answers, and every mutation.
    The application is a record of its operations (\<open>Heureka\<close>).
  \<^item> \<open>Graphql_Updates\<close>, \<open>Graphql_Alerts\<close>: no code of their own: updates from the input down to the row, the
    errors of mutations, and the alerts of a SIEM with the events and relation tuples they lead to.
  \<^item> \<open>Graphql_Queries\<close>, \<open>Graphql_Batches\<close>, \<open>Graphql_Fields\<close>: \<open>graph/baseResolver\<close> and the fields of nodes in
    \<open>graph/resolver\<close>: lists, single nodes, values of filters, counts, what lists load for all their nodes
    at once, and the errors that clients see. The operations that queries call are a record (\<open>Queries\<close>).
  \<^item> \<open>Batch_Queries\<close>: \<open>service_batch.go\<close>, \<open>image_batch.go\<close>, \<open>vulnerability_batch.go\<close> and \<open>mv_vulnerabilities.go\<close> of
    \<open>internal/database/mariadb\<close>: the statements behind those loads and the counts of severities. The server and the
    query builder are a record (\<open>sql_server\<close>).
  \<^item> \<open>Rate_Limit\<close>: \<open>middleware/rate_limit.go\<close>; the locale \<open>token_bucket\<close> is the documented limiter of
    \<open>golang.org/x/time/rate\<close>.
  \<^item> \<open>Authentication\<close>: \<open>access\<close> (contexts, methods, chain), \<open>middleware/batch_limit.go\<close> and \<open>server.go\<close>.

  \<^bold>\<open>What is shown.\<close>

  \<^item> Paging: following cursors returns every row of a strictly ordered table once and in order; the
    condition is the lexicographic comparison; page numbers and the neighbours of a page are right.
    Rows that tie are skipped, and without brackets the condition escapes the filters. A cursor is made of the
    order columns of its row; rows without counts are on no page but the first, and ratings, which
    are an enumeration of the server, are paged wrongly in descending order.
  \<^item> Queries: placeholders and parameters agree in every part of a filter, deleted rows are excluded by
    default, and joins come in an order that respects their dependencies and cover the
    tables that filter and order mention. JSON keys break the agreement. Lists, counts, ids and values of
    all tables are built without a panic and name only tables they have joined, except lists of
    components ordered by counts and lists of issues under exactly stated conditions.
  \<^item> Rows: what is created is read back, up to what a table does not keep; an update writes what it carries and keeps the rest, a deletion keeps the row, a link that exists
    counts as added.
  \<^item> Cache: a stored value is served until it expires; invalidation removes exactly what matches, or
    fails under a digest; denied refreshes exhaust the semaphore.
  \<^item> Events: none is lost or duplicated, pushes succeed before cancellation and panic after it, the
    handler of an event's type runs and no other; a replaced channel can strand all workers.
  \<^item> Authorization: adding and removing are inverse, deletions revoke exactly the entity's tuples while they fit
    a page, an update moves a relation, accessible ids restrict filters.
  \<^item> Issue matches: attaching a version completes the matches without duplicates; creating an
    instance stops at the first existing match; the chosen variant is the best one where
    priority and score agree, and depends on the row order where they do not.
  \<^item> Remediations: when creation succeeds, that it keeps an open remediation alone in its group, and
    that an update answers with the cached row.
  \<^item> Handlers: everything that lists or reads leaves database and authorization store alone; lists show
    only what is accessible; the permission for a change is checked after it took effect, so a
    caller without permission can become owner or member; a deletion revokes access through its
    event; which component instances are accepted; the severity of a match is the highest among the
    effective variants of the first page, and its absence a panic; which services and repositories
    get linked.
  \<^item> Automatic patches: which patches and deletions follow from two runs, what a failed attempt loses, and that one
    unused version detaches the issues of all. Runs: their lifecycle, the grouping of their filter and their pages.
  \<^item> Mutations: that inputs become entities that fit their columns, what an update writes and what it resets, that
    errors carry nothing of the application's, and that an alert links the wrong rows.
  \<^item> Fields: loaded and asked fields agree, loading that fails leaves the list intact, the fields of a service stay
    below it, while a filter by instances replaces the parent and the counts of no versions are those of all. A batch answers
    like a statement for each id; vulnerabilities of a service cannot be listed with their counts, and which
    filters name a column that their table of counts lacks is stated exactly.
  \<^item> Requests: the limits of addresses refine limiters that are never dropped as long as rates fill a bucket in
    time; a request acts for the user whom the first accepting method names.
  \<^item> Errors: how \<open>E\<close> assigns its strings and what \<open>InternalError\<close> hides.

  \<^bold>\<open>Numbers and bounds.\<close> Ids and times are integers: the code neither computes with ids nor with times
  near the bounds of their types; the row limit is reduced modulo 2^64 as the code's conversion does.
  Scores are rationals. Times are nanoseconds, days have 24 hours (UTC).
  \<open>require\<close> of the join resolver takes fuel because the code recurses without a bound: for acyclic
  definitions fuel above their depth is proved to give a result, and the joins of
  issue matches need 4. Channel k of the registry has 1024 * 2^k places.

  \<^bold>\<open>Parameters.\<close> Code outside the repository is an argument of the definitions: how squirrel joins the parts of
  WHERE, go-cache and the valkey client, the digests, the JSON codecs of cached values, the
  CVSS decoder, the OpenFGA client, and the database as a set of queries. Each has an instance with its
  documented behaviour in the theory that uses it (an association list with expiration times, a list
  of tuples with a page size, tables as lists). The parser of URLs and the current time are
  arguments too.

  \<^bold>\<open>Not modelled.\<close> Executing SQL and scanning rows, migrations, the procedures that refresh the tables of counts, connection handling, the HTTP
  server, the resolvers that only pass a query or the values of a filter on, the parent of a component instance (its id may
  be a nil pointer inside a list, which the lists of ids of the filters do not have), configuration,
  logging, the scanners, which are programs of their own that copy what other services report, and the user interface.
\<close>

end
